(* ===== verification/AVP_Prelude.thy ===== *)
theory AVP_Prelude
  imports Main
begin

text \<open>
  Shared vocabulary of the development: fallible results as sums, state-passing actions that may
  raise (a Python method that mutates objects and then raises leaves its mutations behind, so the
  new state is returned with the error as well), the rules that carry invariants and "only grows"
  relations through such actions, and generic lemmas on lists and maps.
\<close>

named_theorems result_simps \<open>unfolding of the result combinators\<close>
named_theorems action_simps \<open>unfolding of the action combinators\<close>

section \<open>Fallible results\<close>

type_synonym ('e, 'a) result = "'e + 'a"

definition res_bind :: "('e, 'a) result \<Rightarrow> ('a \<Rightarrow> ('e, 'b) result) \<Rightarrow> ('e, 'b) result" where
  [result_simps]: "res_bind r f = (case r of Inl e \<Rightarrow> Inl e | Inr a \<Rightarrow> f a)"

text \<open>The statement \<open>if cond: raise exc\<close>.\<close>

definition raise_if :: "bool \<Rightarrow> 'e \<Rightarrow> ('e, unit) result" where
  [result_simps]: "raise_if b e = (if b then Inl e else Inr ())"

definition is_ok :: "('e, 'a) result \<Rightarrow> bool" where
  [result_simps]: "is_ok r = (case r of Inl _ \<Rightarrow> False | Inr _ \<Rightarrow> True)"

text \<open>A loop \<open>for x in xs: check(x)\<close> whose body may raise: the first error ends it.\<close>

fun check_each :: "('a \<Rightarrow> ('e, unit) result) \<Rightarrow> 'a list \<Rightarrow> ('e, unit) result" where
  "check_each f [] = Inr ()"
| "check_each f (x # xs) = (case f x of Inl e \<Rightarrow> Inl e | Inr _ \<Rightarrow> check_each f xs)"

text \<open>The list comprehension \<open>[f(x) for x in xs]\<close> with a body that may raise.\<close>

fun map_each :: "('a \<Rightarrow> ('e, 'b) result) \<Rightarrow> 'a list \<Rightarrow> ('e, 'b list) result" where
  "map_each f [] = Inr []"
| "map_each f (x # xs) =
     (case f x of
        Inl e \<Rightarrow> Inl e
      | Inr y \<Rightarrow> (case map_each f xs of Inl e \<Rightarrow> Inl e | Inr ys \<Rightarrow> Inr (y # ys)))"

lemma check_each_ok [simp]: "check_each f xs = Inr u \<longleftrightarrow> (\<forall>x \<in> set xs. f x = Inr ())"
  by (induction xs) (auto split: sum.splits)

lemma map_each_okD: "map_each f xs = Inr ys \<Longrightarrow> list_all2 (\<lambda>x y. f x = Inr y) xs ys"
  by (induction xs arbitrary: ys) (auto split: sum.splits)

lemma map_each_cong_ok: "(\<And>x. x \<in> set xs \<Longrightarrow> f x = Inr (g x)) \<Longrightarrow> map_each f xs = Inr (map g xs)"
  by (induction xs) auto

lemma raise_if_ok [simp]: "raise_if b e = Inr u \<longleftrightarrow> \<not> b"
  by (simp add: raise_if_def)

lemma raise_if_err [simp]: "raise_if b e = Inl e' \<longleftrightarrow> b \<and> e' = e"
  by (auto simp: raise_if_def)

lemma res_bind_ok [simp]: "res_bind r f = Inr b \<longleftrightarrow> (\<exists>a. r = Inr a \<and> f a = Inr b)"
  by (cases r) (auto simp: res_bind_def)

lemma res_bind_err: "res_bind r f = Inl e \<longleftrightarrow> r = Inl e \<or> (\<exists>a. r = Inr a \<and> f a = Inl e)"
  by (cases r) (auto simp: res_bind_def)

lemma is_okE: "is_ok r \<Longrightarrow> (\<And>a. r = Inr a \<Longrightarrow> thesis) \<Longrightarrow> thesis"
  by (cases r) (auto simp: is_ok_def)

section \<open>Actions: state passing with errors\<close>

type_synonym ('s, 'e, 'a) action = "'s \<Rightarrow> ('e + 'a) \<times> 's"

definition act_return :: "'a \<Rightarrow> ('s, 'e, 'a) action" where
  [action_simps]: "act_return a s = (Inr a, s)"

definition act_raise :: "'e \<Rightarrow> ('s, 'e, 'a) action" where
  [action_simps]: "act_raise e s = (Inl e, s)"

definition act_of :: "('e + 'a) \<Rightarrow> ('s, 'e, 'a) action" where
  [action_simps]: "act_of r s = (r, s)"

definition act_read :: "('s \<Rightarrow> 'e + 'a) \<Rightarrow> ('s, 'e, 'a) action" where
  [action_simps]: "act_read f s = (f s, s)"

definition act_get :: "('s \<Rightarrow> 'a) \<Rightarrow> ('s, 'e, 'a) action" where
  [action_simps]: "act_get f s = (Inr (f s), s)"

definition act_modify :: "('s \<Rightarrow> 's) \<Rightarrow> ('s, 'e, unit) action" where
  [action_simps]: "act_modify f s = (Inr (), f s)"

definition act_bind :: "('s, 'e, 'a) action \<Rightarrow> ('a \<Rightarrow> ('s, 'e, 'b) action) \<Rightarrow> ('s, 'e, 'b) action" where
  [action_simps]: "act_bind m f s = (case m s of (Inl e, s') \<Rightarrow> (Inl e, s') | (Inr a, s') \<Rightarrow> f a s')"

text \<open>\<open>act_seq\<close> is statement sequencing; \<open>act_try\<close> is \<open>try: m except e: h e\<close>, with the state as the
  body left it.\<close>

definition act_seq :: "('s, 'e, unit) action \<Rightarrow> ('s, 'e, 'b) action \<Rightarrow> ('s, 'e, 'b) action" where
  [action_simps]: "act_seq m n = act_bind m (\<lambda>_. n)"

definition act_try :: "('s, 'e, 'a) action \<Rightarrow> ('e \<Rightarrow> ('s, 'e, 'a) action) \<Rightarrow> ('s, 'e, 'a) action" where
  [action_simps]: "act_try m h s = (case m s of (Inl e, s') \<Rightarrow> h e s' | (Inr a, s') \<Rightarrow> (Inr a, s'))"

text \<open>A \<open>try\<close> whose handler returns from the caller: the outcome of the body as a value.\<close>

definition act_attempt :: "('s, 'e, 'a) action \<Rightarrow> ('s, 'e, 'e + 'a) action" where
  [action_simps]: "act_attempt m s = (case m s of (r, s') \<Rightarrow> (Inr r, s'))"

text \<open>An action on a part of the state.\<close>

definition act_zoom :: "('s \<Rightarrow> 't) \<Rightarrow> (('t \<Rightarrow> 't) \<Rightarrow> 's \<Rightarrow> 's) \<Rightarrow> ('t, 'e, 'a) action \<Rightarrow> ('s, 'e, 'a) action" where
  [action_simps]: "act_zoom get put m s = (case m (get s) of (r, t) \<Rightarrow> (r, put (\<lambda>_. t) s))"

definition act_when :: "bool \<Rightarrow> ('s, 'e, unit) action \<Rightarrow> ('s, 'e, unit) action" where
  [action_simps]: "act_when b m = (if b then m else act_return ())"

fun act_each :: "('a \<Rightarrow> ('s, 'e, unit) action) \<Rightarrow> 'a list \<Rightarrow> ('s, 'e, unit) action" where
  "act_each f [] = act_return ()"
| "act_each f (x # xs) = act_bind (f x) (\<lambda>_. act_each f xs)"

text \<open>Reading off the steps of a run that returned.\<close>

lemma act_bind_okE:
  assumes "act_bind m f s = (Inr b, s')"
  obtains a t where "m s = (Inr a, t)" "f a t = (Inr b, s')"
  using assms by (auto simp: act_bind_def split: prod.splits sum.splits)

lemma act_attempt_okE:
  assumes "act_bind (act_attempt m) f s = (Inr b, s')"
  obtains r t where "m s = (r, t)" "f r t = (Inr b, s')"
  using assms by (cases "m s") (auto simp: act_bind_def act_attempt_def)

lemma act_of_ok [simp]: "act_of r s = (Inr a, t) \<longleftrightarrow> r = Inr a \<and> t = s"
  by (auto simp: act_of_def)

lemma act_read_ok [simp]: "act_read f s = (Inr a, t) \<longleftrightarrow> f s = Inr a \<and> t = s"
  by (auto simp: act_read_def)

lemma act_get_ok [simp]: "act_get f s = (Inr a, t) \<longleftrightarrow> a = f s \<and> t = s"
  by (auto simp: act_get_def)

lemma act_modify_ok [simp]: "act_modify f s = (Inr u, t) \<longleftrightarrow> t = f s"
  by (auto simp: act_modify_def)

lemma act_return_ok [simp]: "act_return x s = (Inr a, t) \<longleftrightarrow> a = x \<and> t = s"
  by (auto simp: act_return_def)

lemma act_raise_ok [simp]: "act_raise e s = (Inr a, t) \<longleftrightarrow> False"
  by (simp add: act_raise_def)

section \<open>Relations kept by actions\<close>

text \<open>
  Many guarantees of the program are about how a state may change: the event log only grows, a
  stored object keeps its bytes, a terminal Episode stays where it is. Such a guarantee is a
  reflexive and transitive relation between an earlier and a later state. The locale proves once
  that every action built from combinators respects the relation when its pieces do; an invariant
  is the special case "if it held before, it holds after".
\<close>

definition evolves :: "('s \<Rightarrow> 's \<Rightarrow> bool) \<Rightarrow> ('s, 'e, 'a) action \<Rightarrow> bool" where
  "evolves R m \<longleftrightarrow> (\<forall>s. R s (snd (m s)))"

lemma evolvesI: "(\<And>s r s'. m s = (r, s') \<Longrightarrow> R s s') \<Longrightarrow> evolves R m"
  unfolding evolves_def by (metis prod.collapse)

lemma evolvesD: "evolves R m \<Longrightarrow> m s = (r, s') \<Longrightarrow> R s s'"
  by (metis evolves_def snd_conv)

lemma evolves_at: "evolves R m \<Longrightarrow> R s (snd (m s))"
  by (simp add: evolves_def)

lemma evolves_modify: "(\<And>s. R s (f s)) \<Longrightarrow> evolves R (act_modify f)"
  by (simp add: evolves_def act_modify_def)

locale evolution =
  fixes R :: "'s \<Rightarrow> 's \<Rightarrow> bool"
  assumes refl: "R s s"
    and trans: "R s t \<Longrightarrow> R t u \<Longrightarrow> R s u"
begin

lemma return: "evolves R (act_return a)"
  by (simp add: evolves_def act_return_def refl)

lemma raise_act: "evolves R (act_raise e)"
  by (simp add: evolves_def act_raise_def refl)

lemma of_result: "evolves R (act_of r)"
  by (simp add: evolves_def act_of_def refl)

lemma read: "evolves R (act_read f)"
  by (simp add: evolves_def act_read_def refl)

lemma get: "evolves R (act_get f)"
  by (simp add: evolves_def act_get_def refl)

lemma bind:
  assumes m: "evolves R m" and f: "\<And>a. evolves R (f a)"
  shows "evolves R (act_bind m f)"
proof (rule evolvesI)
  fix s r s'
  assume run: "act_bind m f s = (r, s')"
  obtain x t where step: "m s = (x, t)" by (cases "m s")
  from m step have "R s t" by (rule evolvesD)
  with run step f show "R s s'"
    by (cases x) (auto simp: act_bind_def dest: evolvesD intro: trans)
qed

lemma seq: "evolves R m \<Longrightarrow> evolves R n \<Longrightarrow> evolves R (act_seq m n)"
  by (simp add: act_seq_def bind)

lemma try_act:
  assumes m: "evolves R m" and h: "\<And>e. evolves R (h e)"
  shows "evolves R (act_try m h)"
proof (rule evolvesI)
  fix s r s'
  assume run: "act_try m h s = (r, s')"
  obtain x t where step: "m s = (x, t)" by (cases "m s")
  from m step have "R s t" by (rule evolvesD)
  with run step h show "R s s'"
    by (cases x) (auto simp: act_try_def dest: evolvesD intro: trans)
qed

lemma attempt: "evolves R m \<Longrightarrow> evolves R (act_attempt m)"
  by (rule evolvesI) (auto simp: act_attempt_def dest: evolvesD split: prod.splits)

lemma zoom:
  assumes m: "evolves Q m" and put: "\<And>s t. Q (get s) t \<Longrightarrow> R s (put (\<lambda>_. t) s)"
  shows "evolves R (act_zoom get put m)"
proof (rule evolvesI)
  fix s r s' assume "act_zoom get put m s = (r, s')"
  then obtain t where "m (get s) = (r, t)" "s' = put (\<lambda>_. t) s"
    by (auto simp: act_zoom_def split: prod.splits)
  with evolvesD [OF m] put show "R s s'" by blast
qed

lemma when_act: "evolves R m \<Longrightarrow> evolves R (act_when b m)"
  by (simp add: act_when_def return)

lemma each: "(\<And>x. evolves R (f x)) \<Longrightarrow> evolves R (act_each f xs)"
  by (induction xs) (auto intro: return bind)

lemma cond: "evolves R m \<Longrightarrow> evolves R n \<Longrightarrow> evolves R (if b then m else n)"
  by simp

lemma case_opt: "evolves R m \<Longrightarrow> (\<And>x. evolves R (f x)) \<Longrightarrow> evolves R (case x of None \<Rightarrow> m | Some y \<Rightarrow> f y)"
  by (cases x) simp_all

lemma case_res: "(\<And>e. evolves R (h e)) \<Longrightarrow> (\<And>a. evolves R (f a)) \<Longrightarrow>
    evolves R (case r of Inl e \<Rightarrow> h e | Inr a \<Rightarrow> f a)"
  by (cases r) simp_all

lemma case_pair: "(\<And>x y. evolves R (f x y)) \<Longrightarrow> evolves R (case p of (x, y) \<Rightarrow> f x y)"
  by (cases p) simp

text \<open>A continuation that receives the outcome as a value.\<close>

lemma continue:
  assumes "evolves R m" "\<And>r. evolves R (f r)"
  shows "evolves R (\<lambda>s. case m s of (r, s') \<Rightarrow> f r s')"
proof (rule evolvesI)
  fix s x u assume run: "(case m s of (r, s') \<Rightarrow> f r s') = (x, u)"
  obtain r t where "m s = (r, t)" by (cases "m s")
  with run assms show "R s u" by (auto dest: evolvesD intro: trans)
qed

text \<open>At one state, where the result of the first action is known.\<close>

lemma bind_at:
  assumes "R s (snd (m s))" "\<And>a s1. m s = (Inr a, s1) \<Longrightarrow> R s1 (snd (f a s1))"
  shows "R s (snd (act_bind m f s))"
proof -
  obtain x t where step: "m s = (x, t)" by (cases "m s")
  with assms show ?thesis by (cases x) (auto simp: act_bind_def intro: trans)
qed

lemma attempt_at:
  assumes "R s (snd (m s))" "\<And>r s1. m s = (r, s1) \<Longrightarrow> R s1 (snd (f r s1))"
  shows "R s (snd (act_bind (act_attempt m) f s))"
  using assms by (cases "m s") (auto simp: act_bind_def act_attempt_def intro: trans)

lemmas rules = cond case_opt case_res case_pair return raise_act of_result read get bind seq try_act attempt when_act each

end

text \<open>An invariant as such a relation.\<close>

definition keeping :: "('s \<Rightarrow> bool) \<Rightarrow> 's \<Rightarrow> 's \<Rightarrow> bool" where
  "keeping I s t \<longleftrightarrow> (I s \<longrightarrow> I t)"

interpretation keeping: evolution "keeping I" for I
  by unfold_locales (auto simp: keeping_def)

section \<open>Lists and maps\<close>

text \<open>The value of a keyed list under Python's \<open>dict(pairs)\<close> is the last one of the key.\<close>

lemma prefix_nth_append: "n < length xs \<Longrightarrow> (xs @ ys) ! n = xs ! n"
  by (simp add: nth_append)

lemma distinct_map_filter: "distinct (map f xs) \<Longrightarrow> distinct (map f (filter P xs))"
  by (induction xs) auto

lemma find_Some_set: "List.find P xs = Some x \<Longrightarrow> x \<in> set xs \<and> P x"
  by (induction xs) (auto split: if_splits)

lemma find_append: "List.find P (xs @ ys) = (case List.find P xs of None \<Rightarrow> List.find P ys | Some x \<Rightarrow> Some x)"
  by (induction xs) auto

text \<open>\<open>dict.fromkeys(xs)\<close>: first occurrences, in order.\<close>

fun dedupe :: "'a list \<Rightarrow> 'a list" where
  "dedupe [] = []"
| "dedupe (x # xs) = x # filter (\<lambda>y. y \<noteq> x) (dedupe xs)"

lemma set_dedupe [simp]: "set (dedupe xs) = set xs"
  by (induction xs) auto

lemma distinct_dedupe [simp]: "distinct (dedupe xs)"
  by (induction xs) auto

lemma dedupe_distinct: "distinct xs \<Longrightarrow> dedupe xs = xs"
  by (induction xs) (auto simp: filter_id_conv)

end
