(* ===== verification/AVP_Text.thy ===== *)
theory AVP_Text
  imports AVP_Prelude "HOL-Library.Word" "HOL-Library.List_Lexorder" "HOL-Library.Char_ord"
    "HOL-Library.Sublist"
begin

text \<open>
  The part of Python's standard library the program computes with: \<open>str\<close> predicates and
  formatting, UTF-8, JSON values with \<open>json.dumps\<close> in the canonical form of
  \<^verbatim>\<open>avp_ref/canonical.py\<close>, SHA-256 (FIPS 180-4) and the \<open>sha256:<hex>\<close> identities. A \<open>str\<close> is a
  list of code points below 256 (an Isabelle \<open>char\<close>), \<open>bytes\<close> a list of \<open>8 word\<close>, a finite float
  the sign, digits and exponent of its shortest decimal representation.
\<close>

section \<open>Strings\<close>

type_synonym bytes = "8 word list"

definition is_digit :: "char \<Rightarrow> bool" where
  "is_digit c \<longleftrightarrow> 48 \<le> (of_char c :: nat) \<and> (of_char c :: nat) \<le> 57"

definition is_upper_ascii :: "char \<Rightarrow> bool" where
  "is_upper_ascii c \<longleftrightarrow> 65 \<le> (of_char c :: nat) \<and> (of_char c :: nat) \<le> 90"

definition is_lower_ascii :: "char \<Rightarrow> bool" where
  "is_lower_ascii c \<longleftrightarrow> 97 \<le> (of_char c :: nat) \<and> (of_char c :: nat) \<le> 122"

definition is_alnum_ascii :: "char \<Rightarrow> bool" where
  "is_alnum_ascii c \<longleftrightarrow> is_digit c \<or> is_upper_ascii c \<or> is_lower_ascii c"

definition is_lower_hex :: "char \<Rightarrow> bool" where
  "is_lower_hex c \<longleftrightarrow> is_digit c \<or> 97 \<le> (of_char c :: nat) \<and> (of_char c :: nat) \<le> 102"

text \<open>\<open>str.isspace\<close> below 256: tab to CR, the separators 28 to 31, space, NEL and NBSP.\<close>

definition is_space :: "char \<Rightarrow> bool" where
  "is_space c \<longleftrightarrow> (let n = (of_char c :: nat) in
     9 \<le> n \<and> n \<le> 13 \<or> 28 \<le> n \<and> n \<le> 32 \<or> n = 133 \<or> n = 160)"

definition lower_char :: "char \<Rightarrow> char" where
  "lower_char c = (let n = (of_char c :: nat) in
     if 65 \<le> n \<and> n \<le> 90 \<or> 192 \<le> n \<and> n \<le> 222 \<and> n \<noteq> 215 then char_of (n + 32) else c)"

definition lower :: "string \<Rightarrow> string" where
  "lower s = map lower_char s"

fun join :: "string \<Rightarrow> string list \<Rightarrow> string" where
  "join sep [] = []"
| "join sep [x] = x"
| "join sep (x # y # ys) = x @ sep @ join sep (y # ys)"

text \<open>\<open>s.rsplit("/", 1)[-1]\<close>: what follows the last slash, or all of \<open>s\<close>.\<close>

definition after_last_slash :: "string \<Rightarrow> string" where
  "after_last_slash s = rev (takeWhile (\<lambda>c. c \<noteq> CHR ''/'') (rev s))"

definition digit_char :: "nat \<Rightarrow> char" where
  "digit_char d = char_of (48 + d)"

fun string_of_nat :: "nat \<Rightarrow> string" where
  "string_of_nat n = (if n < 10 then [digit_char n] else string_of_nat (n div 10) @ [digit_char (n mod 10)])"

declare string_of_nat.simps [simp del]

lemma string_of_nat_value: "foldl (\<lambda>a c. a * 10 + (of_char c - 48)) 0 (string_of_nat n) = n"
  by (induction n rule: string_of_nat.induct) (subst string_of_nat.simps, simp add: digit_char_def)

lemma string_of_nat_inject [simp]: "string_of_nat m = string_of_nat n \<longleftrightarrow> m = n"
  by (metis string_of_nat_value)

definition string_of_int :: "int \<Rightarrow> string" where
  "string_of_int i = (if i < 0 then CHR ''-'' # string_of_nat (nat (- i)) else string_of_nat (nat i))"

text \<open>The format \<open>{n:04d}\<close>.\<close>

definition pad4 :: "nat \<Rightarrow> string" where
  "pad4 n = (let s = string_of_nat n in replicate (4 - length s) CHR ''0'' @ s)"

definition hex_digit :: "nat \<Rightarrow> char" where
  "hex_digit d = (if d < 10 then char_of (48 + d) else char_of (87 + d))"

definition hex_byte :: "8 word \<Rightarrow> string" where
  "hex_byte b = [hex_digit (unat b div 16), hex_digit (unat b mod 16)]"

definition hexdigest :: "bytes \<Rightarrow> string" where
  "hexdigest bs = concat (map hex_byte bs)"

text \<open>\<open>str.encode("utf-8")\<close> on code points below 256.\<close>

definition utf8_char :: "char \<Rightarrow> bytes" where
  "utf8_char c = (let n = (of_char c :: nat) in
     if n < 128 then [of_nat n] else [of_nat (192 + n div 64), of_nat (128 + n mod 64)])"

definition utf8 :: "string \<Rightarrow> bytes" where
  "utf8 s = concat (map utf8_char s)"

section \<open>JSON values and canonical text\<close>

datatype pyfloat = PyFloat (float_neg: bool) (float_digits: nat) (float_exp: int)

datatype json = JNull | JBool bool | JInt int | JFloat pyfloat | JStr string
  | JList "json list" | JObj "(string \<times> json) list"

text \<open>\<open>float(i)\<close> raises \<open>OverflowError\<close> where rounding to 53 bits would reach \<open>2 ** 1024\<close>.\<close>

definition float_overflow :: "int \<Rightarrow> bool" where
  "float_overflow i \<longleftrightarrow> 2 ^ 1024 - 2 ^ 970 \<le> \<bar>i\<bar>"

text \<open>\<open>float.__repr__\<close>: digits with a point when the decimal point lies within 16 places (or at
  most 3 zeros follow it), an exponent of at least two digits otherwise.\<close>

definition float_repr :: "pyfloat \<Rightarrow> string" where
  "float_repr f = (let ds = string_of_nat (float_digits f); k = int (length ds);
      point = k + float_exp f; sign = (if float_neg f then ''-'' else '''')
    in sign @
      (if float_digits f = 0 then ''0.0''
       else if point \<le> - 4 \<or> 16 < point then
         (let x = point - 1; m = string_of_nat (nat \<bar>x\<bar>) in
            take 1 ds @ (if k = 1 then '''' else CHR ''.'' # drop 1 ds) @ ''e'' @
            (if x < 0 then ''-'' else ''+'') @ (if length m = 1 then CHR ''0'' # m else m))
       else if point \<le> 0 then ''0.'' @ replicate (nat (- point)) CHR ''0'' @ ds
       else if k \<le> point then ds @ replicate (nat (point - k)) CHR ''0'' @ ''.0''
       else take (nat point) ds @ CHR ''.'' # drop (nat point) ds))"

text \<open>String escapes of \<open>json.dumps(ensure_ascii=False)\<close>.\<close>

definition json_escape :: "char \<Rightarrow> string" where
  "json_escape c = (let n = (of_char c :: nat) in
     if n = 34 then [char_of (92::nat), c] else if n = 92 then [c, c]
     else if n = 10 then char_of (92::nat) # ''n'' else if n = 13 then char_of (92::nat) # ''r''
     else if n = 9 then char_of (92::nat) # ''t'' else if n = 8 then char_of (92::nat) # ''b''
     else if n = 12 then char_of (92::nat) # ''f''
     else if n < 32 then char_of (92::nat) # ''u00'' @ [hex_digit (n div 16), hex_digit (n mod 16)]
     else [c])"

definition json_quote :: "string \<Rightarrow> string" where
  "json_quote s = char_of (34::nat) # concat (map json_escape s) @ [char_of (34::nat)]"

text \<open>\<open>canonical_json\<close>: members sorted by name, separators without spaces.\<close>

primrec canonical_json :: "json \<Rightarrow> string" where
  "canonical_json JNull = ''null''"
| "canonical_json (JBool b) = (if b then ''true'' else ''false'')"
| "canonical_json (JInt i) = string_of_int i"
| "canonical_json (JFloat f) = float_repr f"
| "canonical_json (JStr s) = json_quote s"
| "canonical_json (JList xs) = ''['' @ join '','' (map canonical_json xs) @ '']''"
| "canonical_json (JObj kvs) = ''{'' @ join '',''
     (map (\<lambda>(k, t). json_quote k @ '':'' @ t)
        (sort_key fst (map (map_prod (\<lambda>k. k) canonical_json) kvs))) @ ''}''"

text \<open>\<open>value.get(key)\<close> on a JSON object; \<open>None\<close> for a missing key.\<close>

fun jget :: "json \<Rightarrow> string \<Rightarrow> json option" where
  "jget (JObj kvs) k = map_of kvs k"
| "jget _ k = None"

text \<open>\<open>value.get(key)\<close> where Python's answer for a missing key is itself \<open>None\<close>.\<close>

definition jget_none :: "json \<Rightarrow> string \<Rightarrow> json" where
  "jget_none v k = (case jget v k of None \<Rightarrow> JNull | Some x \<Rightarrow> x)"

definition opt_str :: "string option \<Rightarrow> json" where
  "opt_str x = (case x of None \<Rightarrow> JNull | Some s \<Rightarrow> JStr s)"

text \<open>Equality of a JSON value with a string constant (\<open>x == "..."\<close>).\<close>

definition is_str :: "json \<Rightarrow> string \<Rightarrow> bool" where
  "is_str v s \<longleftrightarrow> v = JStr s"

section \<open>Python's str and truth value of JSON data\<close>

text \<open>\<open>repr\<close> of a string: single quotes unless it contains one and no double quote.\<close>

definition py_printable :: "char \<Rightarrow> bool" where
  "py_printable c \<longleftrightarrow> (let n = of_char c :: nat in
     32 \<le> n \<and> n \<noteq> 127 \<and> \<not> (128 \<le> n \<and> n \<le> 160) \<and> n \<noteq> 173)"

definition py_escape :: "char \<Rightarrow> char \<Rightarrow> string" where
  "py_escape q c =
     (if c = q \<or> c = CHR 0x5C then [CHR 0x5C, c]
      else if c = CHR 0x0A then [CHR 0x5C, CHR ''n'']
      else if c = CHR 0x0D then [CHR 0x5C, CHR ''r'']
      else if c = CHR 0x09 then [CHR 0x5C, CHR ''t'']
      else if py_printable c then [c]
      else [CHR 0x5C, CHR ''x''] @ hex_byte (of_char c))"

definition py_repr_str :: "string \<Rightarrow> string" where
  "py_repr_str s =
     (let q = (if CHR 0x27 \<in> set s \<and> CHR 0x22 \<notin> set s then CHR 0x22 else CHR 0x27)
      in [q] @ concat (map (py_escape q) s) @ [q])"

fun py_repr :: "json \<Rightarrow> string" where
  "py_repr JNull = ''None''"
| "py_repr (JBool b) = (if b then ''True'' else ''False'')"
| "py_repr (JInt i) = string_of_int i"
| "py_repr (JFloat f) = float_repr f"
| "py_repr (JStr s) = py_repr_str s"
| "py_repr (JList xs) = ''['' @ join '', '' (map py_repr xs) @ '']''"
| "py_repr (JObj kvs) = ''{'' @ join '', '' (map (\<lambda>(k, v). py_repr_str k @ '': '' @ py_repr v) kvs) @ ''}''"

definition py_str :: "json \<Rightarrow> string" where
  "py_str v = (case v of JStr s \<Rightarrow> s | _ \<Rightarrow> py_repr v)"

definition py_truthy :: "json \<Rightarrow> bool" where
  "py_truthy v = (case v of JNull \<Rightarrow> False | JBool b \<Rightarrow> b | JInt i \<Rightarrow> i \<noteq> 0 | JFloat f \<Rightarrow> float_digits f \<noteq> 0
     | JStr s \<Rightarrow> s \<noteq> [] | JList xs \<Rightarrow> xs \<noteq> [] | JObj kvs \<Rightarrow> kvs \<noteq> [])"

section \<open>SHA-256\<close>

unbundle bit_operations_syntax

definition rotr32 :: "nat \<Rightarrow> 32 word \<Rightarrow> 32 word" where
  "rotr32 n x = drop_bit n x OR push_bit (32 - n) x"

definition sha_k :: "32 word list" where
  "sha_k = [1116352408,1899447441,3049323471,3921009573,961987163,1508970993,2453635748,2870763221,
   3624381080,310598401,607225278,1426881987,1925078388,2162078206,2614888103,3248222580,
   3835390401,4022224774,264347078,604807628,770255983,1249150122,1555081692,1996064986,
   2554220882,2821834349,2952996808,3210313671,3336571891,3584528711,113926993,338241895,
   666307205,773529912,1294757372,1396182291,1695183700,1986661051,2177026350,2456956037,
   2730485921,2820302411,3259730800,3345764771,3516065817,3600352804,4094571909,275423344,
   430227734,506948616,659060556,883997877,958139571,1322822218,1537002063,1747873779,
   1955562222,2024104815,2227730452,2361852424,2428436474,2756734187,3204031479,3329325298]"

definition sha_init :: "32 word list" where
  "sha_init = [1779033703,3144134277,1013904242,2773480762,1359893119,2600822924,528734635,1541459225]"

definition sha_out :: "32 word \<Rightarrow> bytes" where
  "sha_out w = [ucast (drop_bit 24 w), ucast (drop_bit 16 w), ucast (drop_bit 8 w), ucast w]"

text \<open>Padding to whole 64-byte blocks: a one bit, zeros, the bit length in 8 bytes.\<close>

definition sha_pad :: "bytes \<Rightarrow> bytes" where
  "sha_pad m = m @ [0x80] @ replicate ((119 - length m mod 64) mod 64) 0 @
     map (\<lambda>i. of_nat (8 * length m div 256 ^ i)) (rev [0..<8])"

fun sha_word :: "bytes \<Rightarrow> 32 word" where
  "sha_word [a, b, c, d] =
     push_bit 24 (ucast a) OR push_bit 16 (ucast b) OR push_bit 8 (ucast c) OR ucast d"
| "sha_word _ = 0"

text \<open>\<open>chunk n k xs\<close>: at most \<open>n\<close> consecutive pieces of \<open>k\<close> elements.\<close>

fun chunk :: "nat \<Rightarrow> nat \<Rightarrow> 'a list \<Rightarrow> 'a list list" where
  "chunk 0 k xs = []"
| "chunk (Suc n) k xs = (if xs = [] then [] else take k xs # chunk n k (drop k xs))"

text \<open>The message schedule, with a window of the last 16 words.\<close>

fun sha_schedule :: "nat \<Rightarrow> 32 word list \<Rightarrow> 32 word list" where
  "sha_schedule 0 ws = []"
| "sha_schedule (Suc n) ws =
     (let w = ws ! 0; w1 = ws ! 1; w9 = ws ! 9; w14 = ws ! 14;
        s0 = rotr32 7 w1 XOR rotr32 18 w1 XOR drop_bit 3 w1;
        s1 = rotr32 17 w14 XOR rotr32 19 w14 XOR drop_bit 10 w14
      in w # sha_schedule n (tl ws @ [w + s0 + w9 + s1]))"

fun sha_round :: "32 word list \<Rightarrow> 32 word \<times> 32 word \<Rightarrow> 32 word list" where
  "sha_round [a, b, c, d, e, f, g, h] (k, w) =
     (let s1 = rotr32 6 e XOR rotr32 11 e XOR rotr32 25 e;
        ch = (e AND f) XOR (NOT e AND g);
        t1 = h + s1 + ch + k + w;
        s0 = rotr32 2 a XOR rotr32 13 a XOR rotr32 22 a;
        mj = (a AND b) XOR (a AND c) XOR (b AND c)
      in [t1 + s0 + mj, a, b, c, d + t1, e, f, g])"
| "sha_round st _ = st"

definition sha_block :: "32 word list \<Rightarrow> bytes \<Rightarrow> 32 word list" where
  "sha_block h b =
     map2 (+) h (foldl sha_round h (zip sha_k (sha_schedule 64 (map sha_word (chunk 16 4 b)))))"

definition sha256 :: "bytes \<Rightarrow> bytes" where
  "sha256 m = (let p = sha_pad m in
     concat (map sha_out (foldl sha_block sha_init (chunk (length p) 64 p))))"


text \<open>\<open>canonical.digest\<close> and the content identity of exact bytes.\<close>

definition sha256_id :: "bytes \<Rightarrow> string" where
  "sha256_id data = ''sha256:'' @ hexdigest (sha256 data)"

definition json_digest :: "json \<Rightarrow> string" where
  "json_digest v = sha256_id (utf8 (canonical_json v))"

text \<open>\<open>^sha256:[0-9a-f]{64}$\<close> under \<open>fullmatch\<close>.\<close>

definition is_sha256_text :: "string \<Rightarrow> bool" where
  "is_sha256_text s \<longleftrightarrow> take 7 s = ''sha256:'' \<and> length s = 71 \<and> list_all is_lower_hex (drop 7 s)"

lemma length_sha_round: "length (sha_round st kw) = length st"
  by (cases "(st, kw)" rule: sha_round.cases) (auto simp: Let_def)

lemma length_foldl_sha_round: "length (foldl sha_round st kws) = length st"
  by (induction kws arbitrary: st) (auto simp: length_sha_round)

lemma length_foldl_sha_block: "length (foldl sha_block h bs) = length h"
  by (induction bs arbitrary: h) (auto simp: sha_block_def length_foldl_sha_round)

lemma length_sha256 [simp]: "length (sha256 m) = 32"
proof -
  have "length (concat (map sha_out ws)) = 4 * length ws" for ws
    by (induction ws) (auto simp: sha_out_def)
  then show ?thesis
    by (simp add: sha256_def Let_def length_foldl_sha_block sha_init_def)
qed

lemma hex_digit_lower_hex: "d < 16 \<Longrightarrow> is_lower_hex (hex_digit d)"
  by (auto simp: hex_digit_def is_lower_hex_def is_digit_def)

lemma hexdigest_lower_hex: "list_all is_lower_hex (hexdigest bs)"
proof -
  have "unat b < 256" for b :: "8 word"
    using unsigned_less [of b] by simp
  then have "unat b div 16 < 16" "unat b mod 16 < 16" for b :: "8 word"
    by (auto simp: less_mult_imp_div_less)
  then show ?thesis
    by (auto simp: hexdigest_def hex_byte_def list_all_iff intro: hex_digit_lower_hex)
qed

lemma length_hexdigest: "length (hexdigest bs) = 2 * length bs"
  by (induction bs) (auto simp: hexdigest_def hex_byte_def)

lemma sha256_id_is_text [simp]: "is_sha256_text (sha256_id data)"
  by (simp add: is_sha256_text_def sha256_id_def length_hexdigest hexdigest_lower_hex)

lemma json_digest_is_text [simp]: "is_sha256_text (json_digest v)"
  by (simp add: json_digest_def)

lemma is_sha256_text_not_Nil: "is_sha256_text s \<Longrightarrow> s \<noteq> []"
  by (auto simp: is_sha256_text_def)

lemma sha256_id_not_Nil [simp]: "sha256_id data \<noteq> []"
  using is_sha256_text_not_Nil sha256_id_is_text by blast

lemma json_digest_not_Nil [simp]: "json_digest v \<noteq> []"
  using is_sha256_text_not_Nil json_digest_is_text by blast

end
