(* ===== verification/AVP_Errors.thy ===== *)
theory AVP_Errors
  imports AVP_Text
begin

text \<open>
  The exceptions that cross component boundaries of the reference runtime, grouped as the class
  hierarchies of \<^verbatim>\<open>artifacts/errors.py\<close>, \<^verbatim>\<open>environment/errors.py\<close>, \<^verbatim>\<open>subject/errors.py\<close>,
  \<^verbatim>\<open>mcp/errors.py\<close>, \<^verbatim>\<open>oracle_runner/errors.py\<close>, \<^verbatim>\<open>scenario/errors.py\<close>, \<^verbatim>\<open>trust/protocol.py\<close>,
  \<^verbatim>\<open>tck_adapter/browser_harness.py\<close> and \<^verbatim>\<open>tck_adapter/models.py\<close> group them: an \<open>except\<close> clause that names a base
  class matches one constructor of \<open>exn\<close>. Every exception carries the text \<open>str(exc)\<close>.
\<close>

datatype artifact_error =
    ArtifactStoreError string
  | ArtifactNotFound string
  | ArtifactIntegrityError string
  | ArtifactDigestMismatch string string
  | ArtifactSizeLimitExceeded int int

datatype environment_error = EnvironmentAdapterError | UnknownEnvironmentHandle
  | UnsupportedEnvironmentError | ToolPermissionDenied | SnapshotNotFoundError | FaultInjectionError

datatype subject_error = SubjectAdapterError | SubjectTransportError | SubjectTimeoutError
  | SubjectProtocolError | SubjectExecutionError | SubjectBudgetExceeded

datatype mcp_error = MCPGatewayError | MCPTransportError | MCPProtocolError | MCPUpstreamError
  | MCPPermissionDenied | MCPSchemaDriftError

datatype oracle_error = OracleRunnerError | OracleConfigurationError | OracleSecurityError
  | OracleProtocolError

datatype attestation_error = AttestationBindingError | MalformedAttestationError | UnsupportedAttestationError

datatype browser_error = BrowserHarnessError | BrowserCanonicalizationError | BrowserSettlementError | BrowserVerificationError

datatype compile_error = ScenarioCompileError | ScenarioParseError | ScenarioValidationError
  | ParameterResolutionError | ReferenceResolutionError | VisibilityViolationError

text \<open>\<open>CompileDiagnostic\<close>; every diagnostic the program makes has severity ERROR.\<close>

record compile_diagnostic =
  dg_code :: string
  dg_message :: string
  dg_path :: string

text \<open>\<open>FaultPhase\<close> and \<open>FaultObservation\<close> of \<^verbatim>\<open>environment/models.py\<close>, which a
  \<open>ToolExecutionError\<close> carries.\<close>

datatype fault_phase = PhaseScheduled | PhaseActivated | PhaseObserved | PhaseCleared

record fault_observation =
  fo_fault_id :: string
  fo_phase :: fault_phase
  fo_kind :: string
  fo_target :: string

datatype exn =
    KeyError string
  | IndexError string
  | TypeError string
  | ValueError string
  | RuntimeError string
  | OverflowError string
  | InvalidEpisodeTransition string
  | ArtifactExn artifact_error
  | EnvironmentExn environment_error string
  | ToolExecutionError string "fault_observation list"
  | SubjectExn subject_error string
  | McpExn mcp_error string
  | OracleExn oracle_error string
  | AttestationExn attestation_error string
  | CompileExn compile_error string "compile_diagnostic list"
  | BrowserExn browser_error string
  | TCKAdapterError string
  | ScenarioIdentityError string
  | SubjectExecutionDenied string string string "string option"

fun artifact_error_text :: "artifact_error \<Rightarrow> string" where
  "artifact_error_text (ArtifactStoreError m) = m"
| "artifact_error_text (ArtifactNotFound m) = m"
| "artifact_error_text (ArtifactIntegrityError m) = m"
| "artifact_error_text (ArtifactDigestMismatch expected actual) =
     ''artifact digest mismatch: expected '' @ expected @ '', got '' @ actual"
| "artifact_error_text (ArtifactSizeLimitExceeded limit observed) =
     ''artifact size limit exceeded: limit='' @ string_of_int limit @ '' bytes, observed='' @
     string_of_int observed @ '' bytes''"

text \<open>\<open>str(exc)\<close>.\<close>

fun exn_text :: "exn \<Rightarrow> string" where
  "exn_text (KeyError m) = m"
| "exn_text (IndexError m) = m"
| "exn_text (TypeError m) = m"
| "exn_text (ValueError m) = m"
| "exn_text (RuntimeError m) = m"
| "exn_text (OverflowError m) = m"
| "exn_text (InvalidEpisodeTransition m) = m"
| "exn_text (ArtifactExn e) = artifact_error_text e"
| "exn_text (EnvironmentExn _ m) = m"
| "exn_text (ToolExecutionError m _) = m"
| "exn_text (SubjectExn _ m) = m"
| "exn_text (McpExn _ m) = m"
| "exn_text (OracleExn _ m) = m"
| "exn_text (AttestationExn _ m) = m"
| "exn_text (CompileExn _ m _) = m"
| "exn_text (BrowserExn _ m) = m"
| "exn_text (TCKAdapterError m) = m"
| "exn_text (ScenarioIdentityError m) = m"
| "exn_text (SubjectExecutionDenied code actor cap _) =
     code @ '': actor='' @ py_repr_str actor @ '' capability='' @ py_repr_str cap"

fun artifact_error_name :: "artifact_error \<Rightarrow> string" where
  "artifact_error_name (ArtifactStoreError _) = ''ArtifactStoreError''"
| "artifact_error_name (ArtifactNotFound _) = ''ArtifactNotFound''"
| "artifact_error_name (ArtifactIntegrityError _) = ''ArtifactIntegrityError''"
| "artifact_error_name (ArtifactDigestMismatch _ _) = ''ArtifactDigestMismatch''"
| "artifact_error_name (ArtifactSizeLimitExceeded _ _) = ''ArtifactSizeLimitExceeded''"

fun environment_error_name :: "environment_error \<Rightarrow> string" where
  "environment_error_name EnvironmentAdapterError = ''EnvironmentAdapterError''"
| "environment_error_name UnknownEnvironmentHandle = ''UnknownEnvironmentHandle''"
| "environment_error_name UnsupportedEnvironmentError = ''UnsupportedEnvironmentError''"
| "environment_error_name ToolPermissionDenied = ''ToolPermissionDenied''"
| "environment_error_name SnapshotNotFoundError = ''SnapshotNotFoundError''"
| "environment_error_name FaultInjectionError = ''FaultInjectionError''"

fun subject_error_name :: "subject_error \<Rightarrow> string" where
  "subject_error_name SubjectAdapterError = ''SubjectAdapterError''"
| "subject_error_name SubjectTransportError = ''SubjectTransportError''"
| "subject_error_name SubjectTimeoutError = ''SubjectTimeoutError''"
| "subject_error_name SubjectProtocolError = ''SubjectProtocolError''"
| "subject_error_name SubjectExecutionError = ''SubjectExecutionError''"
| "subject_error_name SubjectBudgetExceeded = ''SubjectBudgetExceeded''"

fun mcp_error_name :: "mcp_error \<Rightarrow> string" where
  "mcp_error_name MCPGatewayError = ''MCPGatewayError''"
| "mcp_error_name MCPTransportError = ''MCPTransportError''"
| "mcp_error_name MCPProtocolError = ''MCPProtocolError''"
| "mcp_error_name MCPUpstreamError = ''MCPUpstreamError''"
| "mcp_error_name MCPPermissionDenied = ''MCPPermissionDenied''"
| "mcp_error_name MCPSchemaDriftError = ''MCPSchemaDriftError''"

fun oracle_error_name :: "oracle_error \<Rightarrow> string" where
  "oracle_error_name OracleRunnerError = ''OracleRunnerError''"
| "oracle_error_name OracleConfigurationError = ''OracleConfigurationError''"
| "oracle_error_name OracleSecurityError = ''OracleSecurityError''"
| "oracle_error_name OracleProtocolError = ''OracleProtocolError''"

fun attestation_error_name :: "attestation_error \<Rightarrow> string" where
  "attestation_error_name AttestationBindingError = ''AttestationBindingError''"
| "attestation_error_name MalformedAttestationError = ''MalformedAttestationError''"
| "attestation_error_name UnsupportedAttestationError = ''UnsupportedAttestationError''"

fun browser_error_name :: "browser_error \<Rightarrow> string" where
  "browser_error_name BrowserHarnessError = ''BrowserHarnessError''"
| "browser_error_name BrowserCanonicalizationError = ''BrowserCanonicalizationError''"
| "browser_error_name BrowserSettlementError = ''BrowserSettlementError''"
| "browser_error_name BrowserVerificationError = ''BrowserVerificationError''"

fun compile_error_name :: "compile_error \<Rightarrow> string" where
  "compile_error_name ScenarioCompileError = ''ScenarioCompileError''"
| "compile_error_name ScenarioParseError = ''ScenarioParseError''"
| "compile_error_name ScenarioValidationError = ''ScenarioValidationError''"
| "compile_error_name ParameterResolutionError = ''ParameterResolutionError''"
| "compile_error_name ReferenceResolutionError = ''ReferenceResolutionError''"
| "compile_error_name VisibilityViolationError = ''VisibilityViolationError''"

text \<open>\<open>type(exc).__name__\<close>.\<close>

fun exn_name :: "exn \<Rightarrow> string" where
  "exn_name (KeyError _) = ''KeyError''"
| "exn_name (IndexError _) = ''IndexError''"
| "exn_name (TypeError _) = ''TypeError''"
| "exn_name (ValueError _) = ''ValueError''"
| "exn_name (RuntimeError _) = ''RuntimeError''"
| "exn_name (OverflowError _) = ''OverflowError''"
| "exn_name (InvalidEpisodeTransition _) = ''InvalidEpisodeTransition''"
| "exn_name (ArtifactExn e) = artifact_error_name e"
| "exn_name (EnvironmentExn c _) = environment_error_name c"
| "exn_name (ToolExecutionError _ _) = ''ToolExecutionError''"
| "exn_name (SubjectExn c _) = subject_error_name c"
| "exn_name (McpExn c _) = mcp_error_name c"
| "exn_name (OracleExn c _) = oracle_error_name c"
| "exn_name (AttestationExn c _) = attestation_error_name c"
| "exn_name (CompileExn c _ _) = compile_error_name c"
| "exn_name (BrowserExn c _) = browser_error_name c"
| "exn_name (TCKAdapterError _) = ''TCKAdapterError''"
| "exn_name (ScenarioIdentityError _) = ''ScenarioIdentityError''"
| "exn_name (SubjectExecutionDenied _ _ _ _) = ''SubjectExecutionDenied''"

text \<open>The tuples \<open>(ArtifactStoreError, TypeError, ValueError)\<close> and \<open>(TypeError, ValueError)\<close> of the
  runtime's \<open>except\<close> clauses; \<open>ScenarioIdentityError\<close> is a \<open>ValueError\<close>.\<close>

definition is_type_or_value_error :: "exn \<Rightarrow> bool" where
  "is_type_or_value_error e = (case e of TypeError _ \<Rightarrow> True | ValueError _ \<Rightarrow> True
     | ScenarioIdentityError _ \<Rightarrow> True | _ \<Rightarrow> False)"

definition is_artifact_store_error :: "exn \<Rightarrow> bool" where
  "is_artifact_store_error e = (case e of ArtifactExn _ \<Rightarrow> True | _ \<Rightarrow> False)"

end
