(* ===== verification/AVP_Artifacts.thy ===== *)
theory AVP_Artifacts
  imports AVP_Errors
begin

text \<open>
  Content-addressed Artifact storage: \<^verbatim>\<open>artifacts/models.py\<close> (identities and references),
  \<^verbatim>\<open>artifacts/_io.py\<close> (bounded stream reading), \<^verbatim>\<open>artifacts/memory.py\<close> (the in-memory store, whose
  lock makes each operation atomic, so an operation is one step of the model) and the
  \<open>ArtifactStore\<close> interface of \<^verbatim>\<open>artifacts/protocol.py\<close> as a locale.
\<close>

section \<open>References\<close>

record artifact_ref =
  ref_digest :: string
  ref_size :: int
  ref_media_type :: string
  ref_uri :: "string option"

definition validate_sha256_digest :: "string \<Rightarrow> (exn, string) result" where
  "validate_sha256_digest v =
     (if is_sha256_text v then Inr v
      else Inl (ValueError ''artifact digest must match sha256:<64 lowercase hex characters>''))"

definition validate_media_type :: "string \<Rightarrow> (exn, string) result" where
  "validate_media_type v =
     (if list_all is_space v then Inl (ValueError ''artifact media_type must be a non-empty string'')
      else if 255 < length v then Inl (ValueError ''artifact media_type must not exceed 255 characters'')
      else Inr v)"

definition make_artifact_ref :: "string \<Rightarrow> int \<Rightarrow> string \<Rightarrow> string option \<Rightarrow> (exn, artifact_ref) result" where
  "make_artifact_ref digest sz media_type uri =
     res_bind (validate_sha256_digest digest) (\<lambda>_.
     res_bind (raise_if (sz < 0) (ValueError ''artifact size must be a non-negative integer'')) (\<lambda>_.
     res_bind (validate_media_type media_type) (\<lambda>_.
     res_bind (raise_if (uri = Some []) (ValueError ''artifact uri must be a non-empty string when present'')) (\<lambda>_.
     res_bind (raise_if (case uri of None \<Rightarrow> False | Some u \<Rightarrow> 4096 < length u)
                 (ValueError ''artifact uri must not exceed 4096 characters'')) (\<lambda>_.
     Inr \<lparr>ref_digest = digest, ref_size = sz, ref_media_type = media_type, ref_uri = uri\<rparr>)))))"

definition artifact_ref_dict :: "artifact_ref \<Rightarrow> json" where
  "artifact_ref_dict r = JObj
     ([(''digest'', JStr (ref_digest r)), (''size'', JInt (ref_size r)), (''mediaType'', JStr (ref_media_type r))]
      @ (case ref_uri r of None \<Rightarrow> [] | Some u \<Rightarrow> [(''uri'', JStr u)]))"

section \<open>Bounded input\<close>

definition default_max_artifact_bytes :: int where
  "default_max_artifact_bytes = 64 * 1024 * 1024"

definition validate_limit :: "int \<Rightarrow> (exn, int) result" where
  "validate_limit v =
     (if v \<le> 0 then Inl (ValueError ''max_artifact_bytes must be a positive integer'') else Inr v)"

text \<open>A stream is the sequence of values its \<open>read(CHUNK_SIZE)\<close> returns; the first empty one ends it.\<close>

definition iter_stream :: "bytes list \<Rightarrow> bytes list" where
  "iter_stream reads = takeWhile (\<lambda>c. c \<noteq> []) reads"

fun consume_chunks :: "int \<Rightarrow> bytes \<Rightarrow> bytes list \<Rightarrow> (exn, bytes \<times> string) result" where
  "consume_chunks max_bytes buffer [] = Inr (buffer, sha256_id buffer)"
| "consume_chunks max_bytes buffer (c # cs) =
     (let sz = int (length (buffer @ c)) in
      if max_bytes < sz then Inl (ArtifactExn (ArtifactSizeLimitExceeded max_bytes sz))
      else consume_chunks max_bytes (buffer @ c) cs)"

definition consume_stream :: "bytes list \<Rightarrow> int \<Rightarrow> (exn, bytes \<times> string) result" where
  "consume_stream reads max_bytes = consume_chunks max_bytes [] (iter_stream reads)"

definition verify_expected_digest :: "string option \<Rightarrow> string \<Rightarrow> (exn, unit) result" where
  "verify_expected_digest expected actual =
     (case expected of
        None \<Rightarrow> Inr ()
      | Some d \<Rightarrow> res_bind (validate_sha256_digest d)
          (\<lambda>_. raise_if (d \<noteq> actual) (ArtifactExn (ArtifactDigestMismatch d actual))))"

definition validate_expected :: "string option \<Rightarrow> (exn, unit) result" where
  "validate_expected expected =
     (case expected of None \<Rightarrow> Inr () | Some d \<Rightarrow> res_bind (validate_sha256_digest d) (\<lambda>_. Inr ()))"

section \<open>The in-memory store\<close>

record memory_store =
  ms_limit :: int
  ms_objects :: "string \<Rightarrow> bytes option"

definition memory_store_init :: "int \<Rightarrow> (exn, memory_store) result" where
  "memory_store_init limit =
     res_bind (validate_limit limit) (\<lambda>l. Inr \<lparr>ms_limit = l, ms_objects = Map.empty\<rparr>)"

definition memory_insert :: "bytes \<Rightarrow> artifact_ref \<Rightarrow> (memory_store, exn, artifact_ref) action" where
  "memory_insert data ref s =
     (case ms_objects s (ref_digest ref) of
        None \<Rightarrow> (Inr ref, s\<lparr>ms_objects := (ms_objects s)(ref_digest ref \<mapsto> data)\<rparr>)
      | Some existing \<Rightarrow>
          if existing \<noteq> data
          then (Inl (ArtifactExn (ArtifactIntegrityError
                  (''stored bytes do not match content identity '' @ ref_digest ref))), s)
          else (Inr ref, s))"

definition memory_put_bytes :: "bytes \<Rightarrow> string \<Rightarrow> string option \<Rightarrow> (memory_store, exn, artifact_ref) action" where
  "memory_put_bytes data media_type expected =
     act_bind (act_of (validate_media_type media_type)) (\<lambda>_.
     act_bind (act_of (validate_expected expected)) (\<lambda>_.
     act_bind (act_read (\<lambda>s. raise_if (ms_limit s < int (length data))
       (ArtifactExn (ArtifactSizeLimitExceeded (ms_limit s) (int (length data)))))) (\<lambda>_.
     act_bind (act_of (verify_expected_digest expected (sha256_id data))) (\<lambda>_.
     act_bind (act_of (make_artifact_ref (sha256_id data) (int (length data)) media_type None))
       (memory_insert data)))))"

definition memory_put_stream :: "bytes list \<Rightarrow> string \<Rightarrow> string option \<Rightarrow> (memory_store, exn, artifact_ref) action" where
  "memory_put_stream reads media_type expected =
     act_bind (act_of (validate_media_type media_type)) (\<lambda>_.
     act_bind (act_of (validate_expected expected)) (\<lambda>_.
     act_bind (act_read (\<lambda>s. consume_stream reads (ms_limit s))) (\<lambda>(data, actual).
     act_bind (act_of (verify_expected_digest expected actual)) (\<lambda>_.
     memory_put_bytes data media_type (Some actual)))))"

definition memory_get_bytes :: "artifact_ref \<Rightarrow> memory_store \<Rightarrow> (exn, bytes) result" where
  "memory_get_bytes ref s =
     (case ms_objects s (ref_digest ref) of
        None \<Rightarrow> Inl (ArtifactExn (ArtifactNotFound (''artifact not found: '' @ ref_digest ref)))
      | Some data \<Rightarrow>
          if int (length data) \<noteq> ref_size ref \<or> sha256_id data \<noteq> ref_digest ref
          then Inl (ArtifactExn (ArtifactIntegrityError (''artifact integrity mismatch for '' @ ref_digest ref
                 @ '': size='' @ string_of_int (int (length data)) @ '', digest='' @ sha256_id data)))
          else Inr data)"

definition memory_contains :: "string \<Rightarrow> memory_store \<Rightarrow> (exn, bool) result" where
  "memory_contains digest s =
     res_bind (validate_sha256_digest digest) (\<lambda>_.
       case ms_objects s digest of
         None \<Rightarrow> Inr False
       | Some data \<Rightarrow>
           if sha256_id data \<noteq> digest
           then Inl (ArtifactExn (ArtifactIntegrityError (''artifact integrity mismatch for '' @ digest)))
           else Inr True)"

section \<open>The store interface\<close>

text \<open>
  What the clients of a store rely on: a successful publication returns the content identity of the
  exact bytes, the reference then dereferences to these bytes, and no later publication changes what
  an earlier reference reads. \<open>ok\<close> is the store's own invariant.
\<close>

locale artifact_store =
  fixes put :: "bytes \<Rightarrow> string \<Rightarrow> string option \<Rightarrow> ('s, exn, artifact_ref) action"
    and get :: "artifact_ref \<Rightarrow> 's \<Rightarrow> (exn, bytes) result"
    and ok :: "'s \<Rightarrow> bool"
  assumes put_ok: "ok s \<Longrightarrow> put d m e s = (r, s') \<Longrightarrow> ok s'"
    and put_identity: "put d m e s = (Inr ref, s') \<Longrightarrow>
      ref_digest ref = sha256_id d \<and> ref_size ref = int (length d) \<and> ref_media_type ref = m"
    and put_get: "put d m e s = (Inr ref, s') \<Longrightarrow> get ref s' = Inr d"
    and put_stable: "get ref s = Inr d \<Longrightarrow> put d' m e s = (r, s') \<Longrightarrow> get ref s' = Inr d"
    and put_expected: "put d m (Some x) s = (Inr ref, s') \<Longrightarrow> x = sha256_id d"
    and put_error: "put d m e s = (Inl err, s') \<Longrightarrow> s' = s"
    and get_genuine: "get ref s = Inr d \<Longrightarrow> sha256_id d = ref_digest ref \<and> int (length d) = ref_size ref"
begin

text \<open>The order in which a store may evolve: everything readable stays readable with its bytes.\<close>

definition extends :: "'s \<Rightarrow> 's \<Rightarrow> bool" where
  "extends s t \<longleftrightarrow> (\<forall>ref d. get ref s = Inr d \<longrightarrow> get ref t = Inr d)"

lemma extends_refl: "extends s s"
  by (simp add: extends_def)

lemma extends_trans: "extends s t \<Longrightarrow> extends t u \<Longrightarrow> extends s u"
  by (simp add: extends_def)

lemma put_extends: "put d m e s = (r, s') \<Longrightarrow> extends s s'"
  unfolding extends_def using put_stable by blast

text \<open>Publishing the same bytes twice yields one identity, whatever happens in between.\<close>

lemma same_content_same_digest:
  "put d m e s = (Inr ref, s') \<Longrightarrow> put d m' e' t = (Inr ref', t') \<Longrightarrow> ref_digest ref = ref_digest ref'"
  using put_identity by metis

lemma put_then_put_get:
  assumes "put d m e s = (Inr ref, s')" and "extends s' t"
  shows "get ref t = Inr d"
  using assms put_get extends_def by blast

end

section \<open>The in-memory store provides the interface\<close>

text \<open>Every retained object is filed under its own identity.\<close>

definition content_addressed :: "memory_store \<Rightarrow> bool" where
  "content_addressed s \<longleftrightarrow> (\<forall>k d. ms_objects s k = Some d \<longrightarrow> k = sha256_id d)"

lemma validate_media_type_ok [simp]: "validate_media_type m = Inr x \<longleftrightarrow> x = m \<and> \<not> list_all is_space m \<and> length m \<le> 255"
  by (auto simp: validate_media_type_def)

lemma validate_sha256_digest_ok [simp]: "validate_sha256_digest v = Inr x \<longleftrightarrow> x = v \<and> is_sha256_text v"
  by (auto simp: validate_sha256_digest_def)

lemma make_artifact_ref_ok: "make_artifact_ref d n m u = Inr r \<longleftrightarrow>
    is_sha256_text d \<and> 0 \<le> n \<and> \<not> list_all is_space m \<and> length m \<le> 255 \<and> u \<noteq> Some [] \<and>
    (case u of None \<Rightarrow> True | Some x \<Rightarrow> length x \<le> 4096) \<and>
    r = \<lparr>ref_digest = d, ref_size = n, ref_media_type = m, ref_uri = u\<rparr>"
  by (auto simp: make_artifact_ref_def split: option.splits)

lemma verify_expected_digest_ok: "verify_expected_digest e a = Inr u \<longleftrightarrow>
    (case e of None \<Rightarrow> True | Some d \<Rightarrow> d = a \<and> is_sha256_text d)"
  by (auto simp: verify_expected_digest_def split: option.splits)

lemma validate_expected_ok: "validate_expected e = Inr u \<longleftrightarrow>
    (case e of None \<Rightarrow> True | Some d \<Rightarrow> is_sha256_text d)"
  by (auto simp: validate_expected_def split: option.splits)

lemma memory_put_bytes_okD:
  assumes "memory_put_bytes data m e s = (Inr ref, s')"
  shows "ref = \<lparr>ref_digest = sha256_id data, ref_size = int (length data), ref_media_type = m, ref_uri = None\<rparr>"
    and "ms_objects s' = (ms_objects s)(sha256_id data \<mapsto> data)"
    and "ms_limit s' = ms_limit s" and "int (length data) \<le> ms_limit s"
    and "case e of None \<Rightarrow> True | Some d \<Rightarrow> d = sha256_id data"
    and "\<not> list_all is_space m" and "length m \<le> 255"
    and "case ms_objects s (sha256_id data) of None \<Rightarrow> True | Some x \<Rightarrow> x = data"
  using assms
  by (auto simp: memory_put_bytes_def action_simps memory_insert_def make_artifact_ref_ok
      verify_expected_digest_ok validate_expected_ok fun_upd_idem raise_if_def
      split: sum.splits option.splits if_splits)

lemma memory_put_bytes_errD: "memory_put_bytes data m e s = (Inl err, s') \<Longrightarrow> s' = s"
  by (auto simp: memory_put_bytes_def action_simps memory_insert_def
      split: sum.splits option.splits if_splits)

lemma memory_get_bytes_ok: "memory_get_bytes ref s = Inr d \<longleftrightarrow>
    ms_objects s (ref_digest ref) = Some d \<and> int (length d) = ref_size ref \<and> sha256_id d = ref_digest ref"
  by (auto simp: memory_get_bytes_def split: option.splits)

lemma memory_put_bytes_content_addressed:
  assumes "content_addressed s" and "memory_put_bytes d m e s = (r, s')"
  shows "content_addressed s'"
proof (cases r)
  case (Inl err)
  with assms show ?thesis using memory_put_bytes_errD by metis
next
  case (Inr ref)
  with assms(2) have "ms_objects s' = (ms_objects s)(sha256_id d \<mapsto> d)"
    by (auto dest: memory_put_bytes_okD(2))
  with assms(1) show ?thesis by (simp add: content_addressed_def)
qed

interpretation mem: artifact_store memory_put_bytes memory_get_bytes content_addressed
proof (unfold_locales, goal_cases)
  case (1 s d m e r s')
  then show ?case by (rule memory_put_bytes_content_addressed)
next
  case (2 d m e s ref s')
  from memory_put_bytes_okD(1) [OF 2] show ?case by simp
next
  case (3 d m e s ref s')
  from memory_put_bytes_okD(1,2) [OF 3] show ?case by (simp add: memory_get_bytes_ok)
next
  case (4 ref s d d' m e r s')
  show ?case
  proof (cases r)
    case (Inl err)
    with 4 show ?thesis using memory_put_bytes_errD by metis
  next
    case (Inr x)
    with 4(2) have put: "memory_put_bytes d' m e s = (Inr x, s')" by simp
    from memory_put_bytes_okD(2,8) [OF put] 4(1) show ?thesis
      by (auto simp: memory_get_bytes_ok)
  qed
next
  case (5 d m x s ref s')
  from memory_put_bytes_okD(5) [OF 5] show ?case by simp
next
  case (6 d m e s err s')
  then show ?case by (rule memory_put_bytes_errD)
next
  case (7 ref s d)
  then show ?case by (simp add: memory_get_bytes_ok)
qed

section \<open>Properties\<close>

text \<open>The streaming publication reads a chunk at a time and stops at the limit; it fails with a size-limit
  error exactly when the whole content is over the limit.\<close>

lemma consume_chunks_fits:
  "int (length (buffer @ concat cs)) \<le> n \<Longrightarrow>
    consume_chunks n buffer cs = Inr (buffer @ concat cs, sha256_id (buffer @ concat cs))"
  by (induction cs arbitrary: buffer) (auto simp: Let_def)

lemma consume_chunks_over:
  "int (length buffer) \<le> n \<Longrightarrow> n < int (length (buffer @ concat cs)) \<Longrightarrow>
    \<exists>k. consume_chunks n buffer cs = Inl (ArtifactExn (ArtifactSizeLimitExceeded n k)) \<and> n < k"
proof (induction cs arbitrary: buffer)
  case (Cons c cs)
  show ?case
  proof (cases "n < int (length (buffer @ c))")
    case False
    with Cons.prems Cons.IH [of "buffer @ c"] show ?thesis by (simp add: Let_def)
  qed (simp add: Let_def)
qed simp

lemma put_stream_fits:
  assumes "int (length (concat (iter_stream reads))) \<le> ms_limit s"
  shows "memory_put_stream reads m e s = memory_put_bytes (concat (iter_stream reads)) m e s"
  using assms consume_chunks_fits [of "[]" "iter_stream reads" "ms_limit s"]
  by (auto simp: memory_put_stream_def memory_put_bytes_def consume_stream_def act_bind_def act_of_def act_read_def
      validate_expected_def verify_expected_digest_def validate_media_type_def validate_sha256_digest_def
      raise_if_def res_bind_def split: option.splits)

lemma put_stream_over:
  assumes "0 \<le> ms_limit s" "ms_limit s < int (length (concat (iter_stream reads)))"
  shows "\<exists>a b. memory_put_stream reads m e s = (Inl a, s) \<and>
    memory_put_bytes (concat (iter_stream reads)) m e s = (Inl b, s)"
  using assms consume_chunks_over [of "[]" "ms_limit s" "iter_stream reads"]
  by (auto simp: memory_put_stream_def memory_put_bytes_def consume_stream_def act_bind_def act_of_def act_read_def
      raise_if_def split: sum.splits)

text \<open>Publishing a stream is publishing its bytes: with a non-negative size limit, \<open>put_stream\<close> leaves the
  store as \<open>put_bytes\<close> of the whole content does and returns the same reference, or both fail.\<close>

theorem put_stream_refines_put_bytes:
  assumes "0 \<le> ms_limit s"
  shows "snd (memory_put_stream reads m e s) = snd (memory_put_bytes (concat (iter_stream reads)) m e s) \<and>
    (fst (memory_put_stream reads m e s) = Inr ref \<longleftrightarrow>
     fst (memory_put_bytes (concat (iter_stream reads)) m e s) = Inr ref)"
proof (cases "int (length (concat (iter_stream reads))) \<le> ms_limit s")
  case True
  then show ?thesis by (simp add: put_stream_fits)
next
  case False
  then obtain a b where "memory_put_stream reads m e s = (Inl a, s)"
    "memory_put_bytes (concat (iter_stream reads)) m e s = (Inl b, s)"
    using put_stream_over [OF assms, of reads m e] by auto
  then show ?thesis by simp
qed

theorem put_stream_refines_put_bytes_witness:
  "snd (memory_put_stream [[1, 2], [3], []] ''a/b'' None \<lparr>ms_limit = 8, ms_objects = Map.empty\<rparr>) =
     snd (memory_put_bytes [1, 2, 3] ''a/b'' None \<lparr>ms_limit = 8, ms_objects = Map.empty\<rparr>)"
  using put_stream_refines_put_bytes [of "\<lparr>ms_limit = 8, ms_objects = Map.empty\<rparr>" "[[1, 2], [3], []]" "''a/b''" None]
  by (simp add: iter_stream_def)

text \<open>Content-addressed round trip: the reference a publication returned reads back exactly the published
  bytes, also after any further publication, whether that one succeeds or fails.\<close>

theorem published_bytes_stay_readable:
  assumes "memory_put_bytes d m e s = (Inr ref, s1)" "memory_put_bytes d' m' e' s1 = (r, s2)"
  shows "memory_get_bytes ref s2 = Inr d \<and> ref_digest ref = sha256_id d \<and> ref_size ref = int (length d)"
  using mem.put_stable [OF mem.put_get [OF assms(1)] assms(2)] mem.put_identity [OF assms(1)] by simp

theorem published_bytes_stay_readable_witness:
  "memory_get_bytes (the (case fst (memory_put_bytes [7] ''a/b'' None \<lparr>ms_limit = 8, ms_objects = Map.empty\<rparr>) of
      Inr r \<Rightarrow> Some r | Inl _ \<Rightarrow> None))
     (snd (memory_put_bytes [8] ''a/b'' None
       (snd (memory_put_bytes [7] ''a/b'' None \<lparr>ms_limit = 8, ms_objects = Map.empty\<rparr>)))) = Inr [7]"
proof -
  let ?s = "\<lparr>ms_limit = 8, ms_objects = Map.empty\<rparr>"
  let ?ref = "\<lparr>ref_digest = sha256_id [7], ref_size = 1, ref_media_type = ''a/b'', ref_uri = None\<rparr>"
  have put: "memory_put_bytes [7] ''a/b'' None ?s = (Inr ?ref, snd (memory_put_bytes [7] ''a/b'' None ?s))"
    by (simp add: memory_put_bytes_def act_bind_def act_of_def act_read_def validate_media_type_def is_space_def
        validate_expected_def raise_if_def verify_expected_digest_def make_artifact_ref_def res_bind_def
        validate_sha256_digest_def memory_insert_def)
  from published_bytes_stay_readable [OF put, of "[8]" "''a/b''" None] put show ?thesis
    by (metis (no_types, lifting) fst_conv option.sel prod.collapse sum.case(2))
qed

text \<open>A publication that fails, for whatever reason, leaves the store as it was, and one that declares a
  digest succeeds only for the bytes of that digest.\<close>

theorem put_bytes_error_is_atomic:
  "case memory_put_bytes d m e s of
     (Inl _, s') \<Rightarrow> s' = s
   | (Inr ref, s') \<Rightarrow> (e = None \<or> e = Some (sha256_id d)) \<and> int (length d) \<le> ms_limit s \<and>
       ref_digest ref = sha256_id d \<and> ms_objects s' = (ms_objects s)(sha256_id d \<mapsto> d)"
proof (cases "memory_put_bytes d m e s")
  case (Pair r s')
  then show ?thesis
  proof (cases r)
    case (Inl err)
    with Pair show ?thesis using memory_put_bytes_errD by simp
  next
    case (Inr ref)
    with Pair have "memory_put_bytes d m e s = (Inr ref, s')" by simp
    from memory_put_bytes_okD [OF this] Pair Inr show ?thesis by (auto split: option.splits)
  qed
qed

end
