(* ===== verification/AVP_Models.thy ===== *)
theory AVP_Models
  imports AVP_Artifacts
begin

text \<open>
  The value objects of \<^verbatim>\<open>avp_ref/models.py\<close> (verdicts, validity, Evidence, verification results,
  events) and the trusted publication of Evidence of \<^verbatim>\<open>avp_ref/evidence.py\<close>, over any
  \<open>ArtifactStore\<close>. Frozen mappings are the JSON values they freeze.
\<close>

section \<open>Verdicts and validity\<close>

datatype task_verdict = PASS | PARTIAL | FAIL | INCONCLUSIVE

fun task_verdict_value :: "task_verdict \<Rightarrow> string" where
  "task_verdict_value PASS = ''PASS''"
| "task_verdict_value PARTIAL = ''PARTIAL''"
| "task_verdict_value FAIL = ''FAIL''"
| "task_verdict_value INCONCLUSIVE = ''INCONCLUSIVE''"

datatype validity = VALID | INVALID_TASK | INVALID_INITIAL_STATE | ENVIRONMENT_FAILURE | RESET_FAILURE
  | ORACLE_FAILURE | TRACE_INCOMPLETE | INFRA_CONFOUND | CONTAMINATED | UNKNOWN

fun validity_value :: "validity \<Rightarrow> string" where
  "validity_value VALID = ''VALID''"
| "validity_value INVALID_TASK = ''INVALID_TASK''"
| "validity_value INVALID_INITIAL_STATE = ''INVALID_INITIAL_STATE''"
| "validity_value ENVIRONMENT_FAILURE = ''ENVIRONMENT_FAILURE''"
| "validity_value RESET_FAILURE = ''RESET_FAILURE''"
| "validity_value ORACLE_FAILURE = ''ORACLE_FAILURE''"
| "validity_value TRACE_INCOMPLETE = ''TRACE_INCOMPLETE''"
| "validity_value INFRA_CONFOUND = ''INFRA_CONFOUND''"
| "validity_value CONTAMINATED = ''CONTAMINATED''"
| "validity_value UNKNOWN = ''UNKNOWN''"

record validity_detail =
  vd_code :: string
  vd_message :: "string option"
  vd_evidence_ids :: "string list"

text \<open>\<open>^[A-Z][A-Z0-9_]{0,127}$\<close> under \<open>fullmatch\<close>.\<close>

definition is_detail_code :: "string \<Rightarrow> bool" where
  "is_detail_code s \<longleftrightarrow> (case s of [] \<Rightarrow> False | c # cs \<Rightarrow>
     is_upper_ascii c \<and> length cs \<le> 127 \<and>
     list_all (\<lambda>x. is_upper_ascii x \<or> is_digit x \<or> x = CHR ''_'') cs)"

definition make_validity_detail :: "string \<Rightarrow> string option \<Rightarrow> string list \<Rightarrow> (exn, validity_detail) result" where
  "make_validity_detail code msg eids =
     res_bind (raise_if (\<not> is_detail_code code)
       (ValueError ''validity detail code must be an AVP uppercase token'')) (\<lambda>_.
     res_bind (raise_if (case msg of None \<Rightarrow> False | Some m \<Rightarrow> \<not> (1 \<le> length m \<and> length m \<le> 512))
       (ValueError ''validity detail message must contain 1..512 characters when present'')) (\<lambda>_.
     res_bind (raise_if (\<not> list_all (\<lambda>i. 1 \<le> length i \<and> length i \<le> 256) eids)
       (ValueError ''validity detail evidence ids must contain 1..256 characters'')) (\<lambda>_.
     res_bind (raise_if (\<not> distinct eids)
       (ValueError ''validity detail evidence ids must be unique'')) (\<lambda>_.
     Inr \<lparr>vd_code = code, vd_message = msg, vd_evidence_ids = eids\<rparr>))))"

definition validity_detail_dict :: "validity_detail \<Rightarrow> json" where
  "validity_detail_dict d = JObj ([(''code'', JStr (vd_code d))] @
     (case vd_message d of None \<Rightarrow> [] | Some m \<Rightarrow> [(''message'', JStr m)]) @
     (if vd_evidence_ids d = [] then [] else [(''evidenceIds'', JList (map JStr (vd_evidence_ids d)))]))"

section \<open>Evidence\<close>

record evidence =
  evd_id :: string
  evd_type :: string
  evd_artifact :: artifact_ref
  evd_classification :: string
  evd_producer :: "string option"
  evd_redaction :: "json option"
  evd_extensions :: "json option"

definition evidence_classifications :: "string list" where
  "evidence_classifications =
     [''public'', ''workspace'', ''subject-visible'', ''evaluator-confidential'', ''secret'', ''regulated'']"

text \<open>\<open>^[A-Za-z0-9][A-Za-z0-9._:-]{0,127}$\<close> under \<open>fullmatch\<close>.\<close>

definition is_evidence_type :: "string \<Rightarrow> bool" where
  "is_evidence_type s \<longleftrightarrow> (case s of [] \<Rightarrow> False | c # cs \<Rightarrow>
     is_alnum_ascii c \<and> length cs \<le> 127 \<and> list_all (\<lambda>x. is_alnum_ascii x \<or> x \<in> set ''._:-'') cs)"

definition validate_evidence_metadata :: "string \<Rightarrow> string \<Rightarrow> string \<Rightarrow> string option \<Rightarrow> (exn, unit) result" where
  "validate_evidence_metadata eid etype classification producer =
     res_bind (raise_if (\<not> (1 \<le> length eid \<and> length eid \<le> 256))
       (ValueError ''evidence_id must contain 1..256 characters'')) (\<lambda>_.
     res_bind (raise_if (\<not> is_evidence_type etype)
       (ValueError ''evidence_type has an invalid AVP Evidence type token'')) (\<lambda>_.
     res_bind (raise_if (classification \<notin> set evidence_classifications)
       (ValueError (''unsupported evidence classification: '' @ classification))) (\<lambda>_.
     raise_if (case producer of None \<Rightarrow> False | Some p \<Rightarrow> \<not> (1 \<le> length p \<and> length p \<le> 512))
       (ValueError ''evidence producer must contain 1..512 characters when present''))))"

definition make_evidence :: "string \<Rightarrow> string \<Rightarrow> artifact_ref \<Rightarrow> string \<Rightarrow> string option \<Rightarrow>
    json option \<Rightarrow> json option \<Rightarrow> (exn, evidence) result" where
  "make_evidence eid etype artifact classification producer redaction extensions =
     res_bind (validate_evidence_metadata eid etype classification producer) (\<lambda>_.
     Inr \<lparr>evd_id = eid, evd_type = etype, evd_artifact = artifact, evd_classification = classification,
          evd_producer = producer, evd_redaction = redaction, evd_extensions = extensions\<rparr>)"

definition evidence_dict :: "evidence \<Rightarrow> json" where
  "evidence_dict e = JObj
     ([(''evidenceId'', JStr (evd_id e)), (''type'', JStr (evd_type e)),
       (''artifact'', artifact_ref_dict (evd_artifact e)), (''classification'', JStr (evd_classification e))] @
      (case evd_producer e of None \<Rightarrow> [] | Some p \<Rightarrow> [(''producer'', JStr p)]) @
      (case evd_redaction e of None \<Rightarrow> [] | Some r \<Rightarrow> [(''redaction'', r)]) @
      (case evd_extensions e of None \<Rightarrow> [] | Some x \<Rightarrow> [(''extensions'', x)]))"

section \<open>Verification results and events\<close>

record verification_result =
  vr_claim_id :: string
  vr_dimension :: string
  vr_verdict :: string
  vr_severity :: string
  vr_method :: string
  vr_evaluator_version :: string
  vr_evidence_ids :: "string list"
  vr_confidence :: pyfloat
  vr_validity :: validity

record avp_event =
  evt_id :: string
  evt_type :: string
  evt_episode_id :: string
  evt_sequence :: nat
  evt_plane :: string
  evt_logical_time :: int
  evt_payload :: "(string \<times> json) list"
  evt_state :: "(string \<times> json) list"
  evt_evidence :: "string list"

section \<open>Evidence publication\<close>

definition canonical_json_bytes :: "json \<Rightarrow> bytes" where
  "canonical_json_bytes v = utf8 (canonical_json v)"

definition json_media_type :: string where
  "json_media_type = ''application/json''"

text \<open>\<open>EvidencePublisher.publish_bytes\<close>: metadata is checked before the content reaches the store, and
  a digest mismatch becomes an input error.\<close>

definition publish_bytes ::
  "(bytes \<Rightarrow> string \<Rightarrow> string option \<Rightarrow> ('s, exn, artifact_ref) action) \<Rightarrow>
   string \<Rightarrow> string \<Rightarrow> bytes \<Rightarrow> string \<Rightarrow> string \<Rightarrow> string option \<Rightarrow> json option \<Rightarrow> json option \<Rightarrow>
   string option \<Rightarrow> ('s, exn, evidence) action" where
  "publish_bytes put eid etype content media_type classification producer redaction extensions expected =
     act_bind (act_of (validate_evidence_metadata eid etype classification producer)) (\<lambda>_.
     act_bind
       (act_try (put content media_type expected)
          (\<lambda>e. case e of
             ArtifactExn (ArtifactDigestMismatch _ _) \<Rightarrow>
               act_raise (ValueError ''Evidence content does not match its declared digest'')
           | _ \<Rightarrow> act_raise e)) (\<lambda>artifact.
     act_of (make_evidence eid etype artifact classification producer redaction extensions)))"

definition publish_json ::
  "(bytes \<Rightarrow> string \<Rightarrow> string option \<Rightarrow> ('s, exn, artifact_ref) action) \<Rightarrow>
   string \<Rightarrow> string \<Rightarrow> json \<Rightarrow> string \<Rightarrow> string option \<Rightarrow> json option \<Rightarrow> json option \<Rightarrow>
   ('s, exn, evidence) action" where
  "publish_json put eid etype v classification producer redaction extensions =
     publish_bytes put eid etype (canonical_json_bytes v) json_media_type classification producer
       redaction extensions None"

definition read_published :: "(artifact_ref \<Rightarrow> 's \<Rightarrow> (exn, bytes) result) \<Rightarrow> evidence \<Rightarrow> 's \<Rightarrow> (exn, bytes) result" where
  "read_published get e s = get (evd_artifact e) s"

section \<open>Publication is faithful over every store\<close>

lemma publish_bytes_okD:
  assumes "publish_bytes put eid etype c m cl p rd ex x s = (Inr e, s')"
  shows "evd_id e = eid" and "evd_type e = etype" and "evd_classification e = cl" and "evd_producer e = p"
    and "put c m x s = (Inr (evd_artifact e), s')"
    and "validate_evidence_metadata eid etype cl p = Inr ()"
  using assms
  by (auto simp: publish_bytes_def action_simps make_evidence_def
      split: sum.splits prod.splits exn.splits artifact_error.splits)

context artifact_store
begin

lemma published_readable:
  assumes "publish_bytes put eid etype c m cl p rd ex x s = (Inr e, s')"
  shows "read_published get e s' = Inr c"
  using put_get [OF publish_bytes_okD(5) [OF assms]] by (simp add: read_published_def)

lemma publish_bytes_extends:
  assumes "publish_bytes put eid etype c m cl p rd ex x s = (r, s')"
  shows "extends s s'"
  using assms
  by (auto simp: publish_bytes_def action_simps dest: put_extends intro: extends_refl
      split: sum.splits prod.splits exn.splits artifact_error.splits)

lemma published_identity:
  assumes "publish_bytes put eid etype c m cl p rd ex x s = (Inr e, s')"
  shows "ref_digest (evd_artifact e) = sha256_id c"
  using put_identity [OF publish_bytes_okD(5) [OF assms]] by simp

lemma publish_failure_leaves_store:
  assumes "publish_bytes put eid etype c m cl p rd ex x s = (Inl err, s')"
  shows "s' = s \<or> (\<exists>a. put c m x s = (Inr a, s'))"
  using assms
  by (auto simp: publish_bytes_def action_simps dest: put_error
      split: sum.splits prod.splits exn.splits artifact_error.splits)

text \<open>The metadata are checked twice; the second check cannot fail after the first.\<close>

lemma publish_failure_no_write:
  assumes "publish_bytes put eid etype c m cl p rd ex x s = (Inl err, s')"
  shows "s' = s"
  using assms
  by (auto simp: publish_bytes_def action_simps make_evidence_def result_simps dest: put_error
      split: sum.splits prod.splits exn.splits artifact_error.splits)

lemma publish_no_digest_mismatch:
  assumes "publish_bytes put eid etype c m cl p rd ex x s = (Inl err, s')"
  shows "err \<noteq> ArtifactExn (ArtifactDigestMismatch a b)"
  using assms
  by (auto simp: publish_bytes_def action_simps make_evidence_def validate_evidence_metadata_def result_simps
      split: sum.splits prod.splits exn.splits artifact_error.splits if_splits)

end

section \<open>Properties\<close>

text \<open>Evidence published through the in-memory store is described truthfully: the Evidence carries the
  identifier, type and classification it was published under, its artifact is the content identity of the
  bytes, and reading it returns them.\<close>

theorem published_evidence_reads_back:
  assumes "publish_bytes memory_put_bytes eid etype c m cl p rd ex x s = (Inr e, s')"
  shows "evd_id e = eid \<and> evd_type e = etype \<and> evd_classification e = cl \<and>
    ref_digest (evd_artifact e) = sha256_id c \<and> read_published memory_get_bytes e s' = Inr c"
  using publish_bytes_okD [OF assms] mem.published_identity [OF assms] mem.published_readable [OF assms]
  by simp

theorem published_evidence_reads_back_witness:
  "\<exists>e s'. publish_bytes memory_put_bytes ''e1'' ''log'' [1] ''a/b'' ''public'' None None None None
      \<lparr>ms_limit = 8, ms_objects = Map.empty\<rparr> = (Inr e, s') \<and> read_published memory_get_bytes e s' = Inr [1]"
proof -
  obtain e s' where run: "publish_bytes memory_put_bytes ''e1'' ''log'' [1] ''a/b'' ''public'' None None None None
      \<lparr>ms_limit = 8, ms_objects = Map.empty\<rparr> = (Inr e, s')"
    by (simp add: publish_bytes_def act_bind_def act_of_def act_try_def act_read_def validate_evidence_metadata_def
        is_evidence_type_def evidence_classifications_def make_evidence_def memory_put_bytes_def
        validate_media_type_def validate_expected_def raise_if_def verify_expected_digest_def
        make_artifact_ref_def res_bind_def validate_sha256_digest_def memory_insert_def is_space_def
        is_alnum_ascii_def is_digit_def is_lower_ascii_def is_upper_ascii_def)
  from published_evidence_reads_back [OF run] run show ?thesis by blast
qed

text \<open>A refused publication of Evidence writes nothing, whether its metadata, its media type, its size or
  its declared digest was the problem.\<close>

theorem refused_evidence_writes_nothing:
  "case publish_bytes memory_put_bytes eid etype c m cl p rd ex x s of (Inl _, s') \<Rightarrow> s' = s | (Inr _, _) \<Rightarrow> True"
  using mem.publish_failure_no_write [of eid etype c m cl p rd ex x s]
  by (cases "publish_bytes memory_put_bytes eid etype c m cl p rd ex x s") (auto split: sum.splits)

end
