(* ===== verification/AVP_OracleModels.thy ===== *)
theory AVP_OracleModels
  imports AVP_Models
begin

text \<open>
  The immutable objects of \<^verbatim>\<open>oracle_runner/models.py\<close>: sandbox policy, runner description,
  package, evaluation context and request, Evidence payloads, execution artifacts and results, and
  the evaluation record the verifier freezes. Each constructor \<open>make_*\<close> is the dataclass with its
  \<open>__post_init__\<close>: the normalised object, or the exception it raises.
\<close>

definition require_sha256 :: "string \<Rightarrow> string \<Rightarrow> (exn, unit) result" where
  "require_sha256 v label = raise_if (\<not> is_sha256_text v) (ValueError (label @ '' must be a sha256 digest''))"

definition jstrs :: "string list \<Rightarrow> json" where
  "jstrs xs = JList (map JStr xs)"

definition opt_int :: "int option \<Rightarrow> json" where
  "opt_int x = (case x of None \<Rightarrow> JNull | Some i \<Rightarrow> JInt i)"

text \<open>\<open>sorted({item for item in xs if item})\<close>.\<close>

definition sorted_nonempty_set :: "string list \<Rightarrow> string list" where
  "sorted_nonempty_set xs = sort (remdups (filter (\<lambda>x. x \<noteq> []) xs))"

section \<open>Runner configuration\<close>

datatype oracle_execution_status = SUCCESS | TIMEOUT | CRASHED | PROTOCOL_ERROR | SECURITY_VIOLATION

fun execution_status_value :: "oracle_execution_status \<Rightarrow> string" where
  "execution_status_value SUCCESS = ''SUCCESS''"
| "execution_status_value TIMEOUT = ''TIMEOUT''"
| "execution_status_value CRASHED = ''CRASHED''"
| "execution_status_value PROTOCOL_ERROR = ''PROTOCOL_ERROR''"
| "execution_status_value SECURITY_VIOLATION = ''SECURITY_VIOLATION''"

record sandbox_policy =
  sp_timeout_seconds :: pyfloat
  sp_cpu_seconds :: int
  sp_memory_bytes :: int
  sp_max_file_bytes :: int
  sp_max_open_files :: int
  sp_max_request_bytes :: int
  sp_max_response_bytes :: int
  sp_inherited_environment :: "string list"
  sp_enforce_resource_limits :: bool

definition make_sandbox_policy :: "sandbox_policy \<Rightarrow> (exn, sandbox_policy) result" where
  "make_sandbox_policy p =
     res_bind (raise_if (float_neg (sp_timeout_seconds p) \<or> float_digits (sp_timeout_seconds p) = 0)
       (ValueError ''oracle timeout_seconds must be > 0'')) (\<lambda>_.
     res_bind (check_each (\<lambda>(nm, v). raise_if (v \<le> 0) (ValueError (''oracle '' @ nm @ '' must be > 0'')))
       [(''cpu_seconds'', sp_cpu_seconds p), (''memory_bytes'', sp_memory_bytes p),
        (''max_file_bytes'', sp_max_file_bytes p), (''max_open_files'', sp_max_open_files p),
        (''max_request_bytes'', sp_max_request_bytes p), (''max_response_bytes'', sp_max_response_bytes p)]) (\<lambda>_.
     Inr (p\<lparr>sp_inherited_environment := sorted_nonempty_set (sp_inherited_environment p)\<rparr>)))"

definition sandbox_policy_dict :: "sandbox_policy \<Rightarrow> json" where
  "sandbox_policy_dict p = JObj
     [(''timeout_seconds'', JFloat (sp_timeout_seconds p)), (''cpu_seconds'', JInt (sp_cpu_seconds p)),
      (''memory_bytes'', JInt (sp_memory_bytes p)), (''max_file_bytes'', JInt (sp_max_file_bytes p)),
      (''max_open_files'', JInt (sp_max_open_files p)), (''max_request_bytes'', JInt (sp_max_request_bytes p)),
      (''max_response_bytes'', JInt (sp_max_response_bytes p)),
      (''inherited_environment'', jstrs (sp_inherited_environment p)),
      (''enforce_resource_limits'', JBool (sp_enforce_resource_limits p))]"

record oracle_runner_description =
  rd_name :: string
  rd_version :: string
  rd_protocol_version :: string
  rd_isolation :: string
  rd_policy :: sandbox_policy
  rd_worker_module :: string
  rd_worker_code_digest :: string
  rd_allowed_module_prefixes :: "string list"
  rd_filesystem_isolation :: bool
  rd_network_isolation :: bool

definition make_runner_description :: "oracle_runner_description \<Rightarrow> (exn, oracle_runner_description) result" where
  "make_runner_description d =
     res_bind (require_sha256 (rd_worker_code_digest d) ''oracle worker_code_digest'') (\<lambda>_.
     res_bind (raise_if (rd_worker_module d = [] \<or> rd_allowed_module_prefixes d = [])
       (ValueError ''oracle runner worker/module allowlist must be non-empty'')) (\<lambda>_.
     Inr (d\<lparr>rd_allowed_module_prefixes := sort (remdups (rd_allowed_module_prefixes d))\<rparr>)))"

definition runner_identity_digest :: "oracle_runner_description \<Rightarrow> string" where
  "runner_identity_digest d = json_digest (JObj
     [(''name'', JStr (rd_name d)), (''version'', JStr (rd_version d)),
      (''protocol_version'', JStr (rd_protocol_version d)), (''isolation'', JStr (rd_isolation d)),
      (''policy'', sandbox_policy_dict (rd_policy d)), (''worker_module'', JStr (rd_worker_module d)),
      (''worker_code_digest'', JStr (rd_worker_code_digest d)),
      (''allowed_module_prefixes'', jstrs (rd_allowed_module_prefixes d)),
      (''filesystem_isolation'', JBool (rd_filesystem_isolation d)),
      (''network_isolation'', JBool (rd_network_isolation d))])"

section \<open>Packages, contexts and requests\<close>

record oracle_package =
  pk_oracle_id :: string
  pk_version :: string
  pk_entrypoint :: string
  pk_code_digest :: string
  pk_projections :: "string list"
  pk_input_pointers :: "(string \<times> string) list"
  pk_package_digest :: "string option"

definition make_oracle_package :: "oracle_package \<Rightarrow> (exn, oracle_package) result" where
  "make_oracle_package p =
     res_bind (raise_if (pk_oracle_id p = [] \<or> pk_version p = [] \<or> pk_entrypoint p = [])
       (ValueError ''oracle package identity fields must be non-empty'')) (\<lambda>_.
     res_bind (require_sha256 (pk_code_digest p) ''oracle code_digest'') (\<lambda>_.
     res_bind (case pk_package_digest p of None \<Rightarrow> Inr () | Some d \<Rightarrow> require_sha256 d ''oracle package_digest'') (\<lambda>_.
     res_bind (raise_if (sorted_nonempty_set (pk_projections p) = [])
       (ValueError ''oracle package must request at least one projection'')) (\<lambda>_.
     res_bind (raise_if (list_ex (\<lambda>(nm, ptr). nm = [] \<or> take 1 ptr \<noteq> ''/'') (pk_input_pointers p))
       (ValueError ''oracle input_pointers must use non-empty RFC 6901 JSON Pointers'')) (\<lambda>_.
     Inr (p\<lparr>pk_projections := sorted_nonempty_set (pk_projections p),
            pk_input_pointers := sort_key fst (pk_input_pointers p)\<rparr>))))))"

definition package_descriptor_dict :: "oracle_package \<Rightarrow> (string \<times> json) list" where
  "package_descriptor_dict p =
     [(''oracle_id'', JStr (pk_oracle_id p)), (''version'', JStr (pk_version p)),
      (''entrypoint'', JStr (pk_entrypoint p)), (''code_digest'', JStr (pk_code_digest p)),
      (''projections'', jstrs (pk_projections p)),
      (''input_pointers'', JObj (map (\<lambda>(k, v). (k, JStr v)) (pk_input_pointers p)))]"

definition package_dict :: "oracle_package \<Rightarrow> json" where
  "package_dict p = JObj (package_descriptor_dict p @
     (case pk_package_digest p of None \<Rightarrow> [] | Some d \<Rightarrow> [(''package_digest'', JStr d)]))"

definition package_identity_digest :: "oracle_package \<Rightarrow> string" where
  "package_identity_digest p =
     (case pk_package_digest p of
        None \<Rightarrow> json_digest (JObj (package_descriptor_dict p))
      | Some d \<Rightarrow> if d = [] then json_digest (JObj (package_descriptor_dict p)) else d)"

record projection_snapshot =
  ps_projection_id :: string
  ps_data :: json
  ps_state_digest :: string

definition make_projection_snapshot :: "string \<Rightarrow> json \<Rightarrow> string \<Rightarrow> (exn, projection_snapshot) result" where
  "make_projection_snapshot pid data dg =
     res_bind (raise_if (pid = []) (ValueError ''projection_id must be non-empty'')) (\<lambda>_.
     res_bind (require_sha256 dg ''projection state_digest'') (\<lambda>_.
     res_bind (raise_if (json_digest data \<noteq> dg) (ValueError (''projection digest mismatch: '' @ pid))) (\<lambda>_.
     Inr \<lparr>ps_projection_id = pid, ps_data = data, ps_state_digest = dg\<rparr>)))"

definition projection_snapshot_dict :: "projection_snapshot \<Rightarrow> json" where
  "projection_snapshot_dict s = JObj
     [(''projection_id'', JStr (ps_projection_id s)), (''data'', ps_data s), (''state_digest'', JStr (ps_state_digest s))]"

record oracle_context =
  oc_episode_id :: string
  oc_scenario_instance_digest :: string
  oc_manifest_digest :: string
  oc_inputs :: "(string \<times> json) list"
  oc_projections :: "(string \<times> projection_snapshot) list"

definition make_oracle_context :: "string \<Rightarrow> string \<Rightarrow> string \<Rightarrow> (string \<times> json) list \<Rightarrow>
    (string \<times> projection_snapshot) list \<Rightarrow> (exn, oracle_context) result" where
  "make_oracle_context eid sdigest mdigest inputs projections =
     res_bind (raise_if (eid = []) (ValueError ''oracle context episode_id must be non-empty'')) (\<lambda>_.
     res_bind (require_sha256 sdigest ''scenario_instance_digest'') (\<lambda>_.
     res_bind (require_sha256 mdigest ''manifest_digest'') (\<lambda>_.
     Inr \<lparr>oc_episode_id = eid, oc_scenario_instance_digest = sdigest, oc_manifest_digest = mdigest,
          oc_inputs = inputs, oc_projections = sort_key fst projections\<rparr>)))"

definition oracle_context_dict :: "oracle_context \<Rightarrow> json" where
  "oracle_context_dict c = JObj
     [(''episode_id'', JStr (oc_episode_id c)),
      (''scenario_instance_digest'', JStr (oc_scenario_instance_digest c)),
      (''manifest_digest'', JStr (oc_manifest_digest c)), (''inputs'', JObj (oc_inputs c)),
      (''projections'', JObj (map (\<lambda>(k, s). (k, projection_snapshot_dict s)) (oc_projections c)))]"

definition context_input_digest :: "oracle_context \<Rightarrow> string" where
  "context_input_digest c = json_digest (oracle_context_dict c)"

record oracle_request =
  rq_request_id :: string
  rq_package :: oracle_package
  rq_context :: oracle_context

definition make_oracle_request :: "string \<Rightarrow> oracle_package \<Rightarrow> oracle_context \<Rightarrow> (exn, oracle_request) result" where
  "make_oracle_request rid p c =
     res_bind (raise_if (rid = []) (ValueError ''oracle request_id must be non-empty'')) (\<lambda>_.
     Inr \<lparr>rq_request_id = rid, rq_package = p, rq_context = c\<rparr>)"

definition oracle_request_dict :: "oracle_request \<Rightarrow> (string \<times> json) list" where
  "oracle_request_dict r = [(''request_id'', JStr (rq_request_id r)),
     (''package'', package_dict (rq_package r)), (''context'', oracle_context_dict (rq_context r))]"

section \<open>Outputs and execution results\<close>

record oracle_payload =
  op_evidence_id :: string
  op_evidence_type :: string
  op_content :: bytes
  op_media_type :: string
  op_digest :: string
  op_classification :: string
  op_producer :: "string option"

definition make_oracle_payload :: "oracle_payload \<Rightarrow> (exn, oracle_payload) result" where
  "make_oracle_payload p =
     res_bind (raise_if (op_evidence_id p = []) (ValueError ''oracle evidence_id must be non-empty'')) (\<lambda>_.
     res_bind (raise_if (op_evidence_type p = []) (ValueError ''oracle evidence_type must be non-empty'')) (\<lambda>_.
     res_bind (make_artifact_ref (op_digest p) (int (length (op_content p))) (op_media_type p) None) (\<lambda>_.
     res_bind (raise_if (sha256_id (op_content p) \<noteq> op_digest p)
       (ValueError (''oracle evidence digest mismatch: '' @ op_evidence_id p))) (\<lambda>_.
     res_bind (raise_if (op_classification p = [])
       (ValueError ''oracle evidence classification must be non-empty'')) (\<lambda>_.
     res_bind (raise_if (op_producer p = Some [])
       (ValueError ''oracle evidence producer must be non-empty when present'')) (\<lambda>_.
     Inr p))))))"

definition verification_result_dict :: "verification_result \<Rightarrow> json" where
  "verification_result_dict r = JObj
     [(''claimId'', JStr (vr_claim_id r)), (''dimension'', JStr (vr_dimension r)),
      (''verdict'', JStr (vr_verdict r)), (''severity'', JStr (vr_severity r)), (''method'', JStr (vr_method r)),
      (''evaluatorVersion'', JStr (vr_evaluator_version r)), (''evidenceIds'', jstrs (vr_evidence_ids r)),
      (''confidence'', JFloat (vr_confidence r)), (''validity'', JStr (validity_value (vr_validity r)))]"

definition output_result_dict :: "verification_result \<Rightarrow> json" where
  "output_result_dict r = JObj
     [(''claim_id'', JStr (vr_claim_id r)), (''dimension'', JStr (vr_dimension r)),
      (''verdict'', JStr (vr_verdict r)), (''severity'', JStr (vr_severity r)), (''method'', JStr (vr_method r)),
      (''evaluator_version'', JStr (vr_evaluator_version r)), (''evidence_ids'', jstrs (vr_evidence_ids r)),
      (''confidence'', JFloat (vr_confidence r)), (''validity'', JStr (validity_value (vr_validity r)))]"

definition output_payload_dict :: "oracle_payload \<Rightarrow> json" where
  "output_payload_dict p = JObj
     [(''evidence_id'', JStr (op_evidence_id p)), (''type'', JStr (op_evidence_type p)),
      (''media_type'', JStr (op_media_type p)), (''digest'', JStr (op_digest p)),
      (''classification'', JStr (op_classification p)), (''producer'', opt_str (op_producer p))]"

definition oracle_output_digest :: "verification_result list \<Rightarrow> oracle_payload list \<Rightarrow> string" where
  "oracle_output_digest results payloads = json_digest (JObj
     [(''results'', JList (map output_result_dict results)),
      (''evidence'', JList (map output_payload_dict payloads))])"

record oracle_execution_artifact =
  xa_request_id :: string
  xa_oracle_package_digest :: string
  xa_oracle_code_digest :: string
  xa_runner_config_digest :: string
  xa_input_digest :: string
  xa_status :: oracle_execution_status
  xa_duration_ms :: int
  xa_exit_code :: "int option"
  xa_stdout_digest :: string
  xa_stderr_digest :: string
  xa_output_digest :: "string option"

definition execution_artifact_dict :: "oracle_execution_artifact \<Rightarrow> json" where
  "execution_artifact_dict a = JObj
     [(''request_id'', JStr (xa_request_id a)), (''oracle_package_digest'', JStr (xa_oracle_package_digest a)),
      (''oracle_code_digest'', JStr (xa_oracle_code_digest a)),
      (''runner_config_digest'', JStr (xa_runner_config_digest a)), (''input_digest'', JStr (xa_input_digest a)),
      (''status'', JStr (execution_status_value (xa_status a))), (''duration_ms'', JInt (xa_duration_ms a)),
      (''exit_code'', opt_int (xa_exit_code a)), (''stdout_digest'', JStr (xa_stdout_digest a)),
      (''stderr_digest'', JStr (xa_stderr_digest a)), (''output_digest'', opt_str (xa_output_digest a))]"

definition execution_record_digest :: "oracle_execution_artifact \<Rightarrow> string" where
  "execution_record_digest a = json_digest (execution_artifact_dict a)"

record oracle_execution_result =
  xr_request_id :: string
  xr_status :: oracle_execution_status
  xr_results :: "verification_result list"
  xr_evidence :: "oracle_payload list"
  xr_artifact :: oracle_execution_artifact

definition make_execution_result :: "oracle_execution_result \<Rightarrow> (exn, oracle_execution_result) result" where
  "make_execution_result x =
     res_bind (raise_if (xr_request_id x \<noteq> xa_request_id (xr_artifact x))
       (OracleExn OracleProtocolError ''Oracle execution request identity mismatch'')) (\<lambda>_.
     res_bind (raise_if (xr_status x \<noteq> xa_status (xr_artifact x))
       (OracleExn OracleProtocolError ''Oracle execution status and artifact status differ'')) (\<lambda>_.
     res_bind
       (if xr_status x = SUCCESS
        then raise_if (xa_output_digest (xr_artifact x) \<noteq> Some (oracle_output_digest (xr_results x) (xr_evidence x)))
               (OracleExn OracleProtocolError ''Oracle execution output digest mismatch'')
        else raise_if (xr_results x \<noteq> [] \<or> xr_evidence x \<noteq> [] \<or> xa_output_digest (xr_artifact x) \<noteq> None)
               (OracleExn OracleProtocolError ''failed Oracle execution cannot expose accepted output'')) (\<lambda>_.
     Inr x)))"

section \<open>The frozen evaluation record\<close>

record oracle_evaluation_record =
  er_oracle_id :: string
  er_oracle_version :: string
  er_package_digest :: string
  er_input_digest :: string
  er_execution_record_digest :: "string option"
  er_evaluation_validity :: validity
  er_task_verdict :: task_verdict
  er_accepted_results :: "verification_result list"
  er_evidence_ids :: "string list"
  er_validity_detail :: "validity_detail option"

definition make_evaluation_record :: "oracle_evaluation_record \<Rightarrow> (exn, oracle_evaluation_record) result" where
  "make_evaluation_record r =
     res_bind (raise_if (er_oracle_id r = [] \<or> er_oracle_version r = [])
       (ValueError ''Oracle evaluation identity fields must be non-empty'')) (\<lambda>_.
     res_bind (require_sha256 (er_package_digest r) ''Oracle evaluation package_digest'') (\<lambda>_.
     res_bind (require_sha256 (er_input_digest r) ''Oracle evaluation input_digest'') (\<lambda>_.
     res_bind (case er_execution_record_digest r of None \<Rightarrow> Inr ()
               | Some d \<Rightarrow> require_sha256 d ''Oracle evaluation execution_record_digest'') (\<lambda>_.
     res_bind (raise_if (er_evaluation_validity r \<noteq> VALID \<and> er_evaluation_validity r \<noteq> ORACLE_FAILURE)
       (ValueError ''Oracle evaluation validity must be VALID or ORACLE_FAILURE'')) (\<lambda>_.
     res_bind (raise_if (\<not> distinct (er_evidence_ids r))
       (ValueError ''Oracle evaluation evidence ids must be unique'')) (\<lambda>_.
     res_bind (raise_if (\<not> list_all (\<lambda>i. 1 \<le> length i \<and> length i \<le> 256) (er_evidence_ids r))
       (ValueError ''Oracle evaluation evidence ids must contain 1..256 characters'')) (\<lambda>_.
     res_bind (raise_if (list_ex (\<lambda>i. vr_validity i \<noteq> VALID) (er_accepted_results r))
       (ValueError ''accepted Oracle verification results must be VALID'')) (\<lambda>_.
     res_bind
       (if er_evaluation_validity r = ORACLE_FAILURE
        then res_bind (raise_if (er_validity_detail r = None)
               (ValueError ''ORACLE_FAILURE requires validity_detail'')) (\<lambda>_.
             res_bind (raise_if (er_task_verdict r \<noteq> INCONCLUSIVE)
               (ValueError ''ORACLE_FAILURE requires INCONCLUSIVE task verdict'')) (\<lambda>_.
             raise_if (er_accepted_results r \<noteq> [])
               (ValueError ''ORACLE_FAILURE cannot contain accepted results'')))
        else res_bind (raise_if (er_execution_record_digest r = None)
               (ValueError ''VALID Oracle evaluation requires execution_record_digest'')) (\<lambda>_.
             raise_if (er_validity_detail r \<noteq> None)
               (ValueError ''VALID Oracle evaluation cannot contain validity_detail''))) (\<lambda>_.
     Inr r)))))))))"

definition evaluation_record_dict :: "oracle_evaluation_record \<Rightarrow> json" where
  "evaluation_record_dict r = JObj
     ([(''oracle'', JObj [(''oracleId'', JStr (er_oracle_id r)), (''version'', JStr (er_oracle_version r)),
         (''packageDigest'', JStr (er_package_digest r))]),
       (''inputDigest'', JStr (er_input_digest r)),
       (''evaluationValidity'', JStr (validity_value (er_evaluation_validity r))),
       (''taskVerdict'', JStr (task_verdict_value (er_task_verdict r))),
       (''acceptedResults'', JList (map verification_result_dict (er_accepted_results r))),
       (''evidenceIds'', jstrs (er_evidence_ids r))] @
      (case er_execution_record_digest r of None \<Rightarrow> [] | Some d \<Rightarrow> [(''executionRecordDigest'', JStr d)]) @
      (case er_validity_detail r of None \<Rightarrow> [] | Some d \<Rightarrow> [(''validityDetail'', validity_detail_dict d)]))"

definition evaluation_record_digest :: "oracle_evaluation_record \<Rightarrow> string" where
  "evaluation_record_digest r = json_digest (evaluation_record_dict r)"

section \<open>Facts\<close>

text \<open>What the constructor guarantees of an evaluation record.\<close>

definition sound_evaluation_record :: "oracle_evaluation_record \<Rightarrow> bool" where
  "sound_evaluation_record r \<longleftrightarrow>
     (er_evaluation_validity r = VALID \<and> er_execution_record_digest r \<noteq> None \<and> er_validity_detail r = None \<and>
      (\<forall>i \<in> set (er_accepted_results r). vr_validity i = VALID)) \<or>
     (er_evaluation_validity r = ORACLE_FAILURE \<and> er_task_verdict r = INCONCLUSIVE \<and>
      er_accepted_results r = [] \<and> er_validity_detail r \<noteq> None)"

lemma require_sha256_ok [simp]: "require_sha256 v l = Inr u \<longleftrightarrow> is_sha256_text v"
  by (simp add: require_sha256_def)

lemma make_evaluation_record_sound:
  "make_evaluation_record r = Inr r' \<Longrightarrow> r' = r \<and> sound_evaluation_record r"
  by (cases "er_evaluation_validity r = ORACLE_FAILURE")
     (auto simp: make_evaluation_record_def sound_evaluation_record_def list_ex_iff)

lemma make_evaluation_record_invalid_result:
  assumes "er_oracle_id r \<noteq> []" "er_oracle_version r \<noteq> []" "is_sha256_text (er_package_digest r)"
    "is_sha256_text (er_input_digest r)" "er_execution_record_digest r = Some d" "is_sha256_text d"
    "er_evaluation_validity r = VALID" "distinct (er_evidence_ids r)"
    "list_all (\<lambda>i. 1 \<le> length i \<and> length i \<le> 256) (er_evidence_ids r)"
    "list_ex (\<lambda>i. vr_validity i \<noteq> VALID) (er_accepted_results r)"
  shows "make_evaluation_record r = Inl (ValueError ''accepted Oracle verification results must be VALID'')"
  using assms by (simp add: make_evaluation_record_def result_simps require_sha256_def)

lemma package_identity_digest_text:
  "make_oracle_package p = Inr q \<Longrightarrow> is_sha256_text (package_identity_digest q)"
  by (auto simp: make_oracle_package_def package_identity_digest_def split: option.splits)

lemma context_input_digest_text [simp]: "is_sha256_text (context_input_digest c)"
  by (simp add: context_input_digest_def)

section \<open>Properties\<close>

text \<open>The constructor of an Oracle evaluation record never adjusts what it is given, and accepts only sound
  records: a VALID one names its execution record, carries no failure detail and only VALID results; any other is an
  ORACLE_FAILURE with an INCONCLUSIVE verdict, a detail and no accepted result.\<close>

theorem evaluation_record_accepted_only_sound:
  "case make_evaluation_record r of
     Inl _ \<Rightarrow> True
   | Inr r' \<Rightarrow> r' = r \<and>
       ((er_evaluation_validity r = VALID \<and> er_execution_record_digest r \<noteq> None \<and> er_validity_detail r = None \<and>
         list_all (\<lambda>i. vr_validity i = VALID) (er_accepted_results r)) \<or>
        (er_evaluation_validity r = ORACLE_FAILURE \<and> er_task_verdict r = INCONCLUSIVE \<and>
         er_accepted_results r = [] \<and> er_validity_detail r \<noteq> None))"
  using make_evaluation_record_sound [of r]
  by (auto simp: sound_evaluation_record_def list_all_iff split: sum.splits)

end
