(* ===== verification/AVP_Boundary.thy ===== *)
theory AVP_Boundary
  imports AVP_OracleModels
begin

text \<open>
  The immutable value objects of the runtime's boundaries: \<^verbatim>\<open>environment/models.py\<close>,
  \<^verbatim>\<open>subject/models.py\<close> and \<^verbatim>\<open>scenario/models.py\<close>. Frozen mappings are the JSON data they freeze;
  a \<open>make_*\<close> definition is the dataclass with its \<open>__post_init__\<close> checks. Scenario documents
  reach the runtime schema-validated, so a projection reads lists and objects where the schema puts
  them.
\<close>

section \<open>Environment\<close>

datatype environment_capability = CapObserve | CapExecute | CapStateProjection | CapStateDigest | CapStateDiff
  | CapSnapshot | CapRestore | CapReset | CapFaultInjection | CapRelease

fun capability_value :: "environment_capability \<Rightarrow> string" where
  "capability_value CapObserve = ''observe''"
| "capability_value CapExecute = ''execute''"
| "capability_value CapStateProjection = ''state_projection''"
| "capability_value CapStateDigest = ''state_digest''"
| "capability_value CapStateDiff = ''state_diff''"
| "capability_value CapSnapshot = ''snapshot''"
| "capability_value CapRestore = ''restore''"
| "capability_value CapReset = ''reset''"
| "capability_value CapFaultInjection = ''fault_injection''"
| "capability_value CapRelease = ''release''"

datatype reset_target = INITIAL

fun reset_target_value :: "reset_target \<Rightarrow> string" where
  "reset_target_value INITIAL = ''INITIAL''"

datatype restore_equivalence = EXACT | STATE_EQUIVALENT | NON_EQUIVALENT

fun restore_equivalence_value :: "restore_equivalence \<Rightarrow> string" where
  "restore_equivalence_value EXACT = ''EXACT''"
| "restore_equivalence_value STATE_EQUIVALENT = ''STATE_EQUIVALENT''"
| "restore_equivalence_value NON_EQUIVALENT = ''NON_EQUIVALENT''"

record environment_description =
  ed_name :: string
  ed_version :: string
  ed_adapter :: string
  ed_capabilities :: "environment_capability list"
  ed_isolation :: string
  ed_protocol_version :: string
  ed_metadata :: json

definition make_environment_description :: "environment_description \<Rightarrow> (exn, environment_description) result" where
  "make_environment_description d =
     res_bind (raise_if (ed_name d = [] \<or> ed_version d = [] \<or> ed_adapter d = [])
       (ValueError ''environment description identity fields must be non-empty'')) (\<lambda>_.
     Inr (d\<lparr>ed_capabilities := sort_key capability_value (remdups (ed_capabilities d))\<rparr>))"

definition environment_supports :: "environment_description \<Rightarrow> environment_capability \<Rightarrow> bool" where
  "environment_supports d c \<longleftrightarrow> c \<in> set (ed_capabilities d)"

definition environment_description_dict :: "environment_description \<Rightarrow> json" where
  "environment_description_dict d = JObj
     [(''protocol_version'', JStr (ed_protocol_version d)), (''name'', JStr (ed_name d)),
      (''version'', JStr (ed_version d)), (''adapter'', JStr (ed_adapter d)),
      (''capabilities'', jstrs (map capability_value (ed_capabilities d))),
      (''isolation'', JStr (ed_isolation d)), (''metadata'', ed_metadata d)]"

definition environment_identity_digest :: "environment_description \<Rightarrow> string" where
  "environment_identity_digest d = json_digest (environment_description_dict d)"

record environment_handle =
  eh_handle_id :: string
  eh_adapter_name :: string
  eh_adapter_version :: string
  eh_scenario_digest :: string

record state_projection =
  sj_projection_id :: string
  sj_data :: json
  sj_digest :: string

record state_diff =
  df_projection_id :: "string option"
  df_before_digest :: string
  df_after_digest :: string
  df_changes :: "json list"

definition state_diff_dict :: "state_diff \<Rightarrow> json" where
  "state_diff_dict d = JObj
     [(''projection_id'', opt_str (df_projection_id d)), (''before_digest'', JStr (df_before_digest d)),
      (''after_digest'', JStr (df_after_digest d)), (''changes'', JList (df_changes d))]"

record snapshot_ref =
  sn_snapshot_id :: string
  sn_handle_id :: string
  sn_state_digest :: string
  sn_logical_time :: int
  sn_consistency :: string
  sn_adapter_name :: string

record reset_result =
  rs_handle_id :: string
  rs_target :: reset_target
  rs_before_digest :: string
  rs_after_digest :: string
  rs_equivalent_to_initial :: bool

record restore_result =
  rr_snapshot_id :: string
  rr_before_digest :: string
  rr_after_digest :: string
  rr_equivalence :: restore_equivalence

record tool_request =
  tq_actor_id :: string
  tq_name :: string
  tq_arguments :: "(string \<times> json) list"
  tq_correlation_id :: "string option"

definition make_tool_request :: "string \<Rightarrow> string \<Rightarrow> (string \<times> json) list \<Rightarrow> string option \<Rightarrow> (exn, tool_request) result" where
  "make_tool_request actor nm args cid =
     res_bind (raise_if (actor = [] \<or> nm = []) (ValueError ''tool request actor_id and name must be non-empty'')) (\<lambda>_.
     Inr \<lparr>tq_actor_id = actor, tq_name = nm, tq_arguments = args, tq_correlation_id = cid\<rparr>)"

record tool_result =
  tl_request :: tool_request
  tl_result :: json
  tl_before_digest :: string
  tl_after_digest :: string
  tl_diff :: "state_diff option"

record fault_spec =
  fs_kind :: string
  fs_target :: string
  fs_occurrence :: int
  fs_parameters :: json
  fs_visibility :: string

definition make_fault_spec :: "fault_spec \<Rightarrow> (exn, fault_spec) result" where
  "make_fault_spec f =
     res_bind (raise_if (fs_kind f = [] \<or> fs_target f = []) (ValueError ''fault kind and target must be non-empty'')) (\<lambda>_.
     res_bind (raise_if (fs_occurrence f < 1) (ValueError ''fault occurrence must be >= 1'')) (\<lambda>_.
     Inr f))"

record fault_handle =
  fh_fault_id :: string
  fh_handle_id :: string
  fh_kind :: string
  fh_target :: string

section \<open>Subject\<close>

datatype subject_status = SUBJECT_COMPLETED

fun subject_status_value :: "subject_status \<Rightarrow> string" where
  "subject_status_value SUBJECT_COMPLETED = ''COMPLETED''"

record subject_description =
  sd_name :: string
  sd_version :: string
  sd_adapter :: string
  sd_transport :: string
  sd_protocol_version :: string
  sd_metadata :: json

definition make_subject_description :: "subject_description \<Rightarrow> (exn, subject_description) result" where
  "make_subject_description d =
     res_bind (raise_if (sd_name d = [] \<or> sd_version d = [] \<or> sd_adapter d = [] \<or> sd_transport d = [])
       (ValueError ''subject description identity fields must be non-empty'')) (\<lambda>_. Inr d)"

definition subject_identity_digest :: "subject_description \<Rightarrow> string" where
  "subject_identity_digest d = json_digest (JObj
     [(''protocol_version'', JStr (sd_protocol_version d)), (''name'', JStr (sd_name d)),
      (''version'', JStr (sd_version d)), (''adapter'', JStr (sd_adapter d)),
      (''transport'', JStr (sd_transport d)), (''metadata'', sd_metadata d)])"

record subject_handle =
  sh_handle_id :: string
  sh_adapter_name :: string
  sh_adapter_version :: string
  sh_agent_system_digest :: string

record subject_invocation =
  si_episode_id :: string
  si_task :: json
  si_max_steps :: int
  si_timeout_seconds :: pyfloat

definition float_positive :: "pyfloat \<Rightarrow> bool" where
  "float_positive f \<longleftrightarrow> \<not> float_neg f \<and> float_digits f \<noteq> 0"

definition make_subject_invocation :: "string \<Rightarrow> json \<Rightarrow> int \<Rightarrow> pyfloat \<Rightarrow> (exn, subject_invocation) result" where
  "make_subject_invocation eid task steps timeout =
     res_bind (raise_if (eid = []) (ValueError ''episode_id must be non-empty'')) (\<lambda>_.
     res_bind (raise_if (steps < 1) (ValueError ''max_steps must be >= 1'')) (\<lambda>_.
     res_bind (raise_if (\<not> float_positive timeout) (ValueError ''timeout_seconds must be > 0'')) (\<lambda>_.
     Inr \<lparr>si_episode_id = eid, si_task = task, si_max_steps = steps, si_timeout_seconds = timeout\<rparr>)))"

definition subject_invocation_dict :: "subject_invocation \<Rightarrow> json" where
  "subject_invocation_dict i = JObj
     [(''episode_id'', JStr (si_episode_id i)), (''task'', si_task i), (''max_steps'', JInt (si_max_steps i)),
      (''timeout_seconds'', JFloat (si_timeout_seconds i))]"

record tool_call =
  tc_call_id :: string
  tc_name :: string
  tc_arguments :: "(string \<times> json) list"

definition make_tool_call :: "string \<Rightarrow> string \<Rightarrow> (string \<times> json) list \<Rightarrow> (exn, tool_call) result" where
  "make_tool_call cid nm args =
     res_bind (raise_if (cid = [] \<or> nm = []) (ValueError ''tool call id and name must be non-empty'')) (\<lambda>_.
     Inr \<lparr>tc_call_id = cid, tc_name = nm, tc_arguments = args\<rparr>)"

definition tool_call_dict :: "tool_call \<Rightarrow> json" where
  "tool_call_dict c = JObj
     [(''call_id'', JStr (tc_call_id c)), (''name'', JStr (tc_name c)), (''arguments'', JObj (tc_arguments c))]"

record subject_result =
  sr_status :: subject_status
  sr_report :: "string option"
  sr_steps :: int
  sr_metadata :: json

definition make_subject_result :: "subject_result \<Rightarrow> (exn, subject_result) result" where
  "make_subject_result r =
     res_bind (raise_if (sr_steps r < 0) (ValueError ''steps must be >= 0'')) (\<lambda>_. Inr r)"

section \<open>Scenario\<close>

record seed_bundle =
  sb_scenario :: int
  sb_environment :: int
  sb_data :: int
  sb_user :: int
  sb_adversary :: int
  sb_fault :: int
  sb_agent_sampling :: int
  sb_judge :: int

definition seed_bundle_dict :: "seed_bundle \<Rightarrow> json" where
  "seed_bundle_dict b = JObj
     [(''scenario'', JInt (sb_scenario b)), (''environment'', JInt (sb_environment b)), (''data'', JInt (sb_data b)),
      (''user'', JInt (sb_user b)), (''adversary'', JInt (sb_adversary b)), (''fault'', JInt (sb_fault b)),
      (''agent_sampling'', JInt (sb_agent_sampling b)), (''judge'', JInt (sb_judge b))]"

record resolved_reference =
  rf_path :: string
  rf_uri :: string
  rf_digest :: string
  rf_mode :: string
  rf_media_type :: "string option"
  rf_version :: "string option"

definition nonempty_member :: "string \<Rightarrow> string option \<Rightarrow> (string \<times> json) list" where
  "nonempty_member k x = (case x of None \<Rightarrow> [] | Some s \<Rightarrow> if s = [] then [] else [(k, JStr s)])"

definition resolved_reference_dict :: "resolved_reference \<Rightarrow> json" where
  "resolved_reference_dict r = JObj
     ([(''path'', JStr (rf_path r)), (''uri'', JStr (rf_uri r)), (''digest'', JStr (rf_digest r)),
       (''mode'', JStr (rf_mode r))] @
      nonempty_member ''media_type'' (rf_media_type r) @ nonempty_member ''version'' (rf_version r))"

record generator_record =
  gr_parameter :: string
  gr_type :: string
  gr_version :: string
  gr_seed :: int

definition generator_record_dict :: "generator_record \<Rightarrow> json" where
  "generator_record_dict g = JObj
     [(''parameter'', JStr (gr_parameter g)), (''generator_type'', JStr (gr_type g)),
      (''generator_version'', JStr (gr_version g)), (''seed'', JInt (gr_seed g))]"

record scenario_instance =
  sc_template_digest :: string
  sc_instance_digest :: string
  sc_document :: json

definition jget_default :: "json \<Rightarrow> string \<Rightarrow> json \<Rightarrow> json" where
  "jget_default v k d = (case jget v k of None \<Rightarrow> d | Some x \<Rightarrow> x)"

definition jindex :: "json \<Rightarrow> string \<Rightarrow> (exn, json) result" where
  "jindex v k = (case jget v k of None \<Rightarrow> Inl (KeyError (py_repr_str k)) | Some x \<Rightarrow> Inr x)"

definition jitems :: "json \<Rightarrow> json list" where
  "jitems v = (case v of JList xs \<Rightarrow> xs | _ \<Rightarrow> [])"

text \<open>\<open>ScenarioInstance.subject_projection\<close>: the members of the document the Agent may see.\<close>

definition scenario_subject_projection :: "string \<Rightarrow> scenario_instance \<Rightarrow> (exn, json) result" where
  "scenario_subject_projection actor s =
     (let doc = sc_document s;
          actors = filter (\<lambda>a. jget a ''id'' = Some (JStr actor)) (jitems (jget_default doc ''actors'' (JList [])));
          caps = jget_default (jget_default doc ''capabilities'' (JObj [])) actor (JObj [])
      in res_bind (jindex doc ''apiVersion'') (\<lambda>api.
         res_bind (jindex doc ''kind'') (\<lambda>kind.
         Inr (JObj [(''apiVersion'', api), (''kind'', kind),
           (''metadata'', jget_default doc ''metadata'' (JObj [])), (''task'', jget_default doc ''task'' (JObj [])),
           (''actors'', JList actors), (''capabilities'', JObj [(actor, caps)]),
           (''budgets'', jget_default doc ''budgets'' (JObj []))]))))"

lemma make_environment_description_caps:
  "make_environment_description d = Inr e \<Longrightarrow>
    distinct (ed_capabilities e) \<and> (environment_supports e c \<longleftrightarrow> environment_supports d c)"
  by (auto simp: make_environment_description_def environment_supports_def)

lemma identity_digests_text [simp]:
  "is_sha256_text (environment_identity_digest d)" "is_sha256_text (subject_identity_digest e)"
  by (simp_all add: environment_identity_digest_def subject_identity_digest_def)

end
