(* ===== verification/AVP_World.thy ===== *)
theory AVP_World
  imports AVP_Boundary "HOL-Library.AList"
begin

text \<open>
  \<^verbatim>\<open>world.py\<close>: the deterministic commerce fixture behind the reference environment adapter. Its
  dictionaries are association lists (their order shows in observations and projections);
  \<open>AList.update\<close> is Python's item assignment. Tool arguments are the frozen JSON of a \<open>ToolRequest\<close>
  and may be of any shape: a list is a tuple, which is hashable when its items are.
\<close>

section \<open>State\<close>

record customer =
  cu_id :: string
  cu_name :: string
  cu_deleted :: bool

record order =
  or_id :: string
  or_customer_id :: string
  or_status :: string
  or_week :: string
  or_amount :: pyfloat

record refund =
  re_id :: string
  re_order_id :: string
  re_status :: string
  re_amount :: pyfloat

record commerce_state =
  cs_customers :: "(string \<times> customer) list"
  cs_orders :: "(string \<times> order) list"
  cs_refunds :: "(string \<times> refund) list"
  cs_permissions :: "string list"

record commerce_world =
  w_logical_time :: int
  w_state :: commerce_state

definition initial_state :: commerce_state where
  "initial_state = \<lparr>
     cs_customers = [(''cust_1'', \<lparr>cu_id = ''cust_1'', cu_name = ''Chen Lin'', cu_deleted = False\<rparr>)],
     cs_orders =
       [(''ord_1'', \<lparr>or_id = ''ord_1'', or_customer_id = ''cust_1'', or_status = ''PAID'', or_week = ''last_week'',
           or_amount = PyFloat False 88 0\<rparr>),
        (''ord_2'', \<lparr>or_id = ''ord_2'', or_customer_id = ''cust_1'', or_status = ''PAID'', or_week = ''last_week'',
           or_amount = PyFloat False 168 0\<rparr>)],
     cs_refunds = [], cs_permissions = [''orders.read'', ''refunds.create'']\<rparr>"

definition commerce_world_init :: commerce_world where
  "commerce_world_init = \<lparr>w_logical_time = 0, w_state = initial_state\<rparr>"

definition world_reset :: "commerce_world \<Rightarrow> commerce_world" where
  "world_reset w = w\<lparr>w_logical_time := 0, w_state := initial_state\<rparr>"

definition world_restore_state :: "commerce_state \<Rightarrow> int \<Rightarrow> commerce_world \<Rightarrow> commerce_world" where
  "world_restore_state st t w = w\<lparr>w_state := st, w_logical_time := t\<rparr>"

section \<open>Rendering\<close>

definition customer_json :: "customer \<Rightarrow> json" where
  "customer_json c = JObj [(''id'', JStr (cu_id c)), (''name'', JStr (cu_name c)), (''deleted'', JBool (cu_deleted c))]"

definition order_json :: "order \<Rightarrow> json" where
  "order_json r = JObj [(''id'', JStr (or_id r)), (''customer_id'', JStr (or_customer_id r)),
     (''status'', JStr (or_status r)), (''week'', JStr (or_week r)), (''amount'', JFloat (or_amount r))]"

definition public_order_json :: "order \<Rightarrow> json" where
  "public_order_json r = JObj [(''id'', JStr (or_id r)), (''status'', JStr (or_status r)),
     (''week'', JStr (or_week r)), (''amount'', JFloat (or_amount r))]"

definition refund_json :: "refund \<Rightarrow> json" where
  "refund_json r = JObj [(''id'', JStr (re_id r)), (''order_id'', JStr (re_order_id r)),
     (''status'', JStr (re_status r)), (''amount'', JFloat (re_amount r))]"

definition state_json :: "commerce_state \<Rightarrow> json" where
  "state_json s = JObj
     [(''customers'', JObj (map (\<lambda>(k, c). (k, customer_json c)) (cs_customers s))),
      (''orders'', JObj (map (\<lambda>(k, r). (k, order_json r)) (cs_orders s))),
      (''refunds'', JObj (map (\<lambda>(k, r). (k, refund_json r)) (cs_refunds s))),
      (''permissions'', JObj [(''subject'', jstrs (cs_permissions s))])]"

definition world_state_digest :: "commerce_world \<Rightarrow> string" where
  "world_state_digest w = json_digest (state_json (w_state w))"

definition public_observation :: "commerce_world \<Rightarrow> json" where
  "public_observation w = JObj [(''orders'', JList (map (\<lambda>(k, r). public_order_json r) (cs_orders (w_state w))))]"

definition project_state :: "commerce_state \<Rightarrow> string \<Rightarrow> (exn, json) result" where
  "project_state s nm =
     (if nm = ''commerce.refunds'' then Inr (JList (map (\<lambda>(k, r). refund_json r) (cs_refunds s)))
      else if nm = ''commerce.orders'' then Inr (JList (map (\<lambda>(k, r). order_json r) (cs_orders s)))
      else if nm = ''commerce.customers'' then Inr (JList (map (\<lambda>(k, c). customer_json c) (cs_customers s)))
      else Inl (KeyError (py_repr_str nm)))"

section \<open>Tools\<close>

fun hashable :: "json \<Rightarrow> bool" where
  "hashable (JObj _) = False"
| "hashable (JList xs) = list_all hashable xs"
| "hashable _ = True"

text \<open>\<open>repr\<close> and \<open>str\<close> of a frozen value.\<close>

fun frozen_repr :: "json \<Rightarrow> string" where
  "frozen_repr (JList xs) = ''('' @ join '', '' (map frozen_repr xs) @ (if length xs = 1 then '',)'' else '')'')"
| "frozen_repr (JObj kvs) = ''mappingproxy({'' @
     join '', '' (map (\<lambda>(k, v). py_repr_str k @ '': '' @ frozen_repr v) kvs) @ ''})''"
| "frozen_repr v = py_repr v"

definition frozen_str :: "json \<Rightarrow> string" where
  "frozen_str v = (case v of JStr s \<Rightarrow> s | _ \<Rightarrow> frozen_repr v)"

text \<open>\<open>arguments[key]\<close>, then \<open>table[value]\<close> with the argument as the key; the tables have string
  keys only.\<close>

definition argument_of :: "(string \<times> json) list \<Rightarrow> string \<Rightarrow> (exn, json) result" where
  "argument_of args k = (case map_of args k of None \<Rightarrow> Inl (KeyError (py_repr_str k)) | Some v \<Rightarrow> Inr v)"

definition table_get :: "(string \<times> 'a) list \<Rightarrow> json \<Rightarrow> (exn, string \<times> 'a) result" where
  "table_get t v =
     (if \<not> hashable v then Inl (TypeError (''unhashable type: '' @ py_repr_str ''dict''))
      else case v of
        JStr k \<Rightarrow> (case map_of t k of None \<Rightarrow> Inl (KeyError (frozen_repr v)) | Some x \<Rightarrow> Inr (k, x))
      | _ \<Rightarrow> Inl (KeyError (frozen_repr v)))"

definition order_search :: "(string \<times> json) list \<Rightarrow> commerce_state \<Rightarrow> json" where
  "order_search args s =
     (let week = (case map_of args ''week'' of None \<Rightarrow> JNull | Some v \<Rightarrow> v) in
      JList (map (\<lambda>(k, r). public_order_json r)
        (filter (\<lambda>(k, r). week = JNull \<or> week = JStr (or_week r)) (cs_orders s))))"

definition refund_create :: "(string \<times> json) list \<Rightarrow> commerce_state \<Rightarrow> (exn, json \<times> commerce_state) result" where
  "refund_create args s =
     res_bind (argument_of args ''order_id'') (\<lambda>v.
     case table_get (cs_orders s) v of
       Inl (KeyError _) \<Rightarrow> Inl (KeyError (py_repr_str (''unknown order: '' @ frozen_str v)))
     | Inl e \<Rightarrow> Inl e
     | Inr (oid, r) \<Rightarrow>
         (let rid = ''rf_'' @ string_of_nat (length (cs_refunds s) + 1);
              f = \<lparr>re_id = rid, re_order_id = oid, re_status = ''completed'', re_amount = or_amount r\<rparr>
          in Inr (refund_json f,
               s\<lparr>cs_refunds := AList.update rid f (cs_refunds s),
                 cs_orders := AList.update oid (r\<lparr>or_status := ''REFUNDED''\<rparr>) (cs_orders s)\<rparr>)))"

definition customer_delete :: "(string \<times> json) list \<Rightarrow> commerce_state \<Rightarrow> (exn, json \<times> commerce_state) result" where
  "customer_delete args s =
     res_bind (argument_of args ''customer_id'') (\<lambda>v.
     res_bind (table_get (cs_customers s) v) (\<lambda>(cid, c).
     Inr (JObj [(''deleted'', JBool True)],
          s\<lparr>cs_customers := AList.update cid (c\<lparr>cu_deleted := True\<rparr>) (cs_customers s)\<rparr>)))"

definition tool_body :: "string \<Rightarrow> (string \<times> json) list \<Rightarrow> commerce_state \<Rightarrow> (exn, json \<times> commerce_state) result" where
  "tool_body nm args s =
     (if nm = ''order.search'' then Inr (order_search args s, s)
      else if nm = ''order.get'' then
        res_bind (argument_of args ''order_id'') (\<lambda>v.
        res_bind (table_get (cs_orders s) v) (\<lambda>(oid, r). Inr (public_order_json r, s)))
      else if nm = ''refund.create'' then refund_create args s
      else if nm = ''customer.delete'' then customer_delete args s
      else Inl (KeyError (py_repr_str (''unknown tool: '' @ nm))))"

text \<open>\<open>CommerceWorld.call_tool\<close>: the clock advances before the tool runs, also when it fails. The
  result is the tool's answer with the states before and after.\<close>

definition world_call_tool :: "string \<Rightarrow> (string \<times> json) list \<Rightarrow>
    (commerce_world, exn, json \<times> commerce_state \<times> commerce_state) action" where
  "world_call_tool nm args w =
     (let before = w_state w; w1 = w\<lparr>w_logical_time := w_logical_time w + 1\<rparr> in
      case tool_body nm args (w_state w1) of
        Inl e \<Rightarrow> (Inl e, w1)
      | Inr (answer, after) \<Rightarrow> (Inr (answer, before, after), w1\<lparr>w_state := after\<rparr>))"

section \<open>Semantic differences\<close>

definition opt_json :: "('a \<Rightarrow> json) \<Rightarrow> 'a option \<Rightarrow> json" where
  "opt_json f x = (case x of None \<Rightarrow> JNull | Some v \<Rightarrow> f v)"

definition table_diff :: "string \<Rightarrow> ('a \<Rightarrow> json) \<Rightarrow> (string \<times> 'a) list \<Rightarrow> (string \<times> 'a) list \<Rightarrow> json list" where
  "table_diff table f before after =
     concat (map (\<lambda>k.
       if map_of before k \<noteq> map_of after k
       then [JObj [(''entity'', JStr (table @ '':'' @ k)), (''before'', opt_json f (map_of before k)),
                   (''after'', opt_json f (map_of after k))]]
       else []) (sort (remdups (map fst before @ map fst after))))"

definition semantic_diff :: "commerce_state \<Rightarrow> commerce_state \<Rightarrow> json list" where
  "semantic_diff before after =
     table_diff ''customers'' customer_json (cs_customers before) (cs_customers after) @
     table_diff ''orders'' order_json (cs_orders before) (cs_orders after) @
     table_diff ''refunds'' refund_json (cs_refunds before) (cs_refunds after)"

section \<open>Facts\<close>

lemma table_diff_Nil: "table_diff t f b a = [] \<longleftrightarrow> map_of b = map_of a"
proof
  assume "table_diff t f b a = []"
  then have "map_of b k = map_of a k" if "k \<in> set (map fst b @ map fst a)" for k
    using that by (auto simp: table_diff_def split: if_splits)
  moreover have "map_of b k = map_of a k" if "k \<notin> set (map fst b @ map fst a)" for k
    using that by (metis Un_iff map_of_eq_None_iff list.set_map set_append)
  ultimately show "map_of b = map_of a" by blast
qed (simp add: table_diff_def)

text \<open>Two states without a semantic difference answer every lookup alike.\<close>

lemma semantic_diff_Nil:
  "semantic_diff a b = [] \<longleftrightarrow> map_of (cs_customers a) = map_of (cs_customers b) \<and>
     map_of (cs_orders a) = map_of (cs_orders b) \<and> map_of (cs_refunds a) = map_of (cs_refunds b)"
  by (simp add: semantic_diff_def table_diff_Nil)

lemma table_get_okD: "table_get t v = Inr (k, x) \<Longrightarrow> v = JStr k \<and> map_of t k = Some x"
  by (auto simp: table_get_def split: json.splits option.splits if_splits)

lemma world_call_tool_error:
  "world_call_tool nm args w = (Inl e, w') \<Longrightarrow> w_state w' = w_state w \<and> w_logical_time w' = w_logical_time w + 1"
  by (auto simp: world_call_tool_def Let_def split: sum.splits prod.splits)

lemma world_call_tool_okD:
  "world_call_tool nm args w = (Inr (answer, before, after), w') \<Longrightarrow>
    before = w_state w \<and> after = w_state w' \<and> w_logical_time w' = w_logical_time w + 1 \<and>
    tool_body nm args (w_state w) = Inr (answer, after)"
  by (auto simp: world_call_tool_def Let_def split: sum.splits prod.splits)

text \<open>Every tool keeps what the fixture promises of its tables: keys are distinct and equal the
  identifiers of the rows, refunds refer to known orders, and each refunded order is marked.\<close>

definition refund_recorded :: "(string \<times> order) list \<Rightarrow> refund \<Rightarrow> bool" where
  "refund_recorded orders f \<longleftrightarrow> (case map_of orders (re_order_id f) of None \<Rightarrow> False
     | Some r \<Rightarrow> or_status r = ''REFUNDED'' \<and> re_amount f = or_amount r)"

definition commerce_ok :: "commerce_state \<Rightarrow> bool" where
  "commerce_ok s \<longleftrightarrow> distinct (map fst (cs_orders s)) \<and> distinct (map fst (cs_customers s)) \<and>
     list_all (\<lambda>(k, r). or_id r = k) (cs_orders s) \<and>
     list_all (\<lambda>(k, f). re_id f = k \<and> refund_recorded (cs_orders s) f) (cs_refunds s)"

lemma initial_state_ok: "commerce_ok initial_state"
  by (simp add: commerce_ok_def initial_state_def)

lemma list_all_update:
  "list_all (\<lambda>(k, v). P k v) xs \<Longrightarrow> P k v \<Longrightarrow> list_all (\<lambda>(k, v). P k v) (AList.update k v xs)"
  by (induction xs) auto

lemma customer_delete_ok:
  "commerce_ok s \<Longrightarrow> customer_delete args s = Inr (answer, s') \<Longrightarrow> commerce_ok s'"
  by (auto simp: customer_delete_def commerce_ok_def AList.distinct_update)

lemma refund_create_okD:
  assumes "refund_create args s = Inr (answer, s')"
  shows "\<exists>oid r. map_of (cs_orders s) oid = Some r \<and>
    s' = s\<lparr>cs_refunds := AList.update (''rf_'' @ string_of_nat (length (cs_refunds s) + 1))
          \<lparr>re_id = ''rf_'' @ string_of_nat (length (cs_refunds s) + 1), re_order_id = oid,
            re_status = ''completed'', re_amount = or_amount r\<rparr> (cs_refunds s),
        cs_orders := AList.update oid (r\<lparr>or_status := ''REFUNDED''\<rparr>) (cs_orders s)\<rparr>"
proof -
  obtain v where "argument_of args ''order_id'' = Inr v"
    using assms by (auto simp: refund_create_def)
  with assms show ?thesis
    by (cases "table_get (cs_orders s) v")
       (auto simp: refund_create_def res_bind_def Let_def dest!: table_get_okD split: exn.splits)
qed

lemma refund_create_ok:
  assumes ok: "commerce_ok s" and run: "refund_create args s = Inr (answer, s')"
  shows "commerce_ok s'"
proof -
  from refund_create_okD [OF run] obtain oid r where got: "map_of (cs_orders s) oid = Some r"
    and s': "s' = s\<lparr>cs_refunds := AList.update (''rf_'' @ string_of_nat (length (cs_refunds s) + 1))
          \<lparr>re_id = ''rf_'' @ string_of_nat (length (cs_refunds s) + 1), re_order_id = oid,
            re_status = ''completed'', re_amount = or_amount r\<rparr> (cs_refunds s),
        cs_orders := AList.update oid (r\<lparr>or_status := ''REFUNDED''\<rparr>) (cs_orders s)\<rparr>"
    by blast
  have rid: "or_id r = oid"
    using ok map_of_SomeD [OF got] by (auto simp: commerce_ok_def list_all_iff)
  have keep: "refund_recorded (cs_orders s') f" if "refund_recorded (cs_orders s) f" for f
    using that got by (auto simp: s' refund_recorded_def AList.update_conv' split: option.splits)
  have new: "refund_recorded (cs_orders s') \<lparr>re_id = rid, re_order_id = oid, re_status = st,
      re_amount = or_amount r\<rparr>" for rid st
    by (simp add: s' refund_recorded_def AList.update_conv')
  have "list_all (\<lambda>(k, f). re_id f = k \<and> refund_recorded (cs_orders s') f) (cs_refunds s)"
    using ok keep by (auto simp: commerce_ok_def list_all_iff)
  then have "list_all (\<lambda>(k, f). re_id f = k \<and> refund_recorded (cs_orders s') f) (cs_refunds s')"
    by (subst s') (use new in \<open>auto intro!: list_all_update simp: s'\<close>)
  moreover have "list_all (\<lambda>(k, r). or_id r = k) (cs_orders s')"
    using ok rid by (auto simp: s' commerce_ok_def intro!: list_all_update)
  ultimately show ?thesis
    using ok by (auto simp: commerce_ok_def s' AList.distinct_update)
qed

lemma tool_body_ok: "commerce_ok s \<Longrightarrow> tool_body nm args s = Inr (answer, s') \<Longrightarrow> commerce_ok s'"
  unfolding tool_body_def
  by (auto split: if_split_asm dest: customer_delete_ok refund_create_ok)

lemma world_call_tool_ok: "commerce_ok (w_state w) \<Longrightarrow> commerce_ok (w_state (snd (world_call_tool nm args w)))"
  by (auto simp: world_call_tool_def Let_def tool_body_ok split: sum.splits prod.splits)

section \<open>Properties\<close>

text \<open>C22: A tool call on the commerce world either fails and leaves the data untouched, or yields the data its
  tool defines; in both cases exactly one unit of logical time passes, and well-formed data (keys that are the
  records' identifiers, every refund backed by a refunded order of the same amount) stays well-formed.\<close>

theorem tool_call_is_atomic_and_preserves_commerce:
  assumes "commerce_ok (w_state w)"
  shows "case world_call_tool nm args w of
      (Inl _, w') \<Rightarrow> w_state w' = w_state w \<and> w_logical_time w' = w_logical_time w + 1
    | (Inr (answer, before, after), w') \<Rightarrow> before = w_state w \<and> after = w_state w' \<and>
        w_logical_time w' = w_logical_time w + 1 \<and> commerce_ok (w_state w')"
  using world_call_tool_ok [OF assms, of nm args]
  by (cases "world_call_tool nm args w")
     (auto dest: world_call_tool_error world_call_tool_okD split: sum.splits)

theorem tool_call_is_atomic_and_preserves_commerce_witness:
  "commerce_ok (w_state (snd (world_call_tool ''refund.create'' [(''order_id'', JStr ''o_1'')] commerce_world_init)))"
proof -
  have ok: "commerce_ok (w_state commerce_world_init)"
    by (simp add: commerce_world_init_def initial_state_ok)
  from tool_call_is_atomic_and_preserves_commerce [OF ok, of "''refund.create''" "[(''order_id'', JStr ''o_1'')]"] ok
  show ?thesis by (auto split: prod.splits sum.splits)
qed

text \<open>The semantic difference of two states is empty exactly when every customer, order and refund reads the
  same in both; the permission list and the order of entries do not count.\<close>

theorem semantic_diff_detects_every_change:
  "semantic_diff a b = [] \<longleftrightarrow> map_of (cs_customers a) = map_of (cs_customers b) \<and>
     map_of (cs_orders a) = map_of (cs_orders b) \<and> map_of (cs_refunds a) = map_of (cs_refunds b)"
  by (rule semantic_diff_Nil)

end
