(* ===== verification/AVP_Environment.thy ===== *)
theory AVP_Environment
  imports AVP_World
begin

text \<open>
  \<^verbatim>\<open>environment/in_memory.py\<close>: the reference Environment Adapter over the commerce fixture, with its
  provisioned sessions, snapshots and scheduled faults. The hex digits of each \<open>uuid4\<close> are an
  argument. A locale states what the runtime relies on when it snapshots and restores, and the
  adapter is an instance of it.
\<close>

section \<open>State\<close>

definition supported_ref :: string where
  "supported_ref = ''env://commerce-reference@0.2.0''"

record stored_snapshot =
  ss_ref :: snapshot_ref
  ss_state :: commerce_state

record fault_rule =
  fr_handle :: fault_handle
  fr_spec :: fault_spec
  fr_calls_seen :: int

record commerce_session =
  se_world :: commerce_world
  se_scenario_digest :: string
  se_initial_digest :: string
  se_allowed_tools :: "(string \<times> string list) list"
  se_snapshots :: "(string \<times> stored_snapshot) list"
  se_faults :: "(string \<times> fault_rule) list"

type_synonym commerce_adapter = "string \<Rightarrow> commerce_session option"

definition commerce_name :: string where
  "commerce_name = ''commerce-reference''"

definition commerce_version :: string where
  "commerce_version = ''0.2.0''"

definition commerce_description :: environment_description where
  "commerce_description =
     \<lparr>ed_name = commerce_name, ed_version = commerce_version, ed_adapter = ''in-memory-commerce'',
      ed_capabilities = sort_key capability_value [CapObserve, CapExecute, CapStateProjection, CapStateDigest,
        CapStateDiff, CapSnapshot, CapRestore, CapReset, CapFaultInjection, CapRelease],
      ed_isolation = ''in-process-reference'', ed_protocol_version = ''avp.environment/v0.1'',
      ed_metadata = JObj [(''supported_environment_refs'', JList [JStr supported_ref]),
                          (''snapshot_fidelity'', JStr ''state-equivalent'')]\<rparr>"

definition quoted :: "string \<Rightarrow> string" where
  "quoted s = CHR 0x27 # s @ [CHR 0x27]"

section \<open>Provisioning and handles\<close>

text \<open>\<open>value.startswith("mcp://")\<close> implies that \<open>"/" in value\<close>.\<close>

definition granted_tool :: "json \<Rightarrow> string option" where
  "granted_tool item = (let v = frozen_str item in
     if take 6 v = ''mcp://'' \<and> CHR ''/'' \<in> set v then Some (after_last_slash v) else None)"

definition resolve_allowed_tools :: "scenario_instance \<Rightarrow> (string \<times> string list) list" where
  "resolve_allowed_tools s =
     (let caps = jget_default (sc_document s) ''capabilities'' (JObj []);
          actors = jitems (jget_default (sc_document s) ''actors'' (JList []))
      in fold (\<lambda>actor acc.
           let aid = frozen_str (jget_none actor ''id'');
               includes = jitems (jget_default (jget_default caps aid (JObj [])) ''include'' (JList []))
           in AList.update aid (List.map_filter granted_tool includes) acc) actors [])"

definition commerce_provision :: "string \<Rightarrow> scenario_instance \<Rightarrow> (commerce_adapter, exn, environment_handle) action" where
  "commerce_provision uuid s ad =
     (let ref = jget_none (jget_default (sc_document s) ''environment'' (JObj [])) ''ref'' in
      if ref \<noteq> JStr supported_ref
      then (Inl (EnvironmentExn UnsupportedEnvironmentError (''unsupported environment ref: '' @ frozen_repr ref)), ad)
      else let h = \<lparr>eh_handle_id = ''env_'' @ take 16 uuid, eh_adapter_name = commerce_name,
                    eh_adapter_version = commerce_version, eh_scenario_digest = sc_instance_digest s\<rparr>
           in (Inr h, ad(eh_handle_id h \<mapsto>
                \<lparr>se_world = commerce_world_init, se_scenario_digest = sc_instance_digest s,
                 se_initial_digest = world_state_digest commerce_world_init,
                 se_allowed_tools = resolve_allowed_tools s, se_snapshots = [], se_faults = []\<rparr>)))"

definition session_of :: "environment_handle \<Rightarrow> commerce_adapter \<Rightarrow> (exn, commerce_session) result" where
  "session_of h ad =
     (case ad (eh_handle_id h) of
        None \<Rightarrow> Inl (EnvironmentExn UnknownEnvironmentHandle (''unknown environment handle: '' @ eh_handle_id h))
      | Some se \<Rightarrow>
          (if eh_adapter_name h \<noteq> commerce_name \<or> eh_adapter_version h \<noteq> commerce_version
           then Inl (EnvironmentExn UnknownEnvironmentHandle
                  ''environment handle adapter identity does not match this adapter'')
           else if eh_scenario_digest h \<noteq> se_scenario_digest se
           then Inl (EnvironmentExn UnknownEnvironmentHandle
                  ''environment handle scenario digest does not match provisioned session'')
           else Inr se))"

definition save_session :: "environment_handle \<Rightarrow> commerce_session \<Rightarrow> commerce_adapter \<Rightarrow> commerce_adapter" where
  "save_session h se ad = ad(eh_handle_id h \<mapsto> se)"

text \<open>Methods run on the session object of the handle.\<close>

definition on_session :: "environment_handle \<Rightarrow> (commerce_session, exn, 'a) action \<Rightarrow> (commerce_adapter, exn, 'a) action" where
  "on_session h m ad = (case session_of h ad of
     Inl e \<Rightarrow> (Inl e, ad)
   | Inr se \<Rightarrow> (case m se of (r, se') \<Rightarrow> (r, save_session h se' ad)))"

definition commerce_reset :: "environment_handle \<Rightarrow> reset_target \<Rightarrow> (commerce_adapter, exn, reset_result) action" where
  "commerce_reset h target = on_session h (\<lambda>se.
     let before = world_state_digest (se_world se);
         se' = se\<lparr>se_world := world_reset (se_world se), se_faults := []\<rparr>;
         after = world_state_digest (se_world se')
     in (Inr \<lparr>rs_handle_id = eh_handle_id h, rs_target = target, rs_before_digest = before,
              rs_after_digest = after, rs_equivalent_to_initial = (after = se_initial_digest se')\<rparr>, se'))"

definition commerce_release :: "environment_handle \<Rightarrow> (commerce_adapter, exn, unit) action" where
  "commerce_release h ad = (case session_of h ad of
     Inl e \<Rightarrow> (Inl e, ad) | Inr se \<Rightarrow> (Inr (), ad(eh_handle_id h := None)))"

definition commerce_logical_time :: "environment_handle \<Rightarrow> commerce_adapter \<Rightarrow> (exn, int) result" where
  "commerce_logical_time h ad = res_bind (session_of h ad) (\<lambda>se. Inr (w_logical_time (se_world se)))"

definition commerce_observe :: "environment_handle \<Rightarrow> string \<Rightarrow> commerce_adapter \<Rightarrow> (exn, json) result" where
  "commerce_observe h actor ad = res_bind (session_of h ad) (\<lambda>se.
     if map_of (se_allowed_tools se) actor = None
     then Inl (EnvironmentExn ToolPermissionDenied (''unknown or unprovisioned actor: '' @ actor))
     else Inr (public_observation (se_world se)))"

section \<open>Faults and tool execution\<close>

definition fault_observations_of :: "fault_rule \<Rightarrow> fault_observation list" where
  "fault_observations_of r = map (\<lambda>p. \<lparr>fo_fault_id = fh_fault_id (fr_handle r), fo_phase = p,
       fo_kind = fs_kind (fr_spec r), fo_target = fs_target (fr_spec r)\<rparr>)
     [PhaseActivated, PhaseObserved, PhaseCleared]"

fun apply_fault_if_due :: "string \<Rightarrow> (string \<times> fault_rule) list \<Rightarrow> (exn, unit) result \<times> (string \<times> fault_rule) list" where
  "apply_fault_if_due tool [] = (Inr (), [])"
| "apply_fault_if_due tool ((fid, r) # rest) =
     (if fs_target (fr_spec r) \<noteq> tool
      then (case apply_fault_if_due tool rest of (x, rest') \<Rightarrow> (x, (fid, r) # rest'))
      else let r' = r\<lparr>fr_calls_seen := fr_calls_seen r + 1\<rparr> in
        if fr_calls_seen r' \<noteq> fs_occurrence (fr_spec r)
        then (case apply_fault_if_due tool rest of (x, rest') \<Rightarrow> (x, (fid, r') # rest'))
        else (Inl (ToolExecutionError
                (frozen_str (jget_default (fs_parameters (fr_spec r)) ''error'' (JStr ''injected tool failure'')))
                (fault_observations_of r')), rest))"

definition commerce_execute :: "environment_handle \<Rightarrow> tool_request \<Rightarrow> (commerce_adapter, exn, tool_result) action" where
  "commerce_execute h q = on_session h (\<lambda>se.
     if (case map_of (se_allowed_tools se) (tq_actor_id q) of None \<Rightarrow> True
         | Some tools \<Rightarrow> tq_name q \<notin> set tools)
     then (Inl (EnvironmentExn ToolPermissionDenied
            (''actor '' @ quoted (tq_actor_id q) @ '' cannot call tool '' @ quoted (tq_name q))), se)
     else case apply_fault_if_due (tq_name q) (se_faults se) of
       (Inl e, faults) \<Rightarrow> (Inl e, se\<lparr>se_faults := faults\<rparr>)
     | (Inr _, faults) \<Rightarrow>
        (case world_call_tool (tq_name q) (tq_arguments q) (se_world se) of
           (Inl e, w) \<Rightarrow> (Inl e, se\<lparr>se_faults := faults, se_world := w\<rparr>)
         | (Inr (answer, before, after), w) \<Rightarrow>
            (let before_digest = world_state_digest (se_world se);
                 after_digest = world_state_digest w;
                 changes = semantic_diff before after
             in (Inr \<lparr>tl_request = q, tl_result = answer, tl_before_digest = before_digest,
                      tl_after_digest = after_digest,
                      tl_diff = (if changes = [] then None
                        else Some \<lparr>df_projection_id = None, df_before_digest = before_digest,
                                   df_after_digest = after_digest, df_changes = changes\<rparr>)\<rparr>,
                 se\<lparr>se_faults := faults, se_world := w\<rparr>))))"

definition commerce_inject_fault :: "string \<Rightarrow> environment_handle \<Rightarrow> fault_spec \<Rightarrow>
    (commerce_adapter, exn, fault_handle) action" where
  "commerce_inject_fault uuid h f = on_session h (\<lambda>se.
     if fs_kind f \<noteq> ''tool.error''
     then (Inl (EnvironmentExn FaultInjectionError (''unsupported fault kind: '' @ fs_kind f)), se)
     else if fs_target f \<notin> set (concat (map snd (se_allowed_tools se)))
     then (Inl (EnvironmentExn FaultInjectionError (''fault target is not a provisioned tool: '' @ fs_target f)), se)
     else let fh = \<lparr>fh_fault_id = ''fault_'' @ take 12 uuid, fh_handle_id = eh_handle_id h, fh_kind = fs_kind f,
                    fh_target = fs_target f\<rparr>
          in (Inr fh, se\<lparr>se_faults := AList.update (fh_fault_id fh)
                 \<lparr>fr_handle = fh, fr_spec = f, fr_calls_seen = 0\<rparr> (se_faults se)\<rparr>))"

definition commerce_clear_fault :: "environment_handle \<Rightarrow> fault_handle \<Rightarrow> (commerce_adapter, exn, unit) action" where
  "commerce_clear_fault h f = on_session h (\<lambda>se.
     if fh_handle_id f \<noteq> eh_handle_id h
     then (Inl (EnvironmentExn FaultInjectionError ''fault handle belongs to a different environment''), se)
     else (Inr (), se\<lparr>se_faults := AList.delete (fh_fault_id f) (se_faults se)\<rparr>))"

section \<open>Projections, snapshots, differences\<close>

definition commerce_project :: "environment_handle \<Rightarrow> string \<Rightarrow> commerce_adapter \<Rightarrow> (exn, state_projection) result" where
  "commerce_project h pid ad = res_bind (session_of h ad) (\<lambda>se.
     res_bind (project_state (w_state (se_world se)) pid) (\<lambda>data.
     Inr \<lparr>sj_projection_id = pid, sj_data = data, sj_digest = json_digest data\<rparr>))"

definition commerce_digest :: "environment_handle \<Rightarrow> string option \<Rightarrow> commerce_adapter \<Rightarrow> (exn, string) result" where
  "commerce_digest h pid ad = res_bind (session_of h ad) (\<lambda>se.
     case pid of None \<Rightarrow> Inr (world_state_digest (se_world se))
     | Some p \<Rightarrow> res_bind (commerce_project h p ad) (\<lambda>pr. Inr (sj_digest pr)))"

definition stored_snapshot_of :: "environment_handle \<Rightarrow> snapshot_ref \<Rightarrow> commerce_session \<Rightarrow> (exn, stored_snapshot) result" where
  "stored_snapshot_of h r se =
     (if sn_handle_id r \<noteq> eh_handle_id h
      then Inl (EnvironmentExn SnapshotNotFoundError ''snapshot belongs to a different environment handle'')
      else case map_of (se_snapshots se) (sn_snapshot_id r) of
        None \<Rightarrow> Inl (EnvironmentExn SnapshotNotFoundError (''unknown or mismatched snapshot: '' @ sn_snapshot_id r))
      | Some st \<Rightarrow> (if ss_ref st \<noteq> r
          then Inl (EnvironmentExn SnapshotNotFoundError (''unknown or mismatched snapshot: '' @ sn_snapshot_id r))
          else Inr st))"

definition commerce_diff :: "environment_handle \<Rightarrow> snapshot_ref \<Rightarrow> snapshot_ref \<Rightarrow> string option \<Rightarrow>
    commerce_adapter \<Rightarrow> (exn, state_diff) result" where
  "commerce_diff h before after pid ad = res_bind (session_of h ad) (\<lambda>se.
     res_bind (stored_snapshot_of h before se) (\<lambda>b.
     res_bind (stored_snapshot_of h after se) (\<lambda>a.
     case pid of
       None \<Rightarrow> Inr \<lparr>df_projection_id = None, df_before_digest = sn_state_digest before,
                 df_after_digest = sn_state_digest after, df_changes = semantic_diff (ss_state b) (ss_state a)\<rparr>
     | Some p \<Rightarrow>
        res_bind (project_state (ss_state b) p) (\<lambda>bd.
        res_bind (project_state (ss_state a) p) (\<lambda>adt.
        Inr \<lparr>df_projection_id = Some p, df_before_digest = json_digest bd, df_after_digest = json_digest adt,
             df_changes = (if bd = adt then []
               else [JObj [(''projection'', JStr p), (''before'', bd), (''after'', adt)]])\<rparr>)))))"

definition commerce_snapshot :: "environment_handle \<Rightarrow> (commerce_adapter, exn, snapshot_ref) action" where
  "commerce_snapshot h = on_session h (\<lambda>se.
     let sid = ''snap_'' @ string_of_nat (length (se_snapshots se) + 1);
         r = \<lparr>sn_snapshot_id = sid, sn_handle_id = eh_handle_id h,
              sn_state_digest = world_state_digest (se_world se),
              sn_logical_time = w_logical_time (se_world se), sn_consistency = ''application-consistent'',
              sn_adapter_name = commerce_name\<rparr>
     in (Inr r, se\<lparr>se_snapshots := AList.update sid \<lparr>ss_ref = r, ss_state = w_state (se_world se)\<rparr> (se_snapshots se)\<rparr>))"

definition commerce_restore :: "environment_handle \<Rightarrow> snapshot_ref \<Rightarrow> (commerce_adapter, exn, restore_result) action" where
  "commerce_restore h r = on_session h (\<lambda>se.
     case stored_snapshot_of h r se of
       Inl e \<Rightarrow> (Inl e, se)
     | Inr st \<Rightarrow>
        (let before = world_state_digest (se_world se);
             se' = se\<lparr>se_world := world_restore_state (ss_state st) (sn_logical_time (ss_ref st)) (se_world se)\<rparr>;
             after = world_state_digest (se_world se')
         in (Inr \<lparr>rr_snapshot_id = sn_snapshot_id r, rr_before_digest = before, rr_after_digest = after,
                  rr_equivalence = (if after = sn_state_digest r then STATE_EQUIVALENT else NON_EQUIVALENT)\<rparr>, se')))"

section \<open>The contract of snapshots\<close>

text \<open>
  What the runtime relies on when it offers snapshot and restore: a snapshot remembers the view of
  the moment it was taken, later snapshots do not disturb it, restoring a held snapshot succeeds,
  brings the view back and says so, and an unknown snapshot is refused without an effect.
\<close>

locale snapshot_service =
  fixes snap :: "('s, exn, snapshot_ref) action"
    and restore :: "snapshot_ref \<Rightarrow> ('s, exn, restore_result) action"
    and view :: "'s \<Rightarrow> 'v"
    and held :: "'s \<Rightarrow> snapshot_ref \<Rightarrow> 'v option"
    and ok :: "'s \<Rightarrow> bool"
  assumes snap_ok: "ok s \<Longrightarrow> snap s = (Inr r, s') \<Longrightarrow> ok s' \<and> view s' = view s \<and> held s' r = Some (view s)"
    and snap_error: "snap s = (Inl e, s') \<Longrightarrow> s' = s"
    and snap_keeps: "ok s \<Longrightarrow> snap s = (Inr r, s') \<Longrightarrow> held s q = Some v \<Longrightarrow> held s' q = Some v"
    and restore_held: "ok s \<Longrightarrow> held s r = Some v \<Longrightarrow>
      \<exists>x s'. restore r s = (Inr x, s') \<and> ok s' \<and> view s' = v \<and> held s' = held s \<and>
        rr_equivalence x = STATE_EQUIVALENT"
    and restore_refused: "ok s \<Longrightarrow> held s r = None \<Longrightarrow> \<exists>e. restore r s = (Inl e, s)"
begin

definition preserving :: "'s \<Rightarrow> 's \<Rightarrow> bool" where
  "preserving s s' \<longleftrightarrow> (ok s \<longrightarrow> ok s' \<and> (\<forall>q v. held s q = Some v \<longrightarrow> held s' q = Some v))"

lemma preserving_refl: "preserving s s"
  by (simp add: preserving_def)

lemma preserving_trans: "preserving s t \<Longrightarrow> preserving t u \<Longrightarrow> preserving s u"
  by (auto simp: preserving_def)

lemma snap_preserving: "evolves preserving snap"
proof (rule evolvesI)
  fix s r s' assume "snap s = (r, s')"
  then show "preserving s s'"
    by (cases r) (auto simp: preserving_def dest: snap_error snap_ok snap_keeps)
qed

lemma restore_preserving: "evolves preserving (restore r)"
proof (rule evolvesI)
  fix s x s' assume run: "restore r s = (x, s')"
  show "preserving s s'"
  proof (cases "ok s")
    case True
    then show ?thesis
      using run restore_held [of s r] restore_refused [of s r]
      by (cases "held s r") (fastforce simp: preserving_def)+
  qed (simp add: preserving_def)
qed

lemma restore_after:
  assumes "ok s" "snap s = (Inr r, s1)" "preserving s1 s2"
  shows "\<exists>x s3. restore r s2 = (Inr x, s3) \<and> view s3 = view s \<and> rr_equivalence x = STATE_EQUIVALENT"
proof -
  from snap_ok [OF assms(1,2)] assms(3) have "ok s2" "held s2 r = Some (view s)"
    by (auto simp: preserving_def)
  then show ?thesis using restore_held by blast
qed

end

sublocale snapshot_service \<subseteq> kept: evolution preserving
  by unfold_locales (auto intro: preserving_refl preserving_trans)

section \<open>The adapter honours the contract\<close>

definition snapshot_key :: "nat \<Rightarrow> string" where
  "snapshot_key n = ''snap_'' @ string_of_nat n"

lemma snapshot_key_inject [simp]: "snapshot_key m = snapshot_key n \<longleftrightarrow> m = n"
  by (simp add: snapshot_key_def)

definition genuine_snapshot :: "environment_handle \<Rightarrow> string \<times> stored_snapshot \<Rightarrow> bool" where
  "genuine_snapshot h ks \<longleftrightarrow> sn_snapshot_id (ss_ref (snd ks)) = fst ks \<and>
     sn_handle_id (ss_ref (snd ks)) = eh_handle_id h \<and>
     sn_state_digest (ss_ref (snd ks)) = json_digest (state_json (ss_state (snd ks))) \<and>
     commerce_ok (ss_state (snd ks))"

definition session_ok :: "environment_handle \<Rightarrow> commerce_session \<Rightarrow> bool" where
  "session_ok h se \<longleftrightarrow> commerce_ok (w_state (se_world se)) \<and>
     se_initial_digest se = world_state_digest commerce_world_init \<and>
     map fst (se_snapshots se) = map snapshot_key [1..<Suc (length (se_snapshots se))] \<and>
     list_all (genuine_snapshot h) (se_snapshots se)"

definition commerce_ok_for :: "environment_handle \<Rightarrow> commerce_adapter \<Rightarrow> bool" where
  "commerce_ok_for h ad \<longleftrightarrow> (case session_of h ad of Inl _ \<Rightarrow> False | Inr se \<Rightarrow> session_ok h se)"

definition commerce_view :: "environment_handle \<Rightarrow> commerce_adapter \<Rightarrow> (commerce_state \<times> int) option" where
  "commerce_view h ad = (case session_of h ad of Inl _ \<Rightarrow> None
     | Inr se \<Rightarrow> Some (w_state (se_world se), w_logical_time (se_world se)))"

definition commerce_held :: "environment_handle \<Rightarrow> commerce_adapter \<Rightarrow> snapshot_ref \<Rightarrow>
    (commerce_state \<times> int) option option" where
  "commerce_held h ad r = (case session_of h ad of Inl _ \<Rightarrow> None
     | Inr se \<Rightarrow> (case stored_snapshot_of h r se of Inl _ \<Rightarrow> None
         | Inr st \<Rightarrow> Some (Some (ss_state st, sn_logical_time (ss_ref st)))))"

lemma session_of_save:
  "session_of h ad = Inr se \<Longrightarrow> se_scenario_digest se' = se_scenario_digest se \<Longrightarrow>
    session_of h (save_session h se' ad) = Inr se'"
  by (auto simp: session_of_def save_session_def split: option.splits if_splits)

lemma on_session_error: "session_of h ad = Inl e \<Longrightarrow> on_session h m ad = (Inl e, ad)"
  by (simp add: on_session_def)

lemma on_session_ok:
  "session_of h ad = Inr se \<Longrightarrow> m se = (r, se') \<Longrightarrow> on_session h m ad = (r, save_session h se' ad)"
  by (simp add: on_session_def)

text \<open>A session operation that leaves the snapshots alone and the fixture sound.\<close>

definition session_frame :: "commerce_session \<Rightarrow> commerce_session \<Rightarrow> bool" where
  "session_frame se se' \<longleftrightarrow> se_scenario_digest se' = se_scenario_digest se \<and>
     se_initial_digest se' = se_initial_digest se \<and> se_snapshots se' = se_snapshots se \<and>
     se_allowed_tools se' = se_allowed_tools se \<and>
     (commerce_ok (w_state (se_world se)) \<longrightarrow> commerce_ok (w_state (se_world se')))"

lemma session_frame_ok: "session_frame se se' \<Longrightarrow> session_ok h se \<Longrightarrow> session_ok h se'"
  by (simp add: session_frame_def session_ok_def)

lemma session_frame_stored: "session_frame se se' \<Longrightarrow> stored_snapshot_of h r se' = stored_snapshot_of h r se"
  by (simp add: session_frame_def stored_snapshot_of_def)

lemma snapshot_fresh:
  assumes "session_ok h se"
  shows "snapshot_key (Suc (length (se_snapshots se))) \<notin> set (map fst (se_snapshots se))"
proof -
  have "map fst (se_snapshots se) = map snapshot_key [1..<Suc (length (se_snapshots se))]"
    using assms by (simp add: session_ok_def)
  then show ?thesis by (auto simp del: upt_Suc)
qed

lemma update_fresh: "k \<notin> set (map fst xs) \<Longrightarrow> AList.update k v xs = xs @ [(k, v)]"
  by (induction xs) auto

lemma commerce_snapshot_session:
  assumes ok: "session_ok h se"
  shows "\<exists>r se'. (\<forall>ad. session_of h ad = Inr se \<longrightarrow> commerce_snapshot h ad = (Inr r, save_session h se' ad)) \<and>
    session_ok h se' \<and> se_world se' = se_world se \<and> se_scenario_digest se' = se_scenario_digest se \<and>
    stored_snapshot_of h r se' = Inr \<lparr>ss_ref = r, ss_state = w_state (se_world se)\<rparr> \<and>
    sn_logical_time r = w_logical_time (se_world se) \<and>
    (\<forall>q st. stored_snapshot_of h q se = Inr st \<longrightarrow> stored_snapshot_of h q se' = Inr st)"
proof -
  let ?k = "snapshot_key (Suc (length (se_snapshots se)))"
  let ?r = "\<lparr>sn_snapshot_id = ?k, sn_handle_id = eh_handle_id h,
      sn_state_digest = world_state_digest (se_world se), sn_logical_time = w_logical_time (se_world se),
      sn_consistency = ''application-consistent'', sn_adapter_name = commerce_name\<rparr>"
  let ?st = "\<lparr>ss_ref = ?r, ss_state = w_state (se_world se)\<rparr>"
  let ?se = "se\<lparr>se_snapshots := se_snapshots se @ [(?k, ?st)]\<rparr>"
  have fresh: "?k \<notin> set (map fst (se_snapshots se))" by (rule snapshot_fresh [OF ok])
  then have new: "map_of (se_snapshots se) ?k = None" by (simp add: map_of_eq_None_iff)
  have keys: "map fst (se_snapshots se) = map snapshot_key [1..<Suc (length (se_snapshots se))]"
    using ok by (simp add: session_ok_def)
  have "commerce_snapshot h ad = (Inr ?r, save_session h ?se ad)" if "session_of h ad = Inr se" for ad
    using that update_fresh [OF fresh]
    by (simp add: commerce_snapshot_def on_session_def Let_def snapshot_key_def)
  moreover have "session_ok h ?se"
    using ok keys by (auto simp: session_ok_def genuine_snapshot_def world_state_digest_def)
  moreover have "stored_snapshot_of h ?r ?se = Inr ?st"
    using new by (simp add: stored_snapshot_of_def map_add_def)
  moreover have "stored_snapshot_of h q se = Inr st \<longrightarrow> stored_snapshot_of h q ?se = Inr st" for q st
    using new by (auto simp: stored_snapshot_of_def map_add_def split: option.splits if_splits)
  ultimately show ?thesis
    by (intro exI [of _ ?r] exI [of _ ?se]) auto
qed

lemma stored_snapshot_genuine:
  assumes "session_ok h se" "stored_snapshot_of h r se = Inr st"
  shows "ss_ref st = r" and "sn_state_digest r = json_digest (state_json (ss_state st))"
    and "commerce_ok (ss_state st)"
  using assms
  by (auto simp: stored_snapshot_of_def session_ok_def list_all_iff genuine_snapshot_def
      dest!: map_of_SomeD split: if_splits option.splits)

interpretation commerce: snapshot_service "commerce_snapshot h" "commerce_restore h" "commerce_view h"
    "commerce_held h" "commerce_ok_for h" for h
proof
  fix s r s' assume ok: "commerce_ok_for h s" and run: "commerce_snapshot h s = (Inr r, s')"
  from ok obtain se where se: "session_of h s = Inr se" "session_ok h se"
    by (auto simp: commerce_ok_for_def split: sum.splits)
  from commerce_snapshot_session [OF se(2)] se(1) run obtain se' where
    "s' = save_session h se' s" "session_ok h se'" "se_world se' = se_world se"
    "se_scenario_digest se' = se_scenario_digest se" "sn_logical_time r = w_logical_time (se_world se)"
    "stored_snapshot_of h r se' = Inr \<lparr>ss_ref = r, ss_state = w_state (se_world se)\<rparr>"
    by fastforce
  with se show "commerce_ok_for h s' \<and> commerce_view h s' = commerce_view h s \<and>
      commerce_held h s' r = Some (commerce_view h s)"
    by (simp add: commerce_ok_for_def commerce_view_def commerce_held_def session_of_save)
next
  fix s e s' assume "commerce_snapshot h s = (Inl e, s')"
  then show "s' = s"
    by (auto simp: commerce_snapshot_def on_session_def Let_def split: sum.splits)
next
  fix s r s' q v
  assume ok: "commerce_ok_for h s" and run: "commerce_snapshot h s = (Inr r, s')"
    and held: "commerce_held h s q = Some v"
  from ok obtain se where se: "session_of h s = Inr se" "session_ok h se"
    by (auto simp: commerce_ok_for_def split: sum.splits)
  from commerce_snapshot_session [OF se(2)] se(1) run obtain se' where
    "s' = save_session h se' s" "se_scenario_digest se' = se_scenario_digest se"
    "\<forall>q st. stored_snapshot_of h q se = Inr st \<longrightarrow> stored_snapshot_of h q se' = Inr st"
    by fastforce
  with se held show "commerce_held h s' q = Some v"
    by (auto simp: commerce_held_def session_of_save split: sum.splits)
next
  fix s r v assume ok: "commerce_ok_for h s" and held: "commerce_held h s r = Some v"
  from ok obtain se where se: "session_of h s = Inr se" "session_ok h se"
    by (auto simp: commerce_ok_for_def split: sum.splits)
  with held obtain st where st: "stored_snapshot_of h r se = Inr st"
    and v: "v = Some (ss_state st, sn_logical_time (ss_ref st))"
    by (auto simp: commerce_held_def split: sum.splits)
  let ?se = "se\<lparr>se_world := world_restore_state (ss_state st) (sn_logical_time (ss_ref st)) (se_world se)\<rparr>"
  note genuine = stored_snapshot_genuine [OF se(2) st]
  have frame: "session_frame se ?se" using genuine by (simp add: session_frame_def world_restore_state_def)
  have "\<exists>x. commerce_restore h r s = (Inr x, save_session h ?se s) \<and> rr_equivalence x = STATE_EQUIVALENT"
    using se st genuine
    by (simp add: commerce_restore_def on_session_def Let_def world_state_digest_def world_restore_state_def)
  moreover have "session_of h (save_session h ?se s) = Inr ?se" by (rule session_of_save [OF se(1)]) simp
  moreover have "commerce_view h (save_session h ?se s) = v"
    using calculation(2) v by (simp add: commerce_view_def world_restore_state_def)
  moreover have "commerce_held h (save_session h ?se s) = commerce_held h s"
    using calculation(2) se session_frame_stored [OF frame] by (simp add: commerce_held_def fun_eq_iff)
  ultimately show "\<exists>x s'. commerce_restore h r s = (Inr x, s') \<and> commerce_ok_for h s' \<and> commerce_view h s' = v \<and>
      commerce_held h s' = commerce_held h s \<and> rr_equivalence x = STATE_EQUIVALENT"
    using session_frame_ok [OF frame se(2)] by (auto simp: commerce_ok_for_def)
next
  fix s r assume ok: "commerce_ok_for h s" and none: "commerce_held h s r = None"
  from ok obtain se where se: "session_of h s = Inr se" "session_ok h se"
    by (auto simp: commerce_ok_for_def split: sum.splits)
  with none obtain e where "stored_snapshot_of h r se = Inl e"
    by (auto simp: commerce_held_def split: sum.splits)
  moreover have "save_session h se s = s"
    using se(1) by (auto simp: session_of_def save_session_def fun_eq_iff split: option.splits if_splits)
  ultimately show "\<exists>e. commerce_restore h r s = (Inl e, s)"
    using se by (simp add: commerce_restore_def on_session_def)
qed

section \<open>All operations of a provisioned environment\<close>

datatype adapter_op = ExecuteOp tool_request | ResetOp | SnapshotOp | RestoreOp snapshot_ref
  | InjectOp string fault_spec | ClearOp fault_handle

fun run_adapter_op :: "environment_handle \<Rightarrow> adapter_op \<Rightarrow> (commerce_adapter, exn, unit) action" where
  "run_adapter_op h (ExecuteOp q) = act_bind (commerce_execute h q) (\<lambda>_. act_return ())"
| "run_adapter_op h ResetOp = act_bind (commerce_reset h INITIAL) (\<lambda>_. act_return ())"
| "run_adapter_op h SnapshotOp = act_bind (commerce_snapshot h) (\<lambda>_. act_return ())"
| "run_adapter_op h (RestoreOp r) = act_bind (commerce_restore h r) (\<lambda>_. act_return ())"
| "run_adapter_op h (InjectOp u f) = act_bind (commerce_inject_fault u h f) (\<lambda>_. act_return ())"
| "run_adapter_op h (ClearOp f) = commerce_clear_fault h f"

text \<open>A run of operations, each of which may fail: a failed call is caught by the caller and the
  next one follows.\<close>

definition run_adapter_ops :: "environment_handle \<Rightarrow> adapter_op list \<Rightarrow> (commerce_adapter, exn, unit) action" where
  "run_adapter_ops h ops = act_each (\<lambda>op. act_try (run_adapter_op h op) (\<lambda>_. act_return ())) ops"

lemma on_session_preserving:
  assumes "\<And>se r se'. m se = (r, se') \<Longrightarrow> session_frame se se'"
  shows "evolves (commerce.preserving h) (on_session h m)"
proof (rule evolvesI)
  fix ad r ad' assume run: "on_session h m ad = (r, ad')"
  show "commerce.preserving h ad ad'"
  proof (cases "session_of h ad")
    case (Inl e)
    with run show ?thesis by (simp add: on_session_def commerce.preserving_refl)
  next
    case (Inr se)
    obtain x se' where m: "m se = (x, se')" by (cases "m se")
    with Inr run have ad': "ad' = save_session h se' ad" by (simp add: on_session_def)
    have frame: "session_frame se se'" using m by (rule assms)
    then have "session_of h ad' = Inr se'"
      unfolding ad' by (intro session_of_save [OF Inr]) (simp add: session_frame_def)
    with Inr frame show ?thesis
      by (auto simp: commerce.preserving_def commerce_ok_for_def commerce_held_def session_frame_ok
          session_frame_stored)
  qed
qed

lemma session_frame_refl: "session_frame se se"
  by (simp add: session_frame_def)

lemma execute_preserving: "evolves (commerce.preserving h) (commerce_execute h q)"
proof -
  have world: "commerce_ok (w_state w') "
    if "world_call_tool nm args w = (x, w')" "commerce_ok (w_state w)" for nm args w x w'
    using world_call_tool_ok [OF that(2), of nm args] that(1) by simp
  show ?thesis
    unfolding commerce_execute_def
    by (rule on_session_preserving)
       (auto simp: session_frame_def Let_def dest: world split: if_splits sum.splits prod.splits)
qed

lemma reset_preserving: "evolves (commerce.preserving h) (commerce_reset h t)"
  unfolding commerce_reset_def
  by (rule on_session_preserving)
     (auto simp: session_frame_def Let_def world_reset_def initial_state_ok)

lemma inject_fault_preserving: "evolves (commerce.preserving h) (commerce_inject_fault u h f)"
  unfolding commerce_inject_fault_def
  by (rule on_session_preserving) (auto simp: session_frame_def Let_def split: if_splits)

lemma clear_fault_preserving: "evolves (commerce.preserving h) (commerce_clear_fault h f)"
  unfolding commerce_clear_fault_def
  by (rule on_session_preserving) (auto simp: session_frame_def split: if_splits)

lemma adapter_op_preserving: "evolves (commerce.preserving h) (run_adapter_op h op)"
  by (cases op)
     (auto intro!: commerce.kept.bind commerce.kept.return execute_preserving reset_preserving
       commerce.snap_preserving commerce.restore_preserving inject_fault_preserving clear_fault_preserving)

lemma adapter_ops_preserving: "evolves (commerce.preserving h) (run_adapter_ops h ops)"
  unfolding run_adapter_ops_def
  by (intro commerce.kept.each commerce.kept.try_act commerce.kept.return adapter_op_preserving)

lemma provision_ok:
  assumes "commerce_provision uuid s ad = (Inr h, ad')"
  shows "commerce_ok_for h ad'"
  using assms
  by (auto simp: commerce_provision_def commerce_ok_for_def session_of_def session_ok_def Let_def
      commerce_world_init_def initial_state_ok split: if_splits)

section \<open>Faults\<close>

text \<open>Without a rule for the tool nothing happens; the due rule fires once and is gone.\<close>

lemma apply_fault_other:
  "list_all (\<lambda>(_, r). fs_target (fr_spec r) \<noteq> tool) faults \<Longrightarrow> apply_fault_if_due tool faults = (Inr (), faults)"
  by (induction faults) auto

lemma apply_fault_error_shrinks:
  "apply_fault_if_due tool faults = (Inl e, faults') \<Longrightarrow> length faults = Suc (length faults')"
  by (induction faults arbitrary: faults') (auto simp: Let_def split: if_splits prod.splits)

lemma apply_fault_error:
  "apply_fault_if_due tool faults = (Inl e, faults') \<Longrightarrow>
    \<exists>fid r msg. (fid, r) \<in> set faults \<and> fs_target (fr_spec r) = tool \<and>
      fr_calls_seen r + 1 = fs_occurrence (fr_spec r) \<and> e = ToolExecutionError msg (fault_observations_of r)"
proof (induction faults arbitrary: faults')
  case (Cons x faults)
  obtain fid r where x: "x = (fid, r)" by (cases x)
  show ?case
  proof (cases "fs_target (fr_spec r) = tool \<and> fr_calls_seen r + 1 = fs_occurrence (fr_spec r)")
    case True
    with Cons.prems x show ?thesis
      by - (rule exI [of _ fid], rule exI [of _ r], auto simp: Let_def fault_observations_of_def)
  next
    case False
    with Cons.prems x obtain rest where "apply_fault_if_due tool faults = (Inl e, rest)"
      by (auto simp: Let_def split: if_splits prod.splits)
    from Cons.IH [OF this] show ?thesis by (metis list.set_intros(2))
  qed
qed simp

text \<open>A single fault on a tool, counted over the calls of that tool.\<close>

fun fault_calls :: "string \<Rightarrow> nat \<Rightarrow> (string \<times> fault_rule) list \<Rightarrow> (exn, unit) result \<times> (string \<times> fault_rule) list" where
  "fault_calls tool 0 faults = (Inr (), faults)"
| "fault_calls tool (Suc n) faults = (case fault_calls tool n faults of
     (Inl e, f) \<Rightarrow> (Inl e, f) | (Inr _, f) \<Rightarrow> apply_fault_if_due tool f)"

lemma fault_calls_pending:
  "fs_target (fr_spec r) = tool \<Longrightarrow> fr_calls_seen r + int n < fs_occurrence (fr_spec r) \<Longrightarrow>
    fault_calls tool n [(fid, r)] = (Inr (), [(fid, r\<lparr>fr_calls_seen := fr_calls_seen r + int n\<rparr>)])"
  by (induction n) (simp_all add: Let_def)

lemma fault_fires_at_occurrence:
  assumes "fs_target (fr_spec r) = tool" "fr_calls_seen r = 0" "fs_occurrence (fr_spec r) = int (Suc n)"
  shows "\<exists>msg. fault_calls tool (Suc n) [(fid, r)] = (Inl (ToolExecutionError msg (fault_observations_of r)), [])"
  using assms fault_calls_pending [of r tool n fid]
  by (simp add: Let_def fault_observations_of_def)

section \<open>Properties\<close>

lemma adapter_ops_result: "commerce.preserving h ad (snd (run_adapter_ops h ops ad))"
  using adapter_ops_preserving [of h ops] by (rule evolves_at)

text \<open>C21: Snapshots are exact and durable: after provisioning and any operations a snapshot succeeds, and after
  any further operations (tool calls, resets, faults, snapshots and restores, failing ones included) restoring it
  succeeds, brings back the data and the logical time of the snapshot, and reports state equivalence.\<close>

theorem restore_returns_to_snapshot:
  assumes prov: "commerce_provision uuid sc ad = (Inr h, a0)"
  shows "\<exists>r a2. commerce_snapshot h (snd (run_adapter_ops h ops a0)) = (Inr r, a2) \<and>
    (\<exists>x a4. commerce_restore h r (snd (run_adapter_ops h later a2)) = (Inr x, a4) \<and>
       commerce_view h a4 = commerce_view h (snd (run_adapter_ops h ops a0)) \<and>
       rr_equivalence x = STATE_EQUIVALENT)"
proof -
  let ?a1 = "snd (run_adapter_ops h ops a0)"
  have ok: "commerce_ok_for h ?a1"
    using provision_ok [OF prov] adapter_ops_result [of h a0 ops] by (simp add: commerce.preserving_def)
  then obtain se where se: "session_of h ?a1 = Inr se" "session_ok h se"
    by (auto simp: commerce_ok_for_def split: sum.splits)
  with commerce_snapshot_session [OF se(2)] obtain r a2 where snap: "commerce_snapshot h ?a1 = (Inr r, a2)" by blast
  from commerce.restore_after [OF ok snap adapter_ops_result] snap show ?thesis by blast
qed

theorem restore_returns_to_snapshot_witness:
  "\<exists>h a0 r a2 x a4. commerce_provision ''0123456789abcdef'' \<lparr>sc_template_digest = ''t'', sc_instance_digest = ''i'',
       sc_document = JObj [(''environment'', JObj [(''ref'', JStr supported_ref)])]\<rparr> Map.empty = (Inr h, a0) \<and>
     commerce_snapshot h (snd (run_adapter_ops h [SnapshotOp] a0)) = (Inr r, a2) \<and>
     commerce_restore h r (snd (run_adapter_ops h [ResetOp, RestoreOp r] a2)) = (Inr x, a4)"
proof -
  obtain h a0 where prov: "commerce_provision ''0123456789abcdef'' \<lparr>sc_template_digest = ''t'', sc_instance_digest = ''i'',
       sc_document = JObj [(''environment'', JObj [(''ref'', JStr supported_ref)])]\<rparr> Map.empty = (Inr h, a0)"
    by (simp add: commerce_provision_def jget_default_def jget_none_def Let_def)
  from restore_returns_to_snapshot [OF prov, of "[SnapshotOp]"] obtain r a2 where
    snap: "commerce_snapshot h (snd (run_adapter_ops h [SnapshotOp] a0)) = (Inr r, a2)" by blast
  from restore_returns_to_snapshot [OF prov, of "[SnapshotOp]" "[ResetOp, RestoreOp r]"] prov snap show ?thesis
    by fastforce
qed

text \<open>A single fault fires exactly at its occurrence: the calls before it pass, the call that reaches it
  fails with the fault's observations, and the fault is then gone.\<close>

theorem fault_fires_exactly_at_occurrence:
  assumes "fs_target (fr_spec r) = tool" "fr_calls_seen r = 0" "fs_occurrence (fr_spec r) = int (Suc n)" "m \<le> n"
  shows "fst (fault_calls tool m [(fid, r)]) = Inr () \<and>
    (\<exists>msg. fault_calls tool (Suc n) [(fid, r)] = (Inl (ToolExecutionError msg (fault_observations_of r)), []))"
  using fault_calls_pending [of r tool m fid] fault_fires_at_occurrence [OF assms(1-3)] assms by simp

theorem fault_fires_exactly_at_occurrence_witness:
  "fst (fault_calls ''t'' 1 [(''f'', \<lparr>fr_handle = \<lparr>fh_fault_id = ''f'', fh_handle_id = ''h'', fh_kind = ''k'', fh_target = ''t''\<rparr>, fr_spec =
     \<lparr>fs_kind = ''k'', fs_target = ''t'', fs_occurrence = 3, fs_parameters = JObj [], fs_visibility = ''v''\<rparr>,
     fr_calls_seen = 0\<rparr>)]) = Inr ()"
  by (rule fault_fires_exactly_at_occurrence [where n = 2, THEN conjunct1]) simp_all

end
