(* ===== verification/AVP_Telemetry.thy ===== *)
theory AVP_Telemetry
  imports AVP_Models
begin

text \<open>
  Verification telemetry: \<^verbatim>\<open>telemetry/models.py\<close> (policy, description, the payload of the
  telemetry Artifact) and \<^verbatim>\<open>telemetry/bridge.py\<close> (the no-op session and the OpenTelemetry
  session). The OpenTelemetry SDK is third-party code and enters as the record \<open>otel_lib\<close>: the
  span context of the root span, what the propagator writes into a carrier for that context, and
  how many finished spans of this trace the exporter reports after a number of span ends.
\<close>

section \<open>Configuration and payload\<close>

datatype telemetry_completeness = BEST_EFFORT | COMPLETE | INCOMPLETE | REQUIRED_MISSING

fun completeness_value :: "telemetry_completeness \<Rightarrow> string" where
  "completeness_value BEST_EFFORT = ''BEST_EFFORT''"
| "completeness_value COMPLETE = ''COMPLETE''"
| "completeness_value INCOMPLETE = ''INCOMPLETE''"
| "completeness_value REQUIRED_MISSING = ''REQUIRED_MISSING''"

record telemetry_policy =
  tp_required :: bool
  tp_capture_sensitive :: bool
  tp_max_attribute_length :: int
  tp_required_event_types :: "string list"

definition default_required_event_types :: "string list" where
  "default_required_event_types =
     [''episode.created'', ''episode.started'', ''agent.invocation.completed'', ''oracle.execution.completed'']"

definition make_telemetry_policy :: "telemetry_policy \<Rightarrow> (exn, telemetry_policy) result" where
  "make_telemetry_policy p =
     res_bind (raise_if (tp_max_attribute_length p < 32) (ValueError ''max_attribute_length must be >= 32'')) (\<lambda>_.
     res_bind (raise_if (tp_capture_sensitive p)
       (ValueError ''raw sensitive telemetry capture is not supported by the reference bridge'')) (\<lambda>_.
     res_bind (raise_if (list_ex (\<lambda>x. x = []) (tp_required_event_types p))
       (ValueError ''required telemetry event types must be non-empty'')) (\<lambda>_.
     res_bind (raise_if (\<not> distinct (tp_required_event_types p))
       (ValueError ''required telemetry event types must be unique'')) (\<lambda>_.
     Inr p))))"

record telemetry_description =
  td_name :: string
  td_version :: string
  td_implementation :: string
  td_policy :: telemetry_policy

definition telemetry_identity_digest :: "telemetry_description \<Rightarrow> string" where
  "telemetry_identity_digest d = json_digest (JObj
     [(''name'', JStr (td_name d)), (''version'', JStr (td_version d)),
      (''implementation'', JStr (td_implementation d)),
      (''policy'', JObj
         [(''required'', JBool (tp_required (td_policy d))),
          (''capture_sensitive_payloads'', JBool (tp_capture_sensitive (td_policy d))),
          (''max_attribute_length'', JInt (tp_max_attribute_length (td_policy d))),
          (''required_event_types'', JList (map JStr (tp_required_event_types (td_policy d))))])])"

record telemetry_artifact =
  ta_episode_id :: string
  ta_trace_id :: "string option"
  ta_root_span_id :: "string option"
  ta_recorded_events :: nat
  ta_propagated_requests :: nat
  ta_completeness :: telemetry_completeness
  ta_span_count :: nat

definition telemetry_artifact_dict :: "telemetry_artifact \<Rightarrow> json" where
  "telemetry_artifact_dict a = JObj
     [(''episode_id'', JStr (ta_episode_id a)), (''trace_id'', opt_str (ta_trace_id a)),
      (''root_span_id'', opt_str (ta_root_span_id a)), (''recorded_events'', JInt (int (ta_recorded_events a))),
      (''propagated_requests'', JInt (int (ta_propagated_requests a))),
      (''completeness'', JStr (completeness_value (ta_completeness a))),
      (''span_count'', JInt (int (ta_span_count a)))]"

section \<open>The no-op session\<close>

definition auto_finalize_events :: "string list" where
  "auto_finalize_events = [''episode.completed'', ''episode.invalid'']"

record noop_session =
  ns_episode_id :: string
  ns_required :: bool
  ns_events :: nat
  ns_artifact :: "telemetry_artifact option"

definition noop_finalize :: "noop_session \<Rightarrow> telemetry_artifact \<times> noop_session" where
  "noop_finalize s = (case ns_artifact s of
     Some a \<Rightarrow> (a, s)
   | None \<Rightarrow> (let a = \<lparr>ta_episode_id = ns_episode_id s, ta_trace_id = None, ta_root_span_id = None,
        ta_recorded_events = ns_events s, ta_propagated_requests = 0,
        ta_completeness = (if ns_required s then REQUIRED_MISSING else BEST_EFFORT), ta_span_count = 0\<rparr>
      in (a, s\<lparr>ns_artifact := Some a\<rparr>)))"

definition noop_record_event :: "avp_event \<Rightarrow> noop_session \<Rightarrow> noop_session" where
  "noop_record_event e s =
     (if ns_artifact s \<noteq> None then s
      else let s' = s\<lparr>ns_events := Suc (ns_events s)\<rparr>
        in if evt_type e \<in> set auto_finalize_events then snd (noop_finalize s') else s')"

definition noop_start :: "telemetry_policy \<Rightarrow> string \<Rightarrow> noop_session" where
  "noop_start p eid = \<lparr>ns_episode_id = eid, ns_required = tp_required p, ns_events = 0, ns_artifact = None\<rparr>"

section \<open>The OpenTelemetry session\<close>

record otel_lib =
  ol_valid :: bool
  ol_trace_id :: nat
  ol_span_id :: nat
  ol_carrier :: "(string \<times> string) list"
  ol_exported :: "nat \<Rightarrow> nat"

record otel_span =
  os_name :: string
  os_attributes :: "(string \<times> json) list"
  os_error_status :: bool

record otel_session =
  ot_episode_id :: string
  ot_lib :: otel_lib
  ot_policy :: telemetry_policy
  ot_root_events :: "(string \<times> (string \<times> json) list) list"
  ot_events :: nat
  ot_seen_types :: "string list"
  ot_propagated :: nat
  ot_artifact :: "telemetry_artifact option"
  ot_open_spans :: "(string \<times> otel_span) list"
  ot_ended_spans :: "otel_span list"
  ot_mapping_incomplete :: bool

definition safe_payload_keys :: "string list" where
  "safe_payload_keys =
     [''manifest_digest'', ''scenario_instance_digest'', ''agent_system_digest'', ''environment_adapter_digest'',
      ''subject_adapter_digest'', ''mcp_gateway_config_digest'', ''telemetry_config_digest'', ''gateway_digest'',
      ''server_digest'', ''catalog_digest'', ''protocol_version'', ''adapter'', ''handle_id'', ''target'',
      ''equivalent_to_initial'', ''status'', ''steps'', ''error_type'', ''claim_id'', ''dimension'', ''verdict'',
      ''severity'', ''method'', ''evaluator_version'', ''task_verdict'', ''validity'', ''snapshot_id'',
      ''consistency'', ''equivalence'', ''fault_id'', ''type'', ''occurrence'', ''visibility'', ''name'',
      ''protocol'', ''correlation_id'', ''schema_digest'', ''result_digest'', ''outcome'']"

definition otel_safe :: "telemetry_policy \<Rightarrow> json \<Rightarrow> json" where
  "otel_safe p v = (case v of JBool _ \<Rightarrow> v | JInt _ \<Rightarrow> v | JFloat _ \<Rightarrow> v
     | _ \<Rightarrow> JStr (take (nat (tp_max_attribute_length p)) (py_str v)))"

definition is_scalar :: "json \<Rightarrow> bool" where
  "is_scalar v = (case v of JNull \<Rightarrow> False | JList _ \<Rightarrow> False | JObj _ \<Rightarrow> False | _ \<Rightarrow> True)"

definition otel_payload_attrs :: "telemetry_policy \<Rightarrow> (string \<times> json) list \<Rightarrow> (string \<times> json) list" where
  "otel_payload_attrs p payload =
     map (\<lambda>(k, v). (''avp.'' @ k, otel_safe p v))
       (filter (\<lambda>(k, v). k \<in> set safe_payload_keys \<and> is_scalar v) payload)"

text \<open>No whitelisted key collides with one of the five fixed attributes, so the dict is the
  concatenation.\<close>

definition otel_attrs :: "telemetry_policy \<Rightarrow> avp_event \<Rightarrow> (string \<times> json) list" where
  "otel_attrs p e =
     [(''avp.event.id'', JStr (evt_id e)), (''avp.event.type'', JStr (evt_type e)),
      (''avp.event.sequence'', JInt (int (evt_sequence e))), (''avp.plane'', JStr (evt_plane e)),
      (''avp.logical_time'', JInt (evt_logical_time e))] @ otel_payload_attrs p (evt_payload e)"

definition payload_get :: "avp_event \<Rightarrow> string \<Rightarrow> json" where
  "payload_get e k = (case map_of (evt_payload e) k of None \<Rightarrow> JNull | Some v \<Rightarrow> v)"

definition payload_get_default :: "avp_event \<Rightarrow> string \<Rightarrow> json \<Rightarrow> json" where
  "payload_get_default e k d = (case map_of (evt_payload e) k of None \<Rightarrow> d | Some v \<Rightarrow> v)"

definition tool_outcome :: "avp_event \<Rightarrow> string" where
  "tool_outcome e =
     (if evt_type e = ''tool.error'' then ''upstream_error''
      else case payload_get e ''outcome'' of
        JStr (c # cs) \<Rightarrow> lower (c # cs)
      | _ \<Rightarrow> (case payload_get e ''result'' of
                JObj kvs \<Rightarrow> if map_of kvs ''isError'' = Some (JBool True) then ''tool_error'' else ''success''
              | _ \<Rightarrow> ''success''))"

definition event_correlation_id :: "avp_event \<Rightarrow> string" where
  "event_correlation_id e =
     (let v = payload_get e ''correlation_id'' in if py_truthy v then py_str v else '''')"

definition tool_span :: "avp_event \<Rightarrow> string \<Rightarrow> otel_span" where
  "tool_span e cid =
     \<lparr>os_name = ''avp.tool '' @ py_str (payload_get_default e ''name'' (JStr ''unknown'')),
      os_attributes =
        [(''avp.correlation_id'', JStr cid),
         (''avp.tool.name'', JStr (py_str (payload_get_default e ''name'' (JStr ''unknown'')))),
         (''avp.tool.protocol'', JStr (py_str (payload_get_default e ''protocol'' (JStr ''unknown''))))],
      os_error_status = False\<rparr>"

definition end_tool_span :: "avp_event \<Rightarrow> otel_span \<Rightarrow> otel_span" where
  "end_tool_span e sp =
     sp\<lparr>os_attributes := os_attributes sp @ [(''avp.tool.outcome'', JStr (tool_outcome e))],
        os_error_status := (tool_outcome e \<noteq> ''success'')\<rparr>"

text \<open>\<open>f"{n:032x}"\<close> and \<open>f"{n:016x}"\<close>.\<close>

fun hex_nat :: "nat \<Rightarrow> string" where
  "hex_nat n = (if n < 16 then [hex_digit n] else hex_nat (n div 16) @ [hex_digit (n mod 16)])"

definition hex_padded :: "nat \<Rightarrow> nat \<Rightarrow> string" where
  "hex_padded w n = (let s = hex_nat n in replicate (w - length s) CHR ''0'' @ s)"

definition otel_missing_required :: "otel_session \<Rightarrow> string list" where
  "otel_missing_required s =
     filter (\<lambda>t. t \<notin> set (ot_seen_types s)) (tp_required_event_types (ot_policy s))"

definition otel_finalize :: "bool \<Rightarrow> otel_session \<Rightarrow> telemetry_artifact \<times> otel_session" where
  "otel_finalize complete s = (case ot_artifact s of
     Some a \<Rightarrow> (a, s)
   | None \<Rightarrow>
      (let incomplete = (ot_mapping_incomplete s \<or> ot_open_spans s \<noteq> []);
           ended = ot_ended_spans s @ map snd (ot_open_spans s);
           lib = ot_lib s;
           span_count = ol_exported lib (Suc (length ended));
           complete_mapping = (complete \<and> \<not> incomplete \<and> otel_missing_required s = []);
           completeness = (if complete_mapping then COMPLETE
              else if tp_required (ot_policy s) \<and> complete then REQUIRED_MISSING else INCOMPLETE);
           completeness' = (if tp_required (ot_policy s) \<and> (\<not> ol_valid lib \<or> span_count = 0)
              then REQUIRED_MISSING else completeness);
           a = \<lparr>ta_episode_id = ot_episode_id s,
                ta_trace_id = (if ol_valid lib then Some (hex_padded 32 (ol_trace_id lib)) else None),
                ta_root_span_id = (if ol_valid lib then Some (hex_padded 16 (ol_span_id lib)) else None),
                ta_recorded_events = ot_events s, ta_propagated_requests = ot_propagated s,
                ta_completeness = completeness', ta_span_count = span_count\<rparr>
       in (a, s\<lparr>ot_mapping_incomplete := incomplete, ot_open_spans := [], ot_ended_spans := ended,
               ot_artifact := Some a\<rparr>)))"

definition otel_track_tool :: "avp_event \<Rightarrow> otel_session \<Rightarrow> otel_session" where
  "otel_track_tool e s =
     (let cid = event_correlation_id e in
      if evt_type e = ''tool.call'' \<and> cid \<noteq> [] then
        (if map_of (ot_open_spans s) cid \<noteq> None then s\<lparr>ot_mapping_incomplete := True\<rparr>
         else s\<lparr>ot_open_spans := ot_open_spans s @ [(cid, tool_span e cid)]\<rparr>)
      else if evt_type e \<in> {''tool.result'', ''tool.error''} \<and> cid \<noteq> [] then
        (case map_of (ot_open_spans s) cid of
           None \<Rightarrow> s\<lparr>ot_mapping_incomplete := True\<rparr>
         | Some sp \<Rightarrow> s\<lparr>ot_open_spans := filter (\<lambda>(k, _). k \<noteq> cid) (ot_open_spans s),
                        ot_ended_spans := ot_ended_spans s @ [end_tool_span e sp]\<rparr>)
      else s)"

definition otel_record_event :: "avp_event \<Rightarrow> otel_session \<Rightarrow> otel_session" where
  "otel_record_event e s =
     (if ot_artifact s \<noteq> None then s
      else let s1 = s\<lparr>ot_events := Suc (ot_events s),
                     ot_seen_types := (if evt_type e \<in> set (ot_seen_types s) then ot_seen_types s
                                       else ot_seen_types s @ [evt_type e]),
                     ot_root_events := ot_root_events s @ [(''avp.'' @ evt_type e, otel_attrs (ot_policy s) e)]\<rparr>;
               s2 = otel_track_tool e s1
           in if evt_type e \<in> set auto_finalize_events then snd (otel_finalize True s2) else s2)"

text \<open>\<open>^00-(?P<trace_id>[0-9a-f]{32})-(?P<span_id>[0-9a-f]{16})-(?P<flags>[0-9a-f]{2})$\<close> under
  \<open>fullmatch\<close>, with the two named groups.\<close>

definition parse_traceparent :: "string \<Rightarrow> (string \<times> string) option" where
  "parse_traceparent s =
     (let tid = take 32 (drop 3 s); sid = take 16 (drop 36 s); flags = drop 53 s in
      if length s = 55 \<and> take 3 s = ''00-'' \<and> s ! 35 = CHR ''-'' \<and> s ! 52 = CHR ''-'' \<and>
         list_all is_lower_hex tid \<and> list_all is_lower_hex sid \<and> list_all is_lower_hex flags
      then Some (tid, sid) else None)"

definition otel_inject_headers :: "(otel_session, exn, (string \<times> string) list) action" where
  "otel_inject_headers s =
     (let carrier = ol_carrier (ot_lib s);
          tp = (case map_of carrier ''traceparent'' of None \<Rightarrow> '''' | Some v \<Rightarrow> v);
          bad = (case parse_traceparent tp of None \<Rightarrow> True
                 | Some (tid, sid) \<Rightarrow> \<not> ol_valid (ot_lib s) \<or> tid \<noteq> hex_padded 32 (ol_trace_id (ot_lib s)) \<or>
                     sid \<noteq> hex_padded 16 (ol_span_id (ot_lib s)))
      in if bad then (Inl (RuntimeError (''OpenTelemetry propagation did not produce trace context '' @
                                         ''for the active AVP Episode'')), s)
         else (Inr carrier, s\<lparr>ot_propagated := Suc (ot_propagated s)\<rparr>))"

definition otel_start :: "otel_lib \<Rightarrow> telemetry_policy \<Rightarrow> string \<Rightarrow> otel_session" where
  "otel_start lib p eid = \<lparr>ot_episode_id = eid, ot_lib = lib, ot_policy = p, ot_root_events = [],
     ot_events = 0, ot_seen_types = [], ot_propagated = 0, ot_artifact = None, ot_open_spans = [],
     ot_ended_spans = [], ot_mapping_incomplete = False\<rparr>"

section \<open>Sessions and bridges behind their protocol\<close>

datatype telemetry_session = NoopSession noop_session | OtelSession otel_session

fun session_artifact :: "telemetry_session \<Rightarrow> telemetry_artifact option" where
  "session_artifact (NoopSession s) = ns_artifact s"
| "session_artifact (OtelSession s) = ot_artifact s"

fun session_record_event :: "avp_event \<Rightarrow> telemetry_session \<Rightarrow> telemetry_session" where
  "session_record_event e (NoopSession s) = NoopSession (noop_record_event e s)"
| "session_record_event e (OtelSession s) = OtelSession (otel_record_event e s)"

fun session_finalize :: "bool \<Rightarrow> telemetry_session \<Rightarrow> telemetry_artifact \<times> telemetry_session" where
  "session_finalize c (NoopSession s) = map_prod id NoopSession (noop_finalize s)"
| "session_finalize c (OtelSession s) = map_prod id OtelSession (otel_finalize c s)"

fun session_inject_headers :: "(telemetry_session, exn, (string \<times> string) list) action" where
  "session_inject_headers (NoopSession s) = (Inr [], NoopSession s)"
| "session_inject_headers (OtelSession s) = map_prod id OtelSession (otel_inject_headers s)"

datatype telemetry_bridge = NoopBridge telemetry_policy | OtelBridge telemetry_policy otel_lib

fun bridge_describe :: "telemetry_bridge \<Rightarrow> telemetry_description" where
  "bridge_describe (NoopBridge p) = \<lparr>td_name = ''noop-telemetry'', td_version = ''0.1.0'',
     td_implementation = ''none'', td_policy = p\<rparr>"
| "bridge_describe (OtelBridge p lib) = \<lparr>td_name = ''opentelemetry'', td_version = ''0.2.0-alpha.5'',
     td_implementation = ''otel-sdk'', td_policy = p\<rparr>"

fun bridge_start_episode :: "telemetry_bridge \<Rightarrow> string \<Rightarrow> telemetry_session" where
  "bridge_start_episode (NoopBridge p) eid = NoopSession (noop_start p eid)"
| "bridge_start_episode (OtelBridge p lib) eid = OtelSession (otel_start lib p eid)"

section \<open>Facts\<close>

text \<open>A session runs over the events of its Episode in order.\<close>

definition otel_run :: "avp_event list \<Rightarrow> otel_session \<Rightarrow> otel_session" where
  "otel_run es s = fold otel_record_event es s"

text \<open>What an exported attribute may be: one of the five fixed event attributes, or a whitelisted
  payload key with a scalar value, its text cut to the policy's length.\<close>

definition fixed_attributes :: "string list" where
  "fixed_attributes = [''avp.event.id'', ''avp.event.type'', ''avp.event.sequence'', ''avp.plane'', ''avp.logical_time'']"

definition exportable :: "telemetry_policy \<Rightarrow> string \<times> json \<Rightarrow> bool" where
  "exportable p kv \<longleftrightarrow> fst kv \<in> set fixed_attributes \<or>
     (\<exists>k \<in> set safe_payload_keys. fst kv = ''avp.'' @ k \<and> is_scalar (snd kv) \<and>
        (case snd kv of JStr s \<Rightarrow> int (length s) \<le> max 0 (tp_max_attribute_length p) | _ \<Rightarrow> True))"

lemma otel_payload_attrs_exportable:
  "kv \<in> set (otel_payload_attrs p payload) \<Longrightarrow> exportable p kv"
  by (auto simp: otel_payload_attrs_def exportable_def otel_safe_def is_scalar_def split: json.splits)

lemma otel_attrs_exportable: "list_all (exportable p) (otel_attrs p e)"
  by (auto simp: otel_attrs_def list_all_iff otel_payload_attrs_exportable)
     (simp_all add: exportable_def fixed_attributes_def)

text \<open>The distinctness of a dict's keys: the fixed attributes are not payload attributes.\<close>

lemma fixed_attributes_not_payload:
  "list_all (\<lambda>k. ''avp.'' @ k \<notin> set fixed_attributes) safe_payload_keys"
  by (simp add: fixed_attributes_def safe_payload_keys_def)

definition exports_safely :: "otel_session \<Rightarrow> bool" where
  "exports_safely s \<longleftrightarrow> list_all (\<lambda>ev. list_all (exportable (ot_policy s)) (snd ev)) (ot_root_events s)"

lemma otel_track_tool_frame [simp]:
  "ot_policy (otel_track_tool e s) = ot_policy s"
  "ot_root_events (otel_track_tool e s) = ot_root_events s"
  "ot_events (otel_track_tool e s) = ot_events s"
  "ot_seen_types (otel_track_tool e s) = ot_seen_types s"
  "ot_artifact (otel_track_tool e s) = ot_artifact s"
  "ot_lib (otel_track_tool e s) = ot_lib s"
  "ot_episode_id (otel_track_tool e s) = ot_episode_id s"
  by (auto simp: otel_track_tool_def Let_def split: option.splits)

lemma otel_finalize_frame [simp]:
  "ot_policy (snd (otel_finalize c s)) = ot_policy s"
  "ot_root_events (snd (otel_finalize c s)) = ot_root_events s"
  "ot_events (snd (otel_finalize c s)) = ot_events s"
  "ot_seen_types (snd (otel_finalize c s)) = ot_seen_types s"
  "ot_lib (snd (otel_finalize c s)) = ot_lib s"
  by (auto simp: otel_finalize_def Let_def split: option.splits)

lemma otel_finalize_artifact: "ot_artifact (snd (otel_finalize c s)) = Some (fst (otel_finalize c s))"
  by (auto simp: otel_finalize_def Let_def split: option.splits)

lemma otel_finalize_again: "ot_artifact s = Some a \<Longrightarrow> otel_finalize c s = (a, s)"
  by (simp add: otel_finalize_def)

lemma otel_record_event_policy [simp]:
  "ot_policy (otel_record_event e s) = ot_policy s" "ot_lib (otel_record_event e s) = ot_lib s"
  by (auto simp: otel_record_event_def Let_def)

lemma otel_record_event_exports_safely: "exports_safely s \<Longrightarrow> exports_safely (otel_record_event e s)"
  by (auto simp: exports_safely_def otel_record_event_def Let_def otel_attrs_exportable)

lemma otel_run_policy: "ot_policy (otel_run es s) = ot_policy s"
  by (induction es arbitrary: s) (simp_all add: otel_run_def)

lemma otel_run_exports_safely: "exports_safely s \<Longrightarrow> exports_safely (otel_run es s)"
  by (induction es arbitrary: s) (auto simp: otel_run_def otel_record_event_exports_safely)

text \<open>The reference reading of the tool protocol: every result or error closes the open call of its
  correlation id, no call opens an id that is open, and nothing is open at the end.\<close>

definition opens_call :: "avp_event \<Rightarrow> bool" where
  "opens_call e \<longleftrightarrow> evt_type e = ''tool.call'' \<and> event_correlation_id e \<noteq> []"

definition closes_call :: "avp_event \<Rightarrow> bool" where
  "closes_call e \<longleftrightarrow> evt_type e \<in> {''tool.result'', ''tool.error''} \<and> event_correlation_id e \<noteq> []"

fun calls_matched :: "string list \<Rightarrow> avp_event list \<Rightarrow> bool" where
  "calls_matched ids [] = (ids = [])"
| "calls_matched ids (e # es) =
     (let cid = event_correlation_id e in
      if opens_call e then cid \<notin> set ids \<and> calls_matched (ids @ [cid]) es
      else if closes_call e then cid \<in> set ids \<and> calls_matched (filter (\<lambda>k. k \<noteq> cid) ids) es
      else calls_matched ids es)"

definition mapping_complete :: "otel_session \<Rightarrow> bool" where
  "mapping_complete s \<longleftrightarrow> \<not> ot_mapping_incomplete s \<and> ot_open_spans s = []"

definition is_final_event :: "avp_event \<Rightarrow> bool" where
  "is_final_event e \<longleftrightarrow> evt_type e \<in> set auto_finalize_events"

lemma otel_record_open_event:
  assumes "ot_artifact s = None" "\<not> is_final_event e"
  shows "otel_record_event e s = otel_track_tool e
     (s\<lparr>ot_events := Suc (ot_events s),
        ot_seen_types := (if evt_type e \<in> set (ot_seen_types s) then ot_seen_types s
                          else ot_seen_types s @ [evt_type e]),
        ot_root_events := ot_root_events s @ [(''avp.'' @ evt_type e, otel_attrs (ot_policy s) e)]\<rparr>)"
  using assms by (simp add: otel_record_event_def is_final_event_def Let_def)

lemma otel_track_mapping:
  "ot_mapping_incomplete (otel_track_tool e s) \<longleftrightarrow> ot_mapping_incomplete s \<or>
     opens_call e \<and> event_correlation_id e \<in> set (map fst (ot_open_spans s)) \<or>
     closes_call e \<and> event_correlation_id e \<notin> set (map fst (ot_open_spans s))"
proof (cases "event_correlation_id e \<in> set (map fst (ot_open_spans s))")
  case True
  then obtain sp where "map_of (ot_open_spans s) (event_correlation_id e) = Some sp"
    by (metis map_of_eq_None_iff list.set_map not_None_eq)
  with True show ?thesis by (auto simp: otel_track_tool_def opens_call_def closes_call_def Let_def)
next
  case False
  then have "map_of (ot_open_spans s) (event_correlation_id e) = None"
    by (simp add: map_of_eq_None_iff)
  with False show ?thesis by (auto simp: otel_track_tool_def opens_call_def closes_call_def Let_def)
qed

lemma map_fst_filter_keys: "map fst (filter (\<lambda>(k, _). P k) xs) = filter P (map fst xs)"
  by (induction xs) auto

lemma otel_track_keys:
  "\<not> ot_mapping_incomplete (otel_track_tool e s) \<Longrightarrow> map fst (ot_open_spans (otel_track_tool e s)) =
     (if opens_call e then map fst (ot_open_spans s) @ [event_correlation_id e]
      else if closes_call e then filter (\<lambda>k. k \<noteq> event_correlation_id e) (map fst (ot_open_spans s))
      else map fst (ot_open_spans s))"
  by (cases "map_of (ot_open_spans s) (event_correlation_id e)")
     (auto simp: otel_track_tool_def opens_call_def closes_call_def Let_def map_fst_filter_keys
       split: if_splits)

lemma otel_track_tool_incomplete: "ot_mapping_incomplete s \<Longrightarrow> ot_mapping_incomplete (otel_track_tool e s)"
  by (auto simp: otel_track_tool_def Let_def split: option.splits)

lemma otel_run_incomplete:
  "ot_artifact s = None \<Longrightarrow> list_all (\<lambda>e. \<not> is_final_event e) es \<Longrightarrow> ot_mapping_incomplete s \<Longrightarrow>
    ot_mapping_incomplete (otel_run es s)"
  by (induction es arbitrary: s) (auto simp: otel_run_def otel_record_open_event otel_track_tool_incomplete)

lemma otel_run_frame:
  "ot_artifact s = None \<Longrightarrow> list_all (\<lambda>e. \<not> is_final_event e) es \<Longrightarrow>
    ot_artifact (otel_run es s) = None \<and> ot_events (otel_run es s) = ot_events s + length es \<and>
    set (ot_seen_types (otel_run es s)) = set (ot_seen_types s) \<union> evt_type ` set es \<and>
    ot_policy (otel_run es s) = ot_policy s \<and> ot_lib (otel_run es s) = ot_lib s"
proof (induction es arbitrary: s)
  case Nil
  then show ?case by (simp add: otel_run_def)
next
  case (Cons e es)
  let ?t = "otel_record_event e s"
  have step: "ot_artifact ?t = None" "ot_events ?t = Suc (ot_events s)"
    "set (ot_seen_types ?t) = insert (evt_type e) (set (ot_seen_types s))"
    using Cons.prems by (auto simp: otel_record_open_event)
  with Cons.IH [of ?t] Cons.prems show ?case by (auto simp: otel_run_def)
qed

lemma otel_run_mapping_complete:
  "ot_artifact s = None \<Longrightarrow> list_all (\<lambda>e. \<not> is_final_event e) es \<Longrightarrow> \<not> ot_mapping_incomplete s \<Longrightarrow>
    mapping_complete (otel_run es s) \<longleftrightarrow> calls_matched (map fst (ot_open_spans s)) es"
proof (induction es arbitrary: s)
  case Nil
  then show ?case by (simp add: otel_run_def mapping_complete_def)
next
  case (Cons e es)
  let ?t = "otel_record_event e s" and ?cid = "event_correlation_id e"
  have run: "otel_run (e # es) s = otel_run es ?t" by (simp add: otel_run_def)
  have none: "ot_artifact ?t = None" using Cons.prems by (simp add: otel_record_open_event)
  have step: "ot_mapping_incomplete ?t \<longleftrightarrow>
        opens_call e \<and> ?cid \<in> set ids \<or> closes_call e \<and> ?cid \<notin> set ids"
      "\<not> ot_mapping_incomplete ?t \<Longrightarrow> map fst (ot_open_spans ?t) =
        (if opens_call e then ids @ [?cid]
         else if closes_call e then filter (\<lambda>k. k \<noteq> ?cid) ids else ids)"
    if "ids = map fst (ot_open_spans s)" for ids
    using Cons.prems that by (simp_all add: otel_record_open_event otel_track_mapping otel_track_keys)
  show ?case
  proof (cases "ot_mapping_incomplete ?t")
    case True
    with none Cons.prems have "ot_mapping_incomplete (otel_run es ?t)"
      by (intro otel_run_incomplete) auto
    moreover from True step(1) [OF HOL.refl]
    have "\<not> calls_matched (map fst (ot_open_spans s)) (e # es)"
      by (auto simp: opens_call_def closes_call_def Let_def)
    ultimately show ?thesis by (simp add: run mapping_complete_def)
  next
    case False
    with none Cons.IH [of ?t] Cons.prems
    have "mapping_complete (otel_run es ?t) \<longleftrightarrow> calls_matched (map fst (ot_open_spans ?t)) es" by simp
    with False step(1) [OF HOL.refl] step(2) [OF HOL.refl False] show ?thesis
      by (auto simp: run opens_call_def closes_call_def Let_def)
  qed
qed

text \<open>The session behind its protocol: the artifact, once there, stays.\<close>

lemma session_artifact_record:
  "session_artifact t = Some a \<Longrightarrow> session_record_event e t = t"
  by (cases t) (simp_all add: noop_record_event_def otel_record_event_def)

lemma session_finalize_again: "session_artifact t = Some a \<Longrightarrow> session_finalize c t = (a, t)"
  by (cases t) (simp_all add: noop_finalize_def otel_finalize_def)

lemma session_finalize_artifact:
  "session_artifact (snd (session_finalize c t)) = Some (fst (session_finalize c t))"
  by (cases t) (simp_all add: noop_finalize_def otel_finalize_artifact Let_def split: option.splits)

lemma session_inject_artifact: "session_artifact (snd (session_inject_headers t)) = session_artifact t"
  by (cases t) (simp_all add: otel_inject_headers_def Let_def split: option.splits)

lemma noop_inject_headers_ok: "fst (session_inject_headers (NoopSession s)) = Inr []"
  by simp

section \<open>Properties\<close>

text \<open>Whatever events a session records, every attribute it exports is one of the fixed protocol
  attributes or an allow-listed payload key with a scalar value, its strings cut at the policy's length.\<close>

theorem recorded_session_exports_safely:
  "list_all (\<lambda>(_, kvs). list_all (exportable p) kvs) (ot_root_events (otel_run es (otel_start lib p eid)))"
  using otel_run_exports_safely [of "otel_start lib p eid" es] otel_run_policy [of es "otel_start lib p eid"]
  by (simp add: exports_safely_def otel_start_def case_prod_unfold)

text \<open>The incremental bookkeeping of tool spans equals the reference reading of the tool protocol: after
  any events that do not finish the session, the span mapping is complete iff every result or error
  closed the open call of its correlation id and no call is left open.\<close>

theorem span_mapping_equals_call_matching:
  assumes "list_all (\<lambda>e. \<not> is_final_event e) es"
  shows "mapping_complete (otel_run es (otel_start lib p eid)) \<longleftrightarrow> calls_matched [] es"
  using otel_run_mapping_complete [of "otel_start lib p eid" es] assms
  by (simp add: otel_start_def)

theorem span_mapping_equals_call_matching_witness:
  "\<forall>lib p. mapping_complete (otel_run [\<lparr>evt_id = ''e'', evt_type = ''tool.call'', evt_episode_id = ''x'',
       evt_sequence = 1, evt_plane = ''agent'', evt_logical_time = 0, evt_payload = [(''correlation_id'', JStr ''c1'')],
       evt_state = [], evt_evidence = []\<rparr>] (otel_start lib p ''x'')) = False"
  by (intro allI, subst span_mapping_equals_call_matching)
     (simp_all add: is_final_event_def auto_finalize_events_def opens_call_def event_correlation_id_def Let_def
       payload_get_def payload_get_default_def py_str_def py_truthy_def)

end
