(* ===== verification/AVP_Lifecycle.thy ===== *)
theory AVP_Lifecycle
  imports AVP_Errors
begin

text \<open>
  The Episode lifecycle: \<^verbatim>\<open>runtime/state.py\<close> (states and the transition table),
  \<^verbatim>\<open>runtime/lifecycle.py\<close> (transition records and causes) and \<^verbatim>\<open>runtime/identity.py\<close> (replay
  identities), with the properties of the transition relation itself.
\<close>

section \<open>States and transitions\<close>

datatype episode_state = CREATED | PROVISIONING | READY | RUNNING | PAUSED | QUIESCING | VERIFYING
  | COMPLETED | ABORTED | INVALID | INFRA_FAILED

fun state_value :: "episode_state \<Rightarrow> string" where
  "state_value CREATED = ''CREATED''"
| "state_value PROVISIONING = ''PROVISIONING''"
| "state_value READY = ''READY''"
| "state_value RUNNING = ''RUNNING''"
| "state_value PAUSED = ''PAUSED''"
| "state_value QUIESCING = ''QUIESCING''"
| "state_value VERIFYING = ''VERIFYING''"
| "state_value COMPLETED = ''COMPLETED''"
| "state_value ABORTED = ''ABORTED''"
| "state_value INVALID = ''INVALID''"
| "state_value INFRA_FAILED = ''INFRA_FAILED''"

definition terminal_states :: "episode_state list" where
  "terminal_states = [COMPLETED, ABORTED, INVALID, INFRA_FAILED]"

fun transitions :: "episode_state \<Rightarrow> episode_state list" where
  "transitions CREATED = [PROVISIONING, ABORTED]"
| "transitions PROVISIONING = [READY, ABORTED, INVALID, INFRA_FAILED]"
| "transitions READY = [RUNNING, ABORTED, INVALID, INFRA_FAILED]"
| "transitions RUNNING = [QUIESCING, ABORTED, INVALID, INFRA_FAILED, PAUSED]"
| "transitions PAUSED = [RUNNING, ABORTED, INVALID, INFRA_FAILED]"
| "transitions QUIESCING = [VERIFYING, ABORTED, INVALID, INFRA_FAILED]"
| "transitions VERIFYING = [COMPLETED, ABORTED, INVALID, INFRA_FAILED]"
| "transitions COMPLETED = []"
| "transitions ABORTED = []"
| "transitions INVALID = []"
| "transitions INFRA_FAILED = []"

definition assert_transition :: "episode_state \<Rightarrow> episode_state \<Rightarrow> (exn, unit) result" where
  "assert_transition current target =
     raise_if (target \<notin> set (transitions current))
       (InvalidEpisodeTransition
          (''illegal transition '' @ state_value current @ '' -> '' @ state_value target))"

definition is_terminal :: "episode_state \<Rightarrow> bool" where
  "is_terminal s \<longleftrightarrow> s \<in> set terminal_states"

section \<open>Transition records\<close>

definition is_cause_char :: "char \<Rightarrow> bool" where
  "is_cause_char c \<longleftrightarrow> is_alnum_ascii c \<or> c \<in> set ''._:-''"

text \<open>\<open>^[A-Za-z0-9][A-Za-z0-9._:-]*$\<close> under \<open>fullmatch\<close>.\<close>

definition is_cause_code :: "string \<Rightarrow> bool" where
  "is_cause_code s \<longleftrightarrow> (case s of [] \<Rightarrow> False | c # cs \<Rightarrow> is_alnum_ascii c \<and> list_all is_cause_char cs)"

record transition_cause =
  cause_code :: string
  cause_detail :: "string option"

definition make_transition_cause :: "string \<Rightarrow> string option \<Rightarrow> (exn, transition_cause) result" where
  "make_transition_cause code detail =
     res_bind (raise_if (code = [] \<or> 128 < length code)
       (ValueError ''transition cause code must contain 1..128 characters'')) (\<lambda>_.
     res_bind (raise_if (\<not> is_cause_code code)
       (ValueError (''invalid transition cause code: '' @ code))) (\<lambda>_.
     res_bind (raise_if (case detail of None \<Rightarrow> False | Some d \<Rightarrow> 2048 < length d)
       (ValueError ''transition cause detail must not exceed 2048 characters'')) (\<lambda>_.
     Inr \<lparr>cause_code = code, cause_detail = detail\<rparr>)))"

definition transition_cause_dict :: "transition_cause \<Rightarrow> json" where
  "transition_cause_dict c = JObj ([(''code'', JStr (cause_code c))] @
     (case cause_detail c of None \<Rightarrow> [] | Some d \<Rightarrow> [(''detail'', JStr d)]))"

record episode_transition =
  tr_episode_id :: string
  tr_sequence :: nat
  tr_previous :: episode_state
  tr_resulting :: episode_state
  tr_cause :: transition_cause

definition make_episode_transition ::
  "string \<Rightarrow> nat \<Rightarrow> episode_state \<Rightarrow> episode_state \<Rightarrow> transition_cause \<Rightarrow> (exn, episode_transition) result" where
  "make_episode_transition eid seq prev res cause =
     res_bind (raise_if (eid = [] \<or> 256 < length eid)
       (ValueError ''episode_id must contain 1..256 characters'')) (\<lambda>_.
     res_bind (raise_if (seq < 1) (ValueError ''transition sequence must be positive'')) (\<lambda>_.
     res_bind (raise_if (prev = res) (ValueError ''a lifecycle transition must change state'')) (\<lambda>_.
     Inr \<lparr>tr_episode_id = eid, tr_sequence = seq, tr_previous = prev, tr_resulting = res, tr_cause = cause\<rparr>)))"

definition episode_transition_dict :: "episode_transition \<Rightarrow> (string \<times> json) list" where
  "episode_transition_dict t =
     [(''episodeId'', JStr (tr_episode_id t)), (''sequence'', JInt (int (tr_sequence t))),
      (''previousState'', JStr (state_value (tr_previous t))),
      (''resultingState'', JStr (state_value (tr_resulting t))),
      (''cause'', transition_cause_dict (tr_cause t))]"

definition default_transition_cause :: "episode_state \<Rightarrow> episode_state \<Rightarrow> (exn, transition_cause) result" where
  "default_transition_cause prev res =
     make_transition_cause (''runtime.lifecycle.'' @ lower (state_value prev) @ ''.'' @ lower (state_value res)) None"

section \<open>Replay identity\<close>

record replay_source =
  src_episode_id :: string
  src_manifest_digest :: string

definition make_replay_source :: "string \<Rightarrow> string \<Rightarrow> (exn, replay_source) result" where
  "make_replay_source eid mdigest =
     res_bind (raise_if (eid = [] \<or> 256 < length eid)
       (ValueError ''source episode_id must contain 1..256 characters'')) (\<lambda>_.
     res_bind (raise_if (\<not> is_sha256_text mdigest)
       (ValueError ''source manifest_digest must be a sha256 digest'')) (\<lambda>_.
     Inr \<lparr>src_episode_id = eid, src_manifest_digest = mdigest\<rparr>))"

definition replay_source_dict :: "replay_source \<Rightarrow> json" where
  "replay_source_dict r =
     JObj [(''episodeId'', JStr (src_episode_id r)), (''manifestDigest'', JStr (src_manifest_digest r))]"

section \<open>Facts about the lifecycle\<close>

inductive lifecycle_step :: "episode_state \<Rightarrow> episode_state \<Rightarrow> bool" where
  step: "assert_transition s t = Inr () \<Longrightarrow> lifecycle_step s t"

lemma assert_transition_ok [simp]: "assert_transition s t = Inr u \<longleftrightarrow> t \<in> set (transitions s)"
  by (simp add: assert_transition_def)

inductive_simps lifecycle_step_iff [simp]: "lifecycle_step s t"

lemma terminal_iff_no_transition: "is_terminal s \<longleftrightarrow> transitions s = []"
  by (cases s) (auto simp: is_terminal_def terminal_states_def)

lemma terminal_no_step: "is_terminal s \<Longrightarrow> t \<notin> set (transitions s)"
  by (simp add: terminal_iff_no_transition)

lemma no_self_transition [simp]: "s \<notin> set (transitions s)"
  by (cases s) auto

text \<open>The stages an Episode still has to pass before it can complete.\<close>

fun remaining_stages :: "episode_state \<Rightarrow> episode_state list" where
  "remaining_stages CREATED = [CREATED, PROVISIONING, READY, RUNNING, QUIESCING, VERIFYING, COMPLETED]"
| "remaining_stages PROVISIONING = [PROVISIONING, READY, RUNNING, QUIESCING, VERIFYING, COMPLETED]"
| "remaining_stages READY = [READY, RUNNING, QUIESCING, VERIFYING, COMPLETED]"
| "remaining_stages RUNNING = [RUNNING, QUIESCING, VERIFYING, COMPLETED]"
| "remaining_stages PAUSED = [PAUSED, RUNNING, QUIESCING, VERIFYING, COMPLETED]"
| "remaining_stages QUIESCING = [QUIESCING, VERIFYING, COMPLETED]"
| "remaining_stages VERIFYING = [VERIFYING, COMPLETED]"
| "remaining_stages _ = [COMPLETED]"

fun lifecycle_path :: "episode_state list \<Rightarrow> bool" where
  "lifecycle_path [] = True"
| "lifecycle_path [s] = True"
| "lifecycle_path (s # t # ts) = (lifecycle_step s t \<and> lifecycle_path (t # ts))"

lemma remaining_stages_step:
  "t \<in> set (transitions s) \<Longrightarrow> subseq (remaining_stages t) xs \<Longrightarrow> last xs = COMPLETED \<Longrightarrow>
    \<not> is_terminal t \<or> t = COMPLETED \<Longrightarrow> subseq (remaining_stages s) (s # xs)"
  by (cases s; cases t) (auto simp: is_terminal_def terminal_states_def dest: subseq_Cons')

lemma path_from_terminal: "lifecycle_path (s # ts) \<Longrightarrow> is_terminal s \<Longrightarrow> ts = []"
  by (cases ts) (auto simp: terminal_iff_no_transition)

lemma path_to_completed:
  "lifecycle_path (s # ts) \<Longrightarrow> last (s # ts) = COMPLETED \<Longrightarrow> subseq (remaining_stages s) (s # ts)"
proof (induction ts arbitrary: s)
  case Nil
  then show ?case by simp
next
  case (Cons t ts)
  then have step: "t \<in> set (transitions s)" and path: "lifecycle_path (t # ts)"
    and last: "last (t # ts) = COMPLETED" by auto
  from path last have "\<not> is_terminal t \<or> t = COMPLETED"
    using path_from_terminal by fastforce
  with step Cons.IH [OF path last] last show ?case
    by (intro remaining_stages_step)
qed

lemma lower_state_value:
  "list_all is_cause_char (lower (state_value s))" "length (lower (state_value s)) \<le> 12"
  by (cases s; simp add: lower_def lower_char_def is_cause_char_def is_alnum_ascii_def
       is_digit_def is_upper_ascii_def is_lower_ascii_def)+

lemma default_transition_cause_ok:
  "default_transition_cause s t =
     Inr \<lparr>cause_code = ''runtime.lifecycle.'' @ lower (state_value s) @ ''.'' @ lower (state_value t),
          cause_detail = None\<rparr>"
proof -
  let ?code = "''runtime.lifecycle.'' @ lower (state_value s) @ ''.'' @ lower (state_value t)"
  have "length ?code \<le> 128"
    using lower_state_value(2) [of s] lower_state_value(2) [of t] by simp
  moreover have "is_cause_code ?code"
    by (simp add: is_cause_code_def lower_state_value is_cause_char_def is_alnum_ascii_def
        is_digit_def is_upper_ascii_def is_lower_ascii_def)
  ultimately show ?thesis
    by (simp add: default_transition_cause_def make_transition_cause_def result_simps)
qed

section \<open>Properties\<close>

text \<open>A lifecycle path that ends in COMPLETED passed through every stage that its first state still had
  before it: no stage of provisioning, running, quiescing and verifying can be skipped.\<close>

theorem completed_path_visits_every_stage:
  "lifecycle_path (s # ts) \<Longrightarrow> last (s # ts) = COMPLETED \<Longrightarrow> subseq (remaining_stages s) (s # ts)"
  by (rule path_to_completed)

theorem completed_path_visits_every_stage_witness:
  "subseq [CREATED, PROVISIONING, READY, RUNNING, QUIESCING, VERIFYING, COMPLETED]
     [CREATED, PROVISIONING, READY, RUNNING, PAUSED, RUNNING, QUIESCING, VERIFYING, COMPLETED]"
  using completed_path_visits_every_stage
    [of CREATED "[PROVISIONING, READY, RUNNING, PAUSED, RUNNING, QUIESCING, VERIFYING, COMPLETED]"]
  by (simp add: lifecycle_step.simps)

text \<open>The terminal states are exactly those with no outgoing transition, and no state has a transition to
  itself or back to CREATED.\<close>

theorem terminal_states_are_final:
  "(is_terminal s \<longleftrightarrow> transitions s = []) \<and> s \<notin> set (transitions s) \<and> CREATED \<notin> set (transitions s)"
  by (cases s) (simp_all add: is_terminal_def terminal_states_def)

end
