(* ===== verification/AVP_Episode.thy ===== *)
theory AVP_Episode
  imports AVP_Boundary AVP_Telemetry AVP_Lifecycle
begin

text \<open>
  The Episode: \<^verbatim>\<open>runtime/agent.py\<close> and \<^verbatim>\<open>runtime/manifest.py\<close> (the identities it is bound to),
  \<^verbatim>\<open>runtime/episode.py\<close> (the mutable record, its lifecycle transitions and the freezing of the
  Oracle evaluation) and \<^verbatim>\<open>events.py\<close> (the event timeline). The dictionaries an Episode only looks
  up are maps.
\<close>

section \<open>Agent identity and manifest\<close>

record agent_system =
  ag_name :: string
  ag_version :: string
  ag_adapter :: string
  ag_config_digest :: string
  ag_model_ref :: "string option"
  ag_prompt_digest :: "string option"
  ag_toolset_digest :: "string option"
  ag_memory_digest :: "string option"
  ag_policy_digest :: "string option"
  ag_metadata :: json

definition agent_identity_digest :: "agent_system \<Rightarrow> string" where
  "agent_identity_digest a = json_digest (JObj
     [(''name'', JStr (ag_name a)), (''version'', JStr (ag_version a)), (''adapter'', JStr (ag_adapter a)),
      (''config_digest'', JStr (ag_config_digest a)), (''model_ref'', opt_str (ag_model_ref a)),
      (''prompt_digest'', opt_str (ag_prompt_digest a)), (''toolset_digest'', opt_str (ag_toolset_digest a)),
      (''memory_digest'', opt_str (ag_memory_digest a)), (''policy_digest'', opt_str (ag_policy_digest a)),
      (''metadata'', ag_metadata a)])"

definition agent_subject_projection :: "agent_system \<Rightarrow> json" where
  "agent_subject_projection a = JObj
     [(''identity_digest'', JStr (agent_identity_digest a)), (''name'', JStr (ag_name a)),
      (''version'', JStr (ag_version a)), (''adapter'', JStr (ag_adapter a)),
      (''config_digest'', JStr (ag_config_digest a)), (''model_ref'', opt_str (ag_model_ref a)),
      (''prompt_digest'', opt_str (ag_prompt_digest a)), (''toolset_digest'', opt_str (ag_toolset_digest a)),
      (''memory_digest'', opt_str (ag_memory_digest a)), (''policy_digest'', opt_str (ag_policy_digest a))]"

record episode_manifest =
  mf_scenario_api_version :: string
  mf_runtime_version :: string
  mf_scenario_instance_digest :: string
  mf_scenario_template_digest :: string
  mf_seed_bundle_digest :: string
  mf_agent_system_digest :: string
  mf_environment_ref_digest :: "string option"
  mf_environment_adapter_digest :: string
  mf_subject_adapter_digest :: string
  mf_oracle_package_digest :: string
  mf_oracle_runner_config_digest :: string
  mf_mcp_gateway_config_digest :: "string option"
  mf_telemetry_config_digest :: "string option"
  mf_resource_manifest_digest :: "string option"

definition resolved_reference_digest :: "scenario_instance \<Rightarrow> string \<Rightarrow> string option" where
  "resolved_reference_digest s path =
     (let compilation = jget_default (sc_document s) ''compilation'' (JObj [])
      in case List.find (\<lambda>item. jget item ''path'' = Some (JStr path))
                (jitems (jget_default compilation ''resolved_references'' (JList []))) of
           None \<Rightarrow> None
         | Some item \<Rightarrow> Some (py_str (jget_none item ''digest'')))"

definition manifest_create ::
  "scenario_instance \<Rightarrow> agent_system \<Rightarrow> environment_description \<Rightarrow> subject_description \<Rightarrow> string \<Rightarrow>
   string \<Rightarrow> string \<Rightarrow> string option \<Rightarrow> string option \<Rightarrow> string option \<Rightarrow> (exn, episode_manifest) result" where
  "manifest_create s agent env subj version package runner mcp telemetry resource =
     (let compilation = jget_default (sc_document s) ''compilation'' (JObj []);
          seeds = jget_default compilation ''seed_bundle'' (JObj [])
      in res_bind (jindex (sc_document s) ''apiVersion'') (\<lambda>api.
         Inr \<lparr>mf_scenario_api_version = py_str api, mf_runtime_version = version,
              mf_scenario_instance_digest = sc_instance_digest s,
              mf_scenario_template_digest = sc_template_digest s, mf_seed_bundle_digest = json_digest seeds,
              mf_agent_system_digest = agent_identity_digest agent,
              mf_environment_ref_digest = resolved_reference_digest s ''$.environment.ref'',
              mf_environment_adapter_digest = environment_identity_digest env,
              mf_subject_adapter_digest = subject_identity_digest subj, mf_oracle_package_digest = package,
              mf_oracle_runner_config_digest = runner, mf_mcp_gateway_config_digest = mcp,
              mf_telemetry_config_digest = telemetry, mf_resource_manifest_digest = resource\<rparr>))"

definition manifest_dict :: "episode_manifest \<Rightarrow> json" where
  "manifest_dict m = JObj
     [(''scenario_api_version'', JStr (mf_scenario_api_version m)), (''runtime_version'', JStr (mf_runtime_version m)),
      (''scenario_instance_digest'', JStr (mf_scenario_instance_digest m)),
      (''scenario_template_digest'', JStr (mf_scenario_template_digest m)),
      (''seed_bundle_digest'', JStr (mf_seed_bundle_digest m)),
      (''agent_system_digest'', JStr (mf_agent_system_digest m)),
      (''environment_ref_digest'', opt_str (mf_environment_ref_digest m)),
      (''environment_adapter_digest'', JStr (mf_environment_adapter_digest m)),
      (''subject_adapter_digest'', JStr (mf_subject_adapter_digest m)),
      (''oracle_package_digest'', JStr (mf_oracle_package_digest m)),
      (''oracle_runner_config_digest'', JStr (mf_oracle_runner_config_digest m)),
      (''mcp_gateway_config_digest'', opt_str (mf_mcp_gateway_config_digest m)),
      (''telemetry_config_digest'', opt_str (mf_telemetry_config_digest m)),
      (''resource_manifest_digest'', opt_str (mf_resource_manifest_digest m))]"

definition manifest_digest :: "episode_manifest \<Rightarrow> string" where
  "manifest_digest m = json_digest (manifest_dict m)"

section \<open>The Episode record and its event timeline\<close>

record episode =
  ep_id :: string
  ep_scenario :: scenario_instance
  ep_agent :: agent_system
  ep_manifest :: episode_manifest
  ep_state :: episode_state
  ep_validity :: validity
  ep_validity_detail :: "validity_detail option"
  ep_task_verdict :: task_verdict
  ep_agent_report :: "string option"
  ep_events :: "avp_event list"
  ep_evidence :: "string \<Rightarrow> evidence option"
  ep_snapshots :: "string \<Rightarrow> snapshot_ref option"
  ep_verification :: "verification_result list"
  ep_telemetry :: "telemetry_session option"
  ep_oracle_evaluation :: "oracle_evaluation_record option"
  ep_transitions :: "episode_transition list"
  ep_replay_source :: "replay_source option"

definition make_episode :: "string \<Rightarrow> scenario_instance \<Rightarrow> agent_system \<Rightarrow> episode_manifest \<Rightarrow> episode" where
  "make_episode eid s a m = \<lparr>ep_id = eid, ep_scenario = s, ep_agent = a, ep_manifest = m, ep_state = CREATED,
     ep_validity = VALID, ep_validity_detail = None, ep_task_verdict = INCONCLUSIVE, ep_agent_report = None,
     ep_events = [], ep_evidence = Map.empty, ep_snapshots = Map.empty, ep_verification = [],
     ep_telemetry = None, ep_oracle_evaluation = None, ep_transitions = [], ep_replay_source = None\<rparr>"

text \<open>\<open>EventRecorder.emit\<close>.\<close>

definition emit :: "string \<Rightarrow> string \<Rightarrow> int \<Rightarrow> (string \<times> json) list \<Rightarrow> (string \<times> json) list \<Rightarrow> string list \<Rightarrow>
    episode \<Rightarrow> episode" where
  "emit etype plane time payload st evidence e =
     (let seq = Suc (length (ep_events e));
          event = \<lparr>evt_id = ''evt_'' @ ep_id e @ ''_'' @ pad4 seq, evt_type = etype, evt_episode_id = ep_id e,
                   evt_sequence = seq, evt_plane = plane, evt_logical_time = time, evt_payload = payload,
                   evt_state = st, evt_evidence = evidence\<rparr>
      in e\<lparr>ep_events := ep_events e @ [event],
           ep_telemetry := map_option (session_record_event event) (ep_telemetry e)\<rparr>)"

section \<open>Freezing the Oracle evaluation\<close>

definition payload_string :: "avp_event \<Rightarrow> string \<Rightarrow> string option" where
  "payload_string e k = (case payload_get e k of JStr (c # cs) \<Rightarrow> Some (c # cs) | _ \<Rightarrow> None)"

definition is_critical_failure :: "verification_result \<Rightarrow> bool" where
  "is_critical_failure r \<longleftrightarrow> vr_verdict r = ''FAIL'' \<and> vr_severity r = ''critical''"

definition verdict_of_results :: "verification_result list \<Rightarrow> task_verdict" where
  "verdict_of_results rs = (if list_ex is_critical_failure rs then FAIL else PASS)"

definition results_evidence_ids :: "verification_result list \<Rightarrow> string list" where
  "results_evidence_ids rs = sort (remdups (concat (map vr_evidence_ids rs)))"

text \<open>The record the Episode would freeze now, or \<open>None\<close> when the event and Evidence chain is not
  sufficient.\<close>

definition evaluation_candidate :: "episode_state \<Rightarrow> episode \<Rightarrow> oracle_evaluation_record option" where
  "evaluation_candidate target e =
     (case (List.find (\<lambda>ev. evt_type ev = ''episode.verification.started'') (ep_events e),
            List.find (\<lambda>ev. evt_type ev = ''oracle.execution.started'') (ep_events e)) of
        (Some started, Some request) \<Rightarrow>
          (case (payload_string started ''oracle_id'', payload_string started ''oracle_version'',
                 payload_string started ''oracle_package_digest'', payload_string request ''input_digest'') of
             (Some oid, Some version, Some package, Some input) \<Rightarrow>
               (let execution = List.find (\<lambda>ev. evt_type ev \<in>
                        {''oracle.execution.completed'', ''oracle.execution.failed''}) (rev (ep_events e));
                    execution_digest = (case execution of None \<Rightarrow> None
                        | Some ev \<Rightarrow> payload_string ev ''artifact_digest'');
                    oracle_failure = (ep_validity e = ORACLE_FAILURE);
                    accepted = (if oracle_failure then [] else ep_verification e)
                in if \<not> oracle_failure \<and> (execution_digest = None \<or> (target = INVALID \<and> ep_verification e = []))
                   then None
                   else Some \<lparr>er_oracle_id = oid, er_oracle_version = version, er_package_digest = package,
                     er_input_digest = input, er_execution_record_digest = execution_digest,
                     er_evaluation_validity = (if oracle_failure then ORACLE_FAILURE else VALID),
                     er_task_verdict = (if oracle_failure then INCONCLUSIVE else verdict_of_results accepted),
                     er_accepted_results = accepted, er_evidence_ids = results_evidence_ids accepted,
                     er_validity_detail = (if oracle_failure then ep_validity_detail e else None)\<rparr>)
           | _ \<Rightarrow> None)
      | _ \<Rightarrow> None)"

definition freeze_oracle_evaluation :: "episode_state \<Rightarrow> (episode, exn, unit) action" where
  "freeze_oracle_evaluation target e =
     (if ep_oracle_evaluation e \<noteq> None then (Inr (), e)
      else case evaluation_candidate target e of
        None \<Rightarrow> (Inr (), e)
      | Some r \<Rightarrow> (case make_evaluation_record r of
          Inl err \<Rightarrow> (Inl err, e)
        | Inr r' \<Rightarrow> (Inr (), e\<lparr>ep_oracle_evaluation := Some r'\<rparr>)))"

section \<open>Transitions and replay identity\<close>

definition commit_transition :: "episode_transition \<Rightarrow> episode \<Rightarrow> episode" where
  "commit_transition r e =
     emit ''episode.transition'' ''orchestrator'' 0 (episode_transition_dict r) [] []
       (e\<lparr>ep_state := tr_resulting r, ep_transitions := ep_transitions e @ [r]\<rparr>)"

definition transition :: "episode_state \<Rightarrow> transition_cause option \<Rightarrow> (episode, exn, episode_transition) action" where
  "transition target cause =
     act_bind (act_get ep_state) (\<lambda>previous.
     act_bind (act_of (assert_transition previous target)) (\<lambda>_.
     act_bind (act_when (target \<in> {COMPLETED, INVALID}) (freeze_oracle_evaluation target)) (\<lambda>_.
     act_bind (act_of (case cause of None \<Rightarrow> default_transition_cause previous target | Some c \<Rightarrow> Inr c)) (\<lambda>c.
     act_bind (act_read (\<lambda>e. make_episode_transition (ep_id e) (Suc (length (ep_transitions e))) previous target c)) (\<lambda>r.
     act_bind (act_modify (commit_transition r)) (\<lambda>_.
     act_return r))))))"

definition bind_replay_source :: "replay_source \<Rightarrow> (episode, exn, unit) action" where
  "bind_replay_source src e =
     (if ep_state e \<noteq> CREATED \<or> ep_transitions e \<noteq> []
      then (Inl (InvalidEpisodeTransition ''replay source must be bound while the Episode is CREATED''), e)
      else if ep_replay_source e \<noteq> None
      then (Inl (InvalidEpisodeTransition ''replay source is already bound''), e)
      else if src_episode_id src = ep_id e
      then (Inl (ValueError ''a replay Episode cannot reference itself as its source''), e)
      else (Inr (), e\<lparr>ep_replay_source := Some src\<rparr>))"

section \<open>What a transition does\<close>

text \<open>The evaluation record in place after the freeze of a transition to \<open>target\<close>.\<close>

definition frozen_evaluation :: "episode_state \<Rightarrow> episode \<Rightarrow> (exn, oracle_evaluation_record option) result" where
  "frozen_evaluation target e =
     (if target \<notin> {COMPLETED, INVALID} \<or> ep_oracle_evaluation e \<noteq> None then Inr (ep_oracle_evaluation e)
      else case evaluation_candidate target e of
        None \<Rightarrow> Inr None
      | Some r \<Rightarrow> (case make_evaluation_record r of Inl err \<Rightarrow> Inl err | Inr r' \<Rightarrow> Inr (Some r')))"

definition well_identified :: "episode \<Rightarrow> bool" where
  "well_identified e \<longleftrightarrow> ep_id e \<noteq> [] \<and> length (ep_id e) \<le> 256"

definition next_record :: "episode_state \<Rightarrow> transition_cause option \<Rightarrow> episode \<Rightarrow> episode_transition" where
  "next_record target cause e =
     \<lparr>tr_episode_id = ep_id e, tr_sequence = Suc (length (ep_transitions e)), tr_previous = ep_state e,
      tr_resulting = target,
      tr_cause = (case cause of Some c \<Rightarrow> c
        | None \<Rightarrow> \<lparr>cause_code = ''runtime.lifecycle.'' @ lower (state_value (ep_state e)) @ ''.'' @
                     lower (state_value target), cause_detail = None\<rparr>)\<rparr>"

lemma freeze_eq:
  "act_when (target = COMPLETED \<or> target = INVALID) (freeze_oracle_evaluation target) e =
     (case frozen_evaluation target e of Inl err \<Rightarrow> (Inl err, e)
      | Inr ev \<Rightarrow> (Inr (), e\<lparr>ep_oracle_evaluation := ev\<rparr>))"
  by (auto simp: action_simps freeze_oracle_evaluation_def frozen_evaluation_def
      split: option.splits sum.splits)

text \<open>Legality and the frozen record decide; there is no partial mutation.\<close>

lemma transition_eq:
  assumes "well_identified e"
  shows "transition target cause e =
    (if target \<notin> set (transitions (ep_state e))
     then (Inl (InvalidEpisodeTransition (''illegal transition '' @ state_value (ep_state e) @ '' -> '' @
             state_value target)), e)
     else case frozen_evaluation target e of
       Inl err \<Rightarrow> (Inl err, e)
     | Inr ev \<Rightarrow> (Inr (next_record target cause e),
                 commit_transition (next_record target cause e) (e\<lparr>ep_oracle_evaluation := ev\<rparr>)))"
proof (cases "target \<in> set (transitions (ep_state e))")
  case False
  then show ?thesis
    by (simp add: transition_def act_bind_def act_get_def act_of_def assert_transition_def raise_if_def)
next
  case legal: True
  then have ne: "ep_state e \<noteq> target" by auto
  have idok: "ep_id e \<noteq> []" "\<not> 256 < length (ep_id e)"
    using assms by (auto simp: well_identified_def)
  have mk: "make_episode_transition (ep_id e) (Suc (length (ep_transitions e))) (ep_state e) target c =
      Inr \<lparr>tr_episode_id = ep_id e, tr_sequence = Suc (length (ep_transitions e)), tr_previous = ep_state e,
        tr_resulting = target, tr_cause = c\<rparr>" for c
    using ne idok by (simp add: make_episode_transition_def res_bind_def raise_if_def)
  show ?thesis
    unfolding transition_def
    using legal mk
    by (simp add: freeze_eq act_bind_def act_get_def act_of_def act_read_def act_modify_def act_return_def
        assert_transition_def raise_if_def default_transition_cause_ok next_record_def
        split: sum.splits option.splits)
qed

lemma transition_okD:
  assumes "transition target cause e = (Inr r, e')" "well_identified e"
  shows "target \<in> set (transitions (ep_state e))" and "r = next_record target cause e"
    and "\<exists>ev. frozen_evaluation target e = Inr ev \<and> e' = commit_transition r (e\<lparr>ep_oracle_evaluation := ev\<rparr>)"
  using assms by (auto simp: transition_eq split: if_splits sum.splits)

lemma transition_errD:
  assumes "transition target cause e = (Inl err, e')" "well_identified e"
  shows "e' = e" and "target \<notin> set (transitions (ep_state e)) \<or> frozen_evaluation target e = Inl err"
  using assms by (auto simp: transition_eq split: if_splits sum.splits)

lemma frozen_evaluation_plain:
  "target \<notin> {COMPLETED, INVALID} \<Longrightarrow> frozen_evaluation target e = Inr (ep_oracle_evaluation e)"
  by (simp add: frozen_evaluation_def)

lemma frozen_evaluation_sound:
  "frozen_evaluation target e = Inr (Some r) \<Longrightarrow> ep_oracle_evaluation e = None \<Longrightarrow> sound_evaluation_record r"
  by (auto simp: frozen_evaluation_def dest: make_evaluation_record_sound
      split: if_splits option.splits sum.splits)

section \<open>Frame of the event timeline\<close>

lemma emit_frame [simp]:
  "ep_id (emit a b c d x y e) = ep_id e" "ep_state (emit a b c d x y e) = ep_state e"
  "ep_scenario (emit a b c d x y e) = ep_scenario e" "ep_agent (emit a b c d x y e) = ep_agent e"
  "ep_manifest (emit a b c d x y e) = ep_manifest e" "ep_validity (emit a b c d x y e) = ep_validity e"
  "ep_validity_detail (emit a b c d x y e) = ep_validity_detail e"
  "ep_task_verdict (emit a b c d x y e) = ep_task_verdict e"
  "ep_agent_report (emit a b c d x y e) = ep_agent_report e"
  "ep_evidence (emit a b c d x y e) = ep_evidence e" "ep_snapshots (emit a b c d x y e) = ep_snapshots e"
  "ep_verification (emit a b c d x y e) = ep_verification e"
  "ep_oracle_evaluation (emit a b c d x y e) = ep_oracle_evaluation e"
  "ep_transitions (emit a b c d x y e) = ep_transitions e"
  "ep_replay_source (emit a b c d x y e) = ep_replay_source e"
  by (simp_all add: emit_def Let_def)

lemma emit_events:
  "ep_events (emit a b c d x y e) = ep_events e @
     [\<lparr>evt_id = ''evt_'' @ ep_id e @ ''_'' @ pad4 (Suc (length (ep_events e))), evt_type = a,
       evt_episode_id = ep_id e, evt_sequence = Suc (length (ep_events e)), evt_plane = b, evt_logical_time = c,
       evt_payload = d, evt_state = x, evt_evidence = y\<rparr>]"
  by (simp add: emit_def Let_def)

lemma commit_frame [simp]:
  "ep_id (commit_transition r e) = ep_id e" "ep_state (commit_transition r e) = tr_resulting r"
  "ep_scenario (commit_transition r e) = ep_scenario e" "ep_agent (commit_transition r e) = ep_agent e"
  "ep_manifest (commit_transition r e) = ep_manifest e" "ep_validity (commit_transition r e) = ep_validity e"
  "ep_validity_detail (commit_transition r e) = ep_validity_detail e"
  "ep_task_verdict (commit_transition r e) = ep_task_verdict e"
  "ep_agent_report (commit_transition r e) = ep_agent_report e"
  "ep_evidence (commit_transition r e) = ep_evidence e" "ep_snapshots (commit_transition r e) = ep_snapshots e"
  "ep_verification (commit_transition r e) = ep_verification e"
  "ep_oracle_evaluation (commit_transition r e) = ep_oracle_evaluation e"
  "ep_transitions (commit_transition r e) = ep_transitions e @ [r]"
  "ep_replay_source (commit_transition r e) = ep_replay_source e"
  by (simp_all add: commit_transition_def)

lemma next_record_simps [simp]:
  "tr_resulting (next_record t c e) = t" "tr_previous (next_record t c e) = ep_state e"
  "tr_episode_id (next_record t c e) = ep_id e" "tr_sequence (next_record t c e) = Suc (length (ep_transitions e))"
  by (simp_all add: next_record_def)

section \<open>The invariant of an Episode\<close>

fun chained :: "episode_state \<Rightarrow> episode_transition list \<Rightarrow> episode_state \<Rightarrow> bool" where
  "chained s [] t = (s = t)"
| "chained s (r # rs) t = (tr_previous r = s \<and> lifecycle_step s (tr_resulting r) \<and> chained (tr_resulting r) rs t)"

lemma chained_append: "chained s (rs @ qs) t \<longleftrightarrow> (\<exists>u. chained s rs u \<and> chained u qs t)"
  by (induction rs arbitrary: s) auto

lemma chained_path: "chained s rs t \<Longrightarrow> lifecycle_path (s # map tr_resulting rs) \<and> last (s # map tr_resulting rs) = t"
  by (induction rs arbitrary: s) auto

definition is_transition_event :: "avp_event \<Rightarrow> bool" where
  "is_transition_event ev \<longleftrightarrow> evt_type ev = ''episode.transition''"

definition numbered :: "(nat \<Rightarrow> 'a \<Rightarrow> bool) \<Rightarrow> 'a list \<Rightarrow> bool" where
  "numbered P xs \<longleftrightarrow> (\<forall>i < length xs. P (Suc i) (xs ! i))"

lemma numbered_snoc [simp]: "numbered P (xs @ [x]) \<longleftrightarrow> numbered P xs \<and> P (Suc (length xs)) x"
  by (auto simp: numbered_def nth_append less_Suc_eq)

lemma numbered_Nil [simp]: "numbered P []"
  by (simp add: numbered_def)

definition lifecycle_recorded :: "episode \<Rightarrow> bool" where
  "lifecycle_recorded e \<longleftrightarrow> chained CREATED (ep_transitions e) (ep_state e) \<and>
     numbered (\<lambda>n r. tr_sequence r = n \<and> tr_episode_id r = ep_id e) (ep_transitions e)"

definition timeline_recorded :: "episode \<Rightarrow> bool" where
  "timeline_recorded e \<longleftrightarrow>
     numbered (\<lambda>n ev. evt_sequence ev = n \<and> evt_episode_id ev = ep_id e \<and>
       evt_id ev = ''evt_'' @ ep_id e @ ''_'' @ pad4 n) (ep_events e) \<and>
     map evt_payload (filter is_transition_event (ep_events e)) = map episode_transition_dict (ep_transitions e)"

definition acceptance_recorded :: "episode \<Rightarrow> bool" where
  "acceptance_recorded e \<longleftrightarrow> (case ep_oracle_evaluation e of None \<Rightarrow> True
     | Some r \<Rightarrow> sound_evaluation_record r \<and> ep_state e \<in> {COMPLETED, INVALID})"

definition episode_ok :: "episode \<Rightarrow> bool" where
  "episode_ok e \<longleftrightarrow> well_identified e \<and> lifecycle_recorded e \<and> timeline_recorded e \<and> acceptance_recorded e"

lemmas episode_ok_defs = episode_ok_def well_identified_def lifecycle_recorded_def timeline_recorded_def
  acceptance_recorded_def

lemma emit_ok: "etype \<noteq> ''episode.transition'' \<Longrightarrow> episode_ok e \<Longrightarrow> episode_ok (emit etype b c d x y e)"
  by (simp add: episode_ok_defs emit_events is_transition_event_def cong: option.case_cong)

lemma make_episode_ok: "eid \<noteq> [] \<Longrightarrow> length eid \<le> 256 \<Longrightarrow> episode_ok (make_episode eid s a m)"
  by (simp add: episode_ok_defs make_episode_def)

lemma commit_ok:
  assumes ok: "episode_ok e" and legal: "t \<in> set (transitions (ep_state e))"
    and ev: "frozen_evaluation t e = Inr ev"
  shows "episode_ok (commit_transition (next_record t c e) (e\<lparr>ep_oracle_evaluation := ev\<rparr>))"
proof -
  have "chained CREATED (ep_transitions e @ [next_record t c e]) t"
    using ok legal by (auto simp: episode_ok_defs chained_append)
  moreover have "acceptance_recorded (commit_transition (next_record t c e) (e\<lparr>ep_oracle_evaluation := ev\<rparr>))"
  proof (cases ev)
    case (Some r)
    have "ep_oracle_evaluation e = None"
    proof (rule ccontr)
      assume "ep_oracle_evaluation e \<noteq> None"
      with ok have "ep_state e \<in> {COMPLETED, INVALID}"
        by (auto simp: episode_ok_def acceptance_recorded_def split: option.splits)
      with legal show False by auto
    qed
    with ev Some have "sound_evaluation_record r" by (auto intro: frozen_evaluation_sound)
    moreover from \<open>ep_oracle_evaluation e = None\<close> ev Some have "t \<in> {COMPLETED, INVALID}"
      by (auto simp: frozen_evaluation_def split: if_splits)
    ultimately show ?thesis using Some by (auto simp: acceptance_recorded_def)
  qed (simp add: acceptance_recorded_def)
  ultimately show ?thesis
    using ok by (simp add: episode_ok_def well_identified_def lifecycle_recorded_def timeline_recorded_def
        commit_transition_def emit_events is_transition_event_def)
qed

lemma transition_ok: "evolves (keeping episode_ok) (transition t c)"
proof (rule evolvesI)
  fix e r e' assume run: "transition t c e = (r, e')"
  show "keeping episode_ok e e'"
  proof (cases "episode_ok e")
    case True
    then have "well_identified e" by (simp add: episode_ok_def)
    with True run show ?thesis
      by (auto simp: keeping_def transition_eq commit_ok split: if_splits sum.splits)
  qed (simp add: keeping_def)
qed

lemma bind_replay_source_ok: "evolves (keeping episode_ok) (bind_replay_source src)"
  by (auto simp: evolves_def keeping_def bind_replay_source_def episode_ok_defs cong: option.case_cong)

section \<open>What only grows\<close>

definition keeps_some :: "'a option \<Rightarrow> 'a option \<Rightarrow> bool" where
  "keeps_some x y \<longleftrightarrow> (case x of None \<Rightarrow> True | Some v \<Rightarrow> y = Some v)"

lemma keeps_some_refl [simp]: "keeps_some x x"
  by (simp add: keeps_some_def split: option.splits)

lemma keeps_some_None [simp]: "keeps_some None y"
  by (simp add: keeps_some_def)

lemma keeps_some_trans: "keeps_some x y \<Longrightarrow> keeps_some y z \<Longrightarrow> keeps_some x z"
  by (auto simp: keeps_some_def split: option.splits)

text \<open>The identities are fixed, the two histories are append-only, a frozen evaluation and a bound
  replay source stay, a terminal Episode keeps its state.\<close>

definition episode_grows :: "episode \<Rightarrow> episode \<Rightarrow> bool" where
  "episode_grows a b \<longleftrightarrow>
     ep_id b = ep_id a \<and> ep_scenario b = ep_scenario a \<and> ep_agent b = ep_agent a \<and> ep_manifest b = ep_manifest a \<and>
     prefix (ep_events a) (ep_events b) \<and> prefix (ep_transitions a) (ep_transitions b) \<and>
     keeps_some (ep_oracle_evaluation a) (ep_oracle_evaluation b) \<and>
     keeps_some (ep_replay_source a) (ep_replay_source b) \<and>
     (\<not> is_terminal (ep_state a) \<or> ep_state b = ep_state a)"

lemma episode_grows_refl [simp]: "episode_grows a a"
  by (simp add: episode_grows_def)

lemma episode_grows_trans: "episode_grows a b \<Longrightarrow> episode_grows b c \<Longrightarrow> episode_grows a c"
  by (auto simp: episode_grows_def dest: keeps_some_trans prefix_order.trans)

interpretation growing: evolution episode_grows
  by unfold_locales (auto dest: episode_grows_trans)

lemma emit_grows [simp]: "episode_grows e (emit a b c d x y e)"
  by (simp add: episode_grows_def emit_events)

lemma commit_grows:
  assumes "t \<in> set (transitions (ep_state e))" "frozen_evaluation t e = Inr ev"
  shows "episode_grows e (commit_transition (next_record t c e) (e\<lparr>ep_oracle_evaluation := ev\<rparr>))"
proof -
  have "keeps_some (ep_oracle_evaluation e) ev"
    using assms(2) by (auto simp: frozen_evaluation_def split: if_splits option.splits)
  moreover have "\<not> is_terminal (ep_state e)"
    using assms(1) terminal_no_step by auto
  moreover have "prefix (ep_events e)
      (ep_events (commit_transition (next_record t c e) (e\<lparr>ep_oracle_evaluation := ev\<rparr>)))"
    by (simp add: commit_transition_def emit_events)
  ultimately show ?thesis by (simp add: episode_grows_def)
qed

lemma transition_grows:
  assumes "transition t c e = (r, e')" "well_identified e"
  shows "episode_grows e e'"
  using assms by (auto simp: transition_eq commit_grows split: if_splits sum.splits)

lemma bind_replay_source_grows: "bind_replay_source src e = (r, e') \<Longrightarrow> episode_grows e e'"
  by (auto simp: bind_replay_source_def episode_grows_def split: if_splits)

section \<open>Properties\<close>

text \<open>C14: A lifecycle transition is all or nothing: an illegal target or a record that cannot be frozen raises
  and leaves the Episode untouched; otherwise the new state is the target, exactly one transition record is
  appended, linked to the previous state, and the frozen evaluation is the one computed beforehand.\<close>

theorem transition_is_atomic:
  assumes "well_identified e"
  shows "case transition target cause e of
      (Inl _, e') \<Rightarrow> e' = e \<and>
        (target \<notin> set (transitions (ep_state e)) \<or> (\<exists>x. frozen_evaluation target e = Inl x))
    | (Inr r, e') \<Rightarrow> target \<in> set (transitions (ep_state e)) \<and> ep_state e' = target \<and>
        ep_transitions e' = ep_transitions e @ [r] \<and> tr_previous r = ep_state e \<and> tr_resulting r = target \<and>
        tr_sequence r = Suc (length (ep_transitions e)) \<and>
        frozen_evaluation target e = Inr (ep_oracle_evaluation e')"
  unfolding transition_eq [OF assms]
  by (cases "frozen_evaluation target e") simp_all

theorem transition_is_atomic_witness:
  "\<forall>s a m r. fst (transition RUNNING None (make_episode ''ep_1'' s a m)) \<noteq> Inr r \<and>
     snd (transition RUNNING None (make_episode ''ep_1'' s a m)) = make_episode ''ep_1'' s a m"
proof (intro allI)
  fix s a m r
  have "well_identified (make_episode ''ep_1'' s a m)" "RUNNING \<notin> set (transitions (ep_state (make_episode ''ep_1'' s a m)))"
    by (simp_all add: well_identified_def make_episode_def)
  with transition_is_atomic [OF this(1), of RUNNING None]
  show "fst (transition RUNNING None (make_episode ''ep_1'' s a m)) \<noteq> Inr r \<and>
     snd (transition RUNNING None (make_episode ''ep_1'' s a m)) = make_episode ''ep_1'' s a m"
    by (cases "transition RUNNING None (make_episode ''ep_1'' s a m)") (simp split: sum.splits)
qed

lemma freeze_keeps: "ep_oracle_evaluation e = Some x \<Longrightarrow> ep_oracle_evaluation (snd (freeze_oracle_evaluation target e)) = Some x"
  by (simp add: freeze_oracle_evaluation_def)

lemma freeze_creates:
  "ep_oracle_evaluation e = None \<Longrightarrow> ep_oracle_evaluation (snd (freeze_oracle_evaluation target e)) = Some x \<Longrightarrow>
     evaluation_candidate target e = Some x \<and> sound_evaluation_record x"
  by (auto simp: freeze_oracle_evaluation_def dest: make_evaluation_record_sound split: option.splits sum.splits)

text \<open>Whatever a transition raises, its only effect on the record is the freeze.\<close>

lemma transition_evaluation:
  "ep_oracle_evaluation (snd (transition target cause e)) =
     (if target \<in> set (transitions (ep_state e)) \<and> target \<in> {COMPLETED, INVALID}
      then ep_oracle_evaluation (snd (freeze_oracle_evaluation target e)) else ep_oracle_evaluation e)"
  by (cases "freeze_oracle_evaluation target e")
    (auto simp: transition_def act_bind_def act_get_def act_of_def act_when_def act_read_def act_modify_def act_return_def
      assert_transition_def raise_if_def split: sum.splits if_splits)

lemma candidate_content:
  assumes "evaluation_candidate target e = Some x"
  shows "if ep_validity e = ORACLE_FAILURE then er_evaluation_validity x = ORACLE_FAILURE \<and> er_task_verdict x = INCONCLUSIVE \<and>
       er_accepted_results x = [] \<and> er_validity_detail x = ep_validity_detail e
     else er_evaluation_validity x = VALID \<and> er_accepted_results x = ep_verification e \<and>
       er_task_verdict x = (if \<exists>i \<in> set (ep_verification e). is_critical_failure i then FAIL else PASS)"
  using assms by (auto simp: evaluation_candidate_def Let_def verdict_of_results_def list_ex_iff split: option.splits if_splits)

text \<open>An Episode whose Oracle has failed, with any scenario, Agent and Manifest.\<close>

definition failed_oracle :: "scenario_instance \<Rightarrow> agent_system \<Rightarrow> episode_manifest \<Rightarrow> episode" where
  "failed_oracle s a m =
     emit ''oracle.execution.started'' ''oracle'' 0 [(''input_digest'', JStr (sha256_id []))] [] []
       (emit ''episode.verification.started'' ''oracle'' 0
          [(''oracle_id'', JStr ''o''), (''oracle_version'', JStr ''1''), (''oracle_package_digest'', JStr (sha256_id []))] [] []
          ((make_episode ''ep_1'' s a m)\<lparr>ep_state := VERIFYING, ep_validity := ORACLE_FAILURE,
             ep_validity_detail := Some \<lparr>vd_code = ''ORACLE_TIMEOUT'', vd_message = None, vd_evidence_ids = []\<rparr>\<rparr>))"

lemma payload_string_text: "payload_get ev k = JStr v \<Longrightarrow> v \<noteq> [] \<Longrightarrow> payload_string ev k = Some v"
  by (cases v) (simp_all add: payload_string_def)

lemma failed_oracle_record:
  "\<exists>x. ep_oracle_evaluation (snd (transition COMPLETED cause (failed_oracle s a m))) = Some x"
proof -
  let ?e = "failed_oracle s a m"
  obtain started request where ev: "ep_events ?e = [started, request]" "evt_type started = ''episode.verification.started''"
    "evt_type request = ''oracle.execution.started''" "payload_get started ''oracle_id'' = JStr ''o''"
    "payload_get started ''oracle_version'' = JStr ''1''" "payload_get started ''oracle_package_digest'' = JStr (sha256_id [])"
    "payload_get request ''input_digest'' = JStr (sha256_id [])"
    by (simp add: failed_oracle_def emit_events make_episode_def payload_get_def)
  have st: "ep_oracle_evaluation ?e = None" "ep_state ?e = VERIFYING" "ep_validity ?e = ORACLE_FAILURE" "ep_validity_detail ?e \<noteq> None"
    by (simp_all add: failed_oracle_def make_episode_def)
  note strings = ev(4-7)[THEN payload_string_text, simplified]
  have "\<exists>x. evaluation_candidate COMPLETED ?e = Some x \<and> make_evaluation_record x = Inr x"
    using st(3,4) by (simp add: evaluation_candidate_def ev(1-3) strings Let_def make_evaluation_record_def results_evidence_ids_def)
  then show ?thesis using st(1,2) by (auto simp: transition_evaluation freeze_oracle_evaluation_def)
qed

text \<open>C15: The Oracle evaluation of an Episode is frozen once and is sound. Any sequence of transitions, legal or not, keeps a record
  that is there. A transition that puts one there is a legal one to COMPLETED or INVALID, and the record is sound and says what the Episode holds:
  after an Oracle failure no results, INCONCLUSIVE and the failure's detail, otherwise the Episode's results and FAIL exactly if one of them
  is a critical failure.\<close>

theorem evaluation_is_frozen_once:
  "(\<forall>x. ep_oracle_evaluation e = Some x \<longrightarrow>
      ep_oracle_evaluation (fold (\<lambda>(target, cause) e. snd (transition target cause e)) ts e) = Some x) \<and>
   (\<forall>x target cause. ep_oracle_evaluation e = None \<longrightarrow> ep_oracle_evaluation (snd (transition target cause e)) = Some x \<longrightarrow>
      target \<in> {COMPLETED, INVALID} \<and> target \<in> set (transitions (ep_state e)) \<and> sound_evaluation_record x \<and>
      (if ep_validity e = ORACLE_FAILURE then er_task_verdict x = INCONCLUSIVE \<and> er_accepted_results x = [] \<and>
         er_validity_detail x = ep_validity_detail e
       else er_accepted_results x = ep_verification e \<and>
         er_task_verdict x = (if \<exists>i \<in> set (ep_verification e). is_critical_failure i then FAIL else PASS)))"
proof (intro conjI allI impI)
  fix x assume "ep_oracle_evaluation e = Some x"
  then show "ep_oracle_evaluation (fold (\<lambda>(target, cause) e. snd (transition target cause e)) ts e) = Some x"
    by (induction ts arbitrary: e) (auto simp: transition_evaluation freeze_keeps)
next
  fix x target cause
  assume "ep_oracle_evaluation e = None" "ep_oracle_evaluation (snd (transition target cause e)) = Some x"
  then have "target \<in> {COMPLETED, INVALID} \<and> target \<in> set (transitions (ep_state e))"
      "evaluation_candidate target e = Some x \<and> sound_evaluation_record x"
    by (auto simp: transition_evaluation dest: freeze_creates split: if_splits)
  with candidate_content [of target e x]
  show "target \<in> {COMPLETED, INVALID}" "target \<in> set (transitions (ep_state e))" "sound_evaluation_record x"
    "if ep_validity e = ORACLE_FAILURE then er_task_verdict x = INCONCLUSIVE \<and> er_accepted_results x = [] \<and>
         er_validity_detail x = ep_validity_detail e
       else er_accepted_results x = ep_verification e \<and>
         er_task_verdict x = (if \<exists>i \<in> set (ep_verification e). is_critical_failure i then FAIL else PASS)"
    by (auto split: if_splits)
qed

theorem evaluation_is_frozen_once_witness:
  "\<forall>s a m. \<exists>x. ep_oracle_evaluation (snd (transition COMPLETED None (failed_oracle s a m))) = Some x \<and> sound_evaluation_record x \<and>
     er_task_verdict x = INCONCLUSIVE \<and>
     ep_oracle_evaluation (fold (\<lambda>(target, cause) e. snd (transition target cause e)) [(COMPLETED, None), (INVALID, None)]
       (snd (transition COMPLETED None (failed_oracle s a m)))) = Some x"
proof (intro allI)
  fix s a m
  let ?e = "failed_oracle s a m"
  obtain x where x: "ep_oracle_evaluation (snd (transition COMPLETED None ?e)) = Some x" using failed_oracle_record by blast
  have none: "ep_oracle_evaluation ?e = None" "ep_validity ?e = ORACLE_FAILURE" by (simp_all add: failed_oracle_def make_episode_def)
  from evaluation_is_frozen_once [of ?e "[]"] none x have "sound_evaluation_record x" "er_task_verdict x = INCONCLUSIVE"
    by (metis, metis)
  with x evaluation_is_frozen_once [of "snd (transition COMPLETED None ?e)" "[(COMPLETED, None), (INVALID, None)]"]
  show "\<exists>x. ep_oracle_evaluation (snd (transition COMPLETED None ?e)) = Some x \<and> sound_evaluation_record x \<and>
     er_task_verdict x = INCONCLUSIVE \<and>
     ep_oracle_evaluation (fold (\<lambda>(target, cause) e. snd (transition target cause e)) [(COMPLETED, None), (INVALID, None)]
       (snd (transition COMPLETED None ?e))) = Some x" by blast
qed

end
