(* ===== verification/AVP_McpModels.thy ===== *)
theory AVP_McpModels
  imports AVP_Boundary "HOL-Library.Multiset"
begin

text \<open>
  \<^verbatim>\<open>mcp/models.py\<close>: the gateway policy, the server and tool descriptions, the tool catalog with its
  identity, and the audit record of one upstream call.
\<close>

definition mcp_protocol_version :: string where
  "mcp_protocol_version = ''2026-07-28''"

record mcp_policy =
  mp_allowed_tools :: "string list"
  mp_detect_schema_drift :: bool
  mp_max_catalog_tools :: int
  mp_max_catalog_pages :: int
  mp_max_schema_depth :: int

definition make_mcp_policy :: "mcp_policy \<Rightarrow> (exn, mcp_policy) result" where
  "make_mcp_policy p =
     res_bind (raise_if (min (mp_max_catalog_tools p) (min (mp_max_catalog_pages p) (mp_max_schema_depth p)) < 1)
       (ValueError ''MCP policy limits must be >= 1'')) (\<lambda>_.
     Inr (p\<lparr>mp_allowed_tools := remdups (mp_allowed_tools p)\<rparr>))"

record mcp_server =
  mv_supported_versions :: "string list"
  mv_server_name :: string
  mv_server_version :: string
  mv_capabilities :: json

definition make_mcp_server :: "mcp_server \<Rightarrow> (exn, mcp_server) result" where
  "make_mcp_server s =
     res_bind (raise_if (mv_server_name s = [] \<or> mv_server_version s = [])
       (ValueError ''MCP server identity must be non-empty'')) (\<lambda>_. Inr s)"

definition mcp_server_identity_digest :: "mcp_server \<Rightarrow> string" where
  "mcp_server_identity_digest s = json_digest (JObj
     [(''supported_versions'', jstrs (mv_supported_versions s)), (''server_name'', JStr (mv_server_name s)),
      (''server_version'', JStr (mv_server_version s)), (''capabilities'', mv_capabilities s)])"

record mcp_tool =
  mt_name :: string
  mt_title :: json
  mt_description :: json
  mt_icons :: "json list"
  mt_input_schema :: json
  mt_output_schema :: "json option"
  mt_annotations :: json

definition make_mcp_tool :: "mcp_tool \<Rightarrow> (exn, mcp_tool) result" where
  "make_mcp_tool t = res_bind (raise_if (mt_name t = []) (ValueError ''MCP tool name must be non-empty'')) (\<lambda>_. Inr t)"

definition mcp_tool_dict :: "mcp_tool \<Rightarrow> json" where
  "mcp_tool_dict t = JObj
     ([(''name'', JStr (mt_name t)), (''title'', mt_title t), (''description'', mt_description t),
       (''icons'', JList (mt_icons t)), (''inputSchema'', mt_input_schema t), (''annotations'', mt_annotations t)] @
      (case mt_output_schema t of None \<Rightarrow> [] | Some x \<Rightarrow> [(''outputSchema'', x)]))"

definition mcp_schema_digest :: "mcp_tool \<Rightarrow> string" where
  "mcp_schema_digest t = json_digest (JObj
     [(''inputSchema'', mt_input_schema t),
      (''outputSchema'', case mt_output_schema t of None \<Rightarrow> JNull | Some x \<Rightarrow> x)])"

record mcp_catalog =
  mc_tools :: "mcp_tool list"
  mc_page_digests :: "string list"
  mc_cache_scope :: string
  mc_min_ttl_ms :: int

definition make_mcp_catalog :: "mcp_tool list \<Rightarrow> string list \<Rightarrow> string \<Rightarrow> int \<Rightarrow> (exn, mcp_catalog) result" where
  "make_mcp_catalog tools pages scope ttl =
     (let ordered = sort_key mt_name tools in
      res_bind (raise_if (\<not> distinct (map mt_name ordered))
        (ValueError ''MCP catalog contains duplicate tool names'')) (\<lambda>_.
      res_bind (raise_if (scope \<notin> {''public'', ''private''} \<or> ttl < 0)
        (ValueError ''invalid MCP cache metadata'')) (\<lambda>_.
      Inr \<lparr>mc_tools = ordered, mc_page_digests = pages, mc_cache_scope = scope, mc_min_ttl_ms = ttl\<rparr>)))"

definition mcp_tool_named :: "mcp_catalog \<Rightarrow> string \<Rightarrow> mcp_tool option" where
  "mcp_tool_named c nm = map_of (map (\<lambda>t. (mt_name t, t)) (mc_tools c)) nm"

definition mcp_catalog_dict :: "mcp_catalog \<Rightarrow> json" where
  "mcp_catalog_dict c = JObj
     [(''tools'', JList (map mcp_tool_dict (mc_tools c))), (''pageDigests'', jstrs (mc_page_digests c)),
      (''cacheScope'', JStr (mc_cache_scope c)), (''minTtlMs'', JInt (mc_min_ttl_ms c))]"

definition mcp_catalog_digest :: "mcp_catalog \<Rightarrow> string" where
  "mcp_catalog_digest c = json_digest (JObj [(''tools'', JList (map mcp_tool_dict (mc_tools c)))])"

record mcp_gateway_description =
  md_gateway_name :: string
  md_gateway_version :: string
  md_protocol_version :: string
  md_upstream_url_digest :: string
  md_server_digest :: string
  md_baseline_catalog_digest :: string
  md_allowed_tools :: "string list"

definition mcp_gateway_identity_digest :: "mcp_gateway_description \<Rightarrow> string" where
  "mcp_gateway_identity_digest d = json_digest (JObj
     [(''gateway_name'', JStr (md_gateway_name d)), (''gateway_version'', JStr (md_gateway_version d)),
      (''protocol_version'', JStr (md_protocol_version d)),
      (''upstream_url_digest'', JStr (md_upstream_url_digest d)), (''server_digest'', JStr (md_server_digest d)),
      (''baseline_catalog_digest'', JStr (md_baseline_catalog_digest d)),
      (''allowed_tools'', jstrs (md_allowed_tools d))])"

datatype mcp_call_outcome = CALL_SUCCESS | CALL_TOOL_ERROR | CALL_UPSTREAM_ERROR

fun mcp_call_outcome_value :: "mcp_call_outcome \<Rightarrow> string" where
  "mcp_call_outcome_value CALL_SUCCESS = ''success''"
| "mcp_call_outcome_value CALL_TOOL_ERROR = ''tool_error''"
| "mcp_call_outcome_value CALL_UPSTREAM_ERROR = ''upstream_error''"

record mcp_call_record =
  cr_correlation_id :: string
  cr_tool_name :: string
  cr_arguments_digest :: string
  cr_result_digest :: "string option"
  cr_schema_digest :: string
  cr_catalog_digest :: string
  cr_outcome :: mcp_call_outcome

definition make_mcp_call_record :: "mcp_call_record \<Rightarrow> (exn, mcp_call_record) result" where
  "make_mcp_call_record r =
     res_bind (raise_if (cr_correlation_id r = [] \<or> cr_tool_name r = [])
       (ValueError ''MCP call identity must be non-empty'')) (\<lambda>_.
     res_bind (if cr_outcome r = CALL_UPSTREAM_ERROR
       then raise_if (cr_result_digest r \<noteq> None)
              (ValueError ''upstream-error MCP calls cannot have a result digest'')
       else raise_if (cr_result_digest r = None)
              (ValueError ''accepted MCP result outcomes require a result digest'')) (\<lambda>_.
     Inr r))"

definition mcp_call_record_dict :: "mcp_call_record \<Rightarrow> json" where
  "mcp_call_record_dict r = JObj
     [(''correlation_id'', JStr (cr_correlation_id r)), (''tool_name'', JStr (cr_tool_name r)),
      (''arguments_digest'', JStr (cr_arguments_digest r)), (''result_digest'', opt_str (cr_result_digest r)),
      (''schema_digest'', JStr (cr_schema_digest r)), (''catalog_digest'', JStr (cr_catalog_digest r)),
      (''outcome'', JStr (mcp_call_outcome_value (cr_outcome r)))]"

text \<open>Retrieval metadata (page digests, cache scope, TTL) is not part of the catalog's identity, and
  neither is the order in which the server lists its tools.\<close>

lemma sort_key_unique:
  assumes "mset xs = mset ys" "distinct (map f xs)"
  shows "sort_key f xs = sort_key f (ys :: 'a list)"
proof (rule properties_for_sort_key)
  show "mset (sort_key f ys) = mset xs" using assms(1) by simp
  show "filter (\<lambda>x. f k = f x) (sort_key f ys) = filter (\<lambda>x. f k = f x) xs" if "k \<in> set (sort_key f ys)" for k
  proof -
    have k: "k \<in> set xs" using that assms(1) by (metis set_mset_mset set_sort)
    have one: "filter (\<lambda>x. f k = f x) zs = [k]" if "mset zs = mset xs" for zs
    proof -
      have "distinct (map f zs)" "k \<in> set zs"
        using that assms(2) k by (metis mset_map mset_eq_imp_distinct_iff, metis set_mset_mset)
      then show ?thesis
        by (induction zs) (auto simp: filter_empty_conv image_iff)
    qed
    then show ?thesis using assms(1) by simp
  qed
  show "sorted (map f (sort_key f ys))" by simp
qed

lemma catalog_digest_order_independent:
  assumes "make_mcp_catalog xs ps sc tt = Inr c" "make_mcp_catalog ys qs sd tu = Inr d" "mset xs = mset ys"
  shows "mcp_catalog_digest c = mcp_catalog_digest d"
proof -
  have "distinct (map mt_name xs)"
    using assms(1) by (auto simp: make_mcp_catalog_def Let_def distinct_map)
  then have "sort_key mt_name xs = sort_key mt_name ys" by (rule sort_key_unique [OF assms(3)])
  with assms(1,2) show ?thesis
    by (auto simp: make_mcp_catalog_def Let_def mcp_catalog_digest_def)
qed

section \<open>Properties\<close>

text \<open>The catalog digest does not depend on the order in which a server lists its tools: two catalogs
  built from the same tools, in whatever order and pages, have the same identity.\<close>

theorem catalog_identity_ignores_listing_order:
  assumes "make_mcp_catalog xs ps sc tt = Inr c" "make_mcp_catalog ys qs sd tu = Inr d" "mset xs = mset ys"
  shows "mcp_catalog_digest c = mcp_catalog_digest d"
  by (rule catalog_digest_order_independent [OF assms])

theorem catalog_identity_ignores_listing_order_witness:
  "\<exists>c d a b. a \<noteq> b \<and> make_mcp_catalog [a, b] [] ''public'' 0 = Inr c \<and>
     make_mcp_catalog [b, a] [''p''] ''private'' 5 = Inr d \<and> mcp_catalog_digest c = mcp_catalog_digest d"
proof -
  define a b :: mcp_tool where "a = \<lparr>mt_name = ''a'', mt_title = JNull, mt_description = JNull, mt_icons = [],
      mt_input_schema = JObj [], mt_output_schema = None, mt_annotations = JObj []\<rparr>"
    and "b = a\<lparr>mt_name := ''b''\<rparr>"
  have ne: "a \<noteq> b" "b \<noteq> a" by (simp_all add: a_def b_def)
  have "distinct (map mt_name (sort_key mt_name [a, b]))" "distinct (map mt_name (sort_key mt_name [b, a]))"
    using ne by (simp_all add: distinct_map inj_on_def, simp_all add: a_def b_def)
  then obtain c d where made: "make_mcp_catalog [a, b] [] ''public'' 0 = Inr c"
    "make_mcp_catalog [b, a] [''p''] ''private'' 5 = Inr d"
    by (auto simp: make_mcp_catalog_def Let_def raise_if_def res_bind_def)
  from catalog_identity_ignores_listing_order [OF made] made ne show ?thesis
    by (intro exI [of _ c] exI [of _ d] exI [of _ a] exI [of _ b]) simp
qed

end
