(* ===== verification/AVP_OraclePackage.thy ===== *)
theory AVP_OraclePackage
  imports AVP_OracleModels
begin

text \<open>
  \<^verbatim>\<open>oracle_runner/package.py\<close>: Oracle entrypoints, package construction (the digest of the module's
  source file comes from the file system and is an argument) and the resolution of input pointers
  into a scenario document.
\<close>

section \<open>Splitting and replacing\<close>

fun split_on :: "char \<Rightarrow> string \<Rightarrow> string list" where
  "split_on d [] = [[]]"
| "split_on d (c # cs) =
     (if c = d then [] # split_on d cs
      else case split_on d cs of [] \<Rightarrow> [[c]] | w # ws \<Rightarrow> (c # w) # ws)"

text \<open>\<open>s.replace(ab, r)\<close> for a two-character pattern.\<close>

fun replace2 :: "char \<Rightarrow> char \<Rightarrow> char \<Rightarrow> string \<Rightarrow> string" where
  "replace2 a b r (x # y # s) = (if x = a \<and> y = b then r # replace2 a b r s else x # replace2 a b r (y # s))"
| "replace2 a b r s = s"

lemma split_on_join: "split_on d s = ws \<Longrightarrow> concat (map (\<lambda>w. w @ [d]) ws) = s @ [d]"
  by (induction s arbitrary: ws) (auto split: list.splits if_splits)

lemma split_on_not_Nil [simp]: "split_on d s \<noteq> []"
  by (induction s) (auto split: list.splits)

lemma split_on_no_delim: "w \<in> set (split_on d s) \<Longrightarrow> d \<notin> set w"
  by (induction s arbitrary: w) (fastforce split: list.splits if_splits)+

section \<open>Entrypoints and packages\<close>

text \<open>\<open>\w\<close> on the code points of one byte.\<close>

definition is_word_char :: "char \<Rightarrow> bool" where
  "is_word_char c \<longleftrightarrow> is_alnum_ascii c \<or> c = CHR ''_'' \<or>
     (let n = of_char c :: nat in n \<in> {170, 178, 179, 181, 185, 186, 188, 189, 190} \<or>
        (192 \<le> n \<and> n \<noteq> 215 \<and> n \<noteq> 247))"

definition is_identifier :: "string \<Rightarrow> bool" where
  "is_identifier s \<longleftrightarrow> (case s of [] \<Rightarrow> False | c # cs \<Rightarrow>
     (is_upper_ascii c \<or> is_lower_ascii c \<or> c = CHR ''_'') \<and> list_all is_word_char cs)"

definition parse_entrypoint :: "string \<Rightarrow> (exn, string \<times> string) result" where
  "parse_entrypoint e =
     (case split_on CHR '':'' e of
        [m, c] \<Rightarrow>
          (if list_all is_identifier (split_on CHR ''.'' m) \<and> is_identifier c then Inr (m, c)
           else Inl (OracleExn OracleConfigurationError (''invalid Oracle entrypoint: '' @ py_repr_str e)))
      | _ \<Rightarrow> Inl (OracleExn OracleConfigurationError (''invalid Oracle entrypoint: '' @ py_repr_str e)))"

text \<open>\<open>module_source\<close> stands for the import system and the file read: the bytes of the source file
  of a module, \<open>Some None\<close> when it has no source file, \<open>None\<close> when it cannot be resolved.\<close>

definition module_code_digest :: "(string \<Rightarrow> bytes option option) \<Rightarrow> string \<Rightarrow> (exn, string) result" where
  "module_code_digest module_source e =
     res_bind (parse_entrypoint e) (\<lambda>(m, _).
     case module_source m of
       None \<Rightarrow> Inl (OracleExn OracleConfigurationError (''Oracle module cannot be resolved: '' @ m))
     | Some None \<Rightarrow> Inl (OracleExn OracleConfigurationError (''Oracle module has no hashable source file: '' @ m))
     | Some (Some src) \<Rightarrow> Inr (sha256_id src))"

definition build_oracle_package :: "(string \<Rightarrow> bytes option option) \<Rightarrow> string \<Rightarrow> string \<Rightarrow> string \<Rightarrow> string list \<Rightarrow>
    (string \<times> string) list \<Rightarrow> (exn, oracle_package) result" where
  "build_oracle_package module_source oid version entry projections pointers =
     res_bind (module_code_digest module_source entry) (\<lambda>code.
     make_oracle_package \<lparr>pk_oracle_id = oid, pk_version = version, pk_entrypoint = entry, pk_code_digest = code,
       pk_projections = projections, pk_input_pointers = pointers, pk_package_digest = None\<rparr>)"

section \<open>Input pointers\<close>

text \<open>Python's \<open>int(token)\<close>: surrounding white space, a sign, and digit groups joined by single
  underscores.\<close>

definition digits_value :: "string \<Rightarrow> nat" where
  "digits_value s = foldl (\<lambda>a c. a * 10 + (of_char c - 48)) 0 s"

definition py_strip :: "string \<Rightarrow> string" where
  "py_strip s = rev (dropWhile is_space (rev (dropWhile is_space s)))"

definition py_int :: "string \<Rightarrow> int option" where
  "py_int token =
     (let s = py_strip token;
          negative = (take 1 s = ''-'');
          body = (if take 1 s = ''-'' \<or> take 1 s = ''+'' then drop 1 s else s);
          groups = split_on CHR ''_'' body
      in if list_all (\<lambda>g. g \<noteq> [] \<and> list_all is_digit g) groups
         then Some (if negative then - int (digits_value (concat groups)) else int (digits_value (concat groups)))
         else None)"

text \<open>\<open>items[index]\<close>: a negative index counts from the end.\<close>

definition py_nth :: "'a list \<Rightarrow> int \<Rightarrow> 'a option" where
  "py_nth xs i =
     (let n = int (length xs) in
      if 0 \<le> i \<and> i < n then Some (xs ! nat i)
      else if - n \<le> i \<and> i < 0 then Some (xs ! nat (n + i)) else None)"

definition pointer_step :: "string \<Rightarrow> json \<Rightarrow> string \<Rightarrow> (exn, json) result" where
  "pointer_step pointer current raw_token =
     (let token = replace2 CHR ''~'' CHR ''0'' CHR ''~'' (replace2 CHR ''~'' CHR ''1'' CHR ''/'' raw_token) in
      case current of
        JObj kvs \<Rightarrow> (case map_of kvs token of
            None \<Rightarrow> Inl (OracleExn OracleConfigurationError (''Oracle input pointer does not resolve: '' @ pointer))
          | Some v \<Rightarrow> Inr v)
      | JList xs \<Rightarrow> (case Option.bind (py_int token) (py_nth xs) of
            None \<Rightarrow> Inl (OracleExn OracleConfigurationError (''Oracle array input pointer does not resolve: '' @ pointer))
          | Some v \<Rightarrow> Inr v)
      | _ \<Rightarrow> Inl (OracleExn OracleConfigurationError (''Oracle input pointer traverses a scalar: '' @ pointer)))"

fun pointer_walk :: "string \<Rightarrow> json \<Rightarrow> string list \<Rightarrow> (exn, json) result" where
  "pointer_walk pointer current [] = Inr current"
| "pointer_walk pointer current (t # ts) =
     res_bind (pointer_step pointer current t) (\<lambda>v. pointer_walk pointer v ts)"

definition resolve_json_pointer :: "json \<Rightarrow> string \<Rightarrow> (exn, json) result" where
  "resolve_json_pointer document pointer =
     (if take 1 pointer \<noteq> ''/''
      then Inl (OracleExn OracleConfigurationError
             (''Oracle input pointer must start with '' @ CHR 0x27 # ''/'' @ CHR 0x27 # '': '' @ py_repr_str pointer))
      else pointer_walk pointer document (split_on CHR ''/'' (drop 1 pointer)))"

section \<open>Encoding and resolution\<close>

text \<open>RFC 6901 escapes a member name by writing \<open>~\<close> as \<open>~0\<close> and \<open>/\<close> as \<open>~1\<close>.\<close>

fun pointer_escape :: "string \<Rightarrow> string" where
  "pointer_escape [] = []"
| "pointer_escape (c # s) =
     (if c = CHR ''~'' then ''~0'' else if c = CHR ''/'' then ''~1'' else [c]) @ pointer_escape s"

text \<open>After the first replacement a \<open>~\<close> is followed by \<open>0\<close> only where the name had a \<open>~\<close>.\<close>

fun half_escape :: "string \<Rightarrow> string" where
  "half_escape [] = []"
| "half_escape (c # s) = (if c = CHR ''~'' then ''~0'' else [c]) @ half_escape s"

lemma replace2_skip: "x \<noteq> a \<Longrightarrow> replace2 a b r (x # s) = x # replace2 a b r s"
  by (cases s) auto

lemma unescape_slash: "replace2 CHR ''~'' CHR ''1'' CHR ''/'' (pointer_escape s) = half_escape s"
proof (induction s)
  case (Cons c s)
  then show ?case by (auto simp: replace2_skip)
qed simp

lemma unescape_tilde: "replace2 CHR ''~'' CHR ''0'' CHR ''~'' (half_escape s) = s"
proof (induction s)
  case (Cons c s)
  then show ?case by (auto simp: replace2_skip)
qed simp

lemma pointer_escape_no_slash: "CHR ''/'' \<notin> set (pointer_escape s)"
  by (induction s) auto

definition encode_pointer :: "string list \<Rightarrow> string" where
  "encode_pointer names = concat (map (\<lambda>n. CHR ''/'' # pointer_escape n) names)"

lemma split_on_snoc: "d \<notin> set w \<Longrightarrow> split_on d (w @ d # s) = w # split_on d s"
  by (induction w) auto

lemma split_on_plain: "d \<notin> set w \<Longrightarrow> split_on d w = [w]"
  by (induction w) auto

lemma split_encode_pointer:
  "split_on CHR ''/'' (drop 1 (encode_pointer (n # ns))) = map pointer_escape (n # ns)"
proof (induction ns arbitrary: n)
  case Nil
  then show ?case by (simp add: encode_pointer_def split_on_plain pointer_escape_no_slash)
next
  case (Cons m ns)
  have "drop 1 (encode_pointer (n # m # ns)) = pointer_escape n @ CHR ''/'' # drop 1 (encode_pointer (m # ns))"
    by (simp add: encode_pointer_def)
  with Cons.IH [of m] show ?case by (simp add: split_on_snoc pointer_escape_no_slash)
qed

text \<open>Following member names through nested objects.\<close>

fun follow_names :: "json \<Rightarrow> string list \<Rightarrow> json option" where
  "follow_names v [] = Some v"
| "follow_names (JObj kvs) (n # ns) = (case map_of kvs n of None \<Rightarrow> None | Some v \<Rightarrow> follow_names v ns)"
| "follow_names _ (n # ns) = None"

lemma pointer_walk_names:
  "follow_names v ns = Some x \<Longrightarrow> pointer_walk p v (map pointer_escape ns) = Inr x"
proof (induction ns arbitrary: v)
  case (Cons n ns)
  then show ?case
    by (cases v) (auto simp: pointer_step_def unescape_slash unescape_tilde split: option.splits)
qed simp

lemma py_nth_nonneg: "0 \<le> i \<Longrightarrow> py_nth xs i = (if nat i < length xs then Some (xs ! nat i) else None)"
  by (auto simp: py_nth_def Let_def)

section \<open>Properties\<close>

text \<open>Every member of a nested object is addressable: following the names of a path from the document gives
  the value that resolving the path's JSON pointer gives, whatever slashes and tildes the names contain.\<close>

theorem encoded_pointer_resolves:
  assumes "ns \<noteq> []" "follow_names doc ns = Some v"
  shows "resolve_json_pointer doc (encode_pointer ns) = Inr v"
  using assms split_encode_pointer [of "hd ns" "tl ns"] pointer_walk_names [of doc ns v]
  by (cases ns) (simp_all add: resolve_json_pointer_def encode_pointer_def)

theorem encoded_pointer_resolves_witness:
  "resolve_json_pointer (JObj [(''a/b'', JObj [(''~c'', JInt 7)])]) (encode_pointer [''a/b'', ''~c'']) = Inr (JInt 7)"
  by (rule encoded_pointer_resolves) simp_all

text \<open>Array positions are read with Python's \<open>int\<close> and indexed like a Python sequence, so a pointer that RFC
  6901 does not allow resolves: \<open>/-1\<close> is the last element of a non-empty array, \<open>/+0\<close> and \<open>/00\<close> the first.\<close>

theorem pointer_accepts_non_rfc_indices:
  "resolve_json_pointer (JList (xs @ [x])) ''/-1'' = Inr x \<and>
   resolve_json_pointer (JList (x # xs)) ''/+0'' = Inr x \<and>
   resolve_json_pointer (JList (x # xs)) ''/00'' = Inr x"
  by (simp add: resolve_json_pointer_def pointer_step_def py_int_def py_nth_def py_strip_def digits_value_def
      Let_def is_space_def is_digit_def nth_append res_bind_def)

end
