(* ===== verification/AVP_Runtime.thy ===== *)
theory AVP_Runtime
  imports AVP_Episode AVP_McpModels AVP_OraclePackage
begin

text \<open>
  The state of \<open>ReferenceRuntime\<close> (\<^verbatim>\<open>runtime/engine.py\<close>) and its service interfaces. The adapters,
  the Oracle runner and the MCP gateway are supplied by the caller; each is a record of the
  operations of its Python protocol over one outside world \<open>'w\<close>. A Subject is a finite interaction
  tree: what it does next depends on the answers (or exceptions) of the \<open>SubjectSession\<close> gateway.
  The ArtifactStore is a pair of operations on a store state \<open>'s\<close>.
\<close>

section \<open>Service interfaces\<close>

record 'w env_adapter =
  ea_describe :: environment_description
  ea_provision :: "scenario_instance \<Rightarrow> ('w, exn, environment_handle) action"
  ea_reset :: "environment_handle \<Rightarrow> reset_target \<Rightarrow> ('w, exn, reset_result) action"
  ea_release :: "environment_handle \<Rightarrow> ('w, exn, unit) action"
  ea_logical_time :: "environment_handle \<Rightarrow> 'w \<Rightarrow> (exn, int) result"
  ea_observe :: "environment_handle \<Rightarrow> string \<Rightarrow> ('w, exn, json) action"
  ea_execute :: "environment_handle \<Rightarrow> tool_request \<Rightarrow> ('w, exn, tool_result) action"
  ea_project :: "environment_handle \<Rightarrow> string \<Rightarrow> ('w, exn, state_projection) action"
  ea_snapshot :: "environment_handle \<Rightarrow> ('w, exn, snapshot_ref) action"
  ea_restore :: "environment_handle \<Rightarrow> snapshot_ref \<Rightarrow> ('w, exn, restore_result) action"
  ea_inject_fault :: "environment_handle \<Rightarrow> fault_spec \<Rightarrow> ('w, exn, fault_handle) action"

datatype subject_program =
    Finish "exn + subject_result"
  | ObserveCall "exn + json \<Rightarrow> subject_program"
  | ToolInvoke string "(string \<times> json) list" "exn + json \<Rightarrow> subject_program"
  | HeadersCall "exn + (string \<times> string) list \<Rightarrow> subject_program"

record 'w subj_adapter =
  sa_describe :: subject_description
  sa_open :: "agent_system \<Rightarrow> ('w, exn, subject_handle) action"
  sa_invoke :: "subject_handle \<Rightarrow> subject_invocation \<Rightarrow> ('w, exn, subject_program) action"
  sa_release :: "subject_handle \<Rightarrow> ('w, exn, unit) action"

record 'w oracle_runner =
  or_describe :: oracle_runner_description
  or_evaluate :: "oracle_request \<Rightarrow> ('w, exn, oracle_execution_result) action"

record 'w mcp_gateway =
  gw_configuration_digest :: string
  gw_open :: "('w, exn, mcp_gateway_description) action"
  gw_owns_tool :: "string \<Rightarrow> bool"
  gw_call_tool :: "string \<Rightarrow> (string \<times> json) list \<Rightarrow> string \<Rightarrow> (string \<times> string) list \<Rightarrow> ('w, exn, json) action"
  gw_call_records :: "'w \<Rightarrow> mcp_call_record list"

record ('w, 's) runtime_config =
  rc_telemetry :: "telemetry_bridge option"
  rc_runner :: "'w oracle_runner"
  rc_put :: "bytes \<Rightarrow> string \<Rightarrow> string option \<Rightarrow> ('s, exn, artifact_ref) action"
  rc_get :: "artifact_ref \<Rightarrow> 's \<Rightarrow> (exn, bytes) result"

record ('w, 's) runtime =
  rt_episodes :: "string \<Rightarrow> episode option"
  rt_adapters :: "string \<Rightarrow> 'w env_adapter option"
  rt_handles :: "string \<Rightarrow> environment_handle option"
  rt_subject_adapters :: "string \<Rightarrow> 'w subj_adapter option"
  rt_subject_handles :: "string \<Rightarrow> subject_handle option"
  rt_packages :: "string \<Rightarrow> oracle_package option"
  rt_gateways :: "string \<Rightarrow> 'w mcp_gateway option"
  rt_faults :: "string \<Rightarrow> (string \<Rightarrow> fault_handle option) option"
  rt_world :: 'w
  rt_store :: 's

type_synonym ('w, 's, 'a) runtime_action = "(('w, 's) runtime, exn, 'a) action"

definition runtime_init :: "'w \<Rightarrow> 's \<Rightarrow> ('w, 's) runtime" where
  "runtime_init w st = \<lparr>rt_episodes = Map.empty, rt_adapters = Map.empty, rt_handles = Map.empty,
     rt_subject_adapters = Map.empty, rt_subject_handles = Map.empty, rt_packages = Map.empty,
     rt_gateways = Map.empty, rt_faults = Map.empty, rt_world = w, rt_store = st\<rparr>"

definition runtime_version :: string where
  "runtime_version = ''0.3.1.dev0''"

section \<open>Parts of the state\<close>

definition in_world :: "('w, exn, 'a) action \<Rightarrow> ('w, 's, 'a) runtime_action" where
  "in_world = act_zoom rt_world rt_world_update"

definition in_store :: "('s, exn, 'a) action \<Rightarrow> ('w, 's, 'a) runtime_action" where
  "in_store = act_zoom rt_store rt_store_update"

definition unknown_episode :: "string \<Rightarrow> exn" where
  "unknown_episode eid = KeyError (py_repr_str (''unknown episode: '' @ eid))"

text \<open>The Episode object registered under an identifier, mutated in place.\<close>

definition on_episode :: "string \<Rightarrow> (episode, exn, 'a) action \<Rightarrow> ('w, 's, 'a) runtime_action" where
  "on_episode eid m s = (case rt_episodes s eid of
     None \<Rightarrow> (Inl (unknown_episode eid), s)
   | Some e \<Rightarrow> (case m e of (r, e') \<Rightarrow> (r, s\<lparr>rt_episodes := (rt_episodes s)(eid \<mapsto> e')\<rparr>)))"

definition episode_of :: "string \<Rightarrow> ('w, 's) runtime \<Rightarrow> (exn, episode) result" where
  "episode_of eid s = (case rt_episodes s eid of None \<Rightarrow> Inl (unknown_episode eid) | Some e \<Rightarrow> Inr e)"

text \<open>\<open>episode.transition(target)\<close>, and \<open>recorder.emit\<close> at a logical time that is known or read
  from the environment adapter.\<close>

definition move_to :: "string \<Rightarrow> episode_state \<Rightarrow> ('w, 's, unit) runtime_action" where
  "move_to eid target = act_bind (on_episode eid (transition target None)) (\<lambda>_. act_return ())"

definition emit_now :: "string \<Rightarrow> string \<Rightarrow> string \<Rightarrow> int \<Rightarrow> (string \<times> json) list \<Rightarrow> (string \<times> json) list \<Rightarrow>
    string list \<Rightarrow> ('w, 's, unit) runtime_action" where
  "emit_now eid etype plane time payload st evidence =
     on_episode eid (act_modify (emit etype plane time payload st evidence))"

definition clock :: "'w env_adapter \<Rightarrow> environment_handle \<Rightarrow> ('w, 's, int) runtime_action" where
  "clock a h = act_read (\<lambda>s. ea_logical_time a h (rt_world s))"

definition emit_timed :: "string \<Rightarrow> 'w env_adapter \<Rightarrow> environment_handle \<Rightarrow> string \<Rightarrow> string \<Rightarrow>
    (string \<times> json) list \<Rightarrow> (string \<times> json) list \<Rightarrow> string list \<Rightarrow> ('w, 's, unit) runtime_action" where
  "emit_timed eid a h etype plane payload st evidence =
     act_bind (clock a h) (\<lambda>t. emit_now eid etype plane t payload st evidence)"

definition set_episode :: "string \<Rightarrow> (episode \<Rightarrow> episode) \<Rightarrow> ('w, 's, unit) runtime_action" where
  "set_episode eid f = on_episode eid (act_modify f)"

section \<open>Lookups\<close>

text \<open>\<open>_episode_adapters\<close>: the Episode with its adapters, or one error for whatever is missing.\<close>

definition episode_adapters :: "string \<Rightarrow> ('w, 's) runtime \<Rightarrow>
    (exn, episode \<times> 'w env_adapter \<times> 'w subj_adapter) result" where
  "episode_adapters eid s =
     (case (rt_episodes s eid, rt_adapters s eid, rt_subject_adapters s eid) of
        (Some e, Some a, Some sa) \<Rightarrow> Inr (e, a, sa)
      | _ \<Rightarrow> Inl (unknown_episode eid))"

text \<open>\<open>_bound\<close>.\<close>

definition bound :: "string \<Rightarrow> ('w, 's) runtime \<Rightarrow>
    (exn, episode \<times> 'w env_adapter \<times> environment_handle \<times> 'w subj_adapter \<times> subject_handle) result" where
  "bound eid s =
     res_bind (episode_adapters eid s) (\<lambda>(e, a, sa).
     case (rt_handles s eid, rt_subject_handles s eid) of
       (Some h, Some sh) \<Rightarrow> Inr (e, a, h, sa, sh)
     | _ \<Rightarrow> Inl (InvalidEpisodeTransition ''episode resources have not been provisioned''))"

definition state_error :: "string \<Rightarrow> episode_state \<Rightarrow> exn" where
  "state_error msg st = InvalidEpisodeTransition (msg @ '', got '' @ state_value st)"

end
