(* ===== verification/AVP_Engine.thy ===== *)
theory AVP_Engine
  imports AVP_Runtime
begin

text \<open>
  The operations of \<open>ReferenceRuntime\<close> (\<^verbatim>\<open>runtime/engine.py\<close>) and \<open>create_replay_episode\<close>
  (\<^verbatim>\<open>runtime/replay.py\<close>), call by call. The hex digits of a \<open>uuid4\<close> are an argument of the
  operation that draws it. An operation that raises leaves the state as the statements before the
  raise left it.
\<close>

section \<open>Creation\<close>

definition create_episode ::
  "('w, 's) runtime_config \<Rightarrow> string \<Rightarrow> scenario_instance \<Rightarrow> agent_system \<Rightarrow> 'w env_adapter \<Rightarrow> 'w subj_adapter \<Rightarrow>
   oracle_package \<Rightarrow> 'w mcp_gateway option \<Rightarrow> ('w, 's, string) runtime_action" where
  "create_episode c uuid scenario agent env subj package gateway s =
     (if jget (sc_document scenario) ''kind'' \<noteq> Some (JStr ''ScenarioInstance'')
      then (Inl (TypeError ''ReferenceRuntime requires a compiled ScenarioInstance''), s)
      else case manifest_create scenario agent (ea_describe env) (sa_describe subj) runtime_version
             (package_identity_digest package) (runner_identity_digest (or_describe (rc_runner c)))
             (map_option gw_configuration_digest gateway)
             (map_option (\<lambda>b. telemetry_identity_digest (bridge_describe b)) (rc_telemetry c)) None of
        Inl err \<Rightarrow> (Inl err, s)
      | Inr manifest \<Rightarrow>
         (let eid = ''ep_'' @ take 12 uuid;
              episode = (make_episode eid scenario agent manifest)
                \<lparr>ep_telemetry := map_option (\<lambda>b. bridge_start_episode b eid) (rc_telemetry c)\<rparr>;
              created = emit ''episode.created'' ''orchestrator'' 0
                [(''manifest_digest'', JStr (manifest_digest manifest)),
                 (''scenario_instance_digest'', JStr (sc_instance_digest scenario)),
                 (''agent_system_digest'', JStr (agent_identity_digest agent)),
                 (''environment_adapter_digest'', JStr (environment_identity_digest (ea_describe env))),
                 (''subject_adapter_digest'', JStr (subject_identity_digest (sa_describe subj))),
                 (''oracle_package_digest'', JStr (mf_oracle_package_digest manifest)),
                 (''oracle_runner_config_digest'', JStr (mf_oracle_runner_config_digest manifest)),
                 (''mcp_gateway_config_digest'', opt_str (mf_mcp_gateway_config_digest manifest)),
                 (''telemetry_config_digest'', opt_str (mf_telemetry_config_digest manifest))] [] [] episode
          in (Inr eid, s\<lparr>rt_episodes := (rt_episodes s)(eid \<mapsto> created),
                rt_adapters := (rt_adapters s)(eid \<mapsto> env),
                rt_subject_adapters := (rt_subject_adapters s)(eid \<mapsto> subj),
                rt_packages := (rt_packages s)(eid \<mapsto> package),
                rt_gateways := (case gateway of None \<Rightarrow> rt_gateways s | Some g \<Rightarrow> (rt_gateways s)(eid \<mapsto> g)),
                rt_faults := (rt_faults s)(eid \<mapsto> Map.empty)\<rparr>)))"

definition create_replay_episode ::
  "('w, 's) runtime_config \<Rightarrow> string \<Rightarrow> string \<Rightarrow> 'w env_adapter \<Rightarrow> 'w subj_adapter \<Rightarrow>
   oracle_package \<Rightarrow> 'w mcp_gateway option \<Rightarrow> ('w, 's, string) runtime_action" where
  "create_replay_episode c uuid source_id env subj package gateway =
     act_bind (act_read (\<lambda>s. case rt_episodes s source_id of
       None \<Rightarrow> Inl (KeyError (py_repr_str (''unknown source episode: '' @ source_id))) | Some e \<Rightarrow> Inr e)) (\<lambda>source.
     act_bind (create_episode c uuid (ep_scenario source) (ep_agent source) env subj package gateway) (\<lambda>eid.
     act_bind (act_of (make_replay_source (ep_id source) (manifest_digest (ep_manifest source)))) (\<lambda>identity.
     act_bind (on_episode eid (bind_replay_source identity)) (\<lambda>_.
     act_bind (emit_now eid ''episode.replay.linked'' ''orchestrator'' 0
       [(''source'', replay_source_dict identity)] [] []) (\<lambda>_.
     act_return eid)))))"

section \<open>Telemetry\<close>

definition telemetry_evidence_id :: "string \<Rightarrow> string" where
  "telemetry_evidence_id eid = ''ev_'' @ eid @ ''_telemetry''"

definition telemetry_producer :: "('w, 's) runtime_config \<Rightarrow> string" where
  "telemetry_producer c = (case rc_telemetry c of None \<Rightarrow> ''telemetry:unknown''
     | Some b \<Rightarrow> ''telemetry:'' @ td_name (bridge_describe b) @ ''@'' @ td_version (bridge_describe b))"

definition register_evidence :: "string \<Rightarrow> string \<Rightarrow> evidence \<Rightarrow> ('w, 's, unit) runtime_action" where
  "register_evidence eid evid ev = set_episode eid (\<lambda>e. e\<lparr>ep_evidence := (ep_evidence e)(evid \<mapsto> ev)\<rparr>)"

definition default_classification :: string where
  "default_classification = ''evaluator-confidential''"

definition publication_error :: "exn \<Rightarrow> bool" where
  "publication_error e \<longleftrightarrow> is_artifact_store_error e \<or> is_type_or_value_error e"

definition finalize_session :: "bool \<Rightarrow> (episode, exn, telemetry_artifact option) action" where
  "finalize_session complete e =
     (case ep_telemetry e of
        None \<Rightarrow> (Inr None, e)
      | Some t \<Rightarrow> (case session_artifact t of
          Some a \<Rightarrow> (Inr (Some a), e)
        | None \<Rightarrow> (case session_finalize complete t of (a, t') \<Rightarrow> (Inr (Some a), e\<lparr>ep_telemetry := Some t'\<rparr>))))"

definition finalize_telemetry :: "('w, 's) runtime_config \<Rightarrow> string \<Rightarrow> bool \<Rightarrow> bool \<Rightarrow>
    ('w, 's, telemetry_artifact option) runtime_action" where
  "finalize_telemetry c eid complete strict =
     act_bind (on_episode eid (finalize_session complete)) (\<lambda>fin.
     case fin of
       None \<Rightarrow> act_return None
     | Some artifact \<Rightarrow>
        act_bind (act_read (episode_of eid)) (\<lambda>e.
        let evid = telemetry_evidence_id (ep_id e) in
        if ep_evidence e evid \<noteq> None then act_return (Some artifact)
        else
          act_bind (act_attempt (in_store (publish_json (rc_put c) evid ''telemetry_artifact''
            (telemetry_artifact_dict artifact) default_classification (Some (telemetry_producer c)) None None)))
          (\<lambda>published. case published of
            Inl err \<Rightarrow> if publication_error err \<and> \<not> strict then act_return (Some artifact) else act_raise err
          | Inr ev \<Rightarrow> act_bind (register_evidence eid evid ev) (\<lambda>_. act_return (Some artifact)))))"

definition required_telemetry_missing :: "('w, 's) runtime_config \<Rightarrow> telemetry_artifact option \<Rightarrow> bool" where
  "required_telemetry_missing c artifact =
     (case rc_telemetry c of None \<Rightarrow> False
      | Some b \<Rightarrow> tp_required (td_policy (bridge_describe b)) \<and>
          (case artifact of None \<Rightarrow> True | Some a \<Rightarrow> ta_completeness a = REQUIRED_MISSING))"

section \<open>Provisioning\<close>

definition mark_infrastructure_failure :: "string \<Rightarrow> validity \<Rightarrow> ('w, 's, unit) runtime_action" where
  "mark_infrastructure_failure eid v = set_episode eid (\<lambda>e. e\<lparr>ep_validity := v, ep_validity_detail := None\<rparr>)"

definition provision_body :: "string \<Rightarrow> 'w env_adapter \<Rightarrow> 'w subj_adapter \<Rightarrow> ('w, 's, unit) runtime_action" where
  "provision_body eid a sa =
     act_bind (act_read (episode_of eid)) (\<lambda>e.
     act_bind (in_world (ea_provision a (ep_scenario e))) (\<lambda>h.
     act_bind (in_world (sa_open sa (ep_agent e))) (\<lambda>sh.
     act_bind (act_modify (\<lambda>s. s\<lparr>rt_handles := (rt_handles s)(eid \<mapsto> h),
       rt_subject_handles := (rt_subject_handles s)(eid \<mapsto> sh)\<rparr>)) (\<lambda>_.
     act_bind (emit_timed eid a h ''environment.provisioned'' ''environment''
       [(''handle_id'', JStr (eh_handle_id h)), (''adapter'', JStr (ed_adapter (ea_describe a)))] [] []) (\<lambda>_.
     act_bind (emit_timed eid a h ''subject.opened'' ''agent''
       [(''handle_id'', JStr (sh_handle_id sh)), (''adapter'', JStr (sd_adapter (sa_describe sa)))] [] []) (\<lambda>_.
     act_bind (act_get (\<lambda>s. rt_gateways s eid)) (\<lambda>gateway.
     act_bind (case gateway of None \<Rightarrow> act_return () | Some g \<Rightarrow>
         act_bind (in_world (gw_open g)) (\<lambda>gd.
         emit_timed eid a h ''mcp.gateway.opened'' ''orchestrator''
           [(''gateway_digest'', JStr (mcp_gateway_identity_digest gd)),
            (''server_digest'', JStr (md_server_digest gd)),
            (''catalog_digest'', JStr (md_baseline_catalog_digest gd)),
            (''protocol_version'', JStr (md_protocol_version gd))] [] [])) (\<lambda>_.
     act_bind (in_world (ea_reset a h INITIAL)) (\<lambda>reset.
     emit_timed eid a h ''environment.reset.completed'' ''environment''
       [(''target'', JStr (reset_target_value (rs_target reset))),
        (''equivalent_to_initial'', JBool (rs_equivalent_to_initial reset))]
       [(''before'', JStr (rs_before_digest reset)), (''after'', JStr (rs_after_digest reset))] [])))))))))"

definition provision_failed :: "('w, 's) runtime_config \<Rightarrow> string \<Rightarrow> exn \<Rightarrow> ('w, 's, unit) runtime_action" where
  "provision_failed c eid err =
     (let confound = (case err of SubjectExn _ _ \<Rightarrow> True | McpExn _ _ \<Rightarrow> True | _ \<Rightarrow> False) in
      act_bind (mark_infrastructure_failure eid (if confound then INFRA_CONFOUND else ENVIRONMENT_FAILURE)) (\<lambda>_.
      act_bind (move_to eid INFRA_FAILED) (\<lambda>_.
      act_bind (emit_now eid
          (if confound then ''episode.provision.failed'' else ''environment.provision.failed'')
          (if confound then ''orchestrator'' else ''environment'') 0
          [(''error_type'', JStr (exn_name err)), (''error'', JStr (exn_text err))] [] []) (\<lambda>_.
      act_bind (finalize_telemetry c eid False False) (\<lambda>_.
      act_raise err)))))"

definition provision :: "('w, 's) runtime_config \<Rightarrow> string \<Rightarrow> ('w, 's, unit) runtime_action" where
  "provision c eid =
     act_bind (act_read (episode_adapters eid)) (\<lambda>(e, a, sa).
     act_bind (move_to eid PROVISIONING) (\<lambda>_.
     act_bind (act_try (provision_body eid a sa) (provision_failed c eid)) (\<lambda>_.
     move_to eid READY)))"

section \<open>The Subject's gateway\<close>

definition trace_headers :: "string \<Rightarrow> ('w, 's, (string \<times> string) list) runtime_action" where
  "trace_headers eid = on_episode eid (\<lambda>e. case ep_telemetry e of
     None \<Rightarrow> (Inr [], e)
   | Some t \<Rightarrow> (case session_inject_headers t of (r, t') \<Rightarrow> (r, e\<lparr>ep_telemetry := Some t'\<rparr>)))"

definition subject_observation :: "string \<Rightarrow> ('w, 's, json) runtime_action" where
  "subject_observation eid =
     act_bind (act_read (bound eid)) (\<lambda>(e, a, h, _, _).
     if ep_state e \<noteq> RUNNING
     then act_raise (InvalidEpisodeTransition ''Agent observation is only allowed while RUNNING'')
     else
       act_bind (in_world (ea_observe a h ''subject'')) (\<lambda>observation.
       act_bind (emit_timed eid a h ''environment.observation'' ''environment''
         [(''actor_id'', JStr ''subject''), (''observation_digest'', JStr (json_digest observation))] [] []) (\<lambda>_.
       act_return observation)))"

fun fault_event_type :: "fault_phase \<Rightarrow> string" where
  "fault_event_type PhaseActivated = ''fault.activated''"
| "fault_event_type PhaseObserved = ''fault.observed''"
| "fault_event_type PhaseCleared = ''fault.cleared''"
| "fault_event_type PhaseScheduled = ''fault.scheduled''"

definition emit_fault_observations :: "string \<Rightarrow> 'w env_adapter \<Rightarrow> environment_handle \<Rightarrow> fault_observation list \<Rightarrow>
    ('w, 's, unit) runtime_action" where
  "emit_fault_observations eid a h observations = act_each (\<lambda>fo.
     emit_timed eid a h (fault_event_type (fo_phase fo))
       (if fo_phase fo \<in> {PhaseActivated, PhaseCleared} then ''evaluator'' else ''environment'')
       [(''fault_id'', JStr (fo_fault_id fo)), (''type'', JStr (fo_kind fo)), (''target'', JStr (fo_target fo))]
       [] []) observations"

definition mcp_tool_call :: "string \<Rightarrow> 'w env_adapter \<Rightarrow> environment_handle \<Rightarrow> 'w mcp_gateway \<Rightarrow> string \<Rightarrow>
    string \<Rightarrow> (string \<times> json) list \<Rightarrow> ('w, 's, json) runtime_action" where
  "mcp_tool_call eid a h g cid nm args =
     act_bind (emit_timed eid a h ''tool.call'' ''agent''
       [(''name'', JStr nm), (''arguments'', JObj args), (''protocol'', JStr ''mcp''),
        (''correlation_id'', JStr cid)] [] []) (\<lambda>_.
     act_bind (act_try
       (act_bind (trace_headers eid) (\<lambda>headers. in_world (gw_call_tool g nm args cid headers)))
       (\<lambda>err. case err of
          McpExn _ _ \<Rightarrow>
            act_bind (emit_timed eid a h ''tool.error'' ''environment''
              [(''name'', JStr nm), (''protocol'', JStr ''mcp''), (''error_type'', JStr (exn_name err)),
               (''error'', JStr (exn_text err)), (''correlation_id'', JStr cid)] [] []) (\<lambda>_.
            act_raise (RuntimeError (exn_text err)))
        | _ \<Rightarrow> act_raise err)) (\<lambda>answer.
     act_bind (act_read (\<lambda>s. case rev (gw_call_records g (rt_world s)) of
         [] \<Rightarrow> Inl (IndexError ''tuple index out of range'') | r # _ \<Rightarrow> Inr r)) (\<lambda>r.
     act_bind (emit_timed eid a h ''tool.result'' ''environment''
       [(''name'', JStr nm), (''protocol'', JStr ''mcp''), (''result'', answer), (''correlation_id'', JStr cid),
        (''schema_digest'', JStr (cr_schema_digest r)), (''catalog_digest'', JStr (cr_catalog_digest r)),
        (''result_digest'', opt_str (cr_result_digest r))] [] []) (\<lambda>_.
     act_return answer))))"

definition environment_tool_call :: "string \<Rightarrow> 'w env_adapter \<Rightarrow> environment_handle \<Rightarrow> string \<Rightarrow> string \<Rightarrow>
    (string \<times> json) list \<Rightarrow> ('w, 's, json) runtime_action" where
  "environment_tool_call eid a h cid nm args =
     act_bind (act_of (make_tool_request ''subject'' nm args (Some cid))) (\<lambda>q.
     act_bind (emit_timed eid a h ''tool.call'' ''agent''
       [(''name'', JStr nm), (''arguments'', JObj args), (''protocol'', JStr ''environment''),
        (''correlation_id'', JStr cid)] [] []) (\<lambda>_.
     act_bind (act_try (in_world (ea_execute a h q))
       (\<lambda>err. case err of
          ToolExecutionError msg observations \<Rightarrow>
            act_bind (emit_fault_observations eid a h observations) (\<lambda>_.
            act_bind (emit_timed eid a h ''tool.error'' ''environment''
              [(''name'', JStr nm), (''protocol'', JStr ''environment''), (''error'', JStr msg),
               (''correlation_id'', JStr cid)] [] []) (\<lambda>_.
            act_raise (RuntimeError msg)))
        | _ \<Rightarrow> act_raise err)) (\<lambda>outcome.
     act_bind (emit_timed eid a h ''tool.result'' ''environment''
       [(''name'', JStr nm), (''protocol'', JStr ''environment''), (''result'', tl_result outcome),
        (''correlation_id'', JStr cid)] [] []) (\<lambda>_.
     act_bind (case tl_diff outcome of None \<Rightarrow> act_return () | Some d \<Rightarrow>
         emit_timed eid a h ''environment.state.changed'' ''environment''
           [(''cause_correlation_id'', JStr cid), (''changes'', JList (df_changes d))]
           [(''before'', JStr (tl_before_digest outcome)), (''after'', JStr (tl_after_digest outcome))] []) (\<lambda>_.
     act_return (tl_result outcome))))))"

definition subject_call_tool :: "string \<Rightarrow> string \<Rightarrow> (string \<times> json) list \<Rightarrow> ('w, 's, json) runtime_action" where
  "subject_call_tool eid nm args =
     act_bind (act_read (bound eid)) (\<lambda>(e, a, h, _, _).
     if ep_state e \<noteq> RUNNING
     then act_raise (InvalidEpisodeTransition ''Agent tool calls are only allowed while RUNNING'')
     else
       let cid = ''call_'' @ string_of_nat (length (ep_events e) + 1) in
       act_bind (act_get (\<lambda>s. rt_gateways s eid)) (\<lambda>gateway.
       case gateway of
         Some g \<Rightarrow> if gw_owns_tool g nm then mcp_tool_call eid a h g cid nm args
                   else environment_tool_call eid a h cid nm args
       | None \<Rightarrow> environment_tool_call eid a h cid nm args))"

text \<open>The Subject's code, run against its \<open>SubjectSession\<close>.\<close>

primrec run_program :: "string \<Rightarrow> subject_program \<Rightarrow> ('w, 's, subject_result) runtime_action" where
  "run_program eid (Finish r) = act_of r"
| "run_program eid (ObserveCall k) = (\<lambda>s. case subject_observation eid s of (r, s') \<Rightarrow> run_program eid (k r) s')"
| "run_program eid (ToolInvoke nm args k) =
     (\<lambda>s. case subject_call_tool eid nm args s of (r, s') \<Rightarrow> run_program eid (k r) s')"
| "run_program eid (HeadersCall k) = (\<lambda>s. case trace_headers eid s of (r, s') \<Rightarrow> run_program eid (k r) s')"

section \<open>Running the Subject\<close>

text \<open>\<open>int(v)\<close> and \<open>float(v)\<close> on frozen JSON. A string naming an infinity or NaN is outside the
  float model and raises.\<close>

definition type_name :: "json \<Rightarrow> string" where
  "type_name v = (case v of JNull \<Rightarrow> ''NoneType'' | JList _ \<Rightarrow> ''tuple'' | JObj _ \<Rightarrow> ''mappingproxy''
     | JBool _ \<Rightarrow> ''bool'' | JInt _ \<Rightarrow> ''int'' | JFloat _ \<Rightarrow> ''float'' | JStr _ \<Rightarrow> ''str'')"

definition float_trunc :: "pyfloat \<Rightarrow> int" where
  "float_trunc f =
     (let m = (if 0 \<le> float_exp f then int (float_digits f) * 10 ^ nat (float_exp f)
               else int (float_digits f) div 10 ^ nat (- float_exp f))
      in if float_neg f then - m else m)"

definition py_int_of :: "json \<Rightarrow> (exn, int) result" where
  "py_int_of v = (case v of
     JInt i \<Rightarrow> Inr i
   | JBool b \<Rightarrow> Inr (if b then 1 else 0)
   | JFloat f \<Rightarrow> Inr (float_trunc f)
   | JStr s \<Rightarrow> (case py_int s of
        None \<Rightarrow> Inl (ValueError (''invalid literal for int() with base 10: '' @ py_repr_str s)) | Some i \<Rightarrow> Inr i)
   | _ \<Rightarrow> Inl (TypeError (''int() argument must be a string, a bytes-like object or a real number, not '' @
            py_repr_str (type_name v))))"

definition decimal_float :: "bool \<Rightarrow> string \<Rightarrow> string \<Rightarrow> int \<Rightarrow> pyfloat option" where
  "decimal_float neg whole frac ex =
     (if list_all is_digit (whole @ frac) \<and> whole @ frac \<noteq> []
      then Some (PyFloat neg (digits_value (whole @ frac)) (ex - int (length frac))) else None)"

definition parse_float :: "string \<Rightarrow> pyfloat option" where
  "parse_float token =
     (let s = py_strip token; neg = (take 1 s = ''-'');
          body = (if take 1 s = ''-'' \<or> take 1 s = ''+'' then drop 1 s else s);
          parts = split_on CHR ''e'' (map (\<lambda>c. if c = CHR ''E'' then CHR ''e'' else c) body);
          ex = (case parts of [_, x] \<Rightarrow> (if list_ex is_space x \<or> CHR ''_'' \<in> set x then None else py_int x)
                | [_] \<Rightarrow> Some 0 | _ \<Rightarrow> None)
      in case ex of None \<Rightarrow> None
         | Some x \<Rightarrow> (case split_on CHR ''.'' (hd parts) of
              [w] \<Rightarrow> decimal_float neg w [] x
            | [w, f] \<Rightarrow> decimal_float neg w f x
            | _ \<Rightarrow> None))"

definition py_float_of :: "json \<Rightarrow> (exn, pyfloat) result" where
  "py_float_of v = (case v of
     JFloat f \<Rightarrow> Inr f
   | JInt i \<Rightarrow> (if float_overflow i then Inl (OverflowError ''int too large to convert to float'')
        else Inr (PyFloat (i < 0) (nat \<bar>i\<bar>) 0))
   | JBool b \<Rightarrow> Inr (PyFloat False (if b then 1 else 0) 0)
   | JStr s \<Rightarrow> (case parse_float s of
        None \<Rightarrow> Inl (ValueError (''could not convert string to float: '' @ py_repr_str s)) | Some f \<Rightarrow> Inr f)
   | _ \<Rightarrow> Inl (TypeError (''float() argument must be a string or a real number, not '' @
            py_repr_str (type_name v))))"

definition build_invocation :: "episode \<Rightarrow> (exn, subject_invocation) result" where
  "build_invocation e =
     res_bind (scenario_subject_projection ''subject'' (ep_scenario e)) (\<lambda>projection.
     let budgets = jget_default (sc_document (ep_scenario e)) ''budgets'' (JObj []) in
     res_bind (py_int_of (jget_default budgets ''max_steps'' (JInt 32))) (\<lambda>steps.
     res_bind (py_float_of (jget_default budgets ''timeout_seconds'' (JFloat (PyFloat False 30 0)))) (\<lambda>timeout.
     make_subject_invocation (ep_id e) (jget_default projection ''task'' (JObj [])) steps timeout)))"

definition invoke_subject :: "string \<Rightarrow> 'w env_adapter \<Rightarrow> environment_handle \<Rightarrow> 'w subj_adapter \<Rightarrow>
    subject_handle \<Rightarrow> subject_invocation \<Rightarrow> ('w, 's, unit) runtime_action" where
  "invoke_subject eid a h sa sh invocation =
     act_bind (in_world (sa_invoke sa sh invocation)) (\<lambda>program.
     act_bind (run_program eid program) (\<lambda>outcome.
     act_bind (set_episode eid (\<lambda>e. e\<lparr>ep_agent_report := sr_report outcome\<rparr>)) (\<lambda>_.
     emit_timed eid a h ''agent.invocation.completed'' ''agent''
       [(''status'', JStr ''ok''), (''steps'', JInt (sr_steps outcome))] [] [])))"

definition subject_failed :: "('w, 's) runtime_config \<Rightarrow> string \<Rightarrow> 'w env_adapter \<Rightarrow> environment_handle \<Rightarrow> exn \<Rightarrow>
    ('w, 's, string) runtime_action" where
  "subject_failed c eid a h err =
     (let report = ''subject infrastructure error: '' @ exn_name err @ '': '' @ exn_text err in
      act_bind (set_episode eid (\<lambda>e. e\<lparr>ep_agent_report := Some report, ep_validity := INFRA_CONFOUND,
        ep_validity_detail := None\<rparr>)) (\<lambda>_.
      act_bind (emit_timed eid a h ''agent.invocation.completed'' ''agent''
        [(''status'', JStr ''infra_error''), (''error_type'', JStr (exn_name err)),
         (''error'', JStr (exn_text err))] [] []) (\<lambda>_.
      act_bind (move_to eid INFRA_FAILED) (\<lambda>_.
      act_bind (finalize_telemetry c eid False False) (\<lambda>_.
      act_return report)))))"

definition run_subject :: "('w, 's) runtime_config \<Rightarrow> string \<Rightarrow> ('w, 's, string) runtime_action" where
  "run_subject c eid =
     act_bind (act_read (bound eid)) (\<lambda>(e, a, h, sa, sh).
     if ep_state e \<noteq> READY
     then act_raise (state_error ''subject execution requires READY'' (ep_state e))
     else
       act_bind (move_to eid RUNNING) (\<lambda>_.
       act_bind (emit_timed eid a h ''episode.started'' ''orchestrator'' [] [] []) (\<lambda>_.
       act_bind (act_of (build_invocation e)) (\<lambda>invocation.
       act_bind (act_attempt (invoke_subject eid a h sa sh invocation)) (\<lambda>outcome.
       case outcome of
         Inl err \<Rightarrow> (case err of SubjectExn _ _ \<Rightarrow> subject_failed c eid a h err | _ \<Rightarrow> act_raise err)
       | Inr _ \<Rightarrow>
          act_bind (act_read (episode_of eid)) (\<lambda>e'.
          act_bind (emit_timed eid a h ''agent.stop'' ''agent'' [(''report'', opt_str (ep_agent_report e'))] [] []) (\<lambda>_.
          act_bind (move_to eid QUIESCING) (\<lambda>_.
          act_return (case ep_agent_report e' of None \<Rightarrow> [] | Some r \<Rightarrow> r)))))))))"

section \<open>Invalidation\<close>

definition invalidate_evaluation :: "('w, 's) runtime_config \<Rightarrow> string \<Rightarrow> 'w env_adapter \<Rightarrow> environment_handle \<Rightarrow>
    validity \<Rightarrow> string \<Rightarrow> validity_detail option \<Rightarrow> ('w, 's, unit) runtime_action" where
  "invalidate_evaluation c eid a h v reason detail =
     act_bind (act_of (raise_if (v = VALID)
       (ValueError ''cannot invalidate an evaluation with VALID validity''))) (\<lambda>_.
     act_bind (act_of (raise_if (v = ORACLE_FAILURE \<and> detail = None)
       (ValueError ''ORACLE_FAILURE requires a structured validity detail''))) (\<lambda>_.
     act_bind (act_of (raise_if (reason = [])
       (ValueError ''evaluation invalidation reason must be non-empty''))) (\<lambda>_.
     act_bind (set_episode eid (\<lambda>e. e\<lparr>ep_validity := v, ep_validity_detail := detail,
       ep_task_verdict := INCONCLUSIVE\<rparr>)) (\<lambda>_.
     act_bind (emit_timed eid a h ''evaluation.validity.changed'' ''evaluator''
       ([(''to'', JStr (validity_value v)), (''reason'', JStr (take 512 reason))] @
        (case detail of None \<Rightarrow> [] | Some d \<Rightarrow> [(''detail'', validity_detail_dict d)])) [] []) (\<lambda>_.
     act_bind (move_to eid INVALID) (\<lambda>_.
     act_bind (emit_timed eid a h ''episode.invalid'' ''orchestrator''
       ([(''validity'', JStr (validity_value v))] @
        (case detail of None \<Rightarrow> [] | Some d \<Rightarrow> [(''validity_detail'', validity_detail_dict d)])) [] []) (\<lambda>_.
     act_bind (finalize_telemetry c eid False False) (\<lambda>_.
     act_return ()))))))))"

definition failure_detail :: "string \<Rightarrow> validity_detail" where
  "failure_detail code = \<lparr>vd_code = code, vd_message = None, vd_evidence_ids = []\<rparr>"

definition oracle_failure_detail :: "oracle_execution_status \<Rightarrow> (exn, validity_detail) result" where
  "oracle_failure_detail st = (case st of
     SUCCESS \<Rightarrow> Inl (ValueError ''SUCCESS does not define an Oracle failure detail'')
   | TIMEOUT \<Rightarrow> make_validity_detail ''ORACLE_TIMEOUT'' None []
   | CRASHED \<Rightarrow> make_validity_detail ''ORACLE_CRASH'' None []
   | PROTOCOL_ERROR \<Rightarrow> make_validity_detail ''ORACLE_PROTOCOL_ERROR'' None []
   | SECURITY_VIOLATION \<Rightarrow> make_validity_detail ''ORACLE_SECURITY_VIOLATION'' None [])"

section \<open>Oracle execution\<close>

definition project_snapshot :: "'w env_adapter \<Rightarrow> environment_handle \<Rightarrow> string \<Rightarrow>
    ('w, 's, string \<times> projection_snapshot) runtime_action" where
  "project_snapshot a h pid =
     act_bind (in_world (ea_project a h pid)) (\<lambda>st.
     act_bind (act_of (make_projection_snapshot pid (sj_data st) (sj_digest st))) (\<lambda>snap.
     act_return (pid, snap)))"

fun act_map :: "('a \<Rightarrow> ('s, 'e, 'b) action) \<Rightarrow> 'a list \<Rightarrow> ('s, 'e, 'b list) action" where
  "act_map f [] = act_return []"
| "act_map f (x # xs) = act_bind (f x) (\<lambda>y. act_bind (act_map f xs) (\<lambda>ys. act_return (y # ys)))"

definition build_oracle_request :: "string \<Rightarrow> string \<Rightarrow> 'w env_adapter \<Rightarrow> environment_handle \<Rightarrow> oracle_package \<Rightarrow>
    ('w, 's, oracle_request) runtime_action" where
  "build_oracle_request eid uuid a h package =
     act_bind (act_read (episode_of eid)) (\<lambda>e.
     act_bind (act_of (map_each (\<lambda>(nm, ptr). res_bind (resolve_json_pointer (sc_document (ep_scenario e)) ptr)
       (\<lambda>v. Inr (nm, v))) (pk_input_pointers package))) (\<lambda>inputs.
     act_bind (act_map (project_snapshot a h) (pk_projections package)) (\<lambda>projections.
     act_bind (act_of (make_oracle_context (ep_id e) (sc_instance_digest (ep_scenario e))
       (manifest_digest (ep_manifest e)) inputs projections)) (\<lambda>context.
     act_of (make_oracle_request (''oracle_req_'' @ uuid) package context)))))"

definition execute_oracle :: "('w, 's) runtime_config \<Rightarrow> string \<Rightarrow> string \<Rightarrow> 'w env_adapter \<Rightarrow> environment_handle \<Rightarrow>
    oracle_package \<Rightarrow> ('w, 's, oracle_execution_result) runtime_action" where
  "execute_oracle c eid uuid a h package =
     act_bind (build_oracle_request eid uuid a h package) (\<lambda>request.
     act_bind (emit_timed eid a h ''oracle.execution.started'' ''evaluator''
       [(''request_id'', JStr (rq_request_id request)),
        (''oracle_package_digest'', JStr (package_identity_digest package)),
        (''input_digest'', JStr (context_input_digest (rq_context request)))] [] []) (\<lambda>_.
     in_world (or_evaluate (rc_runner c) request)))"

definition execution_evidence_id :: "string \<Rightarrow> string" where
  "execution_evidence_id eid = ''ev_'' @ eid @ ''_oracle_execution''"

definition publish_execution_evidence :: "('w, 's) runtime_config \<Rightarrow> string \<Rightarrow> oracle_execution_result \<Rightarrow>
    ('w, 's, evidence) runtime_action" where
  "publish_execution_evidence c eid x =
     in_store (publish_json (rc_put c) (execution_evidence_id eid) ''oracle_execution''
       (execution_artifact_dict (xr_artifact x)) default_classification
       (Some (''oracle-runner:'' @ rd_name (or_describe (rc_runner c)) @ ''@'' @ rd_version (or_describe (rc_runner c))))
       None None)"

text \<open>\<open>_publish_oracle_evidence\<close>: the items in order, up to the first problem.\<close>

type_synonym publication_problem = "validity \<times> validity_detail option \<times> string"

fun publish_oracle_evidence :: "('w, 's) runtime_config \<Rightarrow> string \<Rightarrow> oracle_payload list \<Rightarrow>
    ('w, 's, publication_problem option) runtime_action" where
  "publish_oracle_evidence c eid [] = act_return None"
| "publish_oracle_evidence c eid (item # items) =
     act_bind (act_read (episode_of eid)) (\<lambda>e.
     if ep_evidence e (op_evidence_id item) \<noteq> None
     then act_return (Some (ORACLE_FAILURE, Some (failure_detail ''ORACLE_PROTOCOL_ERROR''),
            ''Oracle output contains a duplicate Evidence identifier''))
     else
       act_bind (act_attempt (in_store (publish_bytes (rc_put c) (op_evidence_id item) (op_evidence_type item)
         (op_content item) (op_media_type item) (op_classification item) (op_producer item) None None
         (Some (op_digest item))))) (\<lambda>published.
       case published of
         Inr ev \<Rightarrow> act_bind (register_evidence eid (evd_id ev) ev) (\<lambda>_. publish_oracle_evidence c eid items)
       | Inl err \<Rightarrow>
          if is_type_or_value_error err
          then act_return (Some (ORACLE_FAILURE, Some (failure_detail ''ORACLE_PROTOCOL_ERROR''),
                 ''Oracle output contains invalid Evidence metadata or content''))
          else if is_artifact_store_error err
          then act_return (Some (INFRA_CONFOUND, None, ''Oracle Evidence Artifact publication failed''))
          else act_raise err))"

definition bind_execution_evidence :: "string \<Rightarrow> verification_result \<Rightarrow> verification_result" where
  "bind_execution_evidence evid r = r\<lparr>vr_evidence_ids := dedupe (vr_evidence_ids r @ [evid])\<rparr>"

definition unresolved_evidence_ids :: "episode \<Rightarrow> string list" where
  "unresolved_evidence_ids e =
     sort (remdups (filter (\<lambda>i. ep_evidence e i = None) (concat (map vr_evidence_ids (ep_verification e)))))"

section \<open>Verification\<close>

definition emit_claims :: "string \<Rightarrow> 'w env_adapter \<Rightarrow> environment_handle \<Rightarrow> verification_result list \<Rightarrow>
    ('w, 's, unit) runtime_action" where
  "emit_claims eid a h results = act_each (\<lambda>r.
     emit_timed eid a h ''verification.claim.evaluated'' ''evaluator''
       [(''claim_id'', JStr (vr_claim_id r)), (''dimension'', JStr (vr_dimension r)),
        (''verdict'', JStr (vr_verdict r)), (''severity'', JStr (vr_severity r)), (''method'', JStr (vr_method r)),
        (''evaluator_version'', JStr (vr_evaluator_version r))] [] (vr_evidence_ids r)) results"

text \<open>From the accepted results to the terminal state.\<close>

definition conclude_verification :: "('w, 's) runtime_config \<Rightarrow> string \<Rightarrow> 'w env_adapter \<Rightarrow> environment_handle \<Rightarrow>
    ('w, 's, unit) runtime_action" where
  "conclude_verification c eid a h =
     act_bind (act_read (episode_of eid)) (\<lambda>e.
     act_bind (emit_claims eid a h (ep_verification e)) (\<lambda>_.
     act_bind (set_episode eid (\<lambda>e. e\<lparr>ep_task_verdict := verdict_of_results (ep_verification e),
       ep_validity := VALID, ep_validity_detail := None\<rparr>)) (\<lambda>_.
     act_bind (act_attempt (finalize_telemetry c eid True True)) (\<lambda>fin.
     case fin of
       Inl err \<Rightarrow>
         (if is_artifact_store_error err
          then invalidate_evaluation c eid a h INFRA_CONFOUND ''Telemetry Evidence Artifact publication failed'' None
          else act_raise err)
     | Inr artifact \<Rightarrow>
         (if required_telemetry_missing c artifact
          then invalidate_evaluation c eid a h TRACE_INCOMPLETE ''required telemetry unavailable'' None
          else
            act_bind (move_to eid COMPLETED) (\<lambda>_.
            act_bind (act_read (episode_of eid)) (\<lambda>e'.
            emit_timed eid a h ''episode.completed'' ''orchestrator''
              [(''task_verdict'', JStr (task_verdict_value (ep_task_verdict e'))),
               (''validity'', JStr (validity_value (ep_validity e')))] [] [])))))))"

text \<open>From the execution record to the accepted results.\<close>

definition accept_results :: "('w, 's) runtime_config \<Rightarrow> string \<Rightarrow> 'w env_adapter \<Rightarrow> environment_handle \<Rightarrow>
    oracle_execution_result \<Rightarrow> string \<Rightarrow> ('w, 's, unit) runtime_action" where
  "accept_results c eid a h x evid =
     act_bind (publish_oracle_evidence c eid (xr_evidence x)) (\<lambda>problem.
     case problem of
       Some (v, detail, reason) \<Rightarrow> invalidate_evaluation c eid a h v reason detail
     | None \<Rightarrow>
        act_bind (set_episode eid (\<lambda>e. e\<lparr>ep_verification :=
          map (bind_execution_evidence evid) (xr_results x)\<rparr>)) (\<lambda>_.
        act_bind (act_read (episode_of eid)) (\<lambda>e.
        if unresolved_evidence_ids e \<noteq> []
        then invalidate_evaluation c eid a h ORACLE_FAILURE
               ''Oracle result references Evidence absent from the Episode registry''
               (Some (failure_detail ''ORACLE_PROTOCOL_ERROR''))
        else conclude_verification c eid a h)))"

definition accept_execution :: "('w, 's) runtime_config \<Rightarrow> string \<Rightarrow> 'w env_adapter \<Rightarrow> environment_handle \<Rightarrow>
    oracle_execution_result \<Rightarrow> evidence \<Rightarrow> ('w, 's, unit) runtime_action" where
  "accept_execution c eid a h x ev =
     act_bind (register_evidence eid (evd_id ev) ev) (\<lambda>_.
     act_bind (emit_timed eid a h
       (if xr_status x = SUCCESS then ''oracle.execution.completed'' else ''oracle.execution.failed'') ''evaluator''
       [(''request_id'', JStr (xr_request_id x)), (''status'', JStr (execution_status_value (xr_status x))),
        (''duration_ms'', JInt (xa_duration_ms (xr_artifact x))), (''exit_code'', opt_int (xa_exit_code (xr_artifact x))),
        (''artifact_digest'', JStr (ref_digest (evd_artifact ev)))] [] [evd_id ev]) (\<lambda>_.
     if xr_status x \<noteq> SUCCESS
     then
       act_bind (act_of (oracle_failure_detail (xr_status x))) (\<lambda>detail.
       invalidate_evaluation c eid a h ORACLE_FAILURE
         (''Oracle execution ended with status '' @ execution_status_value (xr_status x)) (Some detail))
     else accept_results c eid a h x (evd_id ev)))"

definition oracle_rejection :: "exn \<Rightarrow> string \<times> validity_detail" where
  "oracle_rejection err = (case err of
     OracleExn cls _ \<Rightarrow> (''Oracle runner rejected the evaluation'',
       failure_detail (if cls = OracleSecurityError then ''ORACLE_SECURITY_VIOLATION'' else ''ORACLE_PROTOCOL_ERROR''))
   | _ \<Rightarrow> (''Oracle runner raised an unexpected evaluation error'', failure_detail ''ORACLE_RUNNER_ERROR''))"

definition verify :: "('w, 's) runtime_config \<Rightarrow> string \<Rightarrow> string \<Rightarrow> ('w, 's, unit) runtime_action" where
  "verify c eid uuid =
     act_bind (act_read (bound eid)) (\<lambda>(e, a, h, _, _).
     if ep_state e \<noteq> QUIESCING
     then act_raise (state_error ''verification requires QUIESCING'' (ep_state e))
     else
       act_bind (move_to eid VERIFYING) (\<lambda>_.
       act_bind (act_read (\<lambda>s. case rt_packages s eid of
         None \<Rightarrow> Inl (KeyError (py_repr_str eid)) | Some p \<Rightarrow> Inr p)) (\<lambda>package.
       act_bind (emit_timed eid a h ''episode.verification.started'' ''evaluator''
         [(''oracle_id'', JStr (pk_oracle_id package)), (''oracle_version'', JStr (pk_version package)),
          (''oracle_package_digest'', JStr (package_identity_digest package)),
          (''oracle_runner_config_digest'', JStr (runner_identity_digest (or_describe (rc_runner c))))] [] []) (\<lambda>_.
       act_bind (act_attempt (execute_oracle c eid uuid a h package)) (\<lambda>executed.
       case executed of
         Inl err \<Rightarrow>
           invalidate_evaluation c eid a h ORACLE_FAILURE (fst (oracle_rejection err)) (Some (snd (oracle_rejection err)))
       | Inr x \<Rightarrow>
           act_bind (act_attempt (publish_execution_evidence c eid x)) (\<lambda>published.
           case published of
             Inl err \<Rightarrow>
               (if publication_error err
                then invalidate_evaluation c eid a h INFRA_CONFOUND ''Oracle execution Artifact publication failed'' None
                else act_raise err)
           | Inr ev \<Rightarrow> accept_execution c eid a h x ev))))))"

section \<open>Evidence, snapshots, faults, release\<close>

definition read_evidence :: "('w, 's) runtime_config \<Rightarrow> string \<Rightarrow> string \<Rightarrow> ('w, 's) runtime \<Rightarrow> (exn, bytes) result" where
  "read_evidence c eid evid s =
     (case Option.bind (rt_episodes s eid) (\<lambda>e. ep_evidence e evid) of
        None \<Rightarrow> Inl (KeyError (py_repr_str (''unknown Episode/Evidence reference: '' @ eid @ ''/'' @ evid)))
      | Some ev \<Rightarrow> read_published (rc_get c) ev (rt_store s))"

definition snapshot :: "string \<Rightarrow> ('w, 's, snapshot_ref) runtime_action" where
  "snapshot eid =
     act_bind (act_read (bound eid)) (\<lambda>(e, a, h, _, _).
     if ep_state e \<notin> {READY, QUIESCING}
     then act_raise (state_error ''snapshot requires READY or QUIESCING'' (ep_state e))
     else
       act_bind (in_world (ea_snapshot a h)) (\<lambda>r.
       act_bind (set_episode eid (\<lambda>e. e\<lparr>ep_snapshots := (ep_snapshots e)(sn_snapshot_id r \<mapsto> r)\<rparr>)) (\<lambda>_.
       act_bind (emit_timed eid a h ''environment.snapshot.created'' ''environment''
         [(''snapshot_id'', JStr (sn_snapshot_id r)), (''consistency'', JStr (sn_consistency r))]
         [(''after'', JStr (sn_state_digest r))] []) (\<lambda>_.
       act_return r))))"

definition restore :: "string \<Rightarrow> string \<Rightarrow> ('w, 's, string) runtime_action" where
  "restore eid sid =
     act_bind (act_read (bound eid)) (\<lambda>(e, a, h, _, _).
     if ep_state e \<notin> {READY, QUIESCING}
     then act_raise (state_error ''restore requires READY or QUIESCING'' (ep_state e))
     else
       act_bind (act_of (case ep_snapshots e sid of None \<Rightarrow> Inl (KeyError (py_repr_str sid)) | Some r \<Rightarrow> Inr r)) (\<lambda>r.
       act_bind (in_world (ea_restore a h r)) (\<lambda>x.
       act_bind (emit_timed eid a h ''environment.restore.completed'' ''environment''
         [(''snapshot_id'', JStr (rr_snapshot_id x)),
          (''equivalence'', JStr (restore_equivalence_value (rr_equivalence x)))]
         [(''before'', JStr (rr_before_digest x)), (''after'', JStr (rr_after_digest x))] []) (\<lambda>_.
       act_return (restore_equivalence_value (rr_equivalence x))))))"

definition inject_fault :: "string \<Rightarrow> fault_spec \<Rightarrow> ('w, 's, fault_handle) runtime_action" where
  "inject_fault eid spec =
     act_bind (act_read (bound eid)) (\<lambda>(e, a, h, _, _).
     if ep_state e \<noteq> READY
     then act_raise (state_error ''fault injection requires READY'' (ep_state e))
     else
       act_bind (in_world (ea_inject_fault a h spec)) (\<lambda>f.
       act_bind (act_read (\<lambda>s. case rt_faults s eid of
         None \<Rightarrow> Inl (KeyError (py_repr_str eid)) | Some fs \<Rightarrow> Inr fs)) (\<lambda>fs.
       act_bind (act_modify (\<lambda>s. s\<lparr>rt_faults := (rt_faults s)(eid \<mapsto> fs(fh_fault_id f \<mapsto> f))\<rparr>)) (\<lambda>_.
       act_bind (emit_timed eid a h ''fault.scheduled'' ''evaluator''
         [(''fault_id'', JStr (fh_fault_id f)), (''type'', JStr (fs_kind spec)), (''target'', JStr (fs_target spec)),
          (''occurrence'', JInt (fs_occurrence spec)), (''visibility'', JStr (fs_visibility spec))] [] []) (\<lambda>_.
       act_return f)))))"

definition release :: "string \<Rightarrow> ('w, 's, unit) runtime_action" where
  "release eid =
     act_bind (act_read (bound eid)) (\<lambda>(e, a, h, sa, sh).
     act_bind (in_world (sa_release sa sh)) (\<lambda>_.
     act_bind (in_world (ea_release a h)) (\<lambda>_.
     act_bind (act_modify (\<lambda>s. s\<lparr>rt_subject_handles := (rt_subject_handles s)(eid := None),
       rt_handles := (rt_handles s)(eid := None), rt_packages := (rt_packages s)(eid := None),
       rt_faults := (rt_faults s)(eid := None)\<rparr>)) (\<lambda>_.
     emit_now eid ''episode.resources.released'' ''orchestrator'' 0
       [(''environment_handle_id'', JStr (eh_handle_id h)), (''subject_handle_id'', JStr (sh_handle_id sh))] [] []))))"

end
