(* ===== verification/AVP_EngineFacts.thy ===== *)
theory AVP_EngineFacts
  imports AVP_Engine
begin

text \<open>
  What the runtime's operations keep: every Episode stays well formed and only grows, for any
  adapters, Subject, Oracle runner and store; over every store that honours its interface, the
  Evidence registry stays readable. The proofs follow the code's structure: each relation is an
  \<open>evolution\<close>, so an operation respects it when its steps do.
\<close>

named_theorems step_intros \<open>steps of the runtime that respect the relation at hand\<close>

section \<open>Lifting from Episodes to the runtime\<close>

text \<open>An Episode action that keeps the invariant and only grows the Episode.\<close>

definition episode_safe :: "(episode, exn, 'a) action \<Rightarrow> bool" where
  "episode_safe m \<longleftrightarrow> (\<forall>e. episode_ok e \<longrightarrow> episode_ok (snd (m e)) \<and> episode_grows e (snd (m e)))"

definition runtime_ok :: "('w, 's) runtime \<Rightarrow> bool" where
  "runtime_ok s \<longleftrightarrow> (\<forall>eid e. rt_episodes s eid = Some e \<longrightarrow> ep_id e = eid \<and> episode_ok e)"

definition episodes_grow :: "('w, 's) runtime \<Rightarrow> ('w, 's) runtime \<Rightarrow> bool" where
  "episodes_grow s t \<longleftrightarrow> (\<forall>eid e. rt_episodes s eid = Some e \<longrightarrow>
     (\<exists>e'. rt_episodes t eid = Some e' \<and> episode_grows e e'))"

definition runtime_grows :: "('w, 's) runtime \<Rightarrow> ('w, 's) runtime \<Rightarrow> bool" where
  "runtime_grows s t \<longleftrightarrow> (runtime_ok s \<longrightarrow> runtime_ok t \<and> episodes_grow s t)"

lemma episodes_grow_refl: "episodes_grow s s"
  by (simp add: episodes_grow_def)

lemma episodes_grow_trans: "episodes_grow s t \<Longrightarrow> episodes_grow t u \<Longrightarrow> episodes_grow s u"
  unfolding episodes_grow_def by (meson episode_grows_trans)

interpretation rt: evolution runtime_grows
  by unfold_locales (auto simp: runtime_grows_def episodes_grow_refl intro: episodes_grow_trans)

lemma same_episodes_grow: "rt_episodes t = rt_episodes s \<Longrightarrow> runtime_grows s t"
  by (simp add: runtime_grows_def runtime_ok_def episodes_grow_def)

lemma in_world_grows [step_intros]: "evolves runtime_grows (in_world m)"
  by (rule evolvesI) (auto simp: in_world_def act_zoom_def intro: same_episodes_grow split: prod.splits)

lemma in_store_grows [step_intros]: "evolves runtime_grows (in_store m)"
  by (rule evolvesI) (auto simp: in_store_def act_zoom_def intro: same_episodes_grow split: prod.splits)

lemma on_episode_grows:
  assumes "episode_safe m"
  shows "evolves runtime_grows (on_episode eid m)"
proof (rule evolvesI)
  fix s r s' assume run: "on_episode eid m s = (r, s')"
  show "runtime_grows s s'"
  proof (cases "rt_episodes s eid")
    case None
    with run show ?thesis by (simp add: on_episode_def rt.refl)
  next
    case (Some e)
    obtain x e' where m: "m e = (x, e')" by (cases "m e")
    with Some run have s': "s' = s\<lparr>rt_episodes := (rt_episodes s)(eid \<mapsto> e')\<rparr>"
      by (simp add: on_episode_def)
    have "episode_ok e \<Longrightarrow> episode_ok e' \<and> episode_grows e e'"
      using assms m by (metis episode_safe_def snd_conv)
    with Some show ?thesis
      unfolding s' runtime_grows_def runtime_ok_def episodes_grow_def
      by (auto simp: episode_grows_def)
  qed
qed

lemma transition_safe: "episode_safe (transition t c)"
  unfolding episode_safe_def
proof (intro allI impI conjI)
  fix e assume "episode_ok e"
  with transition_ok [of t c] show "episode_ok (snd (transition t c e))"
    by (simp add: evolves_def keeping_def)
  from \<open>episode_ok e\<close> have "well_identified e" by (simp add: episode_ok_def)
  then show "episode_grows e (snd (transition t c e))"
    by (metis transition_grows prod.collapse)
qed

lemma bind_replay_source_safe: "episode_safe (bind_replay_source src)"
  unfolding episode_safe_def
  using bind_replay_source_ok [of src] bind_replay_source_grows [of src]
  by (auto simp: evolves_def keeping_def) (metis prod.collapse)

text \<open>Bookkeeping on the fields outside the two histories.\<close>

definition bookkeeping :: "(episode \<Rightarrow> episode) \<Rightarrow> bool" where
  "bookkeeping f \<longleftrightarrow> (\<forall>e. ep_id (f e) = ep_id e \<and> ep_scenario (f e) = ep_scenario e \<and> ep_agent (f e) = ep_agent e \<and>
     ep_manifest (f e) = ep_manifest e \<and> ep_state (f e) = ep_state e \<and> ep_events (f e) = ep_events e \<and>
     ep_oracle_evaluation (f e) = ep_oracle_evaluation e \<and> ep_transitions (f e) = ep_transitions e \<and>
     ep_replay_source (f e) = ep_replay_source e)"

lemma bookkeeping_ok: "bookkeeping f \<Longrightarrow> episode_ok (f e) = episode_ok e"
  by (simp add: bookkeeping_def episode_ok_defs cong: option.case_cong)

lemma bookkeeping_grows: "bookkeeping f \<Longrightarrow> episode_grows e (f e)"
  by (simp add: bookkeeping_def episode_grows_def)

lemma set_episode_grows: "bookkeeping f \<Longrightarrow> evolves runtime_grows (set_episode eid f)"
  unfolding set_episode_def
  by (rule on_episode_grows) (simp add: episode_safe_def act_modify_def bookkeeping_ok bookkeeping_grows)

text \<open>An action on the Episode that changes it by bookkeeping only.\<close>

lemma on_episode_bookkeeping:
  assumes "\<And>e. \<exists>f. bookkeeping f \<and> snd (m e) = f e"
  shows "evolves runtime_grows (on_episode eid m)"
proof (rule on_episode_grows)
  show "episode_safe m"
    unfolding episode_safe_def
    using assms bookkeeping_ok bookkeeping_grows by metis
qed

lemma emit_now_grows: "etype \<noteq> ''episode.transition'' \<Longrightarrow> evolves runtime_grows (emit_now eid etype p t d st ev)"
  unfolding emit_now_def
  by (rule on_episode_grows) (simp add: episode_safe_def act_modify_def emit_ok)

lemma emit_timed_grows:
  "etype \<noteq> ''episode.transition'' \<Longrightarrow> evolves runtime_grows (emit_timed eid a h etype p d st ev)"
  unfolding emit_timed_def clock_def by (intro rt.rules emit_now_grows)

lemma move_to_grows [step_intros]: "evolves runtime_grows (move_to eid t)"
  unfolding move_to_def by (intro rt.rules on_episode_grows transition_safe)

lemma register_evidence_grows [step_intros]: "evolves runtime_grows (register_evidence eid i ev)"
  unfolding register_evidence_def by (rule set_episode_grows) (simp add: bookkeeping_def)

lemma finalize_session_grows [step_intros]: "evolves runtime_grows (on_episode eid (finalize_session b))"
proof (rule on_episode_bookkeeping)
  fix e :: episode
  define f where "f = (\<lambda>x :: episode. x\<lparr>ep_telemetry := ep_telemetry (snd (finalize_session b e))\<rparr>)"
  have "bookkeeping f" by (simp add: f_def bookkeeping_def)
  moreover have "snd (finalize_session b e) = f e"
    by (auto simp: f_def finalize_session_def split: option.splits prod.splits)
  ultimately show "\<exists>f. bookkeeping f \<and> snd (finalize_session b e) = f e" by blast
qed

lemma trace_headers_grows [step_intros]: "evolves runtime_grows (trace_headers eid)"
  unfolding trace_headers_def
proof (rule on_episode_bookkeeping)
  fix e :: episode
  let ?m = "\<lambda>e. case ep_telemetry e of None \<Rightarrow> (Inr [] :: exn + _, e)
     | Some t \<Rightarrow> (case session_inject_headers t of (r, t') \<Rightarrow> (r, e\<lparr>ep_telemetry := Some t'\<rparr>))"
  define f where "f = (\<lambda>x :: episode. x\<lparr>ep_telemetry := ep_telemetry (snd (?m e))\<rparr>)"
  have "bookkeeping f" by (simp add: f_def bookkeeping_def)
  moreover have "snd (?m e) = f e"
    by (auto simp: f_def split: option.splits prod.splits)
  ultimately show "\<exists>f. bookkeeping f \<and> snd (?m e) = f e" by blast
qed

section \<open>The operations only grow Episodes\<close>

lemma act_map_grows: "(\<And>x. evolves runtime_grows (f x)) \<Longrightarrow> evolves runtime_grows (act_map f xs)"
  by (induction xs) (auto intro: rt.rules)

lemma fault_event_type_other: "fault_event_type p \<noteq> ''episode.transition''"
  by (cases p) simp_all

lemma emit_fault_observations_grows [step_intros]:
  "evolves runtime_grows (emit_fault_observations eid a h obs)"
  unfolding emit_fault_observations_def by (intro rt.each emit_timed_grows fault_event_type_other)

lemma emit_claims_grows [step_intros]: "evolves runtime_grows (emit_claims eid a h rs)"
  unfolding emit_claims_def by (intro rt.each emit_timed_grows) simp

lemma finalize_telemetry_grows [step_intros]: "evolves runtime_grows (finalize_telemetry c eid b st)"
  unfolding finalize_telemetry_def Let_def
  by (intro rt.rules step_intros)

lemma invalidate_grows [step_intros]: "evolves runtime_grows (invalidate_evaluation c eid a h v reason d)"
  unfolding invalidate_evaluation_def mark_infrastructure_failure_def
  by (intro rt.rules step_intros emit_timed_grows set_episode_grows) (simp_all add: bookkeeping_def)

lemma provision_grows: "evolves runtime_grows (provision c eid)"
proof -
  have handles: "evolves runtime_grows (act_modify (\<lambda>s. s\<lparr>rt_handles := f s, rt_subject_handles := g s\<rparr>))" for f g
    by (rule evolves_modify) (simp add: same_episodes_grow)
  have body: "evolves runtime_grows (provision_body eid a sa)" for a sa
    unfolding provision_body_def by (intro rt.rules step_intros emit_timed_grows handles) simp_all
  have failed: "evolves runtime_grows (provision_failed c eid err)" for err
    unfolding provision_failed_def Let_def mark_infrastructure_failure_def
    by (intro rt.rules step_intros emit_now_grows set_episode_grows) (simp_all add: bookkeeping_def)
  show ?thesis
    unfolding provision_def by (intro rt.rules step_intros body failed)
qed

lemma subject_observation_grows [step_intros]: "evolves runtime_grows (subject_observation eid)"
  unfolding subject_observation_def by (intro rt.rules step_intros emit_timed_grows) simp_all

lemma environment_tool_call_grows [step_intros]:
  "evolves runtime_grows (environment_tool_call eid a h cid nm args)"
proof -
  have handler: "evolves runtime_grows (case err of
      ToolExecutionError msg observations \<Rightarrow> f msg observations | _ \<Rightarrow> act_raise err)"
    if "\<And>m obs. evolves runtime_grows (f m obs)" for err and f :: "string \<Rightarrow> fault_observation list \<Rightarrow> _"
    using that by (cases err) (auto intro: rt.rules)
  show ?thesis
    unfolding environment_tool_call_def
    by (intro rt.rules step_intros emit_timed_grows handler) simp_all
qed

lemma mcp_tool_call_grows [step_intros]: "evolves runtime_grows (mcp_tool_call eid a h g cid nm args)"
proof -
  have handler: "evolves runtime_grows (case err of McpExn x y \<Rightarrow> f x y | _ \<Rightarrow> act_raise err)"
    if "\<And>x y. evolves runtime_grows (f x y)" for err and f :: "mcp_error \<Rightarrow> string \<Rightarrow> _"
    using that by (cases err) (auto intro: rt.rules)
  show ?thesis
    unfolding mcp_tool_call_def
    by (intro rt.rules step_intros emit_timed_grows handler) simp_all
qed

lemma subject_call_tool_grows [step_intros]: "evolves runtime_grows (subject_call_tool eid nm args)"
  unfolding subject_call_tool_def Let_def by (intro rt.rules step_intros)

text \<open>The Subject's own code reaches the runtime only through these.\<close>

lemma run_program_grows [step_intros]: "evolves runtime_grows (run_program eid p)"
proof (induction p)
  case (ObserveCall k)
  then show ?case by (auto intro!: rt.continue subject_observation_grows)
next
  case (ToolInvoke nm args k)
  then show ?case by (auto intro!: rt.continue subject_call_tool_grows)
next
  case (HeadersCall k)
  then show ?case by (auto intro!: rt.continue trace_headers_grows)
qed (simp add: rt.of_result)

lemma run_subject_grows: "evolves runtime_grows (run_subject c eid)"
proof -
  have invoke: "evolves runtime_grows (invoke_subject eid a h sa sh i)" for a h sa sh i
    unfolding invoke_subject_def
    by (intro rt.rules step_intros emit_timed_grows set_episode_grows) (simp_all add: bookkeeping_def)
  have failed: "evolves runtime_grows (subject_failed c eid a h err)" for a h err
    unfolding subject_failed_def Let_def
    by (intro rt.rules step_intros emit_timed_grows set_episode_grows) (simp_all add: bookkeeping_def)
  have handler: "evolves runtime_grows (case err of SubjectExn x y \<Rightarrow> f x y | _ \<Rightarrow> act_raise err)"
    if "\<And>x y. evolves runtime_grows (f x y)" for err and f :: "subject_error \<Rightarrow> string \<Rightarrow> _"
    using that by (cases err) (auto intro: rt.rules)
  show ?thesis
    unfolding run_subject_def
    by (intro rt.rules step_intros emit_timed_grows handler invoke failed) simp_all
qed

lemma publish_oracle_evidence_grows [step_intros]: "evolves runtime_grows (publish_oracle_evidence c eid items)"
  by (induction items) (auto intro!: rt.rules step_intros)

lemma conclude_grows [step_intros]: "evolves runtime_grows (conclude_verification c eid a h)"
  unfolding conclude_verification_def
  by (intro rt.rules step_intros emit_timed_grows set_episode_grows) (simp_all add: bookkeeping_def)

lemma accept_execution_grows [step_intros]: "evolves runtime_grows (accept_execution c eid a h x ev)"
  unfolding accept_execution_def accept_results_def
  by (intro rt.rules step_intros emit_timed_grows set_episode_grows) (simp_all add: bookkeeping_def)

lemma verify_grows: "evolves runtime_grows (verify c eid uuid)"
  unfolding verify_def execute_oracle_def build_oracle_request_def project_snapshot_def publish_execution_evidence_def
  by (intro rt.rules step_intros emit_timed_grows act_map_grows) simp_all

lemma snapshot_grows: "evolves runtime_grows (snapshot eid)"
  unfolding snapshot_def
  by (intro rt.rules step_intros emit_timed_grows set_episode_grows) (simp_all add: bookkeeping_def)

lemma restore_grows: "evolves runtime_grows (restore eid sid)"
  unfolding restore_def by (intro rt.rules step_intros emit_timed_grows) simp_all

lemma inject_fault_grows: "evolves runtime_grows (inject_fault eid spec)"
proof -
  have faults: "evolves runtime_grows (act_modify (\<lambda>s. s\<lparr>rt_faults := f s\<rparr>))" for f
    by (rule evolves_modify) (simp add: same_episodes_grow)
  show ?thesis
    unfolding inject_fault_def by (intro rt.rules step_intros emit_timed_grows faults) simp_all
qed

lemma release_grows: "evolves runtime_grows (release eid)"
proof -
  have resources: "evolves runtime_grows (act_modify (\<lambda>s. s\<lparr>rt_subject_handles := f s, rt_handles := g s,
      rt_packages := p s, rt_faults := q s\<rparr>))" for f g p q
    by (rule evolves_modify) (simp add: same_episodes_grow)
  show ?thesis
    unfolding release_def by (intro rt.rules step_intros emit_now_grows resources) simp_all
qed

section \<open>Creation\<close>

definition new_episode_id :: "string \<Rightarrow> string" where
  "new_episode_id uuid = ''ep_'' @ take 12 uuid"

text \<open>\<open>uuid4\<close> is relied on not to repeat the identifier of an Episode of this runtime.\<close>

definition fresh_uuid :: "string \<Rightarrow> ('w, 's) runtime \<Rightarrow> bool" where
  "fresh_uuid uuid s \<longleftrightarrow> rt_episodes s (new_episode_id uuid) = None"

lemma create_episode_okD:
  assumes "create_episode c uuid sc ag env subj pk gw s = (Inr eid, s')"
  shows "eid = new_episode_id uuid"
    and "\<exists>e. rt_episodes s' = (rt_episodes s)(eid \<mapsto> e) \<and> ep_id e = eid \<and> episode_ok e \<and> ep_state e = CREATED \<and>
      ep_transitions e = [] \<and> ep_replay_source e = None \<and> ep_evidence e = Map.empty \<and>
      ep_task_verdict e = INCONCLUSIVE \<and> ep_scenario e = sc \<and> ep_agent e = ag"
    and "rt_store s' = rt_store s" and "rt_world s' = rt_world s"
proof -
  from assms obtain m where m: "manifest_create sc ag (ea_describe env) (sa_describe subj) runtime_version
      (package_identity_digest pk) (runner_identity_digest (or_describe (rc_runner c)))
      (map_option gw_configuration_digest gw)
      (map_option (\<lambda>b. telemetry_identity_digest (bridge_describe b)) (rc_telemetry c)) None = Inr m"
    by (auto simp: create_episode_def split: if_splits sum.splits)
  define start where "start = (make_episode (new_episode_id uuid) sc ag m)
      \<lparr>ep_telemetry := map_option (\<lambda>b. bridge_start_episode b (new_episode_id uuid)) (rc_telemetry c)\<rparr>"
  have start: "episode_ok start" "ep_id start = new_episode_id uuid" "ep_state start = CREATED"
    "ep_transitions start = []" "ep_replay_source start = None" "ep_evidence start = Map.empty"
    "ep_task_verdict start = INCONCLUSIVE" "ep_scenario start = sc" "ep_agent start = ag"
    by (simp_all add: start_def episode_ok_defs make_episode_def new_episode_id_def)
  from assms m show "eid = new_episode_id uuid" "rt_store s' = rt_store s" "rt_world s' = rt_world s"
    by (auto simp: create_episode_def new_episode_id_def Let_def split: if_splits)
  from assms m have "\<exists>d. rt_episodes s' =
      (rt_episodes s)(eid \<mapsto> emit ''episode.created'' ''orchestrator'' 0 d [] [] start)"
    unfolding create_episode_def start_def new_episode_id_def Let_def
    by (auto split: if_splits)
  then obtain d where "rt_episodes s' =
      (rt_episodes s)(eid \<mapsto> emit ''episode.created'' ''orchestrator'' 0 d [] [] start)"
    by blast
  with start \<open>eid = new_episode_id uuid\<close> emit_ok [of "''episode.created''"] show "\<exists>e. rt_episodes s' = (rt_episodes s)(eid \<mapsto> e) \<and> ep_id e = eid \<and>
      episode_ok e \<and> ep_state e = CREATED \<and> ep_transitions e = [] \<and> ep_replay_source e = None \<and>
      ep_evidence e = Map.empty \<and> ep_task_verdict e = INCONCLUSIVE \<and> ep_scenario e = sc \<and> ep_agent e = ag"
    by (intro exI [of _ "emit ''episode.created'' ''orchestrator'' 0 d [] [] start"]) simp
qed

lemma create_episode_errD: "create_episode c uuid sc ag env subj pk gw s = (Inl err, s') \<Longrightarrow> s' = s"
  by (auto simp: create_episode_def Let_def split: if_splits sum.splits)

lemma create_episode_grows:
  assumes "fresh_uuid uuid s" "create_episode c uuid sc ag env subj pk gw s = (r, s')"
  shows "runtime_grows s s'"
proof (cases r)
  case (Inl err)
  with assms show ?thesis by (auto dest: create_episode_errD intro: rt.refl)
next
  case (Inr eid)
  note run = assms(2) [unfolded Inr]
  from create_episode_okD(1,2) [OF run] obtain e where
    "eid = new_episode_id uuid" "rt_episodes s' = (rt_episodes s)(eid \<mapsto> e)" "ep_id e = eid" "episode_ok e"
    by blast
  with assms(1) show ?thesis
    by (auto simp: runtime_grows_def runtime_ok_def episodes_grow_def fresh_uuid_def)
qed

lemma create_replay_grows:
  assumes "fresh_uuid uuid s" "create_replay_episode c uuid src env subj pk gw s = (r, s')"
  shows "runtime_grows s s'"
proof (cases "rt_episodes s src")
  case None
  with assms(2) show ?thesis by (simp add: create_replay_episode_def action_simps rt.refl)
next
  case (Some source)
  have replay: "evolves runtime_grows (on_episode eid (bind_replay_source i))" for eid i
    by (rule on_episode_grows [OF bind_replay_source_safe])
  have rest: "evolves runtime_grows (act_bind (act_of i) (\<lambda>identity.
       act_bind (on_episode eid (bind_replay_source identity)) (\<lambda>_.
       act_bind (emit_now eid ''episode.replay.linked'' ''orchestrator'' 0
         [(''source'', replay_source_dict identity)] [] []) (\<lambda>_. act_return eid))))" for eid i
    by (intro rt.rules replay emit_now_grows) simp
  have "runtime_grows s (snd (act_bind
      (create_episode c uuid (ep_scenario source) (ep_agent source) env subj pk gw) (\<lambda>eid.
       act_bind (act_of (make_replay_source (ep_id source) (manifest_digest (ep_manifest source)))) (\<lambda>identity.
       act_bind (on_episode eid (bind_replay_source identity)) (\<lambda>_.
       act_bind (emit_now eid ''episode.replay.linked'' ''orchestrator'' 0
         [(''source'', replay_source_dict identity)] [] []) (\<lambda>_. act_return eid)))) s))"
  proof (rule rt.bind_at)
    show "runtime_grows s (snd (create_episode c uuid (ep_scenario source) (ep_agent source) env subj pk gw s))"
      using create_episode_grows [OF assms(1)] by (metis prod.collapse)
  qed (rule evolves_at [OF rest])
  with Some assms(2) show ?thesis
    by (simp add: create_replay_episode_def act_bind_def act_read_def)
qed

section \<open>Runs of the runtime\<close>

text \<open>One public operation, a late call through a retained \<open>SubjectSession\<close> included; its result may
  be a value or an exception that the caller survives.\<close>

inductive runtime_step :: "('w, 's) runtime_config \<Rightarrow> ('w, 's) runtime \<Rightarrow> ('w, 's) runtime \<Rightarrow> bool" for c where
  create: "fresh_uuid uuid s \<Longrightarrow> create_episode c uuid sc ag env subj pk gw s = (r, t) \<Longrightarrow> runtime_step c s t"
| replay: "fresh_uuid uuid s \<Longrightarrow> create_replay_episode c uuid src env subj pk gw s = (r, t) \<Longrightarrow> runtime_step c s t"
| provision: "AVP_Engine.provision c eid s = (x, t) \<Longrightarrow> runtime_step c s t"
| run_subject: "AVP_Engine.run_subject c eid s = (y, t) \<Longrightarrow> runtime_step c s t"
| verify: "AVP_Engine.verify c eid uuid s = (x, t) \<Longrightarrow> runtime_step c s t"
| snapshot: "AVP_Engine.snapshot eid s = (z, t) \<Longrightarrow> runtime_step c s t"
| restore: "AVP_Engine.restore eid sid s = (y, t) \<Longrightarrow> runtime_step c s t"
| inject_fault: "AVP_Engine.inject_fault eid spec s = (f, t) \<Longrightarrow> runtime_step c s t"
| release: "AVP_Engine.release eid s = (x, t) \<Longrightarrow> runtime_step c s t"
| subject: "run_program eid p s = (q, t) \<Longrightarrow> runtime_step c s t"

lemma runtime_step_grows: "runtime_step c s t \<Longrightarrow> runtime_grows s t"
  by (induction rule: runtime_step.induct)
     (auto intro: create_episode_grows create_replay_grows
       evolvesD [OF provision_grows] evolvesD [OF run_subject_grows] evolvesD [OF verify_grows]
       evolvesD [OF snapshot_grows] evolvesD [OF restore_grows] evolvesD [OF inject_fault_grows]
       evolvesD [OF release_grows] evolvesD [OF run_program_grows])

lemma runtime_steps_grow: "(runtime_step c)\<^sup>*\<^sup>* s t \<Longrightarrow> runtime_grows s t"
  by (induction rule: rtranclp_induct) (auto intro: rt.refl rt.trans runtime_step_grows)

lemma runtime_init_ok: "runtime_ok (runtime_init w st)"
  by (simp add: runtime_ok_def runtime_init_def)

lemma reachable_ok: "(runtime_step c)\<^sup>*\<^sup>* (runtime_init w st) s \<Longrightarrow> runtime_ok s"
  using runtime_steps_grow [of c "runtime_init w st" s] runtime_init_ok [of w st]
  by (simp add: runtime_grows_def)

end
