(* ===== verification/AVP_EvidenceFacts.thy ===== *)
theory AVP_EvidenceFacts
  imports AVP_EngineFacts
begin

text \<open>
  The Evidence registry of the runtime over an ArtifactStore: every registered item is filed under
  its own identifier and can be read back, with the bytes its digest names, at every later moment.
  The lemmas are proved for any store that honours the \<open>artifact_store\<close> interface.
\<close>

definition keeps_evidence :: "(episode, exn, 'a) action \<Rightarrow> bool" where
  "keeps_evidence m \<longleftrightarrow> (\<forall>e. ep_evidence (snd (m e)) = ep_evidence e)"

lemma transition_evidence: "transition t c e = (r, e') \<Longrightarrow> ep_evidence e' = ep_evidence e"
  unfolding transition_def
  by (auto simp: action_simps freeze_oracle_evaluation_def split: prod.splits sum.splits option.splits if_splits)

lemma finalize_session_evidence: "keeps_evidence (finalize_session b)"
  by (auto simp: keeps_evidence_def finalize_session_def split: option.splits prod.splits)

context artifact_store
begin

definition readable :: "evidence \<Rightarrow> 's \<Rightarrow> bool" where
  "readable ev s \<longleftrightarrow> (\<exists>d. get (evd_artifact ev) s = Inr d)"

definition registry_ok :: "('w, 's) runtime \<Rightarrow> bool" where
  "registry_ok s \<longleftrightarrow> (\<forall>eid e i ev. rt_episodes s eid = Some e \<longrightarrow> ep_evidence e i = Some ev \<longrightarrow>
     evd_id ev = i \<and> readable ev (rt_store s))"

definition publishes :: "('w, 's) runtime \<Rightarrow> ('w, 's) runtime \<Rightarrow> bool" where
  "publishes s t \<longleftrightarrow> extends (rt_store s) (rt_store t) \<and> (registry_ok s \<longrightarrow> registry_ok t)"

lemma publishes_refl: "publishes s s"
  by (simp add: publishes_def extends_refl)

lemma publishes_trans: "publishes s t \<Longrightarrow> publishes t u \<Longrightarrow> publishes s u"
  by (auto simp: publishes_def intro: extends_trans)

lemma readable_extends: "readable ev s \<Longrightarrow> extends s t \<Longrightarrow> readable ev t"
  by (auto simp: readable_def extends_def)

end

sublocale artifact_store \<subseteq> pub: evolution publishes
  by unfold_locales (auto intro: publishes_refl publishes_trans)

context artifact_store
begin

lemma same_registry: "rt_episodes t = rt_episodes s \<Longrightarrow> extends (rt_store s) (rt_store t) \<Longrightarrow> publishes s t"
  unfolding publishes_def registry_ok_def using readable_extends by metis

lemma in_world_pub: "evolves publishes (in_world m)"
  by (rule evolvesI)
     (auto simp: in_world_def act_zoom_def extends_refl intro!: same_registry split: prod.splits)

lemma in_store_pub:
  assumes "\<And>s r s'. m s = (r, s') \<Longrightarrow> extends s s'"
  shows "evolves publishes (in_store m)"
  by (rule evolvesI)
     (use assms in \<open>auto simp: in_store_def act_zoom_def intro!: same_registry split: prod.splits\<close>)

lemma on_episode_pub:
  assumes "keeps_evidence m"
  shows "evolves publishes (on_episode eid m)"
proof (rule evolvesI)
  fix s :: "('w, 's) runtime" and r s'
  assume run: "on_episode eid m s = (r, s')"
  show "publishes s s'"
  proof (cases "rt_episodes s eid")
    case None
    with run show ?thesis by (simp add: on_episode_def publishes_refl)
  next
    case (Some e)
    obtain x e' where m: "m e = (x, e')" by (cases "m e")
    then have "ep_evidence e' = ep_evidence e" using assms by (metis keeps_evidence_def snd_conv)
    moreover from Some m run have "s' = s\<lparr>rt_episodes := (rt_episodes s)(eid \<mapsto> e')\<rparr>"
      by (simp add: on_episode_def)
    ultimately show ?thesis
      using Some by (fastforce simp: publishes_def registry_ok_def extends_refl split: if_splits)
  qed
qed

lemma set_episode_pub: "(\<And>e. ep_evidence (f e) = ep_evidence e) \<Longrightarrow> evolves publishes (set_episode eid f)"
  unfolding set_episode_def by (rule on_episode_pub) (simp add: keeps_evidence_def act_modify_def)

lemma emit_now_pub: "evolves publishes (emit_now eid a b c d x y)"
  unfolding emit_now_def by (rule on_episode_pub) (simp add: keeps_evidence_def act_modify_def)

lemma emit_timed_pub: "evolves publishes (emit_timed eid a h b c d x y)"
  unfolding emit_timed_def clock_def by (intro pub.rules emit_now_pub)

lemma move_to_pub: "evolves publishes (move_to eid t)"
proof -
  have "keeps_evidence (transition t None)"
    unfolding keeps_evidence_def by (metis prod.collapse transition_evidence)
  then show ?thesis unfolding move_to_def by (intro pub.rules on_episode_pub)
qed

lemma trace_headers_pub: "evolves publishes (trace_headers eid)"
  unfolding trace_headers_def
  by (rule on_episode_pub) (auto simp: keeps_evidence_def split: option.splits prod.splits)

lemma register_pub:
  assumes "readable ev (rt_store s)" "evd_id ev = i"
  shows "publishes s (snd (register_evidence eid i ev s))"
  using assms
  by (auto simp: register_evidence_def set_episode_def on_episode_def act_modify_def publishes_def
      registry_ok_def extends_refl split: option.splits)

text \<open>The pattern of every publication: an attempt to publish, then registration or handling.\<close>

lemma publish_then_register:
  fixes m :: "('s, exn, evidence) action" and h :: "exn \<Rightarrow> ('w, 's, 'b) runtime_action"
  assumes ext: "\<And>s r s'. m s = (r, s') \<Longrightarrow> extends s s'"
    and good: "\<And>s ev s'. m s = (Inr ev, s') \<Longrightarrow> readable ev s' \<and> evd_id ev = i ev"
    and h: "\<And>err. evolves publishes (h err)" and k: "\<And>ev. evolves publishes (k ev)"
  shows "evolves publishes (act_bind (act_attempt (in_store m)) (\<lambda>p. case p of
      Inl err \<Rightarrow> h err | Inr ev \<Rightarrow> act_bind (register_evidence eid (i ev) ev) (\<lambda>_. k ev)))"
    (is "evolves publishes ?m")
  unfolding evolves_def
proof
  fix s :: "('w, 's) runtime"
  show "publishes s (snd (?m s))"
  proof (rule pub.attempt_at)
    show "publishes s (snd (in_store m s))" by (rule evolves_at [OF in_store_pub]) (rule ext)
    fix r s1 assume run: "in_store m s = (r, s1)"
    show "publishes s1 (snd ((case r of Inl err \<Rightarrow> h err
        | Inr ev \<Rightarrow> act_bind (register_evidence eid (i ev) ev) (\<lambda>_. k ev)) s1))"
    proof (cases r)
      case (Inl err)
      then show ?thesis by (simp add: evolves_at [OF h])
    next
      case (Inr ev)
      with run have "m (rt_store s) = (Inr ev, rt_store s1)"
        by (auto simp: in_store_def act_zoom_def split: prod.splits)
      with good have "readable ev (rt_store s1)" "evd_id ev = i ev" by auto
      then have "publishes s1 (snd (register_evidence eid (i ev) ev s1))" by (rule register_pub)
      then have "publishes s1 (snd (act_bind (register_evidence eid (i ev) ev) (\<lambda>_. k ev) s1))"
        by (rule pub.bind_at) (rule evolves_at [OF k])
      with Inr show ?thesis by simp
    qed
  qed
qed

lemma publish_bytes_good:
  "publish_bytes put eid etype c m cl p rd ex x s = (Inr ev, s') \<Longrightarrow> readable ev s' \<and> evd_id ev = eid"
  using published_readable [of eid etype c m cl p rd ex x s ev s'] publish_bytes_okD(1)
  by (auto simp: readable_def read_published_def)

lemma publish_json_good:
  "publish_json put eid etype v cl p rd ex s = (Inr ev, s') \<Longrightarrow> readable ev s' \<and> evd_id ev = eid"
  unfolding publish_json_def by (rule publish_bytes_good)

lemma publish_json_extends: "publish_json put eid etype v cl p rd ex s = (r, s') \<Longrightarrow> extends s s'"
  unfolding publish_json_def by (rule publish_bytes_extends)

lemma finalize_telemetry_pub:
  assumes c: "rc_put c = put"
  shows "evolves publishes (finalize_telemetry c eid b st)"
  unfolding finalize_telemetry_def Let_def c
  by (intro pub.cond pub.case_opt pub.bind pub.return pub.read pub.raise_act
      on_episode_pub finalize_session_evidence
      publish_then_register [where i = "\<lambda>_. telemetry_evidence_id i" for i])
     (auto intro: publish_json_extends pub.rules dest: publish_json_good)

lemma act_map_pub: "(\<And>x. evolves publishes (f x)) \<Longrightarrow> evolves publishes (act_map f xs)"
  by (induction xs) (auto intro: pub.rules)

lemma emit_claims_pub: "evolves publishes (emit_claims eid a h rs)"
  unfolding emit_claims_def by (intro pub.each emit_timed_pub)

lemma emit_fault_observations_pub: "evolves publishes (emit_fault_observations eid a h obs)"
  unfolding emit_fault_observations_def by (intro pub.each emit_timed_pub)

lemmas pub_steps = in_world_pub emit_now_pub emit_timed_pub move_to_pub trace_headers_pub emit_claims_pub
  emit_fault_observations_pub

lemma invalidate_pub: "rc_put c = put \<Longrightarrow> evolves publishes (invalidate_evaluation c eid a h v reason d)"
  unfolding invalidate_evaluation_def
  by (intro pub.rules pub_steps finalize_telemetry_pub set_episode_pub) simp_all

lemma provision_pub:
  assumes c: "rc_put c = put"
  shows "evolves publishes (provision c eid)"
proof -
  have handles: "evolves publishes (act_modify (\<lambda>s. s\<lparr>rt_handles := f s, rt_subject_handles := g s\<rparr>))" for f g
    by (rule evolves_modify) (simp add: same_registry extends_refl)
  have body: "evolves publishes (provision_body eid a sa)" for a sa
    unfolding provision_body_def by (intro pub.rules pub_steps handles)
  have failed: "evolves publishes (provision_failed c eid err)" for err
    unfolding provision_failed_def Let_def mark_infrastructure_failure_def
    by (intro pub.rules pub_steps finalize_telemetry_pub c set_episode_pub) simp_all
  show ?thesis
    unfolding provision_def by (intro pub.rules pub_steps body failed)
qed

lemma subject_observation_pub: "evolves publishes (subject_observation eid)"
  unfolding subject_observation_def by (intro pub.rules pub_steps)

lemma environment_tool_call_pub: "evolves publishes (environment_tool_call eid a h cid nm args)"
proof -
  have handler: "evolves publishes (case err of
      ToolExecutionError msg observations \<Rightarrow> f msg observations | _ \<Rightarrow> act_raise err)"
    if "\<And>m obs. evolves publishes (f m obs)" for err and f :: "string \<Rightarrow> fault_observation list \<Rightarrow> _"
    using that by (cases err) (auto intro: pub.rules)
  show ?thesis
    unfolding environment_tool_call_def by (intro pub.rules pub_steps handler)
qed

lemma mcp_tool_call_pub: "evolves publishes (mcp_tool_call eid a h g cid nm args)"
proof -
  have handler: "evolves publishes (case err of McpExn x y \<Rightarrow> f x y | _ \<Rightarrow> act_raise err)"
    if "\<And>x y. evolves publishes (f x y)" for err and f :: "mcp_error \<Rightarrow> string \<Rightarrow> _"
    using that by (cases err) (auto intro: pub.rules)
  show ?thesis
    unfolding mcp_tool_call_def by (intro pub.rules pub_steps handler)
qed

lemma subject_call_tool_pub: "evolves publishes (subject_call_tool eid nm args)"
  unfolding subject_call_tool_def Let_def
  by (intro pub.rules environment_tool_call_pub mcp_tool_call_pub)

lemma run_program_pub: "evolves publishes (run_program eid p)"
proof (induction p)
  case (ObserveCall k)
  then show ?case by (auto intro!: pub.continue subject_observation_pub)
next
  case (ToolInvoke nm args k)
  then show ?case by (auto intro!: pub.continue subject_call_tool_pub)
next
  case (HeadersCall k)
  then show ?case by (auto intro!: pub.continue trace_headers_pub)
qed (simp add: pub.of_result)

lemma run_subject_pub:
  assumes c: "rc_put c = put"
  shows "evolves publishes (run_subject c eid)"
proof -
  have invoke: "evolves publishes (invoke_subject eid a h sa sh i)" for a h sa sh i
    unfolding invoke_subject_def by (intro pub.rules pub_steps run_program_pub set_episode_pub) simp_all
  have failed: "evolves publishes (subject_failed c eid a h err)" for a h err
    unfolding subject_failed_def Let_def
    by (intro pub.rules pub_steps finalize_telemetry_pub c set_episode_pub) simp_all
  have handler: "evolves publishes (case err of SubjectExn x y \<Rightarrow> f x y | _ \<Rightarrow> act_raise err)"
    if "\<And>x y. evolves publishes (f x y)" for err and f :: "subject_error \<Rightarrow> string \<Rightarrow> _"
    using that by (cases err) (auto intro: pub.rules)
  show ?thesis
    unfolding run_subject_def by (intro pub.rules pub_steps handler invoke failed)
qed

lemma publish_oracle_evidence_pub:
  assumes c: "rc_put c = put"
  shows "evolves publishes (publish_oracle_evidence c eid items)"
proof (induction items)
  case (Cons item items)
  show ?case
    unfolding publish_oracle_evidence.simps c
    by (intro pub.bind pub.read pub.cond pub.return publish_then_register [where i = evd_id] Cons.IH)
       (auto intro: publish_bytes_extends pub.rules dest: publish_bytes_good)
qed (simp add: pub.return)

lemma conclude_pub:
  assumes "rc_put c = put"
  shows "evolves publishes (conclude_verification c eid a h)"
  unfolding conclude_verification_def
  by (intro pub.rules pub_steps finalize_telemetry_pub invalidate_pub assms set_episode_pub) simp_all

lemma verify_pub:
  assumes c: "rc_put c = put"
  shows "evolves publishes (verify c eid uuid)"
proof -
  have execute: "evolves publishes (execute_oracle c eid uuid a h p)" for a h p
    unfolding execute_oracle_def build_oracle_request_def project_snapshot_def
    by (intro pub.rules pub_steps act_map_pub)
  have results: "evolves publishes (accept_results c eid a h x evid)" for a h x evid
    unfolding accept_results_def
    by (intro pub.rules pub_steps publish_oracle_evidence_pub invalidate_pub conclude_pub c set_episode_pub) simp_all
  show ?thesis
    unfolding verify_def publish_execution_evidence_def accept_execution_def c
    by (intro pub.bind pub.attempt pub.case_res pub.case_pair pub.cond pub.read pub.raise_act pub.of_result
        pub_steps execute results invalidate_pub c publish_then_register [where i = evd_id])
       (auto intro: publish_json_extends dest: publish_json_good)
qed

lemma snapshot_pub: "evolves publishes (snapshot eid)"
  unfolding snapshot_def by (intro pub.rules pub_steps set_episode_pub) simp_all

lemma restore_pub: "evolves publishes (restore eid sid)"
  unfolding restore_def by (intro pub.rules pub_steps)

lemma tables_pub:
  assumes "\<And>s. rt_episodes (f s) = rt_episodes s \<and> rt_store (f s) = rt_store s"
  shows "evolves publishes (act_modify f)"
  by (rule evolves_modify) (simp add: same_registry extends_refl assms)

lemma inject_fault_pub: "evolves publishes (inject_fault eid spec)"
  unfolding inject_fault_def by (intro pub.rules pub_steps tables_pub) simp_all

lemma release_pub: "evolves publishes (release eid)"
  unfolding release_def by (intro pub.rules pub_steps tables_pub) simp_all

lemma fresh_episode_pub:
  assumes "rt_episodes s' = (rt_episodes s)(eid \<mapsto> e)" "ep_evidence e = Map.empty" "rt_store s' = rt_store s"
  shows "publishes s s'"
  using assms by (auto simp: publishes_def registry_ok_def extends_refl)

lemma create_episode_pub: "create_episode c uuid sc ag env subj pk gw s = (r, s') \<Longrightarrow> publishes s s'"
proof (cases r)
  case (Inl err)
  assume "create_episode c uuid sc ag env subj pk gw s = (r, s')"
  with Inl show ?thesis using create_episode_errD by (metis publishes_refl)
next
  case (Inr eid)
  assume "create_episode c uuid sc ag env subj pk gw s = (r, s')"
  with Inr have run: "create_episode c uuid sc ag env subj pk gw s = (Inr eid, s')" by simp
  from create_episode_okD(2,3) [OF run] show ?thesis by (auto intro: fresh_episode_pub)
qed

lemma create_replay_pub:
  assumes run: "create_replay_episode c uuid src env subj pk gw s = (r, s')"
  shows "publishes s s'"
proof (cases "rt_episodes s src")
  case None
  with run show ?thesis by (simp add: create_replay_episode_def action_simps publishes_refl)
next
  case (Some source)
  have replay: "evolves publishes (on_episode eid (bind_replay_source i))" for eid i
    by (rule on_episode_pub)
       (simp add: keeps_evidence_def bind_replay_source_def action_simps split: if_splits sum.splits)
  have rest: "evolves publishes (act_bind (act_of i) (\<lambda>identity.
       act_bind (on_episode eid (bind_replay_source identity)) (\<lambda>_.
       act_bind (emit_now eid ''episode.replay.linked'' ''orchestrator'' 0
         [(''source'', replay_source_dict identity)] [] []) (\<lambda>_. act_return eid))))" for eid i
    by (intro pub.rules replay emit_now_pub)
  have "publishes s (snd (act_bind
      (create_episode c uuid (ep_scenario source) (ep_agent source) env subj pk gw) (\<lambda>eid.
       act_bind (act_of (make_replay_source (ep_id source) (manifest_digest (ep_manifest source)))) (\<lambda>identity.
       act_bind (on_episode eid (bind_replay_source identity)) (\<lambda>_.
       act_bind (emit_now eid ''episode.replay.linked'' ''orchestrator'' 0
         [(''source'', replay_source_dict identity)] [] []) (\<lambda>_. act_return eid)))) s))"
    by (rule pub.bind_at [OF _ evolves_at [OF rest]]) (metis create_episode_pub prod.collapse)
  with Some run show ?thesis
    by (simp add: create_replay_episode_def act_bind_def act_read_def)
qed

lemma runtime_step_pub:
  assumes "rc_put c = put" "runtime_step c s t"
  shows "publishes s t"
  using assms(2)
  by (cases rule: runtime_step.cases)
     (use assms(1) in \<open>auto intro: create_episode_pub create_replay_pub
       evolvesD [OF provision_pub] evolvesD [OF run_subject_pub] evolvesD [OF verify_pub]
       evolvesD [OF snapshot_pub] evolvesD [OF restore_pub] evolvesD [OF inject_fault_pub]
       evolvesD [OF release_pub] evolvesD [OF run_program_pub]\<close>)

lemma reachable_publishes:
  assumes "rc_put c = put" "(runtime_step c)\<^sup>*\<^sup>* s t"
  shows "publishes s t"
  using assms(2)
  by (induction rule: rtranclp_induct) (auto intro: publishes_refl publishes_trans runtime_step_pub assms(1))

lemma reachable_registry:
  assumes "rc_put c = put" "(runtime_step c)\<^sup>*\<^sup>* (runtime_init w st) s"
  shows "registry_ok s"
  using reachable_publishes [OF assms] by (simp add: publishes_def registry_ok_def runtime_init_def)

end

end
