(* ===== verification/AVP_VerifyFacts.thy ===== *)
theory AVP_VerifyFacts
  imports AVP_EvidenceFacts
begin

text \<open>
  The outcome of verification and of Subject execution: what the Episode looks like when \<open>verify\<close>
  or \<open>run_subject\<close> returned. The middle steps are handled by a family of relations \<open>same_on f\<close>
  ("the part \<open>f\<close> of the Episode is unchanged"), each an \<open>evolution\<close>.
\<close>

section \<open>Unchanged parts of an Episode\<close>

definition same_on :: "(episode \<Rightarrow> 'x) \<Rightarrow> string \<Rightarrow> ('w, 's) runtime \<Rightarrow> ('w, 's) runtime \<Rightarrow> bool" where
  "same_on f eid s t \<longleftrightarrow> (\<forall>e. rt_episodes s eid = Some e \<longrightarrow>
     (\<exists>e'. rt_episodes t eid = Some e' \<and> f e' = f e \<and> dom (ep_evidence e) \<subseteq> dom (ep_evidence e')))"

lemma same_on_trans:
  assumes "same_on f eid s t" "same_on f eid t u"
  shows "same_on f eid s u"
  unfolding same_on_def
proof (intro allI impI)
  fix e assume e: "rt_episodes s eid = Some e"
  from assms(1) [unfolded same_on_def, rule_format, OF e] obtain e1 where
    e1: "rt_episodes t eid = Some e1" "f e1 = f e" "dom (ep_evidence e) \<subseteq> dom (ep_evidence e1)"
    by (elim exE conjE) (rule that)
  from assms(2) [unfolded same_on_def, rule_format, OF e1(1)] obtain e2 where
    "rt_episodes u eid = Some e2" "f e2 = f e1" "dom (ep_evidence e1) \<subseteq> dom (ep_evidence e2)"
    by (elim exE conjE) (rule that)
  note e2 = this
  show "\<exists>e'. rt_episodes u eid = Some e' \<and> f e' = f e \<and> dom (ep_evidence e) \<subseteq> dom (ep_evidence e')"
    by (intro exI conjI) (rule e2(1), rule trans [OF e2(2) e1(2)], rule subset_trans [OF e1(3) e2(3)])
qed

interpretation same: evolution "same_on f eid" for f eid
  by unfold_locales (simp add: same_on_def, rule same_on_trans)

text \<open>A part that neither events nor telemetry nor Evidence belong to.\<close>

definition blind :: "(episode \<Rightarrow> 'x) \<Rightarrow> bool" where
  "blind f \<longleftrightarrow> (\<forall>e evs tel evid. f (e\<lparr>ep_events := evs, ep_telemetry := tel, ep_evidence := evid\<rparr>) = f e)"

text \<open>An action that touches nothing else, and removes no Evidence.\<close>

definition logging :: "(episode, exn, 'a) action \<Rightarrow> bool" where
  "logging m \<longleftrightarrow> (\<forall>e. \<exists>evs tel evid. snd (m e) = e\<lparr>ep_events := evs, ep_telemetry := tel, ep_evidence := evid\<rparr> \<and>
     dom (ep_evidence e) \<subseteq> dom evid)"

lemma same_episodes: "rt_episodes t = rt_episodes s \<Longrightarrow> same_on f eid s t"
  by (simp add: same_on_def)

lemma on_episode_same:
  assumes "blind f" "logging m"
  shows "evolves (same_on f eid) (on_episode eid' m)"
proof (rule evolvesI)
  fix s r s' assume run: "on_episode eid' m s = (r, s')"
  show "same_on f eid s s'"
  proof (cases "rt_episodes s eid'")
    case None
    with run show ?thesis by (simp add: on_episode_def same.refl)
  next
    case (Some e)
    obtain x e' where m: "m e = (x, e')" by (cases "m e")
    with assms obtain evs tel evid where
      "e' = e\<lparr>ep_events := evs, ep_telemetry := tel, ep_evidence := evid\<rparr>" "dom (ep_evidence e) \<subseteq> dom evid"
      by (metis logging_def snd_conv)
    moreover from Some m run have "s' = s\<lparr>rt_episodes := (rt_episodes s)(eid' \<mapsto> e')\<rparr>"
      by (simp add: on_episode_def)
    ultimately show ?thesis
      using Some assms(1) by (cases "eid = eid'") (simp_all add: same_on_def blind_def)
  qed
qed

lemma emit_logging: "logging (act_modify (emit a b c d x y))"
  unfolding logging_def act_modify_def
proof
  fix e :: episode
  have "emit a b c d x y e = e\<lparr>ep_events := ep_events (emit a b c d x y e),
      ep_telemetry := ep_telemetry (emit a b c d x y e), ep_evidence := ep_evidence e\<rparr>"
    by (simp add: emit_def Let_def)
  then show "\<exists>evs tel evid. snd (Inr (), emit a b c d x y e) =
      e\<lparr>ep_events := evs, ep_telemetry := tel, ep_evidence := evid\<rparr> \<and> dom (ep_evidence e) \<subseteq> dom evid"
    by (metis snd_conv subset_refl)
qed

lemma telemetry_logging:
  assumes "\<And>e. snd (m e) = e \<or> (\<exists>t. snd (m e) = e\<lparr>ep_telemetry := t\<rparr>)"
  shows "logging m"
  unfolding logging_def
proof
  fix e :: episode
  have "e = e\<lparr>ep_events := ep_events e, ep_telemetry := ep_telemetry e, ep_evidence := ep_evidence e\<rparr>" by simp
  moreover have "e\<lparr>ep_telemetry := t\<rparr> =
      e\<lparr>ep_events := ep_events e, ep_telemetry := t, ep_evidence := ep_evidence e\<rparr>" for t by simp
  ultimately show "\<exists>evs tel evid. snd (m e) =
      e\<lparr>ep_events := evs, ep_telemetry := tel, ep_evidence := evid\<rparr> \<and> dom (ep_evidence e) \<subseteq> dom evid"
    using assms [of e] by (metis subset_refl)
qed

lemma finalize_session_logging: "logging (finalize_session b)"
  by (rule telemetry_logging) (auto simp: finalize_session_def split: option.splits prod.splits)

lemma register_logging: "logging (act_modify (\<lambda>e. e\<lparr>ep_evidence := (ep_evidence e)(i \<mapsto> ev)\<rparr>))"
  unfolding logging_def act_modify_def
proof
  fix e :: episode
  have "e\<lparr>ep_evidence := (ep_evidence e)(i \<mapsto> ev)\<rparr> = e\<lparr>ep_events := ep_events e,
      ep_telemetry := ep_telemetry e, ep_evidence := (ep_evidence e)(i \<mapsto> ev)\<rparr>" by simp
  then show "\<exists>evs tel evid. snd (Inr (), e\<lparr>ep_evidence := (ep_evidence e)(i \<mapsto> ev)\<rparr>) =
      e\<lparr>ep_events := evs, ep_telemetry := tel, ep_evidence := evid\<rparr> \<and> dom (ep_evidence e) \<subseteq> dom evid"
    by (metis snd_conv dom_fun_upd option.distinct(1) subset_insertI)
qed

lemma in_world_same: "evolves (same_on f eid) (in_world m)"
  by (rule evolvesI) (auto simp: in_world_def act_zoom_def intro!: same_episodes split: prod.splits)

lemma in_store_same: "evolves (same_on f eid) (in_store m)"
  by (rule evolvesI) (auto simp: in_store_def act_zoom_def intro!: same_episodes split: prod.splits)

lemma emit_now_same: "blind f \<Longrightarrow> evolves (same_on f eid) (emit_now eid' a b c d x y)"
  unfolding emit_now_def by (intro on_episode_same emit_logging)

lemma emit_timed_same: "blind f \<Longrightarrow> evolves (same_on f eid) (emit_timed eid' a h b c d x y)"
  unfolding emit_timed_def clock_def by (intro same.rules emit_now_same)

lemma register_same: "blind f \<Longrightarrow> evolves (same_on f eid) (register_evidence eid' i ev)"
  unfolding register_evidence_def set_episode_def by (intro on_episode_same register_logging)

lemma trace_headers_same: "blind f \<Longrightarrow> evolves (same_on f eid) (trace_headers eid')"
  unfolding trace_headers_def
  by (intro on_episode_same telemetry_logging) (auto split: option.splits prod.splits)

lemma finalize_telemetry_same: "blind f \<Longrightarrow> evolves (same_on f eid) (finalize_telemetry c eid' b st)"
  unfolding finalize_telemetry_def Let_def
  by (intro same.rules on_episode_same finalize_session_logging in_store_same register_same)

lemmas same_steps = in_world_same in_store_same emit_now_same emit_timed_same register_same
  trace_headers_same finalize_telemetry_same

lemma emit_claims_same: "blind f \<Longrightarrow> evolves (same_on f eid) (emit_claims eid' a h rs)"
  unfolding emit_claims_def by (intro same.each emit_timed_same)

lemma emit_fault_observations_same: "blind f \<Longrightarrow> evolves (same_on f eid) (emit_fault_observations eid' a h obs)"
  unfolding emit_fault_observations_def by (intro same.each emit_timed_same)

lemma publish_oracle_evidence_same: "blind f \<Longrightarrow> evolves (same_on f eid) (publish_oracle_evidence c eid' items)"
  by (induction items) (auto intro!: same.rules same_steps)

lemma act_map_same: "(\<And>x. evolves (same_on f eid) (g x)) \<Longrightarrow> evolves (same_on f eid) (act_map g xs)"
  by (induction xs) (auto intro: same.rules)

lemma execute_oracle_same: "blind f \<Longrightarrow> evolves (same_on f eid) (execute_oracle c eid' uuid a h p)"
  unfolding execute_oracle_def build_oracle_request_def project_snapshot_def
  by (intro same.rules same_steps act_map_same)

lemma subject_observation_same: "blind f \<Longrightarrow> evolves (same_on f eid) (subject_observation eid')"
  unfolding subject_observation_def by (intro same.rules same_steps)

lemma environment_tool_call_same: "blind f \<Longrightarrow> evolves (same_on f eid) (environment_tool_call eid' a h cid nm args)"
proof -
  assume f: "blind f"
  have handler: "evolves (same_on f eid) (case err of
      ToolExecutionError msg observations \<Rightarrow> k msg observations | _ \<Rightarrow> act_raise err)"
    if "\<And>m obs. evolves (same_on f eid) (k m obs)" for err and k :: "string \<Rightarrow> fault_observation list \<Rightarrow> _"
    using that by (cases err) (auto intro: same.rules)
  show ?thesis
    unfolding environment_tool_call_def
    by (intro same.rules same_steps emit_fault_observations_same handler f)
qed

lemma mcp_tool_call_same: "blind f \<Longrightarrow> evolves (same_on f eid) (mcp_tool_call eid' a h g cid nm args)"
proof -
  assume f: "blind f"
  have handler: "evolves (same_on f eid) (case err of McpExn x y \<Rightarrow> k x y | _ \<Rightarrow> act_raise err)"
    if "\<And>x y. evolves (same_on f eid) (k x y)" for err and k :: "mcp_error \<Rightarrow> string \<Rightarrow> _"
    using that by (cases err) (auto intro: same.rules)
  show ?thesis
    unfolding mcp_tool_call_def by (intro same.rules same_steps handler f)
qed

lemma subject_call_tool_same: "blind f \<Longrightarrow> evolves (same_on f eid) (subject_call_tool eid' nm args)"
  unfolding subject_call_tool_def Let_def
  by (intro same.rules environment_tool_call_same mcp_tool_call_same)

lemma run_program_same:
  assumes f: "blind f"
  shows "evolves (same_on f eid) (run_program eid' p)"
proof (induction p)
  case (ObserveCall k)
  then show ?case by (auto intro!: same.continue subject_observation_same f)
next
  case (ToolInvoke nm args k)
  then show ?case by (auto intro!: same.continue subject_call_tool_same f)
next
  case (HeadersCall k)
  then show ?case by (auto intro!: same.continue trace_headers_same f)
qed (simp add: same.of_result)

section \<open>The lifecycle core\<close>

definition core :: "episode \<Rightarrow> string \<times> episode_state \<times> validity \<times> validity_detail option \<times> task_verdict \<times>
    verification_result list \<times> oracle_evaluation_record option" where
  "core e = (ep_id e, ep_state e, ep_validity e, ep_validity_detail e, ep_task_verdict e, ep_verification e,
     ep_oracle_evaluation e)"

lemma blind_core [simp]: "blind core"
  by (simp add: blind_def core_def)

lemma core_sameD:
  assumes "evolves (same_on core eid) m" "m s = (r, t)" "rt_episodes s eid = Some e"
  obtains e' where "rt_episodes t eid = Some e'" "core e' = core e" "dom (ep_evidence e) \<subseteq> dom (ep_evidence e')"
  using assms by (auto simp: same_on_def dest!: evolvesD)

lemma move_to_okD:
  assumes "move_to eid t s = (Inr u, s')" "rt_episodes s eid = Some e" "well_identified e"
  shows "t \<in> set (transitions (ep_state e))"
    and "\<exists>ev e'. frozen_evaluation t e = Inr ev \<and> rt_episodes s' eid = Some e' \<and> ep_id e' = ep_id e \<and> ep_state e' = t \<and>
      ep_validity e' = ep_validity e \<and> ep_validity_detail e' = ep_validity_detail e \<and>
      ep_task_verdict e' = ep_task_verdict e \<and> ep_verification e' = ep_verification e \<and>
      ep_oracle_evaluation e' = ev \<and> ep_evidence e' = ep_evidence e"
proof -
  from assms obtain r e' where run: "transition t None e = (Inr r, e')" "rt_episodes s' eid = Some e'"
    by (auto simp: move_to_def on_episode_def elim!: act_bind_okE split: prod.splits)
  from transition_okD [OF run(1) assms(3)] show "t \<in> set (transitions (ep_state e))" by simp
  from transition_okD(2,3) [OF run(1) assms(3)] run(2) show "\<exists>ev e'. frozen_evaluation t e = Inr ev \<and>
      rt_episodes s' eid = Some e' \<and> ep_id e' = ep_id e \<and> ep_state e' = t \<and> ep_validity e' = ep_validity e \<and>
      ep_validity_detail e' = ep_validity_detail e \<and> ep_task_verdict e' = ep_task_verdict e \<and>
      ep_verification e' = ep_verification e \<and> ep_oracle_evaluation e' = ev \<and> ep_evidence e' = ep_evidence e"
    by auto
qed

lemma set_episode_okD:
  "set_episode eid f s = (Inr u, s') \<Longrightarrow> rt_episodes s eid = Some e \<Longrightarrow> rt_episodes s' eid = Some (f e)"
  by (auto simp: set_episode_def on_episode_def act_modify_def)

lemma core_eqD:
  assumes "core e' = core e"
  shows "ep_id e' = ep_id e" "ep_state e' = ep_state e" "ep_validity e' = ep_validity e"
    "ep_validity_detail e' = ep_validity_detail e" "ep_task_verdict e' = ep_task_verdict e"
    "ep_verification e' = ep_verification e" "ep_oracle_evaluation e' = ep_oracle_evaluation e"
    "well_identified e' = well_identified e"
  using assms by (simp_all add: core_def well_identified_def)

section \<open>Outcomes of verification\<close>

text \<open>An accepted evaluation, and an Episode without a trustworthy one.\<close>

definition accepted_episode :: "episode \<Rightarrow> bool" where
  "accepted_episode e \<longleftrightarrow> ep_state e = COMPLETED \<and> ep_validity e = VALID \<and> ep_validity_detail e = None \<and>
     ep_task_verdict e = verdict_of_results (ep_verification e) \<and> unresolved_evidence_ids e = [] \<and>
     (case ep_oracle_evaluation e of None \<Rightarrow> True
      | Some r \<Rightarrow> er_evaluation_validity r = VALID \<and> er_accepted_results r = ep_verification e \<and>
          er_task_verdict r = ep_task_verdict e)"

definition rejected_episode :: "episode \<Rightarrow> bool" where
  "rejected_episode e \<longleftrightarrow> ep_state e = INVALID \<and> ep_validity e \<noteq> VALID \<and> ep_task_verdict e = INCONCLUSIVE"

definition concluded :: "string \<Rightarrow> ('w, 's) runtime \<Rightarrow> bool" where
  "concluded eid s \<longleftrightarrow> (\<exists>e. rt_episodes s eid = Some e \<and> (accepted_episode e \<or> rejected_episode e))"

lemma unresolved_Nil: "unresolved_evidence_ids e = [] \<longleftrightarrow>
    (\<forall>r \<in> set (ep_verification e). set (vr_evidence_ids r) \<subseteq> dom (ep_evidence e))"
proof -
  have "unresolved_evidence_ids e = [] \<longleftrightarrow>
      set (filter (\<lambda>i. ep_evidence e i = None) (concat (map vr_evidence_ids (ep_verification e)))) = {}"
    unfolding unresolved_evidence_ids_def by (metis set_empty set_remdups set_sort)
  then show ?thesis by (auto simp: filter_empty_conv)
qed

lemma unresolved_mono:
  "unresolved_evidence_ids e = [] \<Longrightarrow> dom (ep_evidence e) \<subseteq> dom (ep_evidence e') \<Longrightarrow>
    ep_verification e' = ep_verification e \<Longrightarrow> unresolved_evidence_ids e' = []"
  unfolding unresolved_Nil by (simp, blast intro: subset_trans)

lemma frozen_valid:
  assumes "frozen_evaluation COMPLETED e = Inr (Some r)" "ep_oracle_evaluation e = None" "ep_validity e = VALID"
  shows "er_evaluation_validity r = VALID" "er_accepted_results r = ep_verification e"
    "er_task_verdict r = verdict_of_results (ep_verification e)"
  using assms
  by (auto simp: frozen_evaluation_def evaluation_candidate_def Let_def dest!: make_evaluation_record_sound
      split: if_splits option.splits sum.splits)

text \<open>The invalidation proper, whatever its events say.\<close>

lemma invalidation_tail:
  fixes f :: "episode \<Rightarrow> episode"
  assumes run: "act_bind (set_episode eid f) (\<lambda>_.
      act_bind (emit_timed eid a h t1 p1 d1 [] []) (\<lambda>_.
      act_bind (move_to eid INVALID) (\<lambda>_.
      act_bind (emit_timed eid a h t2 p2 d2 [] []) (\<lambda>_.
      act_bind (finalize_telemetry c eid False False) (\<lambda>_. act_return ()))))) s = (Inr u, s')"
    and e: "rt_episodes s eid = Some e" "well_identified (f e)"
  shows "\<exists>e'. rt_episodes s' eid = Some e' \<and> ep_state e' = INVALID \<and> ep_validity e' = ep_validity (f e) \<and>
    ep_validity_detail e' = ep_validity_detail (f e) \<and> ep_task_verdict e' = ep_task_verdict (f e)"
proof -
  from run obtain u1 s1 u2 s2 u3 s3 u4 s4 x s5 where set: "set_episode eid f s = (Inr u1, s1)"
    and em: "emit_timed eid a h t1 p1 d1 [] [] s1 = (Inr u2, s2)"
    and mv: "move_to eid INVALID s2 = (Inr u3, s3)"
    and em': "emit_timed eid a h t2 p2 d2 [] [] s3 = (Inr u4, s4)"
    and fin: "finalize_telemetry c eid False False s4 = (Inr x, s5)" and ret: "act_return () s5 = (Inr u :: exn + unit, s')"
    by (elim act_bind_okE) (rule that)
  from ret have "s' = s5" by simp
  note e1 = set_episode_okD [OF set e(1)]
  obtain e2 where e2: "rt_episodes s2 eid = Some e2" "core e2 = core (f e)"
    by (rule core_sameD [OF emit_timed_same [OF blind_core] em e1]) (rule that)
  note c2 = core_eqD [OF e2(2)]
  with e(2) have "well_identified e2" by simp
  from move_to_okD(2) [OF mv e2(1) this] c2 obtain e3 where e3: "rt_episodes s3 eid = Some e3"
    "ep_state e3 = INVALID" "ep_validity e3 = ep_validity (f e)"
    "ep_validity_detail e3 = ep_validity_detail (f e)" "ep_task_verdict e3 = ep_task_verdict (f e)" by auto
  obtain e4 where e4: "rt_episodes s4 eid = Some e4" "core e4 = core e3"
    by (rule core_sameD [OF emit_timed_same [OF blind_core] em' e3(1)]) (rule that)
  obtain e5 where e5: "rt_episodes s5 eid = Some e5" "core e5 = core e4"
    by (rule core_sameD [OF finalize_telemetry_same [OF blind_core] fin e4(1)]) (rule that)
  with \<open>s' = s5\<close> e3 core_eqD [OF e4(2)] core_eqD [OF e5(2)] show ?thesis by auto
qed

lemma invalidate_outcome:
  assumes run: "invalidate_evaluation c eid a h v reason d s = (Inr u, s')"
    and e: "rt_episodes s eid = Some e" "well_identified e"
  shows "\<exists>e'. rt_episodes s' eid = Some e' \<and> rejected_episode e' \<and> ep_validity e' = v \<and> ep_validity_detail e' = d"
proof -
  let ?f = "\<lambda>e :: episode. e\<lparr>ep_validity := v, ep_validity_detail := d, ep_task_verdict := INCONCLUSIVE\<rparr>"
  note tail = invalidation_tail [where f = ?f, OF _ e(1)]
  have v: "v \<noteq> VALID"
    using run unfolding invalidate_evaluation_def by (elim act_bind_okE) simp
  obtain e' where "rt_episodes s' eid = Some e'" "ep_state e' = INVALID" "ep_validity e' = v"
    "ep_validity_detail e' = d" "ep_task_verdict e' = INCONCLUSIVE"
    using run e(2) unfolding invalidate_evaluation_def
    by (elim act_bind_okE [of "act_of _"])
       (simp only: act_of_ok, elim conjE, hypsubst, drule tail, auto simp: well_identified_def)
  with v show ?thesis by (auto simp: rejected_episode_def)
qed

lemma invalidate_concludes:
  assumes "invalidate_evaluation c eid a h v reason d s = (Inr u, s')"
    "rt_episodes s eid = Some e" "well_identified e"
  shows "concluded eid s'"
  using invalidate_outcome [OF assms] by (auto simp: concluded_def)

lemma conclude_outcome:
  assumes run: "conclude_verification c eid a h s = (Inr u, s')"
    and e: "rt_episodes s eid = Some e" "well_identified e" "ep_oracle_evaluation e = None"
      "unresolved_evidence_ids e = []"
  shows "concluded eid s'"
proof -
  let ?accept = "\<lambda>e :: episode. e\<lparr>ep_task_verdict := verdict_of_results (ep_verification e), ep_validity := VALID,
      ep_validity_detail := None\<rparr>"
  from run obtain e0 s0 u1 s1 u2 s2 r s3 where rd: "act_read (episode_of eid) s = (Inr e0, s0)"
    and em: "emit_claims eid a h (ep_verification e0) s0 = (Inr u1, s1)"
    and set: "set_episode eid ?accept s1 = (Inr u2, s2)"
    and fin: "finalize_telemetry c eid True True s2 = (r, s3)"
    and tail: "(case r of
       Inl err \<Rightarrow>
         (if is_artifact_store_error err
          then invalidate_evaluation c eid a h INFRA_CONFOUND ''Telemetry Evidence Artifact publication failed'' None
          else act_raise err)
     | Inr artifact \<Rightarrow>
         (if required_telemetry_missing c artifact
          then invalidate_evaluation c eid a h TRACE_INCOMPLETE ''required telemetry unavailable'' None
          else
            act_bind (move_to eid COMPLETED) (\<lambda>_.
            act_bind (act_read (episode_of eid)) (\<lambda>e'.
            emit_timed eid a h ''episode.completed'' ''orchestrator''
              [(''task_verdict'', JStr (task_verdict_value (ep_task_verdict e'))),
               (''validity'', JStr (validity_value (ep_validity e')))] [] [])))) s3 = (Inr u, s')"
    unfolding conclude_verification_def
    by (elim act_attempt_okE act_bind_okE) (rule that)
  from rd e(1) have "e0 = e" "s0 = s" by (simp_all add: episode_of_def)
  note em = em [unfolded this]
  obtain e1 where e1: "rt_episodes s1 eid = Some e1"
    "core e1 = core e" "dom (ep_evidence e) \<subseteq> dom (ep_evidence e1)"
    by (rule core_sameD [OF emit_claims_same [OF blind_core] em e(1)]) (rule that)
  note e2 = set_episode_okD [OF set e1(1)]
  obtain e3 where e3: "rt_episodes s3 eid = Some e3"
    "core e3 = core (?accept e1)" "dom (ep_evidence e1) \<subseteq> dom (ep_evidence e3)"
    by (rule core_sameD [OF finalize_telemetry_same [OF blind_core] fin e2]) (rule that, auto)
  have core3: "well_identified e3" "ep_validity e3 = VALID" "ep_validity_detail e3 = None"
    "ep_task_verdict e3 = verdict_of_results (ep_verification e3)" "ep_oracle_evaluation e3 = None"
    "ep_verification e3 = ep_verification e"
    using e3(2) e1(2) e(2,3) by (auto simp: core_def well_identified_def)
  have res3: "unresolved_evidence_ids e3 = []"
    using unresolved_mono [OF e(4), of e3] e1(3) e3(3) core3(6) by auto
  show ?thesis
  proof (cases "\<exists>artifact. r = Inr artifact \<and> \<not> required_telemetry_missing c artifact")
    case False
    with tail obtain v reason where "invalidate_evaluation c eid a h v reason None s3 = (Inr u, s')"
      by (cases r) (auto split: if_splits)
    with e3(1) core3(1) show ?thesis by (rule_tac invalidate_concludes)
  next
    case True
    with tail obtain s4 and e4' :: episode where mv: "move_to eid COMPLETED s3 = (Inr (), s4)"
      and em: "emit_timed eid a h ''episode.completed'' ''orchestrator''
              [(''task_verdict'', JStr (task_verdict_value (ep_task_verdict e4'))),
               (''validity'', JStr (validity_value (ep_validity e4')))] [] [] s4 = (Inr u, s')"
      by (auto elim!: act_bind_okE)
    from move_to_okD(2) [OF mv e3(1) core3(1)] obtain ev e4 where
      ev: "frozen_evaluation COMPLETED e3 = Inr ev" and e4: "rt_episodes s4 eid = Some e4" "ep_state e4 = COMPLETED"
        "ep_validity e4 = VALID" "ep_validity_detail e4 = None" "ep_oracle_evaluation e4 = ev"
        "ep_task_verdict e4 = verdict_of_results (ep_verification e4)" "ep_verification e4 = ep_verification e3"
        "ep_evidence e4 = ep_evidence e3"
      using core3 by auto
    obtain e5 where e5: "rt_episodes s' eid = Some e5" "core e5 = core e4"
      "dom (ep_evidence e4) \<subseteq> dom (ep_evidence e5)"
      by (rule core_sameD [OF emit_timed_same [OF blind_core] em e4(1)]) (rule that)
    have "unresolved_evidence_ids e5 = []"
      using unresolved_mono [OF res3, of e5] e5(2,3) e4(7,8) by (simp add: core_def)
    moreover have "case ev of None \<Rightarrow> True | Some r \<Rightarrow> er_evaluation_validity r = VALID \<and>
        er_accepted_results r = ep_verification e3 \<and> er_task_verdict r = ep_task_verdict e3"
      using frozen_valid [of e3] ev core3 by (auto split: option.splits)
    ultimately have "accepted_episode e5"
      using e4 e5(2) core3 by (auto simp: accepted_episode_def core_def cong: option.case_cong)
    with e5(1) show ?thesis by (auto simp: concluded_def)
  qed
qed

lemma accept_results_outcome:
  assumes run: "accept_results c eid a h x evid s = (Inr u, s')"
    and e: "rt_episodes s eid = Some e" "well_identified e" "ep_oracle_evaluation e = None"
  shows "concluded eid s'"
proof -
  from run obtain p s1 where pub: "publish_oracle_evidence c eid (xr_evidence x) s = (Inr p, s1)"
    and tail: "(case p of
       Some (v, detail, reason) \<Rightarrow> invalidate_evaluation c eid a h v reason detail
     | None \<Rightarrow>
        act_bind (set_episode eid (\<lambda>e. e\<lparr>ep_verification :=
          map (bind_execution_evidence evid) (xr_results x)\<rparr>)) (\<lambda>_.
        act_bind (act_read (episode_of eid)) (\<lambda>e.
        if unresolved_evidence_ids e \<noteq> []
        then invalidate_evaluation c eid a h ORACLE_FAILURE
               ''Oracle result references Evidence absent from the Episode registry''
               (Some (failure_detail ''ORACLE_PROTOCOL_ERROR''))
        else conclude_verification c eid a h))) s1 = (Inr u, s')"
    unfolding accept_results_def by (elim act_bind_okE) (rule that)
  obtain e1 where e1: "rt_episodes s1 eid = Some e1" "core e1 = core e"
    by (rule core_sameD [OF publish_oracle_evidence_same [OF blind_core] pub e(1)]) (rule that)
  note c1 = core_eqD [OF e1(2)]
  show ?thesis
  proof (cases p)
    case (Some problem)
    then obtain v d reason where "p = Some (v, d, reason)" by (cases problem) auto
    with tail have "invalidate_evaluation c eid a h v reason d s1 = (Inr u, s')" by simp
    from invalidate_concludes [OF this e1(1)] e(2) c1(8) show ?thesis by simp
  next
    case None
    let ?f = "\<lambda>e :: episode. e\<lparr>ep_verification := map (bind_execution_evidence evid) (xr_results x)\<rparr>"
    from tail None have "act_bind (set_episode eid ?f) (\<lambda>_.
        act_bind (act_read (episode_of eid)) (\<lambda>e.
        if unresolved_evidence_ids e \<noteq> []
        then invalidate_evaluation c eid a h ORACLE_FAILURE
               ''Oracle result references Evidence absent from the Episode registry''
               (Some (failure_detail ''ORACLE_PROTOCOL_ERROR''))
        else conclude_verification c eid a h)) s1 = (Inr u, s')" by (simp only: option.case)
    then obtain u2 s2 e2 s3 where set: "set_episode eid ?f s1 = (Inr u2, s2)"
      and rd: "act_read (episode_of eid) s2 = (Inr e2, s3)"
      and fin: "(if unresolved_evidence_ids e2 \<noteq> []
        then invalidate_evaluation c eid a h ORACLE_FAILURE
               ''Oracle result references Evidence absent from the Episode registry''
               (Some (failure_detail ''ORACLE_PROTOCOL_ERROR''))
        else conclude_verification c eid a h) s3 = (Inr u, s')"
      by (elim act_bind_okE) (rule that)
    note s2 = set_episode_okD [OF set e1(1)]
    with rd have e2: "e2 = ?f e1" "rt_episodes s3 eid = Some e2" by (simp_all add: episode_of_def)
    then have wf: "well_identified e2" "ep_oracle_evaluation e2 = None"
      using c1 e by (simp_all add: well_identified_def)
    show ?thesis
    proof (cases "unresolved_evidence_ids e2 = []")
      case True
      with fin have "conclude_verification c eid a h s3 = (Inr u, s')" by simp
      from conclude_outcome [OF this e2(2) wf True] show ?thesis .
    next
      case False
      with fin have "invalidate_evaluation c eid a h ORACLE_FAILURE
          ''Oracle result references Evidence absent from the Episode registry''
          (Some (failure_detail ''ORACLE_PROTOCOL_ERROR'')) s3 = (Inr u, s')" by (simp only: if_True not_False_eq_True)
      from invalidate_concludes [OF this e2(2) wf(1)] show ?thesis .
    qed
  qed
qed

text \<open>One event between two steps does not matter to the lifecycle core.\<close>

lemma emitted_then:
  assumes run: "act_bind (emit_timed eid' a h t p d x y) (\<lambda>_. m) s = (Inr u, s')"
    and e: "rt_episodes s eid = Some e"
  obtains e1 s1 where "rt_episodes s1 eid = Some e1" "core e1 = core e" "m s1 = (Inr u, s')"
proof -
  from run obtain v s1 where em: "emit_timed eid' a h t p d x y s = (Inr v, s1)" and m: "m s1 = (Inr u, s')"
    by (rule act_bind_okE)
  obtain e1 where "rt_episodes s1 eid = Some e1" "core e1 = core e"
    by (rule core_sameD [OF emit_timed_same [OF blind_core] em e]) (rule that)
  then show thesis using m by (rule that)
qed

lemma accept_execution_outcome:
  assumes run: "accept_execution c eid a h x ev s = (Inr u, s')"
    and e: "rt_episodes s eid = Some e" "well_identified e" "ep_oracle_evaluation e = None"
  shows "concluded eid s'"
proof -
  let ?tail = "if xr_status x \<noteq> SUCCESS
     then
       act_bind (act_of (oracle_failure_detail (xr_status x))) (\<lambda>detail.
       invalidate_evaluation c eid a h ORACLE_FAILURE
         (''Oracle execution ended with status '' @ execution_status_value (xr_status x)) (Some detail))
     else accept_results c eid a h x (evd_id ev)"
  from run obtain u1 s1 where reg: "register_evidence eid (evd_id ev) ev s = (Inr u1, s1)"
    and rest: "act_bind (emit_timed eid a h
       (if xr_status x = SUCCESS then ''oracle.execution.completed'' else ''oracle.execution.failed'') ''evaluator''
       [(''request_id'', JStr (xr_request_id x)), (''status'', JStr (execution_status_value (xr_status x))),
        (''duration_ms'', JInt (xa_duration_ms (xr_artifact x))), (''exit_code'', opt_int (xa_exit_code (xr_artifact x))),
        (''artifact_digest'', JStr (ref_digest (evd_artifact ev)))] [] [evd_id ev]) (\<lambda>_. ?tail) s1 = (Inr u, s')"
    unfolding accept_execution_def by (rule act_bind_okE)
  obtain e1 where e1: "rt_episodes s1 eid = Some e1" "core e1 = core e"
    by (rule core_sameD [OF register_same [OF blind_core] reg e(1)]) (rule that)
  obtain e2 s2 where e2: "rt_episodes s2 eid = Some e2" "core e2 = core e1" and tail: "?tail s2 = (Inr u, s')"
    by (rule emitted_then [OF rest e1(1)])
  have wf: "well_identified e2" "ep_oracle_evaluation e2 = None"
    using core_eqD [OF e1(2)] core_eqD [OF e2(2)] e by simp_all
  show ?thesis
  proof (cases "xr_status x = SUCCESS")
    case True
    with tail have "accept_results c eid a h x (evd_id ev) s2 = (Inr u, s')" by (simp only: simp_thms if_False)
    from accept_results_outcome [OF this e2(1) wf] show ?thesis .
  next
    case False
    with tail have "act_bind (act_of (oracle_failure_detail (xr_status x))) (\<lambda>detail.
       invalidate_evaluation c eid a h ORACLE_FAILURE
         (''Oracle execution ended with status '' @ execution_status_value (xr_status x)) (Some detail)) s2 = (Inr u, s')"
      by (simp only: simp_thms if_True)
    then obtain detail where "invalidate_evaluation c eid a h ORACLE_FAILURE
         (''Oracle execution ended with status '' @ execution_status_value (xr_status x)) (Some detail) s2 = (Inr u, s')"
      by (elim act_bind_okE) (simp only: act_of_ok)
    from invalidate_concludes [OF this e2(1) wf(1)] show ?thesis .
  qed
qed

lemma bound_okD:
  "bound eid s = Inr (e, a, h, sa, sh) \<Longrightarrow> rt_episodes s eid = Some e"
  by (auto simp: bound_def episode_adapters_def split: option.splits)

lemma quiescing_unevaluated:
  "episode_ok e \<Longrightarrow> ep_state e \<notin> {COMPLETED, INVALID} \<Longrightarrow> ep_oracle_evaluation e = None"
  by (auto simp: episode_ok_def acceptance_recorded_def split: option.splits)

lemma verify_concludes:
  assumes ok: "runtime_ok s" and run: "verify c eid uuid s = (Inr u, s')"
  shows "concluded eid s'"
proof -
  from run obtain e a h sa sh where b: "bound eid s = Inr (e, a, h, sa, sh)" and q: "ep_state e = QUIESCING"
    and rest: "act_bind (move_to eid VERIFYING) (\<lambda>_.
       act_bind (act_read (\<lambda>s. case rt_packages s eid of
         None \<Rightarrow> Inl (KeyError (py_repr_str eid)) | Some p \<Rightarrow> Inr p)) (\<lambda>package.
       act_bind (emit_timed eid a h ''episode.verification.started'' ''evaluator''
         [(''oracle_id'', JStr (pk_oracle_id package)), (''oracle_version'', JStr (pk_version package)),
          (''oracle_package_digest'', JStr (package_identity_digest package)),
          (''oracle_runner_config_digest'', JStr (runner_identity_digest (or_describe (rc_runner c))))] [] []) (\<lambda>_.
       act_bind (act_attempt (execute_oracle c eid uuid a h package)) (\<lambda>executed.
       case executed of
         Inl err \<Rightarrow>
           invalidate_evaluation c eid a h ORACLE_FAILURE (fst (oracle_rejection err)) (Some (snd (oracle_rejection err)))
       | Inr x \<Rightarrow>
           act_bind (act_attempt (publish_execution_evidence c eid x)) (\<lambda>published.
           case published of
             Inl err \<Rightarrow>
               (if publication_error err
                then invalidate_evaluation c eid a h INFRA_CONFOUND ''Oracle execution Artifact publication failed'' None
                else act_raise err)
           | Inr ev \<Rightarrow> accept_execution c eid a h x ev))))) s = (Inr u, s')"
    unfolding verify_def by (elim act_bind_okE) (auto split: if_splits prod.splits)
  note e = bound_okD [OF b]
  from ok e have wf: "well_identified e" "ep_oracle_evaluation e = None"
    using q by (auto simp: runtime_ok_def episode_ok_def intro: quiescing_unevaluated [unfolded episode_ok_def])
  from rest obtain u1 s1 package s2 where mv: "move_to eid VERIFYING s = (Inr u1, s1)"
    and pk: "act_read (\<lambda>s. case rt_packages s eid of
         None \<Rightarrow> Inl (KeyError (py_repr_str eid)) | Some p \<Rightarrow> Inr p) s1 = (Inr package, s2)"
    and rest: "act_bind (emit_timed eid a h ''episode.verification.started'' ''evaluator''
         [(''oracle_id'', JStr (pk_oracle_id package)), (''oracle_version'', JStr (pk_version package)),
          (''oracle_package_digest'', JStr (package_identity_digest package)),
          (''oracle_runner_config_digest'', JStr (runner_identity_digest (or_describe (rc_runner c))))] [] []) (\<lambda>_.
       act_bind (act_attempt (execute_oracle c eid uuid a h package)) (\<lambda>executed.
       case executed of
         Inl err \<Rightarrow>
           invalidate_evaluation c eid a h ORACLE_FAILURE (fst (oracle_rejection err)) (Some (snd (oracle_rejection err)))
       | Inr x \<Rightarrow>
           act_bind (act_attempt (publish_execution_evidence c eid x)) (\<lambda>published.
           case published of
             Inl err \<Rightarrow>
               (if publication_error err
                then invalidate_evaluation c eid a h INFRA_CONFOUND ''Oracle execution Artifact publication failed'' None
                else act_raise err)
           | Inr ev \<Rightarrow> accept_execution c eid a h x ev))) s2 = (Inr u, s')"
    by (rule act_bind_okE, elim act_bind_okE [of "act_read _"]) (rule that)
  have s12: "s2 = s1" using pk by simp
  have "frozen_evaluation VERIFYING e = Inr None" using wf by (simp add: frozen_evaluation_def)
  with move_to_okD(2) [OF mv e wf(1)] wf(1) obtain e1 where e1: "rt_episodes s2 eid = Some e1" "well_identified e1"
    "ep_oracle_evaluation e1 = None" unfolding s12 by (auto simp: well_identified_def)
  obtain e2 s3 where e2: "rt_episodes s3 eid = Some e2" "core e2 = core e1"
    and rest: "act_bind (act_attempt (execute_oracle c eid uuid a h package)) (\<lambda>executed.
       case executed of
         Inl err \<Rightarrow>
           invalidate_evaluation c eid a h ORACLE_FAILURE (fst (oracle_rejection err)) (Some (snd (oracle_rejection err)))
       | Inr x \<Rightarrow>
           act_bind (act_attempt (publish_execution_evidence c eid x)) (\<lambda>published.
           case published of
             Inl err \<Rightarrow>
               (if publication_error err
                then invalidate_evaluation c eid a h INFRA_CONFOUND ''Oracle execution Artifact publication failed'' None
                else act_raise err)
           | Inr ev \<Rightarrow> accept_execution c eid a h x ev)) s3 = (Inr u, s')"
    by (rule emitted_then [OF rest e1(1)])
  from rest obtain r s4 where ex: "execute_oracle c eid uuid a h package s3 = (r, s4)"
    and rest: "(case r of
         Inl err \<Rightarrow>
           invalidate_evaluation c eid a h ORACLE_FAILURE (fst (oracle_rejection err)) (Some (snd (oracle_rejection err)))
       | Inr x \<Rightarrow>
           act_bind (act_attempt (publish_execution_evidence c eid x)) (\<lambda>published.
           case published of
             Inl err \<Rightarrow>
               (if publication_error err
                then invalidate_evaluation c eid a h INFRA_CONFOUND ''Oracle execution Artifact publication failed'' None
                else act_raise err)
           | Inr ev \<Rightarrow> accept_execution c eid a h x ev)) s4 = (Inr u, s')"
    by (rule act_attempt_okE)
  obtain e4 where e4: "rt_episodes s4 eid = Some e4" "core e4 = core e2"
    by (rule core_sameD [OF execute_oracle_same [OF blind_core] ex e2(1)]) (rule that)
  have wf4: "well_identified e4" "ep_oracle_evaluation e4 = None"
    using core_eqD [OF e2(2)] core_eqD [OF e4(2)] e1 by simp_all
  show ?thesis
  proof (cases r)
    case (Inl err)
    with rest have "invalidate_evaluation c eid a h ORACLE_FAILURE (fst (oracle_rejection err))
        (Some (snd (oracle_rejection err))) s4 = (Inr u, s')" by (simp only: sum.case)
    from invalidate_concludes [OF this e4(1) wf4(1)] show ?thesis .
  next
    case (Inr x)
    with rest obtain p s5 where pb: "publish_execution_evidence c eid x s4 = (p, s5)"
      and tail: "(case p of
             Inl err \<Rightarrow>
               (if publication_error err
                then invalidate_evaluation c eid a h INFRA_CONFOUND ''Oracle execution Artifact publication failed'' None
                else act_raise err)
           | Inr ev \<Rightarrow> accept_execution c eid a h x ev) s5 = (Inr u, s')"
      by (simp only: sum.case) (rule act_attempt_okE)
    obtain e5 where e5: "rt_episodes s5 eid = Some e5" "core e5 = core e4"
      by (rule core_sameD [OF in_store_same pb [unfolded publish_execution_evidence_def] e4(1)]) (rule that)
    have wf5: "well_identified e5" "ep_oracle_evaluation e5 = None"
      using core_eqD [OF e5(2)] wf4 by simp_all
    show ?thesis
    proof (cases p)
      case (Inl err)
      with tail have "invalidate_evaluation c eid a h INFRA_CONFOUND ''Oracle execution Artifact publication failed''
          None s5 = (Inr u, s')" by (simp split: if_splits)
      from invalidate_concludes [OF this e5(1) wf5(1)] show ?thesis .
    next
      case (Inr ev)
      with tail have "accept_execution c eid a h x ev s5 = (Inr u, s')" by (simp only: sum.case)
      from accept_execution_outcome [OF this e5(1) wf5] show ?thesis .
    qed
  qed
qed

end
