(* ===== verification/AVP_SubjectFacts.thy ===== *)
theory AVP_SubjectFacts
  imports AVP_VerifyFacts
begin

text \<open>
  What a Subject can and cannot do: the outcome of \<open>run_subject\<close> and of \<open>provision\<close>, and the gates that
  leave a retained \<open>SubjectSession\<close> powerless once its Episode has left RUNNING.
\<close>

section \<open>Gates\<close>

lemma bound_result:
  "rt_episodes s eid = Some e \<Longrightarrow>
    (\<exists>err. bound eid s = Inl err) \<or> (\<exists>a h sa sh. bound eid s = Inr (e, a, h, sa, sh))"
  by (auto simp: bound_def episode_adapters_def res_bind_def split: option.splits)

lemma gate_closed:
  assumes "rt_episodes s eid = Some e"
    and "\<And>a h sa sh. m (e, a, h, sa, sh) = act_raise x"
  shows "\<exists>err. act_bind (act_read (bound eid)) m s = (Inl err, s)"
  using bound_result [OF assms(1)] assms(2) by (auto simp: act_bind_def act_read_def act_raise_def)

lemma subject_call_tool_closed:
  assumes "rt_episodes s eid = Some e" "ep_state e \<noteq> RUNNING"
  shows "\<exists>err. subject_call_tool eid nm args s = (Inl err, s)"
  unfolding subject_call_tool_def by (rule gate_closed [OF assms(1)]) (simp add: assms(2))

lemma subject_observation_closed:
  assumes "rt_episodes s eid = Some e" "ep_state e \<noteq> RUNNING"
  shows "\<exists>err. subject_observation eid s = (Inl err, s)"
  unfolding subject_observation_def by (rule gate_closed [OF assms(1)]) (simp add: assms(2))

text \<open>The one thing that still answers is the trace context of the telemetry session.\<close>

definition only_telemetry :: "string \<Rightarrow> ('w, 's) runtime \<Rightarrow> ('w, 's) runtime \<Rightarrow> bool" where
  "only_telemetry eid s t \<longleftrightarrow> t = s \<or> (\<exists>e tel. rt_episodes s eid = Some e \<and>
     t = s\<lparr>rt_episodes := (rt_episodes s)(eid \<mapsto> e\<lparr>ep_telemetry := tel\<rparr>)\<rparr>)"

lemma only_telemetry_state:
  "only_telemetry eid s t \<Longrightarrow> rt_episodes s eid = Some e \<Longrightarrow>
    \<exists>e'. rt_episodes t eid = Some e' \<and> ep_state e' = ep_state e"
  by (auto simp: only_telemetry_def)

lemma only_telemetry_trans:
  "only_telemetry eid s t \<Longrightarrow> only_telemetry eid t u \<Longrightarrow> only_telemetry eid s u"
  by (auto simp: only_telemetry_def) blast

lemma trace_headers_telemetry: "trace_headers eid s = (r, t) \<Longrightarrow> only_telemetry eid s t"
  by (auto simp: trace_headers_def on_episode_def only_telemetry_def fun_upd_idem split: option.splits prod.splits)

text \<open>A Subject that kept its session: whatever it runs, outside RUNNING the runtime is untouched.\<close>

lemma run_program_closed:
  assumes "rt_episodes s eid = Some e" "ep_state e \<noteq> RUNNING" "run_program eid p s = (r, t)"
  shows "only_telemetry eid s t"
  using assms
proof (induction p arbitrary: s e)
  case (Finish r')
  then show ?case by (simp add: only_telemetry_def act_of_def)
next
  case (ObserveCall k)
  from subject_observation_closed [OF ObserveCall.prems(1,2)] obtain err where
    "subject_observation eid s = (Inl err, s)" by blast
  with ObserveCall.prems(3) have "run_program eid (k (Inl err)) s = (r, t)" by simp
  from ObserveCall.IH [OF rangeI ObserveCall.prems(1,2) this] show ?case .
next
  case (ToolInvoke nm args k)
  from subject_call_tool_closed [OF ToolInvoke.prems(1,2)] obtain err where
    "subject_call_tool eid nm args s = (Inl err, s)" by blast
  with ToolInvoke.prems(3) have "run_program eid (k (Inl err)) s = (r, t)" by simp
  from ToolInvoke.IH [OF rangeI ToolInvoke.prems(1,2) this] show ?case .
next
  case (HeadersCall k)
  obtain x s1 where hd: "trace_headers eid s = (x, s1)" by (cases "trace_headers eid s")
  note first = trace_headers_telemetry [OF hd]
  obtain e1 where e1: "rt_episodes s1 eid = Some e1" "ep_state e1 \<noteq> RUNNING"
    using only_telemetry_state [OF first HeadersCall.prems(1)] HeadersCall.prems(2) by auto
  from HeadersCall.prems(3) hd have "run_program eid (k x) s1 = (r, t)" by simp
  from only_telemetry_trans [OF first HeadersCall.IH [OF rangeI e1 this]] show ?case .
qed

section \<open>Running the Subject\<close>

lemma set_core_same:
  assumes "\<And>e. core (f e) = core e \<and> ep_evidence (f e) = ep_evidence e"
  shows "evolves (same_on core eid) (set_episode eid' f)"
proof (rule evolvesI)
  fix s r s' assume "set_episode eid' f s = (r, s')"
  then show "same_on core eid s s'"
    using assms by (auto simp: set_episode_def on_episode_def act_modify_def same_on_def split: option.splits)
qed

lemma invoke_subject_same: "evolves (same_on core eid) (invoke_subject eid' a h sa sh i)"
  unfolding invoke_subject_def
  by (intro same.rules same_steps run_program_same set_core_same blind_core) (simp add: core_def)

lemma move_core:
  assumes "move_to eid t s = (Inr u, s')" "rt_episodes s eid = Some e" "well_identified e"
    "ep_oracle_evaluation e = None" "t \<notin> {COMPLETED, INVALID}"
  obtains e' where "rt_episodes s' eid = Some e'" "ep_state e' = t"
    "core (e'\<lparr>ep_state := ep_state e\<rparr>) = core e"
  using move_to_okD(2) [OF assms(1-3)] frozen_evaluation_plain [OF assms(5), of e] assms(4)
  by (auto simp: core_def intro: that)

lemma subject_failed_outcome:
  assumes run: "subject_failed c eid a h err s = (Inr report, s')"
    and e: "rt_episodes s eid = Some e" "well_identified e" "ep_oracle_evaluation e = None"
  obtains e' where "rt_episodes s' eid = Some e'" "ep_state e' = INFRA_FAILED" "ep_validity e' = INFRA_CONFOUND"
    "ep_task_verdict e' = ep_task_verdict e" "ep_verification e' = ep_verification e"
    "ep_oracle_evaluation e' = None"
proof -
  let ?f = "\<lambda>e :: episode. e\<lparr>ep_agent_report := Some report, ep_validity := INFRA_CONFOUND, ep_validity_detail := None\<rparr>"
  have report: "report = ''subject infrastructure error: '' @ exn_name err @ '': '' @ exn_text err"
    using run unfolding subject_failed_def Let_def by (elim act_bind_okE) simp
  from run obtain u1 s1 u2 s2 u3 s3 u4 s4 where set: "set_episode eid ?f s = (Inr u1, s1)"
    and em: "emit_timed eid a h ''agent.invocation.completed'' ''agent''
        [(''status'', JStr ''infra_error''), (''error_type'', JStr (exn_name err)),
         (''error'', JStr (exn_text err))] [] [] s1 = (Inr u2, s2)"
    and mv: "move_to eid INFRA_FAILED s2 = (Inr u3, s3)"
    and fin: "finalize_telemetry c eid False False s3 = (Inr u4, s4)"
    and ret: "act_return report s4 = (Inr report :: exn + string, s')"
    unfolding subject_failed_def Let_def report [symmetric] by (elim act_bind_okE) (rule that)
  note e1 = set_episode_okD [OF set e(1)]
  obtain e2 where e2: "rt_episodes s2 eid = Some e2" "core e2 = core (?f e)"
    by (rule core_sameD [OF emit_timed_same [OF blind_core] em e1]) (rule that)
  note c2 = core_eqD [OF e2(2)]
  have wf2: "well_identified e2" "ep_oracle_evaluation e2 = None"
    using c2 e by (simp_all add: well_identified_def)
  obtain e3 where e3: "rt_episodes s3 eid = Some e3" "ep_state e3 = INFRA_FAILED"
    "core (e3\<lparr>ep_state := ep_state e2\<rparr>) = core e2"
    by (rule move_core [OF mv e2(1) wf2]) (simp, rule that)
  obtain e4 where e4: "rt_episodes s4 eid = Some e4" "core e4 = core e3"
    by (rule core_sameD [OF finalize_telemetry_same [OF blind_core] fin e3(1)]) (rule that)
  from ret have "s' = s4" by simp
  with e4(1) show thesis
    using core_eqD [OF e4(2)] core_eqD [OF e3(3)] e3(2) c2 wf2(2) by (intro that) simp_all
qed

text \<open>\<open>run_subject\<close> that returned: the Subject finished and the Episode is quiescing, or it failed and the
  Episode is an infrastructure failure. Either way no verdict has been formed.\<close>

lemma run_subject_outcome:
  assumes ok: "runtime_ok s" and run: "run_subject c eid s = (Inr report, s')"
  shows "\<exists>e e'. rt_episodes s eid = Some e \<and> ep_state e = READY \<and> rt_episodes s' eid = Some e' \<and>
    ep_task_verdict e' = ep_task_verdict e \<and> ep_verification e' = ep_verification e \<and>
    ep_oracle_evaluation e' = None \<and>
    (ep_state e' = QUIESCING \<and> ep_validity e' = ep_validity e \<or>
     ep_state e' = INFRA_FAILED \<and> ep_validity e' = INFRA_CONFOUND)"
proof -
  from run obtain e a h sa sh where b: "bound eid s = Inr (e, a, h, sa, sh)" and q: "ep_state e = READY"
    and rest: "act_bind (move_to eid RUNNING) (\<lambda>_.
       act_bind (emit_timed eid a h ''episode.started'' ''orchestrator'' [] [] []) (\<lambda>_.
       act_bind (act_of (build_invocation e)) (\<lambda>invocation.
       act_bind (act_attempt (invoke_subject eid a h sa sh invocation)) (\<lambda>outcome.
       case outcome of
         Inl err \<Rightarrow> (case err of SubjectExn _ _ \<Rightarrow> subject_failed c eid a h err | _ \<Rightarrow> act_raise err)
       | Inr _ \<Rightarrow>
          act_bind (act_read (episode_of eid)) (\<lambda>e'.
          act_bind (emit_timed eid a h ''agent.stop'' ''agent'' [(''report'', opt_str (ep_agent_report e'))] [] []) (\<lambda>_.
          act_bind (move_to eid QUIESCING) (\<lambda>_.
          act_return (case ep_agent_report e' of None \<Rightarrow> [] | Some r \<Rightarrow> r)))))))) s = (Inr report, s')"
    unfolding run_subject_def by (elim act_bind_okE) (auto split: if_splits prod.splits)
  note e = bound_okD [OF b]
  from ok e have wf: "well_identified e" "ep_oracle_evaluation e = None"
    using q by (auto simp: runtime_ok_def episode_ok_def intro: quiescing_unevaluated [unfolded episode_ok_def])
  from rest obtain u1 s1 u2 s2 i s3 r s4 where mv: "move_to eid RUNNING s = (Inr u1, s1)"
    and em: "emit_timed eid a h ''episode.started'' ''orchestrator'' [] [] [] s1 = (Inr u2, s2)"
    and bi: "act_of (build_invocation e) s2 = (Inr i, s3)"
    and inv: "invoke_subject eid a h sa sh i s3 = (r, s4)"
    and tail: "(case r of
         Inl err \<Rightarrow> (case err of SubjectExn _ _ \<Rightarrow> subject_failed c eid a h err | _ \<Rightarrow> act_raise err)
       | Inr _ \<Rightarrow>
          act_bind (act_read (episode_of eid)) (\<lambda>e'.
          act_bind (emit_timed eid a h ''agent.stop'' ''agent'' [(''report'', opt_str (ep_agent_report e'))] [] []) (\<lambda>_.
          act_bind (move_to eid QUIESCING) (\<lambda>_.
          act_return (case ep_agent_report e' of None \<Rightarrow> [] | Some r \<Rightarrow> r))))) s4 = (Inr report, s')"
    by (elim act_attempt_okE act_bind_okE) (rule that)
  have s3: "s3 = s2" using bi by (simp only: act_of_ok)
  obtain e1 where e1: "rt_episodes s1 eid = Some e1" "ep_state e1 = RUNNING"
    "core (e1\<lparr>ep_state := ep_state e\<rparr>) = core e"
    by (rule move_core [OF mv e wf]) (simp, rule that)
  obtain e2 where e2: "rt_episodes s2 eid = Some e2" "core e2 = core e1"
    by (rule core_sameD [OF emit_timed_same [OF blind_core] em e1(1)]) (rule that)
  obtain e4 where e4: "rt_episodes s4 eid = Some e4" "core e4 = core e2"
    by (rule core_sameD [OF invoke_subject_same inv [unfolded s3] e2(1)]) (rule that)
  have wf4: "well_identified e4" "ep_oracle_evaluation e4 = None" "ep_task_verdict e4 = ep_task_verdict e"
    "ep_verification e4 = ep_verification e" "ep_validity e4 = ep_validity e"
    using core_eqD [OF e4(2)] core_eqD [OF e2(2)] core_eqD [OF e1(3)] wf by (simp_all add: well_identified_def)
  show ?thesis
  proof (cases r)
    case (Inl err)
    with tail have "subject_failed c eid a h err s4 = (Inr report, s')"
      by (cases err) (simp_all only: sum.case exn.case act_raise_ok simp_thms)
    then obtain e' where "rt_episodes s' eid = Some e'" "ep_state e' = INFRA_FAILED" "ep_validity e' = INFRA_CONFOUND"
      "ep_task_verdict e' = ep_task_verdict e4" "ep_verification e' = ep_verification e4"
      "ep_oracle_evaluation e' = None"
      by (rule subject_failed_outcome [OF _ e4(1) wf4(1,2)])
    with e q wf4 show ?thesis by (intro exI [of _ e] exI [of _ e']) simp
  next
    case (Inr u)
    with tail obtain e5 s5 u6 s6 u7 s7 where rd: "act_read (episode_of eid) s4 = (Inr e5, s5)"
      and em: "emit_timed eid a h ''agent.stop'' ''agent'' [(''report'', opt_str (ep_agent_report e5))] [] [] s5 = (Inr u6, s6)"
      and mv: "move_to eid QUIESCING s6 = (Inr u7, s7)"
      and ret: "act_return (case ep_agent_report e5 of None \<Rightarrow> [] | Some r \<Rightarrow> r) s7 = (Inr report :: exn + string, s')"
      by (simp only: sum.case) (elim act_bind_okE, rule that)
    from rd have s5: "s5 = s4" by simp
    obtain e6 where e6: "rt_episodes s6 eid = Some e6" "core e6 = core e4"
      by (rule core_sameD [OF emit_timed_same [OF blind_core] em [unfolded s5] e4(1)]) (rule that)
    have wf6: "well_identified e6" "ep_oracle_evaluation e6 = None"
      using core_eqD [OF e6(2)] wf4 by simp_all
    obtain e7 where e7: "rt_episodes s7 eid = Some e7" "ep_state e7 = QUIESCING"
      "core (e7\<lparr>ep_state := ep_state e6\<rparr>) = core e6"
      by (rule move_core [OF mv e6(1) wf6]) (simp, rule that)
    from ret have "s' = s7" by simp
    with e7(1) have "rt_episodes s' eid = Some e7" by simp
    moreover have "ep_task_verdict e7 = ep_task_verdict e" "ep_verification e7 = ep_verification e"
      "ep_oracle_evaluation e7 = None" "ep_validity e7 = ep_validity e"
      using core_eqD [OF e7(3)] core_eqD [OF e6(2)] wf4 by simp_all
    ultimately show ?thesis using e q e7(2) by (intro exI [of _ e] exI [of _ e7]) simp
  qed
qed

end
