(* ===== verification/AVP_Reference.thy ===== *)
theory AVP_Reference
  imports AVP_Environment AVP_SubjectFacts
begin

text \<open>
  The reference configuration: the runtime over the commerce adapter and the in-memory Artifact store, and
  one small Episode run through it. The run supplies the concrete runtimes at which the runtime's
  properties are exercised.
\<close>

section \<open>The commerce adapter behind the environment interface\<close>

definition commerce_env :: "string \<Rightarrow> commerce_adapter env_adapter" where
  "commerce_env uuid = \<lparr>ea_describe = commerce_description, ea_provision = commerce_provision uuid,
     ea_reset = commerce_reset, ea_release = commerce_release, ea_logical_time = commerce_logical_time,
     ea_observe = (\<lambda>h actor. act_read (commerce_observe h actor)), ea_execute = commerce_execute,
     ea_project = (\<lambda>h pid. act_read (commerce_project h pid)),
     ea_snapshot = commerce_snapshot, ea_restore = commerce_restore,
     ea_inject_fault = commerce_inject_fault uuid\<rparr>"

section \<open>A small Episode\<close>

definition demo_uuid :: string where
  "demo_uuid = ''0123456789abcdef''"

definition demo_scenario :: scenario_instance where
  "demo_scenario = \<lparr>sc_template_digest = ''t'', sc_instance_digest = ''i'', sc_document = JObj
     [(''apiVersion'', JStr ''v1''), (''kind'', JStr ''ScenarioInstance''),
      (''environment'', JObj [(''ref'', JStr supported_ref)]),
      (''actors'', JList [JObj [(''id'', JStr ''subject'')]]),
      (''subject'', JObj [(''task'', JObj [(''goal'', JStr ''refund'')])])]\<rparr>"

definition demo_agent :: agent_system where
  "demo_agent = \<lparr>ag_name = ''agent'', ag_version = ''1'', ag_adapter = ''x'', ag_config_digest = ''c'',
     ag_model_ref = None, ag_prompt_digest = None, ag_toolset_digest = None, ag_memory_digest = None,
     ag_policy_digest = None, ag_metadata = JObj []\<rparr>"

definition demo_handle :: subject_handle where
  "demo_handle = \<lparr>sh_handle_id = ''sub_1'', sh_adapter_name = ''s'', sh_adapter_version = ''1'',
     sh_agent_system_digest = ''a''\<rparr>"

definition demo_program :: subject_program where
  "demo_program = ObserveCall (\<lambda>_. Finish (Inr \<lparr>sr_status = SUBJECT_COMPLETED, sr_report = Some ''done'', sr_steps = 1,
     sr_metadata = JObj []\<rparr>))"

definition demo_subject :: "'w subj_adapter" where
  "demo_subject = \<lparr>sa_describe = \<lparr>sd_name = ''s'', sd_version = ''1'', sd_adapter = ''s'', sd_transport = ''in-process'',
       sd_protocol_version = ''p'', sd_metadata = JObj []\<rparr>,
     sa_open = (\<lambda>_. act_return demo_handle), sa_invoke = (\<lambda>_ _. act_return demo_program),
     sa_release = (\<lambda>_. act_return ())\<rparr>"

definition demo_package :: oracle_package where
  "demo_package = \<lparr>pk_oracle_id = ''o'', pk_version = ''1'', pk_entrypoint = ''m:f'', pk_code_digest = ''d'',
     pk_projections = [], pk_input_pointers = [], pk_package_digest = None\<rparr>"

text \<open>An Oracle runner that refuses every request.\<close>

definition demo_runner :: "'w oracle_runner" where
  "demo_runner = \<lparr>or_describe = \<lparr>rd_name = ''r'', rd_version = ''1'', rd_protocol_version = ''p'', rd_isolation = ''none'',
       rd_policy = \<lparr>sp_timeout_seconds = PyFloat False 1 0, sp_cpu_seconds = 1, sp_memory_bytes = 1,
         sp_max_file_bytes = 1, sp_max_open_files = 1, sp_max_request_bytes = 1, sp_max_response_bytes = 1,
         sp_inherited_environment = [], sp_enforce_resource_limits = False\<rparr>,
       rd_worker_module = ''w'', rd_worker_code_digest = ''d'', rd_allowed_module_prefixes = [],
       rd_filesystem_isolation = False, rd_network_isolation = False\<rparr>,
     or_evaluate = (\<lambda>_. act_raise (OracleExn OracleProtocolError ''refused''))\<rparr>"

definition demo_config :: "(commerce_adapter, memory_store) runtime_config" where
  "demo_config = \<lparr>rc_telemetry = None, rc_runner = demo_runner, rc_put = memory_put_bytes, rc_get = memory_get_bytes\<rparr>"

definition demo_start :: "(commerce_adapter, memory_store) runtime" where
  "demo_start = runtime_init Map.empty \<lparr>ms_limit = 1024, ms_objects = Map.empty\<rparr>"

definition demo_eid :: string where
  "demo_eid = ''ep_0123456789ab''"

definition demo_created :: "(commerce_adapter, memory_store) runtime" where
  "demo_created = snd (create_episode demo_config demo_uuid demo_scenario demo_agent (commerce_env demo_uuid)
     demo_subject demo_package None demo_start)"

lemma demo_create_ok:
  "fst (create_episode demo_config demo_uuid demo_scenario demo_agent (commerce_env demo_uuid)
     demo_subject demo_package None demo_start) = Inr demo_eid"
  by (simp add: create_episode_def demo_scenario_def manifest_create_def jindex_def jget_default_def
      res_bind_def Let_def demo_eid_def demo_uuid_def)

text \<open>The created Episode is reached in one step of the runtime.\<close>

lemma demo_reachable: "(runtime_step demo_config)\<^sup>*\<^sup>* demo_start demo_created"
proof -
  have fresh: "fresh_uuid demo_uuid demo_start"
    by (simp add: fresh_uuid_def demo_start_def runtime_init_def new_episode_id_def demo_uuid_def)
  obtain r where "create_episode demo_config demo_uuid demo_scenario demo_agent (commerce_env demo_uuid)
      demo_subject demo_package None demo_start = (r, demo_created)"
    unfolding demo_created_def by (metis prod.collapse)
  from runtime_step.create [OF fresh this] show ?thesis by (rule r_into_rtranclp)
qed

lemma demo_episode: "\<exists>e. rt_episodes demo_created demo_eid = Some e \<and> ep_state e = CREATED \<and> ep_evidence e = Map.empty"
proof -
  have "create_episode demo_config demo_uuid demo_scenario demo_agent (commerce_env demo_uuid)
      demo_subject demo_package None demo_start = (Inr demo_eid, demo_created)"
    using demo_create_ok unfolding demo_created_def by (metis prod.collapse)
  from create_episode_okD(2) [OF this] show ?thesis by auto
qed

section \<open>A quiescing Episode\<close>

text \<open>An Episode driven by transitions alone, and a runtime that holds it.\<close>

definition stepped :: "episode_state list \<Rightarrow> episode \<Rightarrow> episode" where
  "stepped ts e = fold (\<lambda>t e. snd (transition t None e)) ts e"

definition unjudged :: "string \<Rightarrow> episode_state \<Rightarrow> episode \<Rightarrow> bool" where
  "unjudged eid st e \<longleftrightarrow> episode_ok e \<and> ep_id e = eid \<and> ep_state e = st \<and> ep_oracle_evaluation e = None \<and>
     ep_telemetry e = None \<and> ep_validity e = VALID \<and>
     list_all (\<lambda>ev. evt_type ev = ''episode.transition'') (ep_events e)"

lemma unjudged_step:
  assumes "unjudged eid s e" "t \<in> set (transitions s)" "t \<notin> {COMPLETED, INVALID}"
  shows "unjudged eid t (snd (transition t None e))"
proof -
  have wf: "well_identified e" using assms(1) by (simp add: unjudged_def episode_ok_def)
  have ok: "episode_ok (snd (transition t None e))"
    using evolves_at [OF transition_ok [of t None], of e] assms(1) by (simp add: unjudged_def keeping_def)
  have same: "e\<lparr>ep_oracle_evaluation := None\<rparr> = e" using assms(1) by (simp add: unjudged_def)
  have "snd (transition t None e) = commit_transition (next_record t None e) e"
    using assms frozen_evaluation_plain [of t e]
    by (simp add: transition_eq [OF wf] unjudged_def) (simp only: same)
  with ok assms(1) show ?thesis
    by (simp add: unjudged_def commit_transition_def emit_def Let_def)
qed

lemma unjudged_make: "eid \<noteq> [] \<Longrightarrow> length eid \<le> 256 \<Longrightarrow> unjudged eid CREATED (make_episode eid s a m)"
  using make_episode_ok [of eid s a m] by (simp add: unjudged_def make_episode_def)

lemma unjudged_quiescing:
  assumes "eid \<noteq> []" "length eid \<le> 256"
  shows "unjudged eid QUIESCING (stepped [PROVISIONING, READY, RUNNING, QUIESCING] (make_episode eid s a m))"
  unfolding stepped_def fold_simps comp_apply id_apply
  by (rule unjudged_step unjudged_make assms | simp)+

definition plain_env :: "'w env_adapter" where
  "plain_env = \<lparr>ea_describe = commerce_description, ea_provision = (\<lambda>s. act_raise (RuntimeError ''no'')),
     ea_reset = (\<lambda>_ _. act_raise (RuntimeError ''no'')), ea_release = (\<lambda>_. act_return ()), ea_logical_time = (\<lambda>_ _. Inr 7),
     ea_observe = (\<lambda>_ _. act_return JNull), ea_execute = (\<lambda>_ _. act_raise (RuntimeError ''no'')),
     ea_project = (\<lambda>_ _. act_raise (RuntimeError ''no'')), ea_snapshot = (\<lambda>_. act_raise (RuntimeError ''no'')),
     ea_restore = (\<lambda>_ _. act_raise (RuntimeError ''no'')), ea_inject_fault = (\<lambda>_ _. act_raise (RuntimeError ''no''))\<rparr>"

lemma plain_time [simp]: "ea_logical_time plain_env h w = Inr 7"
  by (simp add: plain_env_def)

definition plain_runtime :: "episode \<Rightarrow> environment_handle \<Rightarrow> subject_handle \<Rightarrow> unit subj_adapter \<Rightarrow> oracle_package \<Rightarrow>
    (unit, memory_store) runtime" where
  "plain_runtime e h sh sa pk = (runtime_init () \<lparr>ms_limit = 1024, ms_objects = Map.empty\<rparr>)
     \<lparr>rt_episodes := [ep_id e \<mapsto> e], rt_adapters := [ep_id e \<mapsto> plain_env], rt_subject_adapters := [ep_id e \<mapsto> sa],
      rt_handles := [ep_id e \<mapsto> h], rt_subject_handles := [ep_id e \<mapsto> sh], rt_packages := [ep_id e \<mapsto> pk]\<rparr>"

lemma plain_runtime_ok: "episode_ok e \<Longrightarrow> runtime_ok (plain_runtime e h sh sa pk)"
  by (simp add: runtime_ok_def plain_runtime_def)

lemma move_to_eq:
  assumes "rt_episodes s eid = Some x" "well_identified x" "t \<in> set (transitions (ep_state x))"
    "frozen_evaluation t x = Inr ev"
  shows "move_to eid t s = (Inr (), s\<lparr>rt_episodes := (rt_episodes s)(eid \<mapsto>
      commit_transition (next_record t None x) (x\<lparr>ep_oracle_evaluation := ev\<rparr>))\<rparr>)"
  using assms by (simp add: move_to_def on_episode_def transition_eq action_simps)

lemma emit_telemetry_None: "ep_telemetry (emit a b c d x y e) = None \<longleftrightarrow> ep_telemetry e = None"
  by (simp add: emit_def Let_def)

lemma commit_telemetry_None: "ep_telemetry (commit_transition r e) = None \<longleftrightarrow> ep_telemetry e = None"
  by (simp add: commit_transition_def emit_telemetry_None)

lemma commit_events: "\<exists>ev. ep_events (commit_transition r e) = ep_events e @ [ev] \<and> evt_type ev = ''episode.transition''"
  by (simp add: commit_transition_def emit_events)

lemma plain_emit:
  "rt_episodes s eid = Some e \<Longrightarrow> emit_timed eid plain_env h et pl p st ev s =
     (Inr (), s\<lparr>rt_episodes := (rt_episodes s)(eid \<mapsto> emit et pl 7 p st ev e)\<rparr>)"
  by (simp add: emit_timed_def emit_now_def clock_def action_simps on_episode_def)

lemma plain_execute:
  assumes "rt_episodes s eid = Some e" "sc_instance_digest (ep_scenario e) = ''i''" "ep_id e \<noteq> []"
    "pk_projections pk = []" "pk_input_pointers pk = []"
  shows "execute_oracle c eid u a h pk s = (Inl (ValueError ''scenario_instance_digest must be a sha256 digest''), s)"
  using assms
  by (simp add: execute_oracle_def build_oracle_request_def action_simps episode_of_def make_oracle_context_def
      res_bind_def raise_if_def require_sha256_def is_sha256_text_def)

lemma plain_set:
  "rt_episodes s eid = Some e \<Longrightarrow> set_episode eid f s = (Inr (), s\<lparr>rt_episodes := (rt_episodes s)(eid \<mapsto> f e)\<rparr>)"
  by (simp add: set_episode_def on_episode_def action_simps)

lemma plain_finalize:
  "rt_episodes s eid = Some e \<Longrightarrow> ep_telemetry e = None \<Longrightarrow>
    finalize_telemetry c eid b st s = (Inr None, s\<lparr>rt_episodes := (rt_episodes s)(eid \<mapsto> e)\<rparr>)"
  by (simp add: finalize_telemetry_def finalize_session_def on_episode_def action_simps)

lemma no_request_no_record:
  "\<forall>ev \<in> set (ep_events e). evt_type ev \<noteq> ''oracle.execution.started'' \<Longrightarrow> evaluation_candidate t e = None"
proof -
  assume "\<forall>ev \<in> set (ep_events e). evt_type ev \<noteq> ''oracle.execution.started''"
  then have "List.find (\<lambda>ev. evt_type ev = ''oracle.execution.started'') (ep_events e) = None"
    by (simp add: find_None_iff)
  then show ?thesis by (simp add: evaluation_candidate_def split: option.split)
qed

lemma plain_verify:
  assumes e: "unjudged eid QUIESCING e" and "sc_instance_digest (ep_scenario e) = ''i''"
    and "pk_projections pk = []" "pk_input_pointers pk = []"
  shows "fst (verify c eid u (plain_runtime e h sh sa pk)) = Inr ()"
proof -
  have fields: "ep_id e = eid" "ep_state e = QUIESCING" "ep_oracle_evaluation e = None" "ep_telemetry e = None"
    "list_all (\<lambda>ev. evt_type ev = ''episode.transition'') (ep_events e)" "eid \<noteq> []" "length eid \<le> 256"
    using e by (auto simp: unjudged_def episode_ok_def well_identified_def)
  show ?thesis
    using assms(2-) fields
    by (simp add: verify_def plain_runtime_def action_simps bound_def episode_adapters_def runtime_init_def res_bind_def
        move_to_eq plain_emit plain_execute plain_set plain_finalize frozen_evaluation_def no_request_no_record
        emit_events well_identified_def commit_transition_def list_all_iff
        invalidate_evaluation_def oracle_rejection_def failure_detail_def raise_if_def emit_telemetry_None)
qed

lemma transition_scenario: "ep_scenario (snd (transition t c e)) = ep_scenario e"
proof (cases "transition t c e")
  case (Pair r e')
  then show ?thesis
    unfolding transition_def
    by (auto simp: action_simps freeze_oracle_evaluation_def split: prod.splits sum.splits option.splits if_splits)
qed

lemma stepped_scenario [simp]: "ep_scenario (stepped ts (make_episode eid sc a m)) = sc"
proof -
  have "ep_scenario (stepped ts e) = ep_scenario e" for e
    by (induction ts arbitrary: e) (simp_all add: stepped_def transition_scenario)
  then show ?thesis by (simp add: make_episode_def)
qed

definition demo_unit_config :: "(unit, memory_store) runtime_config" where
  "demo_unit_config = \<lparr>rc_telemetry = None, rc_runner = demo_runner, rc_put = memory_put_bytes, rc_get = memory_get_bytes\<rparr>"

lemma demo_verify:
  assumes "unjudged eid QUIESCING e" "ep_scenario e = demo_scenario"
  shows "fst (verify demo_unit_config eid u (plain_runtime e h sh demo_subject demo_package)) = Inr ()"
  using assms by (intro plain_verify) (simp_all add: demo_scenario_def demo_package_def)

section \<open>An Episode whose provisioning fails\<close>

definition demo_policy :: telemetry_policy where
  "demo_policy = \<lparr>tp_required = False, tp_capture_sensitive = False, tp_max_attribute_length = 8,
     tp_required_event_types = []\<rparr>"

definition demo_artifact :: "nat \<Rightarrow> telemetry_artifact" where
  "demo_artifact n = \<lparr>ta_episode_id = demo_eid, ta_trace_id = None, ta_root_span_id = None,
     ta_recorded_events = n, ta_propagated_requests = 0, ta_completeness = BEST_EFFORT, ta_span_count = 0\<rparr>"

lemmas publication_simps = in_store_def publish_json_def publish_bytes_def validate_evidence_metadata_def
  is_evidence_type_def evidence_classifications_def make_evidence_def memory_put_bytes_def validate_media_type_def
  validate_expected_def raise_if_def verify_expected_digest_def make_artifact_ref_def res_bind_def
  validate_sha256_digest_def memory_insert_def is_space_def is_alnum_ascii_def is_digit_def is_lower_ascii_def
  is_upper_ascii_def json_media_type_def default_classification_def

lemma plain_publish:
  assumes "rt_episodes s eid = Some e" "ep_id e = demo_eid" "ep_evidence e = Map.empty"
    "ep_telemetry e = Some (NoopSession \<lparr>ns_episode_id = demo_eid, ns_required = False, ns_events = n, ns_artifact = None\<rparr>)"
    "rt_store s = \<lparr>ms_limit = int (length (canonical_json_bytes (telemetry_artifact_dict (demo_artifact n)))), ms_objects = Map.empty\<rparr>"
    "rc_put c = memory_put_bytes" "rc_telemetry c = Some (NoopBridge p)"
  shows "\<exists>s' e' ev. finalize_telemetry c eid b st s = (Inr (Some (demo_artifact n)), s') \<and>
    rt_episodes s' eid = Some e' \<and> ep_evidence e' (telemetry_evidence_id demo_eid) = Some ev"
  using assms
  by (simp add: finalize_telemetry_def finalize_session_def on_episode_def action_simps episode_of_def Let_def
      telemetry_evidence_id_def telemetry_producer_def demo_eid_def register_evidence_def set_episode_def
      noop_finalize_def demo_artifact_def publication_simps)

definition demo_telemetry_config :: "(unit, memory_store) runtime_config" where
  "demo_telemetry_config = demo_unit_config\<lparr>rc_telemetry := Some (NoopBridge demo_policy)\<rparr>"

definition demo_telemetry_start :: "(unit, memory_store) runtime" where
  "demo_telemetry_start = runtime_init ()
     \<lparr>ms_limit = int (length (canonical_json_bytes (telemetry_artifact_dict (demo_artifact 4)))), ms_objects = Map.empty\<rparr>"

definition demo_telemetry_created :: "(unit, memory_store) runtime" where
  "demo_telemetry_created = snd (create_episode demo_telemetry_config demo_uuid demo_scenario demo_agent plain_env
     demo_subject demo_package None demo_telemetry_start)"

definition demo_failed :: "(unit, memory_store) runtime" where
  "demo_failed = snd (provision demo_telemetry_config demo_eid demo_telemetry_created)"

lemma demo_telemetry_created_eq: "\<exists>e. demo_telemetry_created = demo_telemetry_start\<lparr>rt_episodes := [demo_eid \<mapsto> e],
    rt_adapters := [demo_eid \<mapsto> plain_env], rt_subject_adapters := [demo_eid \<mapsto> demo_subject],
    rt_packages := [demo_eid \<mapsto> demo_package], rt_faults := [demo_eid \<mapsto> Map.empty]\<rparr> \<and>
    ep_id e = demo_eid \<and> ep_state e = CREATED \<and> ep_evidence e = Map.empty \<and> ep_oracle_evaluation e = None \<and>
    ep_telemetry e = Some (NoopSession \<lparr>ns_episode_id = demo_eid, ns_required = False, ns_events = 1, ns_artifact = None\<rparr>)"
proof -
  obtain x m where "create_episode demo_telemetry_config demo_uuid demo_scenario demo_agent plain_env
     demo_subject demo_package None demo_telemetry_start = (Inr demo_eid, demo_telemetry_start\<lparr>rt_episodes := [demo_eid \<mapsto>
       emit ''episode.created'' ''orchestrator'' 0 x [] [] ((make_episode demo_eid demo_scenario demo_agent m)\<lparr>ep_telemetry :=
          Some (NoopSession (noop_start demo_policy demo_eid))\<rparr>)],
    rt_adapters := [demo_eid \<mapsto> plain_env], rt_subject_adapters := [demo_eid \<mapsto> demo_subject],
    rt_packages := [demo_eid \<mapsto> demo_package], rt_faults := [demo_eid \<mapsto> Map.empty]\<rparr>)"
    by (simp add: create_episode_def demo_scenario_def manifest_create_def jindex_def jget_default_def
      res_bind_def Let_def demo_eid_def demo_uuid_def demo_telemetry_config_def demo_unit_config_def demo_telemetry_start_def
      runtime_init_def)
  then show ?thesis
    by (intro exI [of _ "emit ''episode.created'' ''orchestrator'' 0 x [] []
        ((make_episode demo_eid demo_scenario demo_agent m)\<lparr>ep_telemetry := Some (NoopSession (noop_start demo_policy demo_eid))\<rparr>)"])
      (simp add: demo_telemetry_created_def make_episode_def emit_def Let_def noop_start_def demo_policy_def
       noop_record_event_def auto_finalize_events_def)
qed

lemma plain_provision_body:
  "rt_episodes s eid = Some e \<Longrightarrow> provision_body eid plain_env sa s = (Inl (RuntimeError ''no''), s)"
  by (simp add: provision_body_def action_simps episode_of_def in_world_def plain_env_def)

lemma plain_emit_now:
  "rt_episodes s eid = Some e \<Longrightarrow> emit_now eid et pl t p st ev s =
     (Inr (), s\<lparr>rt_episodes := (rt_episodes s)(eid \<mapsto> emit et pl t p st ev e)\<rparr>)"
  by (simp add: emit_now_def action_simps on_episode_def)

lemma plain_provision_failed:
  assumes "rt_episodes s eid = Some e" "well_identified e" "ep_id e = demo_eid" "ep_state e = PROVISIONING" "ep_oracle_evaluation e = None"
    "ep_telemetry e = Some (NoopSession \<lparr>ns_episode_id = demo_eid, ns_required = False, ns_events = 2, ns_artifact = None\<rparr>)"
    "ep_evidence e = Map.empty"
    "rt_store s = \<lparr>ms_limit = int (length (canonical_json_bytes (telemetry_artifact_dict (demo_artifact 4)))), ms_objects = Map.empty\<rparr>"
    "rc_put c = memory_put_bytes" "rc_telemetry c = Some (NoopBridge p)"
  shows "\<exists>e'. rt_episodes (snd (provision_failed c eid (RuntimeError ''no'') s)) eid = Some e' \<and>
    (\<exists>ev. ep_evidence e' (telemetry_evidence_id demo_eid) = Some ev)"
proof -
  let ?m = "act_bind (mark_infrastructure_failure eid ENVIRONMENT_FAILURE) (\<lambda>_.
      act_bind (move_to eid INFRA_FAILED) (\<lambda>_.
      emit_now eid ''environment.provision.failed'' ''environment'' 0
          [(''error_type'', JStr (exn_name (RuntimeError ''no''))), (''error'', JStr (exn_text (RuntimeError ''no'')))] [] []))"
  obtain s1 e1 where m: "?m s = (Inr (), s1)" and e1: "rt_episodes s1 eid = Some e1" "ep_id e1 = demo_eid"
    "ep_evidence e1 = Map.empty"
    "ep_telemetry e1 = Some (NoopSession \<lparr>ns_episode_id = demo_eid, ns_required = False, ns_events = 4, ns_artifact = None\<rparr>)"
    and st: "rt_store s1 = rt_store s"
    using assms
    by (simp add: action_simps mark_infrastructure_failure_def plain_set move_to_eq well_identified_def frozen_evaluation_def
       no_request_no_record plain_emit_now commit_transition_def emit_def Let_def
       noop_record_event_def auto_finalize_events_def noop_finalize_def demo_artifact_def)
  obtain s2 e2 ev where fin: "finalize_telemetry c eid False False s1 = (Inr (Some (demo_artifact 4)), s2)"
    "rt_episodes s2 eid = Some e2" "ep_evidence e2 (telemetry_evidence_id demo_eid) = Some ev"
    using plain_publish [OF e1 assms(8) [folded st] assms(9,10)] by blast
  have "provision_failed c eid (RuntimeError ''no'') s = (Inl (RuntimeError ''no''), s2)"
    using m fin(1) by (auto simp: provision_failed_def Let_def act_bind_def act_raise_def split: prod.splits sum.splits)
  with fin(2,3) show ?thesis by simp
qed

lemma provision_failed_raises:
  obtains err s' where "provision_failed c eid e s = (Inl err, s')"
proof (cases "provision_failed c eid e s")
  case (Pair r s')
  then show ?thesis
  proof (cases r)
    case (Inr u)
    from Pair [unfolded Inr provision_failed_def Let_def] show ?thesis by (elim act_bind_okE) simp
  next
    case (Inl err)
    with Pair show ?thesis by (intro that) simp
  qed
qed

lemma demo_failed_evidence: "\<exists>e ev. rt_episodes demo_failed demo_eid = Some e \<and>
   ep_evidence e (telemetry_evidence_id demo_eid) = Some ev"
proof -
  obtain e where c: "demo_telemetry_created = demo_telemetry_start\<lparr>rt_episodes := [demo_eid \<mapsto> e],
    rt_adapters := [demo_eid \<mapsto> plain_env], rt_subject_adapters := [demo_eid \<mapsto> demo_subject],
    rt_packages := [demo_eid \<mapsto> demo_package], rt_faults := [demo_eid \<mapsto> Map.empty]\<rparr>"
    and e: "ep_id e = demo_eid" "ep_state e = CREATED" "ep_evidence e = Map.empty" "ep_oracle_evaluation e = None"
    "ep_telemetry e = Some (NoopSession \<lparr>ns_episode_id = demo_eid, ns_required = False, ns_events = 1, ns_artifact = None\<rparr>)"
    using demo_telemetry_created_eq by (elim exE conjE) (rule that)
  let ?e = "commit_transition (next_record PROVISIONING None e) (e\<lparr>ep_oracle_evaluation := None\<rparr>)"
  let ?s = "demo_telemetry_created\<lparr>rt_episodes := [demo_eid \<mapsto> ?e]\<rparr>"
  have wf: "well_identified e" by (simp add: well_identified_def e demo_eid_def)
  have mv: "move_to demo_eid PROVISIONING demo_telemetry_created = (Inr (), ?s)"
    using move_to_eq [of demo_telemetry_created demo_eid e PROVISIONING None] wf e
    by (simp add: c frozen_evaluation_def)
  have st: "rt_episodes ?s demo_eid = Some ?e" by simp
  have t: "ep_telemetry ?e = Some (NoopSession \<lparr>ns_episode_id = demo_eid, ns_required = False, ns_events = 2, ns_artifact = None\<rparr>)"
    by (simp add: commit_transition_def emit_def Let_def e noop_record_event_def auto_finalize_events_def)
  have body: "provision_body demo_eid plain_env demo_subject ?s = (Inl (RuntimeError ''no''), ?s)"
    by (rule plain_provision_body [OF st])
  have ad: "episode_adapters demo_eid demo_telemetry_created = Inr (e, plain_env, demo_subject)"
    by (simp add: episode_adapters_def c)
  obtain err s2 where pf: "provision_failed demo_telemetry_config demo_eid (RuntimeError ''no'') ?s = (Inl err, s2)"
    by (rule provision_failed_raises)
  have "demo_failed = s2"
    unfolding demo_failed_def provision_def act_bind_def act_read_def act_try_def ad mv body pf
    by (simp only: sum.case prod.case snd_conv mv body pf)
  moreover obtain e' ev where "rt_episodes (snd (provision_failed demo_telemetry_config demo_eid (RuntimeError ''no'') ?s)) demo_eid = Some e'"
    "ep_evidence e' (telemetry_evidence_id demo_eid) = Some ev"
    using plain_provision_failed [of ?s demo_eid ?e demo_telemetry_config demo_policy] t wf
    by (auto simp: e c well_identified_def demo_telemetry_start_def demo_telemetry_config_def demo_unit_config_def runtime_init_def)
  ultimately show ?thesis by (auto simp: pf)
qed

lemma demo_failed_reachable:
  "(runtime_step demo_telemetry_config)\<^sup>*\<^sup>* demo_telemetry_start demo_failed"
proof -
  obtain r r' where "create_episode demo_telemetry_config demo_uuid demo_scenario demo_agent plain_env
      demo_subject demo_package None demo_telemetry_start = (r, demo_telemetry_created)"
    "provision demo_telemetry_config demo_eid demo_telemetry_created = (r', demo_failed)"
    unfolding demo_telemetry_created_def demo_failed_def by (metis prod.collapse)
  moreover have "fresh_uuid demo_uuid demo_telemetry_start"
    by (simp add: fresh_uuid_def demo_telemetry_start_def runtime_init_def)
  ultimately show ?thesis
    by (meson converse_rtranclp_into_rtranclp r_into_rtranclp runtime_step.create runtime_step.provision)
qed

section \<open>A Subject that runs\<close>

lemma unjudged_ready:
  assumes "eid \<noteq> []" "length eid \<le> 256"
  shows "unjudged eid READY (stepped [PROVISIONING, READY] (make_episode eid s a m))"
  unfolding stepped_def fold_simps comp_apply id_apply
  by (rule unjudged_step unjudged_make assms | simp)+

lemma plain_invocation:
  assumes "ep_scenario e = demo_scenario" "ep_id e \<noteq> []"
  shows "\<exists>i. build_invocation e = Inr i"
  using assms
  by (simp add: build_invocation_def demo_scenario_def scenario_subject_projection_def jget_default_def Let_def res_bind_def
     py_int_of_def py_float_of_def make_subject_invocation_def raise_if_def jindex_def float_positive_def)

lemma plain_env_observe [simp]: "ea_observe plain_env h x = act_return JNull" by (simp add: plain_env_def)

lemma plain_run_subject:
  assumes e: "unjudged eid READY e" and sc: "ep_scenario e = demo_scenario"
  shows "fst (run_subject c eid (plain_runtime e h sh demo_subject pk)) = Inr ''done''"
proof -
  have fields: "ep_id e = eid" "ep_state e = READY" "ep_oracle_evaluation e = None" "ep_telemetry e = None"
    "eid \<noteq> []" "length eid \<le> 256"
    using e by (auto simp: unjudged_def episode_ok_def well_identified_def)
  obtain i where i: "build_invocation e = Inr i" using plain_invocation [OF sc] fields by auto
  show ?thesis
    using fields i
    by (simp add: run_subject_def plain_runtime_def action_simps bound_def episode_adapters_def runtime_init_def res_bind_def
        move_to_eq plain_emit plain_set frozen_evaluation_def
        well_identified_def commit_transition_def invoke_subject_def demo_subject_def in_world_def demo_program_def
        subject_observation_def plain_env_observe episode_of_def)
qed

end
