(* ===== verification/AVP_Python.thy ===== *)
theory AVP_Python
  imports AVP_Errors
begin

text \<open>
  Further pieces of Python and its standard library: hash errors of set membership, integral floats,
  Base64 (RFC 4648) with the decoder that undoes it, and the congruence and size facts that
  recursive walks over JSON data need.
\<close>

section \<open>Recursion over JSON data\<close>

lemma check_each_cong [fundef_cong]:
  "xs = ys \<Longrightarrow> (\<And>x. x \<in> set ys \<Longrightarrow> f x = g x) \<Longrightarrow> check_each f xs = check_each g ys"
  by (induction ys arbitrary: xs) (auto split: sum.splits)

lemma size_member [termination_simp]: "kv \<in> set kvs \<Longrightarrow> size (snd kv) < Suc (size_list (size_prod (\<lambda>_. 0) size) kvs)"
  by (induction kvs) auto

lemma size_lookup: "map_of kvs k = Some v \<Longrightarrow> size v < Suc (size_list (size_prod (\<lambda>_. 0) size) kvs)"
  by (drule map_of_SomeD, drule size_member) simp

section \<open>Membership in a set of strings\<close>

text \<open>\<open>value in {...}\<close> hashes the value: a list or dict (of decoded JSON) has no hash, a tuple or a read-only
  mapping (of frozen JSON) hashes what it holds.\<close>

fun raw_unhashable :: "json \<Rightarrow> string option" where
  "raw_unhashable (JList _) = Some ''list''"
| "raw_unhashable (JObj _) = Some ''dict''"
| "raw_unhashable _ = None"

definition in_strings :: "json \<Rightarrow> string list \<Rightarrow> (exn, bool) result" where
  "in_strings v names = (case raw_unhashable v of
     Some t \<Rightarrow> Inl (TypeError (''unhashable type: '' @ py_repr_str t))
   | None \<Rightarrow> Inr (\<exists>s \<in> set names. v = JStr s))"

text \<open>\<open>value.is_integer()\<close> with \<open>int(value)\<close>.\<close>

definition float_integral :: "pyfloat \<Rightarrow> int option" where
  "float_integral f =
     (let sign = (if float_neg f then - 1 else 1 :: int) in
      if 0 \<le> float_exp f then Some (sign * int (float_digits f) * 10 ^ nat (float_exp f))
      else let m = 10 ^ nat (- float_exp f) in
        if int (float_digits f) mod m = 0 then Some (sign * (int (float_digits f) div m)) else None)"

section \<open>Base64\<close>

definition b64_alphabet :: string where
  "b64_alphabet = ''ABCDEFGHIJKLMNOPQRSTUVWXYZabcdefghijklmnopqrstuvwxyz0123456789+/''"

definition b64_char :: "nat \<Rightarrow> char" where
  "b64_char n = b64_alphabet ! (n mod 64)"

fun b64_encode :: "bytes \<Rightarrow> string" where
  "b64_encode [] = []"
| "b64_encode [a] = (let n = unat a in [b64_char (n div 4), b64_char (n mod 4 * 16)] @ ''=='')"
| "b64_encode [a, b] = (let n = unat a; m = unat b in
     [b64_char (n div 4), b64_char (n mod 4 * 16 + m div 16), b64_char (m mod 16 * 4)] @ ''='')"
| "b64_encode (a # b # c # rest) = (let n = unat a; m = unat b; k = unat c in
     [b64_char (n div 4), b64_char (n mod 4 * 16 + m div 16), b64_char (m mod 16 * 4 + k div 64), b64_char (k mod 64)] @
     b64_encode rest)"

fun index_of :: "'a \<Rightarrow> 'a list \<Rightarrow> nat" where
  "index_of x [] = 0"
| "index_of x (y # ys) = (if x = y then 0 else Suc (index_of x ys))"

definition b64_value :: "char \<Rightarrow> nat" where
  "b64_value c = index_of c b64_alphabet"

fun b64_decode :: "string \<Rightarrow> bytes" where
  "b64_decode (w # x # y # z # rest) =
     (if y = CHR ''='' then [of_nat (b64_value w * 4 + b64_value x div 16)]
      else if z = CHR ''='' then [of_nat (b64_value w * 4 + b64_value x div 16),
        of_nat (b64_value x mod 16 * 16 + b64_value y div 4)]
      else [of_nat (b64_value w * 4 + b64_value x div 16), of_nat (b64_value x mod 16 * 16 + b64_value y div 4),
        of_nat (b64_value y mod 4 * 64 + b64_value z)] @ b64_decode rest)"
| "b64_decode _ = []"

lemma index_of_nth: "distinct xs \<Longrightarrow> i < length xs \<Longrightarrow> index_of (xs ! i) xs = i"
proof (induction xs arbitrary: i)
  case (Cons x xs)
  then show ?case by (cases i) (auto simp: nth_mem)
qed simp

lemma b64_alphabet_distinct: "distinct b64_alphabet" "length b64_alphabet = 64"
  by (simp_all add: b64_alphabet_def)

lemma b64_value_char [simp]: "n < 64 \<Longrightarrow> b64_value (b64_char n) = n"
  by (simp add: b64_value_def b64_char_def index_of_nth b64_alphabet_distinct)

lemma b64_char_in: "b64_char n \<in> set b64_alphabet"
  by (simp add: b64_char_def b64_alphabet_distinct(2) nth_mem)

lemma b64_char_not_pad [simp]: "b64_char n \<noteq> CHR ''=''" "CHR ''='' \<noteq> b64_char n"
proof -
  have "CHR ''='' \<notin> set b64_alphabet" by (simp add: b64_alphabet_def)
  then show "b64_char n \<noteq> CHR ''=''" "CHR ''='' \<noteq> b64_char n" using b64_char_in by metis+
qed

lemma unat_byte [simp]: "unat (a :: 8 word) < 256"
  using unsigned_less [of a] by simp

lemma byte_parts [simp]:
  "of_nat (unat a div 4 * 4 + unat a mod 4) = (a :: 8 word)"
  "of_nat (unat a div 16 * 16 + unat a mod 16) = (a :: 8 word)"
  "of_nat (unat a div 64 * 64 + unat a mod 64) = (a :: 8 word)"
  by (simp_all only: div_mult_mod_eq) simp_all

lemma b64_roundtrip: "b64_decode (b64_encode bs) = bs"
proof (induction bs rule: b64_encode.induct)
  case (2 a)
  have "unat a div 4 < 64" using unat_byte [of a] by (simp add: div_less_iff_less_mult)
  moreover have "unat a mod 4 * 16 < 64" by simp
  ultimately show ?case by (simp add: Let_def)
next
  case (3 a b)
  have "unat a div 4 < 64" "unat b div 16 < 16" using unat_byte [of a] unat_byte [of b] by (simp_all add: div_less_iff_less_mult)
  moreover from this have "unat a mod 4 * 16 + unat b div 16 < 64" "unat b mod 16 * 4 < 64" by simp_all
  ultimately show ?case
    by (simp add: Let_def)
next
  case (4 a b c rest)
  have q: "unat a div 4 < 64" "unat b div 16 < 16" "unat c div 64 < 4"
    using unat_byte [of a] unat_byte [of b] unat_byte [of c] by (simp_all add: div_less_iff_less_mult)
  from this have "unat a mod 4 * 16 + unat b div 16 < 64" "unat b mod 16 * 4 + unat c div 64 < 64" by simp_all
  with q 4 show ?case
    by (simp add: Let_def)
qed simp

end
