(* ===== verification/AVP_Gateway.thy ===== *)
theory AVP_Gateway
  imports AVP_McpModels AVP_Python "HOL-Library.AList"
begin

text \<open>
  \<^verbatim>\<open>mcp/gateway.py\<close> and the pure parts of \<^verbatim>\<open>mcp/transport.py\<close>: the verification gateway in front of an
  MCP server. The transport is an action over an outside world, the JSON Schema library a pair of
  functions that return an error message or nothing; both are parameters.
\<close>

section \<open>Header values\<close>

definition b64_prefix :: string where "b64_prefix = ''=?base64?''"
definition b64_suffix :: string where "b64_suffix = ''?=''"

definition is_blank :: "char \<Rightarrow> bool" where
  "is_blank c \<longleftrightarrow> c = CHR '' '' \<or> c = CHR 0x09"

definition field_char :: "char \<Rightarrow> bool" where
  "field_char c \<longleftrightarrow> c = CHR 0x09 \<or> 0x20 \<le> (of_char c :: nat) \<and> (of_char c :: nat) \<le> 0x7E"

definition starts_with :: "string \<Rightarrow> string \<Rightarrow> bool" where
  "starts_with p s \<longleftrightarrow> take (length p) s = p"

definition ends_with :: "string \<Rightarrow> string \<Rightarrow> bool" where
  "ends_with p s \<longleftrightarrow> length p \<le> length s \<and> drop (length s - length p) s = p"

definition matches_sentinel :: "string \<Rightarrow> bool" where
  "matches_sentinel s \<longleftrightarrow> starts_with b64_prefix s \<and> ends_with b64_suffix s"

definition edge_blank :: "string \<Rightarrow> bool" where
  "edge_blank s \<longleftrightarrow> s \<noteq> [] \<and> (is_blank (hd s) \<or> is_blank (last s))"

definition encode_mcp_header_value :: "string \<Rightarrow> string" where
  "encode_mcp_header_value value =
     (if list_all field_char value \<and> \<not> edge_blank value \<and> \<not> matches_sentinel value then value
      else b64_prefix @ b64_encode (utf8 value) @ b64_suffix)"

section \<open>The gateway's state and configuration\<close>

type_synonym 'w mcp_transport = "string \<Rightarrow> (string \<times> json) list \<Rightarrow> string option \<Rightarrow> (string \<times> string) list \<Rightarrow>
    ('w, exn, (string \<times> json) list) action"

record schema_library =
  sl_check :: "json \<Rightarrow> string option"
  sl_validate :: "json \<Rightarrow> json \<Rightarrow> string option"

record 'w gateway =
  gt_transport :: "'w mcp_transport"
  gt_policy :: mcp_policy
  gt_endpoint :: string
  gt_schemas :: schema_library

record 'w gateway_state =
  gs_server :: "mcp_server option"
  gs_catalog :: "mcp_catalog option"
  gs_records :: "mcp_call_record list"
  gs_world :: 'w

definition make_gateway :: "'w mcp_transport \<Rightarrow> mcp_policy \<Rightarrow> string \<Rightarrow> schema_library \<Rightarrow> 'w \<Rightarrow>
    (exn, 'w gateway \<times> 'w gateway_state) result" where
  "make_gateway tr p endpoint schemas w =
     res_bind (raise_if (endpoint = []) (ValueError ''endpoint_identity must be non-empty'')) (\<lambda>_.
     Inr (\<lparr>gt_transport = tr, gt_policy = p, gt_endpoint = endpoint, gt_schemas = schemas\<rparr>,
          \<lparr>gs_server = None, gs_catalog = None, gs_records = [], gs_world = w\<rparr>))"

definition gateway_version :: string where
  "gateway_version = ''0.2.0-alpha.5''"

definition max_safe_integer :: int where
  "max_safe_integer = 9007199254740991"

definition protocol_error :: "string \<Rightarrow> exn" where
  "protocol_error m = McpExn MCPProtocolError m"

text \<open>\<open>policy_from_scenario\<close>: the tool names of the actor's \<open>mcp://\<close> grants.\<close>

definition policy_tools :: "scenario_instance \<Rightarrow> string \<Rightarrow> string list" where
  "policy_tools s actor =
     (let caps = jget_default (sc_document s) ''capabilities'' (JObj []);
          includes = jitems (jget_default (jget_default caps actor (JObj [])) ''include'' (JList []))
      in remdups (List.map_filter (\<lambda>item. let v = py_str item in
           if starts_with ''mcp://'' v \<and> CHR ''/'' \<in> set v then Some (after_last_slash v) else None) includes))"

definition gateway_configuration_digest :: "'w gateway \<Rightarrow> string" where
  "gateway_configuration_digest g = json_digest (JObj
     [(''gateway'', JStr ''avp-mcp-verification-gateway''), (''version'', JStr gateway_version),
      (''protocol'', JStr mcp_protocol_version), (''endpoint'', JStr (json_digest (JStr (gt_endpoint g)))),
      (''policy'', JObj
        [(''allowed_tools'', jstrs (sort (mp_allowed_tools (gt_policy g)))),
         (''detect_schema_drift'', JBool (mp_detect_schema_drift (gt_policy g))),
         (''max_catalog_tools'', JInt (mp_max_catalog_tools (gt_policy g))),
         (''max_catalog_pages'', JInt (mp_max_catalog_pages (gt_policy g))),
         (''max_schema_depth'', JInt (mp_max_schema_depth (gt_policy g)))])])"

definition gateway_owns_tool :: "'w gateway \<Rightarrow> string \<Rightarrow> bool" where
  "gateway_owns_tool g nm \<longleftrightarrow> nm \<in> set (mp_allowed_tools (gt_policy g))"

section \<open>Schema checks\<close>

fun validate_schema_depth :: "int \<Rightarrow> int \<Rightarrow> json \<Rightarrow> (exn, unit) result" where
  "validate_schema_depth limit depth value =
     (if limit < depth then Inl (protocol_error ''MCP schema exceeds depth limit'')
      else case value of
        JObj kvs \<Rightarrow> check_each (\<lambda>kv. validate_schema_depth limit (depth + 1) (snd kv)) kvs
      | JList xs \<Rightarrow> check_each (validate_schema_depth limit (depth + 1)) xs
      | _ \<Rightarrow> Inr ())"

declare validate_schema_depth.simps [simp del]

definition external_ref :: "json option \<Rightarrow> bool" where
  "external_ref r = (case r of Some (JStr s) \<Rightarrow> take 1 s \<noteq> ''#'' | _ \<Rightarrow> False)"

fun reject_external_refs :: "json \<Rightarrow> (exn, unit) result" where
  "reject_external_refs (JObj kvs) =
     (if external_ref (map_of kvs ''$ref'')
      then Inl (protocol_error ''external JSON Schema $ref is not allowed in MCP verification gateway'')
      else check_each (\<lambda>kv. reject_external_refs (snd kv)) kvs)"
| "reject_external_refs (JList xs) = check_each reject_external_refs xs"
| "reject_external_refs _ = Inr ()"

definition validate_schema :: "'w gateway \<Rightarrow> json \<Rightarrow> (exn, unit) result" where
  "validate_schema g schema =
     res_bind (validate_schema_depth (mp_max_schema_depth (gt_policy g)) 0 schema) (\<lambda>_.
     res_bind (reject_external_refs schema) (\<lambda>_.
     case sl_check (gt_schemas g) schema of
       None \<Rightarrow> Inr () | Some m \<Rightarrow> Inl (protocol_error (''invalid JSON Schema: '' @ m))))"

definition validate_instance :: "'w gateway \<Rightarrow> json \<Rightarrow> json \<Rightarrow> string \<Rightarrow> (exn, unit) result" where
  "validate_instance g value schema label =
     (case sl_validate (gt_schemas g) schema value of
        None \<Rightarrow> Inr () | Some m \<Rightarrow> Inl (protocol_error (label @ '' does not conform to schema: '' @ m)))"

section \<open>Header annotations\<close>

text \<open>The pattern \<open>^[...]+$\<close>: \<open>$\<close> also matches before a final newline.\<close>

definition token_char :: "char \<Rightarrow> bool" where
  "token_char c \<longleftrightarrow> is_alnum_ascii c \<or> c \<in> set (CHR 0x27 # ''!#$%&*+-.^_`|~'')"

definition token_match :: "string \<Rightarrow> bool" where
  "token_match s \<longleftrightarrow>
     (let body = (if s \<noteq> [] \<and> last s = CHR 0x0A then butlast s else s) in body \<noteq> [] \<and> list_all token_char body)"

definition unreachable_annotation :: exn where
  "unreachable_annotation =
     protocol_error ''x-mcp-header annotation is not statically reachable through properties''"

function reject_unreachable :: "json \<Rightarrow> bool \<Rightarrow> bool \<Rightarrow> (exn, unit) result" where
  "reject_unreachable (JObj kvs) chain allowed =
     (if map_of kvs ''x-mcp-header'' \<noteq> None \<and> \<not> allowed then Inl unreachable_annotation
      else res_bind (case map_of kvs ''properties'' of
             Some (JObj ps) \<Rightarrow> if chain then check_each (\<lambda>kv. case snd kv of
                 JObj qs \<Rightarrow> reject_unreachable (JObj qs) True True | _ \<Rightarrow> Inr ()) ps else Inr ()
           | _ \<Rightarrow> Inr ()) (\<lambda>_.
        check_each (\<lambda>kv. if fst kv \<in> {''x-mcp-header'', ''properties''} then Inr ()
          else reject_unreachable (snd kv) False False) kvs))"
| "reject_unreachable (JList xs) chain allowed = check_each (\<lambda>x. reject_unreachable x False False) xs"
| "reject_unreachable JNull chain allowed = Inr ()"
| "reject_unreachable (JBool b) chain allowed = Inr ()"
| "reject_unreachable (JInt i) chain allowed = Inr ()"
| "reject_unreachable (JFloat f) chain allowed = Inr ()"
| "reject_unreachable (JStr s) chain allowed = Inr ()"
  by pat_completeness auto
termination
proof (relation "measure (\<lambda>(v, _, _). size v)", goal_cases)
  case (2 kvs chain allowed v ps kv qs)
  then show ?case using size_lookup [of kvs "''properties''" "JObj ps"] size_member [of kv ps] by simp
next
  case (3 kvs chain allowed u kv)
  then show ?case using size_member [of kv kvs] by simp
next
  case (4 xs chain allowed x)
  then show ?case by (induction xs) auto
qed simp

type_synonym header_paths = "(string list \<times> string \<times> json) list"

text \<open>One annotation: a string, a token, on a primitive property, with a name not yet seen.\<close>

definition check_annotation :: "json \<Rightarrow> json \<Rightarrow> string list \<Rightarrow> (exn, string) result" where
  "check_annotation header kind seen =
     (let bad = protocol_error ''invalid x-mcp-header annotation'' in
      case header of
        JStr h \<Rightarrow> if h = [] \<or> \<not> token_match h then Inl bad
                  else res_bind (in_strings kind [''string'', ''integer'', ''boolean'']) (\<lambda>ok.
                    if \<not> ok \<or> lower h \<in> set seen then Inl bad else Inr h)
      | _ \<Rightarrow> Inl bad)"

text \<open>\<open>_header_paths\<close> below the root: the annotated property paths in order, and the names seen.\<close>

function header_walk :: "json \<Rightarrow> string list \<Rightarrow> string list \<Rightarrow> (exn, header_paths \<times> string list) result"
  and header_props :: "(string \<times> json) list \<Rightarrow> string list \<Rightarrow> string list \<Rightarrow> (exn, header_paths \<times> string list) result"
where
  "header_walk schema path seen = (case jget schema ''properties'' of
     Some (JObj ps) \<Rightarrow> header_props ps path seen | _ \<Rightarrow> Inr ([], seen))"
| "header_props [] path seen = Inr ([], seen)"
| "header_props ((k, p) # ps) path seen =
     (case p of
        JObj kvs \<Rightarrow>
          res_bind (case map_of kvs ''x-mcp-header'' of
              None \<Rightarrow> Inr ([], seen)
            | Some JNull \<Rightarrow> Inr ([], seen)
            | Some h \<Rightarrow> res_bind (check_annotation h (jget_none p ''type'') seen) (\<lambda>nm.
                Inr ([(path @ [k], nm, jget_none p ''type'')], seen @ [lower nm]))) (\<lambda>(own, seen1).
          res_bind (header_walk (JObj kvs) (path @ [k]) seen1) (\<lambda>(below, seen2).
          res_bind (header_props ps path seen2) (\<lambda>(siblings, seen3).
          Inr (own @ below @ siblings, seen3))))
      | _ \<Rightarrow> header_props ps path seen)"
  by pat_completeness auto
termination
proof (relation "measure (case_sum (\<lambda>(v, _, _). 2 * size v) (\<lambda>(ps, _, _). Suc (2 * size_list (size_prod (\<lambda>_. 0) size) ps)))",
    goal_cases)
  case (2 schema path seen x ps)
  then show ?case by (cases schema) (auto dest!: size_lookup)
qed auto

definition header_paths_of :: "json \<Rightarrow> (exn, header_paths) result" where
  "header_paths_of schema =
     res_bind (reject_unreachable schema True False) (\<lambda>_.
     res_bind (header_walk schema [] []) (\<lambda>(found, _). Inr found))"

section \<open>Listing the tools\<close>

definition parse_icons :: "json \<Rightarrow> (exn, json list) result" where
  "parse_icons v = (if \<not> py_truthy v then Inr [] else case v of
     JList xs \<Rightarrow> Inr xs
   | JStr s \<Rightarrow> Inr (map (\<lambda>c. JStr [c]) s)
   | JObj kvs \<Rightarrow> Inr (map (JStr \<circ> fst) kvs)
   | JBool b \<Rightarrow> Inl (TypeError (py_repr_str ''bool'' @ '' object is not iterable''))
   | JFloat f \<Rightarrow> Inl (TypeError (py_repr_str ''float'' @ '' object is not iterable''))
   | _ \<Rightarrow> Inl (TypeError (py_repr_str ''int'' @ '' object is not iterable'')))"

definition is_protocol_error :: "exn \<Rightarrow> bool" where
  "is_protocol_error e = (case e of McpExn MCPProtocolError _ \<Rightarrow> True | _ \<Rightarrow> False)"

text \<open>A tool whose header annotations are invalid is left out; every other problem is an error.\<close>

definition parse_tool :: "'w gateway \<Rightarrow> json \<Rightarrow> (exn, mcp_tool option) result" where
  "parse_tool g raw = (case (jget raw ''name'', jget raw ''inputSchema'') of
     (Some (JStr nm), Some (JObj schema)) \<Rightarrow>
       res_bind (validate_schema g (JObj schema)) (\<lambda>_.
       let output = (case jget raw ''outputSchema'' of Some JNull \<Rightarrow> None | x \<Rightarrow> x) in
       res_bind (case output of None \<Rightarrow> Inr () | Some x \<Rightarrow> validate_schema g x) (\<lambda>_.
       case header_paths_of (JObj schema) of
         Inl e \<Rightarrow> if is_protocol_error e then Inr None else Inl e
       | Inr _ \<Rightarrow>
           res_bind (parse_icons (jget_none raw ''icons'')) (\<lambda>icons.
           res_bind (make_mcp_tool \<lparr>mt_name = nm, mt_title = jget_none raw ''title'',
             mt_description = jget_none raw ''description'', mt_icons = icons, mt_input_schema = JObj schema,
             mt_output_schema = output,
             mt_annotations = (if py_truthy (jget_none raw ''annotations'') then jget_none raw ''annotations'' else JObj [])\<rparr>)
             (\<lambda>t. Inr (Some t)))))
   | _ \<Rightarrow> Inl (protocol_error ''malformed MCP tool descriptor''))"

text \<open>The cache and catalog fields of one page; a Python \<open>bool\<close> is an \<open>int\<close>.\<close>

definition page_fields :: "(string \<times> json) list \<Rightarrow> (exn, json list \<times> int \<times> string) result" where
  "page_fields result =
     (let bad = protocol_error ''invalid MCP 2026-07-28 tools/list cache/catalog fields'';
          scope = jget_none (JObj result) ''cacheScope'';
          ttl = (case jget_none (JObj result) ''ttlMs'' of JInt i \<Rightarrow> Some i | JBool b \<Rightarrow> Some (if b then 1 else 0) | _ \<Rightarrow> None)
      in case (map_of result ''tools'', ttl) of
        (Some (JList tools), Some t) \<Rightarrow>
          if t < 0 then Inl bad
          else res_bind (in_strings scope [''public'', ''private'']) (\<lambda>ok.
            if ok then Inr (tools, t, py_str scope) else Inl bad)
      | _ \<Rightarrow> Inl bad)"

fun parse_tools :: "'w gateway \<Rightarrow> json list \<Rightarrow> mcp_tool list \<Rightarrow> (exn, mcp_tool list) result" where
  "parse_tools g [] ds = Inr ds"
| "parse_tools g (raw # raws) ds =
     res_bind (parse_tool g raw) (\<lambda>t.
     let ds' = (case t of None \<Rightarrow> ds | Some x \<Rightarrow> ds @ [x]) in
     if mp_max_catalog_tools (gt_policy g) < int (length ds')
     then Inl (protocol_error ''MCP catalog exceeds tool limit'')
     else parse_tools g raws ds')"

definition upstream :: "'w gateway \<Rightarrow> string \<Rightarrow> (string \<times> json) list \<Rightarrow> string option \<Rightarrow> (string \<times> string) list \<Rightarrow>
    ('w gateway_state, exn, (string \<times> json) list) action" where
  "upstream g method params nm headers = act_zoom gs_world gs_world_update (gt_transport g method params nm headers)"

text \<open>The loop over pages: \<open>range(max_catalog_pages)\<close> bounds it.\<close>

fun list_pages :: "'w gateway \<Rightarrow> nat \<Rightarrow> mcp_tool list \<Rightarrow> string list \<Rightarrow> int list \<Rightarrow> string option \<Rightarrow> string option \<Rightarrow>
    string list \<Rightarrow> ('w gateway_state, exn, mcp_catalog) action" where
  "list_pages g 0 ds pages ttls scope cursor seen = act_raise (protocol_error ''tools/list exceeded page limit'')"
| "list_pages g (Suc n) ds pages ttls scope cursor seen =
     act_bind (upstream g ''tools/list'' (case cursor of None \<Rightarrow> [] | Some c \<Rightarrow> [(''cursor'', JStr c)]) None []) (\<lambda>result.
     act_bind (act_of (page_fields result)) (\<lambda>(tools, ttl, page_scope).
     act_bind (act_of (raise_if (scope \<noteq> None \<and> scope \<noteq> Some page_scope)
       (protocol_error ''tools/list cacheScope changed across pages''))) (\<lambda>_.
     act_bind (act_of (parse_tools g tools ds)) (\<lambda>ds'.
     let pages' = pages @ [json_digest (JObj result)]; ttls' = ttls @ [ttl] in
     case jget_none (JObj result) ''nextCursor'' of
       JNull \<Rightarrow> act_of (make_mcp_catalog ds' pages' page_scope (Min (set ttls')))
     | JStr c \<Rightarrow>
         if c = [] \<or> c \<in> set seen then act_raise (protocol_error ''invalid or looping tools/list cursor'')
         else list_pages g n ds' pages' ttls' (Some page_scope) (Some c) (c # seen)
     | _ \<Rightarrow> act_raise (protocol_error ''invalid or looping tools/list cursor'')))))"

definition list_tools :: "'w gateway \<Rightarrow> ('w gateway_state, exn, mcp_catalog) action" where
  "list_tools g = list_pages g (nat (mp_max_catalog_pages (gt_policy g))) [] [] [] None None []"

section \<open>Opening\<close>

definition all_strings :: "json list \<Rightarrow> string list option" where
  "all_strings xs = (if list_all (\<lambda>x. case x of JStr _ \<Rightarrow> True | _ \<Rightarrow> False) xs then Some (map py_str xs) else None)"

definition discover :: "'w gateway \<Rightarrow> ('w gateway_state, exn, mcp_server) action" where
  "discover g =
     act_bind (upstream g ''server/discover'' [] None []) (\<lambda>result.
     act_of (case (map_of result ''supportedVersions'', map_of result ''capabilities'', map_of result ''serverInfo'') of
       (Some (JList versions), Some (JObj capabilities), Some (JObj info)) \<Rightarrow>
         (case (all_strings versions, map_of info ''name'', map_of info ''version'') of
            (Some vs, Some (JStr nm), Some (JStr v)) \<Rightarrow>
              make_mcp_server \<lparr>mv_supported_versions = vs, mv_server_name = nm, mv_server_version = v,
                mv_capabilities = JObj capabilities\<rparr>
          | _ \<Rightarrow> Inl (protocol_error ''invalid server/discover response''))
     | _ \<Rightarrow> Inl (protocol_error ''invalid server/discover response'')))"

definition gateway_describe :: "'w gateway \<Rightarrow> 'w gateway_state \<Rightarrow> (exn, mcp_gateway_description) result" where
  "gateway_describe g s = (case (gs_server s, gs_catalog s) of
     (Some server, Some catalog) \<Rightarrow> Inr
       \<lparr>md_gateway_name = ''avp-mcp-verification-gateway'', md_gateway_version = gateway_version,
        md_protocol_version = mcp_protocol_version, md_upstream_url_digest = json_digest (JStr (gt_endpoint g)),
        md_server_digest = mcp_server_identity_digest server,
        md_baseline_catalog_digest = mcp_catalog_digest catalog,
        md_allowed_tools = sort (mp_allowed_tools (gt_policy g))\<rparr>
   | _ \<Rightarrow> Inl (protocol_error ''MCP gateway is not open''))"

definition gateway_open :: "'w gateway \<Rightarrow> ('w gateway_state, exn, mcp_gateway_description) action" where
  "gateway_open g =
     act_bind (discover g) (\<lambda>server.
     act_bind (act_of (raise_if (mcp_protocol_version \<notin> set (mv_supported_versions server))
       (protocol_error (''upstream does not support MCP '' @ mcp_protocol_version)))) (\<lambda>_.
     act_bind (act_of (raise_if (jget (mv_capabilities server) ''tools'' = None)
       (protocol_error ''upstream MCP server does not advertise tools capability''))) (\<lambda>_.
     act_bind (list_tools g) (\<lambda>catalog.
     let missing = filter (\<lambda>nm. mcp_tool_named catalog nm = None) (sort (mp_allowed_tools (gt_policy g))) in
     act_bind (act_of (raise_if (missing \<noteq> []) (McpExn MCPPermissionDenied
       (''allowed AVS tools missing from MCP catalog: '' @ py_repr (jstrs missing))))) (\<lambda>_.
     act_bind (act_modify (\<lambda>s. s\<lparr>gs_server := Some server, gs_catalog := Some catalog\<rparr>)) (\<lambda>_.
     act_read (gateway_describe g)))))))"

definition refresh_catalog :: "'w gateway \<Rightarrow> ('w gateway_state, exn, mcp_catalog) action" where
  "refresh_catalog g =
     act_bind (act_read (\<lambda>s. case gs_catalog s of None \<Rightarrow> Inl (protocol_error ''MCP gateway is not open'') | Some c \<Rightarrow> Inr c))
       (\<lambda>baseline.
     act_bind (list_tools g) (\<lambda>catalog.
     act_bind (act_of (raise_if (mcp_catalog_digest catalog \<noteq> mcp_catalog_digest baseline)
       (McpExn MCPSchemaDriftError ''MCP tool catalog drift detected''))) (\<lambda>_.
     act_return catalog)))"

section \<open>Calling a tool\<close>

fun argument_at :: "json \<Rightarrow> string list \<Rightarrow> json" where
  "argument_at v [] = v"
| "argument_at (JObj kvs) (k # ks) = (case map_of kvs k of None \<Rightarrow> JNull | Some v \<Rightarrow> argument_at v ks)"
| "argument_at v (k # ks) = JNull"

definition header_text :: "json \<Rightarrow> json \<Rightarrow> (exn, string) result" where
  "header_text kind value =
     (if kind = JStr ''integer'' then
        (let i = (case value of JInt i \<Rightarrow> Some i | JFloat f \<Rightarrow> float_integral f | _ \<Rightarrow> None)
         in case i of
              None \<Rightarrow> Inl (protocol_error ''x-mcp-header integer value is invalid'')
            | Some n \<Rightarrow> if max_safe_integer < \<bar>n\<bar>
                then Inl (protocol_error ''x-mcp-header integer is outside safe range'') else Inr (string_of_int n))
      else if kind = JStr ''boolean'' then
        (case value of JBool b \<Rightarrow> Inr (if b then ''true'' else ''false'')
         | _ \<Rightarrow> Inl (protocol_error ''x-mcp-header boolean value is invalid''))
      else if kind = JStr ''string'' then
        (case value of JStr s \<Rightarrow> Inr s | _ \<Rightarrow> Inl (protocol_error ''x-mcp-header string value is invalid''))
      else Inl (protocol_error ''unsupported x-mcp-header primitive type''))"

fun collect_headers :: "json \<Rightarrow> header_paths \<Rightarrow> (string \<times> string) list \<Rightarrow> (exn, (string \<times> string) list) result" where
  "collect_headers args [] headers = Inr headers"
| "collect_headers args ((path, nm, kind) # rest) headers =
     (case argument_at args path of
        JNull \<Rightarrow> collect_headers args rest headers
      | v \<Rightarrow> res_bind (header_text kind v) (\<lambda>t.
          collect_headers args rest (AList.update (''Mcp-Param-'' @ nm) (encode_mcp_header_value t) headers)))"

definition extract_mcp_headers :: "json \<Rightarrow> json \<Rightarrow> (exn, (string \<times> string) list) result" where
  "extract_mcp_headers schema args = res_bind (header_paths_of schema) (\<lambda>paths. collect_headers args paths [])"

fun add_trace_headers :: "(string \<times> string) list \<Rightarrow> (string \<times> string) list \<Rightarrow> (exn, (string \<times> string) list) result" where
  "add_trace_headers [] headers = Inr headers"
| "add_trace_headers ((k, v) # rest) headers =
     (if lower k \<in> set (map (lower \<circ> fst) headers)
      then Inl (protocol_error (''trace header collides with MCP parameter header: '' @ k))
      else add_trace_headers rest (AList.update k v headers))"

definition normalize_call_result :: "(string \<times> json) list \<Rightarrow> (exn, (string \<times> json) list) result" where
  "normalize_call_result result =
     (let rt = jget_none (JObj result) ''resultType'' in
      if rt = JStr ''input_required''
      then Inl (protocol_error ''MCP MRTR input_required is not supported by Alpha 2.5 gateway'')
      else if rt \<noteq> JNull \<and> rt \<noteq> JStr ''complete''
      then Inl (protocol_error (''unsupported MCP tools/call resultType: '' @ py_repr rt))
      else case map_of result ''isError'' of
        None \<Rightarrow> Inr result
      | Some (JBool _) \<Rightarrow> Inr result
      | _ \<Rightarrow> Inl (protocol_error ''MCP tools/call isError must be boolean''))"

definition record_call :: "mcp_call_record \<Rightarrow> ('w gateway_state, exn, unit) action" where
  "record_call r =
     act_bind (act_of (make_mcp_call_record r)) (\<lambda>r. act_modify (\<lambda>s. s\<lparr>gs_records := gs_records s @ [r]\<rparr>))"

definition drifted :: "string \<Rightarrow> mcp_tool \<Rightarrow> mcp_catalog \<Rightarrow> mcp_catalog \<Rightarrow> bool" where
  "drifted nm baseline opened active = (case mcp_tool_named active nm of
     None \<Rightarrow> True
   | Some current \<Rightarrow> mcp_schema_digest current \<noteq> mcp_schema_digest baseline \<or>
       mcp_catalog_digest active \<noteq> mcp_catalog_digest opened)"

definition send_call :: "'w gateway \<Rightarrow> string \<Rightarrow> string \<Rightarrow> (string \<times> json) list \<Rightarrow> mcp_tool \<Rightarrow> mcp_catalog \<Rightarrow>
    (string \<times> string) list \<Rightarrow> ('w gateway_state, exn, json) action" where
  "send_call g correlation nm args baseline opened headers =
     (let call = \<lparr>cr_correlation_id = correlation, cr_tool_name = nm, cr_arguments_digest = json_digest (JObj args),
            cr_result_digest = None, cr_schema_digest = mcp_schema_digest baseline,
            cr_catalog_digest = mcp_catalog_digest opened, cr_outcome = CALL_UPSTREAM_ERROR\<rparr> in
      act_bind (act_try (upstream g ''tools/call'' [(''name'', JStr nm), (''arguments'', JObj args)] (Some nm) headers)
        (\<lambda>err. case err of McpExn MCPUpstreamError _ \<Rightarrow> act_bind (record_call call) (\<lambda>_. act_raise err)
               | _ \<Rightarrow> act_raise err)) (\<lambda>result.
      act_bind (act_of (normalize_call_result result)) (\<lambda>normalized.
      let outcome = (if map_of normalized ''isError'' = Some (JBool True) then CALL_TOOL_ERROR else CALL_SUCCESS) in
      act_bind (act_of (case mt_output_schema baseline of
          Some schema \<Rightarrow> if outcome = CALL_SUCCESS
            then (case map_of normalized ''structuredContent'' of
                None \<Rightarrow> Inl (protocol_error ''tool declares outputSchema but successful response has no structuredContent'')
              | Some v \<Rightarrow> validate_instance g v schema ''structuredContent'')
            else Inr ()
        | None \<Rightarrow> Inr ())) (\<lambda>_.
      act_bind (record_call (call\<lparr>cr_result_digest := Some (json_digest (JObj normalized)), cr_outcome := outcome\<rparr>)) (\<lambda>_.
      act_return (JObj normalized))))))"

definition gateway_call_tool :: "'w gateway \<Rightarrow> string \<Rightarrow> string \<Rightarrow> (string \<times> json) list \<Rightarrow> string option \<Rightarrow>
    (string \<times> string) list \<Rightarrow> ('w gateway_state, exn, json) action" where
  "gateway_call_tool g uuid nm args correlation trace =
     act_bind (act_read (\<lambda>s. case gs_catalog s of
       None \<Rightarrow> Inl (protocol_error ''MCP gateway is not open'') | Some c \<Rightarrow> Inr c)) (\<lambda>opened.
     act_bind (act_of (raise_if (nm \<notin> set (mp_allowed_tools (gt_policy g)))
       (McpExn MCPPermissionDenied (''MCP tool is not permitted by compiled AVS policy: '' @ nm)))) (\<lambda>_.
     act_bind (act_of (case mcp_tool_named opened nm of
       None \<Rightarrow> Inl (protocol_error (''baseline MCP catalog has no tool: '' @ nm)) | Some t \<Rightarrow> Inr t)) (\<lambda>baseline.
     act_bind (if mp_detect_schema_drift (gt_policy g) then list_tools g else act_return opened) (\<lambda>active.
     act_bind (act_of (raise_if (drifted nm baseline opened active) (McpExn MCPSchemaDriftError
       (''MCP tool catalog/schema drift detected before call: '' @ nm)))) (\<lambda>_.
     act_bind (act_of (validate_instance g (JObj args) (mt_input_schema baseline) ''tool arguments'')) (\<lambda>_.
     act_bind (act_of (extract_mcp_headers (mt_input_schema baseline) (JObj args))) (\<lambda>headers.
     act_bind (act_of (add_trace_headers trace headers)) (\<lambda>all_headers.
     send_call g (case correlation of None \<Rightarrow> ''mcp_'' @ take 16 uuid | Some c \<Rightarrow> if c = [] then ''mcp_'' @ take 16 uuid else c)
       nm args baseline opened all_headers))))))))"

section \<open>Header values survive transport\<close>

text \<open>The receiver's reading of a mirrored header value.\<close>

fun utf8_decode :: "bytes \<Rightarrow> string" where
  "utf8_decode [] = []"
| "utf8_decode [b] = [char_of (unat b)]"
| "utf8_decode (b # c # rest) =
     (if unat b < 128 then char_of (unat b) # utf8_decode (c # rest)
      else char_of ((unat b - 192) * 64 + (unat c - 128)) # utf8_decode rest)"

definition decode_mcp_header_value :: "string \<Rightarrow> string" where
  "decode_mcp_header_value s =
     (if matches_sentinel s
      then utf8_decode (b64_decode (take (length s - length b64_prefix - length b64_suffix) (drop (length b64_prefix) s)))
      else s)"

lemma char_small: "(of_char (c :: char) :: nat) < 256"
  by (cases c) (simp add: of_char_def)

lemma unat_small: "n < 256 \<Longrightarrow> unat (word_of_nat n :: 8 word) = n"
  by (simp add: unat_of_nat)

lemma utf8_decode_char: "utf8_decode (utf8_char c @ rest) = c # utf8_decode rest"
proof (cases "(of_char c :: nat) < 128")
  case True
  then have "unat (word_of_nat (of_char c) :: 8 word) = of_char c" by (intro unat_small) simp
  with True show ?thesis by (cases rest) (simp_all add: utf8_char_def Let_def)
next
  case False
  let ?n = "of_char c :: nat"
  have n: "?n div 64 < 4" using char_small [of c] by (simp add: div_less_iff_less_mult)
  have "?n mod 64 < 64" by simp
  with n have "unat (word_of_nat (192 + ?n div 64) :: 8 word) = 192 + ?n div 64"
    "unat (word_of_nat (128 + ?n mod 64) :: 8 word) = 128 + ?n mod 64"
    by (intro unat_small, linarith)+
  with False show ?thesis by (simp del: of_nat_add add: utf8_char_def Let_def)
qed

lemma utf8_roundtrip: "utf8_decode (utf8 s) = s"
  unfolding utf8_def by (induction s) (simp_all add: utf8_decode_char)

lemma encoded_matches_sentinel: "matches_sentinel (b64_prefix @ x @ b64_suffix)"
  by (simp add: matches_sentinel_def starts_with_def ends_with_def b64_prefix_def b64_suffix_def)

lemma decode_encode: "decode_mcp_header_value (encode_mcp_header_value v) = v"
  using encoded_matches_sentinel [of "b64_encode (utf8 v)"]
  by (auto simp: encode_mcp_header_value_def decode_mcp_header_value_def b64_roundtrip utf8_roundtrip)

lemma b64_field: "list_all field_char (b64_encode bs)"
proof -
  have alphabet: "list_all field_char (b64_alphabet @ ''='')"
    by (simp add: b64_alphabet_def field_char_def)
  have "set (b64_encode bs) \<subseteq> set (b64_alphabet @ ''='')"
    by (induction bs rule: b64_encode.induct) (auto simp: Let_def b64_char_in)
  with alphabet show ?thesis by (auto simp: list_all_iff)
qed

lemma encoded_field_safe: "list_all field_char (encode_mcp_header_value v)" "\<not> edge_blank (encode_mcp_header_value v)"
  using b64_field [of "utf8 v"]
  by (auto simp: encode_mcp_header_value_def b64_prefix_def b64_suffix_def field_char_def edge_blank_def is_blank_def)

end
