(* ===== verification/AVP_GatewayFacts.thy ===== *)
theory AVP_GatewayFacts
  imports AVP_Gateway
begin

text \<open>
  What the verification gateway guarantees over any MCP server. The server is an arbitrary transport
  whose requests are logged; the safety of the gateway is a statement about that log.
\<close>

section \<open>A logging transport\<close>

type_synonym request = "string \<times> (string \<times> json) list \<times> string option \<times> (string \<times> string) list"

definition logged :: "'v mcp_transport \<Rightarrow> ('v \<times> request list) mcp_transport" where
  "logged tr m ps nm hs = (\<lambda>(w, log). case tr m ps nm hs w of (r, w') \<Rightarrow> (r, (w', log @ [(m, ps, nm, hs)])))"

definition log_of :: "('v \<times> request list) gateway_state \<Rightarrow> request list" where
  "log_of s = snd (gs_world s)"

text \<open>Listing only reads: catalog, server and records stay, and the log grows by listings alone.\<close>

definition only_lists :: "('v \<times> request list) gateway_state \<Rightarrow> ('v \<times> request list) gateway_state \<Rightarrow> bool" where
  "only_lists s t \<longleftrightarrow> gs_catalog t = gs_catalog s \<and> gs_server t = gs_server s \<and> gs_records t = gs_records s \<and>
     (\<exists>es. log_of t = log_of s @ es \<and> list_all (\<lambda>e. fst e \<noteq> ''tools/call'') es)"

interpretation lists: evolution only_lists
proof
  show "only_lists s s" for s :: "('v \<times> request list) gateway_state" by (simp add: only_lists_def)
next
  fix s t u :: "('v \<times> request list) gateway_state"
  assume "only_lists s t" "only_lists t u"
  then obtain es fs where "log_of t = log_of s @ es" "log_of u = log_of t @ fs"
    "list_all (\<lambda>e. fst e \<noteq> ''tools/call'') es" "list_all (\<lambda>e. fst e \<noteq> ''tools/call'') fs"
    by (auto simp: only_lists_def)
  then have "\<exists>gs. log_of u = log_of s @ gs \<and> list_all (\<lambda>e. fst e \<noteq> ''tools/call'') gs"
    by (intro exI [of _ "es @ fs"]) simp
  with \<open>only_lists s t\<close> \<open>only_lists t u\<close> show "only_lists s u" by (simp add: only_lists_def)
qed

lemma upstream_log:
  assumes "gt_transport g = logged tr"
  shows "upstream g m ps nm hs s = (r, s') \<Longrightarrow> gs_catalog s' = gs_catalog s \<and> gs_server s' = gs_server s \<and>
    gs_records s' = gs_records s \<and> log_of s' = log_of s @ [(m, ps, nm, hs)]"
  using assms by (auto simp: upstream_def act_zoom_def logged_def log_of_def split: prod.splits)

lemma upstream_lists:
  assumes "gt_transport g = logged tr" "m \<noteq> ''tools/call''"
  shows "evolves only_lists (upstream g m ps nm hs)"
  by (rule evolvesI, drule upstream_log [OF assms(1)]) (simp add: only_lists_def assms(2))

lemma list_pages_lists:
  assumes g: "gt_transport g = logged tr"
  shows "evolves only_lists (list_pages g n ds pages ttls scope cursor seen)"
proof (induction n arbitrary: ds pages ttls scope cursor seen)
  case 0
  show ?case by (simp add: lists.raise_act)
next
  case (Suc n)
  have cont: "evolves only_lists (case v of
       JNull \<Rightarrow> act_of m
     | JStr c \<Rightarrow> if c = [] \<or> c \<in> set seen then act_raise err else list_pages g n ds' ps' ts' sc' (Some c) (c # seen)
     | _ \<Rightarrow> act_raise err)" for v m err ds' ps' ts' sc'
    by (cases v) (auto intro: lists.rules Suc.IH)
  show ?case
    unfolding list_pages.simps Let_def
    by (intro lists.bind lists.case_pair lists.of_result upstream_lists [OF g] cont) simp
qed

lemma list_tools_lists: "gt_transport g = logged tr \<Longrightarrow> evolves only_lists (list_tools g)"
  unfolding list_tools_def by (rule list_pages_lists)

section \<open>The gate of a tool call\<close>

definition calls :: "request list \<Rightarrow> request list" where
  "calls log = filter (\<lambda>e. fst e = ''tools/call'') log"

definition permitted_call :: "('v \<times> request list) gateway \<Rightarrow> mcp_catalog option \<Rightarrow> string \<Rightarrow> (string \<times> json) list \<Rightarrow>
    request \<Rightarrow> bool" where
  "permitted_call g catalog nm args e \<longleftrightarrow>
     (\<exists>opened t hs. catalog = Some opened \<and> mcp_tool_named opened nm = Some t \<and>
        nm \<in> set (mp_allowed_tools (gt_policy g)) \<and>
        sl_validate (gt_schemas g) (mt_input_schema t) (JObj args) = None \<and>
        e = (''tools/call'', [(''name'', JStr nm), (''arguments'', JObj args)], Some nm, hs))"

lemma only_lists_calls: "only_lists s t \<Longrightarrow> calls (log_of t) = calls (log_of s)"
  by (auto simp: only_lists_def calls_def list_all_iff filter_empty_conv)

lemma record_call_frame:
  "record_call r s = (x, s') \<Longrightarrow> log_of s' = log_of s \<and> gs_catalog s' = gs_catalog s \<and>
    (gs_records s' = gs_records s \<or> gs_records s' = gs_records s @ [r])"
  by (auto simp: record_call_def action_simps make_mcp_call_record_def res_bind_def log_of_def
      split: sum.splits if_splits)

context evolution
begin

lemma after_try:
  assumes "m s = (x, s1)" "\<And>e. evolves R (h e)" "\<And>a. evolves R (k a)" "act_bind (act_try m h) k s = (r, s')"
  shows "R s1 s'"
proof (cases x)
  case (Inl e)
  obtain y s2 where h: "h e s1 = (y, s2)" by (cases "h e s1")
  then have "R s1 s2" using assms(2) by (auto dest: evolvesD)
  moreover have "R s2 s'"
    using assms(1,3,4) h Inl by (cases y) (auto simp: act_bind_def act_try_def refl dest: evolvesD)
  ultimately show ?thesis by (rule trans)
next
  case (Inr a)
  with assms(1,3,4) show ?thesis by (auto simp: act_bind_def act_try_def dest: evolvesD)
qed

end

definition quiet :: "('v \<times> request list) gateway_state \<Rightarrow> ('v \<times> request list) gateway_state \<Rightarrow> bool" where
  "quiet s t \<longleftrightarrow> log_of t = log_of s \<and> gs_catalog t = gs_catalog s"

interpretation quiet: evolution quiet
  by unfold_locales (simp_all add: quiet_def)

lemma record_call_quiet: "evolves quiet (record_call r)"
  by (rule evolvesI, drule record_call_frame) (simp add: quiet_def)

lemma send_call_log:
  assumes g: "gt_transport g = logged tr" and run: "send_call g cid nm args t opened hs s = (r, s')"
  shows "log_of s' = log_of s @ [(''tools/call'', [(''name'', JStr nm), (''arguments'', JObj args)], Some nm, hs)]"
proof -
  obtain x s1 where up: "upstream g ''tools/call'' [(''name'', JStr nm), (''arguments'', JObj args)] (Some nm) hs s = (x, s1)"
    by (cases "upstream g ''tools/call'' [(''name'', JStr nm), (''arguments'', JObj args)] (Some nm) hs s")
  have h: "evolves quiet (case err of McpExn MCPUpstreamError _ \<Rightarrow> act_bind (record_call c) (\<lambda>_. act_raise err)
               | _ \<Rightarrow> act_raise err)" for err c
    by (cases err) (auto intro: quiet.rules record_call_quiet split: mcp_error.split)
  have "quiet s1 s'"
    by (rule quiet.after_try [where m = "upstream g ''tools/call'' [(''name'', JStr nm), (''arguments'', JObj args)] (Some nm) hs"
          and s = s, OF up _ _ run [unfolded send_call_def Let_def]])
       (intro h quiet.rules record_call_quiet)+
  with upstream_log [OF g up] show ?thesis by (simp add: quiet_def)
qed

lemma call_gate:
  assumes g: "gt_transport g = logged tr" and run: "gateway_call_tool g uuid nm args cid trace s = (r, s')"
  shows "calls (log_of s') = calls (log_of s) \<or>
    (\<exists>e. calls (log_of s') = calls (log_of s) @ [e] \<and> permitted_call g (gs_catalog s) nm args e)"
proof (cases "\<exists>opened t. gs_catalog s = Some opened \<and> nm \<in> set (mp_allowed_tools (gt_policy g)) \<and>
    mcp_tool_named opened nm = Some t")
  case False
  with run have "s' = s"
    by (auto simp: gateway_call_tool_def action_simps raise_if_def split: option.splits if_splits)
  then show ?thesis by simp
next
  case True
  then obtain opened t where c: "gs_catalog s = Some opened" "nm \<in> set (mp_allowed_tools (gt_policy g))"
    "mcp_tool_named opened nm = Some t" by blast
  obtain x s1 where ls: "(if mp_detect_schema_drift (gt_policy g) then list_tools g else act_return opened) s = (x, s1)"
    by (cases "(if mp_detect_schema_drift (gt_policy g) then list_tools g else act_return opened) s")
  have "evolves only_lists (if mp_detect_schema_drift (gt_policy g) then list_tools g else act_return opened)"
    by (intro lists.rules list_tools_lists [OF g])
  from evolvesD [OF this ls] have s1: "calls (log_of s1) = calls (log_of s)" by (rule only_lists_calls)
  show ?thesis
  proof (cases "\<exists>active headers hs. x = Inr active \<and> \<not> drifted nm t opened active \<and>
      validate_instance g (JObj args) (mt_input_schema t) ''tool arguments'' = Inr () \<and>
      extract_mcp_headers (mt_input_schema t) (JObj args) = Inr headers \<and> add_trace_headers trace headers = Inr hs")
    case False
    with run ls c have "s' = s1"
      by (auto simp: gateway_call_tool_def act_bind_def act_of_def act_read_def raise_if_def split: sum.splits if_splits)
    with s1 show ?thesis by simp
  next
    case True
    then obtain active headers hs where ok: "x = Inr active" "\<not> drifted nm t opened active"
      "validate_instance g (JObj args) (mt_input_schema t) ''tool arguments'' = Inr ()"
      "extract_mcp_headers (mt_input_schema t) (JObj args) = Inr headers" "add_trace_headers trace headers = Inr hs"
      by blast
    with run ls c obtain cid' where "send_call g cid' nm args t opened hs s1 = (r, s')"
      by (auto simp: gateway_call_tool_def act_bind_def act_of_def act_read_def raise_if_def)
    from send_call_log [OF g this] have "calls (log_of s') =
        calls (log_of s) @ [(''tools/call'', [(''name'', JStr nm), (''arguments'', JObj args)], Some nm, hs)]"
      using s1 by (simp add: calls_def)
    moreover have "sl_validate (gt_schemas g) (mt_input_schema t) (JObj args) = None"
      using ok(3) by (simp add: validate_instance_def split: option.splits)
    ultimately show ?thesis using c by (auto simp: permitted_call_def)
  qed
qed

section \<open>Sequences of operations\<close>

datatype gateway_op = OpenOp | RefreshOp
  | CallOp string string "(string \<times> json) list" "string option" "(string \<times> string) list"

fun run_gateway_op :: "'w gateway \<Rightarrow> gateway_op \<Rightarrow> ('w gateway_state, exn, unit) action" where
  "run_gateway_op g OpenOp = act_bind (gateway_open g) (\<lambda>_. act_return ())"
| "run_gateway_op g RefreshOp = act_bind (refresh_catalog g) (\<lambda>_. act_return ())"
| "run_gateway_op g (CallOp uuid nm args cid trace) =
     act_bind (gateway_call_tool g uuid nm args cid trace) (\<lambda>_. act_return ())"

text \<open>The client survives the errors.\<close>

definition run_gateway_ops :: "'w gateway \<Rightarrow> gateway_op list \<Rightarrow> ('w gateway_state, exn, unit) action" where
  "run_gateway_ops g ops = act_each (\<lambda>op. act_try (run_gateway_op g op) (\<lambda>_. act_return ())) ops"

definition allowed_call :: "'w gateway \<Rightarrow> request \<Rightarrow> bool" where
  "allowed_call g e \<longleftrightarrow> (\<exists>nm args hs. nm \<in> set (mp_allowed_tools (gt_policy g)) \<and>
     e = (''tools/call'', [(''name'', JStr nm), (''arguments'', JObj args)], Some nm, hs))"

definition guarded :: "('v \<times> request list) gateway \<Rightarrow> ('v \<times> request list) gateway_state \<Rightarrow> bool" where
  "guarded g s \<longleftrightarrow> list_all (allowed_call g) (calls (log_of s))"

lemma only_lists_guarded: "evolves only_lists m \<Longrightarrow> evolves (keeping (guarded g)) m"
  by (rule evolvesI) (auto simp: keeping_def guarded_def dest!: evolvesD only_lists_calls)

lemma discover_lists: "gt_transport g = logged tr \<Longrightarrow> evolves only_lists (discover g)"
  unfolding discover_def by (intro lists.bind lists.of_result upstream_lists) auto

lemma run_gateway_op_guarded:
  assumes g: "gt_transport g = logged tr"
  shows "evolves (keeping (guarded g)) (run_gateway_op g op)"
proof (cases op)
  case OpenOp
  have set: "evolves (keeping (guarded g)) (act_modify (\<lambda>s. s\<lparr>gs_server := x, gs_catalog := y\<rparr>))" for x y
    by (rule evolves_modify) (simp add: keeping_def guarded_def log_of_def)
  show ?thesis
    unfolding OpenOp run_gateway_op.simps gateway_open_def Let_def
    by (intro keeping.bind keeping.of_result keeping.read keeping.return set
        only_lists_guarded [OF discover_lists [OF g]] only_lists_guarded [OF list_tools_lists [OF g]])
next
  case RefreshOp
  show ?thesis
    unfolding RefreshOp run_gateway_op.simps refresh_catalog_def
    by (intro keeping.bind keeping.of_result keeping.read keeping.return
        only_lists_guarded [OF list_tools_lists [OF g]])
next
  case (CallOp uuid nm args cid trace)
  have call: "evolves (keeping (guarded g)) (gateway_call_tool g uuid nm args cid trace)"
  proof (rule evolvesI)
    fix s r s' assume "gateway_call_tool g uuid nm args cid trace s = (r, s')"
    from call_gate [OF g this] show "keeping (guarded g) s s'"
      by (auto simp: keeping_def guarded_def permitted_call_def allowed_call_def)
  qed
  show ?thesis
    unfolding CallOp run_gateway_op.simps by (intro keeping.bind keeping.return call)
qed

section \<open>Bounds on a listing\<close>

definition tool_checked :: "'w gateway \<Rightarrow> mcp_tool \<Rightarrow> bool" where
  "tool_checked g t \<longleftrightarrow> validate_schema g (mt_input_schema t) = Inr () \<and> is_ok (header_paths_of (mt_input_schema t)) \<and>
     (case mt_output_schema t of None \<Rightarrow> True | Some x \<Rightarrow> validate_schema g x = Inr ()) \<and> mt_name t \<noteq> []"

lemma parse_tool_checked: "parse_tool g raw = Inr (Some t) \<Longrightarrow> tool_checked g t"
  by (auto simp: parse_tool_def Let_def tool_checked_def make_mcp_tool_def is_ok_def
      split: option.splits json.splits sum.splits if_splits)

lemma parse_tools_checked:
  "parse_tools g raws ds = Inr ds' \<Longrightarrow> list_all (tool_checked g) ds \<Longrightarrow>
    int (length ds) \<le> mp_max_catalog_tools (gt_policy g) \<Longrightarrow>
    list_all (tool_checked g) ds' \<and> int (length ds') \<le> mp_max_catalog_tools (gt_policy g)"
proof (induction raws arbitrary: ds)
  case (Cons raw raws)
  then show ?case
    by (auto simp: Let_def dest!: parse_tool_checked split: option.splits if_splits)
qed simp

lemma list_pages_bounded:
  assumes g: "gt_transport g = logged tr"
  shows "list_pages g n ds pages ttls scope cursor seen s = (r, s') \<Longrightarrow> list_all (tool_checked g) ds \<Longrightarrow>
    int (length ds) \<le> mp_max_catalog_tools (gt_policy g) \<Longrightarrow>
    length (log_of s') \<le> length (log_of s) + n \<and>
    (case r of Inl _ \<Rightarrow> True | Inr c \<Rightarrow> list_all (tool_checked g) (mc_tools c) \<and>
       int (length (mc_tools c)) \<le> mp_max_catalog_tools (gt_policy g) \<and>
       length (mc_page_digests c) \<le> length pages + n \<and> distinct (map mt_name (mc_tools c)))"
proof (induction n arbitrary: ds pages ttls scope cursor seen s)
  case 0
  then show ?case by (auto simp: act_raise_def)
next
  case (Suc n)
  let ?ps = "case cursor of None \<Rightarrow> [] | Some c \<Rightarrow> [(''cursor'', JStr c)]"
  obtain x s1 where up: "upstream g ''tools/list'' ?ps None [] s = (x, s1)"
    by (cases "upstream g ''tools/list'' ?ps None [] s")
  from upstream_log [OF g up] have log: "length (log_of s1) = Suc (length (log_of s))" by simp
  show ?case
  proof (cases "\<exists>result tools ttl sc ds'. x = Inr result \<and> page_fields result = Inr (tools, ttl, sc) \<and>
      \<not> (scope \<noteq> None \<and> scope \<noteq> Some sc) \<and> parse_tools g tools ds = Inr ds'")
    case False
    with Suc.prems(1) up have "\<exists>err. r = Inl err" "s' = s1"
      by (auto simp: act_bind_def act_of_def raise_if_def split: sum.splits if_splits)
    with log show ?thesis by auto
  next
    case True
    then obtain result tools ttl sc ds' where ok: "x = Inr result" "page_fields result = Inr (tools, ttl, sc)"
      "\<not> (scope \<noteq> None \<and> scope \<noteq> Some sc)" "parse_tools g tools ds = Inr ds'" by blast
    from parse_tools_checked [OF ok(4) Suc.prems(2,3)] have ds': "list_all (tool_checked g) ds'"
      "int (length ds') \<le> mp_max_catalog_tools (gt_policy g)" by auto
    have rest: "(case jget_none (JObj result) ''nextCursor'' of
       JNull \<Rightarrow> act_of (make_mcp_catalog ds' (pages @ [json_digest (JObj result)]) sc (Min (set (ttls @ [ttl]))))
     | JStr c \<Rightarrow>
         if c = [] \<or> c \<in> set seen then act_raise (protocol_error ''invalid or looping tools/list cursor'')
         else list_pages g n ds' (pages @ [json_digest (JObj result)]) (ttls @ [ttl]) (Some sc) (Some c) (c # seen)
     | _ \<Rightarrow> act_raise (protocol_error ''invalid or looping tools/list cursor'')) s1 = (r, s')"
      using Suc.prems(1) up ok by (auto simp: act_bind_def act_of_def raise_if_def Let_def)
    show ?thesis
    proof (cases "jget_none (JObj result) ''nextCursor''")
      case JNull
      with rest ds' log show ?thesis
        by (auto simp: act_of_def make_mcp_catalog_def Let_def list_all_iff split: sum.splits)
    next
      case (JStr c)
      with rest log Suc.IH [OF _ ds', of "pages @ [json_digest (JObj result)]" "ttls @ [ttl]" "Some sc" "Some c" "c # seen" s1]
      show ?thesis by (auto simp: act_raise_def split: sum.splits if_splits)
    qed (use rest log in \<open>auto simp: act_raise_def\<close>)
  qed
qed

lemma send_call_record:
  assumes run: "send_call g cid nm args t opened hs s = (Inr v, s')"
  shows "\<exists>r. gs_records s' = gs_records (snd (upstream g ''tools/call'' [(''name'', JStr nm), (''arguments'', JObj args)]
      (Some nm) hs s)) @ [r] \<and> cr_correlation_id r = cid \<and> cr_tool_name r = nm \<and> cr_arguments_digest r = json_digest (JObj args) \<and>
    cr_result_digest r = Some (json_digest v) \<and> cr_schema_digest r = mcp_schema_digest t \<and>
    cr_catalog_digest r = mcp_catalog_digest opened \<and>
    (cr_outcome r = CALL_TOOL_ERROR \<longleftrightarrow> jget v ''isError'' = Some (JBool True)) \<and>
    cr_outcome r \<noteq> CALL_UPSTREAM_ERROR \<and>
    (case mt_output_schema t of None \<Rightarrow> True | Some schema \<Rightarrow> cr_outcome r = CALL_SUCCESS \<longrightarrow>
       (\<exists>x. jget v ''structuredContent'' = Some x \<and> sl_validate (gt_schemas g) schema x = None))"
proof -
  let ?up = "upstream g ''tools/call'' [(''name'', JStr nm), (''arguments'', JObj args)] (Some nm) hs"
  obtain x s1 where up: "?up s = (x, s1)" by (cases "?up s")
  have "\<exists>result. x = Inr result"
    using run up by (cases x) (auto simp: send_call_def act_bind_def act_try_def act_raise_def Let_def
        split: exn.splits mcp_error.splits sum.splits prod.splits)
  then obtain result where x: "x = Inr result" ..
  with up run show ?thesis
    by (auto simp: send_call_def act_bind_def act_try_def act_of_def Let_def record_call_def act_modify_def
        make_mcp_call_record_def validate_instance_def split: sum.splits option.splits if_splits)
qed

lemma call_tool_okE:
  assumes g: "gt_transport g = logged tr" and run: "gateway_call_tool g uuid nm args cid trace s = (Inr v, s')"
  obtains opened t active cid' hs s1 where "gs_catalog s = Some opened" "mcp_tool_named opened nm = Some t"
    "only_lists s s1" "\<not> drifted nm t opened active" "cid' = (case cid of None \<Rightarrow> ''mcp_'' @ take 16 uuid | Some c \<Rightarrow> if c = [] then ''mcp_'' @ take 16 uuid else c)"
    "send_call g cid' nm args t opened hs s1 = (Inr v, s')"
proof -
  obtain opened t active hs s1 where ok: "gs_catalog s = Some opened" "mcp_tool_named opened nm = Some t"
    "(if mp_detect_schema_drift (gt_policy g) then list_tools g else act_return opened) s = (Inr active, s1)"
    "\<not> drifted nm t opened active"
    "send_call g (case cid of None \<Rightarrow> ''mcp_'' @ take 16 uuid | Some c \<Rightarrow> if c = [] then ''mcp_'' @ take 16 uuid else c)
       nm args t opened hs s1 = (Inr v, s')"
    using run unfolding gateway_call_tool_def
    by (elim act_bind_okE) (auto split: option.splits)
  have "evolves only_lists (if mp_detect_schema_drift (gt_policy g) then list_tools g else act_return opened)"
    by (intro lists.rules list_tools_lists [OF g])
  from evolvesD [OF this ok(3)] have "only_lists s s1" .
  with ok show ?thesis by (intro that) simp_all
qed

section \<open>A concrete server\<close>

text \<open>A server with one tool, reached through the logging transport.\<close>

definition demo_schemas :: schema_library where
  "demo_schemas = \<lparr>sl_check = \<lambda>_. None, sl_validate = \<lambda>_ _. None\<rparr>"

definition demo_server :: "unit mcp_transport" where
  "demo_server m ps nm hs = (if m = ''tools/list''
     then act_return [(''tools'', JList [JObj [(''name'', JStr ''echo''), (''inputSchema'', JObj [])]]),
       (''ttlMs'', JInt 5), (''cacheScope'', JStr ''public'')]
     else act_return [(''content'', JList [])])"

definition demo_gateway :: "(unit \<times> request list) gateway" where
  "demo_gateway = \<lparr>gt_transport = logged demo_server, gt_policy = \<lparr>mp_allowed_tools = [''echo''],
     mp_detect_schema_drift = True, mp_max_catalog_tools = 4, mp_max_catalog_pages = 1, mp_max_schema_depth = 3\<rparr>,
     gt_endpoint = ''https://mcp'', gt_schemas = demo_schemas\<rparr>"

definition demo_tool :: mcp_tool where
  "demo_tool = \<lparr>mt_name = ''echo'', mt_title = JNull, mt_description = JNull, mt_icons = [], mt_input_schema = JObj [],
     mt_output_schema = None, mt_annotations = JObj []\<rparr>"

definition demo_page :: "(string \<times> json) list" where
  "demo_page = [(''tools'', JList [JObj [(''name'', JStr ''echo''), (''inputSchema'', JObj [])]]),
       (''ttlMs'', JInt 5), (''cacheScope'', JStr ''public'')]"

definition demo_catalog :: mcp_catalog where
  "demo_catalog = \<lparr>mc_tools = [demo_tool], mc_page_digests = [json_digest (JObj demo_page)],
     mc_cache_scope = ''public'', mc_min_ttl_ms = 5\<rparr>"

definition demo_opened :: "(unit \<times> request list) gateway_state" where
  "demo_opened = \<lparr>gs_server = None, gs_catalog = Some demo_catalog, gs_records = [], gs_world = ((), [])\<rparr>"

lemma demo_list:
  "list_tools demo_gateway demo_opened =
     (Inr demo_catalog, demo_opened\<lparr>gs_world := ((), [(''tools/list'', [], None, [])])\<rparr>)"
  by (simp add: list_tools_def demo_gateway_def demo_opened_def demo_server_def logged_def upstream_def action_simps
      result_simps page_fields_def jget_none_def in_strings_def parse_tool_def validate_schema_def
      validate_schema_depth.simps external_ref_def demo_schemas_def header_paths_of_def parse_icons_def py_truthy_def py_str_def
      make_mcp_tool_def make_mcp_catalog_def demo_catalog_def demo_tool_def demo_page_def)

lemma demo_fields:
  "mp_detect_schema_drift (gt_policy demo_gateway)" "mp_allowed_tools (gt_policy demo_gateway) = [''echo'']"
  "gs_catalog demo_opened = Some demo_catalog" "mcp_tool_named demo_catalog ''echo'' = Some demo_tool"
  "\<not> drifted ''echo'' demo_tool demo_catalog demo_catalog"
  "validate_instance demo_gateway v schema label = Inr ()" "mt_output_schema demo_tool = None"
  "extract_mcp_headers (mt_input_schema demo_tool) (JObj []) = Inr []"
  "upstream demo_gateway ''tools/call'' ps nm hs s =
     (Inr [(''content'', JList [])], s\<lparr>gs_world := ((), snd (gs_world s) @ [(''tools/call'', ps, nm, hs)])\<rparr>)"
  by (simp_all add: demo_gateway_def demo_opened_def demo_server_def logged_def upstream_def action_simps result_simps
      mcp_tool_named_def demo_catalog_def demo_tool_def drifted_def validate_instance_def demo_schemas_def
      extract_mcp_headers_def header_paths_of_def split: prod.split)

lemma demo_call:
  "\<exists>s'. gateway_call_tool demo_gateway ''u'' ''echo'' [] (Some ''c1'') [(''traceparent'', ''t'')] demo_opened =
     (Inr (JObj [(''content'', JList [])]), s')"
  by (simp add: gateway_call_tool_def action_simps result_simps demo_list demo_fields send_call_def
      normalize_call_result_def jget_none_def record_call_def make_mcp_call_record_def Let_def)

section \<open>Properties\<close>

text \<open>C23: The gateway's gate: for any server, policy, schema library and state, one \<open>call_tool\<close> sends at most one
  \<open>tools/call\<close> to the server, and if it sends one, the gateway is open, the tool is allowed by the policy and in
  the catalog read at opening, and the sent arguments are the given ones and passed the tool's input schema.\<close>

theorem gateway_call_is_gated:
  "case gateway_call_tool (g\<lparr>gt_transport := logged tr\<rparr>) uuid nm args cid trace s of (r, s') \<Rightarrow>
     calls (log_of s') = calls (log_of s) \<or>
     (\<exists>e. calls (log_of s') = calls (log_of s) @ [e] \<and> permitted_call g (gs_catalog s) nm args e)"
proof -
  let ?g = "g\<lparr>gt_transport := logged tr\<rparr>"
  obtain r s' where run: "gateway_call_tool ?g uuid nm args cid trace s = (r, s')"
    by (cases "gateway_call_tool ?g uuid nm args cid trace s")
  have "permitted_call ?g = permitted_call g" by (intro ext) (simp add: permitted_call_def)
  with call_gate [OF _ run, of tr] run show ?thesis by simp
qed

text \<open>Whatever the clients ask for, in whatever order (opening, refreshing, calling, with errors ignored), a
  server behind a fresh gateway only ever sees \<open>tools/call\<close> requests for tools the policy allows.\<close>

theorem server_sees_only_allowed_calls:
  assumes "make_gateway (logged tr) p endpoint schemas (w, []) = Inr (g, s)"
  shows "case run_gateway_ops g ops s of (r, s') \<Rightarrow> list_all (allowed_call g) (calls (log_of s'))"
proof -
  from assms have g: "gt_transport g = logged tr" and s: "guarded g s"
    by (auto simp: make_gateway_def guarded_def log_of_def calls_def)
  have "evolves (keeping (guarded g)) (run_gateway_ops g ops)"
    unfolding run_gateway_ops_def
    by (intro keeping.each keeping.try_act keeping.return run_gateway_op_guarded [OF g])
  from evolves_at [OF this, of s] s show ?thesis
    by (auto simp: keeping_def guarded_def split: prod.split)
qed

theorem server_sees_only_allowed_calls_witness:
  "\<forall>p. case run_gateway_ops (demo_gateway\<lparr>gt_policy := p\<rparr>) [OpenOp, CallOp ''u'' ''echo'' [] None []]
      (demo_opened\<lparr>gs_catalog := None\<rparr>) of (r, s') \<Rightarrow>
     list_all (allowed_call (demo_gateway\<lparr>gt_policy := p\<rparr>)) (calls (log_of s'))"
  by (intro allI server_sees_only_allowed_calls [where endpoint = "''https://mcp''" and tr = demo_server and schemas = demo_schemas and w = "()"])
    (simp add: make_gateway_def demo_gateway_def demo_opened_def result_simps)

text \<open>A call that returns left evidence: exactly one record was appended, for the given tool, with the digests of
  the arguments and of the very result the caller got, the schema and catalog the gateway was opened with, and an
  outcome that is a tool error exactly if the result says so; a success under an output schema conforms to it.\<close>

theorem returned_call_is_recorded:
  assumes "gt_transport g = logged tr" "gateway_call_tool g uuid nm args cid trace s = (Inr v, s')"
  shows "\<exists>r t opened. gs_records s' = gs_records s @ [r] \<and> gs_catalog s = Some opened \<and>
    mcp_tool_named opened nm = Some t \<and> cr_tool_name r = nm \<and> cr_arguments_digest r = json_digest (JObj args) \<and>
    cr_result_digest r = Some (json_digest v) \<and> cr_schema_digest r = mcp_schema_digest t \<and>
    cr_catalog_digest r = mcp_catalog_digest opened \<and>
    (cr_outcome r = CALL_TOOL_ERROR \<longleftrightarrow> jget v ''isError'' = Some (JBool True)) \<and> cr_outcome r \<noteq> CALL_UPSTREAM_ERROR \<and>
    (case mt_output_schema t of None \<Rightarrow> True | Some schema \<Rightarrow> cr_outcome r = CALL_SUCCESS \<longrightarrow>
       (\<exists>x. jget v ''structuredContent'' = Some x \<and> sl_validate (gt_schemas g) schema x = None))"
proof (rule call_tool_okE [OF assms])
  fix opened t active cid' hs s1
  assume c: "gs_catalog s = Some opened" "mcp_tool_named opened nm = Some t" "only_lists s s1"
    "send_call g cid' nm args t opened hs s1 = (Inr v, s')"
  let ?up = "upstream g ''tools/call'' [(''name'', JStr nm), (''arguments'', JObj args)] (Some nm) hs"
  obtain x s2 where up: "?up s1 = (x, s2)" by (cases "?up s1")
  from upstream_log [OF assms(1) up] c(3) have "gs_records s2 = gs_records s" by (simp add: only_lists_def)
  with send_call_record [OF c(4)] up c(1,2) show ?thesis by auto
qed

theorem returned_call_is_recorded_witness:
  "\<exists>v s' r. gateway_call_tool demo_gateway ''u'' ''echo'' [] (Some ''c1'') [(''traceparent'', ''t'')] demo_opened = (Inr v, s') \<and>
     gs_records s' = [r] \<and> cr_tool_name r = ''echo'' \<and> cr_result_digest r = Some (json_digest v)"
proof -
  have g: "gt_transport demo_gateway = logged demo_server" by (simp add: demo_gateway_def)
  have "gs_records demo_opened = []" by (simp add: demo_opened_def)
  with demo_call returned_call_is_recorded [OF g] show ?thesis by fastforce
qed

text \<open>C24: Listing the tools ends: it sends at most \<open>max_catalog_pages\<close> requests, and a catalog it returns holds at most
  \<open>max_catalog_tools\<close> tools with distinct, non-empty names, every schema of which passed the depth, reference and
  schema checks and has header annotations that can be mirrored.\<close>

theorem listing_is_bounded_and_checked:
  assumes "0 \<le> mp_max_catalog_tools (gt_policy g)"
  shows "case list_tools (g\<lparr>gt_transport := logged tr\<rparr>) s of (r, s') \<Rightarrow>
    int (length (log_of s')) \<le> int (length (log_of s)) + max 0 (mp_max_catalog_pages (gt_policy g)) \<and>
    (case r of Inl _ \<Rightarrow> True | Inr c \<Rightarrow> list_all (tool_checked g) (mc_tools c) \<and>
       int (length (mc_tools c)) \<le> mp_max_catalog_tools (gt_policy g) \<and> distinct (map mt_name (mc_tools c)))"
proof -
  let ?g = "g\<lparr>gt_transport := logged tr\<rparr>"
  obtain r s' where run: "list_tools ?g s = (r, s')" by (cases "list_tools ?g s")
  have "validate_schema ?g = validate_schema g" by (intro ext) (simp add: validate_schema_def)
  then have "tool_checked ?g = tool_checked g" by (intro ext) (simp add: tool_checked_def cong: option.case_cong)
  with list_pages_bounded [of ?g tr, OF _ run [unfolded list_tools_def]] assms run show ?thesis
    by (auto split: sum.splits)
qed

theorem listing_is_bounded_and_checked_witness:
  "list_all (tool_checked demo_gateway) (mc_tools demo_catalog)"
proof -
  have "demo_gateway\<lparr>gt_transport := logged demo_server\<rparr> = demo_gateway" by (simp add: demo_gateway_def)
  moreover have "0 \<le> mp_max_catalog_tools (gt_policy demo_gateway)" by (simp add: demo_gateway_def)
  ultimately show ?thesis
    using listing_is_bounded_and_checked [of demo_gateway demo_opened demo_server] demo_list by simp
qed

text \<open>A parameter mirrored into an HTTP header arrives unchanged at any value: the encoded value consists of
  visible ASCII, blanks and tabs without blanks at its ends, so it is safe as a field value, and decoding the
  \<open>=?base64?\<close> form gives the argument back.\<close>

theorem mirrored_header_roundtrip:
  "decode_mcp_header_value (encode_mcp_header_value v) = v \<and> list_all field_char (encode_mcp_header_value v) \<and>
   \<not> edge_blank (encode_mcp_header_value v)"
  using decode_encode encoded_field_safe by simp

text \<open>Gaps of the annotation check. A header name that ends in a line feed matches the token pattern; an annotation
  below the \<open>items\<close> of an array is neither used nor rejected when it stands under \<open>properties\<close>, and is rejected
  anywhere else; a property with a list of types raises a \<open>TypeError\<close> where an MCP error is meant.\<close>

theorem header_annotation_gaps:
  "token_match (''X'' @ [CHR 0x0A]) \<and>
   header_paths_of (JObj [(''items'', JObj [(''properties'', JObj [(''a'', JObj [(''x-mcp-header'', h)])])])]) = Inr [] \<and>
   header_paths_of (JObj [(''items'', JObj [(''x-mcp-header'', h)])]) = Inl unreachable_annotation \<and>
   header_paths_of (JObj [(''properties'', JObj [(''a'', JObj
     [(''type'', JList [JStr ''string'', JStr ''null'']), (''x-mcp-header'', JStr ''X'')])])]) =
     Inl (TypeError (''unhashable type: '' @ py_repr_str ''list''))"
  by (intro conjI) (simp_all add: token_match_def token_char_def is_alnum_ascii_def is_upper_ascii_def Let_def
      header_paths_of_def result_simps check_annotation_def jget_none_def in_strings_def)

end
