(* ===== verification/AVP_Fabric.thy ===== *)
theory AVP_Fabric
  imports AVP_Boundary
begin

text \<open>
  \<^verbatim>\<open>fabric/models.py\<close> and \<^verbatim>\<open>fabric/runtime.py\<close>: an Environment composed of several resources, its
  lifecycle, and the aggregation of per-resource outcomes. The resources of one Fabric have distinct
  identifiers, hence are distinct objects, so their states are a list. The laws are the ones of the
  Environment Fabric contract (\<^verbatim>\<open>spec/fabric\<close>), cited by requirement number.
\<close>

section \<open>Models\<close>

datatype participation = REQUIRED | OPTIONAL

fun participation_value :: "participation \<Rightarrow> string" where
  "participation_value REQUIRED = ''REQUIRED''"
| "participation_value OPTIONAL = ''OPTIONAL''"

datatype resource_kind = KindState | KindBrowser | KindNetwork | KindTime | KindCompute

fun resource_kind_value :: "resource_kind \<Rightarrow> string" where
  "resource_kind_value KindState = ''state''"
| "resource_kind_value KindBrowser = ''browser''"
| "resource_kind_value KindNetwork = ''network''"
| "resource_kind_value KindTime = ''time''"
| "resource_kind_value KindCompute = ''compute''"

datatype fabric_operation = OpReset | OpSnapshot | OpRestore | OpRelease

fun fabric_operation_value :: "fabric_operation \<Rightarrow> string" where
  "fabric_operation_value OpReset = ''RESET''"
| "fabric_operation_value OpSnapshot = ''SNAPSHOT''"
| "fabric_operation_value OpRestore = ''RESTORE''"
| "fabric_operation_value OpRelease = ''RELEASE''"

datatype operation_status = SUCCEEDED | FAILED | NOT_PARTICIPATING

fun operation_status_value :: "operation_status \<Rightarrow> string" where
  "operation_status_value SUCCEEDED = ''SUCCEEDED''"
| "operation_status_value FAILED = ''FAILED''"
| "operation_status_value NOT_PARTICIPATING = ''NOT_PARTICIPATING''"

record artifact_identity =
  ai_digest :: string
  ai_size :: int
  ai_media_type :: string

definition artifact_identity_dict :: "artifact_identity \<Rightarrow> json" where
  "artifact_identity_dict a = JObj
     [(''digest'', JStr (ai_digest a)), (''size'', JInt (ai_size a)), (''mediaType'', JStr (ai_media_type a))]"

record capability_declaration =
  cd_capability_id :: string
  cd_profile :: string
  cd_revision :: string
  cd_participation :: participation

definition semantic_identity :: "capability_declaration \<Rightarrow> string \<times> string \<times> string" where
  "semantic_identity d = (cd_capability_id d, cd_profile d, cd_revision d)"

definition capability_declaration_dict :: "capability_declaration \<Rightarrow> json" where
  "capability_declaration_dict d = JObj
     [(''capabilityId'', JStr (cd_capability_id d)), (''profile'', JStr (cd_profile d)),
      (''revision'', JStr (cd_revision d)), (''participation'', JStr (participation_value (cd_participation d)))]"

record resource_descriptor =
  rd_resource_id :: string
  rd_environment_id :: string
  rd_kind :: resource_kind
  rd_participation :: participation
  rd_capabilities :: "capability_declaration list"
  rd_identity_artifacts :: "artifact_identity list"

definition resource_descriptor_dict :: "resource_descriptor \<Rightarrow> json" where
  "resource_descriptor_dict d = JObj
     [(''resourceId'', JStr (rd_resource_id d)), (''environmentId'', JStr (rd_environment_id d)),
      (''resourceKind'', JStr (resource_kind_value (rd_kind d))),
      (''participation'', JStr (participation_value (rd_participation d))),
      (''capabilities'', JList (map capability_declaration_dict (rd_capabilities d))),
      (''identityArtifacts'', JList (map artifact_identity_dict (rd_identity_artifacts d)))]"

record fabric_manifest =
  fm_environment_id :: string
  fm_scenario_instance_digest :: string
  fm_resources :: "resource_descriptor list"

definition fabric_manifest_dict :: "fabric_manifest \<Rightarrow> json" where
  "fabric_manifest_dict m = JObj
     [(''apiVersion'', JStr ''avp.fabric/v0.1''), (''kind'', JStr ''EnvironmentFabricManifest''),
      (''environmentId'', JStr (fm_environment_id m)),
      (''scenarioInstanceDigest'', JStr (fm_scenario_instance_digest m)),
      (''resources'', JList (map resource_descriptor_dict (fm_resources m)))]"

record resource_result =
  xs_resource_id :: string
  xs_participation :: participation
  xs_status :: operation_status
  xs_restore_fidelity :: "restore_equivalence option"
  xs_failure_code :: "string option"

definition resource_result_dict :: "resource_result \<Rightarrow> json" where
  "resource_result_dict r = JObj
     ([(''resourceId'', JStr (xs_resource_id r)), (''participation'', JStr (participation_value (xs_participation r))),
       (''status'', JStr (operation_status_value (xs_status r)))] @
      (case xs_restore_fidelity r of None \<Rightarrow> [] | Some f \<Rightarrow> [(''restoreFidelity'', JStr (restore_equivalence_value f))]) @
      (case xs_failure_code r of None \<Rightarrow> [] | Some c \<Rightarrow> [(''failureCode'', JStr c)]))"

record fabric_result =
  fx_operation_id :: string
  fx_operation :: fabric_operation
  fx_environment_id :: string
  fx_status :: operation_status
  fx_results :: "resource_result list"
  fx_fidelity :: "restore_equivalence option"

definition fabric_result_dict :: "fabric_result \<Rightarrow> json" where
  "fabric_result_dict r = JObj
     ([(''apiVersion'', JStr ''avp.fabric/v0.1''), (''kind'', JStr ''FabricOperationResult''),
       (''operationId'', JStr (fx_operation_id r)), (''operation'', JStr (fabric_operation_value (fx_operation r))),
       (''environmentId'', JStr (fx_environment_id r)), (''status'', JStr (operation_status_value (fx_status r))),
       (''resourceResults'', JList (map resource_result_dict (fx_results r)))] @
      (case fx_fidelity r of None \<Rightarrow> []
       | Some f \<Rightarrow> [(''aggregateRestoreFidelity'', JStr (restore_equivalence_value f))]))"

section \<open>Resources\<close>

datatype fabric_error = FabricError string | FabricCompatibilityError string
  | FabricReferenceError string | SubjectAuthorizationError string

record fabric_resource =
  fr_descriptor :: resource_descriptor
  fr_restore_fidelity :: restore_equivalence
  fr_fail_operations :: "fabric_operation list"
  fr_broken_snapshot :: bool
  fr_released :: bool
  fr_provisioned :: bool
  fr_state :: int
  fr_provision_effects :: int
  fr_subject_effects :: int
  fr_operation_effects :: int

type_synonym 'a resource_action = "(fabric_resource, fabric_error, 'a) action"

definition make_fabric_resource :: "resource_descriptor \<Rightarrow> restore_equivalence \<Rightarrow> fabric_operation list \<Rightarrow> bool \<Rightarrow>
    fabric_resource" where
  "make_fabric_resource d fidelity fails broken =
     \<lparr>fr_descriptor = d, fr_restore_fidelity = fidelity, fr_fail_operations = fails, fr_broken_snapshot = broken,
      fr_released = False, fr_provisioned = False, fr_state = 0, fr_provision_effects = 0, fr_subject_effects = 0,
      fr_operation_effects = 0\<rparr>"

abbreviation fr_id :: "fabric_resource \<Rightarrow> string" where
  "fr_id r \<equiv> rd_resource_id (fr_descriptor r)"

abbreviation fr_participation :: "fabric_resource \<Rightarrow> participation" where
  "fr_participation r \<equiv> rd_participation (fr_descriptor r)"

definition assert_live_reference :: "fabric_resource \<Rightarrow> (fabric_error, unit) result" where
  "assert_live_reference r =
     raise_if (fr_released r) (FabricReferenceError (''resource reference is released: '' @ fr_id r))"

definition assert_usable :: "fabric_resource \<Rightarrow> (fabric_error, unit) result" where
  "assert_usable r = res_bind (assert_live_reference r) (\<lambda>_.
     raise_if (\<not> fr_provisioned r) (FabricReferenceError (''resource is not provisioned: '' @ fr_id r)))"

definition resource_provision :: "unit resource_action" where
  "resource_provision =
     act_bind (act_read assert_live_reference) (\<lambda>_.
     act_modify (\<lambda>r. if fr_provisioned r then r
       else r\<lparr>fr_provisioned := True, fr_provision_effects := fr_provision_effects r + 1\<rparr>))"

definition resource_mutate :: "unit resource_action" where
  "resource_mutate =
     act_bind (act_read assert_usable) (\<lambda>_.
     act_modify (\<lambda>r. r\<lparr>fr_state := fr_state r + 1, fr_subject_effects := fr_subject_effects r + 1\<rparr>))"

definition resource_snapshot :: "int resource_action" where
  "resource_snapshot =
     act_bind (act_read assert_usable) (\<lambda>_.
     act_get (\<lambda>r. if fr_broken_snapshot r then fr_state r + 1 else fr_state r))"

definition result_of :: "fabric_resource \<Rightarrow> operation_status \<Rightarrow> restore_equivalence option \<Rightarrow> string option \<Rightarrow>
    resource_result" where
  "result_of r status fidelity code =
     \<lparr>xs_resource_id = fr_id r, xs_participation = fr_participation r, xs_status = status,
      xs_restore_fidelity = fidelity, xs_failure_code = code\<rparr>"

definition resource_operation :: "fabric_operation \<Rightarrow> int option \<Rightarrow> resource_result resource_action" where
  "resource_operation op new_state =
     act_bind (act_read assert_usable) (\<lambda>_.
     act_bind (act_get id) (\<lambda>r.
     if op \<in> set (fr_fail_operations r)
     then act_return (result_of r FAILED None (Some ''OPERATION_FAILED''))
     else
       act_bind (act_modify (\<lambda>r. r\<lparr>fr_operation_effects := fr_operation_effects r + 1,
         fr_state := (case new_state of None \<Rightarrow> fr_state r | Some v \<Rightarrow> v)\<rparr>)) (\<lambda>_.
       act_return (result_of r SUCCEEDED None None))))"

definition resource_reset :: "resource_result resource_action" where
  "resource_reset = resource_operation OpReset (Some 0)"

definition resource_restore :: "resource_result resource_action" where
  "resource_restore =
     act_bind (resource_operation OpRestore None) (\<lambda>x.
     act_bind (act_get id) (\<lambda>r.
     if xs_status x = FAILED
     then act_return (result_of r FAILED (Some NON_EQUIVALENT) (xs_failure_code x))
     else act_return (result_of r SUCCEEDED (Some (fr_restore_fidelity r)) None)))"

definition resource_release :: "resource_result resource_action" where
  "resource_release =
     act_bind (act_get id) (\<lambda>r.
     if fr_released r then act_return (result_of r SUCCEEDED None None)
     else if OpRelease \<in> set (fr_fail_operations r)
     then act_return (result_of r FAILED None (Some ''CLEANUP_FAILED''))
     else
       act_bind (act_modify (\<lambda>r. r\<lparr>fr_operation_effects := fr_operation_effects r + 1, fr_released := True,
         fr_provisioned := False\<rparr>)) (\<lambda>_.
       act_return (result_of r SUCCEEDED None None)))"

definition resource_execute :: "fabric_operation \<Rightarrow> resource_result resource_action" where
  "resource_execute op = (case op of
     OpReset \<Rightarrow> resource_reset
   | OpRestore \<Rightarrow> resource_restore
   | OpSnapshot \<Rightarrow>
       act_bind (act_read assert_usable) (\<lambda>_.
       act_bind (act_get id) (\<lambda>r.
       if op \<in> set (fr_fail_operations r)
       then act_return (result_of r FAILED None (Some ''OPERATION_FAILED''))
       else
         act_bind (act_modify (\<lambda>r. r\<lparr>fr_operation_effects := fr_operation_effects r + 1\<rparr>)) (\<lambda>_.
         act_bind resource_snapshot (\<lambda>_.
         act_return (result_of r SUCCEEDED None None)))))
   | OpRelease \<Rightarrow> resource_release)"

section \<open>The Fabric\<close>

record capability_requirement =
  rq_resource_id :: string
  rq_declaration :: capability_declaration

record environment_fabric =
  fb_environment_id :: string
  fb_scenario_digest :: string
  fb_resources :: "fabric_resource list"
  fb_requirements :: "capability_requirement list"
  fb_subject_capabilities :: "string list"
  fb_ready :: bool
  fb_released :: bool
  fb_sequence :: int

type_synonym 'a fabric_action = "(environment_fabric, fabric_error, 'a) action"

text \<open>A loop over the resources in order: the first error ends it, and what the earlier resources did stays.\<close>

fun each_resource :: "'a resource_action \<Rightarrow> (fabric_resource list, fabric_error, 'a list) action" where
  "each_resource f [] = (Inr [], [])"
| "each_resource f (r # rs) = (case f r of
     (Inl e, r') \<Rightarrow> (Inl e, r' # rs)
   | (Inr x, r') \<Rightarrow> (case each_resource f rs of
       (Inl e, rs') \<Rightarrow> (Inl e, r' # rs')
     | (Inr xs, rs') \<Rightarrow> (Inr (x # xs), r' # rs')))"

fun check_membership :: "string \<Rightarrow> string list \<Rightarrow> resource_descriptor list \<Rightarrow> (fabric_error, unit) result" where
  "check_membership env seen [] = Inr ()"
| "check_membership env seen (d # ds) =
     (if rd_environment_id d \<noteq> env
      then Inl (FabricCompatibilityError (''foreign resource '' @ rd_resource_id d @ '' belongs to '' @ rd_environment_id d))
      else if rd_resource_id d \<in> set seen
      then Inl (FabricCompatibilityError (''duplicate resource id: '' @ rd_resource_id d))
      else check_membership env (rd_resource_id d # seen) ds)"

definition validate_composition_identity :: "environment_fabric \<Rightarrow> (fabric_error, unit) result" where
  "validate_composition_identity f =
     res_bind (raise_if (fb_environment_id f = [] \<or> fb_resources f = [])
       (FabricCompatibilityError ''Fabric requires environment identity and resources'')) (\<lambda>_.
     check_membership (fb_environment_id f) [] (map fr_descriptor (fb_resources f)))"

definition make_fabric :: "string \<Rightarrow> string \<Rightarrow> fabric_resource list \<Rightarrow> capability_requirement list \<Rightarrow> string list \<Rightarrow>
    (fabric_error, environment_fabric) result" where
  "make_fabric env scenario resources requirements subject =
     (let f = \<lparr>fb_environment_id = env, fb_scenario_digest = scenario, fb_resources = resources,
            fb_requirements = requirements, fb_subject_capabilities = subject, fb_ready = False,
            fb_released = False, fb_sequence = 0\<rparr>
      in res_bind (validate_composition_identity f) (\<lambda>_. Inr f))"

definition fabric_ready :: "environment_fabric \<Rightarrow> bool" where
  "fabric_ready f \<longleftrightarrow> fb_ready f \<and> \<not> fb_released f"

definition assert_live :: "environment_fabric \<Rightarrow> (fabric_error, unit) result" where
  "assert_live f = raise_if (fb_released f) (FabricReferenceError ''Fabric reference is released'')"

definition assert_ready :: "environment_fabric \<Rightarrow> (fabric_error, unit) result" where
  "assert_ready f = res_bind (assert_live f) (\<lambda>_.
     raise_if (\<not> fb_ready f) (FabricReferenceError ''Fabric is not ready''))"

definition fabric_manifest_of :: "environment_fabric \<Rightarrow> (fabric_error, fabric_manifest) result" where
  "fabric_manifest_of f = res_bind (assert_live f) (\<lambda>_. Inr
     \<lparr>fm_environment_id = fb_environment_id f, fm_scenario_instance_digest = fb_scenario_digest f,
      fm_resources = map fr_descriptor (fb_resources f)\<rparr>)"

definition py_triple :: "string \<times> string \<times> string \<Rightarrow> string" where
  "py_triple t = (case t of (a, b, c) \<Rightarrow>
     ''('' @ py_repr_str a @ '', '' @ py_repr_str b @ '', '' @ py_repr_str c @ '')'')"

definition resource_named :: "string \<Rightarrow> fabric_resource list \<Rightarrow> fabric_resource option" where
  "resource_named rid rs = List.find (\<lambda>r. fr_id r = rid) rs"

definition check_requirement :: "fabric_resource list \<Rightarrow> capability_requirement \<Rightarrow> (fabric_error, unit) result" where
  "check_requirement rs q =
     (let d = rq_declaration q in
      case resource_named (rq_resource_id q) rs of
        None \<Rightarrow> raise_if (cd_participation d = REQUIRED)
          (FabricCompatibilityError (''required resource missing: '' @ rq_resource_id q))
      | Some r \<Rightarrow> raise_if (semantic_identity d \<notin> set (map semantic_identity (rd_capabilities (fr_descriptor r))) \<and>
            cd_participation d = REQUIRED)
          (FabricCompatibilityError (''required capability missing or incompatible: '' @ rq_resource_id q @ '':'' @
            py_triple (semantic_identity d))))"

definition validate_required_capabilities :: "environment_fabric \<Rightarrow> (fabric_error, unit) result" where
  "validate_required_capabilities f = check_each (check_requirement (fb_resources f)) (fb_requirements f)"

definition on_resources :: "(fabric_resource list, fabric_error, 'a) action \<Rightarrow> 'a fabric_action" where
  "on_resources m = act_zoom fb_resources fb_resources_update m"

definition fabric_provision :: "unit fabric_action" where
  "fabric_provision =
     act_bind (act_read assert_live) (\<lambda>_.
     act_bind (act_read validate_required_capabilities) (\<lambda>_.
     act_bind (on_resources (each_resource resource_provision)) (\<lambda>_.
     act_modify (\<lambda>f. f\<lparr>fb_ready := True\<rparr>))))"

definition fabric_subject_call :: "string \<Rightarrow> environment_fabric \<Rightarrow> (fabric_error, string) result" where
  "fabric_subject_call operation f =
     res_bind (assert_ready f) (\<lambda>_.
     if operation \<in> set (fb_subject_capabilities f) then Inr operation
     else Inl (SubjectAuthorizationError (''Subject capability is not materialized: '' @ operation)))"

definition fabric_control_snapshot :: "string \<Rightarrow> environment_fabric \<Rightarrow> (fabric_error, int) result" where
  "fabric_control_snapshot rid f =
     res_bind (assert_ready f) (\<lambda>_.
     case resource_named rid (fb_resources f) of
       None \<Rightarrow> Inl (FabricReferenceError (''unknown Fabric resource: '' @ rid))
     | Some r \<Rightarrow> fst (resource_snapshot r))"

section \<open>Composite operations\<close>

definition composite_step :: "fabric_operation \<Rightarrow> string list \<Rightarrow> resource_result resource_action" where
  "composite_step op omitted =
     act_bind (act_get id) (\<lambda>r.
     if fr_id r \<in> set omitted
     then if fr_participation r = REQUIRED
       then act_raise (FabricCompatibilityError (''required resource cannot be non-participating: '' @ fr_id r))
       else act_return (result_of r NOT_PARTICIPATING None None)
     else resource_execute op)"

definition required_failed :: "resource_result list \<Rightarrow> bool" where
  "required_failed xs \<longleftrightarrow> list_ex (\<lambda>x. xs_participation x = REQUIRED \<and> xs_status x \<noteq> SUCCEEDED) xs"

fun fidelity_rank :: "restore_equivalence \<Rightarrow> nat" where
  "fidelity_rank NON_EQUIVALENT = 0"
| "fidelity_rank STATE_EQUIVALENT = 1"
| "fidelity_rank EXACT = 2"

text \<open>\<open>min(xs, key=rank)\<close> takes the first least element.\<close>

fun least_fidelity :: "restore_equivalence \<Rightarrow> restore_equivalence list \<Rightarrow> restore_equivalence" where
  "least_fidelity x [] = x"
| "least_fidelity x (y # ys) = least_fidelity (if fidelity_rank y < fidelity_rank x then y else x) ys"

definition aggregate_fidelity :: "resource_result list \<Rightarrow> (fabric_error, restore_equivalence) result" where
  "aggregate_fidelity xs =
     (if required_failed xs then Inr NON_EQUIVALENT
      else
        let fs = map xs_restore_fidelity
          (filter (\<lambda>x. xs_participation x = REQUIRED \<and> xs_status x = SUCCEEDED) xs) in
        case fs of
          [] \<Rightarrow> Inl (FabricError ''required restore result is missing fidelity'')
        | _ \<Rightarrow> if None \<in> set fs then Inl (FabricError ''required restore result is missing fidelity'')
            else Inr (least_fidelity (the (hd fs)) (map the (tl fs))))"

definition fabric_operation_id :: "environment_fabric \<Rightarrow> string" where
  "fabric_operation_id f = ''fabric-op-'' @ string_of_int (fb_sequence f)"

definition next_sequence :: "environment_fabric \<Rightarrow> environment_fabric" where
  "next_sequence f = f\<lparr>fb_sequence := fb_sequence f + 1\<rparr>"

definition execute_composite :: "fabric_operation \<Rightarrow> string list \<Rightarrow> fabric_result fabric_action" where
  "execute_composite op omitted =
     act_bind (act_read assert_ready) (\<lambda>_.
     act_bind (on_resources (each_resource (composite_step op omitted))) (\<lambda>results.
     act_bind (if op = OpRestore then act_of (res_bind (aggregate_fidelity results) (\<lambda>x. Inr (Some x)))
               else act_return None) (\<lambda>fidelity.
     act_bind (act_modify next_sequence) (\<lambda>_.
     act_get (\<lambda>f. \<lparr>fx_operation_id = fabric_operation_id f, fx_operation = op,
       fx_environment_id = fb_environment_id f,
       fx_status = (if required_failed results then FAILED else SUCCEEDED), fx_results = results,
       fx_fidelity = fidelity\<rparr>)))))"

definition release_result :: "resource_result list \<Rightarrow> operation_status \<Rightarrow> environment_fabric \<Rightarrow> fabric_result" where
  "release_result results status f =
     \<lparr>fx_operation_id = fabric_operation_id f, fx_operation = OpRelease, fx_environment_id = fb_environment_id f,
      fx_status = status, fx_results = results, fx_fidelity = None\<rparr>"

definition fabric_release :: "fabric_result fabric_action" where
  "fabric_release =
     act_bind (act_get id) (\<lambda>f.
     if fb_released f
     then
       act_bind (act_modify next_sequence) (\<lambda>_.
       act_get (release_result (map (\<lambda>r. result_of r SUCCEEDED None None) (fb_resources f)) SUCCEEDED))
     else
       act_bind (on_resources (each_resource resource_release)) (\<lambda>results.
       let failed = list_ex (\<lambda>x. xs_participation x = REQUIRED \<and> xs_status x = FAILED) results in
       act_bind (act_modify next_sequence) (\<lambda>_.
       act_bind (act_get (release_result results (if failed then FAILED else SUCCEEDED))) (\<lambda>result.
       act_bind (act_when (\<not> failed) (act_modify (\<lambda>f. f\<lparr>fb_ready := False, fb_released := True\<rparr>))) (\<lambda>_.
       act_return result)))))"

end
