(* ===== verification/AVP_FabricFacts.thy ===== *)
theory AVP_FabricFacts
  imports AVP_Fabric
begin

text \<open>
  The Environment Fabric against its contract: aggregation is honest, provisioning fails before any
  effect, the lifecycle refines a three-phase contract over the set of live resources; and the places
  where the reference implementation does not do what the contract asks.
\<close>

section \<open>What a resource operation may change\<close>

text \<open>Identity and configuration stay, and a released resource never changes again.\<close>

definition resource_frame :: "fabric_resource \<Rightarrow> fabric_resource \<Rightarrow> bool" where
  "resource_frame r r' \<longleftrightarrow> fr_descriptor r' = fr_descriptor r \<and> fr_restore_fidelity r' = fr_restore_fidelity r \<and>
     fr_fail_operations r' = fr_fail_operations r \<and> (fr_released r \<longrightarrow> r' = r)"

interpretation frame: evolution resource_frame
  by unfold_locales (auto simp: resource_frame_def)

text \<open>Apart from release, a resource operation also keeps the resource live and provisioned.\<close>

definition live_frame :: "fabric_resource \<Rightarrow> fabric_resource \<Rightarrow> bool" where
  "live_frame r r' \<longleftrightarrow> resource_frame r r' \<and> fr_released r' = fr_released r \<and>
     (fr_provisioned r \<longrightarrow> fr_provisioned r')"

interpretation live: evolution live_frame
  by unfold_locales (auto simp: live_frame_def resource_frame_def)

lemma live_is_frame: "evolves live_frame m \<Longrightarrow> evolves resource_frame m"
  by (simp add: evolves_def live_frame_def)

text \<open>An effect behind the liveness check.\<close>

lemma guarded_modify:
  assumes "\<And>r. guard r = Inr () \<Longrightarrow> \<not> fr_released r" "\<And>r. R r r"
    "\<And>r. \<not> fr_released r \<Longrightarrow> R r (snd (m r))"
  shows "evolves R (act_bind (act_read guard) (\<lambda>_. m))"
  unfolding evolves_def
proof
  fix s
  show "R s (snd (act_bind (act_read guard) (\<lambda>_. m) s))"
    using assms by (cases "guard s") (auto simp: act_bind_def act_read_def)
qed

lemma usable_live: "assert_usable r = Inr () \<Longrightarrow> \<not> fr_released r" "assert_live_reference r = Inr () \<Longrightarrow> \<not> fr_released r"
  by (auto simp: assert_usable_def assert_live_reference_def)

lemma provision_live: "evolves live_frame resource_provision"
  unfolding resource_provision_def
  by (rule guarded_modify) (auto simp: usable_live live_frame_def resource_frame_def act_modify_def)

lemma mutate_live: "evolves live_frame resource_mutate"
  unfolding resource_mutate_def
  by (rule guarded_modify) (auto simp: usable_live live_frame_def resource_frame_def act_modify_def)

lemma operation_live: "evolves live_frame (resource_operation op v)"
  unfolding resource_operation_def
  by (rule guarded_modify) (auto simp: usable_live live_frame_def resource_frame_def action_simps)

lemma restore_live: "evolves live_frame resource_restore"
  unfolding resource_restore_def by (intro live.rules operation_live)

lemma snapshot_live: "evolves live_frame (resource_execute OpSnapshot)"
  unfolding resource_execute_def fabric_operation.case
  by (rule guarded_modify)
    (auto simp: usable_live live_frame_def resource_frame_def action_simps resource_snapshot_def split: sum.split)

lemma execute_live: "op \<noteq> OpRelease \<Longrightarrow> evolves live_frame (resource_execute op)"
  using snapshot_live restore_live operation_live [of OpReset "Some 0"]
  by (cases op) (simp_all add: resource_execute_def resource_reset_def)

lemma release_frame: "evolves resource_frame resource_release"
  unfolding evolves_def resource_release_def by (auto simp: action_simps resource_frame_def)

lemma execute_frame: "evolves resource_frame (resource_execute op)"
  using live_is_frame [OF execute_live] release_frame by (cases "op = OpRelease") (auto simp: resource_execute_def)

lemma composite_frame: "evolves resource_frame (composite_step op omitted)"
  unfolding composite_step_def by (intro frame.rules execute_frame)

lemma composite_live: "op \<noteq> OpRelease \<Longrightarrow> evolves live_frame (composite_step op omitted)"
  unfolding composite_step_def by (intro live.rules execute_live)

section \<open>Loops over resources\<close>

lemma each_resource_all2:
  assumes "evolves R f" "\<And>r. R r r"
  shows "each_resource f rs = (x, rs') \<Longrightarrow> list_all2 R rs rs'"
proof (induction rs arbitrary: x rs')
  case (Cons r rs)
  have same: "list_all2 R xs xs" for xs using assms(2) by (simp add: list.rel_refl)
  obtain y r1 where f: "f r = (y, r1)" by (cases "f r")
  obtain z rs1 where rest: "each_resource f rs = (z, rs1)" by (cases "each_resource f rs")
  from Cons.prems f rest Cons.IH [OF rest] evolvesD [OF assms(1) f] same show ?case
    by (auto split: sum.splits)
qed simp

lemma each_resource_ok:
  "each_resource f rs = (Inr xs, rs') \<longleftrightarrow>
    length xs = length rs \<and> length rs' = length rs \<and> (\<forall>i < length rs. f (rs ! i) = (Inr (xs ! i), rs' ! i))"
proof (induction rs arbitrary: xs rs')
  case (Cons r rs)
  obtain y r1 where f: "f r = (y, r1)" by (cases "f r")
  obtain z rs1 where rest: "each_resource f rs = (z, rs1)" by (cases "each_resource f rs")
  have "each_resource f (r # rs) = (Inr xs, rs') \<longleftrightarrow>
      (\<exists>x xs1 rs2. xs = x # xs1 \<and> rs' = r1 # rs2 \<and> y = Inr x \<and> each_resource f rs = (Inr xs1, rs2))"
    using f rest by (auto split: sum.splits)
  also have "\<dots> \<longleftrightarrow> length xs = length (r # rs) \<and> length rs' = length (r # rs) \<and>
      (\<forall>i < length (r # rs). f ((r # rs) ! i) = (Inr (xs ! i), rs' ! i))"
    using f by (auto simp: Cons.IH All_less_Suc2 length_Suc_conv)
  finally show ?case .
qed auto

lemma on_resources_run:
  "on_resources m f = (r, f') \<longleftrightarrow> (\<exists>rs. m (fb_resources f) = (r, rs) \<and> f' = f\<lparr>fb_resources := rs\<rparr>)"
  by (auto simp: on_resources_def act_zoom_def split: prod.splits)

lemma all2_map: "list_all2 R xs ys \<Longrightarrow> (\<And>x y. R x y \<Longrightarrow> f y = f x) \<Longrightarrow> map f ys = map f xs"
  by (induction rule: list_all2_induct) auto

lemma all2_source: "list_all2 R xs ys \<Longrightarrow> y \<in> set ys \<Longrightarrow> \<exists>x \<in> set xs. R x y"
  by (induction rule: list_all2_induct) auto

section \<open>Results\<close>

lemma resource_result_cases:
  assumes "composite_step op omitted r = (Inr x, r')"
  shows "xs_resource_id x = fr_id r" "xs_participation x = fr_participation r"
    "xs_status x = NOT_PARTICIPATING \<longrightarrow> fr_participation r = OPTIONAL"
    "op = OpRestore \<Longrightarrow> xs_status x = SUCCEEDED \<Longrightarrow> xs_restore_fidelity x = Some (fr_restore_fidelity r)"
  using assms
  by (cases "fr_participation r"; cases op; auto simp: composite_step_def resource_execute_def resource_reset_def
      resource_restore_def resource_release_def resource_operation_def result_of_def resource_snapshot_def action_simps
      split: if_splits sum.splits)+

lemma release_result_cases:
  assumes "resource_release r = (x, r')"
  shows "\<exists>y. x = Inr y \<and> xs_resource_id y = fr_id r \<and> xs_participation y = fr_participation r \<and>
    (xs_status y = SUCCEEDED \<longleftrightarrow> fr_released r') \<and> xs_status y \<in> {SUCCEEDED, FAILED}"
  using assms by (auto simp: resource_release_def result_of_def action_simps split: if_splits)

lemma least_fidelity_le: "fidelity_rank (least_fidelity x ys) \<le> fidelity_rank x \<and>
    (\<forall>y \<in> set ys. fidelity_rank (least_fidelity x ys) \<le> fidelity_rank y)"
proof (induction ys arbitrary: x)
  case (Cons y ys)
  from Cons.IH [of "if fidelity_rank y < fidelity_rank x then y else x"] show ?case
    by (auto split: if_splits)
qed simp

lemma least_fidelity_in: "least_fidelity x ys \<in> set (x # ys)"
  by (induction ys arbitrary: x) (auto split: if_splits)

lemma without_none: "None \<notin> set gs \<Longrightarrow> gs = map Some (map the gs)"
  by (induction gs) auto

lemma weakest_of:
  assumes "None \<notin> set gs" "gs \<noteq> []"
  shows "Some (least_fidelity (the (hd gs)) (map the (tl gs))) \<in> set gs"
    and "g \<in> set gs \<Longrightarrow> \<exists>b. g = Some b \<and> fidelity_rank (least_fidelity (the (hd gs)) (map the (tl gs))) \<le> fidelity_rank b"
proof -
  obtain d ds where gs: "gs = Some d # map Some ds"
    using without_none [OF assms(1)] assms(2) by (cases "map the gs") auto
  have the: "map the (map Some ds) = ds" by (simp add: comp_def)
  from gs the least_fidelity_in [of d ds]
  show "Some (least_fidelity (the (hd gs)) (map the (tl gs))) \<in> set gs" by auto
  from gs the least_fidelity_le [of d ds]
  show "g \<in> set gs \<Longrightarrow> \<exists>b. g = Some b \<and> fidelity_rank (least_fidelity (the (hd gs)) (map the (tl gs))) \<le> fidelity_rank b"
    by auto
qed

lemma aggregate_fidelity_weakest:
  assumes "aggregate_fidelity xs = Inr a" "\<not> required_failed xs"
  shows "\<exists>x \<in> set xs. xs_participation x = REQUIRED \<and> xs_restore_fidelity x = Some a"
    and "x \<in> set xs \<Longrightarrow> xs_participation x = REQUIRED \<Longrightarrow>
      \<exists>b. xs_restore_fidelity x = Some b \<and> fidelity_rank a \<le> fidelity_rank b"
proof -
  define gs where "gs = map xs_restore_fidelity (filter (\<lambda>x. xs_participation x = REQUIRED \<and> xs_status x = SUCCEEDED) xs)"
  have "(case gs of [] \<Rightarrow> Inl (FabricError ''required restore result is missing fidelity'')
      | _ \<Rightarrow> if None \<in> set gs then Inl (FabricError ''required restore result is missing fidelity'')
            else Inr (least_fidelity (the (hd gs)) (map the (tl gs)))) = Inr a"
    using assms by (simp only: aggregate_fidelity_def Let_def gs_def if_False)
  then have "gs \<noteq> []" "None \<notin> set gs" "a = least_fidelity (the (hd gs)) (map the (tl gs))"
    by (cases gs; simp split: if_splits)+
  note a = weakest_of [OF this(2,1), folded this(3)]
  from a(1) show "\<exists>x \<in> set xs. xs_participation x = REQUIRED \<and> xs_restore_fidelity x = Some a"
    by (auto simp: gs_def)
  assume x: "x \<in> set xs" "xs_participation x = REQUIRED"
  with assms(2) have "xs_status x = SUCCEEDED" by (auto simp: required_failed_def list_ex_iff)
  with x have "xs_restore_fidelity x \<in> set gs" by (auto simp: gs_def)
  then show "\<exists>b. xs_restore_fidelity x = Some b \<and> fidelity_rank a \<le> fidelity_rank b" by (rule a(2))
qed

lemma composite_okE:
  assumes "execute_composite op omitted f = (Inr x, f')"
  obtains results rs where "fabric_ready f"
    "each_resource (composite_step op omitted) (fb_resources f) = (Inr results, rs)"
    "f' = f\<lparr>fb_resources := rs, fb_sequence := fb_sequence f + 1\<rparr>" "fx_results x = results"
    "fx_status x = (if required_failed results then FAILED else SUCCEEDED)" "fx_operation_id x = fabric_operation_id f'"
    "fx_environment_id x = fb_environment_id f" "fx_operation x = op"
    "if op = OpRestore then \<exists>a. aggregate_fidelity results = Inr a \<and> fx_fidelity x = Some a else fx_fidelity x = None"
proof -
  from assms obtain results f1 fidelity where run: "assert_ready f = Inr ()"
    "on_resources (each_resource (composite_step op omitted)) f = (Inr results, f1)"
    "if op = OpRestore then \<exists>a. aggregate_fidelity results = Inr a \<and> fidelity = Some a else fidelity = None"
    "f' = next_sequence f1" "x = \<lparr>fx_operation_id = fabric_operation_id f', fx_operation = op,
       fx_environment_id = fb_environment_id f',
       fx_status = (if required_failed results then FAILED else SUCCEEDED), fx_results = results,
       fx_fidelity = fidelity\<rparr>"
    unfolding execute_composite_def by (elim act_bind_okE) (auto split: if_splits)
  from run(2) obtain rs where "each_resource (composite_step op omitted) (fb_resources f) = (Inr results, rs)"
    "f1 = f\<lparr>fb_resources := rs\<rparr>" by (auto simp: on_resources_run)
  with run show ?thesis
    by (intro that [of results rs])
      (auto simp: assert_ready_def assert_live_def fabric_ready_def next_sequence_def split: if_splits)
qed

section \<open>The lifecycle contract\<close>

text \<open>
  The abstract view of a Fabric: a phase, the resources that are still live, and the number of
  results handed out. A call either succeeds or fails closed.
\<close>

datatype fabric_phase = Unprovisioned | Ready | Released

type_synonym fabric_view = "fabric_phase \<times> string set \<times> int"

datatype fabric_call = ProvisionCall | CompositeCall fabric_operation "string list" | ReleaseCall
  | SubjectCall string | ControlSnapshot string

definition run_fabric_call :: "fabric_call \<Rightarrow> unit fabric_action" where
  "run_fabric_call c = (case c of
     ProvisionCall \<Rightarrow> fabric_provision
   | CompositeCall op omitted \<Rightarrow> act_bind (execute_composite op omitted) (\<lambda>_. act_return ())
   | ReleaseCall \<Rightarrow> act_bind fabric_release (\<lambda>_. act_return ())
   | SubjectCall cap \<Rightarrow> act_bind (act_read (fabric_subject_call cap)) (\<lambda>_. act_return ())
   | ControlSnapshot rid \<Rightarrow> act_bind (act_read (fabric_control_snapshot rid)) (\<lambda>_. act_return ()))"

text \<open>\<open>fabric_contract required call ok before after\<close>.\<close>

inductive fabric_contract :: "string set \<Rightarrow> fabric_call \<Rightarrow> bool \<Rightarrow> fabric_view \<Rightarrow> fabric_view \<Rightarrow> bool" where
  provisioned: "p \<noteq> Released \<Longrightarrow> fabric_contract req ProvisionCall True (p, L, n) (Ready, L, n)"
| composite: "op \<noteq> OpRelease \<Longrightarrow>
    fabric_contract req (CompositeCall op omitted) True (Ready, L, n) (Ready, L, n + 1)"
| composite_release: "L' \<subseteq> L \<Longrightarrow>
    fabric_contract req (CompositeCall OpRelease omitted) True (Ready, L, n) (Ready, L', n + 1)"
| subject: "fabric_contract req (SubjectCall cap) True (Ready, L, n) (Ready, L, n)"
| control: "rid \<in> L \<Longrightarrow> fabric_contract req (ControlSnapshot rid) True (Ready, L, n) (Ready, L, n)"
| release_done: "L' \<subseteq> L \<Longrightarrow> L' \<inter> req = {} \<Longrightarrow>
    fabric_contract req ReleaseCall True (p, L, n) (Released, L', n + 1)"
| release_retry: "p \<noteq> Released \<Longrightarrow> L' \<subseteq> L \<Longrightarrow> L' \<inter> req \<noteq> {} \<Longrightarrow>
    fabric_contract req ReleaseCall True (p, L, n) (p, L', n + 1)"
| fails_closed: "\<nexists>omitted. c = CompositeCall OpRelease omitted \<Longrightarrow> c \<noteq> ReleaseCall \<Longrightarrow>
    fabric_contract req c False (p, L, n) (p, L, n)"
| partly_released: "L' \<subseteq> L \<Longrightarrow>
    fabric_contract req (CompositeCall OpRelease omitted) False (p, L, n) (p, L', n)"

definition live_resources :: "environment_fabric \<Rightarrow> string set" where
  "live_resources f = fr_id ` {r \<in> set (fb_resources f). \<not> fr_released r}"

definition required_resources :: "environment_fabric \<Rightarrow> string set" where
  "required_resources f = fr_id ` {r \<in> set (fb_resources f). fr_participation r = REQUIRED}"

definition fabric_view_of :: "environment_fabric \<Rightarrow> fabric_view" where
  "fabric_view_of f = (if fb_released f then Released else if fb_ready f then Ready else Unprovisioned,
     live_resources f, fb_sequence f)"

definition fabric_ok :: "environment_fabric \<Rightarrow> bool" where
  "fabric_ok f \<longleftrightarrow> fb_environment_id f \<noteq> [] \<and> fb_resources f \<noteq> [] \<and> distinct (map fr_id (fb_resources f)) \<and>
     (\<forall>r \<in> set (fb_resources f). rd_environment_id (fr_descriptor r) = fb_environment_id f) \<and>
     (fb_released f \<longrightarrow> \<not> fb_ready f \<and> live_resources f \<inter> required_resources f = {})"

lemma check_membership_ok: "check_membership env seen ds = Inr () \<Longrightarrow>
    distinct (map rd_resource_id ds) \<and> set (map rd_resource_id ds) \<inter> set seen = {} \<and>
    (\<forall>d \<in> set ds. rd_environment_id d = env)"
proof (induction ds arbitrary: seen)
  case (Cons d ds)
  from Cons.prems have "rd_environment_id d = env" "rd_resource_id d \<notin> set seen"
    "check_membership env (rd_resource_id d # seen) ds = Inr ()"
    by (auto split: if_splits)
  with Cons.IH [OF this(3)] show ?case by auto
qed simp

lemma make_fabric_ok: "make_fabric env sc rs qs caps = Inr f \<Longrightarrow> fabric_ok f"
  by (auto simp: make_fabric_def validate_composition_identity_def fabric_ok_def comp_def
      dest!: check_membership_ok)

text \<open>Ids and participation stay under frames, and live resources only go.\<close>

lemma frames_same:
  assumes "list_all2 resource_frame rs rs'"
  shows "map fr_descriptor rs' = map fr_descriptor rs"
  using assms by (rule all2_map) (simp add: resource_frame_def)

lemma descriptors_ids: "map fr_descriptor rs' = map fr_descriptor rs \<Longrightarrow> map fr_id rs' = map fr_id rs"
  by (drule arg_cong [of _ _ "map rd_resource_id"]) (simp add: comp_def)

lemma live_resources_mono:
  assumes "list_all2 resource_frame (fb_resources f) rs'"
  shows "live_resources (f\<lparr>fb_resources := rs'\<rparr>) \<subseteq> live_resources f"
proof -
  have "fr_id r' \<in> live_resources f" if r': "r' \<in> set rs'" "\<not> fr_released r'" for r'
  proof -
    from all2_source [OF assms r'(1)] obtain r where r: "r \<in> set (fb_resources f)" "resource_frame r r'" ..
    have live: "\<not> fr_released r" using r(2) r'(2) by (cases "fr_released r") (simp_all add: resource_frame_def)
    have same: "fr_id r' = fr_id r" using r(2) by (simp add: resource_frame_def)
    have "fr_id r \<in> live_resources f" unfolding live_resources_def using r(1) live by (intro imageI) simp
    with same show ?thesis by simp
  qed
  then show ?thesis by (simp add: live_resources_def [of "f\<lparr>fb_resources := rs'\<rparr>"] image_subset_iff)
qed

lemma live_resources_same:
  assumes "list_all2 live_frame (fb_resources f) rs'"
  shows "live_resources (f\<lparr>fb_resources := rs'\<rparr>) = live_resources f"
proof -
  have "map (\<lambda>r. (fr_id r, fr_released r)) rs' = map (\<lambda>r. (fr_id r, fr_released r)) (fb_resources f)"
    using assms by (rule all2_map) (simp add: live_frame_def resource_frame_def)
  moreover have "live_resources g = fst ` {p \<in> set (map (\<lambda>r. (fr_id r, fr_released r)) (fb_resources g)). \<not> snd p}" for g
    by (force simp: live_resources_def)
  ultimately show ?thesis by (simp del: set_map list.set_map)
qed

lemma required_resources_same:
  assumes "map fr_descriptor rs' = map fr_descriptor (fb_resources f)"
  shows "required_resources (f\<lparr>fb_resources := rs'\<rparr>) = required_resources f"
proof -
  have "required_resources g = rd_resource_id ` {d \<in> set (map fr_descriptor (fb_resources g)). rd_participation d = REQUIRED}" for g
    by (auto simp: required_resources_def)
  with assms show ?thesis by (simp del: set_map list.set_map)
qed

section \<open>Every call keeps the contract\<close>

lemma fabric_ok_update:
  assumes ok: "fabric_ok f" and frames: "list_all2 resource_frame (fb_resources f) rs'"
  shows "fabric_ok (f\<lparr>fb_resources := rs'\<rparr>)"
proof -
  note same = frames_same [OF frames]
  have "rs' \<noteq> []" using ok frames by (auto simp: fabric_ok_def)
  moreover have "live_resources f \<inter> required_resources f = {} \<longrightarrow>
      live_resources (f\<lparr>fb_resources := rs'\<rparr>) \<inter> required_resources (f\<lparr>fb_resources := rs'\<rparr>) = {}"
    using live_resources_mono [OF frames] required_resources_same [OF same] by auto
  moreover have "\<forall>r \<in> set rs'. rd_environment_id (fr_descriptor r) = fb_environment_id f"
    using ok all2_source [OF frames] by (fastforce simp: fabric_ok_def resource_frame_def)
  ultimately show ?thesis using ok descriptors_ids [OF same] by (simp add: fabric_ok_def)
qed

lemma view_update:
  "fabric_view_of (f\<lparr>fb_resources := rs'\<rparr>) =
     (fst (fabric_view_of f), live_resources (f\<lparr>fb_resources := rs'\<rparr>), fb_sequence f)"
  by (simp add: fabric_view_of_def)

definition keeps_contract :: "fabric_call \<Rightarrow> environment_fabric \<Rightarrow> bool" where
  "keeps_contract c f \<longleftrightarrow> (case run_fabric_call c f of (r, f') \<Rightarrow>
     fabric_ok f' \<and> required_resources f' = required_resources f \<and>
     fabric_contract (required_resources f) c (is_ok r) (fabric_view_of f) (fabric_view_of f'))"

lemma ready_phase: "assert_ready f = Inr () \<longleftrightarrow> fst (fabric_view_of f) = Ready"
  by (auto simp: assert_ready_def assert_live_def fabric_view_of_def)

lemma view_parts: "fabric_view_of f = (fst (fabric_view_of f), live_resources f, fb_sequence f)"
  by (simp add: fabric_view_of_def)

lemma provision_contract:
  assumes ok: "fabric_ok f"
  shows "keeps_contract ProvisionCall f"
proof -
  have fail: "fabric_contract req ProvisionCall False (fabric_view_of f) (fabric_view_of f)" for req
    unfolding fabric_view_of_def by (rule fabric_contract.fails_closed) simp_all
  obtain x rs' where each: "each_resource resource_provision (fb_resources f) = (x, rs')"
    by (cases "each_resource resource_provision (fb_resources f)")
  have live: "list_all2 live_frame (fb_resources f) rs'"
    by (rule each_resource_all2 [OF provision_live _ each]) (simp add: live.refl)
  then have frames: "list_all2 resource_frame (fb_resources f) rs'"
    by (rule list.rel_mono_strong) (simp add: live_frame_def)
  note same = live_resources_same [OF live] required_resources_same [OF frames_same [OF frames]]
  show ?thesis
  proof (cases "assert_live f = Inr () \<and> validate_required_capabilities f = Inr ()")
    case False
    then have "\<exists>e. fabric_provision f = (Inl e, f)"
      by (auto simp: fabric_provision_def act_bind_def act_read_def split: sum.splits)
    with ok fail show ?thesis
      by (auto simp: keeps_contract_def run_fabric_call_def is_ok_def)
  next
    case True
    then have live_phase: "\<not> fb_released f" by (auto simp: assert_live_def)
    show ?thesis
    proof (cases x)
      case (Inl e)
      with True each have "fabric_provision f = (Inl e, f\<lparr>fb_resources := rs'\<rparr>)"
        by (simp add: fabric_provision_def act_bind_def act_read_def on_resources_def act_zoom_def)
      with fabric_ok_update [OF ok frames] fail same show ?thesis
        by (simp add: keeps_contract_def run_fabric_call_def is_ok_def view_update flip: view_parts)
    next
      case (Inr u)
      with True each have "fabric_provision f = (Inr (), f\<lparr>fb_resources := rs', fb_ready := True\<rparr>)"
        by (simp add: fabric_provision_def act_bind_def act_read_def on_resources_def act_zoom_def act_modify_def)
      moreover have "fabric_ok (f\<lparr>fb_resources := rs', fb_ready := True\<rparr>)"
        using fabric_ok_update [OF ok frames] live_phase by (simp add: fabric_ok_def)
      moreover have "live_resources (f\<lparr>fb_resources := rs', fb_ready := True\<rparr>) = live_resources f"
        "required_resources (f\<lparr>fb_resources := rs', fb_ready := True\<rparr>) = required_resources f"
        using same by (simp_all add: live_resources_def required_resources_def)
      ultimately show ?thesis
        using live_phase fabric_contract.provisioned [of "if fb_ready f then Ready else Unprovisioned"]
        by (auto simp: keeps_contract_def run_fabric_call_def is_ok_def fabric_view_of_def)
    qed
  qed
qed

lemma composite_contract:
  assumes ok: "fabric_ok f"
  shows "keeps_contract (CompositeCall op omitted) f"
proof -
  let ?c = "CompositeCall op omitted"
  let ?call = "execute_composite op omitted f"
  obtain x rs' where each: "each_resource (composite_step op omitted) (fb_resources f) = (x, rs')"
    by (cases "each_resource (composite_step op omitted) (fb_resources f)")
  have frames: "list_all2 resource_frame (fb_resources f) rs'"
    by (rule each_resource_all2 [OF composite_frame _ each]) (simp add: frame.refl)
  have live: "op \<noteq> OpRelease \<Longrightarrow> live_resources (f\<lparr>fb_resources := rs'\<rparr>) = live_resources f"
    by (rule live_resources_same, rule each_resource_all2 [OF composite_live _ each]) (simp_all add: live.refl)
  note req = required_resources_same [OF frames_same [OF frames]]
  have keep: ?thesis if run: "?call = (Inl e, f)" for e
    using run ok fabric_contract.fails_closed [of ?c] fabric_contract.partly_released [of "live_resources f" "live_resources f"]
    by (cases "op = OpRelease")
      (simp_all add: keeps_contract_def run_fabric_call_def act_bind_def is_ok_def fabric_view_of_def)
  have part: ?thesis if run: "?call = (Inl e, f\<lparr>fb_resources := rs'\<rparr>)" for e
    using run fabric_ok_update [OF ok frames] live live_resources_mono [OF frames] req
      fabric_contract.fails_closed [of ?c] fabric_contract.partly_released [of "live_resources (f\<lparr>fb_resources := rs'\<rparr>)" "live_resources f"]
    by (cases "op = OpRelease")
      (simp_all add: keeps_contract_def run_fabric_call_def act_bind_def is_ok_def fabric_view_of_def)
  show ?thesis
  proof (cases ?call)
    case (Pair r f')
    show ?thesis
    proof (cases r)
      case (Inr y)
      with Pair composite_okE [of op omitted f y f'] each have run: "fabric_ready f" "x = Inr (fx_results y)"
        "f' = f\<lparr>fb_resources := rs', fb_sequence := fb_sequence f + 1\<rparr>" by (metis prod.inject)+
      from fabric_ok_update [OF ok frames] have "fabric_ok f'" by (simp add: run(3) fabric_ok_def live_resources_def required_resources_def)
      moreover have "live_resources f' = live_resources (f\<lparr>fb_resources := rs'\<rparr>)" "required_resources f' = required_resources f"
        using req by (simp_all add: run(3) live_resources_def required_resources_def)
      ultimately show ?thesis
        using Pair Inr run live live_resources_mono [OF frames] fabric_contract.composite [of op]
          fabric_contract.composite_release [of "live_resources f'" "live_resources f"]
        by (cases "op = OpRelease")
          (simp_all add: keeps_contract_def run_fabric_call_def action_simps is_ok_def fabric_view_of_def fabric_ready_def)
    next
      case (Inl e)
      with Pair each have "f' = f \<or> f' = f\<lparr>fb_resources := rs'\<rparr>"
        by (auto simp: execute_composite_def action_simps on_resources_def split: sum.splits if_splits)
      with Pair Inl keep part show ?thesis by auto
    qed
  qed
qed

lemma control_live:
  assumes "fabric_control_snapshot rid f = Inr v"
  shows "assert_ready f = Inr () \<and> rid \<in> live_resources f"
proof -
  from assms obtain r where r: "assert_ready f = Inr ()" "resource_named rid (fb_resources f) = Some r"
    "fst (resource_snapshot r) = Inr v"
    by (auto simp: fabric_control_snapshot_def split: option.splits)
  from r(2) have "r \<in> set (fb_resources f)" "fr_id r = rid"
    unfolding resource_named_def by (auto dest: find_Some_set)
  moreover from r(3) have "\<not> fr_released r"
    by (auto simp: resource_snapshot_def action_simps dest: usable_live split: sum.splits)
  ultimately show ?thesis using r(1) by (auto simp: live_resources_def)
qed

lemma read_contract:
  assumes ok: "fabric_ok f" and c: "c = SubjectCall cap \<or> c = ControlSnapshot rid"
  shows "keeps_contract c f"
proof -
  have err: "fabric_contract req c False (fabric_view_of f) (fabric_view_of f)" for req
    unfolding fabric_view_of_def using c by (intro fabric_contract.fails_closed) auto
  show ?thesis
  proof (cases "is_ok (fst (run_fabric_call c f))")
    case True
    with c have "fst (fabric_view_of f) = Ready"
      by (auto simp: run_fabric_call_def action_simps is_ok_def fabric_subject_call_def ready_phase [symmetric]
          dest: control_live split: sum.splits prod.splits)
    then have view: "fabric_view_of f = (Ready, live_resources f, fb_sequence f)" by (metis view_parts)
    have "fabric_contract req c True (fabric_view_of f) (fabric_view_of f)" for req
    proof (cases "c = SubjectCall cap")
      case False
      with c True have "rid \<in> live_resources f"
        by (auto simp: run_fabric_call_def action_simps is_ok_def dest: control_live split: sum.splits prod.splits)
      with False c view show ?thesis by (simp add: fabric_contract.control)
    qed (simp add: view fabric_contract.subject)
    with ok c True show ?thesis
      by (auto simp: keeps_contract_def run_fabric_call_def action_simps split: sum.splits prod.splits)
  next
    case False
    with ok c err show ?thesis
      by (auto simp: keeps_contract_def run_fabric_call_def action_simps is_ok_def split: sum.splits)
  qed
qed

lemma live_required:
  assumes "distinct (map fr_id (fb_resources f))"
  shows "live_resources f \<inter> required_resources f = {} \<longleftrightarrow>
    (\<forall>r \<in> set (fb_resources f). fr_participation r = REQUIRED \<longrightarrow> fr_released r)"
proof -
  have "r = r'" if "r \<in> set (fb_resources f)" "r' \<in> set (fb_resources f)" "fr_id r = fr_id r'" for r r'
    using assms that by (auto simp: distinct_map dest: inj_onD)
  then show ?thesis by (auto simp: live_resources_def required_resources_def)
qed

lemma release_each:
  assumes "each_resource resource_release rs = (x, rs')"
  shows "\<exists>results. x = Inr results \<and>
    (list_ex (\<lambda>y. xs_participation y = REQUIRED \<and> xs_status y = FAILED) results \<longleftrightarrow>
     (\<exists>r \<in> set rs'. fr_participation r = REQUIRED \<and> \<not> fr_released r))"
  using assms
proof (induction rs arbitrary: x rs')
  case (Cons r rs)
  obtain y r1 where f: "resource_release r = (y, r1)" by (cases "resource_release r")
  obtain z rs1 where rest: "each_resource resource_release rs = (z, rs1)" by (cases "each_resource resource_release rs")
  from release_result_cases [OF f] obtain y1 where y1: "y = Inr y1" "xs_participation y1 = fr_participation r"
    "xs_status y1 = SUCCEEDED \<longleftrightarrow> fr_released r1" "xs_status y1 \<in> {SUCCEEDED, FAILED}" by blast
  from evolvesD [OF release_frame f] have "fr_participation r1 = fr_participation r" by (simp add: resource_frame_def)
  moreover have "xs_status y1 = FAILED \<longleftrightarrow> \<not> fr_released r1" using y1(3,4) by auto
  moreover note Cons.IH [OF rest]
  ultimately show ?case using Cons.prems f rest y1(1,2) by auto
qed simp

lemma release_contract:
  assumes ok: "fabric_ok f"
  shows "keeps_contract ReleaseCall f"
proof (cases "fb_released f")
  case True
  with ok have "live_resources f \<inter> required_resources f = {}" by (simp add: fabric_ok_def)
  moreover have "live_resources (next_sequence f) = live_resources f"
    "required_resources (next_sequence f) = required_resources f"
    by (simp_all add: next_sequence_def live_resources_def required_resources_def)
  ultimately show ?thesis
    using True ok fabric_contract.release_done [of "live_resources f" "live_resources f"]
    by (simp add: keeps_contract_def run_fabric_call_def fabric_release_def action_simps is_ok_def fabric_view_of_def)
      (simp add: next_sequence_def fabric_ok_def)
next
  case False
  obtain x rs' where each: "each_resource resource_release (fb_resources f) = (x, rs')"
    by (cases "each_resource resource_release (fb_resources f)")
  have frames: "list_all2 resource_frame (fb_resources f) rs'"
    by (rule each_resource_all2 [OF release_frame _ each]) (simp add: frame.refl)
  from release_each [OF each] obtain results where x: "x = Inr results" and
    failed: "list_ex (\<lambda>y. xs_participation y = REQUIRED \<and> xs_status y = FAILED) results \<longleftrightarrow>
      (\<exists>r \<in> set rs'. fr_participation r = REQUIRED \<and> \<not> fr_released r)" by blast
  let ?g = "f\<lparr>fb_resources := rs', fb_sequence := fb_sequence f + 1\<rparr>"
  let ?h = "?g\<lparr>fb_ready := False, fb_released := True\<rparr>"
  from fabric_ok_update [OF ok frames] have g: "fabric_ok ?g"
    by (simp add: fabric_ok_def live_resources_def required_resources_def)
  then have "distinct (map fr_id (fb_resources ?g))" by (simp add: fabric_ok_def)
  note lr = live_required [OF this]
  have same: "required_resources ?g = required_resources f" "live_resources ?g \<subseteq> live_resources f"
    using required_resources_same [OF frames_same [OF frames]] live_resources_mono [OF frames]
    by (simp_all add: required_resources_def live_resources_def)
  have gh: "live_resources ?h = live_resources ?g" "required_resources ?h = required_resources ?g"
    by (simp_all add: live_resources_def required_resources_def)
  show ?thesis
  proof (cases "\<exists>r \<in> set rs'. fr_participation r = REQUIRED \<and> \<not> fr_released r")
    case True
    with failed x each False obtain y where run: "fabric_release f = (Inr y, ?g)"
      by (simp add: fabric_release_def action_simps on_resources_def next_sequence_def)
    have "live_resources ?g \<inter> required_resources ?g \<noteq> {}" unfolding lr using True by simp
    then have "fabric_contract (required_resources f) ReleaseCall True
        (if fb_ready f then Ready else Unprovisioned, live_resources f, fb_sequence f)
        (if fb_ready f then Ready else Unprovisioned, live_resources ?g, fb_sequence f + 1)"
      unfolding same(1) by (intro fabric_contract.release_retry same(2)) simp_all
    with g same(1) False show ?thesis
      by (simp add: keeps_contract_def run_fabric_call_def act_bind_def act_return_def is_ok_def fabric_view_of_def run)
  next
    case F: False
    with failed x each False obtain y where run: "fabric_release f = (Inr y, ?h)"
      by (simp add: fabric_release_def action_simps on_resources_def next_sequence_def)
    have disj: "live_resources ?g \<inter> required_resources ?g = {}" unfolding lr using F by simp
    then have "fabric_contract (required_resources f) ReleaseCall True (p, live_resources f, fb_sequence f)
        (Released, live_resources ?g, fb_sequence f + 1)" for p
      unfolding same(1) by (intro fabric_contract.release_done same(2))
    moreover have "fabric_ok ?h" using g disj unfolding fabric_ok_def gh by simp
    ultimately show ?thesis
      using same(1) False
      by (simp add: keeps_contract_def run_fabric_call_def act_bind_def act_return_def is_ok_def fabric_view_of_def run gh)
  qed
qed

lemma call_contract: "fabric_ok f \<Longrightarrow> keeps_contract c f"
  by (cases c) (simp_all add: provision_contract composite_contract release_contract read_contract)

section \<open>A concrete Fabric\<close>

definition demo_descriptor :: "string \<Rightarrow> participation \<Rightarrow> resource_descriptor" where
  "demo_descriptor rid p = \<lparr>rd_resource_id = rid, rd_environment_id = ''env'', rd_kind = KindState, rd_participation = p,
     rd_capabilities = [], rd_identity_artifacts = []\<rparr>"

text \<open>A required database and an optional browser whose cleanup fails.\<close>

definition demo_fabric :: environment_fabric where
  "demo_fabric = \<lparr>fb_environment_id = ''env'', fb_scenario_digest = ''sha'', fb_resources =
       [make_fabric_resource (demo_descriptor ''db'' REQUIRED) STATE_EQUIVALENT [] False,
        make_fabric_resource (demo_descriptor ''web'' OPTIONAL) EXACT [OpRelease] False],
     fb_requirements = [], fb_subject_capabilities = [''pay''], fb_ready = False, fb_released = False, fb_sequence = 0\<rparr>"

definition demo_ready :: environment_fabric where
  "demo_ready = snd (fabric_provision demo_fabric)"

section \<open>Properties\<close>

text \<open>C25: The Fabric implements its lifecycle contract: from any Fabric that can be composed, after any sequence of
  calls, each further call is a step of the contract over phase, live resources and result numbers. So a call that
  raises changes none of these (except that a composite release may already have released resources), a Fabric
  becomes released only when no required resource is live, and a released Fabric fails closed for ever.\<close>

theorem fabric_refines_contract:
  assumes "make_fabric env scenario resources requirements caps = Inr f0"
    "f = fold (\<lambda>c g. snd (run_fabric_call c g)) calls f0"
  shows "case run_fabric_call c f of (r, f') \<Rightarrow>
    fabric_contract (required_resources f) c (is_ok r) (fabric_view_of f) (fabric_view_of f')"
proof -
  have step: "fabric_ok (snd (run_fabric_call d g))" if "fabric_ok g" for d g
    using call_contract [OF that, of d] by (simp add: keeps_contract_def split: prod.splits)
  have "fabric_ok g \<Longrightarrow> fabric_ok (fold (\<lambda>c g. snd (run_fabric_call c g)) calls g)" for g
    by (induction calls arbitrary: g) (simp_all add: step)
  with make_fabric_ok [OF assms(1)] assms(2) have "fabric_ok f" by simp
  from call_contract [OF this, of c] show ?thesis by (simp add: keeps_contract_def split: prod.splits)
qed

theorem fabric_refines_contract_witness:
  "case run_fabric_call ReleaseCall demo_ready of (r, f') \<Rightarrow>
    fabric_contract (required_resources demo_ready) ReleaseCall (is_ok r) (fabric_view_of demo_ready) (fabric_view_of f')"
proof (rule fabric_refines_contract [where calls = "[ProvisionCall]"])
  show "make_fabric ''env'' ''sha'' (fb_resources demo_fabric) [] [''pay''] = Inr demo_fabric" by code_simp
qed (simp add: demo_ready_def run_fabric_call_def)

text \<open>The result of a composite operation is honest: one outcome per resource, in order, with its id and
  participation; aggregate success exactly if every required resource succeeded; no required resource reported as not
  participating; and for a restore, a fidelity that no required resource falls below and, on success, that one has.\<close>

theorem composite_result_is_honest:
  assumes "execute_composite op omitted f = (Inr x, f')"
  shows "map xs_resource_id (fx_results x) = map fr_id (fb_resources f) \<and>
    map xs_participation (fx_results x) = map fr_participation (fb_resources f) \<and>
    (fx_status x = SUCCEEDED \<longleftrightarrow> (\<forall>y \<in> set (fx_results x). xs_participation y = REQUIRED \<longrightarrow> xs_status y = SUCCEEDED)) \<and>
    fx_status x \<noteq> NOT_PARTICIPATING \<and>
    (\<forall>y \<in> set (fx_results x). xs_participation y = REQUIRED \<longrightarrow> xs_status y \<noteq> NOT_PARTICIPATING) \<and>
    (if op \<noteq> OpRestore then fx_fidelity x = None
     else if fx_status x = FAILED then fx_fidelity x = Some NON_EQUIVALENT
     else \<exists>a. fx_fidelity x = Some a \<and>
       (\<exists>y \<in> set (fx_results x). xs_participation y = REQUIRED \<and> xs_restore_fidelity y = Some a) \<and>
       (\<forall>y \<in> set (fx_results x). xs_participation y = REQUIRED \<longrightarrow>
          (\<exists>b. xs_restore_fidelity y = Some b \<and> fidelity_rank a \<le> fidelity_rank b)))"
proof (rule composite_okE [OF assms])
  fix results rs
  assume each: "each_resource (composite_step op omitted) (fb_resources f) = (Inr results, rs)"
    and x: "fx_results x = results" "fx_status x = (if required_failed results then FAILED else SUCCEEDED)"
      "if op = OpRestore then \<exists>a. aggregate_fidelity results = Inr a \<and> fx_fidelity x = Some a else fx_fidelity x = None"
  from each have step: "composite_step op omitted (fb_resources f ! i) = (Inr (results ! i), rs ! i)"
    "length results = length (fb_resources f)" if "i < length results" for i
    using that by (auto simp: each_resource_ok)
  from each have len: "length results = length (fb_resources f)" by (simp add: each_resource_ok)
  have ids: "map xs_resource_id results = map fr_id (fb_resources f)"
    "map xs_participation results = map fr_participation (fb_resources f)"
    using resource_result_cases(1,2) [OF step(1)] len by (auto intro!: nth_equalityI)
  have np: "\<forall>y \<in> set results. xs_participation y = REQUIRED \<longrightarrow> xs_status y \<noteq> NOT_PARTICIPATING"
    using resource_result_cases(2,3) [OF step(1)] by (auto simp: in_set_conv_nth)
  have ok: "required_failed results \<longleftrightarrow> \<not> (\<forall>y \<in> set results. xs_participation y = REQUIRED \<longrightarrow> xs_status y = SUCCEEDED)"
    by (auto simp: required_failed_def list_ex_iff)
  show ?thesis
  proof (cases "op = OpRestore")
    case True
    with x(3) obtain a where a: "aggregate_fidelity results = Inr a" "fx_fidelity x = Some a" by auto
    show ?thesis
    proof (cases "required_failed results")
      case False
      from aggregate_fidelity_weakest [OF a(1) False] False ok ids np x(1,2) a(2) True show ?thesis by auto
    qed (use a x ids np ok True in \<open>auto simp: aggregate_fidelity_def\<close>)
  qed (use x ids np ok in auto)
qed

theorem composite_result_is_honest_witness:
  "\<exists>x f'. execute_composite OpRestore [''web''] demo_ready = (Inr x, f') \<and> fx_status x = SUCCEEDED \<and>
     fx_fidelity x = Some STATE_EQUIVALENT \<and> map xs_resource_id (fx_results x) = [''db'', ''web'']"
proof -
  have run: "is_ok (fst (execute_composite OpRestore [''web''] demo_ready))" by code_simp
  then obtain x f' where x: "execute_composite OpRestore [''web''] demo_ready = (Inr x, f')"
    by (cases "execute_composite OpRestore [''web''] demo_ready") (auto elim: is_okE)
  have "fx_status y = SUCCEEDED \<and> fx_fidelity y = Some STATE_EQUIVALENT"
    if "fst (execute_composite OpRestore [''web''] demo_ready) = Inr y" for y
  proof -
    have "case fst (execute_composite OpRestore [''web''] demo_ready) of
        Inl _ \<Rightarrow> False | Inr y \<Rightarrow> fx_status y = SUCCEEDED \<and> fx_fidelity y = Some STATE_EQUIVALENT" by code_simp
    with that show ?thesis by simp
  qed
  moreover have "map fr_id (fb_resources demo_ready) = [''db'', ''web'']" by code_simp
  ultimately show ?thesis using composite_result_is_honest [OF x] x by auto
qed

text \<open>C26: Provisioning checks before it acts: a compatibility error leaves every resource untouched, and after a
  provisioning that returned, every required capability is declared by its resource and every resource is
  provisioned; nothing else about the Fabric changed.\<close>

theorem provisioning_checks_before_effects:
  "case fabric_provision f of
     (Inl (FabricCompatibilityError m), f') \<Rightarrow> f' = f
   | (Inr _, f') \<Rightarrow>
       (\<forall>q \<in> set (fb_requirements f). cd_participation (rq_declaration q) = REQUIRED \<longrightarrow>
          (\<exists>r \<in> set (fb_resources f). fr_id r = rq_resource_id q \<and>
             semantic_identity (rq_declaration q) \<in> semantic_identity ` set (rd_capabilities (fr_descriptor r)))) \<and>
       (\<forall>r \<in> set (fb_resources f'). fr_provisioned r) \<and>
       map fr_descriptor (fb_resources f') = map fr_descriptor (fb_resources f)
   | _ \<Rightarrow> True"
proof -
  obtain x rs' where each: "each_resource resource_provision (fb_resources f) = (x, rs')"
    by (cases "each_resource resource_provision (fb_resources f)")
  have frames: "list_all2 resource_frame (fb_resources f) rs'"
    by (rule each_resource_all2 [OF live_is_frame [OF provision_live] _ each]) (simp add: frame.refl)
  have err: "\<exists>m. e = FabricReferenceError m" if "each_resource resource_provision rs = (Inl e, rs1)" for rs e rs1
    using that by (induction rs arbitrary: rs1)
      (auto simp: resource_provision_def action_simps assert_live_reference_def raise_if_def split: sum.splits if_splits prod.splits)
  have one: "fr_provisioned r1" if "resource_provision r = (Inr u, r1)" for r u r1
    using that by (auto simp: resource_provision_def action_simps split: sum.splits if_splits)
  have prov: "\<forall>r \<in> set rs1. fr_provisioned r" if "each_resource resource_provision rs = (Inr us, rs1)" for rs us rs1
    using that one by (auto simp: each_resource_ok in_set_conv_nth) metis
  have req: "\<exists>r \<in> set (fb_resources f). fr_id r = rq_resource_id q \<and>
      semantic_identity (rq_declaration q) \<in> semantic_identity ` set (rd_capabilities (fr_descriptor r))"
    if "validate_required_capabilities f = Inr u" "q \<in> set (fb_requirements f)"
      "cd_participation (rq_declaration q) = REQUIRED" for q u
  proof -
    from that have ok: "check_requirement (fb_resources f) q = Inr ()" by (simp add: validate_required_capabilities_def)
    show ?thesis
    proof (cases "resource_named (rq_resource_id q) (fb_resources f)")
      case (Some r)
      with ok that(3) have "semantic_identity (rq_declaration q) \<in> semantic_identity ` set (rd_capabilities (fr_descriptor r))"
        by (simp add: check_requirement_def Let_def)
      with find_Some_set [OF Some [unfolded resource_named_def]] show ?thesis by blast
    qed (use ok that(3) in \<open>simp add: check_requirement_def Let_def\<close>)
  qed
  show ?thesis
  proof (cases "assert_live f = Inr () \<and> validate_required_capabilities f = Inr ()")
    case False
    then have "\<exists>e. fabric_provision f = (Inl e, f)"
      by (auto simp: fabric_provision_def act_bind_def act_read_def split: sum.splits)
    then show ?thesis by (auto split: fabric_error.split)
  next
    case True
    show ?thesis
    proof (cases x)
      case (Inl e)
      with err [of "fb_resources f" e rs'] each obtain m where "e = FabricReferenceError m" by auto
      with Inl each True show ?thesis
        by (auto simp: fabric_provision_def act_bind_def act_read_def on_resources_def act_zoom_def)
    next
      case (Inr us)
      with each have "\<forall>r \<in> set rs'. fr_provisioned r" by (auto dest: prov)
      with Inr each True req frames_same [OF frames] show ?thesis
        by (simp add: fabric_provision_def act_bind_def act_read_def on_resources_def act_zoom_def act_modify_def)
    qed
  qed
qed

definition demo_capability :: capability_declaration where
  "demo_capability = \<lparr>cd_capability_id = ''sql'', cd_profile = ''p'', cd_revision = ''1'', cd_participation = REQUIRED\<rparr>"

definition demo_requiring :: environment_fabric where
  "demo_requiring = demo_fabric\<lparr>fb_requirements := [\<lparr>rq_resource_id = ''db'', rq_declaration = demo_capability\<rparr>],
     fb_resources := [make_fabric_resource ((demo_descriptor ''db'' REQUIRED)\<lparr>rd_capabilities := [demo_capability]\<rparr>)
       EXACT [] False]\<rparr>"

theorem provisioning_checks_before_effects_witness:
  "(\<exists>r \<in> set (fb_resources demo_requiring). fr_id r = ''db'' \<and>
     semantic_identity demo_capability \<in> semantic_identity ` set (rd_capabilities (fr_descriptor r))) \<and>
   snd (fabric_provision (demo_requiring\<lparr>fb_resources := fb_resources demo_fabric\<rparr>)) =
     demo_requiring\<lparr>fb_resources := fb_resources demo_fabric\<rparr>"
proof
  have ok: "is_ok (fst (fabric_provision demo_requiring))" by code_simp
  have "\<lparr>rq_resource_id = ''db'', rq_declaration = demo_capability\<rparr> \<in> set (fb_requirements demo_requiring)"
    "cd_participation demo_capability = REQUIRED" by (simp_all add: demo_requiring_def demo_capability_def)
  with provisioning_checks_before_effects [of demo_requiring] ok
  show "\<exists>r \<in> set (fb_resources demo_requiring). fr_id r = ''db'' \<and>
     semantic_identity demo_capability \<in> semantic_identity ` set (rd_capabilities (fr_descriptor r))"
    by (cases "fabric_provision demo_requiring") (fastforce simp: is_ok_def split: sum.splits)
  have "case fst (fabric_provision (demo_requiring\<lparr>fb_resources := fb_resources demo_fabric\<rparr>)) of
      Inl (FabricCompatibilityError m) \<Rightarrow> True | _ \<Rightarrow> False" by code_simp
  with provisioning_checks_before_effects [of "demo_requiring\<lparr>fb_resources := fb_resources demo_fabric\<rparr>"]
  show "snd (fabric_provision (demo_requiring\<lparr>fb_resources := fb_resources demo_fabric\<rparr>)) =
     demo_requiring\<lparr>fb_resources := fb_resources demo_fabric\<rparr>"
    by (cases "fabric_provision (demo_requiring\<lparr>fb_resources := fb_resources demo_fabric\<rparr>)")
      (simp split: sum.splits fabric_error.splits)
qed

text \<open>Where the reference Fabric is not honest: (1) an optional resource whose cleanup failed is reported as released
  by the next release although it is still live; (2) after a composite RELEASE the Fabric stays ready, with every
  further operation on its resources failing; (3) a composite reset that omits a required resource raises after it has
  already reset the resources before it, and hands out no result; (4) a restore reported EXACT changes nothing.\<close>

theorem fabric_honesty_gaps:
  "(let f = snd (fabric_release demo_ready) in
      map fr_released (fb_resources f) = [True, False] \<and>
      map xs_status (fx_results (projr (fst (fabric_release f)))) = [SUCCEEDED, SUCCEEDED]) \<and>
   (let f = snd (execute_composite OpRelease [''web''] demo_ready) in
      fabric_ready f \<and> fst (execute_composite OpReset [''web''] f) =
        Inl (FabricReferenceError ''resource reference is released: db'')) \<and>
   (let f = demo_ready\<lparr>fb_resources := map (\<lambda>r. r\<lparr>fr_state := 7\<rparr>) (rev (fb_resources demo_ready))\<rparr> in
      case execute_composite OpReset [''db''] f of (x, f') \<Rightarrow>
        x = Inl (FabricCompatibilityError ''required resource cannot be non-participating: db'') \<and>
        map fr_state (fb_resources f') = [0, 7]) \<and>
   (\<forall>r. fr_state (snd (resource_restore r)) = fr_state r)"
proof (intro conjI)
  show "\<forall>r. fr_state (snd (resource_restore r)) = fr_state r"
    by (auto simp: resource_restore_def resource_operation_def action_simps split: sum.splits)
qed code_simp+

end
