(* ===== verification/AVP_Trust.thy ===== *)
theory AVP_Trust
  imports AVP_OracleModels
begin

text \<open>
  Artifact trust: \<^verbatim>\<open>trust/models.py\<close>, \<^verbatim>\<open>trust/protocol.py\<close>, \<^verbatim>\<open>trust/verifier.py\<close> and
  \<^verbatim>\<open>trust/publisher.py\<close>. An attestation binding is a partial function from bytes to an
  authenticated observation, the signer a function from the artifact to bytes; the store is the
  pair of operations of the \<open>ArtifactStore\<close> protocol. Python's type tests are the model's types.
\<close>

section \<open>Models\<close>

definition non_empty :: "string \<Rightarrow> string \<Rightarrow> nat \<Rightarrow> (exn, unit) result" where
  "non_empty value field maximum =
     (if value = [] then Inl (ValueError (field @ '' must be a non-empty string''))
      else if maximum < length value
      then Inl (ValueError (field @ '' must not exceed '' @ string_of_nat maximum @ '' characters''))
      else Inr ())"

definition optional_non_empty :: "string option \<Rightarrow> string \<Rightarrow> nat \<Rightarrow> (exn, unit) result" where
  "optional_non_empty value field maximum =
     (case value of None \<Rightarrow> Inr () | Some v \<Rightarrow> non_empty v field maximum)"

definition unique_non_empty :: "string list \<Rightarrow> string \<Rightarrow> nat \<Rightarrow> (exn, unit) result" where
  "unique_non_empty values field maximum =
     res_bind (raise_if (values = []) (ValueError (field @ '' must be a non-empty tuple''))) (\<lambda>_.
     res_bind (raise_if (\<not> distinct values) (ValueError (field @ '' must not contain duplicates''))) (\<lambda>_.
     check_each (\<lambda>v. non_empty v field maximum) values))"

definition optional_unique :: "string list option \<Rightarrow> string \<Rightarrow> nat \<Rightarrow> (exn, unit) result" where
  "optional_unique values field maximum =
     (case values of None \<Rightarrow> Inr () | Some vs \<Rightarrow> unique_non_empty vs field maximum)"

datatype trust_outcome = ACCEPTED | INTEGRITY_FAILED | MALFORMED | UNSUPPORTED | AUTHENTICATION_FAILED
  | SUBJECT_MISMATCH | IDENTITY_REJECTED | POLICY_REJECTED

fun trust_outcome_value :: "trust_outcome \<Rightarrow> string" where
  "trust_outcome_value ACCEPTED = ''accepted''"
| "trust_outcome_value INTEGRITY_FAILED = ''integrity-failed''"
| "trust_outcome_value MALFORMED = ''malformed''"
| "trust_outcome_value UNSUPPORTED = ''unsupported''"
| "trust_outcome_value AUTHENTICATION_FAILED = ''authentication-failed''"
| "trust_outcome_value SUBJECT_MISMATCH = ''subject-mismatch''"
| "trust_outcome_value IDENTITY_REJECTED = ''identity-rejected''"
| "trust_outcome_value POLICY_REJECTED = ''policy-rejected''"

record attestation =
  at_artifact_digest :: string
  at_attestation :: artifact_ref
  at_binding_profile :: string

definition make_attestation :: "attestation \<Rightarrow> (exn, attestation) result" where
  "make_attestation a =
     res_bind (validate_sha256_digest (at_artifact_digest a)) (\<lambda>_.
     res_bind (non_empty (at_binding_profile a) ''binding_profile'' 256) (\<lambda>_. Inr a))"

definition attestation_dict :: "attestation \<Rightarrow> json" where
  "attestation_dict a = JObj
     [(''artifactDigest'', JStr (at_artifact_digest a)), (''attestation'', artifact_ref_dict (at_attestation a)),
      (''bindingProfile'', JStr (at_binding_profile a))]"

record trust_policy =
  tp_policy_id :: string
  tp_signers :: "string list"
  tp_profiles :: "string list option"
  tp_predicates :: "string list option"

definition make_trust_policy :: "trust_policy \<Rightarrow> (exn, trust_policy) result" where
  "make_trust_policy p =
     res_bind (non_empty (tp_policy_id p) ''policy_id'' 256) (\<lambda>_.
     res_bind (unique_non_empty (tp_signers p) ''allowed_signer_identities'' 512) (\<lambda>_.
     res_bind (optional_unique (tp_profiles p) ''allowed_binding_profiles'' 256) (\<lambda>_.
     res_bind (optional_unique (tp_predicates p) ''allowed_predicate_types'' 2048) (\<lambda>_. Inr p))))"

definition optional_list :: "string \<Rightarrow> string list option \<Rightarrow> (string \<times> json) list" where
  "optional_list k v = (case v of None \<Rightarrow> [] | Some xs \<Rightarrow> [(k, jstrs xs)])"

definition trust_policy_dict :: "trust_policy \<Rightarrow> json" where
  "trust_policy_dict p = JObj
     ([(''policyId'', JStr (tp_policy_id p)), (''allowedSignerIdentities'', jstrs (tp_signers p))] @
      optional_list ''allowedBindingProfiles'' (tp_profiles p) @
      optional_list ''allowedPredicateTypes'' (tp_predicates p))"

record observation =
  ob_binding_profile :: string
  ob_authenticated :: bool
  ob_subject_digests :: "string list"
  ob_signer_identity :: "string option"
  ob_statement_type :: "string option"
  ob_predicate_type :: "string option"
  ob_verified_properties :: "string list"

definition make_observation :: "observation \<Rightarrow> (exn, observation) result" where
  "make_observation b =
     res_bind (non_empty (ob_binding_profile b) ''binding_profile'' 256) (\<lambda>_.
     res_bind (raise_if (\<not> ob_authenticated b \<and> (ob_subject_digests b \<noteq> [] \<or> ob_signer_identity b \<noteq> None \<or>
         ob_statement_type b \<noteq> None \<or> ob_predicate_type b \<noteq> None \<or> ob_verified_properties b \<noteq> []))
       (ValueError ''unauthenticated observation must not expose authenticated claims'')) (\<lambda>_.
     res_bind (raise_if (\<not> distinct (ob_subject_digests b))
       (ValueError ''subject_digests must not contain duplicates'')) (\<lambda>_.
     res_bind (check_each (\<lambda>d. res_bind (validate_sha256_digest d) (\<lambda>_. Inr ())) (ob_subject_digests b)) (\<lambda>_.
     res_bind (optional_non_empty (ob_signer_identity b) ''signer_identity'' 512) (\<lambda>_.
     res_bind (optional_non_empty (ob_statement_type b) ''statement_type'' 2048) (\<lambda>_.
     res_bind (optional_non_empty (ob_predicate_type b) ''predicate_type'' 2048) (\<lambda>_.
     res_bind (raise_if (\<not> distinct (ob_verified_properties b))
       (ValueError ''verified_properties must not contain duplicates'')) (\<lambda>_.
     res_bind (check_each (\<lambda>v. non_empty v ''verified_properties'' 256) (ob_verified_properties b)) (\<lambda>_.
     Inr b)))))))))"

record trust_result =
  tu_artifact_digest :: string
  tu_attestation_digest :: string
  tu_binding_profile :: string
  tu_policy_id :: string
  tu_outcome :: trust_outcome
  tu_signer_identity :: "string option"
  tu_statement_type :: "string option"
  tu_predicate_type :: "string option"
  tu_verified_properties :: "string list"
  tu_diagnostics :: "(string \<times> json) list option"

definition make_trust_result :: "trust_result \<Rightarrow> (exn, trust_result) result" where
  "make_trust_result r =
     res_bind (validate_sha256_digest (tu_artifact_digest r)) (\<lambda>_.
     res_bind (validate_sha256_digest (tu_attestation_digest r)) (\<lambda>_.
     res_bind (non_empty (tu_binding_profile r) ''binding_profile'' 256) (\<lambda>_.
     res_bind (non_empty (tu_policy_id r) ''policy_id'' 256) (\<lambda>_.
     res_bind (optional_non_empty (tu_signer_identity r) ''signer_identity'' 512) (\<lambda>_.
     res_bind (raise_if (tu_outcome r = ACCEPTED \<and> tu_signer_identity r = None)
       (ValueError ''accepted trust result requires signer_identity'')) (\<lambda>_.
     res_bind (raise_if (tu_outcome r = AUTHENTICATION_FAILED \<and> (tu_signer_identity r \<noteq> None \<or>
         tu_statement_type r \<noteq> None \<or> tu_predicate_type r \<noteq> None))
       (ValueError ''authentication-failed result must not expose authenticated identity or type claims'')) (\<lambda>_.
     res_bind (optional_non_empty (tu_statement_type r) ''statement_type'' 2048) (\<lambda>_.
     res_bind (optional_non_empty (tu_predicate_type r) ''predicate_type'' 2048) (\<lambda>_.
     res_bind (raise_if (\<not> distinct (tu_verified_properties r))
       (ValueError ''verified_properties must not contain duplicates'')) (\<lambda>_.
     res_bind (check_each (\<lambda>v. non_empty v ''verified_properties'' 256) (tu_verified_properties r)) (\<lambda>_.
     Inr r)))))))))))"

definition trust_result_dict :: "trust_result \<Rightarrow> json" where
  "trust_result_dict r = JObj
     ([(''artifactDigest'', JStr (tu_artifact_digest r)), (''attestationDigest'', JStr (tu_attestation_digest r)),
       (''bindingProfile'', JStr (tu_binding_profile r)), (''policyId'', JStr (tu_policy_id r)),
       (''outcome'', JStr (trust_outcome_value (tu_outcome r)))] @
      (case tu_signer_identity r of None \<Rightarrow> [] | Some v \<Rightarrow> [(''signerIdentity'', JStr v)]) @
      (case tu_statement_type r of None \<Rightarrow> [] | Some v \<Rightarrow> [(''statementType'', JStr v)]) @
      (case tu_predicate_type r of None \<Rightarrow> [] | Some v \<Rightarrow> [(''predicateType'', JStr v)]) @
      (if tu_verified_properties r = [] then [] else [(''verifiedProperties'', jstrs (tu_verified_properties r))]) @
      (case tu_diagnostics r of None \<Rightarrow> [] | Some d \<Rightarrow> [(''diagnostics'', JObj d)]))"

section \<open>The verifier\<close>

record attestation_binding =
  bi_profile :: string
  bi_authenticate :: "bytes \<Rightarrow> (exn, observation) result"

type_synonym binding_index = "string \<Rightarrow> attestation_binding option"

fun index_bindings :: "attestation_binding list \<Rightarrow> binding_index \<Rightarrow> (exn, binding_index) result" where
  "index_bindings [] indexed = Inr indexed"
| "index_bindings (b # bs) indexed =
     (if bi_profile b = [] then Inl (ValueError ''attestation binding profile must be non-empty'')
      else if indexed (bi_profile b) \<noteq> None
      then Inl (ValueError (''duplicate attestation binding profile: '' @ bi_profile b))
      else index_bindings bs (indexed(bi_profile b \<mapsto> b)))"

definition make_verifier :: "attestation_binding list \<Rightarrow> (exn, binding_index) result" where
  "make_verifier bs = index_bindings bs Map.empty"

definition base_verified_properties :: "string list" where
  "base_verified_properties = [''attestation.authentication'', ''artifact.subject-binding'', ''signer.identity'',
     ''policy.acceptance'']"

definition trust_result_of :: "attestation \<Rightarrow> trust_policy \<Rightarrow> trust_outcome \<Rightarrow> observation option \<Rightarrow> string list \<Rightarrow>
    string option \<Rightarrow> (exn, trust_result) result" where
  "trust_result_of a p outcome obs verified reason =
     (let shown = (case obs of Some b \<Rightarrow> if ob_authenticated b then Some b else None | None \<Rightarrow> None) in
      make_trust_result
        \<lparr>tu_artifact_digest = at_artifact_digest a, tu_attestation_digest = ref_digest (at_attestation a),
         tu_binding_profile = at_binding_profile a, tu_policy_id = tp_policy_id p, tu_outcome = outcome,
         tu_signer_identity = Option.bind shown ob_signer_identity,
         tu_statement_type = Option.bind shown ob_statement_type,
         tu_predicate_type = Option.bind shown ob_predicate_type,
         tu_verified_properties = verified,
         tu_diagnostics = map_option (\<lambda>r. [(''reason'', JStr r)]) reason\<rparr>)"

definition text_or_name :: "exn \<Rightarrow> string" where
  "text_or_name e = (if exn_text e = [] then exn_name e else exn_text e)"

definition judge_observation :: "attestation \<Rightarrow> trust_policy \<Rightarrow> observation \<Rightarrow> (exn, trust_result) result" where
  "judge_observation a p b =
     (let reject = (\<lambda>outcome reason. trust_result_of a p outcome (Some b) [] (Some reason)) in
      if ob_binding_profile b \<noteq> at_binding_profile a then reject MALFORMED ''binding-observation-profile-mismatch''
      else if \<not> ob_authenticated b
      then trust_result_of a p AUTHENTICATION_FAILED None [] (Some ''attestation-authentication-failed'')
      else if at_artifact_digest a \<notin> set (ob_subject_digests b)
      then reject SUBJECT_MISMATCH ''authenticated-subject-does-not-match-artifact''
      else case ob_signer_identity b of
        None \<Rightarrow> reject IDENTITY_REJECTED ''authenticated-signer-identity-unavailable''
      | Some signer \<Rightarrow>
          if signer \<notin> set (tp_signers p) then reject IDENTITY_REJECTED ''authenticated-signer-identity-not-allowed''
          else if (case tp_profiles p of None \<Rightarrow> False | Some ps \<Rightarrow> at_binding_profile a \<notin> set ps)
          then reject POLICY_REJECTED ''binding-profile-not-allowed''
          else if (case tp_predicates p of None \<Rightarrow> False
                   | Some ts \<Rightarrow> (case ob_predicate_type b of None \<Rightarrow> True | Some t \<Rightarrow> t \<notin> set ts))
          then reject POLICY_REJECTED ''predicate-type-not-allowed''
          else trust_result_of a p ACCEPTED (Some b)
            (dedupe (ob_verified_properties b @ base_verified_properties)) None)"

definition trust_verify :: "(artifact_ref \<Rightarrow> 's \<Rightarrow> (exn, bytes) result) \<Rightarrow> binding_index \<Rightarrow> attestation \<Rightarrow> trust_policy \<Rightarrow>
    's \<Rightarrow> (exn, trust_result) result" where
  "trust_verify get bindings a p s =
     (case get (at_attestation a) s of
        Inl (ArtifactExn (ArtifactIntegrityError m)) \<Rightarrow>
          trust_result_of a p INTEGRITY_FAILED None [] (Some ''ArtifactIntegrityError'')
      | Inl e \<Rightarrow> Inl e
      | Inr data \<Rightarrow>
          (case bindings (at_binding_profile a) of
             None \<Rightarrow> trust_result_of a p UNSUPPORTED None [] (Some ''binding-profile-not-supported'')
           | Some b \<Rightarrow>
               (case bi_authenticate b data of
                  Inl (AttestationExn MalformedAttestationError m) \<Rightarrow> trust_result_of a p MALFORMED None []
                    (Some (text_or_name (AttestationExn MalformedAttestationError m)))
                | Inl (AttestationExn UnsupportedAttestationError m) \<Rightarrow> trust_result_of a p UNSUPPORTED None []
                    (Some (text_or_name (AttestationExn UnsupportedAttestationError m)))
                | Inl e \<Rightarrow> Inl e
                | Inr obs \<Rightarrow> judge_observation a p obs)))"

section \<open>The publisher\<close>

record attestation_signer =
  sg_profile :: string
  sg_create :: "artifact_ref \<Rightarrow> string option \<Rightarrow> (exn, bytes) result"

definition make_publisher :: "attestation_signer \<Rightarrow> (exn, attestation_signer) result" where
  "make_publisher g =
     res_bind (raise_if (sg_profile g = [])
       (ValueError ''attestation signer binding_profile must be non-empty'')) (\<lambda>_. Inr g)"

text \<open>An \<open>ArtifactRef\<close> is frozen, so its digest cannot have changed when the code compares it.\<close>

definition publish_attestation :: "(bytes \<Rightarrow> string \<Rightarrow> string option \<Rightarrow> ('s, exn, artifact_ref) action) \<Rightarrow>
    attestation_signer \<Rightarrow> artifact_ref \<Rightarrow> string option \<Rightarrow> string \<Rightarrow> ('s, exn, attestation) action" where
  "publish_attestation put g artifact predicate media_type =
     act_bind (act_of (sg_create g artifact predicate)) (\<lambda>data.
     act_bind (put data media_type None) (\<lambda>ref.
     act_of (make_attestation
       \<lparr>at_artifact_digest = ref_digest artifact, at_attestation = ref, at_binding_profile = sg_profile g\<rparr>)))"

section \<open>Results can always be built\<close>

lemma non_empty_ok [simp]: "non_empty v f n = Inr u \<longleftrightarrow> v \<noteq> [] \<and> length v \<le> n"
  by (auto simp: non_empty_def)

lemma optional_non_empty_ok [simp]:
  "optional_non_empty v f n = Inr u \<longleftrightarrow> (case v of None \<Rightarrow> True | Some x \<Rightarrow> x \<noteq> [] \<and> length x \<le> n)"
  by (auto simp: optional_non_empty_def split: option.splits)

text \<open>What the constructors have checked when \<open>verify\<close> is called.\<close>

definition trust_inputs_ok :: "attestation \<Rightarrow> trust_policy \<Rightarrow> bool" where
  "trust_inputs_ok a p \<longleftrightarrow> make_attestation a = Inr a \<and> is_sha256_text (ref_digest (at_attestation a)) \<and>
     make_trust_policy p = Inr p"

definition observation_ok :: "observation \<Rightarrow> bool" where
  "observation_ok b \<longleftrightarrow> make_observation b = Inr b"

text \<open>An observation is a dataclass whose constructor checks it, so every binding returns one that passed.\<close>

definition bindings_checked :: "binding_index \<Rightarrow> bool" where
  "bindings_checked bindings \<longleftrightarrow>
     (\<forall>n b data obs. bindings n = Some b \<longrightarrow> bi_authenticate b data = Inr obs \<longrightarrow> observation_ok obs)"

lemma bindings_checkedD: "bindings_checked bindings \<Longrightarrow> bindings n = Some b \<Longrightarrow> bi_authenticate b data = Inr obs \<Longrightarrow> observation_ok obs"
  by (simp add: bindings_checked_def)

lemma observation_okD:
  "observation_ok b \<Longrightarrow> (case ob_signer_identity b of None \<Rightarrow> True | Some x \<Rightarrow> x \<noteq> [] \<and> length x \<le> 512) \<and>
     (case ob_statement_type b of None \<Rightarrow> True | Some x \<Rightarrow> x \<noteq> [] \<and> length x \<le> 2048) \<and>
     (case ob_predicate_type b of None \<Rightarrow> True | Some x \<Rightarrow> x \<noteq> [] \<and> length x \<le> 2048) \<and>
     (\<forall>v \<in> set (ob_verified_properties b). v \<noteq> [] \<and> length v \<le> 256)"
  by (simp add: observation_ok_def make_observation_def)

lemma trust_result_made:
  assumes "trust_inputs_ok a p" "case obs of None \<Rightarrow> True | Some b \<Rightarrow> observation_ok b"
    "outcome = ACCEPTED \<Longrightarrow> \<exists>b signer. obs = Some b \<and> ob_authenticated b \<and> ob_signer_identity b = Some signer"
    "outcome = AUTHENTICATION_FAILED \<Longrightarrow> obs = None"
    "distinct verified" "\<forall>v \<in> set verified. v \<noteq> [] \<and> length v \<le> 256"
  shows "\<exists>r. trust_result_of a p outcome obs verified reason = Inr r \<and> tu_outcome r = outcome \<and>
    tu_verified_properties r = verified \<and> tu_artifact_digest r = at_artifact_digest a \<and>
    tu_attestation_digest r = ref_digest (at_attestation a) \<and> tu_binding_profile r = at_binding_profile a \<and> tu_policy_id r = tp_policy_id p \<and>
    (case obs of None \<Rightarrow> tu_signer_identity r = None
     | Some b \<Rightarrow> ob_authenticated b \<longrightarrow> tu_signer_identity r = ob_signer_identity b \<and> tu_statement_type r = ob_statement_type b \<and>
         tu_predicate_type r = ob_predicate_type b)"
proof -
  note defs = trust_inputs_ok_def make_attestation_def make_trust_policy_def trust_result_of_def Let_def make_trust_result_def
  show ?thesis
  proof (cases "\<exists>b. obs = Some b \<and> ob_authenticated b")
    case True
    then obtain b where b: "obs = Some b" "ob_authenticated b" by blast
    with assms(2) have "observation_ok b" by simp
    note okD = observation_okD [OF this]
    from assms(3,4) b have "outcome = ACCEPTED \<longrightarrow> ob_signer_identity b \<noteq> None" "outcome \<noteq> AUTHENTICATION_FAILED" by auto
    with assms(1,5,6) okD b show ?thesis by (auto simp: defs)
  next
    case False
    then have "(case obs of Some b \<Rightarrow> if ob_authenticated b then Some b else None | None \<Rightarrow> None) = None"
      by (auto split: option.split)
    moreover have "outcome \<noteq> ACCEPTED" using False assms(3) by blast
    ultimately show ?thesis using assms(1,5,6) False by (auto simp: defs split: option.split)
  qed
qed

text \<open>The condition under which an observation is accepted.\<close>

definition acceptable :: "attestation \<Rightarrow> trust_policy \<Rightarrow> observation \<Rightarrow> bool" where
  "acceptable a p b \<longleftrightarrow> ob_binding_profile b = at_binding_profile a \<and> ob_authenticated b \<and>
     at_artifact_digest a \<in> set (ob_subject_digests b) \<and>
     (\<exists>signer. ob_signer_identity b = Some signer \<and> signer \<in> set (tp_signers p)) \<and>
     (\<forall>ps. tp_profiles p = Some ps \<longrightarrow> at_binding_profile a \<in> set ps) \<and>
     (\<forall>ts. tp_predicates p = Some ts \<longrightarrow> (\<exists>t. ob_predicate_type b = Some t \<and> t \<in> set ts))"

lemma base_properties: "distinct base_verified_properties"
  "\<forall>v \<in> set base_verified_properties. v \<noteq> [] \<and> length v \<le> 256"
  by (simp_all add: base_verified_properties_def)

text \<open>A result is about the inputs of \<open>verify\<close>, and an accepted one carries what the observation authenticated.\<close>

definition binds_inputs :: "attestation \<Rightarrow> trust_policy \<Rightarrow> trust_result \<Rightarrow> bool" where
  "binds_inputs a p r \<longleftrightarrow> tu_artifact_digest r = at_artifact_digest a \<and> tu_attestation_digest r = ref_digest (at_attestation a) \<and>
     tu_binding_profile r = at_binding_profile a \<and> tu_policy_id r = tp_policy_id p"

definition carries_claims :: "observation \<Rightarrow> trust_result \<Rightarrow> bool" where
  "carries_claims b r \<longleftrightarrow> tu_signer_identity r = ob_signer_identity b \<and> tu_statement_type r = ob_statement_type b \<and>
     tu_predicate_type r = ob_predicate_type b \<and> distinct (tu_verified_properties r) \<and>
     set (tu_verified_properties r) = set (ob_verified_properties b) \<union> set base_verified_properties"

definition verdict_for :: "attestation \<Rightarrow> trust_policy \<Rightarrow> observation \<Rightarrow> trust_result \<Rightarrow> bool" where
  "verdict_for a p b r \<longleftrightarrow> binds_inputs a p r \<and> (tu_outcome r = ACCEPTED \<longleftrightarrow> acceptable a p b) \<and>
     (if tu_outcome r = ACCEPTED then carries_claims b r else tu_verified_properties r = [])"

lemma rejection_made:
  assumes "trust_inputs_ok a p" "case obs of None \<Rightarrow> True | Some b \<Rightarrow> observation_ok b" "outcome \<noteq> ACCEPTED"
    "outcome = AUTHENTICATION_FAILED \<Longrightarrow> obs = None"
  shows "\<exists>r. trust_result_of a p outcome obs [] (Some reason) = Inr r \<and> binds_inputs a p r \<and> tu_outcome r \<noteq> ACCEPTED \<and>
    tu_verified_properties r = []"
  using trust_result_made [of a p obs outcome "[]" "Some reason"] assms by (auto simp: binds_inputs_def)

lemma judge_made:
  assumes "trust_inputs_ok a p" "observation_ok b"
  shows "\<exists>r. judge_observation a p b = Inr r \<and> verdict_for a p b r"
proof -
  have rejected: "\<exists>r. trust_result_of a p outcome obs [] (Some reason) = Inr r \<and> verdict_for a p b r"
    if "\<not> acceptable a p b" "outcome \<noteq> ACCEPTED" "outcome = AUTHENTICATION_FAILED \<Longrightarrow> obs = None" "obs = None \<or> obs = Some b"
    for outcome obs reason
    using rejection_made [of a p obs outcome reason] assms that by (auto simp: verdict_for_def)
  consider (profile) "ob_binding_profile b \<noteq> at_binding_profile a"
    | (plain) "ob_binding_profile b = at_binding_profile a" "\<not> ob_authenticated b"
    | (subject) "ob_binding_profile b = at_binding_profile a" "ob_authenticated b"
        "at_artifact_digest a \<notin> set (ob_subject_digests b)"
    | (judged) "ob_binding_profile b = at_binding_profile a" "ob_authenticated b"
        "at_artifact_digest a \<in> set (ob_subject_digests b)" by blast
  then show ?thesis
  proof cases
    case profile
    then have no: "\<not> acceptable a p b" by (simp add: acceptable_def)
    have "judge_observation a p b = trust_result_of a p MALFORMED (Some b) [] (Some ''binding-observation-profile-mismatch'')"
      using profile by (simp add: judge_observation_def)
    show ?thesis unfolding \<open>judge_observation a p b = _\<close> by (intro rejected no) simp_all
  next
    case plain
    then have no: "\<not> acceptable a p b" by (simp add: acceptable_def)
    have "judge_observation a p b = trust_result_of a p AUTHENTICATION_FAILED None [] (Some ''attestation-authentication-failed'')"
      using plain by (simp add: judge_observation_def)
    show ?thesis unfolding \<open>judge_observation a p b = _\<close> by (intro rejected no) simp_all
  next
    case subject
    then have no: "\<not> acceptable a p b" by (simp add: acceptable_def)
    have "judge_observation a p b =
        trust_result_of a p SUBJECT_MISMATCH (Some b) [] (Some ''authenticated-subject-does-not-match-artifact'')"
      using subject by (simp add: judge_observation_def)
    show ?thesis unfolding \<open>judge_observation a p b = _\<close> by (intro rejected no) simp_all
  next
    case judged
    show ?thesis
    proof (cases "acceptable a p b")
      case False
      have "\<exists>outcome reason. judge_observation a p b = trust_result_of a p outcome (Some b) [] (Some reason) \<and>
          outcome \<noteq> ACCEPTED \<and> outcome \<noteq> AUTHENTICATION_FAILED"
      proof (cases "ob_signer_identity b")
        case (Some signer)
        with judged False show ?thesis
          by (cases "tp_profiles p"; cases "tp_predicates p"; cases "ob_predicate_type b")
            (auto simp: acceptable_def judge_observation_def Let_def)
      qed (use judged in \<open>auto simp: judge_observation_def Let_def\<close>)
      then obtain outcome reason where j: "judge_observation a p b = trust_result_of a p outcome (Some b) [] (Some reason)"
        "outcome \<noteq> ACCEPTED" "outcome \<noteq> AUTHENTICATION_FAILED" by blast
      show ?thesis unfolding j(1) by (intro rejected False j(2)) (simp_all add: j(3))
    next
      case True
      then obtain signer where signer: "ob_signer_identity b = Some signer" "signer \<in> set (tp_signers p)"
        by (auto simp: acceptable_def)
      let ?verified = "dedupe (ob_verified_properties b @ base_verified_properties)"
      have "judge_observation a p b = trust_result_of a p ACCEPTED (Some b) ?verified None"
        using True judged signer by (auto simp: acceptable_def judge_observation_def Let_def split: option.splits)
      moreover have "\<forall>v \<in> set ?verified. v \<noteq> [] \<and> length v \<le> 256"
        using observation_okD [OF assms(2)] base_properties(2) by (simp add: ball_Un)
      ultimately show ?thesis
        using trust_result_made [of a p "Some b" ACCEPTED ?verified None] assms signer judged True
        by (auto simp: verdict_for_def binds_inputs_def carries_claims_def)
    qed
  qed
qed

text \<open>The whole path from the stored bytes to an observation.\<close>

definition authenticates :: "(artifact_ref \<Rightarrow> 's \<Rightarrow> (exn, bytes) result) \<Rightarrow> binding_index \<Rightarrow> attestation \<Rightarrow> 's \<Rightarrow> bytes \<Rightarrow> observation \<Rightarrow> bool" where
  "authenticates get bindings a s data obs \<longleftrightarrow> get (at_attestation a) s = Inr data \<and>
     (\<exists>b. bindings (at_binding_profile a) = Some b \<and> bi_authenticate b data = Inr obs)"

lemma authenticates_unique:
  "authenticates get bindings a s data obs \<Longrightarrow> authenticates get bindings a s data' obs' \<longleftrightarrow> data' = data \<and> obs' = obs"
  by (auto simp: authenticates_def)

text \<open>\<open>verify\<close> raises only what the store or the binding raised, never an integrity failure of the store or a malformed or
  unsupported attestation, which become results; without an observation the result is a rejection.\<close>

lemma trust_verify_cases:
  assumes "trust_inputs_ok a p" "bindings_checked bindings"
  obtains (raised) e where "trust_verify get bindings a p s = Inl e" "\<And>data obs. \<not> authenticates get bindings a s data obs"
      "get (at_attestation a) s = Inl e \<and> (\<nexists>m. e = ArtifactExn (ArtifactIntegrityError m)) \<or>
        (\<exists>data b. get (at_attestation a) s = Inr data \<and> bindings (at_binding_profile a) = Some b \<and> bi_authenticate b data = Inl e \<and>
           (\<nexists>m. e = AttestationExn MalformedAttestationError m \<or> e = AttestationExn UnsupportedAttestationError m))"
  | (unobserved) r where "trust_verify get bindings a p s = Inr r" "\<And>data obs. \<not> authenticates get bindings a s data obs"
      "binds_inputs a p r" "tu_outcome r \<noteq> ACCEPTED" "tu_verified_properties r = []"
  | (judged) data obs r where "trust_verify get bindings a p s = Inr r" "authenticates get bindings a s data obs" "verdict_for a p obs r"
proof -
  have plain: "\<exists>r. trust_result_of a p outcome None [] (Some reason) = Inr r \<and> binds_inputs a p r \<and> tu_outcome r \<noteq> ACCEPTED \<and>
      tu_verified_properties r = []" if "outcome \<noteq> ACCEPTED" for outcome reason
    using rejection_made [of a p None outcome reason] assms(1) that by auto
  have reject: thesis if "trust_verify get bindings a p s = trust_result_of a p outcome None [] (Some reason)" "outcome \<noteq> ACCEPTED"
      "\<And>data obs. \<not> authenticates get bindings a s data obs" for outcome reason
    using plain [OF that(2), of reason] that(1,3) unobserved by auto
  show thesis
  proof (cases "get (at_attestation a) s")
    case (Inl e)
    then have no: "\<And>data obs. \<not> authenticates get bindings a s data obs" by (simp add: authenticates_def)
    show thesis
    proof (cases "\<exists>m. e = ArtifactExn (ArtifactIntegrityError m)")
      case True
      with Inl show thesis by (intro reject [of INTEGRITY_FAILED "''ArtifactIntegrityError''"] no) (auto simp: trust_verify_def)
    next
      case False
      with Inl show thesis by (intro raised [of e] no) (auto simp: trust_verify_def split: exn.split artifact_error.split)
    qed
  next
    case got: (Inr data)
    show thesis
    proof (cases "bindings (at_binding_profile a)")
      case None
      with got show thesis
        by (intro reject [of UNSUPPORTED "''binding-profile-not-supported''"]) (auto simp: trust_verify_def authenticates_def)
    next
      case (Some b)
      show thesis
      proof (cases "bi_authenticate b data")
        case (Inr obs)
        from judge_made [OF assms(1) bindings_checkedD [OF assms(2) Some Inr]] obtain r where "judge_observation a p obs = Inr r" "verdict_for a p obs r" by blast
        with got Some Inr show thesis by (intro judged [of r data obs]) (auto simp: trust_verify_def authenticates_def)
      next
        case (Inl e)
        then have no: "\<And>data obs. \<not> authenticates get bindings a s data obs" using got Some by (auto simp: authenticates_def)
        consider (malformed) m where "e = AttestationExn MalformedAttestationError m"
          | (unsupported) m where "e = AttestationExn UnsupportedAttestationError m"
          | (other) "\<nexists>m. e = AttestationExn MalformedAttestationError m \<or> e = AttestationExn UnsupportedAttestationError m" by blast
        then show thesis
        proof cases
          case malformed
          with got Some Inl show thesis by (intro reject [of MALFORMED "text_or_name e"] no) (simp_all add: trust_verify_def)
        next
          case unsupported
          with got Some Inl show thesis by (intro reject [of UNSUPPORTED "text_or_name e"] no) (simp_all add: trust_verify_def)
        next
          case other
          then have "trust_verify get bindings a p s = Inl e"
            using got Some Inl by (auto simp: trust_verify_def split: exn.split attestation_error.split)
          moreover have "\<exists>data b. get (at_attestation a) s = Inr data \<and> bindings (at_binding_profile a) = Some b \<and> bi_authenticate b data = Inl e \<and>
              (\<nexists>m. e = AttestationExn MalformedAttestationError m \<or> e = AttestationExn UnsupportedAttestationError m)"
            using other got Some Inl by blast
          ultimately show thesis using raised no by blast
        qed
      qed
    qed
  qed
qed

section \<open>Properties\<close>

definition demo_observation :: observation where
  "demo_observation = \<lparr>ob_binding_profile = ''p'', ob_authenticated = True, ob_subject_digests = [sha256_id []],
     ob_signer_identity = Some ''alice'', ob_statement_type = None, ob_predicate_type = None, ob_verified_properties = [''audit'']\<rparr>"

definition demo_binding :: attestation_binding where
  "demo_binding = \<lparr>bi_profile = ''p'', bi_authenticate = (\<lambda>data. if data = [1]
     then Inr demo_observation else Inl (AttestationExn MalformedAttestationError []))\<rparr>"

definition demo_attestation :: attestation where
  "demo_attestation = \<lparr>at_artifact_digest = sha256_id [],
     at_attestation = \<lparr>ref_digest = sha256_id [1], ref_size = 1, ref_media_type = ''m'', ref_uri = None\<rparr>,
     at_binding_profile = ''p''\<rparr>"

definition demo_policy :: trust_policy where
  "demo_policy = \<lparr>tp_policy_id = ''t'', tp_signers = [''alice''], tp_profiles = None, tp_predicates = None\<rparr>"

lemma demo_trust_inputs: "trust_inputs_ok demo_attestation demo_policy" "observation_ok demo_observation"
  by (simp_all add: trust_inputs_ok_def make_attestation_def make_trust_policy_def unique_non_empty_def optional_unique_def
      demo_attestation_def demo_policy_def observation_ok_def make_observation_def demo_observation_def
      non_empty_def optional_non_empty_def result_simps validate_sha256_digest_def)

text \<open>C28: A trust verdict over the in-memory store is exact. For inputs that passed their constructors, and bindings whose
  observations passed theirs, \<open>verify\<close> returns a result about the requested Artifact, attestation, profile and policy which is
  ACCEPTED exactly if the attestation bytes are stored intact, the binding of the profile authenticates them, and the observation is
  acceptable: the same profile, authenticated, the Artifact a subject, and signer, profile and predicate type allowed by the policy.
  An accepted result carries the observation's signer and types, and its verified properties are the observation's merged with
  the four base ones, without duplicates and nothing else; any other result has none. \<open>verify\<close> raises only what the store or the binding
  raised, and never for an integrity failure or for a malformed or unsupported attestation.\<close>

theorem trust_acceptance_is_exact:
  assumes "trust_inputs_ok a p" "bindings_checked bindings"
  shows "case trust_verify memory_get_bytes bindings a p s of
      Inl e \<Rightarrow> (\<nexists>data obs. authenticates memory_get_bytes bindings a s data obs) \<and>
        (memory_get_bytes (at_attestation a) s = Inl e \<and> (\<nexists>m. e = ArtifactExn (ArtifactIntegrityError m)) \<or>
         (\<exists>data b. memory_get_bytes (at_attestation a) s = Inr data \<and> bindings (at_binding_profile a) = Some b \<and>
            bi_authenticate b data = Inl e \<and>
            (\<nexists>m. e = AttestationExn MalformedAttestationError m \<or> e = AttestationExn UnsupportedAttestationError m)))
    | Inr r \<Rightarrow> binds_inputs a p r \<and>
        (tu_outcome r = ACCEPTED \<longleftrightarrow> (\<exists>data obs. authenticates memory_get_bytes bindings a s data obs \<and> acceptable a p obs)) \<and>
        (if tu_outcome r = ACCEPTED
         then \<exists>data obs. authenticates memory_get_bytes bindings a s data obs \<and> sha256_id data = tu_attestation_digest r \<and> carries_claims obs r
         else tu_verified_properties r = [])"
  using assms
proof (cases rule: trust_verify_cases [where get = memory_get_bytes and s = s])
  case raised
  then show ?thesis by simp
next
  case unobserved
  then show ?thesis by simp
next
  case (judged data obs r)
  have "sha256_id data = ref_digest (at_attestation a)" using judged(2) mem.get_genuine by (auto simp: authenticates_def)
  with judged show ?thesis by (simp add: authenticates_unique [OF judged(2)] verdict_for_def binds_inputs_def)
qed

theorem trust_acceptance_is_exact_witness:
  "\<exists>r. trust_verify memory_get_bytes [''p'' \<mapsto> demo_binding] demo_attestation demo_policy
     \<lparr>ms_limit = 9, ms_objects = [sha256_id [1] \<mapsto> [1]]\<rparr> = Inr r \<and> tu_outcome r = ACCEPTED \<and>
     set (tu_verified_properties r) = {''audit''} \<union> set base_verified_properties"
proof -
  let ?s = "\<lparr>ms_limit = 9, ms_objects = [sha256_id [1] \<mapsto> [1]]\<rparr>" and ?bs = "[''p'' \<mapsto> demo_binding]"
  have ok: "bindings_checked ?bs"
    using demo_trust_inputs(2) by (auto simp: bindings_checked_def demo_binding_def split: if_splits)
  have yes: "acceptable demo_attestation demo_policy demo_observation"
    by (simp add: acceptable_def demo_attestation_def demo_policy_def demo_observation_def)
  have auth: "authenticates memory_get_bytes ?bs demo_attestation ?s data obs \<longleftrightarrow> data = [1] \<and> obs = demo_observation" for data obs
    by (auto simp: authenticates_def memory_get_bytes_def demo_attestation_def demo_binding_def result_simps)
  show ?thesis
  proof (cases "trust_verify memory_get_bytes ?bs demo_attestation demo_policy ?s")
    case (Inl e)
    with trust_acceptance_is_exact [OF demo_trust_inputs(1) ok, where s = ?s] auth show ?thesis by auto
  next
    case (Inr r)
    from trust_acceptance_is_exact [OF demo_trust_inputs(1) ok, where s = ?s] yes Inr
    have "tu_outcome r = ACCEPTED" "carries_claims demo_observation r" by (auto simp: auth split: if_splits)
    then show ?thesis using Inr by (simp add: carries_claims_def demo_observation_def)
  qed
qed

end
