(* ===== verification/AVP_Security.thy ===== *)
theory AVP_Security
  imports AVP_Runtime "HOL-Library.AList"
begin

text \<open>
  The Security profile: \<^verbatim>\<open>runtime/subject_policy.py\<close>, \<^verbatim>\<open>security/capability_policy.py\<close>,
  \<^verbatim>\<open>security/subject_adapter.py\<close>, \<^verbatim>\<open>security/assurance.py\<close> and \<^verbatim>\<open>isolation/environment.py\<close>. The
  policy of the guarded adapter is its interface (a locale); \<open>CapabilityGuardPolicy\<close> provides it.
  A Subject is the interaction tree of \<open>AVP_Runtime\<close>, run here on any gateway.
\<close>

section \<open>Requests and denials\<close>

record capability_request =
  cq_episode_id :: string
  cq_actor_id :: string
  cq_capability :: string

definition execution_denied :: "string \<Rightarrow> string \<Rightarrow> string \<Rightarrow> string option \<Rightarrow> exn" where
  "execution_denied code actor cap policy =
     (if code = [] then ValueError ''policy denial code must be non-empty''
      else SubjectExecutionDenied code actor cap policy)"

record denial_record =
  dn_episode_id :: string
  dn_actor_id :: string
  dn_capability :: string
  dn_code :: string
  dn_policy_digest :: "string option"

section \<open>The capability policy\<close>

type_synonym compiled_policy = "(string \<times> string list) list"

record guard_policy =
  gp_allowed :: "string \<Rightarrow> compiled_policy option"
  gp_denials :: "string \<Rightarrow> denial_record list option"

definition guard_policy_init :: guard_policy where
  "guard_policy_init = \<lparr>gp_allowed = Map.empty, gp_denials = Map.empty\<rparr>"

definition is_mcp_tool :: "json \<Rightarrow> bool" where
  "is_mcp_tool v \<longleftrightarrow> take 6 (py_str v) = ''mcp://'' \<and> CHR ''/'' \<in> set (py_str v)"

definition guard_tool_name :: "json \<Rightarrow> string" where
  "guard_tool_name v = after_last_slash (py_str v)"

definition compile_capabilities :: "scenario_instance \<Rightarrow> compiled_policy" where
  "compile_capabilities s =
     (case jget_default (sc_document s) ''capabilities'' (JObj []) of
        JObj actors \<Rightarrow> map (\<lambda>(actor, raw). (actor,
          remdups (map guard_tool_name (filter is_mcp_tool (jitems (jget_default raw ''include'' (JList [])))))))
          actors
      | _ \<Rightarrow> [])"

definition policy_bind :: "string \<Rightarrow> scenario_instance \<Rightarrow> (guard_policy, exn, unit) action" where
  "policy_bind eid s =
     act_bind (act_of (raise_if (eid = []) (ValueError ''episode_id must be non-empty''))) (\<lambda>_.
     act_bind (act_read (\<lambda>p. raise_if (gp_allowed p eid \<noteq> None)
       (ValueError (''policy already bound for episode: '' @ eid)))) (\<lambda>_.
     act_modify (\<lambda>p. p\<lparr>gp_allowed := (gp_allowed p)(eid \<mapsto> compile_capabilities s),
       gp_denials := (gp_denials p)(eid \<mapsto> [])\<rparr>)))"

definition policy_digest :: "string \<Rightarrow> guard_policy \<Rightarrow> (exn, string) result" where
  "policy_digest eid p = (case gp_allowed p eid of
     None \<Rightarrow> Inl (KeyError (py_repr_str (''policy is not bound for episode: '' @ eid)))
   | Some compiled \<Rightarrow> Inr (json_digest (JObj
       [(''type'', JStr ''avp.security/capability-guard-v0.1''),
        (''allowed'', JObj (map (\<lambda>(actor, tools). (actor, jstrs (sort tools))) (sort_key fst compiled)))])))"

definition policy_deny :: "capability_request \<Rightarrow> string \<Rightarrow> string option \<Rightarrow> (guard_policy, exn, unit) action" where
  "policy_deny q code digest =
     act_bind (act_modify (\<lambda>p. p\<lparr>gp_denials := (gp_denials p)(cq_episode_id q \<mapsto>
       (case gp_denials p (cq_episode_id q) of None \<Rightarrow> [] | Some ds \<Rightarrow> ds) @
       [\<lparr>dn_episode_id = cq_episode_id q, dn_actor_id = cq_actor_id q, dn_capability = cq_capability q,
         dn_code = code, dn_policy_digest = digest\<rparr>])\<rparr>)) (\<lambda>_.
     act_raise (execution_denied code (cq_actor_id q) (cq_capability q) digest))"

definition policy_authorize :: "capability_request \<Rightarrow> (guard_policy, exn, unit) action" where
  "policy_authorize q =
     act_bind (act_get (\<lambda>p. gp_allowed p (cq_episode_id q))) (\<lambda>bound.
     case bound of
       None \<Rightarrow> policy_deny q ''POLICY_UNAVAILABLE'' None
     | Some compiled \<Rightarrow>
         act_bind (act_read (policy_digest (cq_episode_id q))) (\<lambda>digest.
         let allowed = (case map_of compiled (cq_actor_id q) of None \<Rightarrow> [] | Some tools \<Rightarrow> tools) in
         if cq_capability q \<notin> set allowed then policy_deny q ''CAPABILITY_DENIED'' (Some digest)
         else act_return ()))"

definition policy_release :: "string \<Rightarrow> (guard_policy, exn, unit) action" where
  "policy_release eid = act_modify (\<lambda>p. p\<lparr>gp_allowed := (gp_allowed p)(eid := None),
     gp_denials := (gp_denials p)(eid := None)\<rparr>)"

definition denial_records :: "string \<Rightarrow> guard_policy \<Rightarrow> denial_record list" where
  "denial_records eid p = (case gp_denials p eid of None \<Rightarrow> [] | Some ds \<Rightarrow> ds)"

section \<open>Gateways and guarded gateways\<close>

record 'v subject_gateway =
  tg_observe :: "('v, exn, json) action"
  tg_call_tool :: "string \<Rightarrow> (string \<times> json) list \<Rightarrow> ('v, exn, json) action"
  tg_trace_headers :: "('v, exn, (string \<times> string) list) action"

primrec run_on :: "'v subject_gateway \<Rightarrow> subject_program \<Rightarrow> ('v, exn, subject_result) action" where
  "run_on g (Finish r) = act_of r"
| "run_on g (ObserveCall k) = (\<lambda>s. case tg_observe g s of (r, s') \<Rightarrow> run_on g (k r) s')"
| "run_on g (ToolInvoke nm args k) = (\<lambda>s. case tg_call_tool g nm args s of (r, s') \<Rightarrow> run_on g (k r) s')"
| "run_on g (HeadersCall k) = (\<lambda>s. case tg_trace_headers g s of (r, s') \<Rightarrow> run_on g (k r) s')"

record 'p execution_policy =
  xp_bind :: "string \<Rightarrow> scenario_instance \<Rightarrow> ('p, exn, unit) action"
  xp_authorize :: "capability_request \<Rightarrow> ('p, exn, unit) action"
  xp_release :: "string \<Rightarrow> ('p, exn, unit) action"

definition capability_guard :: "guard_policy execution_policy" where
  "capability_guard = \<lparr>xp_bind = policy_bind, xp_authorize = policy_authorize, xp_release = policy_release\<rparr>"

record bound_handle =
  bh_outer :: subject_handle
  bh_inner :: subject_handle
  bh_episode_id :: "string option"

record ('p, 'w) guard_state =
  gd_handles :: "string \<Rightarrow> bound_handle option"
  gd_policy :: 'p
  gd_world :: 'w

record ('p, 'w) guard_config =
  gc_inner :: "'w subj_adapter"
  gc_scenario :: scenario_instance
  gc_policy :: "'p execution_policy"
  gc_description :: subject_description

type_synonym ('p, 'w, 'v, 'a) guard_action = "(('p, 'w) guard_state \<times> 'v, exn, 'a) action"

definition in_policy :: "('p, exn, 'a) action \<Rightarrow> ('p, 'w, 'v, 'a) guard_action" where
  "in_policy m = act_zoom fst apfst (act_zoom gd_policy gd_policy_update m)"

definition in_inner :: "('w, exn, 'a) action \<Rightarrow> ('p, 'w, 'v, 'a) guard_action" where
  "in_inner m = act_zoom fst apfst (act_zoom gd_world gd_world_update m)"

definition in_session :: "('v, exn, 'a) action \<Rightarrow> ('p, 'w, 'v, 'a) guard_action" where
  "in_session m = act_zoom snd apsnd m"

definition guarded_gateway :: "('p, 'w) guard_config \<Rightarrow> string \<Rightarrow> 'v subject_gateway \<Rightarrow>
    (('p, 'w) guard_state \<times> 'v) subject_gateway" where
  "guarded_gateway c eid g =
     \<lparr>tg_observe = in_session (tg_observe g),
      tg_call_tool = (\<lambda>nm args.
        act_bind (in_policy (xp_authorize (gc_policy c)
          \<lparr>cq_episode_id = eid, cq_actor_id = ''subject'', cq_capability = nm\<rparr>)) (\<lambda>_.
        in_session (tg_call_tool g nm args))),
      tg_trace_headers = in_session (tg_trace_headers g)\<rparr>"

section \<open>The guarded adapter\<close>

definition make_guard :: "'w subj_adapter \<Rightarrow> scenario_instance \<Rightarrow> 'p execution_policy \<Rightarrow>
    (exn, ('p, 'w) guard_config) result" where
  "make_guard inner scenario policy =
     (let d = sa_describe inner in
      res_bind (make_subject_description
        \<lparr>sd_name = ''capability-guard('' @ sd_name d @ '')'', sd_version = ''0.1.0'', sd_adapter = ''capability-guard'',
         sd_transport = sd_transport d, sd_protocol_version = ''avp.subject/v0.1'',
         sd_metadata = JObj
          [(''innerSubjectAdapterDigest'', JStr (subject_identity_digest d)),
           (''scenarioInstanceDigest'', JStr (sc_instance_digest scenario)),
           (''enforcement'', JStr ''avp.security/capability-guard-v0.1'')]\<rparr>) (\<lambda>description.
      Inr \<lparr>gc_inner = inner, gc_scenario = scenario, gc_policy = policy, gc_description = description\<rparr>))"

definition guard_open :: "('p, 'w) guard_config \<Rightarrow> string \<Rightarrow> agent_system \<Rightarrow> ('p, 'w, 'v, subject_handle) guard_action" where
  "guard_open c uuid agent =
     act_bind (in_inner (sa_open (gc_inner c) agent)) (\<lambda>inner.
     let outer = \<lparr>sh_handle_id = ''subj_guard_'' @ take 16 uuid, sh_adapter_name = sd_name (gc_description c),
           sh_adapter_version = sd_version (gc_description c), sh_agent_system_digest = agent_identity_digest agent\<rparr> in
     act_bind (act_modify (apfst (\<lambda>s. s\<lparr>gd_handles := (gd_handles s)(sh_handle_id outer \<mapsto>
       \<lparr>bh_outer = outer, bh_inner = inner, bh_episode_id = None\<rparr>)\<rparr>))) (\<lambda>_.
     act_return outer))"

definition guard_bound :: "subject_handle \<Rightarrow> ('p, 'w) guard_state \<Rightarrow> (exn, bound_handle) result" where
  "guard_bound h s =
     (let err = Inl (ValueError (''unknown or mismatched guarded Subject handle: '' @ sh_handle_id h)) in
      case gd_handles s (sh_handle_id h) of
        None \<Rightarrow> err
      | Some b \<Rightarrow> if bh_outer b \<noteq> h then err else Inr b)"

definition guard_invoke :: "('p, 'w) guard_config \<Rightarrow> subject_handle \<Rightarrow> subject_invocation \<Rightarrow> 'v subject_gateway \<Rightarrow>
    ('p, 'w, 'v, subject_result) guard_action" where
  "guard_invoke c h invocation g =
     act_bind (act_read (guard_bound h \<circ> fst)) (\<lambda>b.
     act_bind (act_of (raise_if (bh_episode_id b \<noteq> None \<and> bh_episode_id b \<noteq> Some (si_episode_id invocation))
       (ValueError ''subject handle cannot be reused across Episodes''))) (\<lambda>_.
     act_bind (act_when (bh_episode_id b = None)
       (act_bind (in_policy (xp_bind (gc_policy c) (si_episode_id invocation) (gc_scenario c))) (\<lambda>_.
        act_modify (apfst (\<lambda>s. s\<lparr>gd_handles := (gd_handles s)(sh_handle_id h \<mapsto>
          b\<lparr>bh_episode_id := Some (si_episode_id invocation)\<rparr>)\<rparr>))))) (\<lambda>_.
     act_bind (in_inner (sa_invoke (gc_inner c) (bh_inner b) invocation)) (\<lambda>program.
     run_on (guarded_gateway c (si_episode_id invocation) g) program))))"

text \<open>\<open>try: inner.release(...) finally: ...\<close>.\<close>

definition guard_release :: "('p, 'w) guard_config \<Rightarrow> subject_handle \<Rightarrow> ('p, 'w, 'v, unit) guard_action" where
  "guard_release c h =
     act_bind (act_read (guard_bound h \<circ> fst)) (\<lambda>b.
     act_bind (act_attempt (in_inner (sa_release (gc_inner c) (bh_inner b)))) (\<lambda>outcome.
     act_bind (case bh_episode_id b of None \<Rightarrow> act_return () | Some eid \<Rightarrow> in_policy (xp_release (gc_policy c) eid)) (\<lambda>_.
     act_bind (act_modify (apfst (\<lambda>s. s\<lparr>gd_handles := (gd_handles s)(sh_handle_id h := None)\<rparr>))) (\<lambda>_.
     act_of outcome))))"

section \<open>Assurance declarations\<close>

datatype assurance_claim = VERIFIED | NOT_CLAIMED

fun assurance_claim_value :: "assurance_claim \<Rightarrow> string" where
  "assurance_claim_value VERIFIED = ''verified''"
| "assurance_claim_value NOT_CLAIMED = ''not-claimed''"

record isolation_claims =
  ic_api_capability :: assurance_claim
  ic_credential_context :: assurance_claim
  ic_process :: assurance_claim
  ic_network :: assurance_claim
  ic_tenant :: assurance_claim
  ic_sandbox :: assurance_claim

definition isolation_claims_dict :: "isolation_claims \<Rightarrow> json" where
  "isolation_claims_dict c = JObj
     [(''apiCapability'', JStr (assurance_claim_value (ic_api_capability c))),
      (''credentialContext'', JStr (assurance_claim_value (ic_credential_context c))),
      (''process'', JStr (assurance_claim_value (ic_process c))),
      (''network'', JStr (assurance_claim_value (ic_network c))),
      (''tenant'', JStr (assurance_claim_value (ic_tenant c))),
      (''sandbox'', JStr (assurance_claim_value (ic_sandbox c)))]"

definition baseline_assurance :: isolation_claims where
  "baseline_assurance = \<lparr>ic_api_capability = VERIFIED, ic_credential_context = NOT_CLAIMED, ic_process = NOT_CLAIMED,
     ic_network = NOT_CLAIMED, ic_tenant = NOT_CLAIMED, ic_sandbox = NOT_CLAIMED\<rparr>"

definition security_assurance_dict :: "isolation_claims \<Rightarrow> json" where
  "security_assurance_dict c = JObj
     [(''apiVersion'', JStr ''avp.security/v0.1''), (''kind'', JStr ''SecurityAssurance''),
      (''isolation'', isolation_claims_dict c)]"

section \<open>Sanitized child environments\<close>

definition platform_passthrough :: "string list" where
  "platform_passthrough = [''SYSTEMROOT'', ''WINDIR'', ''LANG'', ''LC_ALL'']"

definition pass_through :: "(string \<Rightarrow> string option) \<Rightarrow> string \<Rightarrow> (string \<times> string) list \<Rightarrow> (string \<times> string) list" where
  "pass_through parent nm env = (case parent nm of None \<Rightarrow> env | Some v \<Rightarrow> AList.update nm v env)"

fun inherit_names :: "(string \<Rightarrow> string option) \<Rightarrow> string list \<Rightarrow> (string \<times> string) list \<Rightarrow>
    (exn, (string \<times> string) list) result" where
  "inherit_names parent [] env = Inr env"
| "inherit_names parent (nm # nms) env =
     (if nm = [] then Inl (ValueError ''inherited environment names must be non-empty strings'')
      else inherit_names parent nms (pass_through parent nm env))"

fun set_names :: "(string \<times> string) list \<Rightarrow> (string \<times> string) list \<Rightarrow> (exn, (string \<times> string) list) result" where
  "set_names [] env = Inr env"
| "set_names ((nm, v) # kvs) env =
     (if nm = [] then Inl (ValueError ''explicit environment names must be non-empty strings'')
      else set_names kvs (AList.update nm v env))"

definition build_sanitized_environment :: "(string \<Rightarrow> string option) \<Rightarrow> (string \<times> string) list \<Rightarrow> string list \<Rightarrow>
    (exn, (string \<times> string) list) result" where
  "build_sanitized_environment parent explicit inherit =
     res_bind (inherit_names parent inherit (fold (pass_through parent) platform_passthrough [])) (\<lambda>env.
     set_names explicit env)"

end
