(* ===== verification/AVP_SecurityFacts.thy ===== *)
theory AVP_SecurityFacts
  imports AVP_Security
begin

text \<open>
  The guarded Subject adapter over any execution policy that keeps the interface's laws: whatever
  Subjects do, only capabilities the Scenario grants reach the runtime's gateway. The capability
  guard provides the interface.
\<close>

section \<open>A logging session\<close>

definition session_logged :: "'v subject_gateway \<Rightarrow> ('v \<times> string list) subject_gateway" where
  "session_logged g =
     \<lparr>tg_observe = (\<lambda>(v, log). case tg_observe g v of (r, v') \<Rightarrow> (r, (v', log))),
      tg_call_tool = (\<lambda>nm args (v, log). case tg_call_tool g nm args v of (r, v') \<Rightarrow> (r, (v', log @ [nm]))),
      tg_trace_headers = (\<lambda>(v, log). case tg_trace_headers g v of (r, v') \<Rightarrow> (r, (v', log)))\<rparr>"

lemma session_observe: "tg_observe (session_logged g) vl = (r, vl') \<Longrightarrow> snd vl' = snd vl"
  by (cases vl) (auto simp: session_logged_def split: prod.splits)

lemma session_headers: "tg_trace_headers (session_logged g) vl = (r, vl') \<Longrightarrow> snd vl' = snd vl"
  by (cases vl) (auto simp: session_logged_def split: prod.splits)

lemma session_call: "tg_call_tool (session_logged g) nm args vl = (r, vl') \<Longrightarrow> snd vl' = snd vl @ [nm]"
  by (cases vl) (auto simp: session_logged_def split: prod.splits)

section \<open>The policy interface\<close>

text \<open>
  \<open>granted p eid\<close> is what the policy state lets the Subject of an Episode use; \<open>None\<close> when the
  Episode is not bound.
\<close>

locale subject_policy =
  fixes P :: "'p execution_policy"
    and granted :: "'p \<Rightarrow> string \<Rightarrow> string list option"
    and tools :: "scenario_instance \<Rightarrow> string list"
  assumes bind_err: "xp_bind P eid s p = (Inl e, p') \<Longrightarrow> p' = p"
    and bind_ok: "xp_bind P eid s p = (Inr u, p') \<Longrightarrow>
      granted p eid = None \<and> granted p' = (granted p)(eid \<mapsto> tools s)"
    and authorize_keeps: "xp_authorize P q p = (r, p') \<Longrightarrow> granted p' = granted p"
    and authorize_ok: "xp_authorize P q p = (Inr u, p') \<Longrightarrow> cq_actor_id q = ''subject'' \<Longrightarrow>
      \<exists>ts. granted p (cq_episode_id q) = Some ts \<and> cq_capability q \<in> set ts"
    and release: "xp_release P eid p = (r, p') \<Longrightarrow> r = Inr () \<and> granted p' = (granted p)(eid := None)"
begin

text \<open>Running a program changes neither handles nor grants, and forwards only granted calls.\<close>

definition forwards :: "string list \<Rightarrow> ('p, 'w) guard_state \<times> 'v \<times> string list \<Rightarrow>
    ('p, 'w) guard_state \<times> 'v \<times> string list \<Rightarrow> bool" where
  "forwards ts x y \<longleftrightarrow> gd_handles (fst y) = gd_handles (fst x) \<and> granted (gd_policy (fst y)) = granted (gd_policy (fst x)) \<and>
     (\<exists>new. snd (snd y) = snd (snd x) @ new \<and> set new \<subseteq> set ts)"

lemma forwards_refl: "forwards ts x x"
  by (simp add: forwards_def)

lemma forwards_trans: "forwards ts x y \<Longrightarrow> forwards ts y z \<Longrightarrow> forwards ts x z"
proof -
  assume a: "forwards ts x y" "forwards ts y z"
  then obtain n m where "snd (snd y) = snd (snd x) @ n" "set n \<subseteq> set ts" "snd (snd z) = snd (snd y) @ m" "set m \<subseteq> set ts"
    by (auto simp: forwards_def)
  then have "\<exists>new. snd (snd z) = snd (snd x) @ new \<and> set new \<subseteq> set ts" by (intro exI [of _ "n @ m"]) auto
  with a show ?thesis by (simp add: forwards_def)
qed

lemma same_log_forwards:
  assumes run: "in_session m x = (r, y)" and log: "\<And>vl r vl'. m vl = (r, vl') \<Longrightarrow> snd vl' = snd vl"
  shows "forwards ts x y"
proof -
  obtain r' vl' where m: "m (snd x) = (r', vl')" by (cases "m (snd x)")
  with run have "y = (fst x, vl')" by (cases x) (simp add: in_session_def act_zoom_def)
  with log [OF m] show ?thesis by (simp add: forwards_def)
qed

lemma guarded_call_forwards:
  assumes "tg_call_tool (guarded_gateway c eid (session_logged g)) nm args x = (r, y)" "gc_policy c = P"
    "granted (gd_policy (fst x)) eid = Some ts"
  shows "forwards ts x y"
proof -
  let ?q = "\<lparr>cq_episode_id = eid, cq_actor_id = ''subject'', cq_capability = nm\<rparr>"
  obtain a p' where auth: "xp_authorize P ?q (gd_policy (fst x)) = (a, p')"
    by (cases "xp_authorize P ?q (gd_policy (fst x))")
  obtain s vl where x: "x = (s, vl)" by (cases x)
  note keeps = authorize_keeps [OF auth]
  show ?thesis
  proof (cases a)
    case (Inl e)
    with assms(1,2) auth x have "y = (s\<lparr>gd_policy := p'\<rparr>, vl)"
      by (simp add: guarded_gateway_def act_bind_def in_policy_def act_zoom_def)
    with x keeps show ?thesis by (simp add: forwards_def)
  next
    case (Inr u)
    obtain r1 vl1 where call: "tg_call_tool (session_logged g) nm args vl = (r1, vl1)"
      by (cases "tg_call_tool (session_logged g) nm args vl")
    with Inr assms(1,2) auth x have "y = (s\<lparr>gd_policy := p'\<rparr>, vl1)"
      by (simp add: guarded_gateway_def act_bind_def in_policy_def in_session_def act_zoom_def)
    moreover have "nm \<in> set ts"
      using authorize_ok [OF auth [unfolded Inr]] assms(3) by simp
    ultimately show ?thesis using x keeps session_call [OF call] by (simp add: forwards_def)
  qed
qed

lemma run_forwards:
  assumes "gc_policy c = P"
  shows "run_on (guarded_gateway c eid (session_logged g)) program x = (r, y) \<Longrightarrow>
    granted (gd_policy (fst x)) eid = Some ts \<Longrightarrow> forwards ts x y"
proof (induction program arbitrary: x)
  case (Finish a)
  then show ?case by (simp add: act_of_def forwards_refl)
next
  case (ObserveCall k)
  obtain a x1 where step: "tg_observe (guarded_gateway c eid (session_logged g)) x = (a, x1)"
    by (cases "tg_observe (guarded_gateway c eid (session_logged g)) x")
  then have first: "forwards ts x x1"
    by (intro same_log_forwards [where m = "tg_observe (session_logged g)"]) (auto simp: guarded_gateway_def dest: session_observe)
  with ObserveCall.prems step have "run_on (guarded_gateway c eid (session_logged g)) (k a) x1 = (r, y)"
    "granted (gd_policy (fst x1)) eid = Some ts" by (simp_all add: forwards_def)
  from forwards_trans [OF first ObserveCall.IH [OF rangeI this]] show ?case .
next
  case (ToolInvoke nm args k)
  obtain a x1 where step: "tg_call_tool (guarded_gateway c eid (session_logged g)) nm args x = (a, x1)"
    by (cases "tg_call_tool (guarded_gateway c eid (session_logged g)) nm args x")
  note first = guarded_call_forwards [OF step assms ToolInvoke.prems(2)]
  with ToolInvoke.prems step have "run_on (guarded_gateway c eid (session_logged g)) (k a) x1 = (r, y)"
    "granted (gd_policy (fst x1)) eid = Some ts" by (simp_all add: forwards_def)
  from forwards_trans [OF first ToolInvoke.IH [OF rangeI this]] show ?case .
next
  case (HeadersCall k)
  obtain a x1 where step: "tg_trace_headers (guarded_gateway c eid (session_logged g)) x = (a, x1)"
    by (cases "tg_trace_headers (guarded_gateway c eid (session_logged g)) x")
  then have first: "forwards ts x x1"
    by (intro same_log_forwards [where m = "tg_trace_headers (session_logged g)"]) (auto simp: guarded_gateway_def dest: session_headers)
  with HeadersCall.prems step have "run_on (guarded_gateway c eid (session_logged g)) (k a) x1 = (r, y)"
    "granted (gd_policy (fst x1)) eid = Some ts" by (simp_all add: forwards_def)
  from forwards_trans [OF first HeadersCall.IH [OF rangeI this]] show ?case .
qed

text \<open>Every bound handle has its own Episode, with the Scenario's grants.\<close>

definition guard_inv :: "('p, 'w) guard_config \<Rightarrow> ('p, 'w) guard_state \<Rightarrow> bool" where
  "guard_inv c s \<longleftrightarrow>
     (\<forall>k b eid. gd_handles s k = Some b \<longrightarrow> bh_episode_id b = Some eid \<longrightarrow>
        granted (gd_policy s) eid = Some (tools (gc_scenario c))) \<and>
     (\<forall>k b k' b' eid. gd_handles s k = Some b \<longrightarrow> bh_episode_id b = Some eid \<longrightarrow>
        gd_handles s k' = Some b' \<longrightarrow> bh_episode_id b' = Some eid \<longrightarrow> k = k')"

definition guard_ok :: "('p, 'w) guard_config \<Rightarrow> ('p, 'w) guard_state \<times> 'v \<times> string list \<Rightarrow> bool" where
  "guard_ok c x \<longleftrightarrow> guard_inv c (fst x) \<and> set (snd (snd x)) \<subseteq> set (tools (gc_scenario c))"

lemma forwards_ok:
  "forwards (tools (gc_scenario c)) x y \<Longrightarrow> guard_ok c x \<Longrightarrow> guard_ok c y"
  by (auto simp: forwards_def guard_ok_def guard_inv_def)

lemma in_inner_keeps: "in_inner m x = (r, y) \<Longrightarrow> snd y = snd x \<and> gd_handles (fst y) = gd_handles (fst x) \<and>
    gd_policy (fst y) = gd_policy (fst x)"
  by (cases x) (auto simp: in_inner_def act_zoom_def split: prod.splits)

lemma kept_ok: "snd y = snd x \<Longrightarrow> gd_handles (fst y) = gd_handles (fst x) \<Longrightarrow> granted (gd_policy (fst y)) = granted (gd_policy (fst x)) \<Longrightarrow>
    guard_ok c x \<Longrightarrow> guard_ok c y"
  by (simp add: guard_ok_def guard_inv_def)

lemma open_ok:
  assumes "guard_ok c x" "guard_open c uuid agent x = (r, y)"
  shows "guard_ok c y"
proof -
  obtain a x1 where inner: "in_inner (sa_open (gc_inner c) agent) x = (a, x1)"
    by (cases "in_inner (sa_open (gc_inner c) agent) x")
  have x1: "guard_ok c x1" using in_inner_keeps [OF inner] assms(1) by (intro kept_ok [of x1 x]) simp_all
  show ?thesis
  proof (cases a)
    case (Inl e)
    with assms(2) inner x1 show ?thesis by (simp add: guard_open_def act_bind_def)
  next
    case (Inr h)
    with assms(2) inner obtain hid b where "y = apfst (\<lambda>s. s\<lparr>gd_handles := (gd_handles s)(hid \<mapsto> b)\<rparr>) x1" "bh_episode_id b = None"
      by (auto simp: guard_open_def act_bind_def act_modify_def act_return_def Let_def)
    with x1 show ?thesis by (auto simp: guard_ok_def guard_inv_def split: if_splits)
  qed
qed

lemma invoke_ok:
  assumes ok: "guard_ok c x" and P: "gc_policy c = P"
    and run: "guard_invoke c h iv (session_logged g) x = (r, y)"
  shows "guard_ok c y"
proof (cases "\<exists>b. guard_bound h (fst x) = Inr b \<and> (bh_episode_id b = None \<or> bh_episode_id b = Some (si_episode_id iv))")
  case False
  with run have "y = x"
    by (auto simp: guard_invoke_def act_bind_def act_read_def act_of_def raise_if_def split: sum.splits if_splits)
  with ok show ?thesis by simp
next
  case True
  then obtain b where b: "guard_bound h (fst x) = Inr b" "bh_episode_id b = None \<or> bh_episode_id b = Some (si_episode_id iv)"
    by blast
  let ?eid = "si_episode_id iv"
  let ?set = "apfst (\<lambda>s. s\<lparr>gd_handles := (gd_handles s)(sh_handle_id h \<mapsto> b\<lparr>bh_episode_id := Some ?eid\<rparr>)\<rparr>)
     :: ('p, 'w) guard_state \<times> 'v \<times> string list \<Rightarrow> ('p, 'w) guard_state \<times> 'v \<times> string list"
  let ?prepare = "act_when (bh_episode_id b = None)
       (act_bind (in_policy (xp_bind (gc_policy c) ?eid (gc_scenario c))) (\<lambda>_. act_modify ?set))"
  obtain a x1 where prep: "?prepare x = (a, x1)" by (cases "?prepare x")
  from b(1) have key: "gd_handles (fst x) (sh_handle_id h) = Some b"
    by (auto simp: guard_bound_def Let_def split: option.splits if_splits)
  have x1: "guard_ok c x1 \<and> (\<forall>u. a = Inr u \<longrightarrow> granted (gd_policy (fst x1)) ?eid = Some (tools (gc_scenario c)))"
  proof (cases "bh_episode_id b = None")
    case False
    with prep b(2) have "x1 = x" "bh_episode_id b = Some ?eid" by (auto simp: act_when_def act_return_def)
    with ok key show ?thesis by (auto simp: guard_ok_def guard_inv_def)
  next
    case True
    obtain s vl where x: "x = (s, vl)" by (cases x)
    obtain d p' where bind: "xp_bind P ?eid (gc_scenario c) (gd_policy s) = (d, p')"
      by (cases "xp_bind P ?eid (gc_scenario c) (gd_policy s)")
    show ?thesis
    proof (cases d)
      case (Inl e)
      with bind_err [OF bind [unfolded Inl]] bind prep True x P have "x1 = x" "a = Inl e"
        by (auto simp: act_when_def act_bind_def in_policy_def act_zoom_def)
      with ok show ?thesis by simp
    next
      case (Inr u)
      from bind_ok [OF bind [unfolded Inr]] have g: "granted (gd_policy s) ?eid = None"
        "granted p' = (granted (gd_policy s))(?eid \<mapsto> tools (gc_scenario c))" by auto
      from Inr bind prep True x P have x1: "x1 = ?set (s\<lparr>gd_policy := p'\<rparr>, vl)"
        by (auto simp: act_when_def act_bind_def in_policy_def act_zoom_def act_modify_def)
      have inv: "guard_inv c s" using ok x by (simp add: guard_ok_def)
      have other: "bh_episode_id b' \<noteq> Some ?eid" if "gd_handles s k = Some b'" for k b'
        using inv g(1) that unfolding guard_inv_def by (metis option.distinct(1))
      have "guard_inv c (fst x1)"
        unfolding guard_inv_def x1 using inv g(2) other
        by (auto simp: guard_inv_def split: if_splits)
      with ok x x1 g(2) show ?thesis by (simp add: guard_ok_def)
    qed
  qed
  show ?thesis
  proof (cases a)
    case (Inl e)
    with run b prep have "y = x1"
      by (auto simp: guard_invoke_def act_bind_def act_read_def act_of_def raise_if_def)
    with x1 show ?thesis by simp
  next
    case (Inr u)
    obtain d x2 where inner: "in_inner (sa_invoke (gc_inner c) (bh_inner b) iv) x1 = (d, x2)"
      by (cases "in_inner (sa_invoke (gc_inner c) (bh_inner b) iv) x1")
    note same = in_inner_keeps [OF inner]
    have x2: "guard_ok c x2" using same x1 by (intro kept_ok [of x2 x1]) simp_all
    show ?thesis
    proof (cases d)
      case (Inl e)
      with run b prep inner \<open>a = Inr u\<close> have "y = x2"
        by (auto simp: guard_invoke_def act_bind_def act_read_def act_of_def raise_if_def)
      with x2 show ?thesis by simp
    next
      case (Inr program)
      with run b prep inner \<open>a = Inr u\<close> have "run_on (guarded_gateway c ?eid (session_logged g)) program x2 = (r, y)"
        by (auto simp: guard_invoke_def act_bind_def act_read_def act_of_def raise_if_def)
      moreover have "granted (gd_policy (fst x2)) ?eid = Some (tools (gc_scenario c))"
        using x1 same \<open>a = Inr u\<close> by simp
      ultimately have "forwards (tools (gc_scenario c)) x2 y" by (rule run_forwards [OF P])
      from forwards_ok [OF this x2] show ?thesis .
    qed
  qed
qed

lemma release_ok:
  assumes ok: "guard_ok c x" and P: "gc_policy c = P" and run: "guard_release c h x = (r, y)"
  shows "guard_ok c y"
proof (cases "guard_bound h (fst x)")
  case (Inl e)
  with run have "y = x" by (simp add: guard_release_def act_bind_def act_read_def)
  with ok show ?thesis by simp
next
  case (Inr b)
  then have key: "gd_handles (fst x) (sh_handle_id h) = Some b"
    by (auto simp: guard_bound_def Let_def split: option.splits if_splits)
  obtain d x1 where inner: "in_inner (sa_release (gc_inner c) (bh_inner b)) x = (d, x1)"
    by (cases "in_inner (sa_release (gc_inner c) (bh_inner b)) x")
  note same = in_inner_keeps [OF inner]
  have x1: "guard_ok c x1" using same ok by (intro kept_ok [of x1 x]) simp_all
  let ?drop = "\<lambda>s :: ('p, 'w) guard_state. s\<lparr>gd_handles := (gd_handles s)(sh_handle_id h := None)\<rparr>"
  show ?thesis
  proof (cases "bh_episode_id b")
    case None
    with run Inr inner have "y = apfst ?drop x1"
      by (simp add: guard_release_def act_bind_def act_read_def act_attempt_def act_return_def act_modify_def act_of_def)
    with x1 show ?thesis by (auto simp: guard_ok_def guard_inv_def split: if_splits)
  next
    case (Some eid)
    obtain s vl where s: "x1 = (s, vl)" by (cases x1)
    obtain q p' where rel: "xp_release P eid (gd_policy s) = (q, p')" by (cases "xp_release P eid (gd_policy s)")
    from release [OF rel] have q: "q = Inr ()" "granted p' = (granted (gd_policy s))(eid := None)" by auto
    then have y: "y = (?drop (s\<lparr>gd_policy := p'\<rparr>), vl)"
      using run Inr inner Some rel s P
      by (simp add: guard_release_def act_bind_def act_read_def act_attempt_def act_modify_def act_of_def
          in_policy_def act_zoom_def)
    have inv: "guard_inv c s" using x1 s by (simp add: guard_ok_def)
    have key': "gd_handles s (sh_handle_id h) = Some b" using key same s by simp
    have other: "k = sh_handle_id h" if "gd_handles s k = Some b'" "bh_episode_id b' = Some eid" for k b'
      using inv key' Some that unfolding guard_inv_def by blast
    have "guard_inv c (fst y)"
      unfolding guard_inv_def y using inv q(2) other by (auto simp: guard_inv_def split: if_splits)
    with x1 s y show ?thesis by (simp add: guard_ok_def)
  qed
qed

end

section \<open>The capability guard provides the interface\<close>

definition guard_granted :: "guard_policy \<Rightarrow> string \<Rightarrow> string list option" where
  "guard_granted p eid = map_option (\<lambda>compiled.
     case map_of compiled ''subject'' of None \<Rightarrow> [] | Some tools \<Rightarrow> tools) (gp_allowed p eid)"

definition subject_tools :: "scenario_instance \<Rightarrow> string list" where
  "subject_tools s = (case map_of (compile_capabilities s) ''subject'' of None \<Rightarrow> [] | Some tools \<Rightarrow> tools)"

lemma policy_deny_run: "policy_deny q code d p = (r, p') \<Longrightarrow> (\<exists>e. r = Inl e) \<and> gp_allowed p' = gp_allowed p"
  by (auto simp: policy_deny_def action_simps)

interpretation guard: subject_policy capability_guard guard_granted subject_tools
proof (unfold_locales, goal_cases)
  case (1 eid s p e p')
  then show ?case by (auto simp: capability_guard_def policy_bind_def action_simps raise_if_def split: if_splits)
next
  case (2 eid s p u p')
  then show ?case
    by (auto simp: capability_guard_def policy_bind_def action_simps raise_if_def guard_granted_def subject_tools_def
        split: if_splits)
next
  case (3 q p r p')
  then have "gp_allowed p' = gp_allowed p"
    by (auto simp: capability_guard_def policy_authorize_def act_bind_def act_get_def act_read_def act_return_def Let_def
        dest: policy_deny_run split: option.splits sum.splits if_splits)
  then show ?case by (simp add: guard_granted_def fun_eq_iff)
next
  case (4 q p u p')
  then have "\<exists>compiled. gp_allowed p (cq_episode_id q) = Some compiled \<and>
      cq_capability q \<in> set (case map_of compiled ''subject'' of None \<Rightarrow> [] | Some tools \<Rightarrow> tools)"
    by (auto simp: capability_guard_def policy_authorize_def act_bind_def act_get_def act_read_def act_return_def Let_def
        dest: policy_deny_run split: option.splits sum.splits if_splits)
  then show ?case by (auto simp: guard_granted_def)
next
  case (5 eid p r p')
  then show ?case by (auto simp: capability_guard_def policy_release_def act_modify_def guard_granted_def)
qed

section \<open>Sequences of adapter operations\<close>

datatype guard_op = GuardOpen string agent_system | GuardInvoke subject_handle subject_invocation | GuardRelease subject_handle

fun run_guard_op :: "('p, 'w) guard_config \<Rightarrow> 'v subject_gateway \<Rightarrow> guard_op \<Rightarrow> ('p, 'w, 'v, unit) guard_action" where
  "run_guard_op c g (GuardOpen uuid agent) = act_bind (guard_open c uuid agent) (\<lambda>_. act_return ())"
| "run_guard_op c g (GuardInvoke h iv) = act_bind (guard_invoke c h iv g) (\<lambda>_. act_return ())"
| "run_guard_op c g (GuardRelease h) = guard_release c h"

definition run_guard_ops :: "('p, 'w) guard_config \<Rightarrow> 'v subject_gateway \<Rightarrow> guard_op list \<Rightarrow>
    ('p, 'w) guard_state \<times> 'v \<Rightarrow> ('p, 'w) guard_state \<times> 'v" where
  "run_guard_ops c g ops x = fold (\<lambda>op x. snd (run_guard_op c g op x)) ops x"

definition guard_state_init :: "'w \<Rightarrow> (guard_policy, 'w) guard_state" where
  "guard_state_init w = \<lparr>gd_handles = Map.empty, gd_policy = guard_policy_init, gd_world = w\<rparr>"

lemma bind_return_state: "snd (act_bind m (\<lambda>_. act_return ()) x) = snd (m x)"
  by (simp add: act_bind_def act_return_def split: prod.splits sum.splits)

lemma run_guard_op_ok:
  assumes "guard.guard_ok c x" "gc_policy c = capability_guard"
  shows "guard.guard_ok c (snd (run_guard_op c (session_logged g) op x))"
proof (cases op)
  case (GuardOpen uuid agent)
  with guard.open_ok [OF assms(1), of uuid agent] show ?thesis
    by (simp add: bind_return_state) (metis prod.collapse)
next
  case (GuardInvoke h iv)
  with guard.invoke_ok [OF assms, of h iv g] show ?thesis
    by (simp add: bind_return_state) (metis prod.collapse)
next
  case (GuardRelease h)
  with guard.release_ok [OF assms, of h] show ?thesis by simp (metis prod.collapse)
qed

section \<open>A concrete guarded Subject\<close>

text \<open>A Subject that makes one granted and one other call.\<close>

definition demo_program :: subject_program where
  "demo_program = ToolInvoke ''pay'' [] (\<lambda>_. ToolInvoke ''steal'' [] (\<lambda>_.
     Finish (Inr \<lparr>sr_status = SUBJECT_COMPLETED, sr_report = None, sr_steps = 1, sr_metadata = JObj []\<rparr>)))"

definition demo_inner :: "unit subj_adapter" where
  "demo_inner = \<lparr>sa_describe = \<lparr>sd_name = ''s'', sd_version = ''1'', sd_adapter = ''a'', sd_transport = ''t'',
     sd_protocol_version = ''avp.subject/v0.1'', sd_metadata = JObj []\<rparr>,
     sa_open = (\<lambda>_. act_return \<lparr>sh_handle_id = ''h'', sh_adapter_name = ''s'', sh_adapter_version = ''1'', sh_agent_system_digest = []\<rparr>),
     sa_invoke = (\<lambda>_ _. act_return demo_program), sa_release = (\<lambda>_. act_return ())\<rparr>"

definition demo_granting :: scenario_instance where
  "demo_granting = \<lparr>sc_template_digest = [], sc_instance_digest = [], sc_document = JObj [(''capabilities'',
     JObj [(''subject'', JObj [(''include'', JList [JStr ''mcp://bank/pay''])])])]\<rparr>"

definition demo_guard :: "(guard_policy, unit) guard_config" where
  "demo_guard = \<lparr>gc_inner = demo_inner, gc_scenario = demo_granting, gc_policy = capability_guard,
     gc_description = \<lparr>sd_name = ''capability-guard(s)'', sd_version = ''0.1.0'', sd_adapter = ''capability-guard'',
       sd_transport = ''t'', sd_protocol_version = ''avp.subject/v0.1'',
       sd_metadata = JObj [(''innerSubjectAdapterDigest'', JStr (subject_identity_digest (sa_describe demo_inner))),
         (''scenarioInstanceDigest'', JStr []), (''enforcement'', JStr ''avp.security/capability-guard-v0.1'')]\<rparr>\<rparr>"

definition demo_session :: "unit subject_gateway" where
  "demo_session = \<lparr>tg_observe = act_return JNull, tg_call_tool = (\<lambda>_ _. act_return JNull), tg_trace_headers = act_return []\<rparr>"

definition demo_handle :: "agent_system \<Rightarrow> subject_handle" where
  "demo_handle agent = \<lparr>sh_handle_id = ''subj_guard_u'', sh_adapter_name = ''capability-guard(s)'',
     sh_adapter_version = ''0.1.0'', sh_agent_system_digest = agent_identity_digest agent\<rparr>"

definition demo_invocation :: subject_invocation where
  "demo_invocation = \<lparr>si_episode_id = ''ep'', si_task = JNull, si_max_steps = 1, si_timeout_seconds = PyFloat False 1 0\<rparr>"

lemma demo_guard_made: "make_guard demo_inner demo_granting capability_guard = Inr demo_guard"
  by (simp add: make_guard_def demo_inner_def make_subject_description_def result_simps demo_guard_def demo_granting_def Let_def)

lemma demo_tools: "compile_capabilities demo_granting = [(''subject'', [''pay''])]"
  by (simp add: compile_capabilities_def demo_granting_def jget_default_def jitems_def is_mcp_tool_def py_str_def
      guard_tool_name_def after_last_slash_def)

section \<open>Properties\<close>

text \<open>C27: Deny by default: behind an adapter guarded for a Scenario, whatever handles are opened, used and released, for
  whatever Episodes and with whatever Subject code, the runtime's gateway is only ever asked for tools that the
  Scenario's capabilities include for the Subject.\<close>

theorem only_granted_calls_reach_the_runtime:
  assumes "make_guard inner scenario capability_guard = Inr c"
  shows "case run_guard_ops c (session_logged g) ops (guard_state_init w, (v, [])) of
    (s, v', log) \<Rightarrow> set log \<subseteq> set (subject_tools scenario)"
proof -
  from assms have c: "gc_policy c = capability_guard" "gc_scenario c = scenario" by (auto simp: make_guard_def Let_def)
  have "guard.guard_ok c (guard_state_init w, (v, []))"
    by (simp add: guard.guard_ok_def guard.guard_inv_def guard_state_init_def)
  then have "guard.guard_ok c (run_guard_ops c (session_logged g) ops (guard_state_init w, (v, [])))"
    unfolding run_guard_ops_def by (induction ops rule: rev_induct) (simp_all add: run_guard_op_ok c(1))
  then show ?thesis by (auto simp: guard.guard_ok_def c(2) split: prod.splits)
qed

theorem only_granted_calls_reach_the_runtime_witness:
  "\<forall>agent. \<exists>s v. run_guard_ops demo_guard (session_logged demo_session)
      [GuardOpen ''u'' agent, GuardInvoke (demo_handle agent) demo_invocation] (guard_state_init (), ((), [])) = (s, v, [''pay'']) \<and>
     set [''pay''] \<subseteq> set (subject_tools demo_granting)"
proof
  fix agent
  let ?run = "run_guard_ops demo_guard (session_logged demo_session)
      [GuardOpen ''u'' agent, GuardInvoke (demo_handle agent) demo_invocation] (guard_state_init (), ((), []))"
  have "\<exists>s v. ?run = (s, v, [''pay''])"
    by (simp add: run_guard_ops_def guard_open_def guard_invoke_def guard_bound_def in_inner_def in_policy_def in_session_def
        action_simps result_simps demo_guard_def demo_inner_def guard_state_init_def demo_handle_def demo_invocation_def
        capability_guard_def policy_bind_def guard_policy_init_def demo_program_def guarded_gateway_def policy_authorize_def
        policy_digest_def policy_deny_def demo_tools session_logged_def demo_session_def Let_def)
  with only_granted_calls_reach_the_runtime [OF demo_guard_made, of demo_session
      "[GuardOpen ''u'' agent, GuardInvoke (demo_handle agent) demo_invocation]" "()" "()"]
  show "\<exists>s v. ?run = (s, v, [''pay'']) \<and> set [''pay''] \<subseteq> set (subject_tools demo_granting)" by fastforce
qed

text \<open>A decision of the capability guard: it lets a request through, unchanged, exactly if the Episode is bound and
  the capability compiled for the actor; otherwise it raises \<open>SubjectExecutionDenied\<close> and appends one audit record with
  the same code and policy digest to the Episode's denials, leaving every grant and every other Episode alone.\<close>

theorem denial_is_recorded:
  "case policy_authorize q p of
     (Inr _, p') \<Rightarrow> p' = p \<and> (\<exists>compiled tools. gp_allowed p (cq_episode_id q) = Some compiled \<and>
        map_of compiled (cq_actor_id q) = Some tools \<and> cq_capability q \<in> set tools)
   | (Inl e, p') \<Rightarrow> (\<exists>r. e = SubjectExecutionDenied (dn_code r) (cq_actor_id q) (cq_capability q) (dn_policy_digest r) \<and>
        denial_records (cq_episode_id q) p' = denial_records (cq_episode_id q) p @ [r] \<and>
        dn_episode_id r = cq_episode_id q \<and> dn_actor_id r = cq_actor_id q \<and> dn_capability r = cq_capability q \<and>
        dn_code r = (if gp_allowed p (cq_episode_id q) = None then ''POLICY_UNAVAILABLE'' else ''CAPABILITY_DENIED'')) \<and>
        gp_allowed p' = gp_allowed p \<and>
        (\<nexists>compiled tools. gp_allowed p (cq_episode_id q) = Some compiled \<and>
           map_of compiled (cq_actor_id q) = Some tools \<and> cq_capability q \<in> set tools) \<and>
        (\<nexists>eid. eid \<noteq> cq_episode_id q \<and> denial_records eid p' \<noteq> denial_records eid p)"
proof -
  have deny: "\<exists>r p'. policy_deny q code d p = (Inl (SubjectExecutionDenied code (cq_actor_id q) (cq_capability q) d), p') \<and>
      denial_records (cq_episode_id q) p' = denial_records (cq_episode_id q) p @ [r] \<and>
      dn_episode_id r = cq_episode_id q \<and> dn_actor_id r = cq_actor_id q \<and> dn_capability r = cq_capability q \<and>
      dn_code r = code \<and> dn_policy_digest r = d \<and> gp_allowed p' = gp_allowed p \<and>
      (\<nexists>eid. eid \<noteq> cq_episode_id q \<and> denial_records eid p' \<noteq> denial_records eid p)" if "code \<noteq> []" for code d
    using that by (simp add: policy_deny_def execution_denied_def action_simps denial_records_def)
  show ?thesis
  proof (cases "gp_allowed p (cq_episode_id q)")
    case None
    with deny [of "''POLICY_UNAVAILABLE''" None] show ?thesis
      by (auto simp: policy_authorize_def act_bind_def act_get_def)
  next
    case (Some compiled)
    let ?tools = "case map_of compiled (cq_actor_id q) of None \<Rightarrow> [] | Some tools \<Rightarrow> tools"
    obtain d where d: "policy_digest (cq_episode_id q) p = Inr d" using Some by (simp add: policy_digest_def)
    show ?thesis
    proof (cases "cq_capability q \<in> set ?tools")
      case True
      then have "\<exists>tools. map_of compiled (cq_actor_id q) = Some tools \<and> cq_capability q \<in> set tools"
        by (cases "map_of compiled (cq_actor_id q)") auto
      with True Some d show ?thesis by (auto simp: policy_authorize_def action_simps Let_def)
    next
      case False
      then have "\<nexists>tools. map_of compiled (cq_actor_id q) = Some tools \<and> cq_capability q \<in> set tools" by auto
      with False Some d deny [of "''CAPABILITY_DENIED''" "Some d"] show ?thesis
        by (auto simp: policy_authorize_def act_bind_def act_get_def act_read_def Let_def)
    qed
  qed
qed

text \<open>A denial recorded before the Episode is bound is erased by the binding.\<close>

lemma binding_erases_denials:
  assumes "gp_allowed p eid = None" "eid \<noteq> []"
  shows "denial_records eid (snd (policy_bind eid s p)) = []"
  using assms by (simp add: policy_bind_def action_simps result_simps denial_records_def)

text \<open>What the loops over the names compute.\<close>

lemma pass_through_lookup:
  "map_of (fold (pass_through parent) nms env) nm =
     (if nm \<in> set nms \<and> parent nm \<noteq> None then parent nm else map_of env nm)"
  by (induction nms arbitrary: env) (auto simp: pass_through_def update_conv' split: option.splits)

lemma inherit_names_ok:
  "inherit_names parent nms env = Inr env' \<longleftrightarrow> [] \<notin> set nms \<and> env' = fold (pass_through parent) nms env"
  by (induction nms arbitrary: env) auto

lemma set_names_ok:
  "set_names kvs env = Inr env' \<Longrightarrow>
    map_of env' nm = (case map_of (rev kvs) nm of None \<Rightarrow> map_of env nm | Some v \<Rightarrow> Some v)"
  by (induction kvs env rule: set_names.induct) (auto simp: update_conv' map_add_def split: option.splits if_splits)

text \<open>The environment of a child process is exactly this: explicit values; otherwise the parent's value of the few
  platform names and of the names asked for; and nothing else of the parent.\<close>

theorem sanitized_environment_is_exact:
  assumes "build_sanitized_environment parent explicit inherit = Inr env"
  shows "map_of env nm = (case map_of (rev explicit) nm of
     Some v \<Rightarrow> Some v
   | None \<Rightarrow> if nm \<in> set platform_passthrough \<union> set inherit then parent nm else None)"
proof -
  from assms obtain env1 where e: "inherit_names parent inherit (fold (pass_through parent) platform_passthrough []) = Inr env1"
    "set_names explicit env1 = Inr env" by (auto simp: build_sanitized_environment_def)
  from e(1) have "map_of env1 nm = (if nm \<in> set platform_passthrough \<union> set inherit then parent nm else None)"
    by (auto simp: inherit_names_ok pass_through_lookup)
  with set_names_ok [OF e(2), of nm] show ?thesis by (simp split: option.splits)
qed

theorem sanitized_environment_is_exact_witness:
  "\<exists>env. build_sanitized_environment [''LANG'' \<mapsto> ''C'', ''AVP_TEST_SECRET'' \<mapsto> ''s''] [(''TZ'', ''UTC'')] [''HOME''] = Inr env \<and>
     map_of env ''AVP_TEST_SECRET'' = None \<and> map_of env ''LANG'' = Some ''C'' \<and> map_of env ''TZ'' = Some ''UTC''"
proof -
  obtain env where env: "build_sanitized_environment [''LANG'' \<mapsto> ''C'', ''AVP_TEST_SECRET'' \<mapsto> ''s''] [(''TZ'', ''UTC'')] [''HOME''] = Inr env"
    by (simp add: build_sanitized_environment_def result_simps)
  show ?thesis
    using env sanitized_environment_is_exact [OF env, of "''AVP_TEST_SECRET''"]
      sanitized_environment_is_exact [OF env, of "''LANG''"] sanitized_environment_is_exact [OF env, of "''TZ''"]
    by (simp add: platform_passthrough_def)
qed

end
