(* ===== verification/AVP_RelationalValues.thy ===== *)
theory AVP_RelationalValues
  imports AVP_Python
begin

text \<open>
  The portable values of the relational profile (\<^verbatim>\<open>relational.py\<close>, first half): column types, typed
  values and the canonical lexical form of each type. The regular expressions are written out as
  functions on strings; \<open>date.fromisoformat\<close> (CPython 3.11), \<open>Decimal.as_tuple\<close> and the lenient
  Base64 decoder are the standard library the checks call.
\<close>

section \<open>Errors\<close>

datatype rel_class = RelationalError | RelationalCompatibilityError | RelationalReferenceError
  | RelationalVisibilityError | RelationalLifecycleError

text \<open>Besides its own classes the module can raise the \<open>KeyError\<close> of a dictionary lookup.\<close>

datatype rel_exn = RelExn rel_class string | AbsentKey string

abbreviation incompatible :: "string \<Rightarrow> rel_exn" where
  "incompatible m \<equiv> RelExn RelationalCompatibilityError m"

section \<open>Column types\<close>

datatype value_type = BOOLEAN | INTEGER | DECIMAL | TEXT | BINARY | DATE | TIME_LOCAL | TIMESTAMP_LOCAL
  | TIMESTAMP_INSTANT | UUID

fun value_type_value :: "value_type \<Rightarrow> string" where
  "value_type_value BOOLEAN = ''boolean''"
| "value_type_value INTEGER = ''integer''"
| "value_type_value DECIMAL = ''decimal''"
| "value_type_value TEXT = ''text''"
| "value_type_value BINARY = ''binary''"
| "value_type_value DATE = ''date''"
| "value_type_value TIME_LOCAL = ''time-local''"
| "value_type_value TIMESTAMP_LOCAL = ''timestamp-local''"
| "value_type_value TIMESTAMP_INSTANT = ''timestamp-instant''"
| "value_type_value UUID = ''uuid''"

definition temporal_types :: "value_type set" where
  "temporal_types = {TIME_LOCAL, TIMESTAMP_LOCAL, TIMESTAMP_INSTANT}"

record column_type =
  ct_kind :: value_type
  ct_precision :: "int option"
  ct_scale :: "int option"
  ct_fractional :: "int option"

definition make_column_type :: "column_type \<Rightarrow> (rel_exn, column_type) result" where
  "make_column_type t =
     res_bind
       (if ct_kind t = DECIMAL
        then res_bind (raise_if (case ct_precision t of None \<Rightarrow> True | Some p \<Rightarrow> \<not> (1 \<le> p \<and> p \<le> 65))
            (incompatible ''decimal precision must be within 1..65'')) (\<lambda>_.
          raise_if (case ct_scale t of None \<Rightarrow> True
              | Some s \<Rightarrow> \<not> (0 \<le> s \<and> s \<le> 30) \<or> (case ct_precision t of None \<Rightarrow> False | Some p \<Rightarrow> p < s))
            (incompatible ''decimal scale must be within 0..30 and <= precision''))
        else raise_if (ct_precision t \<noteq> None \<or> ct_scale t \<noteq> None)
            (incompatible ''precision and scale are valid only for decimal'')) (\<lambda>_.
     res_bind
       (if ct_kind t \<in> temporal_types
        then raise_if (case ct_fractional t of None \<Rightarrow> True | Some f \<Rightarrow> \<not> (0 \<le> f \<and> f \<le> 6))
            (incompatible ''temporal fractional precision must be within 0..6'')
        else raise_if (ct_fractional t \<noteq> None)
            (incompatible ''fractional precision is valid only for temporal types'')) (\<lambda>_.
     Inr t))"

definition opt_int :: "int option \<Rightarrow> json" where
  "opt_int x = (case x of None \<Rightarrow> JNull | Some i \<Rightarrow> JInt i)"

definition column_type_document :: "column_type \<Rightarrow> json" where
  "column_type_document t = JObj ((''type'', JStr (value_type_value (ct_kind t))) #
     (if ct_kind t = DECIMAL
      then [(''precision'', opt_int (ct_precision t)), (''scale'', opt_int (ct_scale t))]
      else if ct_kind t \<in> temporal_types then [(''fractionalPrecision'', opt_int (ct_fractional t))]
      else []))"

record column_definition =
  cd_id :: string
  cd_type :: column_type
  cd_nullable :: bool

definition column_document :: "column_definition \<Rightarrow> json" where
  "column_document c = JObj [(''columnId'', JStr (cd_id c)), (''nullable'', JBool (cd_nullable c)),
     (''valueType'', column_type_document (cd_type c))]"

section \<open>Values\<close>

datatype raw_value = RawNone | RawBool bool | RawText string

record rel_value =
  rv_kind :: value_type
  rv_value :: raw_value

definition rel_value_document :: "rel_value \<Rightarrow> json" where
  "rel_value_document v = JObj [(''type'', JStr (value_type_value (rv_kind v))),
     (''value'', case rv_value v of RawNone \<Rightarrow> JNull | RawBool b \<Rightarrow> JBool b | RawText s \<Rightarrow> JStr s)]"

section \<open>Lexical forms\<close>

definition all_digits :: "string \<Rightarrow> bool" where
  "all_digits s \<longleftrightarrow> list_all is_digit s"

text \<open>\<open>[1-9][0-9]*\<close>.\<close>

definition positive_numeral :: "string \<Rightarrow> bool" where
  "positive_numeral s \<longleftrightarrow> (case s of [] \<Rightarrow> False | c # cs \<Rightarrow> is_digit c \<and> c \<noteq> CHR ''0'' \<and> all_digits cs)"

text \<open>\<open>^[a-z][a-z0-9._-]{0,127}$\<close>.\<close>

definition portable_identifier :: "string \<Rightarrow> bool" where
  "portable_identifier s \<longleftrightarrow> (case s of [] \<Rightarrow> False
     | c # cs \<Rightarrow> is_lower_ascii c \<and> length cs \<le> 127 \<and>
         list_all (\<lambda>x. is_lower_ascii x \<or> is_digit x \<or> x \<in> set ''._-'') cs)"

text \<open>\<open>^(0|-?[1-9][0-9]{0,64})$\<close>.\<close>

definition strip_minus :: "string \<Rightarrow> string" where
  "strip_minus s = (case s of [] \<Rightarrow> [] | c # cs \<Rightarrow> if c = CHR ''-'' then cs else s)"

definition match_integer :: "string \<Rightarrow> bool" where
  "match_integer s \<longleftrightarrow> s = ''0'' \<or> positive_numeral (strip_minus s) \<and> length (strip_minus s) \<le> 65"

text \<open>\<open>^(?:0|-[1-9][0-9]*|[1-9][0-9]*)(?:\.([0-9]+))?$\<close>: the fraction group, empty if absent.\<close>

definition match_decimal :: "string \<Rightarrow> string option" where
  "match_decimal s =
     (let whole = takeWhile (\<lambda>c. c \<noteq> CHR ''.'') s; rest = dropWhile (\<lambda>c. c \<noteq> CHR ''.'') s in
      if whole = ''0'' \<or> positive_numeral (strip_minus whole)
      then (case rest of [] \<Rightarrow> Some []
            | _ # fraction \<Rightarrow> if fraction \<noteq> [] \<and> all_digits fraction then Some fraction else None)
      else None)"

definition match_uuid :: "string \<Rightarrow> bool" where
  "match_uuid s \<longleftrightarrow> length s = 36 \<and>
     (\<forall>i < 36. if i \<in> {8, 13, 18, 23} then s ! i = CHR ''-'' else is_lower_hex (s ! i))"

text \<open>\<open>(?:[01][0-9]|2[0-3]):[0-5][0-9]:[0-5][0-9](?:\.([0-9]{1,6}))?\<close>: the fraction group.\<close>

definition match_time :: "string \<Rightarrow> string option" where
  "match_time s = (case s of
     h1 # h2 # c1 # m1 # m2 # c2 # s1 # s2 # rest \<Rightarrow>
       if (h1 \<in> set ''01'' \<and> is_digit h2 \<or> h1 = CHR ''2'' \<and> h2 \<in> set ''0123'') \<and> c1 = CHR '':'' \<and>
          m1 \<in> set ''012345'' \<and> is_digit m2 \<and> c2 = CHR '':'' \<and> s1 \<in> set ''012345'' \<and> is_digit s2
       then (case rest of [] \<Rightarrow> Some []
             | p # fraction \<Rightarrow> if p = CHR ''.'' \<and> 1 \<le> length fraction \<and> length fraction \<le> 6 \<and> all_digits fraction
                 then Some fraction else None)
       else None
   | _ \<Rightarrow> None)"

text \<open>\<open>([1-9][0-9]{3}-[0-9]{2}-[0-9]{2})T(<time>)\<close>, for an instant followed by \<open>Z\<close>.\<close>

definition match_date_shape :: "string \<Rightarrow> bool" where
  "match_date_shape s \<longleftrightarrow> (case s of
     [a, b, c, d, h1, e, f, h2, g, h] \<Rightarrow> is_digit a \<and> a \<noteq> CHR ''0'' \<and> all_digits [b, c, d, e, f, g, h] \<and>
       h1 = CHR ''-'' \<and> h2 = CHR ''-''
   | _ \<Rightarrow> False)"

definition match_timestamp :: "bool \<Rightarrow> string \<Rightarrow> (string \<times> string) option" where
  "match_timestamp instant raw =
     (if instant \<and> (raw = [] \<or> last raw \<noteq> CHR ''Z'') then None
      else let body = (if instant then butlast raw else raw) in
        (case drop 10 body of [] \<Rightarrow> None
         | t # clock \<Rightarrow> if match_date_shape (take 10 body) \<and> t = CHR ''T'' \<and> match_time clock \<noteq> None
             then Some (take 10 body, clock) else None))"

section \<open>date.fromisoformat\<close>

definition parse_digits :: "nat \<Rightarrow> string \<Rightarrow> (nat \<times> string) option" where
  "parse_digits n s =
     (if n \<le> length s \<and> all_digits (take n s)
      then Some (foldl (\<lambda>a c. a * 10 + (of_char c - 48)) 0 (take n s), drop n s) else None)"

definition days_before_year :: "int \<Rightarrow> int" where
  "days_before_year y = (y - 1) * 365 + (y - 1) div 4 - (y - 1) div 100 + (y - 1) div 400"

definition is_leap :: "int \<Rightarrow> bool" where
  "is_leap y \<longleftrightarrow> y mod 4 = 0 \<and> (y mod 100 \<noteq> 0 \<or> y mod 400 = 0)"

definition days_in_month :: "int \<Rightarrow> nat \<Rightarrow> nat" where
  "days_in_month y m = (if m = 2 then if is_leap y then 29 else 28 else if m \<in> {4, 6, 9, 11} then 30 else 31)"

text \<open>The year of an ISO week date, \<open>None\<close> where it does not exist or leaves the years 1 to 9999.\<close>

definition iso_week_year :: "int \<Rightarrow> nat \<Rightarrow> nat \<Rightarrow> int option" where
  "iso_week_year y w d =
     (let first = days_before_year y + 1; weekday = (first + 6) mod 7;
        monday = first - weekday + (if 3 < weekday then 7 else 0);
        day = monday + (int w - 1) * 7 + int d - 1;
        year = (if day < first then y - 1 else if days_before_year (y + 1) < day then y + 1 else y)
      in if (1 \<le> w \<and> w < 53 \<or> w = 53 \<and> (weekday = 3 \<or> weekday = 2 \<and> is_leap y)) \<and> 1 \<le> d \<and> d \<le> 7 \<and>
            1 \<le> y \<and> 1 \<le> year \<and> year \<le> 9999
         then Some year else None)"

text \<open>The year of \<open>date.fromisoformat(raw)\<close>, \<open>None\<close> for its \<open>ValueError\<close>. The length is that of the UTF-8
  encoding. In the week form the parser does not look past the digit of the day.\<close>

definition date_fromisoformat :: "string \<Rightarrow> int option" where
  "date_fromisoformat raw =
     (if length (utf8 raw) \<notin> {7, 8, 10} then None
      else case parse_digits 4 raw of
        None \<Rightarrow> None
      | Some (year, p) \<Rightarrow>
          (let sep = (p \<noteq> [] \<and> hd p = CHR ''-''); p = (if sep then tl p else p) in
           if p \<noteq> [] \<and> hd p = CHR ''W''
           then (case parse_digits 2 (tl p) of
               None \<Rightarrow> None
             | Some (week, q) \<Rightarrow>
                 if q = [] then iso_week_year (int year) week 1
                 else if sep \<and> hd q \<noteq> CHR ''-'' then None
                 else (case parse_digits 1 (if sep then tl q else q) of
                     None \<Rightarrow> None
                   | Some (day, _) \<Rightarrow> iso_week_year (int year) week day))
           else (case parse_digits 2 p of
               None \<Rightarrow> None
             | Some (month, q) \<Rightarrow>
                 if sep \<and> (q = [] \<or> hd q \<noteq> CHR ''-'') then None
                 else (case parse_digits 2 (if sep then tl q else q) of
                     None \<Rightarrow> None
                   | Some (day, rest) \<Rightarrow>
                       if rest = [] \<and> 1 \<le> year \<and> 1 \<le> month \<and> month \<le> 12 \<and> 1 \<le> day \<and>
                          day \<le> days_in_month (int year) month
                       then Some (int year) else None))))"

section \<open>urlsafe Base64\<close>

definition to_std_alphabet :: "char \<Rightarrow> char" where
  "to_std_alphabet c = (if c = CHR ''-'' then CHR ''+'' else if c = CHR ''_'' then CHR ''/'' else c)"

definition to_url_alphabet :: "char \<Rightarrow> char" where
  "to_url_alphabet c = (if c = CHR ''+'' then CHR ''-'' else if c = CHR ''/'' then CHR ''_'' else c)"

text \<open>\<open>urlsafe_b64decode(raw + padding)\<close> for a \<open>raw\<close> without padding: characters outside the alphabet are
  skipped, what remains must be whole quadruples with the padding given.\<close>

definition urlsafe_b64decode :: "string \<Rightarrow> nat \<Rightarrow> bytes option" where
  "urlsafe_b64decode raw padding =
     (let chars = filter (\<lambda>c. c \<in> set b64_alphabet) (map to_std_alphabet raw); open = length chars mod 4 in
      if list_ex (\<lambda>c. 128 \<le> (of_char c :: nat)) raw \<or> open = 1 \<or> (open \<noteq> 0 \<and> open + padding < 4) then None
      else Some (b64_decode (chars @ replicate ((4 - open) mod 4) (CHR ''=''))))"

definition urlsafe_b64encode :: "bytes \<Rightarrow> string" where
  "urlsafe_b64encode bs = filter (\<lambda>c. c \<noteq> CHR ''='') (map to_url_alphabet (b64_encode bs))"

section \<open>Validation of one value\<close>

definition all_zero :: "string \<Rightarrow> bool" where
  "all_zero s \<longleftrightarrow> list_all (\<lambda>c. c = CHR ''0'') s"

text \<open>\<open>len(Decimal(raw).as_tuple().digits)\<close>: the digits of the coefficient without leading zeros.\<close>

definition coefficient_digits :: "string \<Rightarrow> nat" where
  "coefficient_digits raw =
     max 1 (length (dropWhile (\<lambda>c. c = CHR ''0'') (filter is_digit raw)))"

definition validate_decimal :: "column_definition \<Rightarrow> string \<Rightarrow> (rel_exn, unit) result" where
  "validate_decimal column raw = (case match_decimal raw of
     None \<Rightarrow> Inl (incompatible ''non-canonical decimal'')
   | Some fraction \<Rightarrow>
       if int (length fraction) \<noteq> (case ct_scale (cd_type column) of None \<Rightarrow> 0 | Some s \<Rightarrow> s)
       then Inl (incompatible ''decimal lexical scale differs from Manifest'')
       else if int (coefficient_digits raw - length fraction + length fraction) >
               (case ct_precision (cd_type column) of None \<Rightarrow> 0 | Some p \<Rightarrow> p)
       then Inl (incompatible ''decimal exceeds Manifest precision'')
       else raise_if (all_zero (filter is_digit raw) \<and> raw \<noteq> [] \<and> hd raw = CHR ''-'')
         (incompatible ''negative decimal zero is non-canonical''))"

definition validate_binary :: "string \<Rightarrow> (rel_exn, unit) result" where
  "validate_binary raw =
     (if CHR ''='' \<in> set raw then Inl (incompatible ''base64url padding is non-canonical'')
      else case urlsafe_b64decode raw ((4 - length raw mod 4) mod 4) of
        None \<Rightarrow> Inl (incompatible ''invalid base64url'')
      | Some decoded \<Rightarrow> raise_if (urlsafe_b64encode decoded \<noteq> raw) (incompatible ''non-canonical base64url''))"

definition validate_date :: "string \<Rightarrow> (rel_exn, unit) result" where
  "validate_date raw = (case date_fromisoformat raw of
     None \<Rightarrow> Inl (incompatible ''invalid Gregorian date'')
   | Some year \<Rightarrow> raise_if (length raw \<noteq> 10 \<or> \<not> (1000 \<le> year \<and> year \<le> 9999))
       (incompatible ''date outside portable v0.1 range''))"

text \<open>\<open>time.fromisoformat\<close> accepts every text of this shape.\<close>

definition validate_local_time :: "string \<Rightarrow> int \<Rightarrow> (rel_exn, unit) result" where
  "validate_local_time raw precision = (case match_time raw of
     None \<Rightarrow> Inl (incompatible ''invalid time-local'')
   | Some fraction \<Rightarrow> raise_if (int (length fraction) \<noteq> precision)
       (incompatible ''temporal lexical precision differs from Manifest''))"

text \<open>An instant of this shape with a valid date converts to UTC without error.\<close>

definition validate_timestamp :: "string \<Rightarrow> int \<Rightarrow> bool \<Rightarrow> (rel_exn, unit) result" where
  "validate_timestamp raw precision instant = (case match_timestamp instant raw of
     None \<Rightarrow> Inl (incompatible (''invalid '' @ (if instant then ''timestamp-instant'' else ''timestamp-local'')))
   | Some (day, clock) \<Rightarrow> (case date_fromisoformat day of
       None \<Rightarrow> Inl (incompatible ''invalid timestamp date'')
     | Some year \<Rightarrow>
         if \<not> (1000 \<le> year \<and> year \<le> 9999) then Inl (incompatible ''timestamp outside portable year range'')
         else validate_local_time clock precision))"

text \<open>Every \<open>str\<close> of the model is encodable, so the \<open>TEXT\<close> branch never raises.\<close>

definition validate_value :: "column_definition \<Rightarrow> rel_value \<Rightarrow> (rel_exn, unit) result" where
  "validate_value column v =
     (let fractional = (case ct_fractional (cd_type column) of None \<Rightarrow> 0 | Some f \<Rightarrow> f) in
      if rv_kind v \<noteq> ct_kind (cd_type column)
      then Inl (incompatible ''typed value does not match Manifest column type'')
      else case rv_value v of
        RawNone \<Rightarrow> raise_if (\<not> cd_nullable column) (incompatible ''null supplied for non-nullable column'')
      | RawBool b \<Rightarrow> raise_if (rv_kind v \<noteq> BOOLEAN)
          (incompatible ''non-boolean relational values must use canonical strings'')
      | RawText raw \<Rightarrow> (case rv_kind v of
          BOOLEAN \<Rightarrow> Inl (incompatible ''boolean value must be JSON boolean'')
        | INTEGER \<Rightarrow> raise_if (\<not> match_integer raw) (incompatible ''non-canonical integer'')
        | DECIMAL \<Rightarrow> validate_decimal column raw
        | TEXT \<Rightarrow> Inr ()
        | BINARY \<Rightarrow> validate_binary raw
        | DATE \<Rightarrow> validate_date raw
        | TIME_LOCAL \<Rightarrow> validate_local_time raw fractional
        | TIMESTAMP_LOCAL \<Rightarrow> validate_timestamp raw fractional False
        | TIMESTAMP_INSTANT \<Rightarrow> validate_timestamp raw fractional True
        | UUID \<Rightarrow> raise_if (\<not> match_uuid raw) (incompatible ''non-canonical UUID'')))"

end
