(* ===== verification/AVP_Relational.thy ===== *)
theory AVP_Relational
  imports AVP_RelationalValues "HOL-Library.AList"
begin

text \<open>
  The reference model of the relational profile (\<^verbatim>\<open>relational.py\<close>, second half): Manifests, rows and
  state images, and every operation of \<open>InMemoryRelationalResource\<close> as an action over its attributes.
  A Python \<open>dict\<close> is an association list in insertion order. The pending mutations of a resource are
  shared mutable objects: the resource holds them in a list and a caller's reference is an index into it.
\<close>

section \<open>Dictionaries\<close>

text \<open>\<open>dict(pairs)\<close>: the last value of a key, at the position of its first occurrence.\<close>

definition py_dict :: "('k \<times> 'v) list \<Rightarrow> ('k \<times> 'v) list" where
  "py_dict kvs = fold (\<lambda>(k, v). AList.update k v) kvs []"

definition dict_item :: "('k \<times> 'v) list \<Rightarrow> 'k \<Rightarrow> ('k \<Rightarrow> string) \<Rightarrow> (rel_exn, 'v) result" where
  "dict_item d k show_key = (case map_of d k of None \<Rightarrow> Inl (AbsentKey (show_key k)) | Some v \<Rightarrow> Inr v)"

section \<open>Rows\<close>

record rel_row =
  rr_values :: "(string \<times> rel_value) list"
  rr_key :: "string list"

definition row_from_mapping :: "(string \<times> rel_value) list \<Rightarrow> string list \<Rightarrow> rel_row" where
  "row_from_mapping values key = \<lparr>rr_values = sort_key fst values, rr_key = sort key\<rparr>"

definition value_map :: "rel_row \<Rightarrow> (string \<times> rel_value) list" where
  "value_map row = py_dict (rr_values row)"

definition column_value :: "(string \<times> rel_value) list \<Rightarrow> string \<Rightarrow> (rel_exn, rel_value) result" where
  "column_value values c = dict_item values c py_repr_str"

definition pick_documents :: "(string \<times> rel_value) list \<Rightarrow> string list \<Rightarrow> (rel_exn, (string \<times> json) list) result" where
  "pick_documents values columns =
     map_each (\<lambda>c. res_bind (column_value values c) (\<lambda>v. Inr (c, rel_value_document v))) columns"

definition key_document :: "rel_row \<Rightarrow> (rel_exn, json) result" where
  "key_document row =
     (if rr_key row = [] then Inl (incompatible ''row has not been bound to a Manifest logical key'')
      else res_bind (pick_documents (value_map row) (dedupe (rr_key row))) (\<lambda>kvs. Inr (JObj kvs)))"

definition values_document :: "rel_row \<Rightarrow> json" where
  "values_document row = JObj (py_dict (map (map_prod id rel_value_document) (rr_values row)))"

section \<open>Manifests\<close>

record relation_definition =
  rd_id :: string
  rd_columns :: "column_definition list"
  rd_key :: "string list"

definition column_ids :: "relation_definition \<Rightarrow> string list" where
  "column_ids rel = map cd_id (rd_columns rel)"

definition make_relation_definition :: "relation_definition \<Rightarrow> (rel_exn, relation_definition) result" where
  "make_relation_definition rel =
     res_bind (raise_if (rd_key rel = []) (incompatible ''relation row key must not be empty'')) (\<lambda>_.
     res_bind (raise_if (\<not> distinct (column_ids rel)) (incompatible ''relation column ids must be unique'')) (\<lambda>_.
     res_bind (raise_if (\<not> distinct (rd_key rel)) (incompatible ''relation row key ids must be unique'')) (\<lambda>_.
     res_bind (raise_if (\<not> set (rd_key rel) \<subseteq> set (column_ids rel))
       (incompatible ''row key must reference declared relation columns'')) (\<lambda>_.
     Inr rel))))"

definition relation_document :: "relation_definition \<Rightarrow> json" where
  "relation_document rel = JObj [(''relationId'', JStr (rd_id rel)),
     (''columns'', JList (map column_document (sort_key cd_id (rd_columns rel)))),
     (''rowKey'', JList (map JStr (sort (rd_key rel))))]"

record projection_relation =
  pr_relation_id :: string
  pr_columns :: "string list"

definition projection_relation_document :: "projection_relation \<Rightarrow> json" where
  "projection_relation_document p = JObj [(''relationId'', JStr (pr_relation_id p)),
     (''columns'', JList (map JStr (sort (pr_columns p))))]"

record projection_definition =
  pj_id :: string
  pj_relations :: "projection_relation list"

definition projection_document :: "projection_definition \<Rightarrow> json" where
  "projection_document p = JObj [(''projectionId'', JStr (pj_id p)),
     (''relations'', JList (map projection_relation_document (sort_key pr_relation_id (pj_relations p))))]"

record rel_manifest =
  mn_relations :: "relation_definition list"
  mn_projections :: "projection_definition list"

definition sorted_names :: "string list \<Rightarrow> string" where
  "sorted_names xs = py_repr (JList (map JStr (sort (remdups xs))))"

definition without :: "'a list \<Rightarrow> 'a list \<Rightarrow> 'a list" where
  "without xs ys = filter (\<lambda>x. x \<notin> set ys) xs"

definition check_relation :: "relation_definition \<Rightarrow> (rel_exn, unit) result" where
  "check_relation rel =
     (let ids = column_ids rel; unknown = without (rd_key rel) ids;
        complain = (\<lambda>text. incompatible (''relation '' @ rd_id rel @ text)) in
      res_bind (raise_if (ids = []) (complain '' must declare a column'')) (\<lambda>_.
      res_bind (raise_if (\<not> distinct ids) (complain '' columnId values must be unique'')) (\<lambda>_.
      res_bind (raise_if (\<not> list_all portable_identifier ids) (complain '' columnId is not portable'')) (\<lambda>_.
      res_bind (raise_if (\<not> distinct (rd_key rel)) (complain '' rowKey values must be unique'')) (\<lambda>_.
      raise_if (unknown \<noteq> []) (complain ('' rowKey references unknown columns: '' @ sorted_names unknown)))))))"

definition check_selection :: "rel_manifest \<Rightarrow> string \<Rightarrow> projection_relation \<Rightarrow> (rel_exn, unit) result" where
  "check_selection m projection_id selected =
     (let complain = (\<lambda>text. incompatible (''projection '' @ projection_id @ text)) in
      case find (\<lambda>r. rd_id r = pr_relation_id selected) (mn_relations m) of
        None \<Rightarrow> Inl (complain ('' references unknown relation '' @ pr_relation_id selected))
      | Some rel \<Rightarrow>
          (let columns = pr_columns selected; unknown = without columns (column_ids rel);
             missing = without (rd_key rel) columns in
           res_bind (raise_if (columns = []) (complain '' must select a column'')) (\<lambda>_.
           res_bind (raise_if (\<not> distinct columns) (complain '' contains duplicate column references'')) (\<lambda>_.
           res_bind (raise_if (unknown \<noteq> []) (complain ('' references unknown columns: '' @ sorted_names unknown))) (\<lambda>_.
           raise_if (missing \<noteq> []) (complain ('' omits logical key columns: '' @ sorted_names missing)))))))"

definition check_projection :: "rel_manifest \<Rightarrow> projection_definition \<Rightarrow> (rel_exn, unit) result" where
  "check_projection m p =
     (let complain = (\<lambda>text. incompatible (''projection '' @ pj_id p @ text)) in
      res_bind (raise_if (pj_relations p = []) (complain '' must select a relation'')) (\<lambda>_.
      res_bind (raise_if (\<not> distinct (map pr_relation_id (pj_relations p)))
        (complain '' selects a relation more than once'')) (\<lambda>_.
      check_each (check_selection m (pj_id p)) (pj_relations p))))"

definition validate_integrity :: "rel_manifest \<Rightarrow> (rel_exn, unit) result" where
  "validate_integrity m =
     (let ids = map rd_id (mn_relations m); projection_ids = map pj_id (mn_projections m) in
      res_bind (raise_if (ids = []) (incompatible ''Manifest must declare a relation'')) (\<lambda>_.
      res_bind (raise_if (\<not> distinct ids) (incompatible ''Manifest relationId values must be unique'')) (\<lambda>_.
      res_bind (raise_if (\<not> list_all portable_identifier ids) (incompatible ''Manifest relationId is not portable'')) (\<lambda>_.
      res_bind (check_each check_relation (mn_relations m)) (\<lambda>_.
      res_bind (raise_if (\<not> distinct projection_ids) (incompatible ''Manifest projectionId values must be unique'')) (\<lambda>_.
      res_bind (raise_if (\<not> list_all portable_identifier projection_ids)
        (incompatible ''Manifest projectionId is not portable'')) (\<lambda>_.
      check_each (check_projection m) (mn_projections m))))))))"

definition sorted_relations :: "rel_manifest \<Rightarrow> relation_definition list" where
  "sorted_relations m = sort_key rd_id (mn_relations m)"

definition manifest_document :: "rel_manifest \<Rightarrow> (rel_exn, json) result" where
  "manifest_document m = res_bind (validate_integrity m) (\<lambda>_. Inr (JObj
     [(''apiVersion'', JStr ''avp.relational/v0.1''), (''kind'', JStr ''RelationalStateManifest''),
      (''profile'', JStr ''avp-relational-state-v0.1''), (''revision'', JStr ''0.1''),
      (''canonicalRepresentation'', JStr ''rfc8785-jcs''),
      (''relations'', JList (map relation_document (sorted_relations m))),
      (''projections'', JList (map projection_document (sort_key pj_id (mn_projections m))))]))"

definition rel_manifest_digest :: "rel_manifest \<Rightarrow> (rel_exn, string) result" where
  "rel_manifest_digest m = res_bind (manifest_document m) (\<lambda>d. Inr (json_digest d))"

definition manifest_relation :: "rel_manifest \<Rightarrow> string \<Rightarrow> (rel_exn, relation_definition) result" where
  "manifest_relation m rid = (case find (\<lambda>r. rd_id r = rid) (mn_relations m) of
     None \<Rightarrow> Inl (incompatible (''unknown logical relation: '' @ rid)) | Some r \<Rightarrow> Inr r)"

definition manifest_projection :: "rel_manifest \<Rightarrow> string \<Rightarrow> (rel_exn, projection_definition) result" where
  "manifest_projection m pid = (case find (\<lambda>p. pj_id p = pid) (mn_projections m) of
     None \<Rightarrow> Inl (incompatible (''unknown projection: '' @ pid)) | Some p \<Rightarrow> Inr p)"

section \<open>State images\<close>

type_synonym rel_state = "(string \<times> rel_row list) list"

record state_image =
  si_manifest_digest :: string
  si_relations :: rel_state

definition row_document :: "rel_row \<Rightarrow> (rel_exn, json) result" where
  "row_document row = res_bind (key_document row) (\<lambda>k.
     Inr (JObj [(''key'', k), (''values'', values_document row)]))"

definition image_document :: "state_image \<Rightarrow> (rel_exn, json) result" where
  "image_document i =
     res_bind (map_each (\<lambda>(rid, rows). res_bind (map_each row_document rows) (\<lambda>docs.
       Inr (JObj [(''relationId'', JStr rid), (''rows'', JList docs)]))) (si_relations i)) (\<lambda>relations.
     Inr (JObj [(''apiVersion'', JStr ''avp.relational/v0.1''), (''kind'', JStr ''RelationalStateImage''),
       (''manifestDigest'', JStr (si_manifest_digest i)), (''relations'', JList relations)]))"

definition image_digest :: "state_image \<Rightarrow> (rel_exn, string) result" where
  "image_digest i = res_bind (image_document i) (\<lambda>d. Inr (json_digest d))"

definition canonical_bytes :: "json \<Rightarrow> bytes" where
  "canonical_bytes d = utf8 (canonical_json d)"

section \<open>Validation of a state\<close>

definition bind_row :: "relation_definition \<Rightarrow> rel_row \<Rightarrow> (rel_exn, bytes \<times> rel_row) result" where
  "bind_row rel row =
     (let values = value_map row in
      res_bind (raise_if (set (map fst values) \<noteq> set (column_ids rel))
        (incompatible ''row does not cover exactly the Manifest columns'')) (\<lambda>_.
      res_bind (check_each (\<lambda>c. res_bind (column_value values (cd_id c)) (validate_value c)) (rd_columns rel)) (\<lambda>_.
      let bound = row_from_mapping values (rd_key rel) in
      res_bind (key_document bound) (\<lambda>k. Inr (canonical_bytes k, bound)))))"

fun validate_rows :: "relation_definition \<Rightarrow> rel_row list \<Rightarrow> (bytes \<times> rel_row) list \<Rightarrow>
    (rel_exn, (bytes \<times> rel_row) list) result" where
  "validate_rows rel [] validated = Inr validated"
| "validate_rows rel (row # rows) validated =
     res_bind (bind_row rel row) (\<lambda>entry.
     if fst entry \<in> set (map fst validated) then Inl (incompatible ''duplicate logical row key'')
     else validate_rows rel rows (validated @ [entry]))"

definition validate_relation :: "relation_definition \<Rightarrow> rel_row list \<Rightarrow> (rel_exn, rel_row list) result" where
  "validate_relation rel rows =
     res_bind (validate_rows rel rows []) (\<lambda>validated. Inr (map snd (sort_key fst validated)))"

definition validate_state :: "rel_manifest \<Rightarrow> rel_state \<Rightarrow> (rel_exn, rel_state) result" where
  "validate_state m state =
     res_bind (raise_if (set (map fst state) \<noteq> set (map rd_id (mn_relations m)))
       (incompatible ''state does not cover exactly the Manifest relations'')) (\<lambda>_.
     map_each (\<lambda>rel. res_bind (dict_item state (rd_id rel) py_repr_str) (\<lambda>rows.
       res_bind (validate_relation rel rows) (\<lambda>validated. Inr (rd_id rel, validated)))) (mn_relations m))"

definition state_image_for :: "rel_manifest \<Rightarrow> string \<Rightarrow> rel_state \<Rightarrow> (rel_exn, state_image) result" where
  "state_image_for m d state =
     res_bind (map_each (\<lambda>rel. res_bind (dict_item state (rd_id rel) py_repr_str) (\<lambda>rows. Inr (rd_id rel, rows)))
       (sorted_relations m)) (\<lambda>relations.
     Inr \<lparr>si_manifest_digest = d, si_relations = relations\<rparr>)"

definition identity_artifacts :: "rel_manifest \<Rightarrow> rel_state \<Rightarrow> (rel_exn, string \<times> string) result" where
  "identity_artifacts m baseline =
     res_bind (validate_integrity m) (\<lambda>_.
     res_bind (rel_manifest_digest m) (\<lambda>d.
     res_bind (validate_state m baseline) (\<lambda>validated.
     res_bind (state_image_for m d validated) (\<lambda>i.
     res_bind (image_digest i) (\<lambda>baseline_digest.
     Inr (d, baseline_digest))))))"

section \<open>The resource\<close>

record pending_mutation =
  pm_relation_id :: string
  pm_replacement :: "rel_row list"
  pm_settled :: bool
  pm_committed :: bool

record rel_resource =
  rs_environment_id :: string
  rs_resource_id :: string
  rs_instance_id :: string
  rs_manifest :: rel_manifest
  rs_manifest_digest :: string
  rs_execution_identity :: string
  rs_bound_identity :: string
  rs_private :: "(string \<times> string) list"
  rs_binding_valid :: bool
  rs_quiescing :: bool
  rs_released :: bool
  rs_pending :: "pending_mutation list"
  rs_baseline :: rel_state
  rs_baseline_digest :: string
  rs_state :: rel_state
  rs_snapshots :: nat

record resource_arguments =
  ra_environment_id :: string
  ra_resource_id :: string
  ra_instance_id :: string
  ra_manifest :: rel_manifest
  ra_manifest_digest :: string
  ra_baseline :: rel_state
  ra_baseline_digest :: string
  ra_execution_identity :: string
  ra_private :: "(string \<times> string) list"

definition require_digest :: "string \<Rightarrow> string \<Rightarrow> (rel_exn, unit) result" where
  "require_digest v where_used =
     raise_if (\<not> is_sha256_text v) (incompatible (where_used @ '' must be a canonical sha256 digest''))"

definition make_rel_resource :: "resource_arguments \<Rightarrow> (rel_exn, rel_resource) result" where
  "make_rel_resource a =
     res_bind (validate_integrity (ra_manifest a)) (\<lambda>_.
     res_bind (require_digest (ra_manifest_digest a) ''Manifest Artifact digest'') (\<lambda>_.
     res_bind (require_digest (ra_baseline_digest a) ''baseline StateImage Artifact digest'') (\<lambda>_.
     res_bind (require_digest (ra_execution_identity a) ''execution input identity'') (\<lambda>_.
     res_bind (raise_if (ra_instance_id a = []) (incompatible ''resource instance identity must not be empty'')) (\<lambda>_.
     res_bind (rel_manifest_digest (ra_manifest a)) (\<lambda>d.
     res_bind (raise_if (d \<noteq> ra_manifest_digest a)
       (incompatible ''Manifest Artifact digest does not match canonical Manifest bytes'')) (\<lambda>_.
     res_bind (validate_state (ra_manifest a) (ra_baseline a)) (\<lambda>baseline.
     res_bind (state_image_for (ra_manifest a) d baseline) (\<lambda>i.
     res_bind (image_digest i) (\<lambda>baseline_digest.
     res_bind (raise_if (baseline_digest \<noteq> ra_baseline_digest a)
       (incompatible ''baseline Artifact digest does not match canonical StateImage bytes'')) (\<lambda>_.
     Inr \<lparr>rs_environment_id = ra_environment_id a, rs_resource_id = ra_resource_id a, rs_instance_id = ra_instance_id a,
       rs_manifest = ra_manifest a, rs_manifest_digest = d, rs_execution_identity = ra_execution_identity a,
       rs_bound_identity = ra_execution_identity a, rs_private = ra_private a, rs_binding_valid = True,
       rs_quiescing = False, rs_released = False, rs_pending = [], rs_baseline = baseline,
       rs_baseline_digest = baseline_digest, rs_state = baseline, rs_snapshots = 0\<rparr>)))))))))))"

type_synonym 'a rel_action = "(rel_resource, rel_exn, 'a) action"

definition ensure_live :: "rel_resource \<Rightarrow> (rel_exn, unit) result" where
  "ensure_live r =
     res_bind (raise_if (rs_released r) (RelExn RelationalReferenceError ''relational resource reference is released'')) (\<lambda>_.
     res_bind (raise_if (\<not> rs_binding_valid r) (incompatible ''logical relational binding has drifted'')) (\<lambda>_.
     raise_if (rs_execution_identity r \<noteq> rs_bound_identity r)
       (incompatible ''execution-relevant database input identity has drifted'')))"

definition rel_state_image :: "rel_resource \<Rightarrow> (rel_exn, state_image) result" where
  "rel_state_image r = res_bind (ensure_live r) (\<lambda>_.
     state_image_for (rs_manifest r) (rs_manifest_digest r) (rs_state r))"

section \<open>Projections\<close>

record projected_row =
  px_key :: "(string \<times> json) list"
  px_values :: "(string \<times> json) list"

definition project_row :: "relation_definition \<Rightarrow> string list \<Rightarrow> rel_row \<Rightarrow> (rel_exn, projected_row) result" where
  "project_row rel columns row =
     res_bind (pick_documents (value_map row) (sort (rd_key rel))) (\<lambda>k.
     res_bind (pick_documents (value_map row) (sort (remdups columns))) (\<lambda>vs.
     Inr \<lparr>px_key = k, px_values = vs\<rparr>))"

definition project_relation :: "rel_resource \<Rightarrow> projection_relation \<Rightarrow>
    (rel_exn, string \<times> projected_row list) result" where
  "project_relation r selected =
     res_bind (manifest_relation (rs_manifest r) (pr_relation_id selected)) (\<lambda>rel.
     res_bind (raise_if (\<not> set (rd_key rel) \<subseteq> set (pr_columns selected))
       (incompatible ''projection omits required logical key column'')) (\<lambda>_.
     res_bind (dict_item (rs_state r) (rd_id rel) py_repr_str) (\<lambda>rows.
     res_bind (map_each (project_row rel (pr_columns selected)) rows) (\<lambda>projected.
     Inr (rd_id rel, projected)))))"

definition project :: "rel_resource \<Rightarrow> string \<Rightarrow> (rel_exn, (string \<times> projected_row list) list) result" where
  "project r pid =
     res_bind (ensure_live r) (\<lambda>_.
     res_bind (manifest_projection (rs_manifest r) pid) (\<lambda>p.
     map_each (project_relation r) (sort_key pr_relation_id (pj_relations p))))"

definition projection_result_document :: "rel_resource \<Rightarrow> string \<Rightarrow> (string \<times> projected_row list) list \<Rightarrow> json" where
  "projection_result_document r pid relations = JObj
     [(''apiVersion'', JStr ''avp.relational/v0.1''), (''kind'', JStr ''RelationalProjection''),
      (''manifestDigest'', JStr (rs_manifest_digest r)), (''projectionId'', JStr pid),
      (''relations'', JList (map (\<lambda>(rid, rows). JObj [(''relationId'', JStr rid),
         (''rows'', JList (map (\<lambda>x. JObj [(''key'', JObj (px_key x)), (''values'', JObj (px_values x))]) rows))]) relations))]"

section \<open>Mutations, quiescence and final state\<close>

definition begin_subject_mutation :: "string \<Rightarrow> rel_row list \<Rightarrow> nat rel_action" where
  "begin_subject_mutation rid replacement =
     act_bind (act_read ensure_live) (\<lambda>_.
     act_bind (act_read (\<lambda>r. raise_if (rs_quiescing r)
       (RelExn RelationalLifecycleError ''new Subject mutation rejected after QUIESCING''))) (\<lambda>_.
     act_bind (act_read (\<lambda>r. validate_state (rs_manifest r) (AList.update rid replacement (rs_state r)))) (\<lambda>validated.
     act_bind (act_of (dict_item validated rid py_repr_str)) (\<lambda>rows.
     act_bind (act_get (\<lambda>r. length (rs_pending r))) (\<lambda>index.
     act_bind (act_modify (\<lambda>r. r\<lparr>rs_pending := rs_pending r @
       [\<lparr>pm_relation_id = rid, pm_replacement = rows, pm_settled = False, pm_committed = False\<rparr>]\<rparr>)) (\<lambda>_.
     act_return index))))))"

definition settle_subject_mutation :: "nat \<Rightarrow> bool \<Rightarrow> unit rel_action" where
  "settle_subject_mutation index commit =
     act_bind (act_read ensure_live) (\<lambda>_.
     act_bind (act_get rs_pending) (\<lambda>pending.
     if length pending \<le> index \<or> pm_settled (pending ! index)
     then act_raise (RelExn RelationalLifecycleError ''mutation is not pending'')
     else
       let p = pending ! index in
       act_bind (act_when commit (act_modify (\<lambda>r. r\<lparr>rs_state :=
         AList.update (pm_relation_id p) (pm_replacement p) (rs_state r)\<rparr>))) (\<lambda>_.
       act_modify (\<lambda>r. r\<lparr>rs_pending := (rs_pending r)[index := p\<lparr>pm_settled := True,
         pm_committed := commit \<or> pm_committed p\<rparr>]\<rparr>))))"

definition enter_quiescing :: "unit rel_action" where
  "enter_quiescing = act_bind (act_read ensure_live) (\<lambda>_. act_modify (\<lambda>r. r\<lparr>rs_quiescing := True\<rparr>))"

definition settlement_complete :: "rel_resource \<Rightarrow> bool" where
  "settlement_complete r \<longleftrightarrow> list_all pm_settled (rs_pending r)"

definition final_projection :: "rel_resource \<Rightarrow> string \<Rightarrow> (rel_exn, (string \<times> projected_row list) list) result" where
  "final_projection r pid =
     res_bind (ensure_live r) (\<lambda>_.
     res_bind (raise_if (\<not> rs_quiescing r \<or> \<not> settlement_complete r)
       (RelExn RelationalLifecycleError ''final projection requires settled QUIESCING boundary'')) (\<lambda>_.
     project r pid))"

section \<open>Snapshot, reset and restore\<close>

record rel_snapshot =
  rn_snapshot_id :: string
  rn_environment_id :: string
  rn_resource_id :: string
  rn_instance_id :: string
  rn_state :: state_image

datatype relational_fidelity = REL_STATE_EQUIVALENT | REL_NON_EQUIVALENT

definition rel_snapshot :: "rel_snapshot rel_action" where
  "rel_snapshot =
     act_bind (act_read rel_state_image) (\<lambda>state.
     act_bind (act_modify (\<lambda>r. r\<lparr>rs_snapshots := rs_snapshots r + 1\<rparr>)) (\<lambda>_.
     act_get (\<lambda>r. \<lparr>rn_snapshot_id = ''relational-snapshot-'' @ string_of_nat (rs_snapshots r),
       rn_environment_id = rs_environment_id r, rn_resource_id = rs_resource_id r,
       rn_instance_id = rs_instance_id r, rn_state = state\<rparr>)))"

definition rel_reset :: "state_image rel_action" where
  "rel_reset =
     act_bind (act_read ensure_live) (\<lambda>_.
     act_bind (act_modify (\<lambda>r. r\<lparr>rs_state := rs_baseline r\<rparr>)) (\<lambda>_.
     act_bind (act_read rel_state_image) (\<lambda>observed.
     act_bind (act_of (image_digest observed)) (\<lambda>d.
     act_bind (act_read (\<lambda>r. raise_if (d \<noteq> rs_baseline_digest r)
       (RelExn RelationalError ''reset did not re-establish baseline StateImage identity''))) (\<lambda>_.
     act_return observed)))))"

definition validate_snapshot_owner :: "rel_snapshot \<Rightarrow> rel_resource \<Rightarrow> (rel_exn, unit) result" where
  "validate_snapshot_owner sn r =
     res_bind (raise_if (rn_environment_id sn \<noteq> rs_environment_id r \<or> rn_resource_id sn \<noteq> rs_resource_id r \<or>
         rn_instance_id sn \<noteq> rs_instance_id r)
       (RelExn RelationalReferenceError ''foreign or stale relational SnapshotRef'')) (\<lambda>_.
     raise_if (si_manifest_digest (rn_state sn) \<noteq> rs_manifest_digest r)
       (RelExn RelationalReferenceError ''snapshot Manifest identity mismatch''))"

definition rel_restore :: "rel_snapshot \<Rightarrow> relational_fidelity rel_action" where
  "rel_restore sn =
     act_bind (act_read ensure_live) (\<lambda>_.
     act_bind (act_read (validate_snapshot_owner sn)) (\<lambda>_.
     act_bind (act_read (\<lambda>r. validate_state (rs_manifest r) (py_dict (si_relations (rn_state sn))))) (\<lambda>candidate.
     act_bind (act_modify (\<lambda>r. r\<lparr>rs_state := candidate\<rparr>)) (\<lambda>_.
     act_bind (act_read rel_state_image) (\<lambda>observed.
     act_bind (act_of (image_digest observed)) (\<lambda>d.
     act_bind (act_of (image_digest (rn_state sn))) (\<lambda>expected.
     act_return (if d \<noteq> expected then REL_NON_EQUIVALENT else REL_STATE_EQUIVALENT))))))))"

definition set_logical_binding_valid :: "bool \<Rightarrow> unit rel_action" where
  "set_logical_binding_valid valid = act_modify (\<lambda>r. r\<lparr>rs_binding_valid := valid\<rparr>)"

definition set_execution_input_identity :: "string \<Rightarrow> unit rel_action" where
  "set_execution_input_identity identity =
     act_bind (act_of (require_digest identity ''execution input identity'')) (\<lambda>_.
     act_modify (\<lambda>r. r\<lparr>rs_execution_identity := identity\<rparr>))"

definition rel_release :: "unit rel_action" where
  "rel_release = act_modify (\<lambda>r. r\<lparr>rs_released := True\<rparr>)"

section \<open>The Subject's view\<close>

definition selected_columns :: "(string \<times> string) list \<Rightarrow> relation_definition \<Rightarrow> string list" where
  "selected_columns allowed rel = remdups (map snd (filter (\<lambda>a. fst a = rd_id rel) allowed))"

definition view_row :: "string list \<Rightarrow> rel_row \<Rightarrow> (rel_exn, rel_row) result" where
  "view_row columns row =
     res_bind (map_each (\<lambda>c. res_bind (column_value (value_map row) c) (\<lambda>v. Inr (c, v))) columns) (\<lambda>kvs.
     Inr (row_from_mapping kvs []))"

definition view_relations :: "rel_resource \<Rightarrow> (string \<times> string) list \<Rightarrow> (rel_exn, rel_state) result" where
  "view_relations r allowed =
     map_each (\<lambda>rel.
       res_bind (dict_item (rs_state r) (rd_id rel) py_repr_str) (\<lambda>rows.
       res_bind (map_each (view_row (selected_columns allowed rel)) rows) (\<lambda>viewed. Inr (rd_id rel, viewed))))
       (filter (\<lambda>rel. selected_columns allowed rel \<noteq> []) (mn_relations (rs_manifest r)))"

definition subject_view :: "rel_resource \<Rightarrow> (string \<times> string) list \<Rightarrow> (rel_exn, rel_state) result" where
  "subject_view r authorized =
     res_bind (ensure_live r) (\<lambda>_.
     res_bind (raise_if (list_ex (\<lambda>a. a \<in> set authorized) (rs_private r))
       (RelExn RelationalVisibilityError ''Subject authorization includes evaluator-private column'')) (\<lambda>_.
     view_relations r authorized))"

section \<open>Differences\<close>

datatype change_kind = INSERT | DELETE | UPDATE

fun change_kind_value :: "change_kind \<Rightarrow> string" where
  "change_kind_value INSERT = ''INSERT''"
| "change_kind_value DELETE = ''DELETE''"
| "change_kind_value UPDATE = ''UPDATE''"

record diff_change =
  dc_relation_id :: string
  dc_change :: change_kind
  dc_key :: "(string \<times> rel_value) list"
  dc_before :: "(string \<times> rel_value) list option"
  dc_after :: "(string \<times> rel_value) list option"

definition pairs_document :: "(string \<times> rel_value) list \<Rightarrow> json" where
  "pairs_document kvs = JObj (py_dict (map (map_prod id rel_value_document) kvs))"

definition change_document :: "diff_change \<Rightarrow> json" where
  "change_document c = JObj ([(''relationId'', JStr (dc_relation_id c)),
     (''change'', JStr (change_kind_value (dc_change c))), (''key'', pairs_document (dc_key c))] @
     (case dc_before c of None \<Rightarrow> [] | Some b \<Rightarrow> [(''before'', pairs_document b)]) @
     (case dc_after c of None \<Rightarrow> [] | Some a \<Rightarrow> [(''after'', pairs_document a)]))"

record rel_diff =
  df_manifest_digest :: string
  df_before_digest :: string
  df_after_digest :: string
  df_changes :: "diff_change list"
  df_projection_id :: "string option"

definition diff_document :: "rel_diff \<Rightarrow> json" where
  "diff_document d = JObj
     [(''apiVersion'', JStr ''avp.relational/v0.1''), (''kind'', JStr ''RelationalDiff''),
      (''manifestDigest'', JStr (df_manifest_digest d)),
      (''scope'', case df_projection_id d of None \<Rightarrow> JObj [(''kind'', JStr ''full'')]
         | Some pid \<Rightarrow> JObj [(''kind'', JStr ''projection''), (''projectionId'', JStr pid)]),
      (''beforeDigest'', JStr (df_before_digest d)), (''afterDigest'', JStr (df_after_digest d)),
      (''changes'', JList (map change_document (df_changes d)))]"

text \<open>\<open>_row_key_document\<close> and \<open>_row_key_bytes\<close>: unlike \<open>key_document\<close> they refuse null.\<close>

definition row_key_bytes :: "relation_definition \<Rightarrow> rel_row \<Rightarrow> (rel_exn, bytes) result" where
  "row_key_bytes rel row =
     res_bind (map_each (\<lambda>c. res_bind (column_value (value_map row) c) (\<lambda>v.
       if rv_value v = RawNone then Inl (incompatible ''logical row key cannot contain null'')
       else Inr (c, rel_value_document v))) (sort (rd_key rel))) (\<lambda>kvs.
     Inr (canonical_bytes (JObj kvs)))"

definition keyed_rows :: "relation_definition \<Rightarrow> rel_row list \<Rightarrow> (rel_exn, (bytes \<times> rel_row) list) result" where
  "keyed_rows rel rows =
     res_bind (map_each (\<lambda>row. res_bind (row_key_bytes rel row) (\<lambda>k. Inr (k, row))) rows) (\<lambda>kvs. Inr (py_dict kvs))"

definition change_key :: "relation_definition \<Rightarrow> rel_row \<Rightarrow> (string \<times> rel_value) list" where
  "change_key rel row = map (\<lambda>c. (c, the (map_of (value_map row) c))) (sort (rd_key rel))"

definition row_change :: "relation_definition \<Rightarrow> rel_row option \<Rightarrow> rel_row option \<Rightarrow> diff_change option" where
  "row_change rel old new =
     (let change = (\<lambda>kind row before after. Some \<lparr>dc_relation_id = rd_id rel, dc_change = kind,
            dc_key = change_key rel row, dc_before = before, dc_after = after\<rparr>) in
      case (old, new) of
        (None, None) \<Rightarrow> None
      | (None, Some b) \<Rightarrow> change INSERT b None (Some (rr_values b))
      | (Some a, None) \<Rightarrow> change DELETE a (Some (rr_values a)) None
      | (Some a, Some b) \<Rightarrow>
          if rr_values a \<noteq> rr_values b then change UPDATE a (Some (rr_values a)) (Some (rr_values b)) else None)"

definition relation_changes :: "relation_definition \<Rightarrow> (bytes \<times> rel_row) list \<Rightarrow> (bytes \<times> rel_row) list \<Rightarrow>
    diff_change list" where
  "relation_changes rel old new =
     List.map_filter (\<lambda>k. row_change rel (map_of old k) (map_of new k)) (sort (remdups (map fst (old @ new))))"

definition diff_relation :: "rel_state \<Rightarrow> rel_state \<Rightarrow> relation_definition \<Rightarrow> (rel_exn, diff_change list) result" where
  "diff_relation before after rel =
     res_bind (dict_item before (rd_id rel) py_repr_str) (\<lambda>old_rows.
     res_bind (keyed_rows rel old_rows) (\<lambda>old.
     res_bind (dict_item after (rd_id rel) py_repr_str) (\<lambda>new_rows.
     res_bind (keyed_rows rel new_rows) (\<lambda>new.
     Inr (relation_changes rel old new)))))"

definition relational_diff :: "rel_resource \<Rightarrow> state_image \<Rightarrow> state_image \<Rightarrow> (rel_exn, rel_diff) result" where
  "relational_diff r before after =
     (let before_map = py_dict (si_relations before); after_map = py_dict (si_relations after);
        expected = set (map rd_id (mn_relations (rs_manifest r))) in
      res_bind (ensure_live r) (\<lambda>_.
      res_bind (raise_if (si_manifest_digest before \<noteq> rs_manifest_digest r \<or>
          si_manifest_digest after \<noteq> rs_manifest_digest r)
        (incompatible ''cross-Manifest comparison is not relational row diff'')) (\<lambda>_.
      res_bind (raise_if (set (map fst before_map) \<noteq> expected \<or> set (map fst after_map) \<noteq> expected)
        (incompatible ''diff states do not cover the full Manifest surface'')) (\<lambda>_.
      res_bind (map_each (diff_relation before_map after_map) (sorted_relations (rs_manifest r))) (\<lambda>changes.
      res_bind (image_digest before) (\<lambda>before_digest.
      res_bind (image_digest after) (\<lambda>after_digest.
      Inr \<lparr>df_manifest_digest = rs_manifest_digest r, df_before_digest = before_digest,
        df_after_digest = after_digest, df_changes = concat changes, df_projection_id = None\<rparr>)))))))"

section \<open>The misbehaving resources of the test kit\<close>

text \<open>\<open>TornProjectionResource\<close> overwrites a column of the first rows of two relations,
  \<open>FalseRestoreResource\<close> restores nothing, \<open>HiddenStateLeakResource\<close> adds the private columns.\<close>

definition tear_row :: "string \<Rightarrow> projected_row list \<Rightarrow> projected_row list" where
  "tear_row epoch rows = (case rows of [] \<Rightarrow> []
     | x # xs \<Rightarrow> x\<lparr>px_values := AList.update ''epoch'' (JObj [(''type'', JStr ''integer''), (''value'', JStr epoch)])
         (px_values x)\<rparr> # xs)"

definition torn_project :: "rel_resource \<Rightarrow> string \<Rightarrow> (rel_exn, (string \<times> projected_row list) list) result" where
  "torn_project r pid = res_bind (project r pid) (\<lambda>relations.
     Inr (case relations of
       (ra, xs) # (rb, ys) # rest \<Rightarrow>
         if xs \<noteq> [] \<and> ys \<noteq> [] then (ra, tear_row ''1'' xs) # (rb, tear_row ''2'' ys) # rest else relations
     | _ \<Rightarrow> relations))"

definition false_restore :: "rel_snapshot \<Rightarrow> relational_fidelity rel_action" where
  "false_restore sn =
     act_bind (act_read ensure_live) (\<lambda>_.
     act_bind (act_read (validate_snapshot_owner sn)) (\<lambda>_.
     act_return REL_STATE_EQUIVALENT))"

definition leaking_subject_view :: "rel_resource \<Rightarrow> (string \<times> string) list \<Rightarrow> (rel_exn, rel_state) result" where
  "leaking_subject_view r authorized =
     res_bind (ensure_live r) (\<lambda>_. view_relations r (authorized @ rs_private r))"

end
