(* ===== verification/AVP_RelationalFacts.thy ===== *)
theory AVP_RelationalFacts
  imports AVP_Relational "HOL-Library.Multiset"
begin

text \<open>
  What the relational resource keeps and promises: validated states are fixed points of validation
  (bound rows, sorted by distinct key bytes), every operation preserves them, a snapshot restores
  exactly, a difference carries one image into the other, the Subject's view is independent of
  private columns, and a final projection is final.
\<close>

section \<open>Dictionaries and sorting\<close>

lemma fold_update_distinct:
  "distinct (map fst kvs) \<Longrightarrow> set (map fst d) \<inter> set (map fst kvs) = {} \<Longrightarrow>
    fold (\<lambda>(k, v). AList.update k v) kvs d = d @ kvs"
proof (induction kvs arbitrary: d)
  case (Cons kv kvs)
  obtain k v where kv: "kv = (k, v)" by (cases kv)
  have "AList.update k v d = d @ [(k, v)]" using Cons.prems(2) unfolding kv by (induction d) auto
  moreover have "set (map fst (d @ [(k, v)])) \<inter> set (map fst kvs) = {}" using Cons.prems unfolding kv by auto
  ultimately show ?case using Cons.IH [of "d @ [(k, v)]"] Cons.prems unfolding kv by simp
qed simp

lemma py_dict_id [simp]: "distinct (map fst kvs) \<Longrightarrow> py_dict kvs = kvs"
  by (simp add: py_dict_def fold_update_distinct)

lemma distinct_fold_update:
  "distinct (map fst d) \<Longrightarrow> distinct (map fst (fold (\<lambda>(k, v). AList.update k v) kvs d))"
  by (induction kvs arbitrary: d) (auto simp: distinct_update)

lemma distinct_py_dict [simp]: "distinct (map fst (py_dict kvs))"
  by (simp add: py_dict_def distinct_fold_update)

lemma map_of_fold_update:
  "map_of (fold (\<lambda>(k, v). AList.update k v) kvs d) = map_of d ++ map_of (rev kvs)"
  by (induction kvs arbitrary: d) (auto simp: update_conv' map_add_def fun_eq_iff split: option.splits)

lemma map_of_py_dict: "map_of (py_dict kvs) = map_of (rev kvs)"
  by (simp add: py_dict_def map_of_fold_update)

lemma py_dict_nth_key: "fst ` set (py_dict kvs) = fst ` set kvs"
  by (metis dom_map_of_conv_image_fst map_of_py_dict set_rev)

lemma distinct_sort_fst: "distinct (map fst kvs) \<Longrightarrow> distinct (map fst (sort_key fst kvs))"
  by (metis mset_eq_imp_distinct_iff mset_map mset_sort)

lemma map_of_sort_key: "distinct (map fst kvs) \<Longrightarrow> map_of (sort_key fst kvs) = map_of kvs"
  by (rule ext) (metis distinct_sort_fst map_of_eq_Some_iff not_Some_eq set_sort)

section \<open>Validated relations are fixed points of validation\<close>

lemma distinct_value_map [simp]: "distinct (map fst (value_map row))"
  by (simp add: value_map_def)

lemma value_map_bound [simp]:
  "distinct (map fst values) \<Longrightarrow> value_map (row_from_mapping values key) = sort_key fst values"
  by (simp add: value_map_def row_from_mapping_def distinct_sort_fst)

lemma bind_row_fixed:
  assumes "bind_row rel row = Inr (k, bound)"
  shows "bind_row rel bound = Inr (k, bound)"
proof -
  let ?vs = "value_map row"
  from assms obtain doc where row: "set (map fst ?vs) = set (column_ids rel)"
    "check_each (\<lambda>c. res_bind (column_value ?vs (cd_id c)) (validate_value c)) (rd_columns rel) = Inr ()"
    "bound = row_from_mapping ?vs (rd_key rel)" "key_document bound = Inr doc" "k = canonical_bytes doc"
    by (auto simp: bind_row_def Let_def)
  have vals: "value_map bound = sort_key fst ?vs" by (simp add: row(3))
  have cols: "column_value (value_map bound) c = column_value ?vs c" for c
    by (simp add: vals column_value_def dict_item_def map_of_sort_key)
  have again: "row_from_mapping (value_map bound) (rd_key rel) = bound"
    by (simp add: vals) (simp add: row_from_mapping_def row(3) sort_key_id_if_sorted)
  from row(1) have "set (map fst (value_map bound)) = set (column_ids rel)" by (simp add: vals)
  with row(2,4,5) again show ?thesis by (simp add: bind_row_def Let_def cols)
qed

definition relation_rows_ok :: "relation_definition \<Rightarrow> rel_row list \<Rightarrow> bool" where
  "relation_rows_ok rel rows \<longleftrightarrow> (\<exists>ks. list_all2 (\<lambda>k row. bind_row rel row = Inr (k, row)) ks rows \<and> sorted_wrt (<) ks)"

lemma validate_rows_ok:
  assumes "validate_rows rel rows acc = Inr out" "distinct (map fst acc)"
    "\<forall>e \<in> set acc. bind_row rel (snd e) = Inr e"
  shows "distinct (map fst out) \<and> (\<forall>e \<in> set out. bind_row rel (snd e) = Inr e)"
  using assms
proof (induction rel rows acc rule: validate_rows.induct)
  case (2 rel row rows acc)
  from 2(2) obtain e where e: "bind_row rel row = Inr e" "fst e \<notin> set (map fst acc)"
    "validate_rows rel rows (acc @ [e]) = Inr out" by (auto split: if_splits)
  from e(1) have "bind_row rel (snd e) = Inr e" by (cases e) (auto dest: bind_row_fixed)
  with 2(1) [OF e(2)] e 2(3,4) show ?case by auto
qed simp

lemma sorted_distinct_fst: "sorted (map fst (kvs :: (('k :: linorder) \<times> 'v) list)) \<Longrightarrow> distinct (map fst kvs) \<Longrightarrow>
    sorted_wrt (<) (map fst kvs)"
  using strict_sorted_iff by blast

lemma validate_relation_ok: "validate_relation rel rows = Inr out \<Longrightarrow> relation_rows_ok rel out"
proof -
  assume "validate_relation rel rows = Inr out"
  then obtain es where es: "validate_rows rel rows [] = Inr es" "out = map snd (sort_key fst es)"
    by (auto simp: validate_relation_def)
  let ?es = "sort_key fst es"
  from validate_rows_ok [OF es(1)] have ok: "distinct (map fst es)" "\<forall>e \<in> set ?es. bind_row rel (snd e) = Inr e" by auto
  have "list_all2 (\<lambda>k row. bind_row rel row = Inr (k, row)) (map fst ?es) (map snd ?es)"
    using ok(2) by (simp add: list.rel_map list_all2_same)
  moreover have "sorted_wrt (<) (map fst ?es)" using ok(1) by (intro sorted_distinct_fst distinct_sort_fst) auto
  ultimately show ?thesis unfolding relation_rows_ok_def es(2) by blast
qed

lemma validate_rows_fixed:
  assumes "list_all2 (\<lambda>k row. bind_row rel row = Inr (k, row)) ks rows" "distinct (map fst acc @ ks)"
  shows "validate_rows rel rows acc = Inr (acc @ zip ks rows)"
  using assms by (induction ks rows arbitrary: acc rule: list_all2_induct) auto

lemma validate_relation_fixed: "relation_rows_ok rel rows \<Longrightarrow> validate_relation rel rows = Inr rows"
proof -
  assume "relation_rows_ok rel rows"
  then obtain ks where ks: "list_all2 (\<lambda>k row. bind_row rel row = Inr (k, row)) ks rows" "sorted_wrt (<) ks"
    by (auto simp: relation_rows_ok_def)
  then have "length ks = length rows" "sorted ks" "distinct ks"
    by (auto dest: list_all2_lengthD simp: strict_sorted_iff)
  moreover from this have "sort_key fst (zip ks rows) = zip ks rows" by (intro sort_key_id_if_sorted) simp
  ultimately show ?thesis using validate_rows_fixed [OF ks(1), of "[]"] by (simp add: validate_relation_def)
qed

section \<open>Validated states\<close>

definition rel_ids :: "rel_manifest \<Rightarrow> string list" where
  "rel_ids m = map rd_id (mn_relations m)"

definition rel_state_ok :: "rel_manifest \<Rightarrow> rel_state \<Rightarrow> bool" where
  "rel_state_ok m state \<longleftrightarrow> map fst state = rel_ids m \<and>
     (\<forall>rel \<in> set (mn_relations m). \<exists>rows. map_of state (rd_id rel) = Some rows \<and> relation_rows_ok rel rows)"

lemma rel_state_okD:
  assumes "rel_state_ok m s" "map_of s rid = Some rows"
  shows "\<exists>rel \<in> set (mn_relations m). rd_id rel = rid \<and> relation_rows_ok rel rows"
proof -
  from assms(2) have "rid \<in> fst ` set s" by (force dest: map_of_SomeD)
  also have "fst ` set s = rd_id ` set (mn_relations m)" using assms(1) by (metis image_set rel_ids_def rel_state_ok_def)
  finally obtain rel where rel: "rel \<in> set (mn_relations m)" "rd_id rel = rid" by auto
  with assms have "relation_rows_ok rel rows" by (force simp: rel_state_ok_def)
  with rel show ?thesis by blast
qed

lemma integrity_distinct: "validate_integrity m = Inr u \<Longrightarrow> distinct (rel_ids m)"
  by (auto simp: validate_integrity_def rel_ids_def Let_def)

lemma map_each_pairs:
  assumes "map_each (\<lambda>x. res_bind (f x) (\<lambda>y. Inr (g x, y))) xs = Inr out" "distinct (map g xs)"
  shows "map fst out = map g xs \<and> (\<forall>x \<in> set xs. \<exists>y. f x = Inr y \<and> map_of out (g x) = Some y)"
  using assms
proof (induction xs arbitrary: out)
  case (Cons x xs)
  from Cons.prems(1) obtain y ys where y: "f x = Inr y" "out = (g x, y) # ys"
    "map_each (\<lambda>x. res_bind (f x) (\<lambda>y. Inr (g x, y))) xs = Inr ys"
    by (auto split: sum.splits)
  from Cons.prems(2) have "distinct (map g xs)" by simp
  from Cons.IH [OF y(3) this] have IH: "map fst ys = map g xs"
    "\<forall>x \<in> set xs. \<exists>y. f x = Inr y \<and> map_of ys (g x) = Some y" by blast+
  from Cons.prems(2) have "g z \<noteq> g x" if "z \<in> set xs" for z using that by (metis distinct.simps(2) image_eqI image_set list.simps(9))
  with IH have "\<forall>z \<in> set xs. \<exists>v. f z = Inr v \<and> map_of out (g z) = Some v" unfolding y(2) by (metis map_of_Cons_code(2))
  with y(1,2) IH(1) show ?case by simp
qed simp

lemma map_each_pairs_exact:
  assumes "map fst out = map g xs" "distinct (map g xs)" "\<And>x. x \<in> set xs \<Longrightarrow> f x = Inr (the (map_of out (g x)))"
  shows "map_each (\<lambda>x. res_bind (f x) (\<lambda>y. Inr (g x, y))) xs = Inr out"
proof -
  have "map_each (\<lambda>x. res_bind (f x) (\<lambda>y. Inr (g x, y))) xs = Inr (map (\<lambda>x. (g x, the (map_of out (g x)))) xs)"
    by (rule map_each_cong_ok) (simp add: assms(3) result_simps)
  also have "map (\<lambda>x. (g x, the (map_of out (g x)))) xs = map (\<lambda>k. (k, the (map_of out k))) (map fst out)"
    by (simp add: assms(1))
  also have "\<dots> = out"
  proof -
    have "(fst e, the (map_of out (fst e))) = e" if "e \<in> set out" for e
      using that assms(1,2) by (metis map_of_is_SomeI option.sel prod.collapse)
    then show ?thesis by (simp add: map_idI)
  qed
  finally show ?thesis .
qed

lemma validate_state_as_pairs:
  "validate_state m s = Inr out \<longleftrightarrow> set (map fst s) = set (rel_ids m) \<and>
     map_each (\<lambda>rel. res_bind (res_bind (dict_item s (rd_id rel) py_repr_str) (validate_relation rel))
       (\<lambda>y. Inr (rd_id rel, y))) (mn_relations m) = Inr out"
proof -
  have assoc: "res_bind (res_bind x f) g = res_bind x (\<lambda>a. res_bind (f a) g)"
    for x :: "(rel_exn, 'a) result" and f :: "'a \<Rightarrow> (rel_exn, 'b) result" and g :: "'b \<Rightarrow> (rel_exn, 'c) result"
    by (auto simp: result_simps split: sum.splits)
  show ?thesis by (simp add: validate_state_def rel_ids_def assoc)
qed

lemma validate_state_ok:
  assumes "validate_state m s = Inr out" "distinct (rel_ids m)"
  shows "rel_state_ok m out"
  using map_each_pairs [OF conjunct2 [OF assms(1) [unfolded validate_state_as_pairs]]] assms(2)
  by (fastforce simp: rel_state_ok_def rel_ids_def dest: validate_relation_ok)

lemma validate_state_fixed:
  assumes ok: "rel_state_ok m s" and ids: "distinct (rel_ids m)" and same: "map_of s' = map_of s"
  shows "validate_state m s' = Inr s"
proof -
  have keys: "map fst s = rel_ids m" using ok by (simp add: rel_state_ok_def)
  have "set (map fst s') = set (map fst s)" using same by (metis dom_map_of_conv_image_fst image_set)
  then have "set (map fst s') = set (rel_ids m)" by (simp only: keys)
  moreover have "res_bind (dict_item s' (rd_id rel) py_repr_str) (validate_relation rel) = Inr (the (map_of s (rd_id rel)))"
    if "rel \<in> set (mn_relations m)" for rel
    using ok that same validate_relation_fixed by (force simp: rel_state_ok_def dict_item_def result_simps)
  ultimately show ?thesis unfolding validate_state_as_pairs
    using keys ids by (intro conjI map_each_pairs_exact) (simp_all add: rel_ids_def)
qed

lemma rel_state_ok_update:
  assumes ok: "rel_state_ok m s" and ids: "distinct (rel_ids m)"
    and rel: "rel \<in> set (mn_relations m)" and rows: "relation_rows_ok rel rows"
  shows "rel_state_ok m (AList.update (rd_id rel) rows s)"
proof -
  have "rd_id rel \<in> set (map fst s)" using ok rel by (simp add: rel_state_ok_def rel_ids_def)
  then have "map fst (AList.update (rd_id rel) rows s) = map fst s" by (induction s) auto
  moreover have "r = rel" if "r \<in> set (mn_relations m)" "rd_id r = rd_id rel" for r
    using ids that rel by (auto simp: rel_ids_def distinct_map dest: inj_onD)
  ultimately show ?thesis using ok rows by (auto simp: rel_state_ok_def update_conv')
qed

section \<open>State images of validated states\<close>

lemma sorted_relations_set [simp]: "set (sorted_relations m) = set (mn_relations m)"
  by (simp add: sorted_relations_def)

lemma distinct_sorted_ids: "distinct (rel_ids m) \<Longrightarrow> distinct (map rd_id (sorted_relations m))"
  by (metis mset_eq_imp_distinct_iff mset_map mset_sort rel_ids_def sorted_relations_def)

lemma state_image_total:
  assumes "rel_state_ok m s" "distinct (rel_ids m)"
  obtains i where "state_image_for m d s = Inr i" "si_manifest_digest i = d"
    "map fst (si_relations i) = map rd_id (sorted_relations m)" "map_of (si_relations i) = map_of s"
proof -
  let ?get = "\<lambda>rel. dict_item s (rd_id rel) py_repr_str"
  have found: "\<forall>rel \<in> set (mn_relations m). \<exists>rows. map_of s (rd_id rel) = Some rows"
    using assms(1) by (auto simp: rel_state_ok_def)
  then have "map_each (\<lambda>rel. res_bind (?get rel) (\<lambda>y. Inr (rd_id rel, y))) (sorted_relations m) =
      Inr (map (\<lambda>rel. (rd_id rel, the (map_of s (rd_id rel)))) (sorted_relations m))"
    by (intro map_each_cong_ok) (auto simp: dict_item_def result_simps)
  moreover from this obtain out where
    out: "map_each (\<lambda>rel. res_bind (?get rel) (\<lambda>y. Inr (rd_id rel, y))) (sorted_relations m) = Inr out" by blast
  from map_each_pairs [OF out distinct_sorted_ids [OF assms(2)]]
  have keys: "map fst out = map rd_id (sorted_relations m)"
    and vals: "\<forall>rel \<in> set (mn_relations m). map_of out (rd_id rel) = map_of s (rd_id rel)"
    by (auto simp: dict_item_def split: option.splits)
  have "map_of out = map_of s"
  proof
    fix k
    show "map_of out k = map_of s k"
    proof (cases "k \<in> rd_id ` set (mn_relations m)")
      case True then show ?thesis using vals by auto
    next
      case False
      moreover have "set (map fst out) = rd_id ` set (mn_relations m)" unfolding keys by simp
      moreover have "set (map fst s) = rd_id ` set (mn_relations m)" using assms(1) by (simp add: rel_state_ok_def rel_ids_def)
      ultimately show ?thesis by (metis map_of_eq_None_iff image_set)
    qed
  qed
  with keys out show ?thesis by (intro that [of "\<lparr>si_manifest_digest = d, si_relations = out\<rparr>"]) (simp_all add: state_image_for_def)
qed

lemma row_document_total: "bind_row rel row = Inr (k, row) \<Longrightarrow> \<exists>d. row_document row = Inr d"
  by (auto simp: bind_row_def Let_def row_document_def)

lemma map_each_total: "(\<And>x. x \<in> set xs \<Longrightarrow> \<exists>y. f x = Inr y) \<Longrightarrow> \<exists>ys. map_each f xs = Inr ys"
  by (induction xs) (auto, force)

lemma rows_documents_total: "relation_rows_ok rel rows \<Longrightarrow> \<exists>ds. map_each row_document rows = Inr ds"
  by (rule map_each_total) (auto simp: relation_rows_ok_def list_all2_conv_all_nth in_set_conv_nth dest!: row_document_total)

lemma image_digest_total:
  assumes "rel_state_ok m s" "distinct (rel_ids m)" "map_of (si_relations i) = map_of s" "distinct (map fst (si_relations i))"
  shows "\<exists>x. image_digest i = Inr x"
proof -
  have "\<exists>y. (\<lambda>(rid, rows). res_bind (map_each row_document rows) (\<lambda>docs.
       Inr (JObj [(''relationId'', JStr rid), (''rows'', JList docs)]) :: (rel_exn, json) result)) e = Inr y"
    if "e \<in> set (si_relations i)" for e
  proof -
    obtain rid rows where e: "e = (rid, rows)" by (cases e)
    with that assms(3,4) have s: "map_of s rid = Some rows" by (metis map_of_is_SomeI)
    with assms(1) obtain rel where "relation_rows_ok rel rows" by (metis rel_state_okD)
    from rows_documents_total [OF this] show ?thesis by (auto simp: e)
  qed
  from map_each_total [OF this] show ?thesis by (auto simp: image_digest_def image_document_def)
qed

section \<open>What every operation keeps\<close>

definition pending_ok :: "rel_manifest \<Rightarrow> pending_mutation \<Rightarrow> bool" where
  "pending_ok m p \<longleftrightarrow> (\<exists>rel \<in> set (mn_relations m). rd_id rel = pm_relation_id p \<and> relation_rows_ok rel (pm_replacement p))"

definition rel_resource_ok :: "rel_resource \<Rightarrow> bool" where
  "rel_resource_ok r \<longleftrightarrow> distinct (rel_ids (rs_manifest r)) \<and> rel_state_ok (rs_manifest r) (rs_state r) \<and>
     rel_state_ok (rs_manifest r) (rs_baseline r) \<and> (\<forall>p \<in> set (rs_pending r). pending_ok (rs_manifest r) p) \<and>
     (\<exists>i. state_image_for (rs_manifest r) (rs_manifest_digest r) (rs_baseline r) = Inr i \<and>
        image_digest i = Inr (rs_baseline_digest r))"

definition rel_fixed :: "rel_resource \<Rightarrow> rel_manifest \<times> string \<times> string \<times> string \<times> string \<times> rel_state \<times> string \<times>
    (string \<times> string) list" where
  "rel_fixed r = (rs_manifest r, rs_manifest_digest r, rs_environment_id r, rs_resource_id r, rs_instance_id r,
     rs_baseline r, rs_baseline_digest r, rs_private r)"

definition rel_evolves :: "rel_resource \<Rightarrow> rel_resource \<Rightarrow> bool" where
  "rel_evolves r t \<longleftrightarrow> (rel_resource_ok r \<longrightarrow> rel_resource_ok t) \<and> rel_fixed t = rel_fixed r \<and>
     (rs_quiescing r \<longrightarrow> rs_quiescing t) \<and> (rs_released r \<longrightarrow> rs_released t) \<and>
     length (rs_pending r) \<le> length (rs_pending t) \<and>
     (\<forall>i < length (rs_pending r). pm_settled (rs_pending r ! i) \<longrightarrow> rs_pending t ! i = rs_pending r ! i)"

interpretation rel_evolution: evolution rel_evolves
  by unfold_locales (auto simp: rel_evolves_def)

lemma make_resource_ok:
  assumes "make_rel_resource a = Inr r"
  shows "rel_resource_ok r"
proof -
  from assms have "validate_integrity (ra_manifest a) = Inr ()" by (auto simp: make_rel_resource_def)
  then have d: "distinct (rel_ids (ra_manifest a))" by (rule integrity_distinct)
  with assms show ?thesis by (auto simp: make_rel_resource_def rel_resource_ok_def dest: validate_state_ok)
qed

lemma begin_evolves: "evolves rel_evolves (begin_subject_mutation rid replacement)"
proof (rule evolvesI)
  fix r res t assume run: "begin_subject_mutation rid replacement r = (res, t)"
  show "rel_evolves r t"
  proof (cases "t = r")
    case False
    with run obtain validated rows where
      v: "validate_state (rs_manifest r) (AList.update rid replacement (rs_state r)) = Inr validated"
        "map_of validated rid = Some rows"
      and t: "t = r\<lparr>rs_pending := rs_pending r @
        [\<lparr>pm_relation_id = rid, pm_replacement = rows, pm_settled = False, pm_committed = False\<rparr>]\<rparr>"
      by (auto simp: begin_subject_mutation_def action_simps dict_item_def split: sum.splits option.splits)
    have "pending_ok (rs_manifest r) \<lparr>pm_relation_id = rid, pm_replacement = rows, pm_settled = False, pm_committed = False\<rparr>"
      if ok: "rel_resource_ok r"
    proof -
      from ok have "rel_state_ok (rs_manifest r) validated" using validate_state_ok [OF v(1)] by (simp add: rel_resource_ok_def)
      from rel_state_okD [OF this v(2)] show ?thesis by (auto simp: pending_ok_def)
    qed
    then show ?thesis by (auto simp: t rel_evolves_def rel_resource_ok_def rel_fixed_def nth_append)
  qed (simp add: rel_evolution.refl)
qed

lemma settle_evolves: "evolves rel_evolves (settle_subject_mutation index commit)"
proof (rule evolvesI)
  fix r res t assume run: "settle_subject_mutation index commit r = (res, t)"
  let ?p = "rs_pending r ! index"
  show "rel_evolves r t"
  proof (cases "t = r")
    case False
    with run have t: "t = r\<lparr>rs_state := (if commit then AList.update (pm_relation_id ?p) (pm_replacement ?p) (rs_state r) else rs_state r),
        rs_pending := (rs_pending r)[index := ?p\<lparr>pm_settled := True, pm_committed := commit \<or> pm_committed ?p\<rparr>]\<rparr>"
      and i: "index < length (rs_pending r)" "\<not> pm_settled ?p"
      by (auto simp: settle_subject_mutation_def action_simps Let_def split: sum.splits if_splits)
    have "rel_resource_ok t" if ok: "rel_resource_ok r"
    proof -
      from ok i(1) have p: "pending_ok (rs_manifest r) ?p" by (simp add: rel_resource_ok_def)
      then have "pending_ok (rs_manifest r) (?p\<lparr>pm_settled := True, pm_committed := commit \<or> pm_committed ?p\<rparr>)"
        by (simp add: pending_ok_def)
      moreover from p ok have "rel_state_ok (rs_manifest r) (AList.update (pm_relation_id ?p) (pm_replacement ?p) (rs_state r))"
        by (auto simp: pending_ok_def rel_resource_ok_def dest: rel_state_ok_update)
      ultimately show ?thesis using ok by (auto simp: t rel_resource_ok_def dest!: set_update_subset_insert [THEN subsetD])
    qed
    then show ?thesis using i by (auto simp: t rel_evolves_def rel_fixed_def nth_list_update)
  qed (simp add: rel_evolution.refl)
qed

lemma quiescing_evolves: "evolves rel_evolves enter_quiescing"
  unfolding enter_quiescing_def
  by (intro rel_evolution.rules evolves_modify) (auto simp: rel_evolves_def rel_resource_ok_def rel_fixed_def)

lemma snapshot_evolves: "evolves rel_evolves rel_snapshot"
  unfolding rel_snapshot_def
  by (intro rel_evolution.rules evolves_modify) (auto simp: rel_evolves_def rel_resource_ok_def rel_fixed_def)

lemma reset_evolves: "evolves rel_evolves rel_reset"
  unfolding rel_reset_def
  by (intro rel_evolution.rules evolves_modify) (auto simp: rel_evolves_def rel_resource_ok_def rel_fixed_def)

lemma restore_evolves: "evolves rel_evolves (rel_restore sn)"
proof (rule evolvesI)
  fix r res t assume run: "rel_restore sn r = (res, t)"
  show "rel_evolves r t"
  proof (cases "t = r")
    case False
    with run obtain candidate where
      "validate_state (rs_manifest r) (py_dict (si_relations (rn_state sn))) = Inr candidate" "t = r\<lparr>rs_state := candidate\<rparr>"
      by (auto simp: rel_restore_def action_simps split: sum.splits)
    then show ?thesis by (auto simp: rel_evolves_def rel_resource_ok_def rel_fixed_def dest: validate_state_ok)
  qed (simp add: rel_evolution.refl)
qed

lemma switches_evolve: "evolves rel_evolves (set_logical_binding_valid v)" "evolves rel_evolves (set_execution_input_identity s)"
  "evolves rel_evolves rel_release"
  unfolding set_logical_binding_valid_def set_execution_input_identity_def rel_release_def
  by (intro rel_evolution.rules evolves_modify; auto simp: rel_evolves_def rel_resource_ok_def rel_fixed_def)+

section \<open>Histories of a resource\<close>

datatype rel_op = RelBegin string "rel_row list" | RelSettle nat bool | RelQuiesce | RelSnapshot | RelReset
  | RelRestore rel_snapshot | RelBinding bool | RelIdentity string | RelRelease

fun rel_run :: "rel_op \<Rightarrow> rel_resource \<Rightarrow> rel_resource" where
  "rel_run (RelBegin rid rows) r = snd (begin_subject_mutation rid rows r)"
| "rel_run (RelSettle i commit) r = snd (settle_subject_mutation i commit r)"
| "rel_run RelQuiesce r = snd (enter_quiescing r)"
| "rel_run RelSnapshot r = snd (rel_snapshot r)"
| "rel_run RelReset r = snd (rel_reset r)"
| "rel_run (RelRestore sn) r = snd (rel_restore sn r)"
| "rel_run (RelBinding v) r = snd (set_logical_binding_valid v r)"
| "rel_run (RelIdentity s) r = snd (set_execution_input_identity s r)"
| "rel_run RelRelease r = snd (rel_release r)"

definition rel_runs :: "rel_op list \<Rightarrow> rel_resource \<Rightarrow> rel_resource" where
  "rel_runs ops r = fold rel_run ops r"

lemmas rel_ops_evolve = begin_evolves settle_evolves quiescing_evolves snapshot_evolves reset_evolves restore_evolves
  switches_evolve

lemma rel_run_evolves: "rel_evolves r (rel_run op r)"
  by (cases op) (simp_all add: rel_ops_evolve [THEN evolves_at])

lemma rel_runs_evolves: "rel_evolves r (rel_runs ops r)"
  unfolding rel_runs_def by (induction ops arbitrary: r) (auto intro: rel_evolution.refl rel_evolution.trans rel_run_evolves)

lemma rel_reachable_ok:
  assumes "make_rel_resource a = Inr r"
  shows "rel_resource_ok (rel_runs ops r)" "rs_manifest (rel_runs ops r) = ra_manifest a"
proof -
  from rel_runs_evolves [of r ops] make_resource_ok [OF assms] show "rel_resource_ok (rel_runs ops r)"
    by (simp add: rel_evolves_def)
  from assms have "rs_manifest r = ra_manifest a" by (auto simp: make_rel_resource_def)
  with rel_runs_evolves [of r ops] show "rs_manifest (rel_runs ops r) = ra_manifest a"
    by (simp add: rel_evolves_def rel_fixed_def)
qed

lemma bound_row_values:
  assumes "bind_row rel row = Inr (k, row)"
  shows "value_map row = rr_values row" "set (map fst (rr_values row)) = set (column_ids rel)"
    "\<forall>c \<in> set (rd_columns rel). \<exists>v. map_of (rr_values row) (cd_id c) = Some v \<and> validate_value c v = Inr ()"
    "\<exists>d. key_document row = Inr d \<and> k = canonical_bytes d"
proof -
  from assms have row: "row = row_from_mapping (value_map row) (rd_key rel)" by (auto simp: bind_row_def Let_def)
  then have "rr_values row = sort_key fst (value_map row)" by (metis row_from_mapping_def rel_row.simps(1))
  then have "distinct (map fst (rr_values row))" by (simp add: distinct_sort_fst)
  then show vm: "value_map row = rr_values row" by (simp add: value_map_def)
  show "set (map fst (rr_values row)) = set (column_ids rel)"
    "\<forall>c \<in> set (rd_columns rel). \<exists>v. map_of (rr_values row) (cd_id c) = Some v \<and> validate_value c v = Inr ()"
    using assms by (auto simp: bind_row_def Let_def vm column_value_def dict_item_def split: option.splits)
  show "\<exists>d. key_document row = Inr d \<and> k = canonical_bytes d"
    using assms row by (auto simp: bind_row_def Let_def)
qed

section \<open>Settled and final\<close>

definition subject_ops :: "rel_op \<Rightarrow> bool" where
  "subject_ops op \<longleftrightarrow> (case op of RelBegin _ _ \<Rightarrow> True | RelSettle _ _ \<Rightarrow> True | RelQuiesce \<Rightarrow> True | RelSnapshot \<Rightarrow> True | _ \<Rightarrow> False)"

definition finally_settled :: "rel_resource \<Rightarrow> bool" where
  "finally_settled r \<longleftrightarrow> rs_quiescing r \<and> settlement_complete r"

text \<open>What \<open>project\<close> and \<open>ensure_live\<close> read.\<close>

definition rel_visible :: "rel_resource \<Rightarrow> rel_manifest \<times> rel_state \<times> bool \<times> bool \<times> string \<times> string" where
  "rel_visible r = (rs_manifest r, rs_state r, rs_released r, rs_binding_valid r, rs_execution_identity r, rs_bound_identity r)"

lemma project_visible: "rel_visible t = rel_visible r \<Longrightarrow> project t pid = project r pid"
  by (simp add: rel_visible_def project_def ensure_live_def project_relation_def [abs_def])

lemma settled_stays:
  assumes "finally_settled r" "subject_ops op"
  shows "finally_settled (rel_run op r) \<and> rel_visible (rel_run op r) = rel_visible r"
proof (cases op)
  case (RelBegin rid rows)
  with assms show ?thesis
    by (auto simp: finally_settled_def begin_subject_mutation_def action_simps raise_if_def split: sum.splits)
next
  case (RelSettle i commit)
  have "pm_settled (rs_pending r ! i)" if "i < length (rs_pending r)"
    using assms(1) that by (simp add: finally_settled_def settlement_complete_def list_all_length)
  with assms RelSettle show ?thesis
    by (auto simp: finally_settled_def settle_subject_mutation_def action_simps Let_def split: sum.splits if_splits)
next
  case RelQuiesce
  with assms show ?thesis
    by (auto simp: finally_settled_def settlement_complete_def rel_visible_def enter_quiescing_def action_simps split: sum.splits)
next
  case RelSnapshot
  with assms show ?thesis
    by (auto simp: finally_settled_def settlement_complete_def rel_visible_def rel_snapshot_def action_simps split: sum.splits)
qed (use assms in \<open>simp_all add: subject_ops_def\<close>)

lemma settled_stays_run:
  "finally_settled r \<Longrightarrow> list_all subject_ops ops \<Longrightarrow>
    finally_settled (rel_runs ops r) \<and> rel_visible (rel_runs ops r) = rel_visible r"
proof (induction ops rule: rev_induct)
  case (snoc op ops)
  then show ?case using settled_stays [of "rel_runs ops r" op] by (simp add: rel_runs_def)
qed (simp add: rel_runs_def)

section \<open>Differences\<close>

text \<open>The reference reading of a relation of an image: from key bytes to the values of the row.\<close>

definition rows_by_key :: "relation_definition \<Rightarrow> rel_state \<Rightarrow> bytes \<Rightarrow> (string \<times> rel_value) list option" where
  "rows_by_key rel s k =
     (case dict_item s (rd_id rel) py_repr_str of
        Inl _ \<Rightarrow> None
      | Inr rows \<Rightarrow> (case keyed_rows rel rows of Inl _ \<Rightarrow> None | Inr kvs \<Rightarrow> map_option rr_values (map_of kvs k)))"

definition change_bytes :: "diff_change \<Rightarrow> bytes" where
  "change_bytes c = canonical_bytes (JObj (map (map_prod id rel_value_document) (dc_key c)))"

text \<open>Applying changes to such a reading.\<close>

definition apply_changes :: "diff_change list \<Rightarrow> (bytes \<Rightarrow> (string \<times> rel_value) list option) \<Rightarrow>
    bytes \<Rightarrow> (string \<times> rel_value) list option" where
  "apply_changes cs = fold (\<lambda>c m. m(change_bytes c := dc_after c)) cs"

lemma map_each_pick:
  "map_each (\<lambda>c. case f c of Inl e \<Rightarrow> Inl e | Inr v \<Rightarrow> Inr (c, g v)) cs = Inr kvs \<Longrightarrow>
    kvs = map (\<lambda>c. (c, g (projr (f c)))) cs \<and> (\<forall>c \<in> set cs. \<exists>v. f c = Inr v)"
  by (induction cs arbitrary: kvs) (auto split: sum.splits)

lemma row_key_bytes_change:
  assumes "row_key_bytes rel row = Inr k"
  shows "canonical_bytes (JObj (map (map_prod id rel_value_document) (change_key rel row))) = k"
proof -
  let ?f = "\<lambda>c. res_bind (column_value (value_map row) c) (\<lambda>v.
       if rv_value v = RawNone then Inl (incompatible ''logical row key cannot contain null'') else Inr (c, rel_value_document v))"
  from assms obtain kvs where kvs: "map_each ?f (sort (rd_key rel)) = Inr kvs" "k = canonical_bytes (JObj kvs)"
    by (auto simp: row_key_bytes_def)
  have pick: "map_each ?f cs = Inr kvs \<Longrightarrow> kvs = map (\<lambda>c. (c, rel_value_document (the (map_of (value_map row) c)))) cs" for cs kvs
    by (induction cs arbitrary: kvs) (auto simp: column_value_def dict_item_def split: sum.splits option.splits if_splits)
  from pick [OF kvs(1)] kvs(2) show ?thesis by (simp add: change_key_def comp_def)
qed

lemma keyed_rows_keys:
  assumes "keyed_rows rel rows = Inr kvs" "map_of kvs k = Some row"
  shows "row_key_bytes rel row = Inr k"
proof -
  from assms(1) obtain es where es: "map_each (\<lambda>row. res_bind (row_key_bytes rel row) (\<lambda>k. Inr (k, row))) rows = Inr es"
    "kvs = py_dict es" by (auto simp: keyed_rows_def)
  have "\<forall>e \<in> set es. row_key_bytes rel (snd e) = Inr (fst e)"
    using es(1) by (induction rows arbitrary: es) (auto split: sum.splits)
  moreover from assms(2) es(2) have "(k, row) \<in> set es" by (auto simp: map_of_py_dict dest: map_of_SomeD)
  ultimately show ?thesis by fastforce
qed

lemma row_change_after:
  assumes "row_change rel old new = Some c" "\<And>r. old = Some r \<Longrightarrow> row_key_bytes rel r = Inr k"
    "\<And>r. new = Some r \<Longrightarrow> row_key_bytes rel r = Inr k"
  shows "change_bytes c = k \<and> dc_after c = map_option rr_values new \<and> dc_before c = map_option rr_values old \<and>
    dc_relation_id c = rd_id rel"
  using assms
  by (auto simp: row_change_def Let_def change_bytes_def row_key_bytes_change split: option.splits if_splits)

lemma row_change_None: "row_change rel old new = None \<longleftrightarrow> map_option rr_values old = map_option rr_values new"
  by (auto simp: row_change_def Let_def split: option.splits)

lemma map_filter_Cons: "List.map_filter f (x # xs) = (case f x of None \<Rightarrow> [] | Some y \<Rightarrow> [y]) @ List.map_filter f xs"
  by (simp add: map_filter_simps(1) split: option.splits)

lemma map_filter_Nil: "List.map_filter f [] = []"
  by (simp add: map_filter_simps(2))

lemma map_filter_empty: "List.map_filter f ks = [] \<longleftrightarrow> (\<forall>k \<in> set ks. f k = None)"
  by (induction ks) (auto simp: map_filter_Cons map_filter_Nil split: option.splits)

lemma relation_changes_apply:
  assumes "\<And>k r. map_of old k = Some r \<Longrightarrow> row_key_bytes rel r = Inr k"
    "\<And>k r. map_of new k = Some r \<Longrightarrow> row_key_bytes rel r = Inr k"
  shows "apply_changes (relation_changes rel old new) (\<lambda>k. map_option rr_values (map_of old k)) =
     (\<lambda>k. map_option rr_values (map_of new k))"
proof -
  let ?f = "\<lambda>k. row_change rel (map_of old k) (map_of new k)"
  let ?new = "\<lambda>k. map_option rr_values (map_of new k)" and ?old = "\<lambda>k. map_option rr_values (map_of old k)"
  have run: "apply_changes (List.map_filter ?f ks) m = (\<lambda>k. if k \<in> set ks \<and> ?f k \<noteq> None then ?new k else m k)" for ks m
  proof (induction ks arbitrary: m)
    case Nil show ?case by (simp add: map_filter_Nil apply_changes_def)
  next
    case (Cons k ks)
    show ?case
    proof (cases "?f k")
      case None
      with Cons show ?thesis by (auto simp: map_filter_Cons fun_eq_iff)
    next
      case (Some c)
      then have "change_bytes c = k" "dc_after c = ?new k" using row_change_after [OF Some] assms by blast+
      moreover have "apply_changes (c # cs) m = apply_changes cs (m(change_bytes c := dc_after c))" for cs
        by (simp add: apply_changes_def)
      ultimately show ?thesis using Cons Some by (auto simp: map_filter_Cons fun_eq_iff)
    qed
  qed
  have "(if k \<in> set (sort (remdups (map fst (old @ new)))) \<and> ?f k \<noteq> None then ?new k else ?old k) = ?new k" for k
  proof (cases "k \<in> set (map fst (old @ new))")
    case True then show ?thesis using row_change_None [of rel "map_of old k" "map_of new k"] by auto
  next
    case False
    then have "map_of old k = None" "map_of new k = None" by (auto simp: map_of_eq_None_iff)
    then show ?thesis by simp
  qed
  with run show ?thesis unfolding relation_changes_def by presburger
qed

lemma relation_changes_Nil:
  "relation_changes rel old new = [] \<longleftrightarrow> (\<forall>k. map_option rr_values (map_of old k) = map_option rr_values (map_of new k))"
proof -
  have "relation_changes rel old new = [] \<longleftrightarrow>
      (\<forall>k \<in> set (map fst (old @ new)). map_option rr_values (map_of old k) = map_option rr_values (map_of new k))"
    by (simp add: relation_changes_def map_filter_empty row_change_None)
  also have "\<dots> \<longleftrightarrow> (\<forall>k. map_option rr_values (map_of old k) = map_option rr_values (map_of new k))"
  proof -
    have "map_of old k = None \<and> map_of new k = None" if "k \<notin> set (map fst (old @ new))" for k
      using that by (auto simp: map_of_eq_None_iff)
    then show ?thesis by (metis (no_types))
  qed
  finally show ?thesis .
qed

lemma relation_changes_id: "c \<in> set (relation_changes rel old new) \<Longrightarrow> dc_relation_id c = rd_id rel"
proof -
  have "c \<in> set (List.map_filter f ks) \<Longrightarrow> \<exists>k. f k = Some c" for f :: "bytes \<Rightarrow> diff_change option" and ks
    by (induction ks) (auto simp: map_filter_Cons map_filter_Nil split: option.splits)
  moreover assume "c \<in> set (relation_changes rel old new)"
  ultimately obtain k where "row_change rel (map_of old k) (map_of new k) = Some c" unfolding relation_changes_def by blast
  then show ?thesis by (auto simp: row_change_def Let_def split: option.splits if_splits)
qed

lemma concat_absent:
  assumes "list_all2 (\<lambda>rel cs. \<forall>c \<in> set cs. dc_relation_id c = rd_id rel) rels css" "rid \<notin> rd_id ` set rels"
  shows "filter (\<lambda>c. dc_relation_id c = rid) (concat css) = []"
  using assms by (induction rels css rule: list_all2_induct) (auto simp: filter_empty_conv)

lemma concat_by_relation:
  assumes "list_all2 (\<lambda>rel cs. \<forall>c \<in> set cs. dc_relation_id c = rd_id rel) rels css" "distinct (map rd_id rels)"
    "(rel, cs) \<in> set (zip rels css)"
  shows "filter (\<lambda>c. dc_relation_id c = rd_id rel) (concat css) = cs"
  using assms
proof (induction rels css rule: list_all2_induct)
  case (Cons r rels cs' css)
  show ?case
  proof (cases "rd_id r = rd_id rel")
    case True
    with Cons have "rel = r \<and> cs = cs'" by (auto dest: set_zip_leftD)
    moreover have "filter (\<lambda>c. dc_relation_id c = rd_id r) (concat css) = []"
      using Cons(2,4) by (intro concat_absent) auto
    ultimately show ?thesis using Cons(1) by (simp add: filter_id_conv)
  next
    case False
    then have "filter (\<lambda>c. dc_relation_id c = rd_id rel) cs' = []" using Cons(1) by (simp add: filter_empty_conv)
    then show ?thesis using Cons False by auto
  qed
qed simp

lemma relational_diff_okE:
  assumes "relational_diff r before after = Inr d" "rel \<in> set (mn_relations (rs_manifest r))" "distinct (rel_ids (rs_manifest r))"
  obtains old_rows new_rows old new where
    "map_of (py_dict (si_relations before)) (rd_id rel) = Some old_rows" "keyed_rows rel old_rows = Inr old"
    "map_of (py_dict (si_relations after)) (rd_id rel) = Some new_rows" "keyed_rows rel new_rows = Inr new"
    "filter (\<lambda>c. dc_relation_id c = rd_id rel) (df_changes d) = relation_changes rel old new"
proof -
  let ?diff = "diff_relation (py_dict (si_relations before)) (py_dict (si_relations after))"
  from assms(1) obtain css where css: "map_each ?diff (sorted_relations (rs_manifest r)) = Inr css" "df_changes d = concat css"
    by (auto simp: relational_diff_def Let_def)
  from map_each_okD [OF css(1)] have all2: "list_all2 (\<lambda>rel cs. ?diff rel = Inr cs) (sorted_relations (rs_manifest r)) css" .
  have own: "list_all2 (\<lambda>rel cs. \<forall>c \<in> set cs. dc_relation_id c = rd_id rel) (sorted_relations (rs_manifest r)) css"
    using all2 by (rule list_all2_mono) (auto simp: diff_relation_def relation_changes_id)
  from assms(2) obtain i where i: "i < length (sorted_relations (rs_manifest r))" "sorted_relations (rs_manifest r) ! i = rel"
    by (metis in_set_conv_nth sorted_relations_set)
  with all2 have at: "?diff rel = Inr (css ! i)" "i < length css" by (auto simp: list_all2_conv_all_nth)
  with i have "(rel, css ! i) \<in> set (zip (sorted_relations (rs_manifest r)) css)" by (auto simp: set_zip)
  from concat_by_relation [OF own distinct_sorted_ids [OF assms(3)] this]
  have "filter (\<lambda>c. dc_relation_id c = rd_id rel) (df_changes d) = css ! i" by (simp add: css(2))
  with at(1) show ?thesis by (auto simp: diff_relation_def dict_item_def split: option.splits intro: that)
qed

lemma diff_ids: "relational_diff r before after = Inr d \<Longrightarrow> c \<in> set (df_changes d) \<Longrightarrow>
    dc_relation_id c \<in> rd_id ` set (mn_relations (rs_manifest r))"
proof -
  assume "relational_diff r before after = Inr d" and c: "c \<in> set (df_changes d)"
  then obtain css where css: "map_each (diff_relation (py_dict (si_relations before)) (py_dict (si_relations after)))
      (sorted_relations (rs_manifest r)) = Inr css" "df_changes d = concat css"
    by (auto simp: relational_diff_def Let_def)
  have "c \<in> set (concat css) \<Longrightarrow> map_each (diff_relation b a) rels = Inr css \<Longrightarrow> dc_relation_id c \<in> rd_id ` set rels" for b a rels css
    by (induction rels arbitrary: css) (fastforce simp: diff_relation_def relation_changes_id split: sum.splits)+
  from this [OF _ css(1)] c css(2) show ?thesis by simp
qed

section \<open>The Subject's view\<close>

text \<open>Two rows that agree on the columns a predicate admits.\<close>

definition agree_on :: "(string \<Rightarrow> bool) \<Rightarrow> rel_row \<Rightarrow> rel_row \<Rightarrow> bool" where
  "agree_on P a b \<longleftrightarrow> (\<forall>c. P c \<longrightarrow> map_of (value_map a) c = map_of (value_map b) c)"

definition same_public :: "rel_resource \<Rightarrow> rel_state \<Rightarrow> bool" where
  "same_public r state \<longleftrightarrow> (\<forall>rid. case (map_of (rs_state r) rid, map_of state rid) of
     (Some xs, Some ys) \<Rightarrow> list_all2 (agree_on (\<lambda>c. (rid, c) \<notin> set (rs_private r))) xs ys
   | (None, None) \<Rightarrow> True | _ \<Rightarrow> False)"

lemma selected_in: "c \<in> set (selected_columns allowed rel) \<longleftrightarrow> (rd_id rel, c) \<in> set allowed"
  by (force simp: selected_columns_def)

lemma map_each_cong': "(\<And>x. x \<in> set xs \<Longrightarrow> f x = g x) \<Longrightarrow> map_each f xs = map_each g xs"
  by (induction xs) (auto split: sum.splits)

lemma view_row_agree: "agree_on (\<lambda>c. c \<in> set columns) a b \<Longrightarrow> view_row columns a = view_row columns b"
proof -
  assume "agree_on (\<lambda>c. c \<in> set columns) a b"
  then have "map_each (\<lambda>c. res_bind (column_value (value_map a) c) (\<lambda>v. Inr (c, v))) columns =
      map_each (\<lambda>c. res_bind (column_value (value_map b) c) (\<lambda>v. Inr (c, v))) columns"
    by (intro map_each_cong') (simp add: agree_on_def column_value_def dict_item_def)
  then show ?thesis by (simp add: view_row_def)
qed

lemma map_each_all2_cong: "list_all2 (\<lambda>x y. f x = f y) xs ys \<Longrightarrow> map_each f xs = map_each f ys"
  by (induction rule: list_all2_induct) (auto split: sum.splits)

lemma view_relations_public:
  assumes "same_public r state" "\<forall>a \<in> set (rs_private r). a \<notin> set allowed"
  shows "view_relations (r\<lparr>rs_state := state\<rparr>) allowed = view_relations r allowed"
proof -
  have "res_bind (dict_item state (rd_id rel) py_repr_str) (\<lambda>rows.
       res_bind (map_each (view_row (selected_columns allowed rel)) rows) (\<lambda>viewed. Inr (rd_id rel, viewed))) =
     res_bind (dict_item (rs_state r) (rd_id rel) py_repr_str) (\<lambda>rows.
       res_bind (map_each (view_row (selected_columns allowed rel)) rows) (\<lambda>viewed. Inr (rd_id rel, viewed)))" for rel
  proof -
    note same = assms(1) [unfolded same_public_def, THEN spec, of "rd_id rel"]
    show ?thesis
    proof (cases "map_of (rs_state r) (rd_id rel)")
      case None
      with same have "map_of state (rd_id rel) = None" by (simp split: option.splits)
      with None show ?thesis by (simp add: dict_item_def)
    next
      case (Some xs)
      with same obtain ys where ys: "map_of state (rd_id rel) = Some ys"
        "list_all2 (agree_on (\<lambda>c. (rd_id rel, c) \<notin> set (rs_private r))) xs ys"
        by (auto split: option.splits)
      have "list_all2 (\<lambda>a b. view_row (selected_columns allowed rel) a = view_row (selected_columns allowed rel) b) xs ys"
        using ys(2) by (rule list_all2_mono) (rule view_row_agree, unfold agree_on_def selected_in, use assms(2) in blast)
      from map_each_all2_cong [OF this] Some ys(1) show ?thesis by (simp add: dict_item_def result_simps)
    qed
  qed
  then show ?thesis by (simp add: view_relations_def)
qed

end
