(* ===== verification/AVP_RelationalProps.thy ===== *)
theory AVP_RelationalProps
  imports AVP_RelationalFacts
begin

text \<open>
  The properties of the relational resource, with a small resource of one relation (a private column
  and a nullable key variant) as the example they are applied to.
\<close>

section \<open>An example\<close>

abbreviation text_type :: column_type where
  "text_type \<equiv> \<lparr>ct_kind = TEXT, ct_precision = None, ct_scale = None, ct_fractional = None\<rparr>"

definition demo_relation :: "bool \<Rightarrow> relation_definition" where
  "demo_relation nullable = \<lparr>rd_id = ''t'', rd_columns = [\<lparr>cd_id = ''k'', cd_type = text_type, cd_nullable = nullable\<rparr>,
     \<lparr>cd_id = ''p'', cd_type = text_type, cd_nullable = False\<rparr>], rd_key = [''k'']\<rparr>"

definition demo_manifest :: "bool \<Rightarrow> rel_manifest" where
  "demo_manifest nullable = \<lparr>mn_relations = [demo_relation nullable], mn_projections =
     [\<lparr>pj_id = ''v'', pj_relations = [\<lparr>pr_relation_id = ''t'', pr_columns = [''k'']\<rparr>]\<rparr>]\<rparr>"

definition demo_row :: "raw_value \<Rightarrow> string \<Rightarrow> rel_row" where
  "demo_row k p = \<lparr>rr_values = [(''k'', \<lparr>rv_kind = TEXT, rv_value = k\<rparr>), (''p'', \<lparr>rv_kind = TEXT, rv_value = RawText p\<rparr>)],
     rr_key = [''k'']\<rparr>"

definition demo_state :: "raw_value \<Rightarrow> string \<Rightarrow> rel_state" where
  "demo_state k p = [(''t'', [demo_row k p])]"

definition demo_digest :: "bool \<Rightarrow> string" where
  "demo_digest nullable = (case rel_manifest_digest (demo_manifest nullable) of Inl _ \<Rightarrow> [] | Inr d \<Rightarrow> d)"

definition demo_image :: "bool \<Rightarrow> raw_value \<Rightarrow> state_image" where
  "demo_image nullable k = \<lparr>si_manifest_digest = demo_digest nullable, si_relations = demo_state k ''x''\<rparr>"

definition demo_image_digest :: "bool \<Rightarrow> raw_value \<Rightarrow> string" where
  "demo_image_digest nullable k = (case image_digest (demo_image nullable k) of Inl _ \<Rightarrow> [] | Inr d \<Rightarrow> d)"

definition demo_args :: "bool \<Rightarrow> raw_value \<Rightarrow> resource_arguments" where
  "demo_args nullable k = \<lparr>ra_environment_id = ''e'', ra_resource_id = ''r'', ra_instance_id = ''i'',
     ra_manifest = demo_manifest nullable, ra_manifest_digest = demo_digest nullable,
     ra_baseline = demo_state k ''x'', ra_baseline_digest = demo_image_digest nullable k,
     ra_execution_identity = json_digest JNull, ra_private = [(''t'', ''p'')]\<rparr>"

definition demo_resource :: "bool \<Rightarrow> raw_value \<Rightarrow> rel_resource" where
  "demo_resource nullable k = \<lparr>rs_environment_id = ''e'', rs_resource_id = ''r'', rs_instance_id = ''i'',
     rs_manifest = demo_manifest nullable, rs_manifest_digest = demo_digest nullable,
     rs_execution_identity = json_digest JNull, rs_bound_identity = json_digest JNull, rs_private = [(''t'', ''p'')],
     rs_binding_valid = True, rs_quiescing = False, rs_released = False, rs_pending = [], rs_baseline = demo_state k ''x'',
     rs_baseline_digest = demo_image_digest nullable k, rs_state = demo_state k ''x'', rs_snapshots = 0\<rparr>"

lemma letter_order: "''k'' < ''p''" "''k'' \<le> ''p''" "\<not> ''p'' \<le> ''k''"
  by (simp_all add: List_Lexorder.Cons_less_Cons)

lemma demo_integrity: "validate_integrity (demo_manifest nullable) = Inr ()"
  by (simp add: validate_integrity_def demo_manifest_def demo_relation_def Let_def check_relation_def check_projection_def
      check_selection_def column_ids_def without_def result_simps portable_identifier_def is_lower_ascii_def)

lemma demo_manifest_digest: "rel_manifest_digest (demo_manifest nullable) = Inr (demo_digest nullable)"
  by (simp add: demo_digest_def rel_manifest_digest_def manifest_document_def demo_integrity result_simps)

lemma demo_manifest_text: "is_sha256_text (demo_digest nullable)"
  by (simp add: demo_digest_def rel_manifest_digest_def manifest_document_def demo_integrity result_simps)

lemma demo_value_map: "value_map (demo_row k p) = rr_values (demo_row k p)"
  by (simp add: value_map_def demo_row_def)

lemma demo_bind:
  assumes "k = RawNone \<longrightarrow> nullable" "\<forall>c. k \<noteq> RawBool c"
  shows "\<exists>kb. bind_row (demo_relation nullable) (demo_row k p) = Inr (kb, demo_row k p)"
proof -
  let ?row = "demo_row k p"
  have vm: "value_map ?row = [(''k'', \<lparr>rv_kind = TEXT, rv_value = k\<rparr>), (''p'', \<lparr>rv_kind = TEXT, rv_value = RawText p\<rparr>)]"
    by (simp add: demo_value_map) (simp add: demo_row_def)
  have bound: "row_from_mapping (value_map ?row) [''k''] = ?row"
    unfolding vm by (simp add: row_from_mapping_def demo_row_def letter_order)
  have key: "rr_key ?row = [''k'']" by (simp add: demo_row_def)
  have kd: "key_document ?row = Inr (JObj [(''k'', rel_value_document \<lparr>rv_kind = TEXT, rv_value = k\<rparr>)])"
    by (simp add: key_document_def key vm pick_documents_def column_value_def dict_item_def result_simps)
  have ok: "validate_value \<lparr>cd_id = ''k'', cd_type = text_type, cd_nullable = nullable\<rparr> \<lparr>rv_kind = TEXT, rv_value = k\<rparr> = Inr ()"
    using assms by (cases k) (auto simp: validate_value_def)
  have pin: "validate_value \<lparr>cd_id = ''p'', cd_type = text_type, cd_nullable = False\<rparr> \<lparr>rv_kind = TEXT, rv_value = RawText p\<rparr> = Inr ()"
    by (simp add: validate_value_def)
  have "rd_key (demo_relation nullable) = [''k'']" by (simp add: demo_relation_def)
  moreover have "column_ids (demo_relation nullable) = [''k'', ''p'']" by (simp add: demo_relation_def column_ids_def)
  moreover have "check_each (\<lambda>c. res_bind (column_value (value_map ?row) (cd_id c)) (validate_value c))
      (rd_columns (demo_relation nullable)) = Inr ()"
    using ok pin unfolding vm by (simp add: demo_relation_def column_value_def dict_item_def result_simps)
  ultimately show ?thesis
    unfolding bind_row_def Let_def by (simp add: bound kd) (simp add: vm)
qed

lemma demo_state_valid:
  assumes "k = RawNone \<longrightarrow> nullable" "\<forall>c. k \<noteq> RawBool c"
  shows "validate_state (demo_manifest nullable) (demo_state k p) = Inr (demo_state k p)"
proof -
  from demo_bind [OF assms] assms(2) obtain kb where
    "bind_row (demo_relation nullable) (demo_row k p) = Inr (kb, demo_row k p)" by blast
  then have "validate_relation (demo_relation nullable) [demo_row k p] = Inr [demo_row k p]"
    by (simp add: validate_relation_def result_simps)
  then show ?thesis
    by (simp add: validate_state_def demo_manifest_def demo_state_def dict_item_def result_simps)
      (simp add: demo_relation_def)
qed

lemma demo_state_image:
  "state_image_for (demo_manifest nullable) (demo_digest nullable) (demo_state k p) =
     Inr \<lparr>si_manifest_digest = demo_digest nullable, si_relations = demo_state k p\<rparr>"
  by (simp add: state_image_for_def sorted_relations_def demo_manifest_def demo_state_def dict_item_def result_simps)
    (simp add: demo_relation_def)

lemma demo_image_digest:
  "image_digest (demo_image nullable k) = Inr (demo_image_digest nullable k)" "is_sha256_text (demo_image_digest nullable k)"
  by (simp_all add: demo_image_digest_def image_digest_def image_document_def demo_image_def demo_state_def row_document_def
      key_document_def pick_documents_def demo_value_map column_value_def dict_item_def result_simps)
    (simp_all add: demo_row_def)

lemma demo_made:
  assumes "k = RawNone \<longrightarrow> nullable" "\<forall>c. k \<noteq> RawBool c"
  shows "make_rel_resource (demo_args nullable k) = Inr (demo_resource nullable k)"
  using demo_state_valid [OF assms] demo_state_image [of nullable k "''x''"] demo_image_digest [of nullable k]
  by (simp add: make_rel_resource_def demo_args_def demo_integrity demo_manifest_digest demo_manifest_text require_digest_def
      demo_image_def demo_resource_def result_simps)

lemma demo_plain: "make_rel_resource (demo_args False (RawText ''a'')) = Inr (demo_resource False (RawText ''a''))"
  by (simp add: demo_made)

definition demo_empty_image :: state_image where
  "demo_empty_image = \<lparr>si_manifest_digest = demo_digest False, si_relations = [(''t'', [])]\<rparr>"

lemma demo_row_key: "\<exists>k. row_key_bytes (demo_relation n) (demo_row (RawText v) p) = Inr k"
  by (simp add: row_key_bytes_def demo_value_map demo_relation_def column_value_def dict_item_def result_simps)
    (simp add: demo_row_def)

lemma demo_diff: "\<exists>d. relational_diff (demo_resource False (RawText ''a'')) (demo_image False (RawText ''a'')) demo_empty_image = Inr d \<and>
    df_changes d \<noteq> []"
proof -
  obtain k where "row_key_bytes (demo_relation False) (demo_row (RawText ''a'') ''x'') = Inr k" using demo_row_key by blast
  then have old: "keyed_rows (demo_relation False) [demo_row (RawText ''a'') ''x''] = Inr [(k, demo_row (RawText ''a'') ''x'')]"
    by (simp add: keyed_rows_def result_simps)
  have "relation_changes (demo_relation False) [(k, demo_row (RawText ''a'') ''x'')] [] \<noteq> []"
    by (simp add: relation_changes_Nil)
  then obtain cs where cs: "diff_relation (demo_state (RawText ''a'') ''x'') [(''t'', [])] (demo_relation False) = Inr cs" "cs \<noteq> []"
    using old by (simp add: diff_relation_def dict_item_def demo_state_def result_simps)
      (simp add: demo_relation_def keyed_rows_def result_simps)
  have sorted: "sorted_relations (demo_manifest False) = [demo_relation False]" by (simp add: sorted_relations_def demo_manifest_def)
  have py: "py_dict (si_relations (demo_image False (RawText ''a''))) = demo_state (RawText ''a'') ''x''"
    "py_dict (si_relations demo_empty_image) = [(''t'', [])]" by (simp_all add: demo_image_def demo_empty_image_def demo_state_def)
  have "map_each (diff_relation (demo_state (RawText ''a'') ''x'') [(''t'', [])]) [demo_relation False] = Inr [cs]"
    using cs(1) by simp
  moreover obtain x where "image_digest demo_empty_image = Inr x"
    by (simp add: image_digest_def image_document_def demo_empty_image_def result_simps)
  ultimately show ?thesis using demo_image_digest(1) [of False "RawText ''a''"] cs(2)
    by (simp add: relational_diff_def py demo_resource_def sorted ensure_live_def Let_def result_simps)
      (simp add: demo_state_def demo_image_def demo_empty_image_def demo_manifest_def demo_relation_def)
qed

section \<open>Properties\<close>

text \<open>C29: After any operations, successful or not, the live state of a relational resource covers exactly the relations
  of its Manifest; the rows of a relation are strictly sorted by their canonical key bytes and every row holds, for
  every column, a value that the column's type accepts; and validating the state again changes nothing.\<close>

theorem relational_state_stays_valid:
  assumes "make_rel_resource a = Inr r" "rel \<in> set (mn_relations (ra_manifest a))"
  shows "map fst (rs_state (rel_runs ops r)) = map rd_id (mn_relations (ra_manifest a)) \<and>
    validate_state (ra_manifest a) (rs_state (rel_runs ops r)) = Inr (rs_state (rel_runs ops r)) \<and>
    (\<exists>rows ks. map_of (rs_state (rel_runs ops r)) (rd_id rel) = Some rows \<and> sorted_wrt (<) ks \<and>
       list_all2 (\<lambda>k row. \<exists>d. key_document row = Inr d \<and> k = canonical_bytes d) ks rows \<and>
       (\<forall>row \<in> set rows. set (map fst (rr_values row)) = set (column_ids rel) \<and>
          (\<forall>c \<in> set (rd_columns rel). \<exists>v. map_of (rr_values row) (cd_id c) = Some v \<and> validate_value c v = Inr ())))"
proof -
  let ?s = "rs_state (rel_runs ops r)"
  from rel_reachable_ok [OF assms(1), of ops]
  have ok: "rel_state_ok (ra_manifest a) ?s" "distinct (rel_ids (ra_manifest a))" by (auto simp: rel_resource_ok_def)
  then obtain rows where rows: "map_of ?s (rd_id rel) = Some rows" "relation_rows_ok rel rows"
    using assms(2) by (auto simp: rel_state_ok_def)
  then obtain ks where ks: "list_all2 (\<lambda>k row. bind_row rel row = Inr (k, row)) ks rows" "sorted_wrt (<) ks"
    by (auto simp: relation_rows_ok_def)
  have "list_all2 (\<lambda>k row. \<exists>d. key_document row = Inr d \<and> k = canonical_bytes d) ks rows"
    using ks(1) by (rule list_all2_mono) (rule bound_row_values(4))
  moreover have "\<exists>k. bind_row rel row = Inr (k, row)" if "row \<in> set rows" for row
    using ks(1) that by (force simp: list_all2_conv_all_nth in_set_conv_nth)
  then have "\<forall>row \<in> set rows. set (map fst (rr_values row)) = set (column_ids rel) \<and>
      (\<forall>c \<in> set (rd_columns rel). \<exists>v. map_of (rr_values row) (cd_id c) = Some v \<and> validate_value c v = Inr ())"
    using bound_row_values(2,3) by blast
  ultimately show ?thesis using ok validate_state_fixed [OF ok refl] rows(1) ks(2) by (auto simp: rel_state_ok_def rel_ids_def)
qed

theorem relational_state_stays_valid_witness:
  "map fst (rs_state (rel_runs [RelBegin ''t'' [demo_row (RawText ''b'') ''y''], RelSettle 0 True]
     (demo_resource False (RawText ''a'')))) = [''t'']"
  using relational_state_stays_valid [OF demo_plain, of "demo_relation False"]
  by (simp add: demo_args_def demo_manifest_def) (simp add: demo_relation_def)

text \<open>C30: A snapshot restores exactly: whatever a resource went through before and after a snapshot, restoring it on the
  live resource succeeds, reports STATE_EQUIVALENT, brings back the state of the snapshot and with it the state image
  that the snapshot holds.\<close>

theorem relational_restore_roundtrip:
  assumes "make_rel_resource a = Inr r0" "rel_snapshot (rel_runs before r0) = (Inr sn, r1)"
    "ensure_live (rel_runs between r1) = Inr ()"
  shows "\<exists>r3. rel_restore sn (rel_runs between r1) = (Inr REL_STATE_EQUIVALENT, r3) \<and>
    rs_state r3 = rs_state (rel_runs before r0) \<and> rel_state_image r3 = Inr (rn_state sn)"
proof -
  let ?r = "rel_runs before r0" and ?t = "rel_runs between r1" and ?m = "ra_manifest a"
  have ok: "rel_state_ok ?m (rs_state ?r)" "distinct (rel_ids ?m)" "rs_manifest ?r = ?m"
    using rel_reachable_ok [OF assms(1), of before] by (auto simp: rel_resource_ok_def)
  from assms(2) have snap: "rel_state_image ?r = Inr (rn_state sn)"
    "r1 = ?r\<lparr>rs_snapshots := rs_snapshots ?r + 1\<rparr>" "rn_environment_id sn = rs_environment_id ?r"
    "rn_resource_id sn = rs_resource_id ?r" "rn_instance_id sn = rs_instance_id ?r"
    by (auto simp: rel_snapshot_def elim!: act_bind_okE)
  from rel_runs_evolves [of r1 between] snap(2) have fixed: "rel_fixed ?t = rel_fixed ?r"
    by (simp add: rel_evolves_def rel_fixed_def)
  then have same: "rs_manifest ?t = ?m" "rs_manifest_digest ?t = rs_manifest_digest ?r"
    using ok(3) by (simp_all add: rel_fixed_def)
  obtain i where i: "state_image_for ?m (rs_manifest_digest ?r) (rs_state ?r) = Inr i" "si_manifest_digest i = rs_manifest_digest ?r"
    "map fst (si_relations i) = map rd_id (sorted_relations ?m)" "map_of (si_relations i) = map_of (rs_state ?r)"
    using state_image_total [OF ok(1,2)] by blast
  with snap(1) ok(3) have sn: "rn_state sn = i" by (simp add: rel_state_image_def)
  have dist: "distinct (map fst (si_relations i))" using i(3) distinct_sorted_ids [OF ok(2)] by simp
  obtain d where d: "image_digest i = Inr d" using image_digest_total [OF ok(1,2) i(4) dist] by blast
  have owner: "validate_snapshot_owner sn ?t = Inr ()"
    using snap(3-5) fixed i(2) sn by (simp add: validate_snapshot_owner_def rel_fixed_def)
  have cand: "validate_state ?m (py_dict (si_relations i)) = Inr (rs_state ?r)"
    using validate_state_fixed [OF ok(1,2) i(4)] dist by simp
  let ?r3 = "?t\<lparr>rs_state := rs_state ?r\<rparr>"
  have image: "rel_state_image ?r3 = Inr i"
    using assms(3) i(1) same by (simp add: rel_state_image_def ensure_live_def)
  have "rel_restore sn ?t = (Inr REL_STATE_EQUIVALENT, ?r3)"
    by (simp add: rel_restore_def act_bind_def act_read_def act_modify_def act_of_def act_return_def assms(3) owner sn same(1) cand
        image d)
  then show ?thesis using image sn by (intro exI [of _ ?r3]) simp
qed

theorem relational_restore_roundtrip_witness:
  "\<exists>sn r1 r3. rel_snapshot (demo_resource False (RawText ''a'')) = (Inr sn, r1) \<and>
     rel_restore sn (rel_runs [RelReset] r1) = (Inr REL_STATE_EQUIVALENT, r3)"
proof -
  let ?r = "demo_resource False (RawText ''a'')"
  obtain sn r1 where snap: "rel_snapshot ?r = (Inr sn, r1)"
    by (simp add: rel_snapshot_def rel_state_image_def ensure_live_def demo_resource_def demo_state_image action_simps result_simps)
  then have "r1 = ?r\<lparr>rs_snapshots := Suc 0\<rparr>"
    by (auto simp: rel_snapshot_def demo_resource_def elim!: act_bind_okE)
  moreover have "image_digest \<lparr>si_manifest_digest = demo_digest False, si_relations = demo_state (RawText ''a'') ''x''\<rparr> =
      Inr (demo_image_digest False (RawText ''a''))" using demo_image_digest(1) [of False "RawText ''a''"] by (simp add: demo_image_def)
  ultimately have "ensure_live (rel_runs [RelReset] r1) = Inr ()"
    by (simp add: rel_runs_def rel_reset_def rel_state_image_def ensure_live_def demo_resource_def demo_state_image action_simps
        result_simps)
  with relational_restore_roundtrip [OF demo_plain, of "[]" sn r1 "[RelReset]"] snap show ?thesis
    by (auto simp: rel_runs_def)
qed

text \<open>C31: A difference carries the earlier image into the later one: applying the changes that a resource reports for a
  relation to the rows of the earlier image, read as a map from key bytes to values, gives the rows of the later
  image; and the list of changes is empty exactly if all relations read the same.\<close>

theorem diff_carries_before_to_after:
  assumes "make_rel_resource a = Inr r0" "relational_diff (rel_runs ops r0) before after = Inr d"
    "rel \<in> set (mn_relations (ra_manifest a))"
  shows "apply_changes (filter (\<lambda>c. dc_relation_id c = rd_id rel) (df_changes d)) (rows_by_key rel (py_dict (si_relations before))) =
      rows_by_key rel (py_dict (si_relations after)) \<and>
    (df_changes d = [] \<longleftrightarrow> (\<forall>rel \<in> set (mn_relations (ra_manifest a)).
       rows_by_key rel (py_dict (si_relations before)) = rows_by_key rel (py_dict (si_relations after))))"
proof -
  let ?r = "rel_runs ops r0"
  let ?of = "\<lambda>rel. filter (\<lambda>c. dc_relation_id c = rd_id rel) (df_changes d)"
  let ?before = "\<lambda>rel. rows_by_key rel (py_dict (si_relations before))" and ?after = "\<lambda>rel. rows_by_key rel (py_dict (si_relations after))"
  have m: "rs_manifest ?r = ra_manifest a" "distinct (rel_ids (rs_manifest ?r))"
    using rel_reachable_ok [OF assms(1), of ops] by (auto simp: rel_resource_ok_def)
  have each: "apply_changes (?of rel) (?before rel) = ?after rel \<and> (?of rel = [] \<longleftrightarrow> ?before rel = ?after rel)"
    if rel: "rel \<in> set (mn_relations (ra_manifest a))" for rel
  proof -
    from rel m(1) have rel': "rel \<in> set (mn_relations (rs_manifest ?r))" by simp
    obtain old_rows new_rows old new where
      o: "map_of (py_dict (si_relations before)) (rd_id rel) = Some old_rows" "keyed_rows rel old_rows = Inr old"
      and n: "map_of (py_dict (si_relations after)) (rd_id rel) = Some new_rows" "keyed_rows rel new_rows = Inr new"
      and cs: "?of rel = relation_changes rel old new"
      by (rule relational_diff_okE [OF assms(2) rel' m(2)])
    have b: "?before rel = (\<lambda>k. map_option rr_values (map_of old k))" using o by (simp add: fun_eq_iff rows_by_key_def dict_item_def)
    have c: "?after rel = (\<lambda>k. map_option rr_values (map_of new k))" using n by (simp add: fun_eq_iff rows_by_key_def dict_item_def)
    have "apply_changes (relation_changes rel old new) (?before rel) = ?after rel"
      unfolding b c by (rule relation_changes_apply) (use o(2) n(2) in \<open>blast intro: keyed_rows_keys\<close>)+
    moreover have "relation_changes rel old new = [] \<longleftrightarrow> ?before rel = ?after rel"
      unfolding b c by (simp only: relation_changes_Nil fun_eq_iff)
    ultimately show ?thesis by (simp only: cs)
  qed
  have "df_changes d = [] \<longleftrightarrow> (\<forall>rel \<in> set (mn_relations (ra_manifest a)). ?of rel = [])"
  proof
    assume none: "\<forall>rel \<in> set (mn_relations (ra_manifest a)). ?of rel = []"
    have "c \<notin> set (df_changes d)" for c
    proof
      assume c: "c \<in> set (df_changes d)"
      from diff_ids [OF assms(2) c] m(1) obtain rel where
        "rel \<in> set (mn_relations (ra_manifest a))" "dc_relation_id c = rd_id rel" by auto
      with none c show False by (metis (mono_tags, lifting) filter_empty_conv)
    qed
    then show "df_changes d = []" by (metis list.set_intros(1) neq_Nil_conv)
  qed simp
  also have "\<dots> \<longleftrightarrow> (\<forall>rel \<in> set (mn_relations (ra_manifest a)). ?before rel = ?after rel)"
    by (rule ball_cong [OF refl]) (rule each [THEN conjunct2])
  finally show ?thesis using each [OF assms(3), THEN conjunct1] by (rule conjI [rotated])
qed

theorem diff_carries_before_to_after_witness:
  "\<exists>d. relational_diff (demo_resource False (RawText ''a'')) (demo_image False (RawText ''a'')) demo_empty_image = Inr d \<and>
     df_changes d \<noteq> [] \<and>
     apply_changes (filter (\<lambda>c. dc_relation_id c = ''t'') (df_changes d))
       (rows_by_key (demo_relation False) (demo_state (RawText ''a'') ''x'')) = (\<lambda>_. None)"
proof -
  obtain d where d: "relational_diff (demo_resource False (RawText ''a'')) (demo_image False (RawText ''a'')) demo_empty_image = Inr d"
    "df_changes d \<noteq> []"
    using demo_diff by blast
  have "rows_by_key (demo_relation False) [(''t'', [])] = (\<lambda>_. None)"
    by (simp add: fun_eq_iff rows_by_key_def keyed_rows_def dict_item_def demo_relation_def result_simps)
  moreover have "py_dict (demo_state (RawText ''a'') ''x'') = demo_state (RawText ''a'') ''x''" by (simp add: demo_state_def)
  ultimately show ?thesis
    using diff_carries_before_to_after [OF demo_plain, of "[]" "demo_image False (RawText ''a'')" demo_empty_image d "demo_relation False"] d
    by (simp add: rel_runs_def demo_args_def demo_manifest_def demo_image_def demo_empty_image_def) (simp add: demo_relation_def)
qed

text \<open>C32: The Subject's view reveals nothing of evaluator-private columns: replacing the state by any other that agrees
  with it on the public columns leaves the result of \<open>subject_view\<close>, error or rows, unchanged; and a row of a view holds
  only columns that were authorized and are not private.\<close>

theorem private_columns_do_not_interfere:
  assumes "same_public r state"
  shows "subject_view (r\<lparr>rs_state := state\<rparr>) authorized = subject_view r authorized \<and>
    (\<nexists>view rid rows row c. subject_view r authorized = Inr view \<and> (rid, rows) \<in> set view \<and> row \<in> set rows \<and>
       c \<in> set (map fst (rr_values row)) \<and> ((rid, c) \<notin> set authorized \<or> (rid, c) \<in> set (rs_private r)))"
proof -
  let ?open = "list_ex (\<lambda>a. a \<in> set authorized) (rs_private r)"
  have live: "ensure_live (r\<lparr>rs_state := state\<rparr>) = ensure_live r" by (simp add: ensure_live_def)
  have "subject_view (r\<lparr>rs_state := state\<rparr>) authorized = subject_view r authorized"
  proof (cases ?open)
    case False
    then have "\<forall>a \<in> set (rs_private r). a \<notin> set authorized" by (auto simp: list_ex_iff)
    from view_relations_public [OF assms this] show ?thesis by (simp add: subject_view_def live)
  qed (simp add: subject_view_def live raise_if_def res_bind_def)
  moreover have "(rid, c) \<in> set authorized \<and> (rid, c) \<notin> set (rs_private r)"
    if view: "subject_view r authorized = Inr view" "(rid, rows) \<in> set view" "row \<in> set rows" "c \<in> set (map fst (rr_values row))"
    for view rid rows row c
  proof -
    from view(1) have closed: "\<forall>a \<in> set (rs_private r). a \<notin> set authorized"
      and v: "view_relations r authorized = Inr view" by (auto simp: subject_view_def list_ex_iff)
    from map_each_okD [OF v [unfolded view_relations_def]] view(2) obtain rel where
      rel: "rid = rd_id rel" "\<exists>rows0. map_each (view_row (selected_columns authorized rel)) rows0 = Inr rows"
      by (fastforce simp: list_all2_conv_all_nth in_set_conv_nth)
    then obtain rows0 where "map_each (view_row (selected_columns authorized rel)) rows0 = Inr rows" by blast
    from map_each_okD [OF this] view(3) obtain row0 where "view_row (selected_columns authorized rel) row0 = Inr row"
      by (auto simp: list_all2_conv_all_nth in_set_conv_nth)
    then obtain kvs where kvs: "map_each (\<lambda>c. res_bind (column_value (value_map row0) c) (\<lambda>v. Inr (c, v)))
        (selected_columns authorized rel) = Inr kvs" "row = row_from_mapping kvs []" by (auto simp: view_row_def)
    have "map fst kvs = selected_columns authorized rel"
      using map_each_okD [OF kvs(1)] by (induction rule: list_all2_induct) auto
    with view(4) kvs(2) have "c \<in> set (selected_columns authorized rel)" by (metis list.set_map row_from_mapping_def rel_row.simps(1) set_sort)
    with closed rel(1) show ?thesis by (auto simp: selected_in)
  qed
  ultimately show ?thesis by blast
qed

theorem private_columns_do_not_interfere_witness:
  "subject_view (demo_resource False (RawText ''a'')\<lparr>rs_state := demo_state (RawText ''a'') ''z''\<rparr>) [(''t'', ''k'')] =
   subject_view (demo_resource False (RawText ''a'')) [(''t'', ''k'')]"
proof -
  have "same_public (demo_resource False (RawText ''a'')) (demo_state (RawText ''a'') ''z'')"
    by (simp add: same_public_def demo_resource_def demo_state_def agree_on_def demo_value_map) (simp add: demo_row_def)
  from private_columns_do_not_interfere [OF this] show ?thesis by blast
qed

text \<open>C33: A final projection is final: once one was returned, the resource is quiescing with every mutation settled, and
  whatever mutations are still begun, settled or committed, and whatever snapshots are taken, the state and the
  projection stay as they were reported.\<close>

theorem final_projection_is_final:
  assumes "final_projection r pid = Inr x" "list_all subject_ops ops"
  shows "final_projection (rel_runs ops r) pid = Inr x \<and> rs_state (rel_runs ops r) = rs_state r \<and>
    rs_quiescing (rel_runs ops r) \<and> list_all pm_settled (rs_pending (rel_runs ops r))"
proof -
  from assms(1) have r: "finally_settled r" "project r pid = Inr x" "ensure_live r = Inr ()"
    by (auto simp: final_projection_def finally_settled_def)
  from settled_stays_run [OF r(1) assms(2)]
  have t: "finally_settled (rel_runs ops r)" "rel_visible (rel_runs ops r) = rel_visible r" by simp_all
  then have "ensure_live (rel_runs ops r) = Inr ()" using r(3) by (simp add: rel_visible_def ensure_live_def)
  with t project_visible [OF t(2)] r(2) show ?thesis
    by (simp add: final_projection_def finally_settled_def rel_visible_def settlement_complete_def)
qed

theorem final_projection_is_final_witness:
  "\<exists>x. final_projection (demo_resource False (RawText ''a'')\<lparr>rs_quiescing := True\<rparr>) ''v'' = Inr x \<and>
     final_projection (rel_runs [RelBegin ''t'' [], RelSettle 0 True] (demo_resource False (RawText ''a'')\<lparr>rs_quiescing := True\<rparr>)) ''v'' = Inr x"
proof -
  have "\<exists>x. final_projection (demo_resource False (RawText ''a'')\<lparr>rs_quiescing := True\<rparr>) ''v'' = Inr x"
    by (simp add: final_projection_def project_def ensure_live_def settlement_complete_def demo_resource_def demo_manifest_def
        manifest_projection_def project_relation_def manifest_relation_def demo_state_def dict_item_def project_row_def
        pick_documents_def demo_value_map column_value_def result_simps) (simp add: demo_relation_def demo_row_def dict_item_def)
  then obtain x where x: "final_projection (demo_resource False (RawText ''a'')\<lparr>rs_quiescing := True\<rparr>) ''v'' = Inr x" by blast
  from final_projection_is_final [OF x, of "[RelBegin ''t'' [], RelSettle 0 True]"] x show ?thesis by (simp add: subject_ops_def)
qed

text \<open>Where validation and the normative text part. A DATE column accepts an ISO week date and even a week date
  followed by arbitrary characters; a DECIMAL column rejects a fraction between minus one and zero; and a null in a
  nullable key column is accepted into the state, after which the resource cannot compare its own image with itself.\<close>

theorem relational_validation_gaps:
  "validate_date ''2024-W01-1'' = Inr () \<and> validate_date ''2024W011xx'' = Inr () \<and>
   validate_decimal \<lparr>cd_id = ''d'', cd_type = \<lparr>ct_kind = DECIMAL, ct_precision = Some 4, ct_scale = Some 2, ct_fractional = None\<rparr>,
     cd_nullable = False\<rparr> ''-0.50'' = Inl (incompatible ''non-canonical decimal'') \<and>
   (\<exists>r i. make_rel_resource (demo_args True RawNone) = Inr r \<and> rel_state_image r = Inr i \<and>
      relational_diff r i i = Inl (incompatible ''logical row key cannot contain null''))"
proof (intro conjI)
  show "validate_date ''2024-W01-1'' = Inr ()" "validate_date ''2024W011xx'' = Inr ()" by code_simp+
  show "validate_decimal \<lparr>cd_id = ''d'', cd_type = \<lparr>ct_kind = DECIMAL, ct_precision = Some 4, ct_scale = Some 2, ct_fractional = None\<rparr>,
     cd_nullable = False\<rparr> ''-0.50'' = Inl (incompatible ''non-canonical decimal'')" by code_simp
  let ?r = "demo_resource True RawNone" and ?i = "demo_image True RawNone"
  have made: "make_rel_resource (demo_args True RawNone) = Inr ?r" by (simp add: demo_made)
  have image: "rel_state_image ?r = Inr ?i"
    by (simp add: rel_state_image_def ensure_live_def demo_resource_def demo_state_image demo_image_def result_simps)
  have row: "row_key_bytes (demo_relation True) (demo_row RawNone ''x'') = Inl (incompatible ''logical row key cannot contain null'')"
    by (simp add: row_key_bytes_def demo_value_map demo_relation_def column_value_def dict_item_def result_simps)
      (simp add: demo_row_def)
  have "keyed_rows (demo_relation True) [demo_row RawNone ''x''] = Inl (incompatible ''logical row key cannot contain null'')"
    by (simp add: keyed_rows_def row result_simps)
  then have "diff_relation (demo_state RawNone ''x'') s (demo_relation True) = Inl (incompatible ''logical row key cannot contain null'')" for s
    by (simp add: diff_relation_def dict_item_def demo_state_def result_simps) (simp add: demo_relation_def)
  then have "map_each (diff_relation (demo_state RawNone ''x'') (demo_state RawNone ''x'')) (sorted_relations (demo_manifest True)) =
      Inl (incompatible ''logical row key cannot contain null'')"
    by (simp add: sorted_relations_def demo_manifest_def)
  moreover have "py_dict (si_relations ?i) = demo_state RawNone ''x''" by (simp add: demo_image_def demo_state_def)
  ultimately have "relational_diff ?r ?i ?i = Inl (incompatible ''logical row key cannot contain null'')"
    by (simp add: relational_diff_def demo_resource_def ensure_live_def Let_def result_simps)
      (simp add: demo_state_def demo_image_def demo_manifest_def demo_relation_def)
  with made image show "\<exists>r i. make_rel_resource (demo_args True RawNone) = Inr r \<and> rel_state_image r = Inr i \<and>
      relational_diff r i i = Inl (incompatible ''logical row key cannot contain null'')" by blast
qed

end
