(* ===== verification/AVP_Scenario.thy ===== *)
theory AVP_Scenario
  imports AVP_Engine AVP_Python "HOL-Library.AList" "HOL-Library.Product_Lexorder"
begin

text \<open>
  The Scenario compiler: \<^verbatim>\<open>scenario/seed.py\<close>, \<^verbatim>\<open>generators.py\<close>, \<^verbatim>\<open>references.py\<close>, \<^verbatim>\<open>identity.py\<close>,
  \<^verbatim>\<open>compiler.py\<close> and the validation of \<^verbatim>\<open>loader.py\<close>. Parameters of the model: the JSON Schema
  validator with the packaged schemas, the RFC 8785 serializer, the random streams of \<open>random.Random\<close> and
  of \<open>secrets\<close>. A template is the JSON object it was parsed to; the schema makes \<open>parameters\<close>, \<open>seeds\<close> and
  \<open>capabilities\<close> objects and \<open>actors\<close> a list of objects.
\<close>

section \<open>Diagnostics\<close>

definition compile_exn :: "compile_error \<Rightarrow> string \<Rightarrow> string \<Rightarrow> string \<Rightarrow> string \<Rightarrow> exn" where
  "compile_exn c msg code text path = CompileExn c msg [\<lparr>dg_code = code, dg_message = text, dg_path = path\<rparr>]"

abbreviation parameter_exn :: "string \<Rightarrow> string \<Rightarrow> string \<Rightarrow> string \<Rightarrow> exn" where
  "parameter_exn \<equiv> compile_exn ParameterResolutionError"

section \<open>Seeds\<close>

definition seed_dimensions :: "string list" where
  "seed_dimensions = [''scenario'', ''environment'', ''data'', ''user'', ''adversary'', ''fault'', ''agent_sampling'', ''judge'']"

definition big_endian :: "bytes \<Rightarrow> nat" where
  "big_endian bs = foldl (\<lambda>a b. a * 256 + unat b) 0 bs"

definition derive_seed :: "int \<Rightarrow> string \<Rightarrow> int" where
  "derive_seed root label =
     int (big_endian (take 8 (sha256 (utf8 (''avp-seed-v1:'' @ string_of_int root @ '':'' @ label))))) mod 2 ^ 63"

text \<open>\<open>raw == "auto" or raw is None\<close>; Booleans are no seeds.\<close>

definition resolve_dimension :: "json \<Rightarrow> int \<Rightarrow> string \<Rightarrow> (exn, int) result" where
  "resolve_dimension source root dimension =
     (let invalid = Inl (parameter_exn (''invalid seed for '' @ dimension) ''AVS-SEED-002''
            (''seed '' @ [CHR 0x27] @ dimension @ [CHR 0x27] @ '' must be a non-negative integer or '' @ [CHR 0x27] @ ''auto'' @ [CHR 0x27])
            (''$.seeds.'' @ dimension)) in
      case jget_default source dimension (JStr ''auto'') of
        JNull \<Rightarrow> Inr (derive_seed root dimension)
      | JStr s \<Rightarrow> if s = ''auto'' then Inr (derive_seed root dimension) else invalid
      | JInt i \<Rightarrow> if i < 0 then invalid else Inr i
      | _ \<Rightarrow> invalid)"

definition seed_bundle_of :: "int list \<Rightarrow> seed_bundle" where
  "seed_bundle_of xs = \<lparr>sb_scenario = xs ! 0, sb_environment = xs ! 1, sb_data = xs ! 2, sb_user = xs ! 3,
     sb_adversary = xs ! 4, sb_fault = xs ! 5, sb_agent_sampling = xs ! 6, sb_judge = xs ! 7\<rparr>"

text \<open>\<open>fresh\<close> is \<open>secrets.randbits(63)\<close>, used when no root seed is given.\<close>

definition resolve_seed_bundle :: "int \<Rightarrow> json \<Rightarrow> int option \<Rightarrow> (exn, seed_bundle) result" where
  "resolve_seed_bundle fresh spec root_seed =
     (let root = (case root_seed of None \<Rightarrow> fresh | Some r \<Rightarrow> r) in
      res_bind (raise_if (root < 0) (parameter_exn ''root seed must be non-negative'' ''AVS-SEED-001''
        ''root seed must be non-negative'' ''$.seeds'')) (\<lambda>_.
      res_bind (map_each (resolve_dimension spec root) seed_dimensions) (\<lambda>seeds. Inr (seed_bundle_of seeds))))"

section \<open>Numbers\<close>

text \<open>Comparisons of Python numbers. A float is given by its shortest decimal; as an exact integer it is that
  decimal rounded to 53 bits, ties to even.\<close>

fun bit_length :: "nat \<Rightarrow> nat" where
  "bit_length n = (if n = 0 then 0 else Suc (bit_length (n div 2)))"

declare bit_length.simps [simp del]

definition round53 :: "nat \<Rightarrow> nat" where
  "round53 n = (if n < 2 ^ 53 then n
     else let e = bit_length n - 53; q = n div 2 ^ e; r = n mod 2 ^ e; half = 2 ^ (e - 1) in
       (if half < r \<or> r = half \<and> odd q then q + 1 else q) * 2 ^ e)"

definition exact_int :: "pyfloat \<Rightarrow> int option" where
  "exact_int f = map_option (\<lambda>i. sgn i * int (round53 (nat \<bar>i\<bar>))) (float_integral f)"

definition scaled :: "pyfloat \<Rightarrow> int \<Rightarrow> int" where
  "scaled f e = (if float_neg f then - 1 else 1) * int (float_digits f) * 10 ^ nat (float_exp f - e)"

definition decimal_less :: "pyfloat \<Rightarrow> pyfloat \<Rightarrow> bool" where
  "decimal_less f g \<longleftrightarrow> (let e = min (float_exp f) (float_exp g) in scaled f e < scaled g e)"

definition int_decimal :: "int \<Rightarrow> pyfloat" where
  "int_decimal i = PyFloat (i < 0) (nat \<bar>i\<bar>) 0"

datatype py_number = IntNumber int | FloatNumber pyfloat

definition number_of :: "json \<Rightarrow> py_number option" where
  "number_of v = (case v of JInt i \<Rightarrow> Some (IntNumber i) | JBool b \<Rightarrow> Some (IntNumber (if b then 1 else 0))
     | JFloat f \<Rightarrow> Some (FloatNumber f) | _ \<Rightarrow> None)"

fun number_less :: "py_number \<Rightarrow> py_number \<Rightarrow> bool" where
  "number_less (IntNumber i) (IntNumber j) \<longleftrightarrow> i < j"
| "number_less (IntNumber i) (FloatNumber g) \<longleftrightarrow>
     (case exact_int g of Some j \<Rightarrow> i < j | None \<Rightarrow> decimal_less (int_decimal i) g)"
| "number_less (FloatNumber f) (IntNumber j) \<longleftrightarrow>
     (case exact_int f of Some i \<Rightarrow> i < j | None \<Rightarrow> decimal_less f (int_decimal j))"
| "number_less (FloatNumber f) (FloatNumber g) \<longleftrightarrow> decimal_less f g"

definition number_eq :: "py_number \<Rightarrow> py_number \<Rightarrow> bool" where
  "number_eq a b \<longleftrightarrow> \<not> number_less a b \<and> \<not> number_less b a"

text \<open>\<open>==\<close> on JSON data: \<open>True == 1 == 1.0\<close>, dictionaries without regard to order.\<close>

primrec py_eq :: "json \<Rightarrow> json \<Rightarrow> bool" where
  "py_eq JNull v \<longleftrightarrow> v = JNull"
| "py_eq (JBool b) v \<longleftrightarrow> (case number_of v of None \<Rightarrow> False | Some n \<Rightarrow> number_eq (IntNumber (if b then 1 else 0)) n)"
| "py_eq (JInt i) v \<longleftrightarrow> (case number_of v of None \<Rightarrow> False | Some n \<Rightarrow> number_eq (IntNumber i) n)"
| "py_eq (JFloat f) v \<longleftrightarrow> (case number_of v of None \<Rightarrow> False | Some n \<Rightarrow> number_eq (FloatNumber f) n)"
| "py_eq (JStr s) v \<longleftrightarrow> v = JStr s"
| "py_eq (JList xs) v \<longleftrightarrow> (case v of JList ys \<Rightarrow> list_all2 (\<lambda>f y. f y) (map py_eq xs) ys | _ \<Rightarrow> False)"
| "py_eq (JObj kvs) v \<longleftrightarrow> (case v of
     JObj kvs' \<Rightarrow> fst ` set kvs = fst ` set kvs' \<and>
       list_all (\<lambda>(k, f). case map_of kvs' k of None \<Rightarrow> False | Some y \<Rightarrow> f y) (map (map_prod (\<lambda>k. k) py_eq) kvs)
   | _ \<Rightarrow> False)"

definition raw_type_name :: "json \<Rightarrow> string" where
  "raw_type_name v = (case v of JList _ \<Rightarrow> ''list'' | JObj _ \<Rightarrow> ''dict'' | _ \<Rightarrow> type_name v)"

text \<open>\<open>value < bound\<close> for a number \<open>value\<close>.\<close>

definition py_less :: "json \<Rightarrow> json \<Rightarrow> string \<Rightarrow> (exn, bool) result" where
  "py_less a b shown = (case (number_of a, number_of b) of
     (Some m, Some n) \<Rightarrow> Inr (number_less m n)
   | _ \<Rightarrow> Inl (TypeError (py_repr_str shown @ '' not supported between instances of '' @ py_repr_str (raw_type_name a) @
        '' and '' @ py_repr_str (raw_type_name b))))"

definition infix_of :: "string \<Rightarrow> string \<Rightarrow> bool" where
  "infix_of x s \<longleftrightarrow> list_ex (\<lambda>n. take (length x) (drop n s) = x) [0..<Suc (length s)]"

text \<open>\<open>value in container\<close>.\<close>

definition py_in :: "json \<Rightarrow> json \<Rightarrow> (exn, bool) result" where
  "py_in v container = (case container of
     JList xs \<Rightarrow> Inr (list_ex (\<lambda>x. py_eq x v) xs)
   | JObj kvs \<Rightarrow> in_strings v (map fst kvs)
   | JStr s \<Rightarrow> (case v of JStr x \<Rightarrow> Inr (infix_of x s)
       | _ \<Rightarrow> Inl (TypeError ([CHR 0x27] @ ''in <string>'' @ [CHR 0x27] @ '' requires string as left operand, not '' @ raw_type_name v)))
   | _ \<Rightarrow> Inl (TypeError (''argument of type '' @ py_repr_str (raw_type_name container) @ '' is not iterable'')))"

section \<open>Generators\<close>

text \<open>\<open>random.Random(seed)\<close>: the first draw of \<open>randrange(start, stop)\<close>, \<open>uniform\<close> and \<open>choices\<close>.\<close>

record random_source =
  rg_range :: "int \<Rightarrow> int \<Rightarrow> int \<Rightarrow> int"
  rg_uniform :: "int \<Rightarrow> pyfloat \<Rightarrow> pyfloat \<Rightarrow> pyfloat"
  rg_choices :: "int \<Rightarrow> pyfloat list \<Rightarrow> (exn, nat) result"

definition py_int_raw :: "json \<Rightarrow> (exn, int) result" where
  "py_int_raw v = (case v of
     JList _ \<Rightarrow> Inl (TypeError (''int() argument must be a string, a bytes-like object or a real number, not '' @ py_repr_str ''list''))
   | JObj _ \<Rightarrow> Inl (TypeError (''int() argument must be a string, a bytes-like object or a real number, not '' @ py_repr_str ''dict''))
   | _ \<Rightarrow> py_int_of v)"

definition py_float_raw :: "json \<Rightarrow> (exn, pyfloat) result" where
  "py_float_raw v = (case v of
     JList _ \<Rightarrow> Inl (TypeError (''float() argument must be a string or a real number, not '' @ py_repr_str ''list''))
   | JObj _ \<Rightarrow> Inl (TypeError (''float() argument must be a string or a real number, not '' @ py_repr_str ''dict''))
   | _ \<Rightarrow> py_float_of v)"

text \<open>\<open>list(spec.get(name, ()))\<close>: a list, the keys of a dictionary or the characters of a string.\<close>

definition py_list_of :: "json option \<Rightarrow> (exn, json list) result" where
  "py_list_of v = (case v of
     None \<Rightarrow> Inr []
   | Some (JList xs) \<Rightarrow> Inr xs
   | Some (JObj kvs) \<Rightarrow> Inr (map (JStr \<circ> fst) kvs)
   | Some (JStr s) \<Rightarrow> Inr (map (\<lambda>c. JStr [c]) s)
   | Some x \<Rightarrow> Inl (TypeError (py_repr_str (raw_type_name x) @ '' object is not iterable'')))"

definition generate_integer :: "random_source \<Rightarrow> json \<Rightarrow> int \<Rightarrow> (exn, json) result" where
  "generate_integer g spec seed =
     res_bind (jindex spec ''min'') (\<lambda>a. res_bind (py_int_raw a) (\<lambda>lo.
     res_bind (jindex spec ''max'') (\<lambda>b. res_bind (py_int_raw b) (\<lambda>hi.
     if hi < lo
     then Inl (ValueError (''empty range for randrange() ('' @ string_of_int lo @ '', '' @ string_of_int (hi + 1) @ '', '' @
       string_of_int (hi + 1 - lo) @ '')''))
     else Inr (JInt (rg_range g seed lo (hi + 1)))))))"

definition generate_uniform :: "random_source \<Rightarrow> json \<Rightarrow> int \<Rightarrow> (exn, json) result" where
  "generate_uniform g spec seed =
     res_bind (jindex spec ''min'') (\<lambda>a. res_bind (py_float_raw a) (\<lambda>lo.
     res_bind (jindex spec ''max'') (\<lambda>b. res_bind (py_float_raw b) (\<lambda>hi.
     Inr (JFloat (rg_uniform g seed lo hi))))))"

definition generate_enum :: "random_source \<Rightarrow> json \<Rightarrow> int \<Rightarrow> (exn, json) result" where
  "generate_enum g spec seed =
     res_bind (py_list_of (jget spec ''values'')) (\<lambda>xs.
     res_bind (raise_if (xs = []) (ValueError ''enum generator requires non-empty values'')) (\<lambda>_.
     Inr (xs ! nat (rg_range g seed 0 (int (length xs))))))"

definition item_of :: "json \<Rightarrow> string \<Rightarrow> (exn, json) result" where
  "item_of v k = (case v of
     JObj _ \<Rightarrow> jindex v k
   | JList _ \<Rightarrow> Inl (TypeError ''list indices must be integers or slices, not str'')
   | JStr _ \<Rightarrow> Inl (TypeError (''string indices must be integers, not '' @ py_repr_str ''str''))
   | _ \<Rightarrow> Inl (TypeError (py_repr_str (raw_type_name v) @ '' object is not subscriptable'')))"

definition generate_weighted :: "random_source \<Rightarrow> json \<Rightarrow> int \<Rightarrow> (exn, json) result" where
  "generate_weighted g spec seed =
     res_bind (py_list_of (jget spec ''choices'')) (\<lambda>choices.
     res_bind (raise_if (choices = []) (ValueError ''weighted generator requires choices'')) (\<lambda>_.
     res_bind (map_each (\<lambda>c. item_of c ''value'') choices) (\<lambda>vals.
     res_bind (map_each (\<lambda>c. res_bind (item_of c ''weight'') py_float_raw) choices) (\<lambda>weights.
     res_bind (rg_choices g seed weights) (\<lambda>i. Inr (vals ! i))))))"

definition generators_version :: string where
  "generators_version = ''builtin-generators@1''"

definition is_generator_error :: "exn \<Rightarrow> bool" where
  "is_generator_error e \<longleftrightarrow> is_type_or_value_error e \<or> (case e of KeyError _ \<Rightarrow> True | _ \<Rightarrow> False)"

definition generate_parameter :: "random_source \<Rightarrow> string \<Rightarrow> json \<Rightarrow> int \<Rightarrow> (exn, json) result" where
  "generate_parameter g parameter spec seed =
     (let type = py_str (jget_default spec ''type'' (JStr []));
          quoted = (\<lambda>s. [CHR 0x27] @ s @ [CHR 0x27]);
          run = (\<lambda>gen. case gen g spec seed of
            Inl e \<Rightarrow> Inl (if is_generator_error e
              then parameter_exn (''invalid generator for parameter '' @ quoted parameter) ''AVS-GEN-002'' (exn_text e)
                (''$.parameters.'' @ parameter @ ''.generator'')
              else e)
          | Inr v \<Rightarrow> Inr v) in
      if type = ''integer'' then run generate_integer
      else if type = ''uniform'' then run generate_uniform
      else if type = ''enum'' then run generate_enum
      else if type = ''weighted'' then run generate_weighted
      else Inl (parameter_exn (''unsupported generator '' @ quoted type @ '' for parameter '' @ quoted parameter) ''AVS-GEN-001''
        (''unsupported deterministic generator '' @ quoted type) (''$.parameters.'' @ parameter @ ''.generator.type'')))"

section \<open>References\<close>

type_synonym resolver = "string \<Rightarrow> string \<Rightarrow> (exn, resolved_reference) result"

definition symbolic_resolver :: resolver where
  "symbolic_resolver path uri = Inr \<lparr>rf_path = path, rf_uri = uri, rf_digest = json_digest (JObj [(''uri'', JStr uri)]),
     rf_mode = ''symbolic'', rf_media_type = None, rf_version = None\<rparr>"

definition static_resolver :: "(string \<times> (string \<times> string) list) list \<Rightarrow> resolver" where
  "static_resolver records path uri =
     (let missing = Inl (compile_exn ReferenceResolutionError (''unresolved AVS reference: '' @ uri) ''AVS-REF-001''
            (''unresolved reference '' @ [CHR 0x27] @ uri @ [CHR 0x27]) path) in
      case map_of records uri of
        None \<Rightarrow> missing
      | Some record \<Rightarrow>
          if record = [] then missing
          else (case map_of record ''digest'' of
            None \<Rightarrow> Inl (KeyError (py_repr_str ''digest''))
          | Some d \<Rightarrow> Inr \<lparr>rf_path = path, rf_uri = uri, rf_digest = d, rf_mode = ''content'',
              rf_media_type = map_of record ''media_type'', rf_version = map_of record ''version''\<rparr>))"

section \<open>Identity\<close>

definition identity_preimage :: "json \<Rightarrow> json" where
  "identity_preimage doc = (case doc of
     JObj kvs \<Rightarrow> JObj (filter (\<lambda>kv. fst kv \<notin> {''instanceDigest'', ''provenance''}) kvs) | _ \<Rightarrow> doc)"

text \<open>\<open>jcs\<close> is \<open>rfc8785.dumps\<close>.\<close>

type_synonym serializer = "json \<Rightarrow> (exn, bytes) result"

definition canonical_instance_bytes :: "serializer \<Rightarrow> json \<Rightarrow> (exn, bytes) result" where
  "canonical_instance_bytes jcs doc = (case jcs (identity_preimage doc) of
     Inl e \<Rightarrow> Inl (case e of ScenarioIdentityError _ \<Rightarrow> e
       | _ \<Rightarrow> if is_type_or_value_error e
           then ScenarioIdentityError ''ScenarioInstance identity preimage is not RFC 8785/I-JSON compatible'' else e)
   | Inr b \<Rightarrow> Inr b)"

definition scenario_instance_digest :: "serializer \<Rightarrow> json \<Rightarrow> (exn, string) result" where
  "scenario_instance_digest jcs doc = res_bind (canonical_instance_bytes jcs doc) (\<lambda>b. Inr (sha256_id b))"

definition verify_instance_identity :: "serializer \<Rightarrow> json \<Rightarrow> string option \<Rightarrow> (exn, string) result" where
  "verify_instance_identity jcs doc expected =
     (let missing = Inl (ScenarioIdentityError ''ScenarioInstance instanceDigest is missing'') in
      case jget doc ''instanceDigest'' of
        Some (JStr declared) \<Rightarrow>
          if declared = [] then missing
          else res_bind (scenario_instance_digest jcs doc) (\<lambda>computed.
            res_bind (raise_if (declared \<noteq> computed)
              (ScenarioIdentityError ''ScenarioInstance instanceDigest does not match RFC 8785 semantic content'')) (\<lambda>_.
            res_bind (raise_if (case expected of None \<Rightarrow> False | Some x \<Rightarrow> x \<noteq> declared)
              (ScenarioIdentityError ''ScenarioInstance object identity does not match serialized instanceDigest'')) (\<lambda>_.
            Inr computed)))
      | _ \<Rightarrow> missing)"

end
