(* ===== verification/AVP_Compiler.thy ===== *)
theory AVP_Compiler
  imports AVP_Scenario
begin

text \<open>
  The compiler of \<^verbatim>\<open>scenario/compiler.py\<close> and the schema check of \<^verbatim>\<open>scenario/loader.py\<close>. The regular
  expressions for placeholders and references are written out; recursive walks carry the path of the
  value as the code does.
\<close>

section \<open>Recursion over members\<close>

lemma map_each_cong [fundef_cong]:
  "xs = ys \<Longrightarrow> (\<And>x. x \<in> set ys \<Longrightarrow> f x = g x) \<Longrightarrow> map_each f xs = map_each g ys"
  by (induction ys arbitrary: xs) (auto split: sum.splits)

fun first_found :: "('a \<Rightarrow> ('e, 'b option) result) \<Rightarrow> 'a list \<Rightarrow> ('e, 'b option) result" where
  "first_found f [] = Inr None"
| "first_found f (x # xs) = (case f x of Inl e \<Rightarrow> Inl e | Inr None \<Rightarrow> first_found f xs | Inr (Some r) \<Rightarrow> Inr (Some r))"

lemma first_found_cong [fundef_cong]:
  "xs = ys \<Longrightarrow> (\<And>x. x \<in> set ys \<Longrightarrow> f x = g x) \<Longrightarrow> first_found f xs = first_found g ys"
  by (induction ys arbitrary: xs) (auto split: sum.splits option.splits)

lemma first_found_None [simp]: "first_found f xs = Inr None \<longleftrightarrow> (\<forall>x \<in> set xs. f x = Inr None)"
  by (induction xs) (auto split: sum.splits option.splits)

definition member_path :: "string \<Rightarrow> string \<Rightarrow> string" where
  "member_path path key = path @ ''.'' @ key"

definition index_path :: "string \<Rightarrow> nat \<Rightarrow> string" where
  "index_path path i = path @ ''['' @ string_of_nat i @ '']''"

definition children :: "string \<Rightarrow> json \<Rightarrow> (string \<times> json) list" where
  "children path v = (case v of
     JObj kvs \<Rightarrow> map (\<lambda>(k, x). (member_path path k, x)) kvs
   | JList xs \<Rightarrow> map (\<lambda>(i, x). (index_path path i, x)) (enumerate 0 xs)
   | _ \<Rightarrow> [])"

definition sorted_children :: "string \<Rightarrow> json \<Rightarrow> (string \<times> json) list" where
  "sorted_children path v = (case v of
     JObj kvs \<Rightarrow> map (\<lambda>(k, x). (member_path path k, x)) (sort_key fst kvs)
   | _ \<Rightarrow> children path v)"

lemma size_list_member [termination_simp]: "x \<in> set xs \<Longrightarrow> size x < Suc (size_list size xs)"
  by (induction xs) auto

lemma enumerate_member: "ix \<in> set (enumerate n xs) \<Longrightarrow> snd ix \<in> set xs"
  by (metis in_set_zip enumerate_eq_zip nth_mem)

lemma size_enumerated [termination_simp]: "ix \<in> set (enumerate n xs) \<Longrightarrow> size (snd ix) < Suc (size_list size xs)"
  by (drule enumerate_member) (rule size_list_member)

lemma size_child [termination_simp]: "c \<in> set (children path v) \<Longrightarrow> size (snd c) < size v"
proof (cases v)
  case (JList xs)
  assume "c \<in> set (children path v)"
  then show ?thesis unfolding JList children_def by (auto dest: size_enumerated)
next
  case (JObj kvs)
  assume "c \<in> set (children path v)"
  then show ?thesis unfolding JObj children_def by (auto dest: size_member)
qed (simp_all add: children_def)

lemma set_sorted_children [simp]: "set (sorted_children path v) = set (children path v)"
  by (cases v) (simp_all add: sorted_children_def children_def)

section \<open>Placeholders\<close>

definition name_start :: "char \<Rightarrow> bool" where
  "name_start c \<longleftrightarrow> is_upper_ascii c \<or> is_lower_ascii c \<or> c = CHR ''_''"

definition name_char :: "char \<Rightarrow> bool" where
  "name_char c \<longleftrightarrow> is_alnum_ascii c \<or> c \<in> set ''_.-''"

definition starts_name :: "string \<Rightarrow> bool" where
  "starts_name s \<longleftrightarrow> s \<noteq> [] \<and> name_start (hd s)"

text \<open>\<open>\$\{(?:parameters\.)?([A-Za-z_][A-Za-z0-9_.-]*)\}\<close> at the start of a string: the name and what follows.\<close>

definition placeholder_at :: "string \<Rightarrow> (string \<times> string) option" where
  "placeholder_at s =
     (if take 2 s \<noteq> [CHR 0x24, CHR 0x7B] then None
      else let body = takeWhile name_char (drop 2 s); rest = dropWhile name_char (drop 2 s) in
        if rest = [] \<or> hd rest \<noteq> CHR 0x7D then None
        else if take 11 body = ''parameters.'' \<and> starts_name (drop 11 body) then Some (drop 11 body, tl rest)
        else if starts_name body then Some (body, tl rest)
        else None)"

lemma placeholder_shorter: "placeholder_at s = Some (n, rest) \<Longrightarrow> length rest < length s"
proof -
  assume "placeholder_at s = Some (n, rest)"
  then have "rest = tl (dropWhile name_char (drop 2 s))" "take 2 s = [CHR 0x24, CHR 0x7B]"
    by (auto simp: placeholder_at_def Let_def split: if_splits)
  moreover have "length (dropWhile name_char (drop 2 s)) \<le> length s - 2" by (metis length_drop length_dropWhile_le)
  ultimately show ?thesis by (cases s) auto
qed

text \<open>The pieces of a string as \<open>sub\<close> and \<open>search\<close> find them, from left to right: characters and placeholders.\<close>

function pieces :: "string \<Rightarrow> (char + string) list" where
  "pieces [] = []"
| "pieces (c # cs) = (case placeholder_at (c # cs) of
     None \<Rightarrow> Inl c # pieces cs
   | Some (n, rest) \<Rightarrow> Inr n # pieces rest)"
  by pat_completeness auto
termination by (relation "measure length") (auto dest: placeholder_shorter)

definition has_placeholder :: "string \<Rightarrow> bool" where
  "has_placeholder s \<longleftrightarrow> list_ex (\<lambda>p. case p of Inl _ \<Rightarrow> False | Inr _ \<Rightarrow> True) (pieces s)"

definition lookup_parameter :: "(string \<times> json) list \<Rightarrow> string \<Rightarrow> string \<Rightarrow> (exn, json) result" where
  "lookup_parameter ps path name = (case map_of ps name of
     Some v \<Rightarrow> Inr v
   | None \<Rightarrow> (let text = ''unresolved parameter '' @ [CHR 0x27] @ name @ [CHR 0x27] in
       Inl (parameter_exn text ''AVS-PARAM-012'' text path)))"

definition interpolate :: "(string \<times> json) list \<Rightarrow> string \<Rightarrow> char + string \<Rightarrow> (exn, string) result" where
  "interpolate ps path piece = (case piece of
     Inl c \<Rightarrow> Inr [c]
   | Inr name \<Rightarrow> res_bind (lookup_parameter ps path name) (\<lambda>v. case v of
       JObj _ \<Rightarrow> Inl (parameter_exn ''structured parameter cannot be interpolated into a string'' ''AVS-PARAM-011''
         ''object/array parameters must occupy the entire field value'' path)
     | JList _ \<Rightarrow> Inl (parameter_exn ''structured parameter cannot be interpolated into a string'' ''AVS-PARAM-011''
         ''object/array parameters must occupy the entire field value'' path)
     | _ \<Rightarrow> Inr (py_str v)))"

definition substitute_text :: "(string \<times> json) list \<Rightarrow> string \<Rightarrow> string \<Rightarrow> (exn, json) result" where
  "substitute_text ps path s = (case placeholder_at s of
     Some (name, []) \<Rightarrow> lookup_parameter ps path name
   | _ \<Rightarrow> res_bind (map_each (interpolate ps path) (pieces s)) (\<lambda>parts. Inr (JStr (concat parts))))"

fun substitute :: "(string \<times> json) list \<Rightarrow> string \<Rightarrow> json \<Rightarrow> (exn, json) result" where
  "substitute ps path (JObj kvs) =
     res_bind (map_each (\<lambda>kv. res_bind (substitute ps (member_path path (fst kv)) (snd kv)) (\<lambda>x. Inr (fst kv, x))) kvs)
       (\<lambda>out. Inr (JObj out))"
| "substitute ps path (JList xs) =
     res_bind (map_each (\<lambda>ix. substitute ps (index_path path (fst ix)) (snd ix)) (enumerate 0 xs)) (\<lambda>out. Inr (JList out))"
| "substitute ps path (JStr s) = substitute_text ps path s"
| "substitute ps path v = Inr v"

definition reject_text :: "string \<Rightarrow> json \<Rightarrow> (exn, unit) result" where
  "reject_text path v = (case v of
     JStr s \<Rightarrow> raise_if (has_placeholder s)
       (parameter_exn ''unresolved parameter placeholder remains after compilation'' ''AVS-PARAM-013''
         ''unresolved placeholder'' path)
   | _ \<Rightarrow> Inr ())"

fun reject_unresolved :: "string \<Rightarrow> json \<Rightarrow> (exn, unit) result" where
  "reject_unresolved path v =
     res_bind (reject_text path v) (\<lambda>_. check_each (\<lambda>c. reject_unresolved (fst c) (snd c)) (children path v))"

declare reject_unresolved.simps [simp del]

section \<open>References and visibility\<close>

definition reference_schemes :: "string list" where
  "reference_schemes = [''env'', ''oracle'', ''mcp'', ''simulator'', ''artifact'', ''agent'', ''benchmark'']"

text \<open>\<open>^(?:env|...|benchmark)://[^\s]+$\<close>.\<close>

definition is_reference :: "string \<Rightarrow> bool" where
  "is_reference s \<longleftrightarrow> list_ex (\<lambda>scheme. let p = scheme @ ''://''; rest = drop (length p) s in
     take (length p) s = p \<and> rest \<noteq> [] \<and> list_all (\<lambda>c. \<not> is_space c) rest) reference_schemes"

definition text_reference :: "string \<Rightarrow> json \<Rightarrow> (string \<times> string) list" where
  "text_reference path v = (case v of JStr s \<Rightarrow> if is_reference s then [(path, s)] else [] | _ \<Rightarrow> [])"

fun collect_references :: "string \<Rightarrow> json \<Rightarrow> (string \<times> string) list" where
  "collect_references path v =
     text_reference path v @ concat (map (\<lambda>c. collect_references (fst c) (snd c)) (sorted_children path v))"

declare collect_references.simps [simp del]

definition resolve_reference :: "resolver \<Rightarrow> bool \<Rightarrow> string \<times> string \<Rightarrow> (exn, resolved_reference) result" where
  "resolve_reference resolver strict pu = (case pu of (path, uri) \<Rightarrow>
     res_bind (resolver path uri) (\<lambda>r.
     res_bind (raise_if (rf_path r \<noteq> path \<or> rf_uri r \<noteq> uri)
       (compile_exn ReferenceResolutionError (''resolver identity binding mismatch for reference: '' @ uri) ''AVS-REF-003''
         ''resolver response path/URI does not match the requested reference'' path)) (\<lambda>_.
     res_bind (raise_if (strict \<and> rf_mode r \<noteq> ''content'')
       (compile_exn ReferenceResolutionError (''strict compilation requires content resolution: '' @ uri) ''AVS-REF-002''
         ''strict compilation requires a content-backed reference digest'' path)) (\<lambda>_.
     Inr r))))"

definition resolve_references :: "resolver \<Rightarrow> json \<Rightarrow> bool \<Rightarrow> (exn, resolved_reference list) result" where
  "resolve_references resolver doc strict =
     res_bind (map_each (resolve_reference resolver strict) (collect_references ''$'' doc)) (\<lambda>rs.
     Inr (sort_key (\<lambda>r. (rf_path r, rf_uri r, rf_digest r)) rs))"

definition confidential_classifications :: "string list" where
  "confidential_classifications = [''evaluator-confidential'', ''secret'', ''regulated'']"

definition is_object :: "json \<Rightarrow> bool" where
  "is_object v \<longleftrightarrow> (case v of JObj _ \<Rightarrow> True | _ \<Rightarrow> False)"

fun find_confidential :: "string \<Rightarrow> json \<Rightarrow> (exn, (string \<times> string) option) result" where
  "find_confidential path v =
     res_bind (if is_object v then in_strings (jget_none v ''classification'') confidential_classifications else Inr False) (\<lambda>found.
     if found then Inr (Some (path, py_str (jget_none v ''classification'')))
     else first_found (\<lambda>c. find_confidential (fst c) (snd c)) (children path v))"

declare find_confidential.simps [simp del]

definition subject_candidate :: "json \<Rightarrow> json" where
  "subject_candidate doc =
     (let caps = jget_default doc ''capabilities'' (JObj []) in
      JObj [(''metadata'', jget_default doc ''metadata'' (JObj [])), (''task'', jget_default doc ''task'' (JObj [])),
        (''actors'', JList (filter (\<lambda>a. jget a ''id'' = Some (JStr ''subject'')) (jitems (jget_default doc ''actors'' (JList []))))),
        (''capabilities'', if is_object caps then JObj [(''subject'', jget_default caps ''subject'' (JObj []))] else JObj []),
        (''budgets'', jget_default doc ''budgets'' (JObj []))])"

definition validate_subject_visibility :: "json \<Rightarrow> (exn, unit) result" where
  "validate_subject_visibility doc =
     res_bind (find_confidential ''$.subject'' (subject_candidate doc)) (\<lambda>violation. case violation of
       None \<Rightarrow> Inr ()
     | Some (path, classification) \<Rightarrow> Inl (compile_exn VisibilityViolationError
         ''evaluator-confidential material is present in the Subject projection'' ''AVS-VIS-001''
         (''classification '' @ [CHR 0x27] @ classification @ [CHR 0x27] @ '' is not allowed in Agent-visible material'') path))"

section \<open>Parameters\<close>

definition parameter_path :: "string \<Rightarrow> string" where
  "parameter_path name = ''$.parameters.'' @ name"

definition quoted :: "string \<Rightarrow> string" where
  "quoted s = [CHR 0x27] @ s @ [CHR 0x27]"

definition parameter_types :: "string list" where
  "parameter_types = [''string'', ''integer'', ''number'', ''boolean'', ''array'', ''object'']"

definition has_type :: "string \<Rightarrow> json \<Rightarrow> bool" where
  "has_type t v \<longleftrightarrow> (case v of
     JNull \<Rightarrow> False | JBool _ \<Rightarrow> t = ''boolean'' | JInt _ \<Rightarrow> t \<in> {''integer'', ''number''} | JFloat _ \<Rightarrow> t = ''number''
   | JStr _ \<Rightarrow> t = ''string'' | JList _ \<Rightarrow> t = ''array'' | JObj _ \<Rightarrow> t = ''object'')"

definition check_type :: "string \<Rightarrow> json \<Rightarrow> json \<Rightarrow> (exn, unit) result" where
  "check_type name v spec =
     (let expected = jget_none spec ''type'' in
      if expected = JNull then Inr ()
      else res_bind (in_strings expected parameter_types) (\<lambda>known.
        res_bind (raise_if (\<not> known)
          (let text = ''unsupported parameter type '' @ quoted (py_str expected) in
           parameter_exn text ''AVS-PARAM-006'' text (parameter_path name @ ''.type''))) (\<lambda>_.
        raise_if (\<not> has_type (py_str expected) v)
          (parameter_exn (''parameter '' @ quoted name @ '' has invalid type'') ''AVS-PARAM-007''
            (''expected '' @ py_str expected) (parameter_path name)))))"

definition check_enum :: "string \<Rightarrow> json \<Rightarrow> json \<Rightarrow> (exn, unit) result" where
  "check_enum name v spec =
     (let enum = jget_none spec ''enum'' in
      if enum = JNull then Inr ()
      else res_bind (py_in v enum) (\<lambda>found.
        raise_if (\<not> found) (parameter_exn (''parameter '' @ quoted name @ '' is not in enum'') ''AVS-PARAM-008''
          (''value must be one of '' @ py_repr enum) (parameter_path name))))"

definition check_range :: "string \<Rightarrow> json \<Rightarrow> json \<Rightarrow> (exn, unit) result" where
  "check_range name v spec =
     (if \<not> (case v of JInt _ \<Rightarrow> True | JFloat _ \<Rightarrow> True | _ \<Rightarrow> False) then Inr ()
      else let low = jget_default spec ''minimum'' (jget_none spec ''min'');
               high = jget_default spec ''maximum'' (jget_none spec ''max'') in
        res_bind (if low = JNull then Inr False else py_less v low ''<'') (\<lambda>below.
        res_bind (raise_if below (parameter_exn (''parameter '' @ quoted name @ '' is below minimum'') ''AVS-PARAM-009''
          (''value must be >= '' @ py_str low) (parameter_path name))) (\<lambda>_.
        res_bind (if high = JNull then Inr False else
            (case (number_of v, number_of high) of (Some a, Some b) \<Rightarrow> Inr (number_less b a) | _ \<Rightarrow> py_less v high ''>'')) (\<lambda>above.
        raise_if above (parameter_exn (''parameter '' @ quoted name @ '' is above maximum'') ''AVS-PARAM-010''
          (''value must be <= '' @ py_str high) (parameter_path name))))))"

definition validate_parameter_value :: "string \<Rightarrow> json \<Rightarrow> json \<Rightarrow> (exn, unit) result" where
  "validate_parameter_value name v spec =
     res_bind (check_type name v spec) (\<lambda>_. res_bind (check_enum name v spec) (\<lambda>_. check_range name v spec))"

record compile_options =
  co_root_seed :: "int option"
  co_overrides :: "(string \<times> json) list"
  co_strict :: bool

text \<open>One parameter: \<open>None\<close> for an optional parameter without a value.\<close>

definition resolve_parameter :: "random_source \<Rightarrow> compile_options \<Rightarrow> int \<Rightarrow> string \<Rightarrow> json \<Rightarrow>
    (exn, (json \<times> generator_record option) option) result" where
  "resolve_parameter g opts data_seed name spec =
     (if \<not> is_object spec
      then Inl (parameter_exn (''parameter '' @ quoted name @ '' declaration must be an object'') ''AVS-PARAM-003''
        ''parameter declaration must be an object'' (parameter_path name))
      else res_bind
       (case map_of (co_overrides opts) name of
          Some v \<Rightarrow> Inr (Some (v, None))
        | None \<Rightarrow> (case jget spec ''value'' of
            Some v \<Rightarrow> Inr (Some (v, None))
          | None \<Rightarrow> (case jget spec ''default'' of
              Some v \<Rightarrow> Inr (Some (v, None))
            | None \<Rightarrow> (case jget spec ''generator'' of
                Some gen \<Rightarrow>
                  (if \<not> is_object gen
                   then Inl (parameter_exn (''parameter '' @ quoted name @ '' generator must be an object'') ''AVS-PARAM-004''
                     ''generator must be an object'' (parameter_path name @ ''.generator''))
                   else let seed = derive_seed data_seed (''parameter:'' @ name) in
                     res_bind (generate_parameter g name gen seed) (\<lambda>v.
                     Inr (Some (v, Some \<lparr>gr_parameter = name, gr_type = py_str (jget_default gen ''type'' (JStr [])),
                       gr_version = generators_version, gr_seed = seed\<rparr>))))
              | None \<Rightarrow> if py_truthy (jget_default spec ''required'' (JBool True))
                  then Inl (parameter_exn (''required parameter '' @ quoted name @ '' has no value'') ''AVS-PARAM-005''
                    ''required parameter has no value'' (parameter_path name))
                  else Inr None)))) (\<lambda>chosen.
       case chosen of
         None \<Rightarrow> Inr None
       | Some (v, record) \<Rightarrow> res_bind (validate_parameter_value name v spec) (\<lambda>_. Inr (Some (v, record)))))"

fun resolve_each :: "random_source \<Rightarrow> compile_options \<Rightarrow> int \<Rightarrow> (string \<times> json) list \<Rightarrow>
    (exn, (string \<times> json) list \<times> generator_record list) result" where
  "resolve_each g opts seed [] = Inr ([], [])"
| "resolve_each g opts seed ((name, spec) # rest) =
     res_bind (resolve_parameter g opts seed name spec) (\<lambda>chosen.
     res_bind (resolve_each g opts seed rest) (\<lambda>(vals, records).
     Inr (case chosen of
        None \<Rightarrow> (vals, records)
      | Some (v, record) \<Rightarrow> ((name, v) # vals, (case record of None \<Rightarrow> records | Some r \<Rightarrow> r # records)))))"

definition resolve_parameters :: "random_source \<Rightarrow> json \<Rightarrow> compile_options \<Rightarrow> int \<Rightarrow>
    (exn, (string \<times> json) list \<times> generator_record list) result" where
  "resolve_parameters g declarations opts data_seed = (case declarations of
     JObj specs \<Rightarrow>
       (case sort (remdups (filter (\<lambda>k. k \<notin> set (map fst specs)) (map fst (co_overrides opts)))) of
          name # _ \<Rightarrow> (let text = ''unknown parameter override '' @ quoted name in
            Inl (parameter_exn text ''AVS-PARAM-002'' text (parameter_path name)))
        | [] \<Rightarrow> resolve_each g opts data_seed (sort_key fst specs))
   | _ \<Rightarrow> Inl (parameter_exn ''parameters must be an object'' ''AVS-PARAM-001'' ''parameters must be an object'' ''$.parameters''))"

section \<open>Compilation\<close>

text \<open>What the compiler is given: \<open>cc_template_errors\<close> and \<open>cc_instance_errors\<close> are the sorted diagnostics of the schema
  validator, \<open>cc_fresh\<close> the random root seed.\<close>

record compiler_config =
  cc_resolver :: resolver
  cc_random :: random_source
  cc_version :: string
  cc_template_errors :: "json \<Rightarrow> compile_diagnostic list"
  cc_instance_errors :: "json \<Rightarrow> compile_diagnostic list"
  cc_jcs :: serializer
  cc_fresh :: int

definition validate_document :: "compile_diagnostic list \<Rightarrow> string \<Rightarrow> (exn, unit) result" where
  "validate_document diagnostics label =
     raise_if (diagnostics \<noteq> []) (CompileExn ScenarioValidationError
       (label @ '' failed schema validation ('' @ string_of_nat (length diagnostics) @ '' error(s))'') diagnostics)"

definition validate_supported_semantics :: "json \<Rightarrow> (exn, unit) result" where
  "validate_supported_semantics template =
     raise_if (py_truthy (jget_none template ''generators'')) (compile_exn ScenarioValidationError
       ''top-level AVS generators are not yet executable in this compiler'' ''AVS-SEM-001''
       ''top-level generators require a registered generator stage; use parameter.generator for Alpha 2'' ''$.generators'')"

text \<open>\<open>d[key] = value\<close> and \<open>d.pop(key, None)\<close> on a JSON object.\<close>

definition jset :: "string \<Rightarrow> json \<Rightarrow> json \<Rightarrow> json" where
  "jset k x v = (case v of JObj kvs \<Rightarrow> JObj (AList.update k x kvs) | _ \<Rightarrow> v)"

definition jpop :: "string \<Rightarrow> json \<Rightarrow> json" where
  "jpop k v = (case v of JObj kvs \<Rightarrow> JObj (AList.delete k kvs) | _ \<Rightarrow> v)"

definition materialize :: "json \<Rightarrow> json" where
  "materialize v = jset ''kind'' (JStr ''ScenarioInstance'') (jpop ''generators'' (jpop ''seeds'' (jpop ''parameters'' v)))"

definition reference_binding :: "resolved_reference \<Rightarrow> json" where
  "reference_binding r = JObj [(''location'', JStr (rf_path r)), (''reference'', JStr (rf_uri r)),
     (''identity'', JStr (rf_digest r)), (''identityType'', JStr (rf_mode r))]"

definition add_bindings :: "resolved_reference list \<Rightarrow> json \<Rightarrow> json" where
  "add_bindings rs v = (if rs = [] then v else jset ''referenceBindings'' (JList (map reference_binding rs)) v)"

text \<open>\<open>ScenarioInstance.__post_init__\<close>.\<close>

definition make_scenario_instance :: "compiler_config \<Rightarrow> scenario_instance \<Rightarrow> (exn, scenario_instance) result" where
  "make_scenario_instance cc s =
     res_bind (validate_document (cc_instance_errors cc (sc_document s)) ''ScenarioInstance'') (\<lambda>_.
     res_bind (verify_instance_identity (cc_jcs cc) (sc_document s) (Some (sc_instance_digest s))) (\<lambda>_.
     Inr s))"

definition provenance_of :: "compiler_config \<Rightarrow> json \<Rightarrow> json \<Rightarrow> json \<Rightarrow> string \<Rightarrow> seed_bundle \<Rightarrow> (string \<times> json) list \<Rightarrow>
    generator_record list \<Rightarrow> json" where
  "provenance_of cc name version source template_digest seeds parameters records = JObj
     [(''compiler'', JObj [(''name'', JStr ''avp-reference-avs''), (''version'', JStr (cc_version cc))]),
      (''template'', JObj [(''name'', name), (''version'', version), (''digest'', JStr template_digest)]),
      (''seedBundle'', seed_bundle_dict seeds), (''resolvedParameters'', JObj parameters),
      (''generators'', JList (map generator_record_dict records))]"

definition compile_scenario :: "compiler_config \<Rightarrow> json \<Rightarrow> compile_options \<Rightarrow> (exn, scenario_instance) result" where
  "compile_scenario cc source opts =
     res_bind (validate_document (cc_template_errors cc source) ''ScenarioTemplate'') (\<lambda>_.
     res_bind (validate_supported_semantics source) (\<lambda>_.
     let template_digest = json_digest source in
     res_bind (resolve_seed_bundle (cc_fresh cc) (jget_default source ''seeds'' (JObj [])) (co_root_seed opts)) (\<lambda>seeds.
     res_bind (resolve_parameters (cc_random cc) (jget_default source ''parameters'' (JObj [])) opts (sb_data seeds))
       (\<lambda>(parameters, records).
     res_bind (substitute parameters ''$'' source) (\<lambda>substituted.
     let materialized = materialize substituted in
     res_bind (resolve_references (cc_resolver cc) materialized (co_strict opts)) (\<lambda>references.
     res_bind (validate_subject_visibility materialized) (\<lambda>_.
     res_bind (reject_unresolved ''$'' materialized) (\<lambda>_.
     let bound = add_bindings references materialized in
     res_bind (jindex source ''metadata'') (\<lambda>metadata.
     res_bind (jindex metadata ''name'') (\<lambda>name.
     res_bind (jindex metadata ''version'') (\<lambda>version.
     let recorded = jset ''provenance'' (provenance_of cc name version source template_digest seeds parameters records) bound in
     res_bind (scenario_instance_digest (cc_jcs cc) recorded) (\<lambda>instance_digest.
     make_scenario_instance cc \<lparr>sc_template_digest = template_digest, sc_instance_digest = instance_digest,
       sc_document = jset ''instanceDigest'' (JStr instance_digest) recorded\<rparr>))))))))))))"

end
