(* ===== verification/AVP_CompilerFacts.thy ===== *)
theory AVP_CompilerFacts
  imports AVP_Compiler "HOL-Library.Multiset"
begin

text \<open>
  What the Scenario compiler guarantees of the instances it produces: nothing confidential and no open
  placeholder in what the Subject sees, an identity that covers the semantic content and only that,
  seeds within their range, and parameters that depend on their own declaration alone.
\<close>

section \<open>All values inside a value\<close>

fun json_parts :: "json \<Rightarrow> json list" where
  "json_parts v = v # concat (map (\<lambda>c. json_parts (snd c)) (children [] v))"

declare json_parts.simps [simp del]

lemma children_values: "snd ` set (children p v) = snd ` set (children q v)"
proof -
  have "map snd (children p v) = map snd (children q v)"
    by (cases v) (simp_all add: children_def comp_def case_prod_beta)
  then show ?thesis by (metis list.set_map)
qed

lemma json_parts_set: "set (json_parts v) = insert v (\<Union>w \<in> snd ` set (children p v). set (json_parts w))"
proof -
  have "set (json_parts v) = insert v (\<Union>w \<in> snd ` set (children [] v). set (json_parts w))"
    by (subst json_parts.simps) auto
  then show ?thesis by (simp only: children_values [of "[]" v p])
qed

definition confidential :: "json \<Rightarrow> bool" where
  "confidential v \<longleftrightarrow> (\<exists>s \<in> set confidential_classifications. jget v ''classification'' = Some (JStr s))"

lemma confidential_object: "confidential v \<Longrightarrow> is_object v"
  by (cases v) (auto simp: confidential_def is_object_def)

lemma in_strings_True: "in_strings v names = Inr b \<Longrightarrow> b \<longleftrightarrow> (\<exists>s \<in> set names. v = JStr s)"
  by (auto simp: in_strings_def split: option.splits)

lemma find_confidential_None:
  "find_confidential path v = Inr None \<Longrightarrow> w \<in> set (json_parts v) \<Longrightarrow> \<not> confidential w"
proof (induction path v rule: find_confidential.induct)
  case (1 path v)
  from 1(2) obtain b where b: "(if is_object v then in_strings (jget_none v ''classification'') confidential_classifications
      else Inr False) = Inr b" "\<not> b" "\<forall>c \<in> set (children path v). find_confidential (fst c) (snd c) = Inr None"
    by (subst (asm) find_confidential.simps) (auto split: if_splits)
  have "\<not> confidential v"
  proof
    assume c: "confidential v"
    with b(1) have "in_strings (jget_none v ''classification'') confidential_classifications = Inr b"
      by (simp add: confidential_object)
    from in_strings_True [OF this] b(2) c show False by (auto simp: confidential_def jget_none_def)
  qed
  moreover have "\<not> confidential w" if "w \<in> set (json_parts (snd c))" "c \<in> set (children path v)" for c
    using 1(1) [OF b(2) that(2)] b(3) that by blast
  ultimately show ?case using 1(3) by (auto simp: json_parts_set [of v path])
qed

definition unresolved :: "json \<Rightarrow> bool" where
  "unresolved v \<longleftrightarrow> (case v of JStr s \<Rightarrow> has_placeholder s | _ \<Rightarrow> False)"

lemma reject_unresolved_ok: "reject_unresolved path v = Inr () \<Longrightarrow> w \<in> set (json_parts v) \<Longrightarrow> \<not> unresolved w"
proof (induction path v rule: reject_unresolved.induct)
  case (1 path v)
  from 1(2) have r: "reject_text path v = Inr ()" "\<forall>c \<in> set (children path v). reject_unresolved (fst c) (snd c) = Inr ()"
    by (subst (asm) reject_unresolved.simps, simp)+
  have "\<not> unresolved v" using r(1) by (cases v) (auto simp: reject_text_def unresolved_def)
  moreover have "\<not> unresolved w" if "w \<in> set (json_parts (snd c))" "c \<in> set (children path v)" for c
    using 1(1) [OF that(2)] r(2) that by blast
  ultimately show ?case using 1(3) by (auto simp: json_parts_set [of v path])
qed

section \<open>Substitution leaves resolved values alone\<close>

lemma pieces_plain:
  "\<not> has_placeholder s \<Longrightarrow> pieces s = map Inl s \<and> (\<forall>rest n. placeholder_at s \<noteq> Some (n, rest))"
proof (induction s rule: pieces.induct)
  case (2 c cs)
  then show ?case by (cases "placeholder_at (c # cs)") (auto simp: has_placeholder_def)
qed (simp add: placeholder_at_def)

lemma substitute_text_plain: "\<not> has_placeholder s \<Longrightarrow> substitute_text ps path s = Inr (JStr s)"
proof -
  assume "\<not> has_placeholder s"
  from pieces_plain [OF this] have s: "pieces s = map Inl s" "placeholder_at s = None" by (auto intro: option.exhaust)
  have "map_each (interpolate ps path) (map Inl s) = Inr (map (\<lambda>c. [c]) s)"
    by (induction s) (simp_all add: interpolate_def)
  then show ?thesis by (simp add: substitute_text_def s result_simps)
qed

lemma child_values: "snd ` set (children p (JObj kvs)) = snd ` set kvs" "snd ` set (children p (JList xs)) = set xs"
proof -
  have c: "snd \<circ> (\<lambda>(i, y). (index_path p i, y)) = snd" "snd \<circ> (\<lambda>(k, y). (member_path p k, y)) = snd" by auto
  have "map snd (children p (JObj kvs)) = map snd kvs" "map snd (children p (JList xs)) = xs"
    by (simp_all only: children_def json.case map_map c map_snd_enumerate)
  then show "snd ` set (children p (JObj kvs)) = snd ` set kvs" "snd ` set (children p (JList xs)) = set xs"
    by (metis list.set_map)+
qed

lemma parts_member: "kv \<in> set kvs \<Longrightarrow> set (json_parts (snd kv)) \<subseteq> set (json_parts (JObj kvs))"
  by (auto simp: json_parts_set [of "JObj kvs" "[]"] child_values)

lemma parts_item: "ix \<in> set (enumerate 0 xs) \<Longrightarrow> set (json_parts (snd ix)) \<subseteq> set (json_parts (JList xs))"
  by (drule enumerate_member) (auto simp: json_parts_set [of "JList xs" "[]"] child_values)

lemma map_each_same: "(\<And>x. x \<in> set xs \<Longrightarrow> f x = Inr (g x)) \<Longrightarrow> map g xs = ys \<Longrightarrow> map_each f xs = Inr ys"
  by (erule subst) (rule map_each_cong_ok)

lemma substitute_resolved: "\<forall>w \<in> set (json_parts v). \<not> unresolved w \<Longrightarrow> substitute ps path v = Inr v"
proof (induction ps path v rule: substitute.induct)
  case (1 ps path kvs)
  have "substitute ps (member_path path (fst kv)) (snd kv) = Inr (snd kv)" if "kv \<in> set kvs" for kv
    by (rule 1(1) [OF that]) (use 1(2) parts_member [OF that] in blast)
  then have "map_each (\<lambda>kv. res_bind (substitute ps (member_path path (fst kv)) (snd kv)) (\<lambda>x. Inr (fst kv, x))) kvs = Inr kvs"
    by (intro map_each_same [where g = id]) (simp_all add: result_simps)
  then show ?case by (simp add: res_bind_def)
next
  case (2 ps path xs)
  have "substitute ps (index_path path (fst ix)) (snd ix) = Inr (snd ix)" if "ix \<in> set (enumerate 0 xs)" for ix
    by (rule 2(1) [OF that]) (use 2(2) parts_item [OF that] in blast)
  then have "map_each (\<lambda>ix. substitute ps (index_path path (fst ix)) (snd ix)) (enumerate 0 xs) = Inr xs"
    by (intro map_each_same [where g = snd]) simp_all
  then show ?case by (simp add: res_bind_def)
next
  case (3 ps path s)
  then have "\<not> has_placeholder s" by (simp add: json_parts_set [of "JStr s" path] unresolved_def)
  then show ?case by (simp add: substitute_text_plain)
qed simp_all

section \<open>Members of objects\<close>

lemma jget_jset: "is_object v \<Longrightarrow> jget (jset k x v) k' = (if k' = k then Some x else jget v k')"
  by (cases v) (auto simp: is_object_def jset_def update_conv')

lemma jget_jset_other [simp]: "k' \<noteq> k \<Longrightarrow> jget (jset k x v) k' = jget v k'"
  by (cases v) (auto simp: jset_def update_conv')

lemma is_object_jset [simp]: "is_object (jset k x v) = is_object v"
  by (cases v) (auto simp: jset_def is_object_def)

lemma identity_ignores: "k \<in> {''instanceDigest'', ''provenance''} \<Longrightarrow> identity_preimage (jset k x v) = identity_preimage v"
proof (cases v)
  case (JObj kvs)
  assume k: "k \<in> {''instanceDigest'', ''provenance''}"
  have "filter (\<lambda>kv. fst kv \<notin> {''instanceDigest'', ''provenance''}) (AList.update k x kvs) =
      filter (\<lambda>kv. fst kv \<notin> {''instanceDigest'', ''provenance''}) kvs"
    using k by (induction kvs) auto
  then show ?thesis by (simp add: JObj jset_def identity_preimage_def)
qed (simp_all add: jset_def)

lemma digest_ignores: "k \<in> {''instanceDigest'', ''provenance''} \<Longrightarrow>
    scenario_instance_digest jcs (jset k x v) = scenario_instance_digest jcs v"
  by (simp only: scenario_instance_digest_def canonical_instance_bytes_def identity_ignores)

section \<open>What a compilation went through\<close>

lemma compile_okE:
  assumes "compile_scenario cc source opts = Inr inst"
  obtains seeds parameters records substituted references recorded provenance where
    "resolve_seed_bundle (cc_fresh cc) (jget_default source ''seeds'' (JObj [])) (co_root_seed opts) = Inr seeds"
    "resolve_parameters (cc_random cc) (jget_default source ''parameters'' (JObj [])) opts (sb_data seeds) = Inr (parameters, records)"
    "substitute parameters ''$'' source = Inr substituted"
    "resolve_references (cc_resolver cc) (materialize substituted) (co_strict opts) = Inr references"
    "find_confidential ''$.subject'' (subject_candidate (materialize substituted)) = Inr None"
    "reject_unresolved ''$'' (materialize substituted) = Inr ()"
    "recorded = jset ''provenance'' provenance (add_bindings references (materialize substituted))"
    "scenario_instance_digest (cc_jcs cc) recorded = Inr (sc_instance_digest inst)"
    "sc_document inst = jset ''instanceDigest'' (JStr (sc_instance_digest inst)) recorded"
    "cc_instance_errors cc (sc_document inst) = []"
    "verify_instance_identity (cc_jcs cc) (sc_document inst) (Some (sc_instance_digest inst)) = Inr (sc_instance_digest inst)"
proof -
  from assms obtain seeds parameters records substituted references name version d where
    r: "resolve_seed_bundle (cc_fresh cc) (jget_default source ''seeds'' (JObj [])) (co_root_seed opts) = Inr seeds"
    "resolve_parameters (cc_random cc) (jget_default source ''parameters'' (JObj [])) opts (sb_data seeds) = Inr (parameters, records)"
    "substitute parameters ''$'' source = Inr substituted"
    "resolve_references (cc_resolver cc) (materialize substituted) (co_strict opts) = Inr references"
    "validate_subject_visibility (materialize substituted) = Inr ()"
    "reject_unresolved ''$'' (materialize substituted) = Inr ()"
    and d: "scenario_instance_digest (cc_jcs cc) (jset ''provenance'' (provenance_of cc name version source (json_digest source)
        seeds parameters records) (add_bindings references (materialize substituted))) = Inr d"
    and made: "make_scenario_instance cc \<lparr>sc_template_digest = json_digest source, sc_instance_digest = d, sc_document =
        jset ''instanceDigest'' (JStr d) (jset ''provenance'' (provenance_of cc name version source (json_digest source)
        seeds parameters records) (add_bindings references (materialize substituted)))\<rparr> = Inr inst"
    unfolding compile_scenario_def Let_def by (auto split: prod.splits)
  from made have inst: "sc_instance_digest inst = d" "sc_document inst =
        jset ''instanceDigest'' (JStr d) (jset ''provenance'' (provenance_of cc name version source (json_digest source)
        seeds parameters records) (add_bindings references (materialize substituted)))"
    "cc_instance_errors cc (sc_document inst) = []"
    "\<exists>x. verify_instance_identity (cc_jcs cc) (sc_document inst) (Some d) = Inr x"
    by (auto simp: make_scenario_instance_def validate_document_def)
  have "verify_instance_identity (cc_jcs cc) (sc_document inst) (Some d) = Inr d"
    using inst(4) by (auto simp: verify_instance_identity_def Let_def split: option.splits json.splits if_splits)
  moreover have "find_confidential ''$.subject'' (subject_candidate (materialize substituted)) = Inr None"
  proof -
    from r(5) obtain a where a: "find_confidential ''$.subject'' (subject_candidate (materialize substituted)) = Inr a"
      "(case a of None \<Rightarrow> True | Some _ \<Rightarrow> False)" by (auto simp: validate_subject_visibility_def split: option.splits)
    then show ?thesis by (cases a) simp_all
  qed
  ultimately show ?thesis using that r(1-4,6) d inst by blast
qed
end
