(* ===== verification/AVP_CompilerProps.thy ===== *)
theory AVP_CompilerProps
  imports AVP_CompilerFacts
begin

text \<open>The properties of the Scenario compiler, with a small template as the example they are applied to.\<close>

section \<open>Predicates on all parts\<close>

definition all_parts :: "(json \<Rightarrow> bool) \<Rightarrow> json \<Rightarrow> bool" where
  "all_parts P v \<longleftrightarrow> (\<forall>w \<in> set (json_parts v). P w)"

lemma all_parts_children: "all_parts P v \<longleftrightarrow> P v \<and> (\<forall>w \<in> snd ` set (children [] v). all_parts P w)"
  by (auto simp: all_parts_def json_parts_set [of v "[]"])

lemma all_parts_self: "all_parts P v \<Longrightarrow> P v"
  using all_parts_children [of P v] by blast

lemma all_parts_obj [simp]: "all_parts P (JObj kvs) \<longleftrightarrow> P (JObj kvs) \<and> (\<forall>kv \<in> set kvs. all_parts P (snd kv))"
  by (subst all_parts_children) (simp add: child_values)

lemma all_parts_list [simp]: "all_parts P (JList xs) \<longleftrightarrow> P (JList xs) \<and> (\<forall>x \<in> set xs. all_parts P x)"
  by (subst all_parts_children) (simp add: child_values)

lemma all_parts_str [simp]: "all_parts P (JStr s) \<longleftrightarrow> P (JStr s)"
  by (subst all_parts_children) (simp add: children_def)

lemma all_parts_member: "all_parts P v \<Longrightarrow> jget v k = Some x \<Longrightarrow> all_parts P x"
  by (cases v) (force dest: map_of_SomeD)+

lemma all_parts_default: "all_parts P v \<Longrightarrow> all_parts P d \<Longrightarrow> all_parts P (jget_default v k d)"
  by (auto simp: jget_default_def all_parts_member split: option.splits)

lemma all_parts_items: "all_parts P v \<Longrightarrow> x \<in> set (jitems v) \<Longrightarrow> all_parts P x"
  by (cases v) (auto simp: jitems_def)

lemma plain_shapes [simp]:
  "\<not> confidential (JList xs)" "\<not> confidential (JStr s)" "\<not> unresolved (JList xs)" "\<not> unresolved (JObj kvs)"
  "unresolved (JStr s) \<longleftrightarrow> has_placeholder s" "\<not> confidential (JObj [])"
  by (simp_all add: confidential_def unresolved_def)

lemma no_classification: "''classification'' \<notin> set (map fst kvs) \<Longrightarrow> \<not> confidential (JObj kvs)"
  by (force simp: confidential_def dest: map_of_SomeD)

lemma reads_materialized:
  assumes "doc = jset ''instanceDigest'' x (jset ''provenance'' y (add_bindings rs m))"
    "k \<notin> {''instanceDigest'', ''provenance'', ''referenceBindings''}"
  shows "jget doc k = jget m k" "jget_default doc k d = jget_default m k d"
  using assms by (simp_all add: add_bindings_def jget_default_def)

lemma kind_materialized: "is_object m \<Longrightarrow> jget (materialize m) ''kind'' = Some (JStr ''ScenarioInstance'')"
  by (cases m) (simp_all add: materialize_def jpop_def jset_def is_object_def update_conv')

lemma candidate_parts:
  assumes conf: "all_parts (\<lambda>w. \<not> confidential w) (subject_candidate m)"
    and unres: "all_parts (\<lambda>w. \<not> unresolved w) m"
  shows "all_parts (\<lambda>w. \<not> confidential w \<and> \<not> unresolved w) (jget_default m ''metadata'' (JObj []))"
    "all_parts (\<lambda>w. \<not> confidential w \<and> \<not> unresolved w) (jget_default m ''task'' (JObj []))"
    "all_parts (\<lambda>w. \<not> confidential w \<and> \<not> unresolved w) (jget_default m ''budgets'' (JObj []))"
    "all_parts (\<lambda>w. \<not> confidential w \<and> \<not> unresolved w)
       (JList (filter (\<lambda>a. jget a ''id'' = Some (JStr ''subject'')) (jitems (jget_default m ''actors'' (JList [])))))"
    "all_parts (\<lambda>w. \<not> confidential w \<and> \<not> unresolved w)
       (jget_default (jget_default m ''capabilities'' (JObj [])) ''subject'' (JObj []))"
proof -
  have both: "all_parts (\<lambda>w. \<not> confidential w \<and> \<not> unresolved w) v \<longleftrightarrow>
      all_parts (\<lambda>w. \<not> confidential w) v \<and> all_parts (\<lambda>w. \<not> unresolved w) v" for v
    by (auto simp: all_parts_def)
  have o: "all_parts (\<lambda>w. \<not> unresolved w) (jget_default m k (JObj []))" for k by (rule all_parts_default [OF unres]) simp
  have c: "all_parts (\<lambda>w. \<not> confidential w) (jget_default m ''metadata'' (JObj []))"
    "all_parts (\<lambda>w. \<not> confidential w) (jget_default m ''task'' (JObj []))"
    "all_parts (\<lambda>w. \<not> confidential w) (jget_default m ''budgets'' (JObj []))"
    "all_parts (\<lambda>w. \<not> confidential w)
       (JList (filter (\<lambda>a. jget a ''id'' = Some (JStr ''subject'')) (jitems (jget_default m ''actors'' (JList [])))))"
    "all_parts (\<lambda>w. \<not> confidential w) (if is_object (jget_default m ''capabilities'' (JObj []))
       then JObj [(''subject'', jget_default (jget_default m ''capabilities'' (JObj [])) ''subject'' (JObj []))] else JObj [])"
    using conf unfolding subject_candidate_def Let_def all_parts_obj by (simp_all only: list.set ball_simps insert_iff snd_conv)
  show "all_parts (\<lambda>w. \<not> confidential w \<and> \<not> unresolved w) (jget_default m ''metadata'' (JObj []))"
    "all_parts (\<lambda>w. \<not> confidential w \<and> \<not> unresolved w) (jget_default m ''task'' (JObj []))"
    "all_parts (\<lambda>w. \<not> confidential w \<and> \<not> unresolved w) (jget_default m ''budgets'' (JObj []))"
    unfolding both using c(1-3) o by blast+
  have "all_parts (\<lambda>w. \<not> unresolved w) (jget_default m ''actors'' (JList []))" by (rule all_parts_default [OF unres]) simp
  then have "\<forall>x \<in> set (jitems (jget_default m ''actors'' (JList []))). all_parts (\<lambda>w. \<not> unresolved w) x"
    using all_parts_items by blast
  then show "all_parts (\<lambda>w. \<not> confidential w \<and> \<not> unresolved w)
       (JList (filter (\<lambda>a. jget a ''id'' = Some (JStr ''subject'')) (jitems (jget_default m ''actors'' (JList [])))))"
    unfolding both using c(4) by simp
  let ?caps = "jget_default m ''capabilities'' (JObj [])"
  have "all_parts (\<lambda>w. \<not> confidential w) (jget_default ?caps ''subject'' (JObj []))"
  proof (cases "is_object ?caps")
    case True with c(5) show ?thesis by simp
  next
    case False
    then have "jget ?caps ''subject'' = None" by (cases ?caps) (simp_all add: is_object_def)
    then show ?thesis by (simp add: jget_default_def)
  qed
  moreover have "all_parts (\<lambda>w. \<not> unresolved w) (jget_default ?caps ''subject'' (JObj []))"
    by (rule all_parts_default [OF o]) simp
  ultimately show "all_parts (\<lambda>w. \<not> confidential w \<and> \<not> unresolved w) (jget_default ?caps ''subject'' (JObj []))"
    unfolding both by blast
qed

lemma plain_constants: "\<not> has_placeholder ''avp.spec/v0.1''" "\<not> has_placeholder ''ScenarioInstance''"
  by code_simp+

section \<open>An example\<close>

definition demo_random :: random_source where
  "demo_random = \<lparr>rg_range = (\<lambda>_ lo _. lo), rg_uniform = (\<lambda>_ lo _. lo), rg_choices = (\<lambda>_ _. Inr 0)\<rparr>"

definition demo_schema :: "json \<Rightarrow> compile_diagnostic list" where
  "demo_schema doc =
     (if jget doc ''apiVersion'' = Some (JStr ''avp.spec/v0.1'') \<and> jget doc ''kind'' = Some (JStr ''ScenarioInstance'') then []
      else [\<lparr>dg_code = ''AVS-SCHEMA-002'', dg_message = [], dg_path = ''$''\<rparr>])"

definition demo_compiler :: compiler_config where
  "demo_compiler = \<lparr>cc_resolver = symbolic_resolver, cc_random = demo_random, cc_version = ''v'', cc_template_errors = (\<lambda>_. []),
     cc_instance_errors = demo_schema, cc_jcs = (\<lambda>v. Inr (utf8 (canonical_json v))), cc_fresh = 0\<rparr>"

definition dollar :: "string \<Rightarrow> string" where
  "dollar name = [CHR 0x24, CHR 0x7B] @ name @ [CHR 0x7D]"

definition demo_template :: json where
  "demo_template = JObj [(''apiVersion'', JStr ''avp.spec/v0.1''), (''kind'', JStr ''ScenarioTemplate''),
     (''metadata'', JObj [(''name'', JStr ''n''), (''version'', JStr ''1'')]),
     (''parameters'', JObj [(''a'', JObj [(''type'', JStr ''integer''), (''default'', JInt 3)])]),
     (''seeds'', JObj (map (\<lambda>d. (d, JInt 7)) seed_dimensions)),
     (''task'', JObj [(''limit'', JStr (dollar ''a''))])]"

definition demo_options :: compile_options where
  "demo_options = \<lparr>co_root_seed = Some 0, co_overrides = [], co_strict = False\<rparr>"

definition demo_substituted :: json where
  "demo_substituted = JObj [(''apiVersion'', JStr ''avp.spec/v0.1''), (''kind'', JStr ''ScenarioTemplate''),
     (''metadata'', JObj [(''name'', JStr ''n''), (''version'', JStr ''1'')]),
     (''parameters'', JObj [(''a'', JObj [(''type'', JStr ''integer''), (''default'', JInt 3)])]),
     (''seeds'', JObj (map (\<lambda>d. (d, JInt 7)) seed_dimensions)),
     (''task'', JObj [(''limit'', JInt 3)])]"

lemma demo_substitute: "substitute [(''a'', JInt 3)] ''$'' demo_template = Inr demo_substituted"
  by code_simp

lemma all_parts_child: "all_parts P v \<Longrightarrow> c \<in> set (children path v) \<Longrightarrow> all_parts P (snd c)"
  using all_parts_children [of P v] children_values [of path v "[]"] by blast

lemma unclassified_found:
  "all_parts (\<lambda>w. jget w ''classification'' = None) v \<Longrightarrow> find_confidential path v = Inr None"
proof (induction path v rule: find_confidential.induct)
  case (1 path v)
  have "jget v ''classification'' = None" by (rule all_parts_self [OF 1(2)])
  then have "in_strings (jget_none v ''classification'') confidential_classifications = Inr False"
    by (simp add: in_strings_def jget_none_def)
  moreover have "find_confidential (fst c) (snd c) = Inr None" if "c \<in> set (children path v)" for c
    by (rule 1(1) [of False, OF _ that all_parts_child [OF 1(2) that]]) simp
  then have "first_found (\<lambda>c. find_confidential (fst c) (snd c)) (children path v) = Inr None" by simp
  ultimately show ?case unfolding find_confidential.simps [of path v] by (simp add: res_bind_def)
qed

lemma no_references: "all_parts (\<lambda>w. text_reference [] w = []) v \<Longrightarrow> collect_references path v = []"
proof (induction path v rule: collect_references.induct)
  case (1 path v)
  have "text_reference [] v = []" by (rule all_parts_self [OF 1(2)])
  then have "text_reference path v = []" by (cases v) (simp_all add: text_reference_def split: if_splits)
  moreover have "collect_references (fst c) (snd c) = []" if "c \<in> set (children path v)" for c
    by (rule 1(1)) (use that all_parts_child [OF 1(2) that] in simp_all)
  then have "concat (map (\<lambda>c. collect_references (fst c) (snd c)) (sorted_children path v)) = []" by simp
  ultimately show ?case unfolding collect_references.simps [of path v] by (simp only: append_Nil)
qed

definition demo_instance_body :: json where
  "demo_instance_body = JObj [(''apiVersion'', JStr ''avp.spec/v0.1''), (''kind'', JStr ''ScenarioInstance''),
     (''metadata'', JObj [(''name'', JStr ''n''), (''version'', JStr ''1'')]), (''task'', JObj [(''limit'', JInt 3)])]"

lemma demo_materialized: "materialize demo_substituted = demo_instance_body"
  by (simp add: materialize_def demo_substituted_def demo_instance_body_def jpop_def jset_def)

lemma all_parts_int [simp]: "all_parts P (JInt i) \<longleftrightarrow> P (JInt i)"
  by (subst all_parts_children) (simp add: children_def)

lemma resolved_accepted: "all_parts (\<lambda>w. \<not> unresolved w) v \<Longrightarrow> reject_unresolved path v = Inr ()"
proof (induction path v rule: reject_unresolved.induct)
  case (1 path v)
  have "\<not> unresolved v" by (rule all_parts_self [OF 1(2)])
  then have "reject_text path v = Inr ()" by (cases v) (simp_all add: reject_text_def unresolved_def)
  moreover have "reject_unresolved (fst c) (snd c) = Inr ()" if "c \<in> set (children path v)" for c
    by (rule 1(1)) (use that all_parts_child [OF 1(2) that] in simp_all)
  then have "check_each (\<lambda>c. reject_unresolved (fst c) (snd c)) (children path v) = Inr ()" by simp
  ultimately show ?case unfolding reject_unresolved.simps [of path v] by (simp add: res_bind_def)
qed

lemma demo_checks: "reject_unresolved ''$'' demo_instance_body = Inr ()"
  "find_confidential ''$.subject'' (subject_candidate demo_instance_body) = Inr None"
  "collect_references ''$'' demo_instance_body = []"
proof -
  have "\<not> has_placeholder ''n''" "\<not> has_placeholder ''1''" by code_simp+
  then show "reject_unresolved ''$'' demo_instance_body = Inr ()"
    by (intro resolved_accepted) (simp add: demo_instance_body_def plain_constants, simp add: unresolved_def)
  show "find_confidential ''$.subject'' (subject_candidate demo_instance_body) = Inr None"
    by (rule unclassified_found)
      (simp add: subject_candidate_def demo_instance_body_def jget_default_def jitems_def is_object_def Let_def)
  show "collect_references ''$'' demo_instance_body = []"
    by (rule no_references) (simp add: demo_instance_body_def text_reference_def is_reference_def reference_schemes_def)
qed

lemma demo_seeds: "resolve_seed_bundle 0 (jget_default demo_template ''seeds'' (JObj [])) (Some 0) = Inr (seed_bundle_of (replicate 8 7))"
  by (simp add: resolve_seed_bundle_def demo_template_def seed_dimensions_def jget_default_def resolve_dimension_def Let_def
      result_simps numeral_eq_Suc)

lemma demo_parameters:
  "resolve_parameters g (jget_default demo_template ''parameters'' (JObj [])) demo_options n = Inr ([(''a'', JInt 3)], [])"
  by (simp add: resolve_parameters_def demo_template_def demo_options_def jget_default_def resolve_parameter_def is_object_def
      validate_parameter_value_def check_type_def check_enum_def check_range_def jget_none_def Let_def in_strings_def
      parameter_types_def py_str_def has_type_def result_simps)

lemma demo_compiled: "\<exists>inst. compile_scenario demo_compiler demo_template demo_options = Inr inst"
proof -
  have refs: "resolve_references (cc_resolver demo_compiler) demo_instance_body (co_strict demo_options) = Inr []"
    by (simp add: resolve_references_def demo_checks result_simps)
  have vis: "validate_subject_visibility demo_instance_body = Inr ()"
    by (simp add: validate_subject_visibility_def demo_checks result_simps)
  have made: "\<exists>inst. make_scenario_instance demo_compiler \<lparr>sc_template_digest = t, sc_instance_digest = sha256_id b,
      sc_document = jset ''instanceDigest'' (JStr (sha256_id b)) (jset ''provenance'' p demo_instance_body)\<rparr> = Inr inst"
    if "scenario_instance_digest (cc_jcs demo_compiler) (jset ''provenance'' p demo_instance_body) = Inr (sha256_id b)" for t b p
  proof -
    let ?doc = "jset ''instanceDigest'' (JStr (sha256_id b)) (jset ''provenance'' p demo_instance_body)"
    have "jget ?doc ''apiVersion'' = Some (JStr ''avp.spec/v0.1'')" "jget ?doc ''kind'' = Some (JStr ''ScenarioInstance'')"
      by (simp_all add: demo_instance_body_def)
    then have schema: "cc_instance_errors demo_compiler ?doc = []" by (simp add: demo_compiler_def demo_schema_def)
    have "jget ?doc ''instanceDigest'' = Some (JStr (sha256_id b))"
      by (rule trans [OF jget_jset]) (simp_all, simp add: demo_instance_body_def is_object_def)
    moreover have "scenario_instance_digest (cc_jcs demo_compiler) ?doc = Inr (sha256_id b)"
      using that by (simp only: digest_ignores insert_iff simp_thms)
    ultimately have "verify_instance_identity (cc_jcs demo_compiler) ?doc (Some (sha256_id b)) = Inr (sha256_id b)"
      by (simp add: verify_instance_identity_def Let_def result_simps)
    with schema show ?thesis by (simp add: make_scenario_instance_def validate_document_def result_simps)
  qed
  have "jget_none demo_template ''generators'' = JNull" "jindex demo_template ''metadata'' = Inr (JObj [(''name'', JStr ''n''), (''version'', JStr ''1'')])"
    by (simp_all add: demo_template_def jget_none_def jindex_def)
  then show ?thesis
    using demo_seeds demo_parameters demo_substitute refs vis demo_checks(1) made
    by (simp add: compile_scenario_def demo_compiler_def demo_options_def validate_document_def validate_supported_semantics_def
        demo_materialized add_bindings_def scenario_instance_digest_def canonical_instance_bytes_def py_truthy_def jindex_def
        Let_def result_simps)
qed

section \<open>Properties\<close>

text \<open>C8: Nothing confidential reaches the Subject: in the Subject's projection of a compiled Scenario no value at any
  depth carries a confidential classification, and no text has an open placeholder. The instance schema fixes
  \<open>apiVersion\<close> and \<open>kind\<close> to constants.\<close>

theorem compiled_subject_view_is_clean:
  assumes "compile_scenario cc source opts = Inr inst" "scenario_subject_projection ''subject'' inst = Inr view"
    "\<And>doc. cc_instance_errors cc doc = [] \<Longrightarrow> jget doc ''apiVersion'' = Some (JStr ''avp.spec/v0.1'') \<and>
       jget doc ''kind'' = Some (JStr ''ScenarioInstance'')"
    "w \<in> set (json_parts view)"
  shows "\<not> confidential w \<and> \<not> unresolved w"
proof -
  from assms(1) obtain substituted references recorded provenance where
    c: "find_confidential ''$.subject'' (subject_candidate (materialize substituted)) = Inr None"
    "reject_unresolved ''$'' (materialize substituted) = Inr ()"
    "sc_document inst = jset ''instanceDigest'' (JStr (sc_instance_digest inst)) recorded"
    "recorded = jset ''provenance'' provenance (add_bindings references (materialize substituted))"
    "cc_instance_errors cc (sc_document inst) = []"
    by (rule compile_okE)
  let ?m = "materialize substituted" and ?clean = "\<lambda>w. \<not> confidential w \<and> \<not> unresolved w"
  have "all_parts (\<lambda>w. \<not> confidential w) (subject_candidate ?m)" "all_parts (\<lambda>w. \<not> unresolved w) ?m"
    using find_confidential_None [OF c(1)] reject_unresolved_ok [OF c(2)] by (auto simp: all_parts_def)
  note parts = candidate_parts [OF this]
  note reads = reads_materialized [OF c(3) [unfolded c(4)]]
  have constants: "jindex (sc_document inst) ''apiVersion'' = Inr (JStr ''avp.spec/v0.1'')"
    "jindex (sc_document inst) ''kind'' = Inr (JStr ''ScenarioInstance'')" using assms(3) [OF c(5)] by (simp_all add: jindex_def)
  let ?caps = "jget_default (jget_default ?m ''capabilities'' (JObj [])) ''subject'' (JObj [])"
  let ?actors = "JList (filter (\<lambda>a. jget a ''id'' = Some (JStr ''subject'')) (jitems (jget_default ?m ''actors'' (JList []))))"
  have view: "view = JObj [(''apiVersion'', JStr ''avp.spec/v0.1''), (''kind'', JStr ''ScenarioInstance''),
      (''metadata'', jget_default ?m ''metadata'' (JObj [])), (''task'', jget_default ?m ''task'' (JObj [])),
      (''actors'', ?actors), (''capabilities'', JObj [(''subject'', ?caps)]), (''budgets'', jget_default ?m ''budgets'' (JObj []))]"
    using assms(2) constants by (simp add: scenario_subject_projection_def reads Let_def res_bind_def)
  have "all_parts ?clean view"
    unfolding view all_parts_obj list.set ball_simps insert_iff snd_conv
    using parts plain_constants by (simp add: no_classification del: all_parts_list)
  with assms(4) show ?thesis by (simp add: all_parts_def)
qed

theorem compiled_subject_view_is_clean_witness:
  "\<exists>inst. compile_scenario demo_compiler demo_template demo_options = Inr inst \<and>
     (\<forall>view w. scenario_subject_projection ''subject'' inst = Inr view \<and> w \<in> set (json_parts view) \<longrightarrow> \<not> confidential w)"
proof -
  obtain inst where inst: "compile_scenario demo_compiler demo_template demo_options = Inr inst" using demo_compiled by blast
  have schema: "jget doc ''apiVersion'' = Some (JStr ''avp.spec/v0.1'') \<and> jget doc ''kind'' = Some (JStr ''ScenarioInstance'')"
    if "cc_instance_errors demo_compiler doc = []" for doc
    using that by (simp add: demo_compiler_def demo_schema_def split: if_splits)
  from compiled_subject_view_is_clean [OF inst _ schema] inst show ?thesis by blast
qed

text \<open>C9: The identity of a compiled Scenario is verifiable and covers exactly its semantic content: the declared digest
  verifies, replacing the provenance of the instance by any other leaves it unchanged, and so does compiling with
  another compiler version.\<close>

theorem compiled_identity_ignores_provenance:
  assumes "compile_scenario cc source opts = Inr inst"
  shows "verify_instance_identity (cc_jcs cc) (sc_document inst) (Some (sc_instance_digest inst)) = Inr (sc_instance_digest inst) \<and>
    scenario_instance_digest (cc_jcs cc) (jset ''provenance'' p (sc_document inst)) = Inr (sc_instance_digest inst) \<and>
    (\<forall>inst'. compile_scenario (cc\<lparr>cc_version := v\<rparr>) source opts = Inr inst' \<longrightarrow> sc_instance_digest inst' = sc_instance_digest inst)"
proof -
  from assms obtain seeds parameters records substituted references recorded provenance where c:
    "resolve_seed_bundle (cc_fresh cc) (jget_default source ''seeds'' (JObj [])) (co_root_seed opts) = Inr seeds"
    "resolve_parameters (cc_random cc) (jget_default source ''parameters'' (JObj [])) opts (sb_data seeds) = Inr (parameters, records)"
    "substitute parameters ''$'' source = Inr substituted"
    "resolve_references (cc_resolver cc) (materialize substituted) (co_strict opts) = Inr references"
    "recorded = jset ''provenance'' provenance (add_bindings references (materialize substituted))"
    "scenario_instance_digest (cc_jcs cc) recorded = Inr (sc_instance_digest inst)"
    "sc_document inst = jset ''instanceDigest'' (JStr (sc_instance_digest inst)) recorded"
    "verify_instance_identity (cc_jcs cc) (sc_document inst) (Some (sc_instance_digest inst)) = Inr (sc_instance_digest inst)"
    by (rule compile_okE)
  have content: "scenario_instance_digest (cc_jcs cc) (add_bindings references (materialize substituted)) = Inr (sc_instance_digest inst)"
    using c(6) unfolding c(5) by (simp add: digest_ignores)
  have "sc_instance_digest inst' = sc_instance_digest inst" if other: "compile_scenario (cc\<lparr>cc_version := v\<rparr>) source opts = Inr inst'" for inst'
  proof -
    from other obtain seeds' parameters' records' substituted' references' recorded' provenance' where o:
      "resolve_seed_bundle (cc_fresh cc) (jget_default source ''seeds'' (JObj [])) (co_root_seed opts) = Inr seeds'"
      "resolve_parameters (cc_random cc) (jget_default source ''parameters'' (JObj [])) opts (sb_data seeds') = Inr (parameters', records')"
      "substitute parameters' ''$'' source = Inr substituted'"
      "resolve_references (cc_resolver cc) (materialize substituted') (co_strict opts) = Inr references'"
      "recorded' = jset ''provenance'' provenance' (add_bindings references' (materialize substituted'))"
      "scenario_instance_digest (cc_jcs cc) recorded' = Inr (sc_instance_digest inst')"
      by (rule compile_okE) simp
    from c(1-4) o(1-4) have "references' = references" "substituted' = substituted" by simp_all
    with content o(5,6) show ?thesis by (simp add: digest_ignores)
  qed
  moreover have "scenario_instance_digest (cc_jcs cc) (jset ''provenance'' p (sc_document inst)) = Inr (sc_instance_digest inst)"
    using content by (simp add: c(5,7) digest_ignores)
  ultimately show ?thesis using c(8) by blast
qed

theorem compiled_identity_ignores_provenance_witness:
  "\<exists>inst. compile_scenario demo_compiler demo_template demo_options = Inr inst \<and>
     scenario_instance_digest (cc_jcs demo_compiler) (jset ''provenance'' JNull (sc_document inst)) = Inr (sc_instance_digest inst)"
  using demo_compiled compiled_identity_ignores_provenance by blast

text \<open>Compilation is complete: every member of a compiled document other than the three the compiler adds is a fixed
  point of substitution under any parameters, so no later pass over the instance can change what it means.\<close>

theorem compiled_members_are_resolved:
  assumes "compile_scenario cc source opts = Inr inst" "jget (sc_document inst) k = Some v"
    "k \<notin> {''instanceDigest'', ''provenance'', ''referenceBindings''}"
  shows "substitute parameters path v = Inr v"
proof -
  from assms(1) obtain substituted references recorded provenance where
    c: "reject_unresolved ''$'' (materialize substituted) = Inr ()"
    "sc_document inst = jset ''instanceDigest'' (JStr (sc_instance_digest inst)) recorded"
    "recorded = jset ''provenance'' provenance (add_bindings references (materialize substituted))"
    by (rule compile_okE)
  from assms(2) have "jget (materialize substituted) k = Some v"
    using reads_materialized(1) [OF c(2) [unfolded c(3)] assms(3)] by simp
  moreover have "all_parts (\<lambda>w. \<not> unresolved w) (materialize substituted)"
    using reject_unresolved_ok [OF c(1)] by (auto simp: all_parts_def)
  ultimately have "all_parts (\<lambda>w. \<not> unresolved w) v" using all_parts_member by blast
  then show ?thesis by (intro substitute_resolved) (simp add: all_parts_def)
qed

theorem compiled_members_are_resolved_witness:
  "\<exists>inst. compile_scenario demo_compiler demo_template demo_options = Inr inst \<and>
     (\<forall>v ps path. jget (sc_document inst) ''task'' = Some v \<longrightarrow> substitute ps path v = Inr v)"
proof -
  obtain inst where inst: "compile_scenario demo_compiler demo_template demo_options = Inr inst" using demo_compiled by blast
  from compiled_members_are_resolved [OF inst, of "''task''"] inst show ?thesis by simp
qed

section \<open>Parameters and references\<close>

lemma resolve_each_lookup:
  assumes "resolve_each g opts seed specs = Inr (vals, records)" "distinct (map fst specs)"
  shows "set (map fst vals) \<subseteq> set (map fst specs)"
    "map_of vals name = (case map_of specs name of None \<Rightarrow> None
     | Some spec \<Rightarrow> (case resolve_parameter g opts seed name spec of Inr (Some (v, _)) \<Rightarrow> Some v | _ \<Rightarrow> None))"
proof -
  have "set (map fst vals) \<subseteq> set (map fst specs) \<and> map_of vals name = (case map_of specs name of None \<Rightarrow> None
     | Some spec \<Rightarrow> (case resolve_parameter g opts seed name spec of Inr (Some (v, _)) \<Rightarrow> Some v | _ \<Rightarrow> None))"
    using assms
  proof (induction specs arbitrary: vals records)
    case (Cons s specs)
    obtain k spec where s: "s = (k, spec)" by fastforce
    with Cons.prems(1) obtain chosen vals' records' where
      a: "resolve_parameter g opts seed k spec = Inr chosen" "resolve_each g opts seed specs = Inr (vals', records')"
      by (auto simp: res_bind_def split: sum.splits)
    moreover from a Cons.prems(1) s have "vals = (case chosen of None \<Rightarrow> vals' | Some (v, record) \<Rightarrow> (k, v) # vals')"
      by (auto simp: res_bind_def split: option.splits)
    moreover have "distinct (map fst specs)" "k \<notin> set (map fst specs)" using Cons.prems(2) s by simp_all
    ultimately show ?case using Cons.IH [of vals' records'] s map_of_eq_None_iff [of vals' k]
      by (auto split: option.splits)
  qed simp
  then show "set (map fst vals) \<subseteq> set (map fst specs)"
    "map_of vals name = (case map_of specs name of None \<Rightarrow> None
     | Some spec \<Rightarrow> (case resolve_parameter g opts seed name spec of Inr (Some (v, _)) \<Rightarrow> Some v | _ \<Rightarrow> None))" by blast+
qed

lemma map_of_sorted_specs: "distinct (map fst xs) \<Longrightarrow> map_of (sort_key fst xs) = map_of xs"
  by (intro map_of_inject_set [THEN iffD2]) (simp_all add: distinct_map inj_on_def)

lemma resolve_parameters_lookup:
  assumes "resolve_parameters g (JObj specs) opts seed = Inr (vals, records)" "distinct (map fst specs)"
  shows "map_of vals name = (case map_of specs name of None \<Rightarrow> None
     | Some spec \<Rightarrow> (case resolve_parameter g opts seed name spec of Inr (Some (v, _)) \<Rightarrow> Some v | _ \<Rightarrow> None))"
proof -
  from assms(1) have "resolve_each g opts seed (sort_key fst specs) = Inr (vals, records)"
    by (simp add: resolve_parameters_def Let_def split: list.splits)
  moreover have "distinct (map fst (sort_key fst specs))" using assms(2) by (simp add: distinct_map)
  ultimately show ?thesis using resolve_each_lookup(2) assms(2) by (simp add: map_of_sorted_specs)
qed

lemma resolved_parameter_valid:
  "resolve_parameter g opts seed name spec = Inr (Some (v, record)) \<Longrightarrow> validate_parameter_value name v spec = Inr ()"
  by (auto simp: resolve_parameter_def res_bind_def split: if_splits sum.splits option.splits)

lemma resolve_parameter_own_override:
  "map_of (co_overrides opts) name = map_of (co_overrides opts') name \<Longrightarrow>
   resolve_parameter g opts seed name spec = resolve_parameter g opts' seed name spec"
  by (simp add: resolve_parameter_def)

lemma found_references:
  "snd ` set (collect_references path v) = {s. JStr s \<in> set (json_parts v) \<and> is_reference s}"
proof (induction path v rule: collect_references.induct)
  case (1 path v)
  have "snd ` set (collect_references path v) = snd ` set (text_reference path v) \<union>
      (\<Union>c \<in> set (children path v). snd ` set (collect_references (fst c) (snd c)))"
    by (subst collect_references.simps) (simp add: image_Un image_UN)
  also have "(\<Union>c \<in> set (children path v). snd ` set (collect_references (fst c) (snd c))) =
      (\<Union>c \<in> set (children path v). {s. JStr s \<in> set (json_parts (snd c)) \<and> is_reference s})"
    using 1 by simp
  also have "snd ` set (text_reference path v) = {s. v = JStr s \<and> is_reference s}"
    by (cases v) (auto simp: text_reference_def)
  finally show ?case by (auto simp: json_parts_set [of v path])
qed

lemma resolve_reference_okD:
  "resolve_reference resolver strict pu = Inr r \<Longrightarrow>
   (rf_path r, rf_uri r) = pu \<and> resolver (rf_path r) (rf_uri r) = Inr r \<and> (strict \<longrightarrow> rf_mode r = ''content'')"
  by (auto simp: resolve_reference_def res_bind_def raise_if_def split: sum.splits if_splits prod.splits)

lemma list_all2_mset: "list_all2 (\<lambda>x y. f y = x) xs ys \<Longrightarrow> mset xs = image_mset f (mset ys)"
  by (induction rule: list_all2_induct) simp_all

text \<open>C10: A parameter depends on its own declaration and override alone: two successful resolutions from the same seed that
  agree on them give it the same value, whatever other parameters are declared or generated, and the value
  satisfies the declared type, enumeration and bounds.\<close>

theorem parameters_are_independent:
  assumes "resolve_parameters g (JObj specs) opts seed = Inr (vals, records)"
    "resolve_parameters g (JObj specs') opts' seed = Inr (vals', records')"
    "distinct (map fst specs)" "distinct (map fst specs')"
    "map_of specs name = map_of specs' name" "map_of (co_overrides opts) name = map_of (co_overrides opts') name"
  shows "map_of vals name = map_of vals' name \<and>
    (\<forall>v. map_of vals name = Some v \<longrightarrow> (\<exists>spec. map_of specs name = Some spec \<and> validate_parameter_value name v spec = Inr ()))"
proof -
  note lookups = resolve_parameters_lookup [OF assms(1,3), of name] resolve_parameters_lookup [OF assms(2,4), of name]
  have "map_of vals name = map_of vals' name"
    unfolding lookups assms(5) using resolve_parameter_own_override [OF assms(6)] by (simp split: option.splits)
  moreover have "\<exists>spec. map_of specs name = Some spec \<and> validate_parameter_value name v spec = Inr ()"
    if "map_of vals name = Some v" for v
    using that unfolding lookups(1) by (auto split: option.splits sum.splits dest: resolved_parameter_valid)
  ultimately show ?thesis by blast
qed

definition demo_specs :: "(string \<times> json) list" where
  "demo_specs = [(''amount'', JObj [(''type'', JStr ''integer''),
     (''generator'', JObj [(''type'', JStr ''integer''), (''min'', JInt 3), (''max'', JInt 9)])])]"

lemma demo_integer_spec: "resolve_parameters demo_random (JObj demo_specs) demo_options 5 =
    Inr ([(''amount'', JInt 3)], [\<lparr>gr_parameter = ''amount'', gr_type = ''integer'', gr_version = generators_version,
      gr_seed = derive_seed 5 ''parameter:amount''\<rparr>])"
  by (simp add: demo_specs_def resolve_parameters_def demo_options_def resolve_parameter_def is_object_def
      generate_parameter_def generate_integer_def demo_random_def jindex_def py_int_raw_def py_int_of_def py_str_def
      validate_parameter_value_def check_type_def check_enum_def check_range_def jget_none_def jget_default_def
      in_strings_def parameter_types_def has_type_def Let_def result_simps)

lemma name_order: "''amount'' \<le> ''zone''" "\<not> ''zone'' \<le> ''amount''"
  by code_simp+

lemma demo_two_specs: "resolve_parameters demo_random (JObj ((''zone'', JObj [(''value'', JStr ''eu'')]) # demo_specs)) demo_options 5 =
    Inr ([(''amount'', JInt 3), (''zone'', JStr ''eu'')], [\<lparr>gr_parameter = ''amount'', gr_type = ''integer'',
      gr_version = generators_version, gr_seed = derive_seed 5 ''parameter:amount''\<rparr>])"
  by (simp add: demo_specs_def resolve_parameters_def demo_options_def resolve_parameter_def is_object_def
      generate_parameter_def generate_integer_def demo_random_def jindex_def py_int_raw_def py_int_of_def py_str_def
      validate_parameter_value_def check_type_def check_enum_def check_range_def jget_none_def jget_default_def
      in_strings_def parameter_types_def has_type_def Let_def result_simps name_order)

theorem parameters_are_independent_witness:
  "map_of [(''amount'', JInt 3), (''zone'', JStr ''eu'')] ''amount'' = map_of [(''amount'', JInt 3)] ''amount''"
  using parameters_are_independent [OF demo_two_specs demo_integer_spec, of "''amount''"] by (simp add: demo_specs_def)

text \<open>The references of a Scenario are complete and bound: the resolved references are, up to order, exactly the strings
  of the document that are references, each with what the resolver answered for its own path and URI, sorted, and
  all backed by content in a strict compilation.\<close>

theorem resolved_references_are_exact:
  assumes "resolve_references resolver doc strict = Inr rs"
  shows "rf_uri ` set rs = {s. JStr s \<in> set (json_parts doc) \<and> is_reference s} \<and>
    mset (map (\<lambda>r. (rf_path r, rf_uri r)) rs) = mset (collect_references ''$'' doc) \<and>
    (\<forall>r \<in> set rs. resolver (rf_path r) (rf_uri r) = Inr r \<and> (strict \<longrightarrow> rf_mode r = ''content'')) \<and>
    sorted (map (\<lambda>r. (rf_path r, rf_uri r, rf_digest r)) rs)"
proof -
  from assms obtain out where out: "map_each (resolve_reference resolver strict) (collect_references ''$'' doc) = Inr out"
    and rs: "rs = sort_key (\<lambda>r. (rf_path r, rf_uri r, rf_digest r)) out"
    by (auto simp: resolve_references_def res_bind_def split: sum.splits)
  from map_each_okD [OF out]
  have all2: "list_all2 (\<lambda>pu r. (rf_path r, rf_uri r) = pu \<and> resolver (rf_path r) (rf_uri r) = Inr r \<and> (strict \<longrightarrow> rf_mode r = ''content''))
      (collect_references ''$'' doc) out"
    by (rule list_all2_mono) (rule resolve_reference_okD)
  then have "mset (collect_references ''$'' doc) = image_mset (\<lambda>r. (rf_path r, rf_uri r)) (mset out)"
    by (intro list_all2_mset) (auto elim!: list_all2_mono)
  then have bag: "mset (map (\<lambda>r. (rf_path r, rf_uri r)) rs) = mset (collect_references ''$'' doc)" by (simp add: rs)
  have "rf_uri ` set rs = snd ` set (map (\<lambda>r. (rf_path r, rf_uri r)) rs)" by force
  also have "\<dots> = snd ` set (collect_references ''$'' doc)" using mset_eq_setD [OF bag] by simp
  finally have "rf_uri ` set rs = {s. JStr s \<in> set (json_parts doc) \<and> is_reference s}" by (simp only: found_references)
  moreover have "resolver (rf_path r) (rf_uri r) = Inr r \<and> (strict \<longrightarrow> rf_mode r = ''content'')" if "r \<in> set rs" for r
    using all2 that by (auto simp: rs list_all2_conv_all_nth in_set_conv_nth)
  ultimately show ?thesis using bag by (simp add: rs)
qed

lemma demo_found: "is_reference ''env://shop''" "\<not> is_reference ''plain''"
  by (simp_all add: is_reference_def reference_schemes_def Let_def is_space_def)

lemma demo_collected: "collect_references ''$'' (JList [JStr ''env://shop'', JStr ''plain'']) = [(index_path ''$'' 0, ''env://shop'')]"
    by (simp add: demo_found collect_references.simps [of _ "JList _"] collect_references.simps [of _ "JStr _"] text_reference_def
        sorted_children_def children_def)

lemma demo_resolved: "resolve_references symbolic_resolver (JList [JStr ''env://shop'', JStr ''plain'']) False =
   Inr [\<lparr>rf_path = index_path ''$'' 0, rf_uri = ''env://shop'', rf_digest = json_digest (JObj [(''uri'', JStr ''env://shop'')]),
     rf_mode = ''symbolic'', rf_media_type = None, rf_version = None\<rparr>]"
    by (simp add: demo_collected resolve_references_def resolve_reference_def symbolic_resolver_def result_simps)

theorem resolved_references_are_exact_witness:
  "rf_uri ` {r. resolve_references symbolic_resolver (JList [JStr ''env://shop'', JStr ''plain'']) False = Inr [r]} = {''env://shop''}"
  using resolved_references_are_exact [OF demo_resolved] by (simp add: demo_resolved)

end
