(* ===== verification/AVP_OracleWire.thy ===== *)
theory AVP_OracleWire
  imports AVP_OraclePackage AVP_Boundary AVP_Python
begin

text \<open>
  \<^verbatim>\<open>oracle_runner/protocol.py\<close>: the single-frame JSON protocol between the Oracle runner and its
  worker process. Frames are written with canonical JSON and UTF-8; reading them back
  (\<open>bytes.decode\<close> and \<open>json.loads\<close>) is given by a \<open>text_reader\<close>. Non-finite numbers are left out.
\<close>

section \<open>Frames\<close>

definition protocol_version :: string where
  "protocol_version = ''avp.oracle/v2''"

abbreviation protocol_exn :: "string \<Rightarrow> exn" where
  "protocol_exn \<equiv> OracleExn OracleProtocolError"

definition json_bytes :: "json \<Rightarrow> bytes" where
  "json_bytes v = utf8 (canonical_json v @ [CHR 0x0A])"

definition bounded_frame :: "string \<Rightarrow> int \<Rightarrow> bytes \<Rightarrow> (exn, bytes) result" where
  "bounded_frame what limit frame =
     res_bind (raise_if (limit < int (length frame)) (protocol_exn (''Oracle '' @ what @ '' exceeds configured frame limit'')))
       (\<lambda>_. Inr frame)"

definition request_document :: "oracle_request \<Rightarrow> json" where
  "request_document r = JObj ((''protocol'', JStr protocol_version) # oracle_request_dict r)"

definition encode_request :: "oracle_request \<Rightarrow> int \<Rightarrow> (exn, bytes) result" where
  "encode_request r limit = bounded_frame ''request'' limit (json_bytes (request_document r))"

text \<open>\<open>tr_decode\<close> is \<open>frame.decode("utf-8")\<close> (\<open>None\<close> for \<open>UnicodeDecodeError\<close>), \<open>tr_loads\<close> is \<open>json.loads\<close> (\<open>None\<close> for
  \<open>JSONDecodeError\<close>).\<close>

record text_reader =
  tr_decode :: "bytes \<Rightarrow> string option"
  tr_loads :: "string \<Rightarrow> json option"

text \<open>\<open>str.splitlines()\<close> on code points below 256.\<close>

definition is_line_break :: "char \<Rightarrow> bool" where
  "is_line_break c \<longleftrightarrow> (let n = (of_char c :: nat) in 10 \<le> n \<and> n \<le> 13 \<or> 28 \<le> n \<and> n \<le> 30 \<or> n = 133)"

fun after_break :: "string \<Rightarrow> string" where
  "after_break (c # d # s) = (if c = CHR 0x0D \<and> d = CHR 0x0A then s else d # s)"
| "after_break _ = []"

lemma length_after_break [simp]: "length (after_break s) \<le> length s - 1"
  by (induction s rule: after_break.induct) auto

function split_lines :: "string \<Rightarrow> string list" where
  "split_lines [] = []"
| "split_lines (c # cs) =
     takeWhile (\<lambda>x. \<not> is_line_break x) (c # cs) # split_lines (after_break (dropWhile (\<lambda>x. \<not> is_line_break x) (c # cs)))"
  by pat_completeness auto
termination
proof (relation "measure length")
  fix c cs
  have "length (after_break (dropWhile (\<lambda>x. \<not> is_line_break x) (c # cs))) \<le> length (dropWhile (\<lambda>x. \<not> is_line_break x) (c # cs)) - 1"
    by (rule length_after_break)
  also have "\<dots> \<le> length (c # cs) - 1" using length_dropWhile_le by (rule diff_le_mono)
  finally show "(after_break (dropWhile (\<lambda>x. \<not> is_line_break x) (c # cs)), c # cs) \<in> measure length"
    by (simp only: in_measure) simp
qed simp

definition blank_line :: "string \<Rightarrow> bool" where
  "blank_line s \<longleftrightarrow> list_all is_space s"

definition proto_mapping :: "json \<Rightarrow> string \<Rightarrow> (exn, json) result" where
  "proto_mapping v label = (case v of JObj _ \<Rightarrow> Inr v | _ \<Rightarrow> Inl (protocol_exn (label @ '' must be an object'')))"

definition proto_string :: "json \<Rightarrow> string \<Rightarrow> (exn, string) result" where
  "proto_string v label = (case v of
     JStr s \<Rightarrow> if s = [] then Inl (protocol_exn (label @ '' must be a non-empty string'')) else Inr s
   | _ \<Rightarrow> Inl (protocol_exn (label @ '' must be a non-empty string'')))"

definition proto_optional :: "json \<Rightarrow> string \<Rightarrow> (exn, string option) result" where
  "proto_optional v label = (if v = JNull then Inr None else res_bind (proto_string v label) (\<lambda>s. Inr (Some s)))"

definition proto_strings :: "json \<Rightarrow> string \<Rightarrow> (exn, string list) result" where
  "proto_strings v label =
     (let bad = Inl (protocol_exn (label @ '' must be an array of non-empty strings'')) in
      case v of
        JList xs \<Rightarrow> (if list_all (\<lambda>x. case x of JStr s \<Rightarrow> s \<noteq> [] | _ \<Rightarrow> False) xs
          then Inr (map (\<lambda>x. case x of JStr s \<Rightarrow> s | _ \<Rightarrow> []) xs) else bad)
      | _ \<Rightarrow> bad)"

definition decode_single_frame :: "text_reader \<Rightarrow> bytes \<Rightarrow> int \<Rightarrow> (exn, json) result" where
  "decode_single_frame tr frame limit =
     res_bind (raise_if (limit < int (length frame)) (protocol_exn ''Oracle frame exceeds configured limit'')) (\<lambda>_.
     case tr_decode tr frame of
       None \<Rightarrow> Inl (protocol_exn ''Oracle frame must be UTF-8'')
     | Some text \<Rightarrow> (case filter (\<lambda>l. \<not> blank_line l) (split_lines text) of
         [line] \<Rightarrow> (case tr_loads tr line of
             None \<Rightarrow> Inl (protocol_exn ''Oracle frame is not valid JSON'')
           | Some v \<Rightarrow> proto_mapping v ''frame'')
       | _ \<Rightarrow> Inl (protocol_exn ''Oracle protocol requires exactly one JSON frame'')))"

section \<open>Requests\<close>

definition object_members :: "json \<Rightarrow> (string \<times> json) list" where
  "object_members v = (case v of JObj kvs \<Rightarrow> kvs | _ \<Rightarrow> [])"

definition decode_package :: "json \<Rightarrow> (exn, oracle_package) result" where
  "decode_package raw =
     res_bind (proto_string (jget_none raw ''oracle_id'') ''package.oracle_id'') (\<lambda>oid.
     res_bind (proto_string (jget_none raw ''version'') ''package.version'') (\<lambda>version.
     res_bind (proto_string (jget_none raw ''entrypoint'') ''package.entrypoint'') (\<lambda>entry.
     res_bind (proto_string (jget_none raw ''code_digest'') ''package.code_digest'') (\<lambda>code.
     res_bind (proto_strings (jget_none raw ''projections'') ''package.projections'') (\<lambda>projections.
     res_bind (proto_mapping (jget_default raw ''input_pointers'' (JObj [])) ''package.input_pointers'') (\<lambda>pointers.
     res_bind (map_each (\<lambda>(k, v). res_bind (proto_string v (''package.input_pointers.'' @ k)) (\<lambda>s. Inr (k, s)))
       (object_members pointers)) (\<lambda>input_pointers.
     res_bind (proto_optional (jget_none raw ''package_digest'') ''package.package_digest'') (\<lambda>digest.
     make_oracle_package \<lparr>pk_oracle_id = oid, pk_version = version, pk_entrypoint = entry, pk_code_digest = code,
       pk_projections = projections, pk_input_pointers = input_pointers, pk_package_digest = digest\<rparr>))))))))"

definition decode_projection :: "string \<times> json \<Rightarrow> (exn, string \<times> projection_snapshot) result" where
  "decode_projection kv = (case kv of (key, v) \<Rightarrow>
     res_bind (proto_mapping v (''context.projections.'' @ key)) (\<lambda>item.
     res_bind (proto_string (jget_none item ''projection_id'') (''context.projections.'' @ key @ ''.projection_id'')) (\<lambda>pid.
     res_bind (raise_if (pid \<noteq> key) (protocol_exn ''projection map key and projection_id differ'')) (\<lambda>_.
     res_bind (proto_string (jget_none item ''state_digest'') ''projection.state_digest'') (\<lambda>digest.
     res_bind (make_projection_snapshot pid (jget_none item ''data'') digest) (\<lambda>s. Inr (key, s)))))))"

definition decode_context :: "json \<Rightarrow> (exn, oracle_context) result" where
  "decode_context raw =
     res_bind (proto_mapping (jget_none raw ''projections'') ''context.projections'') (\<lambda>projections_raw.
     res_bind (map_each decode_projection (object_members projections_raw)) (\<lambda>projections.
     res_bind (proto_string (jget_none raw ''episode_id'') ''context.episode_id'') (\<lambda>eid.
     res_bind (proto_string (jget_none raw ''scenario_instance_digest'') ''context.scenario_instance_digest'') (\<lambda>scenario.
     res_bind (proto_string (jget_none raw ''manifest_digest'') ''context.manifest_digest'') (\<lambda>manifest.
     res_bind (proto_mapping (jget_default raw ''inputs'' (JObj [])) ''context.inputs'') (\<lambda>inputs.
     make_oracle_context eid scenario manifest (object_members inputs) projections))))))"

definition decode_request :: "text_reader \<Rightarrow> bytes \<Rightarrow> int \<Rightarrow> (exn, oracle_request) result" where
  "decode_request tr frame limit =
     res_bind (decode_single_frame tr frame limit) (\<lambda>raw.
     res_bind (raise_if (jget_none raw ''protocol'' \<noteq> JStr protocol_version)
       (protocol_exn ''unsupported Oracle protocol version'')) (\<lambda>_.
     res_bind (proto_mapping (jget_none raw ''package'') ''package'') (\<lambda>package_raw.
     res_bind (proto_mapping (jget_none raw ''context'') ''context'') (\<lambda>context_raw.
     res_bind (decode_package package_raw) (\<lambda>package.
     res_bind (decode_context context_raw) (\<lambda>context.
     res_bind (proto_string (jget_none raw ''request_id'') ''request_id'') (\<lambda>rid.
     make_oracle_request rid package context)))))))"

section \<open>Responses\<close>

definition payload_frame :: "oracle_payload \<Rightarrow> json" where
  "payload_frame p = JObj ([(''evidence_id'', JStr (op_evidence_id p)), (''type'', JStr (op_evidence_type p)),
     (''media_type'', JStr (op_media_type p)), (''digest'', JStr (op_digest p)),
     (''content_base64'', JStr (b64_encode (op_content p))), (''classification'', JStr (op_classification p))] @
     (case op_producer p of None \<Rightarrow> [] | Some s \<Rightarrow> [(''producer'', JStr s)]))"

fun encode_payloads :: "string list \<Rightarrow> oracle_payload list \<Rightarrow> (exn, json list) result" where
  "encode_payloads seen [] = Inr []"
| "encode_payloads seen (p # ps) =
     res_bind (raise_if (op_evidence_id p \<in> set seen)
       (protocol_exn (''duplicate Oracle evidence id: '' @ op_evidence_id p))) (\<lambda>_.
     res_bind (raise_if (sha256_id (op_content p) \<noteq> op_digest p)
       (protocol_exn (''Oracle evidence digest mismatch: '' @ op_evidence_id p))) (\<lambda>_.
     res_bind (encode_payloads (op_evidence_id p # seen) ps) (\<lambda>out. Inr (payload_frame p # out))))"

definition encode_result :: "string list \<Rightarrow> verification_result \<Rightarrow> (exn, json) result" where
  "encode_result ids r =
     (let missing = filter (\<lambda>i. i \<notin> set ids) (vr_evidence_ids r) in
      res_bind (raise_if (missing \<noteq> []) (protocol_exn (''verification result references missing evidence: '' @
        py_repr (jstrs (sort (remdups missing)))))) (\<lambda>_. Inr (output_result_dict r)))"

definition response_document :: "string \<Rightarrow> json list \<Rightarrow> json list \<Rightarrow> json" where
  "response_document rid results payloads = JObj [(''protocol'', JStr protocol_version), (''request_id'', JStr rid),
     (''status'', JStr ''SUCCESS''), (''results'', JList results), (''evidence'', JList payloads)]"

definition encode_success :: "string \<Rightarrow> verification_result list \<Rightarrow> oracle_payload list \<Rightarrow> int \<Rightarrow> (exn, bytes) result" where
  "encode_success rid results payloads limit =
     res_bind (encode_payloads [] payloads) (\<lambda>evidence.
     res_bind (map_each (encode_result (map op_evidence_id payloads)) results) (\<lambda>out.
     bounded_frame ''response'' limit (json_bytes (response_document rid out evidence))))"

text \<open>\<open>base64.b64decode(s, validate=True)\<close>: whole quantums of the alphabet, padding only at the end.\<close>

definition b64_valid :: "string \<Rightarrow> bool" where
  "b64_valid s \<longleftrightarrow> length s mod 4 = 0 \<and>
     dropWhile (\<lambda>c. c \<in> set b64_alphabet) s \<in> {[], ''='', ''==''}"

definition decode_content :: "json \<Rightarrow> (exn, bytes) result" where
  "decode_content v =
     res_bind (proto_string v ''evidence.content_base64'') (\<lambda>s.
     if b64_valid s then Inr (b64_decode s)
     else Inl (protocol_exn ''Oracle evidence content is not valid canonical base64''))"

definition decode_payload :: "string list \<Rightarrow> json \<Rightarrow> (exn, oracle_payload) result" where
  "decode_payload seen raw =
     res_bind (proto_mapping raw ''evidence item'') (\<lambda>item.
     res_bind (proto_string (jget_none item ''evidence_id'') ''evidence_id'') (\<lambda>eid.
     res_bind (raise_if (eid \<in> set seen) (protocol_exn (''duplicate Oracle evidence id: '' @ eid))) (\<lambda>_.
     res_bind (decode_content (jget_none item ''content_base64'')) (\<lambda>content.
     res_bind (proto_string (jget_none item ''digest'') ''evidence.digest'') (\<lambda>digest.
     res_bind (raise_if (sha256_id content \<noteq> digest) (protocol_exn (''Oracle evidence digest mismatch: '' @ eid))) (\<lambda>_.
     res_bind (proto_string (jget_none item ''type'') ''evidence.type'') (\<lambda>etype.
     res_bind (proto_string (jget_none item ''media_type'') ''evidence.media_type'') (\<lambda>media.
     res_bind (proto_string (jget_default item ''classification'' (JStr ''evaluator-confidential'')) ''evidence.classification'')
       (\<lambda>classification.
     res_bind (proto_optional (jget_none item ''producer'') ''evidence.producer'') (\<lambda>producer.
     case make_oracle_payload \<lparr>op_evidence_id = eid, op_evidence_type = etype, op_content = content, op_media_type = media,
         op_digest = digest, op_classification = classification, op_producer = producer\<rparr> of
       Inl e \<Rightarrow> Inl (if is_type_or_value_error e then protocol_exn (''invalid Oracle evidence payload: '' @ eid) else e)
     | Inr p \<Rightarrow> Inr p))))))))))"

fun decode_payloads :: "string list \<Rightarrow> json list \<Rightarrow> (exn, oracle_payload list) result" where
  "decode_payloads seen [] = Inr []"
| "decode_payloads seen (raw # rest) =
     res_bind (decode_payload seen raw) (\<lambda>p.
     res_bind (decode_payloads (op_evidence_id p # seen) rest) (\<lambda>ps. Inr (p # ps)))"

definition verdict_names :: "string list" where
  "verdict_names = [''PASS'', ''PARTIAL'', ''FAIL'', ''INCONCLUSIVE'']"

definition all_validities :: "validity list" where
  "all_validities = [VALID, INVALID_TASK, INVALID_INITIAL_STATE, ENVIRONMENT_FAILURE, RESET_FAILURE, ORACLE_FAILURE,
     TRACE_INCOMPLETE, INFRA_CONFOUND, CONTAMINATED, UNKNOWN]"

text \<open>\<open>0 <= float(confidence) <= 1\<close>; an integer beyond the range of a float raises \<open>OverflowError\<close>.\<close>

definition unit_interval :: "pyfloat \<Rightarrow> bool" where
  "unit_interval f \<longleftrightarrow> float_digits f = 0 \<or> \<not> float_neg f \<and>
     (if 0 \<le> float_exp f then float_digits f * 10 ^ nat (float_exp f) \<le> 1 else float_digits f \<le> 10 ^ nat (- float_exp f))"

definition decode_confidence :: "json \<Rightarrow> (exn, pyfloat) result" where
  "decode_confidence v =
     (let bad = Inl (protocol_exn ''Oracle result confidence must be between 0 and 1'') in
      case v of
        JFloat f \<Rightarrow> if unit_interval f then Inr f else bad
      | JInt i \<Rightarrow> (if float_overflow i then Inl (OverflowError ''int too large to convert to float'')
          else if 0 \<le> i \<and> i \<le> 1 then Inr (PyFloat False (nat i) 0) else bad)
      | _ \<Rightarrow> bad)"

definition decode_validity :: "json \<Rightarrow> (exn, validity) result" where
  "decode_validity v =
     res_bind (proto_string v ''result.validity'') (\<lambda>s.
     case List.find (\<lambda>x. validity_value x = s) all_validities of
       None \<Rightarrow> Inl (protocol_exn ''Oracle result validity is unknown'')
     | Some x \<Rightarrow> Inr x)"

definition decode_result :: "string list \<Rightarrow> json \<Rightarrow> (exn, verification_result) result" where
  "decode_result ids raw =
     res_bind (proto_mapping raw ''result item'') (\<lambda>item.
     res_bind (proto_strings (jget_default item ''evidence_ids'' (JList [])) ''result.evidence_ids'') (\<lambda>refs.
     res_bind (raise_if (\<not> set refs \<subseteq> set ids) (protocol_exn ''Oracle result references evidence absent from response'')) (\<lambda>_.
     res_bind (proto_string (jget_none item ''verdict'') ''result.verdict'') (\<lambda>verdict.
     res_bind (raise_if (verdict \<notin> set verdict_names) (protocol_exn (''unsupported Oracle verdict: '' @ verdict))) (\<lambda>_.
     res_bind (decode_confidence (jget_default item ''confidence'' (JFloat (PyFloat False 1 0)))) (\<lambda>confidence.
     res_bind (decode_validity (jget_default item ''validity'' (JStr (validity_value VALID)))) (\<lambda>validity.
     res_bind (proto_string (jget_none item ''claim_id'') ''result.claim_id'') (\<lambda>claim.
     res_bind (proto_string (jget_none item ''dimension'') ''result.dimension'') (\<lambda>dimension.
     res_bind (proto_string (jget_none item ''severity'') ''result.severity'') (\<lambda>severity.
     res_bind (proto_string (jget_none item ''method'') ''result.method'') (\<lambda>method.
     res_bind (proto_string (jget_none item ''evaluator_version'') ''result.evaluator_version'') (\<lambda>version.
     Inr \<lparr>vr_claim_id = claim, vr_dimension = dimension, vr_verdict = verdict, vr_severity = severity, vr_method = method,
       vr_evaluator_version = version, vr_evidence_ids = refs, vr_confidence = confidence, vr_validity = validity\<rparr>))))))))))))"

definition decode_success :: "text_reader \<Rightarrow> bytes \<Rightarrow> string \<Rightarrow> int \<Rightarrow>
    (exn, verification_result list \<times> oracle_payload list) result" where
  "decode_success tr frame rid limit =
     res_bind (decode_single_frame tr frame limit) (\<lambda>raw.
     res_bind (raise_if (jget_none raw ''protocol'' \<noteq> JStr protocol_version \<or> jget_none raw ''request_id'' \<noteq> JStr rid \<or>
         jget_none raw ''status'' \<noteq> JStr ''SUCCESS'') (protocol_exn ''Oracle response envelope does not match request'')) (\<lambda>_.
     case (jget_none raw ''evidence'', jget_none raw ''results'') of
       (JList evidence_raw, JList results_raw) \<Rightarrow>
         res_bind (decode_payloads [] evidence_raw) (\<lambda>payloads.
         res_bind (map_each (decode_result (map op_evidence_id payloads)) results_raw) (\<lambda>results.
         Inr (results, payloads)))
     | _ \<Rightarrow> Inl (protocol_exn ''Oracle response results/evidence must be arrays'')))"

end
