(* ===== verification/AVP_WireFacts.thy ===== *)
theory AVP_WireFacts
  imports AVP_OracleWire
begin

text \<open>
  What the worker protocol guarantees: whatever bytes a worker writes, a decoded response is consistent
  with its Evidence; what the worker encodes, the runner decodes to the same values.
\<close>

section \<open>Sorted members\<close>

primrec sort_members :: "json \<Rightarrow> json" where
  "sort_members JNull = JNull"
| "sort_members (JBool b) = JBool b"
| "sort_members (JInt i) = JInt i"
| "sort_members (JFloat f) = JFloat f"
| "sort_members (JStr s) = JStr s"
| "sort_members (JList xs) = JList (map sort_members xs)"
| "sort_members (JObj kvs) = JObj (sort_key fst (map (map_prod (\<lambda>k. k) sort_members) kvs))"

lemma map_of_sorted_members: "distinct (map fst kvs) \<Longrightarrow> map_of (sort_key fst kvs) = map_of kvs"
  by (intro map_of_inject_set [THEN iffD2]) (simp_all add: distinct_map inj_on_def)

lemma map_of_map_prod: "map_of (map (map_prod (\<lambda>k. k) f) kvs) k = map_option f (map_of kvs k)"
  by (induction kvs) auto

lemma jget_sorted:
  assumes "distinct (map fst kvs)"
  shows "jget (sort_members (JObj kvs)) k = map_option sort_members (map_of kvs k)"
proof -
  have "distinct (map fst (map (map_prod (\<lambda>k. k) sort_members) kvs))" using assms by (simp add: comp_def)
  then show ?thesis by (simp add: map_of_sorted_members map_of_map_prod)
qed

lemma jget_none_sorted:
  "distinct (map fst kvs) \<Longrightarrow>
   jget_none (sort_members (JObj kvs)) k = (case map_of kvs k of None \<Rightarrow> JNull | Some v \<Rightarrow> sort_members v)"
  unfolding jget_none_def jget_sorted by (simp split: option.splits)

lemma jget_default_sorted:
  "distinct (map fst kvs) \<Longrightarrow>
   jget_default (sort_members (JObj kvs)) k d = (case map_of kvs k of None \<Rightarrow> d | Some v \<Rightarrow> sort_members v)"
  unfolding jget_default_def jget_sorted by (simp split: option.splits)

lemmas read_sorted = jget_none_sorted jget_default_sorted

lemma proto_mapping_object [simp]: "proto_mapping (JObj kvs) l = Inr (JObj kvs)"
  by (simp add: proto_mapping_def)

lemma proto_string_ok [simp]: "proto_string v l = Inr s \<longleftrightarrow> v = JStr s \<and> s \<noteq> []"
  by (cases v) (auto simp: proto_string_def)

lemma proto_string_text: "s \<noteq> [] \<Longrightarrow> proto_string (JStr s) l = Inr s"
  by (simp add: proto_string_def)

lemma proto_optional_text:
  "x \<noteq> Some [] \<Longrightarrow> proto_optional (case x of None \<Rightarrow> JNull | Some s \<Rightarrow> JStr s) l = Inr x"
  by (cases x) (simp_all add: proto_optional_def proto_string_def result_simps)

lemma proto_strings_ok: "proto_strings v l = Inr ss \<Longrightarrow> v = jstrs ss \<and> [] \<notin> set ss"
proof -
  assume ok: "proto_strings v l = Inr ss"
  then obtain xs where v: "v = JList xs" and raw: "list_all (\<lambda>x. case x of JStr s \<Rightarrow> s \<noteq> [] | _ \<Rightarrow> False) xs"
    and ss: "ss = map (\<lambda>x. case x of JStr s \<Rightarrow> s | _ \<Rightarrow> []) xs"
    by (cases v) (auto simp: proto_strings_def Let_def split: if_splits)
  have all: "\<exists>s. x = JStr s \<and> s \<noteq> []" if "x \<in> set xs" for x
    using raw that by (cases x) (auto simp: list_all_iff)
  have "map (JStr \<circ> (\<lambda>x. case x of JStr s \<Rightarrow> s | _ \<Rightarrow> [])) xs = xs" by (intro map_idI) (auto dest: all)
  moreover have "[] \<notin> set ss" by (auto simp: ss dest: all)
  ultimately show ?thesis by (simp add: v ss jstrs_def)
qed

lemma proto_strings_text: "[] \<notin> set ss \<Longrightarrow> proto_strings (jstrs ss) l = Inr ss"
  by (auto simp: proto_strings_def jstrs_def list_all_iff comp_def)

lemma sort_members_jstrs [simp]: "sort_members (jstrs ss) = jstrs ss"
  by (simp add: jstrs_def comp_def)

section \<open>Base64\<close>

lemma b64_alphabet_pad: "CHR ''='' \<notin> set b64_alphabet"
  by (simp add: b64_alphabet_def)

lemma b64_encode_valid: "b64_valid (b64_encode bs)"
  unfolding b64_valid_def
proof (induction bs rule: b64_encode.induct)
  case (4 a b c rest)
  then show ?case by (simp add: Let_def b64_char_in)
qed (simp_all add: Let_def b64_char_in b64_alphabet_pad)

lemma b64_encode_Nil [simp]: "b64_encode bs = [] \<longleftrightarrow> bs = []"
  by (cases bs rule: b64_encode.cases) (simp_all add: Let_def)

lemma decode_content_text: "bs \<noteq> [] \<Longrightarrow> decode_content (JStr (b64_encode bs)) = Inr bs"
  by (simp add: decode_content_def proto_string_def b64_encode_valid b64_roundtrip result_simps)

section \<open>Payloads and results\<close>

definition sound_payload :: "oracle_payload \<Rightarrow> bool" where
  "sound_payload p \<longleftrightarrow> make_oracle_payload p = Inr p \<and> op_content p \<noteq> []"

lemma sound_payload_fields:
  assumes "sound_payload p"
  shows "op_evidence_id p \<noteq> []" "op_evidence_type p \<noteq> []" "op_media_type p \<noteq> []" "op_digest p = sha256_id (op_content p)"
    "op_classification p \<noteq> []" "op_producer p \<noteq> Some []" "op_content p \<noteq> []"
  using assms by (auto simp: sound_payload_def make_oracle_payload_def make_artifact_ref_ok)

definition sound_result :: "string list \<Rightarrow> verification_result \<Rightarrow> bool" where
  "sound_result ids r \<longleftrightarrow> vr_claim_id r \<noteq> [] \<and> vr_dimension r \<noteq> [] \<and> vr_severity r \<noteq> [] \<and> vr_method r \<noteq> [] \<and>
     vr_evaluator_version r \<noteq> [] \<and> vr_verdict r \<in> set verdict_names \<and> unit_interval (vr_confidence r) \<and>
     [] \<notin> set (vr_evidence_ids r) \<and> set (vr_evidence_ids r) \<subseteq> set ids"

lemma decode_encoded_payload:
  assumes "sound_payload p" "op_evidence_id p \<notin> set seen"
  shows "decode_payload seen (sort_members (payload_frame p)) = Inr p"
proof -
  note f = sound_payload_fields [OF assms(1)]
  have d: "distinct (map fst ([(''evidence_id'', JStr (op_evidence_id p)), (''type'', JStr (op_evidence_type p)),
     (''media_type'', JStr (op_media_type p)), (''digest'', JStr (op_digest p)),
     (''content_base64'', JStr (b64_encode (op_content p))), (''classification'', JStr (op_classification p))] @
     (case op_producer p of None \<Rightarrow> [] | Some s \<Rightarrow> [(''producer'', JStr s)])))" by (cases "op_producer p") simp_all
  have producer: "proto_optional (case op_producer p of None \<Rightarrow> JNull | Some s \<Rightarrow> JStr s) l = Inr (op_producer p)" for l
    by (rule proto_optional_text [OF f(6)])
  define m where "m = sort_members (payload_frame p)"
  have members: "proto_mapping m l = Inr m" "jget_none m ''evidence_id'' = JStr (op_evidence_id p)"
    "jget_none m ''type'' = JStr (op_evidence_type p)" "jget_none m ''media_type'' = JStr (op_media_type p)"
    "jget_none m ''digest'' = JStr (sha256_id (op_content p))" "jget_none m ''content_base64'' = JStr (b64_encode (op_content p))"
    "jget_default m ''classification'' v = JStr (op_classification p)"
    "jget_none m ''producer'' = (case op_producer p of None \<Rightarrow> JNull | Some s \<Rightarrow> JStr s)" for l v
    unfolding m_def payload_frame_def read_sorted [OF d] by (simp_all add: f(4) split: option.splits)
  have same: "\<lparr>op_evidence_id = op_evidence_id p, op_evidence_type = op_evidence_type p, op_content = op_content p,
      op_media_type = op_media_type p, op_digest = sha256_id (op_content p), op_classification = op_classification p,
      op_producer = op_producer p\<rparr> = p" using f(4) by (cases p) simp
  have made: "make_oracle_payload p = Inr p" using assms(1) by (simp add: sound_payload_def)
  show ?thesis unfolding m_def [symmetric]
    using f assms(2) by (simp add: decode_payload_def members producer proto_string_text decode_content_text same made result_simps)
qed

lemma decode_encoded_payloads:
  assumes "encode_payloads seen ps = Inr out" "list_all sound_payload ps"
  shows "decode_payloads seen (map sort_members out) = Inr ps"
  using assms
proof (induction seen ps arbitrary: out rule: encode_payloads.induct)
  case (2 seen p ps)
  then obtain out' where o: "op_evidence_id p \<notin> set seen" "encode_payloads (op_evidence_id p # seen) ps = Inr out'"
    "out = payload_frame p # out'" by auto
  with 2 show ?case by (simp add: decode_encoded_payload result_simps)
qed simp

lemma all_validities_complete: "List.find (\<lambda>x. validity_value x = validity_value v) all_validities = Some v"
  by (cases v) (simp_all add: all_validities_def)

lemma decode_encoded_result:
  assumes "sound_result ids r"
  shows "decode_result ids (sort_members (output_result_dict r)) = Inr r"
proof -
  have f: "vr_claim_id r \<noteq> []" "vr_dimension r \<noteq> []" "vr_severity r \<noteq> []" "vr_method r \<noteq> []" "vr_evaluator_version r \<noteq> []"
    "vr_verdict r \<in> set verdict_names" "vr_verdict r \<noteq> []" "unit_interval (vr_confidence r)" "[] \<notin> set (vr_evidence_ids r)"
    "set (vr_evidence_ids r) \<subseteq> set ids" using assms by (auto simp: sound_result_def verdict_names_def)
  have d: "distinct (map fst
     [(''claim_id'', JStr (vr_claim_id r)), (''dimension'', JStr (vr_dimension r)),
      (''verdict'', JStr (vr_verdict r)), (''severity'', JStr (vr_severity r)), (''method'', JStr (vr_method r)),
      (''evaluator_version'', JStr (vr_evaluator_version r)), (''evidence_ids'', jstrs (vr_evidence_ids r)),
      (''confidence'', JFloat (vr_confidence r)), (''validity'', JStr (validity_value (vr_validity r)))])" by simp
  define m where "m = sort_members (output_result_dict r)"
  have members: "proto_mapping m l = Inr m" "jget_none m ''claim_id'' = JStr (vr_claim_id r)"
    "jget_none m ''dimension'' = JStr (vr_dimension r)" "jget_none m ''verdict'' = JStr (vr_verdict r)"
    "jget_none m ''severity'' = JStr (vr_severity r)" "jget_none m ''method'' = JStr (vr_method r)"
    "jget_none m ''evaluator_version'' = JStr (vr_evaluator_version r)"
    "jget_default m ''evidence_ids'' v = jstrs (vr_evidence_ids r)" "jget_default m ''confidence'' v = JFloat (vr_confidence r)"
    "jget_default m ''validity'' v = JStr (validity_value (vr_validity r))" for l v
    unfolding m_def output_result_dict_def read_sorted [OF d] by simp_all
  have validity: "validity_value (vr_validity r) \<noteq> []" by (cases "vr_validity r") simp_all
  show ?thesis unfolding m_def [symmetric]
    using f validity by (simp add: decode_result_def members proto_string_text proto_strings_text decode_confidence_def
      decode_validity_def all_validities_complete result_simps)
qed

lemma encode_result_ok: "encode_result ids r = Inr x \<Longrightarrow> x = output_result_dict r \<and> set (vr_evidence_ids r) \<subseteq> set ids"
  by (auto simp: encode_result_def Let_def filter_empty_conv)

lemma decode_encoded_results:
  assumes "map_each (encode_result ids) rs = Inr out" "list_all (sound_result ids) rs"
  shows "map_each (decode_result ids) (map sort_members out) = Inr rs"
  using assms
proof (induction rs arbitrary: out)
  case (Cons r rs)
  from Cons.prems(1) obtain out' where "map_each (encode_result ids) rs = Inr out'" "out = output_result_dict r # out'"
    by (auto dest: encode_result_ok split: sum.splits)
  with Cons show ?case by (simp add: decode_encoded_result)
qed simp

section \<open>Frames\<close>

lemma single_line:
  assumes "list_all (\<lambda>c. \<not> is_line_break c) s" "\<not> blank_line s"
  shows "filter (\<lambda>l. \<not> blank_line l) (split_lines (s @ [CHR 0x0A])) = [s]"
proof -
  from assms(2) obtain c cs where s: "s = c # cs" by (cases s) (auto simp: blank_line_def)
  have "split_lines (s @ [CHR 0x0A]) = [s]"
    using assms(1) unfolding s list.pred_set append_Cons
    by (subst split_lines.simps) (simp add: takeWhile_append2 dropWhile_append2 is_line_break_def)
  with assms(2) show ?thesis by simp
qed

lemma object_not_blank: "\<not> blank_line (canonical_json (JObj kvs))"
  by (simp add: blank_line_def is_space_def)

text \<open>What the runner relies on in the text layer, at the frame of a document: UTF-8 is undone, and \<open>json.loads\<close> reads a
  dumped document back, members in the order of the text.\<close>

definition reads_back :: "text_reader \<Rightarrow> json \<Rightarrow> bool" where
  "reads_back tr v \<longleftrightarrow> tr_decode tr (json_bytes v) = Some (canonical_json v @ [CHR 0x0A]) \<and>
     tr_loads tr (canonical_json v) = Some (sort_members v)"

definition one_line :: "json \<Rightarrow> bool" where
  "one_line v \<longleftrightarrow> list_all (\<lambda>c. \<not> is_line_break c) (canonical_json v)"

lemma decode_single_frame_json:
  assumes "reads_back tr (JObj kvs)" "one_line (JObj kvs)" "int (length (json_bytes (JObj kvs))) \<le> limit"
  shows "decode_single_frame tr (json_bytes (JObj kvs)) limit = Inr (sort_members (JObj kvs))"
  using assms single_line [of "canonical_json (JObj kvs)"] object_not_blank [of kvs]
  by (simp add: decode_single_frame_def reads_back_def one_line_def proto_mapping_def result_simps
      del: canonical_json.simps)

section \<open>Whatever a worker writes\<close>

lemma decode_validity_ok: "b64_valid s \<Longrightarrow> s \<noteq> [] \<Longrightarrow> b64_decode s \<noteq> []"
  by (cases s rule: b64_decode.cases) (auto simp: b64_valid_def)

lemma decode_content_ok: "decode_content v = Inr bs \<Longrightarrow> bs \<noteq> []"
  by (auto simp: decode_content_def decode_validity_ok split: if_splits)

lemma make_oracle_payload_id: "make_oracle_payload p = Inr q \<Longrightarrow> q = p"
  by (auto simp: make_oracle_payload_def)

lemma checked_ok: "(case r of Inl e \<Rightarrow> Inl (f e) | Inr p \<Rightarrow> Inr p) = Inr q \<longleftrightarrow> r = Inr q"
  by (cases r) auto

lemma decode_payload_ok:
  assumes "decode_payload seen raw = Inr p"
  shows "sound_payload p" "op_evidence_id p \<notin> set seen"
proof -
  from assms obtain eid content etype media digest classification producer where
    made: "make_oracle_payload \<lparr>op_evidence_id = eid, op_evidence_type = etype, op_content = content, op_media_type = media,
         op_digest = digest, op_classification = classification, op_producer = producer\<rparr> = Inr p"
    and new: "eid \<notin> set seen" and content: "decode_content (jget_none raw ''content_base64'') = Inr content"
    by (auto simp: decode_payload_def proto_mapping_def checked_ok split: json.splits)
  note p = make_oracle_payload_id [OF made]
  show "sound_payload p" "op_evidence_id p \<notin> set seen"
    using made new decode_content_ok [OF content] by (simp_all add: p sound_payload_def)
qed

lemma decode_payloads_ok:
  "decode_payloads seen raws = Inr ps \<Longrightarrow>
   list_all sound_payload ps \<and> distinct (map op_evidence_id ps) \<and> set (map op_evidence_id ps) \<inter> set seen = {}"
proof (induction seen raws arbitrary: ps rule: decode_payloads.induct)
  case (2 seen raw rest)
  from 2(2) obtain p qs where p: "decode_payload seen raw = Inr p" "decode_payloads (op_evidence_id p # seen) rest = Inr qs" "ps = p # qs"
    by auto
  from 2(1) [OF p(2)] decode_payload_ok [OF p(1)] show ?case by (auto simp: p(3))
qed simp

lemma decode_confidence_ok: "decode_confidence v = Inr f \<Longrightarrow> unit_interval f"
  by (auto simp: decode_confidence_def unit_interval_def Let_def split: json.splits if_splits)

lemma decode_result_ok: "decode_result ids raw = Inr r \<Longrightarrow> sound_result ids r"
  by (auto simp: decode_result_def sound_result_def dest: decode_confidence_ok proto_strings_ok)

section \<open>Responses and requests read back\<close>

lemma encode_payloads_ok: "encode_payloads seen ps = Inr out \<Longrightarrow> out = map payload_frame ps"
  by (induction seen ps arbitrary: out rule: encode_payloads.induct) auto

lemma encode_results_ok: "map_each (encode_result ids) rs = Inr out \<Longrightarrow> out = map output_result_dict rs"
  by (induction rs arbitrary: out) (auto dest: encode_result_ok split: sum.splits)

lemma decode_encoded_response:
  assumes "encode_success rid results payloads limit = Inr frame"
    "reads_back tr (response_document rid (map output_result_dict results) (map payload_frame payloads))"
    "one_line (response_document rid (map output_result_dict results) (map payload_frame payloads))"
    "list_all sound_payload payloads" "list_all (sound_result (map op_evidence_id payloads)) results"
  shows "decode_success tr frame rid limit = Inr (results, payloads)"
proof -
  from assms(1) obtain evidence out where
    e: "encode_payloads [] payloads = Inr evidence" "map_each (encode_result (map op_evidence_id payloads)) results = Inr out"
    and frame: "frame = json_bytes (response_document rid out evidence)" "int (length frame) \<le> limit"
    by (auto simp: encode_success_def bounded_frame_def)
  note docs = encode_payloads_ok [OF e(1)] encode_results_ok [OF e(2)]
  have d: "distinct (map fst [(''protocol'', JStr protocol_version), (''request_id'', JStr rid),
     (''status'', JStr ''SUCCESS''), (''results'', JList out), (''evidence'', JList evidence)])" by simp
  define m where "m = sort_members (response_document rid out evidence)"
  have single: "decode_single_frame tr frame limit = Inr m"
    using assms(2,3) frame(2) unfolding m_def frame(1) docs [symmetric] response_document_def by (rule decode_single_frame_json)
  have members: "jget_none m ''protocol'' = JStr protocol_version" "jget_none m ''request_id'' = JStr rid"
    "jget_none m ''status'' = JStr ''SUCCESS''" "jget_none m ''results'' = JList (map sort_members out)"
    "jget_none m ''evidence'' = JList (map sort_members evidence)"
    unfolding m_def response_document_def read_sorted [OF d] by simp_all
  show ?thesis
    using decode_encoded_payloads [OF e(1) assms(4)] decode_encoded_results [OF e(2) assms(5)]
    by (simp add: decode_success_def single members result_simps)
qed

section \<open>Requests\<close>

lemma sort_key_sorted: "sorted (map f xs) \<Longrightarrow> sort_key f xs = xs"
  by (rule sort_key_id_if_sorted)

lemma sort_members_texts:
  "sorted (map fst ps) \<Longrightarrow> sort_members (JObj (map (\<lambda>(k, v). (k, JStr v)) ps)) = JObj (map (\<lambda>(k, v). (k, JStr v)) ps)"
proof -
  assume s: "sorted (map fst ps)"
  have "map (map_prod (\<lambda>k. k) sort_members) (map (\<lambda>(k, v). (k, JStr v)) ps) = map (\<lambda>(k, v). (k, JStr v)) ps" by auto
  moreover have "sorted (map fst (map (\<lambda>(k, v). (k, JStr v)) ps))" using s by (simp add: comp_def case_prod_beta)
  ultimately show ?thesis by (simp only: sort_members.simps sort_key_id_if_sorted)
qed

lemma bind_value: "res_bind (Inr a) f = f a"
  by (simp add: res_bind_def)

definition sound_package :: "oracle_package \<Rightarrow> bool" where
  "sound_package p \<longleftrightarrow> make_oracle_package p = Inr p \<and> distinct (map fst (pk_input_pointers p))"

lemma sound_package_fields:
  assumes "sound_package p"
  shows "pk_oracle_id p \<noteq> []" "pk_version p \<noteq> []" "pk_entrypoint p \<noteq> []" "pk_code_digest p \<noteq> []" "[] \<notin> set (pk_projections p)"
    "sorted (map fst (pk_input_pointers p))" "\<forall>kv \<in> set (pk_input_pointers p). snd kv \<noteq> []" "pk_package_digest p \<noteq> Some []"
proof -
  have ok: "pk_oracle_id p \<noteq> []" "pk_version p \<noteq> []" "pk_entrypoint p \<noteq> []" "is_sha256_text (pk_code_digest p)"
    "case pk_package_digest p of None \<Rightarrow> True | Some d \<Rightarrow> is_sha256_text d"
    "\<forall>kv \<in> set (pk_input_pointers p). fst kv \<noteq> [] \<and> take 1 (snd kv) = ''/''"
    and eq: "p\<lparr>pk_projections := sorted_nonempty_set (pk_projections p), pk_input_pointers := sort_key fst (pk_input_pointers p)\<rparr> = p"
    using assms by (auto simp: sound_package_def make_oracle_package_def list_ex_iff split: option.splits)
  from arg_cong [OF eq, of pk_projections] have projections: "pk_projections p = sorted_nonempty_set (pk_projections p)" by simp
  from arg_cong [OF eq, of pk_input_pointers] have pointers: "sort_key fst (pk_input_pointers p) = pk_input_pointers p" by simp
  show "pk_oracle_id p \<noteq> []" "pk_version p \<noteq> []" "pk_entrypoint p \<noteq> []" by (fact ok)+
  show "pk_code_digest p \<noteq> []" using ok(4) by (rule is_sha256_text_not_Nil)
  show "[] \<notin> set (pk_projections p)" by (subst projections) (simp add: sorted_nonempty_set_def)
  show "sorted (map fst (pk_input_pointers p))" by (subst pointers [symmetric]) simp
  show "\<forall>kv \<in> set (pk_input_pointers p). snd kv \<noteq> []" using ok(6) by fastforce
  show "pk_package_digest p \<noteq> Some []" using ok(5) is_sha256_text_not_Nil by (auto split: option.splits)
qed

lemma decode_encoded_package:
  assumes "sound_package p"
  shows "decode_package (sort_members (package_dict p)) = Inr p"
proof -
  note f = sound_package_fields [OF assms]
  have d: "distinct (map fst (package_descriptor_dict p @ (case pk_package_digest p of None \<Rightarrow> [] | Some d \<Rightarrow> [(''package_digest'', JStr d)])))"
    by (cases "pk_package_digest p") (simp_all add: package_descriptor_dict_def)
  define m where "m = sort_members (package_dict p)"
  have members: "jget_none m ''oracle_id'' = JStr (pk_oracle_id p)" "jget_none m ''version'' = JStr (pk_version p)"
    "jget_none m ''entrypoint'' = JStr (pk_entrypoint p)" "jget_none m ''code_digest'' = JStr (pk_code_digest p)"
    "jget_none m ''projections'' = jstrs (pk_projections p)"
    "jget_default m ''input_pointers'' v = JObj (map (\<lambda>(k, v). (k, JStr v)) (pk_input_pointers p))"
    "jget_none m ''package_digest'' = (case pk_package_digest p of None \<Rightarrow> JNull | Some d \<Rightarrow> JStr d)" for v
    unfolding m_def package_dict_def read_sorted [OF d]
    by (simp_all add: package_descriptor_dict_def sort_members_texts [OF f(6)] del: sort_members.simps(7) split: option.splits)
  have pointers: "map_each (\<lambda>(k, v). res_bind (proto_string v (l k)) (\<lambda>s. Inr (k, s)))
      (map (\<lambda>(k, v). (k, JStr v)) ps) = Inr ps" if "\<forall>kv \<in> set ps. snd kv \<noteq> []" for ps l
    using that by (induction ps) (auto simp: proto_string_text result_simps)
  have made: "make_oracle_package p = Inr p" using assms by (simp add: sound_package_def)
  have same: "\<lparr>pk_oracle_id = pk_oracle_id p, pk_version = pk_version p, pk_entrypoint = pk_entrypoint p,
      pk_code_digest = pk_code_digest p, pk_projections = pk_projections p, pk_input_pointers = pk_input_pointers p,
      pk_package_digest = pk_package_digest p\<rparr> = p" by (cases p) simp
  show ?thesis unfolding m_def [symmetric]
    using f by (simp add: decode_package_def members same made proto_string_text proto_strings_text object_members_def pointers
      proto_optional_text bind_value)
qed

definition sound_context :: "oracle_context \<Rightarrow> bool" where
  "sound_context c \<longleftrightarrow> make_oracle_context (oc_episode_id c) (oc_scenario_instance_digest c) (oc_manifest_digest c) (oc_inputs c)
       (oc_projections c) = Inr c \<and>
     distinct (map fst (oc_projections c)) \<and> sort_members (JObj (oc_inputs c)) = JObj (oc_inputs c) \<and>
     (\<forall>(k, s) \<in> set (oc_projections c). ps_projection_id s = k \<and> sort_members (ps_data s) = ps_data s \<and>
        make_projection_snapshot k (ps_data s) (ps_state_digest s) = Inr s)"

lemma decode_encoded_projection:
  assumes "ps_projection_id s = k" "sort_members (ps_data s) = ps_data s" "make_projection_snapshot k (ps_data s) (ps_state_digest s) = Inr s"
  shows "decode_projection (k, sort_members (projection_snapshot_dict s)) = Inr (k, s)"
proof -
  have d: "distinct (map fst [(''projection_id'', JStr (ps_projection_id s)), (''data'', ps_data s), (''state_digest'', JStr (ps_state_digest s))])"
    by simp
  define m where "m = sort_members (projection_snapshot_dict s)"
  have members: "proto_mapping m l = Inr m" "jget_none m ''projection_id'' = JStr k" "jget_none m ''data'' = ps_data s"
    "jget_none m ''state_digest'' = JStr (ps_state_digest s)" for l
    unfolding m_def projection_snapshot_dict_def read_sorted [OF d] by (simp_all add: assms(1,2))
  have "k \<noteq> []" "ps_state_digest s \<noteq> []"
    using assms(3) is_sha256_text_not_Nil by (auto simp: make_projection_snapshot_def)
  then show ?thesis unfolding m_def [symmetric]
    by (simp add: decode_projection_def members proto_string_text assms(3) result_simps)
qed

lemma decode_encoded_context:
  assumes "sound_context c"
  shows "decode_context (sort_members (oracle_context_dict c)) = Inr c"
proof -
  let ?frames = "map (\<lambda>(k, s). (k, projection_snapshot_dict s)) (oc_projections c)"
  have ok: "oc_episode_id c \<noteq> []" "is_sha256_text (oc_scenario_instance_digest c)" "is_sha256_text (oc_manifest_digest c)"
    and sorted: "sort_key fst (oc_projections c) = oc_projections c"
    using assms by (auto simp: sound_context_def make_oracle_context_def dest: arg_cong [of _ _ oc_projections])
  have d: "distinct (map fst [(''episode_id'', JStr (oc_episode_id c)), (''scenario_instance_digest'', JStr (oc_scenario_instance_digest c)),
      (''manifest_digest'', JStr (oc_manifest_digest c)), (''inputs'', JObj (oc_inputs c)), (''projections'', JObj ?frames)])" by simp
  have "sorted (map fst (oc_projections c))" by (subst sorted [symmetric]) simp
  then have frames: "sort_members (JObj ?frames) = JObj (map (\<lambda>(k, s). (k, sort_members (projection_snapshot_dict s))) (oc_projections c))"
    by (simp add: sort_key_id_if_sorted comp_def case_prod_beta)
  define m where "m = sort_members (oracle_context_dict c)"
  have members: "jget_none m ''episode_id'' = JStr (oc_episode_id c)"
    "jget_none m ''scenario_instance_digest'' = JStr (oc_scenario_instance_digest c)"
    "jget_none m ''manifest_digest'' = JStr (oc_manifest_digest c)" "jget_default m ''inputs'' v = JObj (oc_inputs c)"
    "jget_none m ''projections'' = JObj (map (\<lambda>(k, s). (k, sort_members (projection_snapshot_dict s))) (oc_projections c))" for v
    unfolding m_def oracle_context_dict_def read_sorted [OF d]
    using assms by (simp_all add: frames sound_context_def del: sort_members.simps(7))
  have projections: "map_each decode_projection (map (\<lambda>(k, s). (k, sort_members (projection_snapshot_dict s))) ps) = Inr ps"
    if "\<forall>(k, s) \<in> set ps. ps_projection_id s = k \<and> sort_members (ps_data s) = ps_data s \<and>
        make_projection_snapshot k (ps_data s) (ps_state_digest s) = Inr s" for ps
    using that by (induction ps) (auto simp: decode_encoded_projection)
  show ?thesis unfolding m_def [symmetric] using assms ok
    by (simp add: decode_context_def members object_members_def projections sound_context_def proto_string_text is_sha256_text_not_Nil result_simps)
qed

lemma decode_encoded_request:
  assumes "encode_request r limit = Inr frame" "reads_back tr (request_document r)" "one_line (request_document r)"
    "rq_request_id r \<noteq> []" "sound_package (rq_package r)" "sound_context (rq_context r)"
  shows "decode_request tr frame limit = Inr r"
proof -
  from assms(1) have frame: "frame = json_bytes (request_document r)" "int (length frame) \<le> limit"
    by (auto simp: encode_request_def bounded_frame_def)
  have d: "distinct (map fst [(''protocol'', JStr protocol_version), (''request_id'', JStr (rq_request_id r)),
     (''package'', package_dict (rq_package r)), (''context'', oracle_context_dict (rq_context r))])" by simp
  define m where "m = sort_members (request_document r)"
  have single: "decode_single_frame tr frame limit = Inr m"
    using assms(2,3) frame(2) unfolding m_def frame(1) request_document_def by (rule decode_single_frame_json)
  have members: "jget_none m ''protocol'' = JStr protocol_version" "jget_none m ''request_id'' = JStr (rq_request_id r)"
    "jget_none m ''package'' = sort_members (package_dict (rq_package r))"
    "jget_none m ''context'' = sort_members (oracle_context_dict (rq_context r))"
    unfolding m_def request_document_def oracle_request_dict_def read_sorted [OF d] by (simp_all del: sort_members.simps(7))
  have maps: "proto_mapping (sort_members (package_dict p)) l = Inr (sort_members (package_dict p))"
    "proto_mapping (sort_members (oracle_context_dict c)) l = Inr (sort_members (oracle_context_dict c))" for p c l
    by (simp_all add: package_dict_def oracle_context_dict_def)
  show ?thesis using assms(4)
    by (simp add: decode_request_def single members maps decode_encoded_package [OF assms(5)] decode_encoded_context [OF assms(6)]
        make_oracle_request_def proto_string_text result_simps)
qed

section \<open>Numbers and lines\<close>

lemma digit_char_facts: "d < 10 \<Longrightarrow> is_digit (digit_char d)"
  by (simp add: is_digit_def digit_char_def)

lemma string_of_nat_digits: "list_all is_digit (string_of_nat n) \<and> string_of_nat n \<noteq> []"
  by (induction n rule: string_of_nat.induct) (subst string_of_nat.simps, simp add: digit_char_facts)+

lemma digit_plain: "is_digit c \<Longrightarrow> \<not> is_space c \<and> c \<noteq> CHR ''-'' \<and> c \<noteq> CHR ''+'' \<and> c \<noteq> CHR ''_'' \<and> \<not> is_line_break c"
  by (auto simp: is_digit_def is_space_def is_line_break_def Let_def)

lemma dropWhile_none: "xs = [] \<or> \<not> P (hd xs) \<Longrightarrow> dropWhile P xs = xs"
  by (cases xs) auto

lemma py_strip_plain: "list_all (\<lambda>c. \<not> is_space c) s \<Longrightarrow> py_strip s = s"
proof -
  assume a: "list_all (\<lambda>c. \<not> is_space c) s"
  then have "dropWhile is_space s = s" by (intro dropWhile_none) (cases s; simp)
  moreover have "dropWhile is_space (rev s) = rev s"
    using a by (intro dropWhile_none) (cases s rule: rev_cases; simp)
  ultimately show ?thesis by (simp add: py_strip_def)
qed

lemma py_int_nat: "py_int (string_of_nat n) = Some (int n)"
proof -
  have d: "list_all is_digit (string_of_nat n)" "string_of_nat n \<noteq> []" using string_of_nat_digits by blast+
  then obtain c cs where s: "string_of_nat n = c # cs" by (cases "string_of_nat n") auto
  have "list_all (\<lambda>c. \<not> is_space c) (string_of_nat n)" "CHR ''_'' \<notin> set (string_of_nat n)"
    using d(1) digit_plain by (auto simp: list_all_iff)
  then show ?thesis using d string_of_nat_value [of n] digit_plain [of c] s
    by (simp add: py_int_def py_strip_plain split_on_plain digits_value_def)
qed

lemma py_int_text: "py_int (string_of_int i) = Some i"
proof (cases "i < 0")
  case True
  have d: "list_all is_digit (string_of_nat (nat (- i)))" "string_of_nat (nat (- i)) \<noteq> []" using string_of_nat_digits by blast+
  then have "list_all (\<lambda>c. \<not> is_space c) (CHR ''-'' # string_of_nat (nat (- i)))" "CHR ''_'' \<notin> set (string_of_nat (nat (- i)))"
    using digit_plain by (auto simp: list_all_iff is_space_def)
  with True d string_of_nat_value [of "nat (- i)"] show ?thesis
    by (simp add: py_int_def string_of_int_def py_strip_plain split_on_plain digits_value_def)
qed (simp add: string_of_int_def py_int_nat)

text \<open>NEL is the one line break of \<open>splitlines\<close> that \<open>json.dumps\<close> leaves unescaped.\<close>

definition plain_text :: "string \<Rightarrow> bool" where
  "plain_text s \<longleftrightarrow> CHR 0x85 \<notin> set s"

primrec plain_json :: "json \<Rightarrow> bool" where
  "plain_json JNull \<longleftrightarrow> True"
| "plain_json (JBool b) \<longleftrightarrow> True"
| "plain_json (JInt i) \<longleftrightarrow> True"
| "plain_json (JFloat f) \<longleftrightarrow> True"
| "plain_json (JStr s) \<longleftrightarrow> plain_text s"
| "plain_json (JList xs) \<longleftrightarrow> list_all (\<lambda>x. x) (map plain_json xs)"
| "plain_json (JObj kvs) \<longleftrightarrow> list_all (\<lambda>(k, x). plain_text k \<and> x) (map (map_prod (\<lambda>k. k) plain_json) kvs)"

abbreviation no_breaks :: "string \<Rightarrow> bool" where
  "no_breaks \<equiv> list_all (\<lambda>c. \<not> is_line_break c)"

lemma literal_breaks: "\<not> is_line_break CHR ''.''" "\<not> is_line_break CHR ''-''" "\<not> is_line_break CHR ''+''" "\<not> is_line_break CHR ''e''"
  "\<not> is_line_break CHR ''0''" "\<not> is_line_break CHR '',''" "\<not> is_line_break CHR '':''" "\<not> is_line_break CHR ''[''"
  "\<not> is_line_break CHR '']''" "\<not> is_line_break CHR ''{''" "\<not> is_line_break CHR ''}''" "\<not> is_line_break CHR 0x22"
  "\<not> is_line_break CHR 0x5C" "\<not> is_line_break CHR ''n''" "\<not> is_line_break CHR ''r''" "\<not> is_line_break CHR ''t''"
  "\<not> is_line_break CHR ''b''" "\<not> is_line_break CHR ''f''" "\<not> is_line_break CHR ''u''" "\<not> is_line_break CHR ''l''"
  "\<not> is_line_break CHR ''s''" "\<not> is_line_break CHR ''a''"
  by (simp_all add: is_line_break_def)

lemma no_breaks_replicate: "\<not> is_line_break c \<Longrightarrow> no_breaks (replicate n c)"
  by (induction n) simp_all

lemma code_of_char: "(of_char (c :: char) :: nat) < 256"
  by (cases c) (simp add: of_char_def)

lemma hex_digit_no_break: "d < 16 \<Longrightarrow> \<not> is_line_break (hex_digit d)"
  using hex_digit_lower_hex [of d] by (auto simp: is_lower_hex_def is_digit_def is_line_break_def Let_def)

lemma escape_no_breaks: "c \<noteq> CHR 0x85 \<Longrightarrow> no_breaks (json_escape c)"
proof -
  assume c: "c \<noteq> CHR 0x85"
  then have "(of_char c :: nat) \<noteq> 133" using of_char_eq_iff [of c "CHR 0x85", where 'a = nat] by simp
  then have plain: "\<not> is_line_break c" if "\<not> (of_char c :: nat) < 32" using that by (auto simp: is_line_break_def Let_def)
  have quoted: "\<not> is_line_break (char_of (92 :: nat))" by (simp add: is_line_break_def)
  have "(of_char c :: nat) div 16 < 16" using code_of_char [of c] by (simp add: div_less_iff_less_mult)
  then show ?thesis
    using plain by (simp add: json_escape_def Let_def hex_digit_no_break literal_breaks quoted)
qed

lemma quote_no_breaks: "plain_text s \<Longrightarrow> no_breaks (json_quote s)"
proof -
  assume "plain_text s"
  then have "no_breaks (concat (map json_escape s))" by (induction s) (auto simp: plain_text_def escape_no_breaks)
  moreover have "\<not> is_line_break (char_of (34 :: nat))" by (simp add: is_line_break_def)
  ultimately show ?thesis by (simp add: json_quote_def)
qed

lemma digits_no_breaks: "no_breaks (string_of_nat n)" "no_breaks (string_of_int i)"
proof -
  show n: "no_breaks (string_of_nat n)" for n using string_of_nat_digits [of n] digit_plain by (auto simp: list_all_iff)
  show "no_breaks (string_of_int i)" by (simp add: string_of_int_def n literal_breaks)
qed

lemma no_breaks_parts: "no_breaks s \<Longrightarrow> no_breaks (take n s)" "no_breaks s \<Longrightarrow> no_breaks (drop n s)"
  by (auto simp: list_all_iff dest: in_set_takeD in_set_dropD)

lemma float_no_breaks: "no_breaks (float_repr f)"
  unfolding float_repr_def Let_def
  by (simp add: digits_no_breaks no_breaks_parts literal_breaks no_breaks_replicate)

lemma join_no_breaks: "no_breaks d \<Longrightarrow> \<forall>x \<in> set xs. no_breaks x \<Longrightarrow> no_breaks (join d xs)"
  by (induction d xs rule: join.induct) auto

lemma plain_json_one_line: "plain_json v \<Longrightarrow> one_line v"
  unfolding one_line_def
proof (induction v)
  case (JList xs)
  have "no_breaks (join '','' (map canonical_json xs))"
    by (rule join_no_breaks) (use JList in \<open>auto simp: list_all_iff literal_breaks\<close>)
  then show ?case by (simp add: literal_breaks)
next
  case (JObj kvs)
  have "no_breaks (json_quote k @ '':'' @ canonical_json v)" if "(k, v) \<in> set kvs" for k v
  proof -
    from that JObj(2) have "plain_text k" "plain_json v" by (auto simp: list_all_iff)
    with JObj(1) [OF that, of v] show ?thesis by (simp add: quote_no_breaks literal_breaks)
  qed
  then have "no_breaks (join '','' (map (\<lambda>(k, t). json_quote k @ '':'' @ t) (sort_key fst (map (map_prod (\<lambda>k. k) canonical_json) kvs))))"
    by (intro join_no_breaks) (auto simp: literal_breaks)
  then show ?case by (simp add: literal_breaks)
qed (simp_all add: digits_no_breaks float_no_breaks quote_no_breaks literal_breaks)

section \<open>An example reader\<close>

definition demo_reader :: "json \<Rightarrow> text_reader" where
  "demo_reader v = \<lparr>tr_decode = (\<lambda>b. if b = json_bytes v then Some (canonical_json v @ [CHR 0x0A]) else None),
     tr_loads = (\<lambda>s. if s = canonical_json v then Some (sort_members v) else None)\<rparr>"

lemma demo_reads_back [simp]: "reads_back (demo_reader v) v"
  by (simp add: demo_reader_def reads_back_def)

definition demo_result :: "string \<Rightarrow> verification_result" where
  "demo_result claim = \<lparr>vr_claim_id = claim, vr_dimension = ''d'', vr_verdict = ''PASS'', vr_severity = ''s'', vr_method = ''m'',
     vr_evaluator_version = ''v'', vr_evidence_ids = [], vr_confidence = PyFloat False 1 0, vr_validity = VALID\<rparr>"

definition demo_response :: "string \<Rightarrow> json" where
  "demo_response claim = response_document ''r'' [output_result_dict (demo_result claim)] []"

definition demo_limit :: "string \<Rightarrow> int" where
  "demo_limit claim = int (length (json_bytes (demo_response claim)))"

lemma demo_encoded: "encode_success ''r'' [demo_result claim] [] (demo_limit claim) = Inr (json_bytes (demo_response claim))"
  by (simp add: encode_success_def encode_result_def demo_response_def bounded_frame_def demo_result_def demo_limit_def result_simps)

lemma demo_sound: "sound_result [] (demo_result ''c'')"
  by (simp add: sound_result_def demo_result_def verdict_names_def unit_interval_def)

lemma demo_decoded: "decode_success (demo_reader (demo_response ''c'')) (json_bytes (demo_response ''c'')) ''r'' (demo_limit ''c'') =
    Inr ([demo_result ''c''], [])"
proof (rule decode_encoded_response [OF demo_encoded])
  have "one_line (demo_response ''c'')"
    by (rule plain_json_one_line) (simp add: demo_response_def response_document_def output_result_dict_def demo_result_def
      plain_text_def protocol_version_def jstrs_def)
  then show "one_line (response_document ''r'' (map output_result_dict [demo_result ''c'']) (map payload_frame []))"
    by (simp add: demo_response_def)
  show "reads_back (demo_reader (demo_response ''c'')) (response_document ''r'' (map output_result_dict [demo_result ''c'']) (map payload_frame []))"
    using demo_reads_back [of "demo_response ''c''"] by (simp add: demo_response_def)
qed (simp_all add: demo_sound)

lemma after_break_keeps: "c \<in> set s \<Longrightarrow> \<not> is_line_break c \<Longrightarrow> s = [] \<or> is_line_break (hd s) \<Longrightarrow> c \<in> set (after_break s)"
  by (cases s rule: after_break.cases) (auto simp: is_line_break_def split: if_splits)

lemma lines_cover: "c \<in> set s \<Longrightarrow> \<not> is_line_break c \<Longrightarrow> \<exists>l \<in> set (split_lines s). c \<in> set l"
proof (induction s rule: split_lines.induct)
  case (2 x xs)
  let ?line = "takeWhile (\<lambda>x. \<not> is_line_break x) (x # xs)" and ?rest = "dropWhile (\<lambda>x. \<not> is_line_break x) (x # xs)"
  have "c \<in> set (?line @ ?rest)" using 2(2) by (simp only: takeWhile_dropWhile_id)
  then consider "c \<in> set ?line" | "c \<in> set ?rest" by auto
  then show ?case
  proof cases
    case 2
    have "?rest = [] \<or> is_line_break (hd ?rest)" using hd_dropWhile [of "\<lambda>x. \<not> is_line_break x" "x # xs"] by blast
    with 2 "2.prems"(2) have "c \<in> set (after_break ?rest)" by (intro after_break_keeps)
    with "2.IH" "2.prems"(2) show ?thesis by (subst split_lines.simps) (auto simp only: list.set)
  qed (subst split_lines.simps, simp)
qed simp

text \<open>A frame whose text has a line break inside is never read as one line.\<close>

lemma broken_frame:
  assumes "\<not> one_line (JObj kvs)" "tr_decode tr (json_bytes (JObj kvs)) = Some (canonical_json (JObj kvs) @ [CHR 0x0A])"
    "int (length (json_bytes (JObj kvs))) \<le> limit"
  shows "decode_single_frame tr (json_bytes (JObj kvs)) limit = Inl (protocol_exn ''Oracle protocol requires exactly one JSON frame'')"
proof -
  obtain body where shape: "canonical_json (JObj kvs) = CHR ''{'' # body @ ''}''" by simp
  let ?s = "CHR ''{'' # body @ ''}'' @ [CHR 0x0A]"
  have plain: "\<not> is_line_break CHR ''{''" "\<not> is_line_break CHR ''}''" "\<not> is_space CHR ''{''" "\<not> is_space CHR ''}''"
    by (simp_all add: is_line_break_def is_space_def)
  obtain a x b where parts: "body = a @ x # b" "is_line_break x" "no_breaks a"
    using assms(1) plain unfolding one_line_def shape
    by (auto simp: list_all_iff split: if_splits dest!: split_list_first_prop [of body is_line_break, OF bexI [rotated]])
  have line: "split_lines ?s = (CHR ''{'' # a) # split_lines (after_break (x # b @ ''}'' @ [CHR 0x0A]))"
    using parts plain by (subst split_lines.simps) (simp add: takeWhile_append2 dropWhile_append2 list_all_iff)
  have "CHR ''}'' \<in> set (after_break (x # b @ ''}'' @ [CHR 0x0A]))"
    using parts(2) plain by (intro after_break_keeps) simp_all
  from lines_cover [OF this plain(2)] obtain l where l: "l \<in> set (split_lines (after_break (x # b @ ''}'' @ [CHR 0x0A])))" "CHR ''}'' \<in> set l"
    by blast
  then have "\<not> blank_line l" using plain(4) by (auto simp: blank_line_def list_all_iff)
  with l(1) have "filter (\<lambda>l. \<not> blank_line l) (split_lines (after_break (x # b @ ''}'' @ [CHR 0x0A]))) \<noteq> []"
    by (auto simp: filter_empty_conv)
  moreover have "\<not> blank_line (CHR ''{'' # a)" using plain(3) by (simp add: blank_line_def)
  ultimately obtain l1 l2 ls where "filter (\<lambda>l. \<not> blank_line l) (split_lines ?s) = l1 # l2 # ls"
    unfolding line by (cases "filter (\<lambda>l. \<not> blank_line l) (split_lines (after_break (x # b @ ''}'' @ [CHR 0x0A])))") simp_all
  with assms(2,3) show ?thesis by (simp add: decode_single_frame_def shape bind_value raise_if_def
      del: canonical_json.simps split_lines.simps)
qed

lemma set_join: "x \<in> set w \<Longrightarrow> w \<in> set ws \<Longrightarrow> x \<in> set (join d ws)"
  by (induction d ws rule: join.induct) auto

lemma nel_text: "CHR 0x85 \<in> set (json_quote [CHR 0x85])"
  by (simp add: json_quote_def json_escape_def)

lemma list_text: "x \<in> set (canonical_json v) \<Longrightarrow> v \<in> set vs \<Longrightarrow> x \<in> set (canonical_json (JList vs))"
  by (auto intro!: set_join [of x "canonical_json v"])

lemma object_text: "x \<in> set (canonical_json v) \<Longrightarrow> (k, v) \<in> set kvs \<Longrightarrow> x \<in> set (canonical_json (JObj kvs))"
  by (auto intro!: set_join [of x "json_quote k @ '':'' @ canonical_json v"] image_eqI [where x = "(k, canonical_json v)"]
      image_eqI [where x = "(k, v)"])

lemma demo_two_lines:
  "decode_single_frame (demo_reader (demo_response [CHR 0x85])) (json_bytes (demo_response [CHR 0x85])) (demo_limit [CHR 0x85]) =
     Inl (protocol_exn ''Oracle protocol requires exactly one JSON frame'')"
proof -
  obtain kvs where kvs: "demo_response [CHR 0x85] = JObj kvs" by (simp add: demo_response_def response_document_def)
  have "CHR 0x85 \<in> set (canonical_json (JStr [CHR 0x85]))" using nel_text by simp
  then have "CHR 0x85 \<in> set (canonical_json (output_result_dict (demo_result [CHR 0x85])))"
    unfolding output_result_dict_def by (rule object_text) (simp add: demo_result_def, blast)
  then have "CHR 0x85 \<in> set (canonical_json (JList [output_result_dict (demo_result [CHR 0x85])]))" by (rule list_text) simp
  then have "CHR 0x85 \<in> set (canonical_json (demo_response [CHR 0x85]))"
    unfolding demo_response_def response_document_def by (rule object_text) simp
  moreover have "is_line_break CHR 0x85" by (simp add: is_line_break_def)
  ultimately have "\<not> one_line (demo_response [CHR 0x85])" by (auto simp: one_line_def list_all_iff)
  then show ?thesis unfolding kvs by (rule broken_frame) (simp_all add: demo_reader_def demo_limit_def kvs)
qed

definition demo_empty_payload :: oracle_payload where
  "demo_empty_payload = \<lparr>op_evidence_id = ''ev'', op_evidence_type = ''t'', op_content = [], op_media_type = ''text/plain'',
     op_digest = sha256_id [], op_classification = ''public'', op_producer = None\<rparr>"

section \<open>Properties\<close>

text \<open>C18: Whatever bytes a worker writes and however they read as text, a response the runner accepts is within the frame
  limit and consistent: Evidence ids are distinct, every payload is complete and has the digest of its non-empty
  content, and every result has a known verdict, a confidence between 0 and 1 and only refers to Evidence of the response.\<close>

theorem accepted_response_is_consistent:
  assumes "decode_success tr frame rid limit = Inr (results, payloads)"
  shows "int (length frame) \<le> limit \<and> distinct (map op_evidence_id payloads) \<and>
    (\<forall>p \<in> set payloads. op_evidence_id p \<noteq> [] \<and> op_evidence_type p \<noteq> [] \<and> op_content p \<noteq> [] \<and> op_digest p = sha256_id (op_content p)) \<and>
    (\<forall>r \<in> set results. vr_verdict r \<in> set [''PASS'', ''PARTIAL'', ''FAIL'', ''INCONCLUSIVE''] \<and> unit_interval (vr_confidence r) \<and>
       set (vr_evidence_ids r) \<subseteq> op_evidence_id ` set payloads)"
proof -
  from assms obtain raw where frame: "decode_single_frame tr frame limit = Inr raw" and
    body: "(case (jget_none raw ''evidence'', jget_none raw ''results'') of
       (JList evidence_raw, JList results_raw) \<Rightarrow>
         res_bind (decode_payloads [] evidence_raw) (\<lambda>payloads.
         res_bind (map_each (decode_result (map op_evidence_id payloads)) results_raw) (\<lambda>results. Inr (results, payloads)))
     | _ \<Rightarrow> Inl (protocol_exn ''Oracle response results/evidence must be arrays'')) = Inr (results, payloads)"
    unfolding decode_success_def by (auto simp only: res_bind_ok)
  then obtain evidence_raw results_raw where "jget_none raw ''evidence'' = JList evidence_raw" "jget_none raw ''results'' = JList results_raw"
    by (cases "jget_none raw ''evidence''"; cases "jget_none raw ''results''") simp_all
  with body have payloads: "decode_payloads [] evidence_raw = Inr payloads" and
    results: "map_each (decode_result (map op_evidence_id payloads)) results_raw = Inr results" by auto
  have "\<forall>r \<in> set results. sound_result (map op_evidence_id payloads) r"
    using map_each_okD [OF results] by (fastforce simp: list_all2_conv_all_nth in_set_conv_nth intro: decode_result_ok)
  moreover have "int (length frame) \<le> limit" using frame by (simp add: decode_single_frame_def)
  ultimately show ?thesis using decode_payloads_ok [OF payloads]
    by (auto simp: list_all_iff sound_result_def verdict_names_def sound_payload_fields)
qed

theorem accepted_response_is_consistent_witness:
  "\<exists>limit. decode_success (demo_reader (demo_response ''c'')) (json_bytes (demo_response ''c'')) ''r'' limit = Inr ([demo_result ''c''], []) \<and>
     vr_verdict (demo_result ''c'') \<in> set [''PASS'', ''PARTIAL'', ''FAIL'', ''INCONCLUSIVE'']"
  using accepted_response_is_consistent [OF demo_decoded] demo_decoded by auto

text \<open>Three gaps of the protocol: a result with NEL in a text is encoded on one line that \<open>splitlines\<close> breaks in two, so
  its own frame is rejected; Evidence with empty content is encoded but never decoded; and a confidence too large for
  a float raises \<open>OverflowError\<close> instead of a protocol error.\<close>

theorem response_frame_gaps:
  "(encode_success ''r'' [demo_result [CHR 0x85]] [] (demo_limit [CHR 0x85]) = Inr (json_bytes (demo_response [CHR 0x85])) \<and>
    decode_success (demo_reader (demo_response [CHR 0x85])) (json_bytes (demo_response [CHR 0x85])) ''r'' (demo_limit [CHR 0x85]) =
      Inl (protocol_exn ''Oracle protocol requires exactly one JSON frame'')) \<and>
   (encode_payloads [] [demo_empty_payload] = Inr [payload_frame demo_empty_payload] \<and>
    decode_payload [] (payload_frame demo_empty_payload) =
      Inl (protocol_exn ''evidence.content_base64 must be a non-empty string'')) \<and>
   decode_confidence (JInt (10 ^ 400)) = Inl (OverflowError ''int too large to convert to float'')"
proof (intro conjI)
  show "encode_success ''r'' [demo_result [CHR 0x85]] [] (demo_limit [CHR 0x85]) = Inr (json_bytes (demo_response [CHR 0x85]))"
    by (rule demo_encoded)
  show "decode_success (demo_reader (demo_response [CHR 0x85])) (json_bytes (demo_response [CHR 0x85])) ''r'' (demo_limit [CHR 0x85]) =
      Inl (protocol_exn ''Oracle protocol requires exactly one JSON frame'')"
    by (simp only: decode_success_def demo_two_lines res_bind_def sum.case)
  show "encode_payloads [] [demo_empty_payload] = Inr [payload_frame demo_empty_payload]"
    by (simp add: demo_empty_payload_def result_simps)
  show "decode_payload [] (payload_frame demo_empty_payload) = Inl (protocol_exn ''evidence.content_base64 must be a non-empty string'')"
    by (simp add: demo_empty_payload_def payload_frame_def decode_payload_def proto_mapping_def jget_none_def decode_content_def
        proto_string_def result_simps)
  show "decode_confidence (JInt (10 ^ 400)) = Inl (OverflowError ''int too large to convert to float'')"
    by (simp add: decode_confidence_def float_overflow_def)
qed

end
