(* ===== verification/AVP_OracleRunner.thy ===== *)
theory AVP_OracleRunner
  imports AVP_OracleWire Complex_Main
begin

text \<open>
  \<^verbatim>\<open>oracle_runner/subprocess.py\<close> and \<^verbatim>\<open>oracle_worker.py\<close>: the runner that evaluates an Oracle in a child process, and
  the program of that process. The operating system is a parameter: what each poll of the child observes, the bytes
  it leaves in the two output files, and the import system of the worker.
\<close>

section \<open>Allowed modules\<close>

definition starts_with_text :: "string \<Rightarrow> string \<Rightarrow> bool" where
  "starts_with_text p s \<longleftrightarrow> take (length p) s = p"

text \<open>\<open>prefix.rstrip(".")\<close>.\<close>

definition rstrip_dots :: "string \<Rightarrow> string" where
  "rstrip_dots s = rev (dropWhile (\<lambda>c. c = CHR ''.'') (rev s))"

definition module_allowed :: "string list \<Rightarrow> string \<Rightarrow> bool" where
  "module_allowed allowlist m \<longleftrightarrow> list_ex (\<lambda>p. m = rstrip_dots p \<or> starts_with_text p m) allowlist"

text \<open>\<open>json.dumps\<close> of a list of strings, with its default separators and ASCII escapes.\<close>

definition json_quote_ascii :: "string \<Rightarrow> string" where
  "json_quote_ascii s = CHR 0x22 # concat (map (\<lambda>c. let n = (of_char c :: nat) in
     if 127 \<le> n then CHR 0x5C # ''u00'' @ [hex_digit (n div 16), hex_digit (n mod 16)] else json_escape c) s) @ [CHR 0x22]"

definition json_string_list :: "string list \<Rightarrow> string" where
  "json_string_list xs = ''['' @ join '', '' (map json_quote_ascii xs) @ '']''"

section \<open>The worker\<close>

datatype worker_failure = Raised exn | MemoryExn string | OsExn int string string | OtherExn string string

type_synonym oracle_output = "verification_result list \<times> oracle_payload list"

text \<open>What Oracle code does with its context: the bytes it prints, and its return value (\<open>None\<close> when that is not an
  \<open>OracleEvaluationOutput\<close>) or its exception.\<close>

type_synonym oracle_code = "oracle_context \<Rightarrow> bytes \<times> (worker_failure + oracle_output option)"

text \<open>The process of a worker. \<open>wh_setrlimit\<close> stands for importing \<open>resource\<close> and its \<open>setrlimit\<close> calls, \<open>wh_source\<close> and
  \<open>wh_import\<close> for the import system (\<open>Inr None\<close>: the attribute is not callable).\<close>

record worker_host =
  wh_environ :: "string \<Rightarrow> string option"
  wh_setrlimit :: "int \<Rightarrow> int \<Rightarrow> int \<Rightarrow> int \<Rightarrow> worker_failure + unit"
  wh_reader :: text_reader
  wh_source :: "string \<Rightarrow> bytes option option"
  wh_import :: "string \<Rightarrow> string \<Rightarrow> worker_failure + oracle_code option"

definition raising :: "(exn, 'a) result \<Rightarrow> worker_failure + 'a" where
  "raising r = (case r of Inl e \<Rightarrow> Inl (Raised e) | Inr a \<Rightarrow> Inr a)"

definition environ_int :: "worker_host \<Rightarrow> string \<Rightarrow> (exn, int) result" where
  "environ_int h name = (case wh_environ h name of
     None \<Rightarrow> Inl (KeyError (py_repr_str name))
   | Some s \<Rightarrow> (case py_int s of
       None \<Rightarrow> Inl (ValueError (''invalid literal for int() with base 10: '' @ py_repr_str s)) | Some i \<Rightarrow> Inr i))"

definition environ_int_or :: "worker_host \<Rightarrow> string \<Rightarrow> int \<Rightarrow> (exn, int) result" where
  "environ_int_or h name d = (if wh_environ h name = None then Inr d else environ_int h name)"

definition apply_resource_limits :: "worker_host \<Rightarrow> worker_failure + unit" where
  "apply_resource_limits h =
     (if wh_environ h ''AVP_ORACLE_ENFORCE_LIMITS'' \<noteq> Some ''1'' then Inr ()
      else res_bind (raising (environ_int h ''AVP_ORACLE_CPU_SECONDS'')) (\<lambda>cpu.
        res_bind (raising (environ_int h ''AVP_ORACLE_MEMORY_BYTES'')) (\<lambda>memory.
        res_bind (raising (environ_int h ''AVP_ORACLE_FILE_BYTES'')) (\<lambda>file_bytes.
        res_bind (raising (environ_int h ''AVP_ORACLE_NOFILE'')) (\<lambda>nofile.
        wh_setrlimit h cpu memory file_bytes nofile)))))"

definition worker_allowed :: "worker_host \<Rightarrow> string \<Rightarrow> (exn, bool) result" where
  "worker_allowed h m =
     (let malformed = Inl (OracleExn OracleSecurityError ''Oracle module allowlist is missing or malformed'');
          invalid = Inl (OracleExn OracleSecurityError ''Oracle module allowlist is invalid'') in
      case wh_environ h ''AVP_ORACLE_ALLOWED_MODULE_PREFIXES'' of
        None \<Rightarrow> malformed
      | Some s \<Rightarrow> (case tr_loads (wh_reader h) s of
          None \<Rightarrow> malformed
        | Some v \<Rightarrow> (case proto_strings v '''' of
            Inl _ \<Rightarrow> invalid
          | Inr allowlist \<Rightarrow> if allowlist = [] then invalid else Inr (module_allowed allowlist m))))"

text \<open>\<open>sys.stdin.buffer.readline(n)\<close>.\<close>

definition read_line :: "int \<Rightarrow> bytes \<Rightarrow> bytes" where
  "read_line n bs =
     (let upto = takeWhile (\<lambda>b. b \<noteq> 10) bs; line = (if length upto < length bs then upto @ [10] else upto) in
      if n < 0 then line else take (nat n) line)"

definition read_request_frame :: "bytes \<Rightarrow> int \<Rightarrow> (exn, bytes) result" where
  "read_request_frame input limit =
     (let frame = read_line (limit + 1) input in
      res_bind (raise_if (limit < int (length frame) \<or> frame = [] \<or> last frame \<noteq> 10 \<or> drop (length frame) input \<noteq> [])
        (protocol_exn ''Oracle worker accepts exactly one bounded request frame'')) (\<lambda>_. Inr frame))"

text \<open>\<open>main\<close> up to the Oracle call: the request, its Oracle and the response limit.\<close>

definition worker_prepare :: "worker_host \<Rightarrow> bytes \<Rightarrow> worker_failure + (oracle_request \<times> oracle_code \<times> int)" where
  "worker_prepare h input =
     res_bind (apply_resource_limits h) (\<lambda>_.
     res_bind (raising (environ_int_or h ''AVP_ORACLE_MAX_REQUEST_BYTES'' (1024 * 1024))) (\<lambda>max_request.
     res_bind (raising (environ_int_or h ''AVP_ORACLE_MAX_RESPONSE_BYTES'' (1024 * 1024))) (\<lambda>max_response.
     res_bind (raising (read_request_frame input max_request)) (\<lambda>frame.
     res_bind (raising (decode_request (wh_reader h) frame max_request)) (\<lambda>request.
     res_bind (raising (parse_entrypoint (pk_entrypoint (rq_package request)))) (\<lambda>(module, callable_name).
     res_bind (raising (worker_allowed h module)) (\<lambda>allowed.
     res_bind (raise_if (\<not> allowed) (Raised (OracleExn OracleSecurityError
       (''Oracle module is outside worker allowlist: '' @ module)))) (\<lambda>_.
     res_bind (raising (module_code_digest (wh_source h) (pk_entrypoint (rq_package request)))) (\<lambda>digest.
     res_bind (raise_if (digest \<noteq> pk_code_digest (rq_package request)) (Raised (OracleExn OracleSecurityError
       ''Oracle package code digest changed before execution''))) (\<lambda>_.
     res_bind (wh_import h module callable_name) (\<lambda>code. case code of
       None \<Rightarrow> Inl (Raised (protocol_exn ''Oracle entrypoint is not callable''))
     | Some f \<Rightarrow> Inr (request, f, max_response))))))))))))"

definition worker_respond :: "oracle_request \<Rightarrow> int \<Rightarrow> worker_failure + oracle_output option \<Rightarrow> worker_failure + bytes" where
  "worker_respond request limit output =
     res_bind output (\<lambda>returned. case returned of
       None \<Rightarrow> Inl (Raised (protocol_exn ''Oracle entrypoint must return OracleEvaluationOutput''))
     | Some (results, payloads) \<Rightarrow> raising (encode_success (rq_request_id request) results payloads limit))"

fun failure_text :: "worker_failure \<Rightarrow> string" where
  "failure_text (Raised e) = exn_name e @ '': '' @ exn_text e"
| "failure_text (MemoryExn m) = ''MemoryError: '' @ m"
| "failure_text (OsExn _ nm m) = nm @ '': '' @ m"
| "failure_text (OtherExn nm m) = nm @ '': '' @ m"

definition safe_error :: "worker_failure \<Rightarrow> bytes" where
  "safe_error f = utf8 (take 512 (map (\<lambda>c. if c = CHR 0x0A then CHR '' '' else c) (failure_text f)) @ [CHR 0x0A])"

definition resource_errnos :: "int list" where
  "resource_errnos = [27, 24, 23, 12]"

fun failure_code :: "worker_failure \<Rightarrow> int" where
  "failure_code (Raised e) = (case e of
     OracleExn OracleSecurityError _ \<Rightarrow> 77 | OracleExn OracleProtocolError _ \<Rightarrow> 65 | _ \<Rightarrow> 70)"
| "failure_code (MemoryExn _) = 77"
| "failure_code (OsExn n _ _) = (if n \<in> set resource_errnos then 77 else 70)"
| "failure_code (OtherExn _ _) = 70"

text \<open>\<open>main()\<close>: exit code, standard output and standard error.\<close>

definition worker_main :: "worker_host \<Rightarrow> bytes \<Rightarrow> int \<times> bytes \<times> bytes" where
  "worker_main h input = (case worker_prepare h input of
     Inl f \<Rightarrow> (failure_code f, [], safe_error f)
   | Inr (request, code, limit) \<Rightarrow>
       (let (printed, output) = code (rq_context request) in
        case worker_respond request limit output of
          Inl f \<Rightarrow> (failure_code f, printed, safe_error f)
        | Inr frame \<Rightarrow> (0, printed @ frame, [])))"

section \<open>Watching the child\<close>

text \<open>Clocks are exact rationals. One observation is one round of the polling loop: \<open>process.poll()\<close>, the sizes of the
  output files and \<open>time.monotonic()\<close>.\<close>

definition float_value :: "pyfloat \<Rightarrow> rat" where
  "float_value f = (if float_neg f then - 1 else 1) * of_nat (float_digits f) *
     (if 0 \<le> float_exp f then 10 ^ nat (float_exp f) else 1 / 10 ^ nat (- float_exp f))"

record poll_observation =
  po_exit :: "int option"
  po_stdout_size :: int
  po_stderr_size :: int
  po_clock :: rat

definition output_exceeded :: "sandbox_policy \<Rightarrow> poll_observation \<Rightarrow> bool" where
  "output_exceeded p o' \<longleftrightarrow> sp_max_response_bytes p < po_stdout_size o' \<or> sp_max_file_bytes p < po_stderr_size o'"

text \<open>The loop of \<open>_wait_bounded\<close> from round \<open>n\<close> on: why it ended, and in which round.\<close>

partial_function (option) wait_bounded :: "sandbox_policy \<Rightarrow> rat \<Rightarrow> (nat \<Rightarrow> poll_observation) \<Rightarrow> nat \<Rightarrow> (string \<times> nat) option" where
  "wait_bounded p deadline polls n =
     (if po_exit (polls n) \<noteq> None then Some (''completed'', n)
      else if output_exceeded p (polls n) then Some (''output_limit'', n)
      else if deadline \<le> po_clock (polls n) then Some (''timeout'', n)
      else wait_bounded p deadline polls (Suc n))"

text \<open>A child process: its observations, the exit code after it was killed in a round, the contents of its output files
  once it has ended, and the clock before the start, before the loop and at the end.\<close>

record child_process =
  cp_polls :: "nat \<Rightarrow> poll_observation"
  cp_killed_code :: "nat \<Rightarrow> int"
  cp_stdout :: "nat \<Rightarrow> bytes"
  cp_stderr :: "nat \<Rightarrow> bytes"
  cp_started :: rat
  cp_wait_started :: rat
  cp_finished :: "nat \<Rightarrow> rat"

section \<open>Reading the output\<close>

text \<open>\<open>_read_and_digest\<close>: chunks of 64 KiB; the bytes given to the hash so far stand for its state.\<close>

function read_chunks :: "nat \<Rightarrow> bytes \<Rightarrow> bytes \<Rightarrow> bytes \<Rightarrow> bytes \<times> bytes" where
  "read_chunks limit captured hashed content =
     (let chunk = take 65536 content in
      if chunk = [] then (captured, hashed)
      else read_chunks limit (if length captured < limit then captured @ take (limit - length captured) chunk else captured)
        (hashed @ chunk) (drop 65536 content))"
  by pat_completeness auto
termination by (relation "measure (\<lambda>(_, _, _, content). length content)") auto

declare read_chunks.simps [simp del]

definition read_and_digest :: "bytes \<Rightarrow> int \<Rightarrow> bytes \<times> string \<times> bool" where
  "read_and_digest content limit =
     (case read_chunks (nat limit) [] [] content of
        (captured, hashed) \<Rightarrow> (captured, sha256_id hashed, limit < int (length hashed)))"

section \<open>The runner\<close>

record subprocess_runner =
  sr_policy :: sandbox_policy
  sr_worker_module :: string
  sr_prefixes :: "string list"

text \<open>The machine of the runner; \<open>mh_spawn\<close> starts a worker with an environment and the bytes of its standard input.\<close>

record runner_host =
  mh_posix :: bool
  mh_environ :: "string \<Rightarrow> string option"
  mh_source :: "string \<Rightarrow> bytes option option"
  mh_reader :: text_reader
  mh_spawn :: "(string \<Rightarrow> string option) \<Rightarrow> bytes \<Rightarrow> child_process"

definition default_sandbox_policy :: "bool \<Rightarrow> sandbox_policy" where
  "default_sandbox_policy enforce = \<lparr>sp_timeout_seconds = PyFloat False 5 0, sp_cpu_seconds = 3, sp_memory_bytes = 256 * 1024 * 1024,
     sp_max_file_bytes = 1024 * 1024, sp_max_open_files = 64, sp_max_request_bytes = 1024 * 1024,
     sp_max_response_bytes = 1024 * 1024, sp_inherited_environment = [], sp_enforce_resource_limits = enforce\<rparr>"

definition make_subprocess_runner :: "runner_host \<Rightarrow> sandbox_policy option \<Rightarrow> string \<Rightarrow> string list \<Rightarrow> (exn, subprocess_runner) result" where
  "make_subprocess_runner h policy worker allowlist =
     (let p = (case policy of None \<Rightarrow> default_sandbox_policy (mh_posix h) | Some q \<Rightarrow> q) in
      res_bind (raise_if (worker = [] \<or> allowlist = []) (OracleExn OracleConfigurationError
        ''worker_module and allowed_module_prefixes must be configured'')) (\<lambda>_.
      res_bind (raise_if (sp_enforce_resource_limits p \<and> \<not> mh_posix h) (OracleExn OracleSecurityError
        ''POSIX resource limits were required on a platform that cannot enforce them'')) (\<lambda>_.
      Inr \<lparr>sr_policy = p, sr_worker_module = worker, sr_prefixes = sort (remdups allowlist)\<rparr>)))"

definition describe_runner :: "runner_host \<Rightarrow> subprocess_runner \<Rightarrow> (exn, oracle_runner_description) result" where
  "describe_runner h r =
     res_bind (module_code_digest (mh_source h) (sr_worker_module r @ '':main'')) (\<lambda>code.
     make_runner_description \<lparr>rd_name = ''subprocess-oracle-runner'', rd_version = ''0.3.1.dev0'',
       rd_protocol_version = protocol_version,
       rd_isolation = (if sp_enforce_resource_limits (sr_policy r) then ''process+rlimit'' else ''process''),
       rd_policy = sr_policy r, rd_worker_module = sr_worker_module r, rd_worker_code_digest = code,
       rd_allowed_module_prefixes = sr_prefixes r, rd_filesystem_isolation = False, rd_network_isolation = False\<rparr>)"

definition fixed_environment :: "subprocess_runner \<Rightarrow> string \<Rightarrow> string option" where
  "fixed_environment r = (let p = sr_policy r in
     [''TZ'' \<mapsto> ''UTC'',
      ''AVP_ORACLE_ENFORCE_LIMITS'' \<mapsto> (if sp_enforce_resource_limits p then ''1'' else ''0''),
      ''AVP_ORACLE_CPU_SECONDS'' \<mapsto> string_of_int (sp_cpu_seconds p),
      ''AVP_ORACLE_MEMORY_BYTES'' \<mapsto> string_of_int (sp_memory_bytes p),
      ''AVP_ORACLE_FILE_BYTES'' \<mapsto> string_of_int (sp_max_file_bytes p),
      ''AVP_ORACLE_NOFILE'' \<mapsto> string_of_int (sp_max_open_files p),
      ''AVP_ORACLE_MAX_REQUEST_BYTES'' \<mapsto> string_of_int (sp_max_request_bytes p),
      ''AVP_ORACLE_MAX_RESPONSE_BYTES'' \<mapsto> string_of_int (sp_max_response_bytes p),
      ''AVP_ORACLE_ALLOWED_MODULE_PREFIXES'' \<mapsto> json_string_list (sr_prefixes r)])"

text \<open>The runner's own variables named in \<open>names\<close>, copied one after the other.\<close>

definition copy_variables :: "(string \<Rightarrow> string option) \<Rightarrow> string list \<Rightarrow> (string \<Rightarrow> string option) \<Rightarrow> string \<Rightarrow> string option" where
  "copy_variables own names env =
     foldl (\<lambda>e nm. case own nm of None \<Rightarrow> e | Some v \<Rightarrow> e(nm \<mapsto> v)) env names"

definition worker_environment :: "runner_host \<Rightarrow> subprocess_runner \<Rightarrow> string \<Rightarrow> string option" where
  "worker_environment h r =
     copy_variables (mh_environ h) (sp_inherited_environment (sr_policy r))
       (copy_variables (mh_environ h) [''SYSTEMROOT'', ''WINDIR'', ''LANG'', ''LC_ALL''] (fixed_environment r))"

definition resource_limit_exit :: "bool \<Rightarrow> int \<Rightarrow> bool" where
  "resource_limit_exit posix code \<longleftrightarrow> code < 0 \<and> posix \<and> - code \<in> {24, 25}"

text \<open>The status of an ended run and, for a success, the accepted output.\<close>

definition classify_run :: "runner_host \<Rightarrow> subprocess_runner \<Rightarrow> string \<Rightarrow> string \<Rightarrow> int \<Rightarrow> bytes \<times> string \<times> bool \<Rightarrow>
    bytes \<times> string \<times> bool \<Rightarrow> (exn, oracle_execution_status \<times> oracle_output option) result" where
  "classify_run h r rid termination code out err =
     (if termination = ''timeout'' then Inr (TIMEOUT, None)
      else if termination = ''output_limit'' \<or> snd (snd out) \<or> snd (snd err) then Inr (SECURITY_VIOLATION, None)
      else if resource_limit_exit (mh_posix h) code \<or> code = 77 then Inr (SECURITY_VIOLATION, None)
      else if code = 65 then Inr (PROTOCOL_ERROR, None)
      else if code \<noteq> 0 then Inr (CRASHED, None)
      else case decode_success (mh_reader h) (fst out) rid (sp_max_response_bytes (sr_policy r)) of
        Inr output \<Rightarrow> Inr (SUCCESS, Some output)
      | Inl e \<Rightarrow> (case e of OracleExn OracleProtocolError _ \<Rightarrow> Inr (PROTOCOL_ERROR, None) | _ \<Rightarrow> Inl e))"

definition run_result :: "runner_host \<Rightarrow> subprocess_runner \<Rightarrow> oracle_request \<Rightarrow> child_process \<Rightarrow> string \<Rightarrow> nat \<Rightarrow>
    (exn, oracle_execution_result) result" where
  "run_result h r request child termination n =
     (let code = (case po_exit (cp_polls child n) of Some c \<Rightarrow> c | None \<Rightarrow> cp_killed_code child n);
          out = read_and_digest (cp_stdout child n) (sp_max_response_bytes (sr_policy r));
          err = read_and_digest (cp_stderr child n) (sp_max_file_bytes (sr_policy r)) in
      res_bind (classify_run h r (rq_request_id request) termination code out err) (\<lambda>(status, output).
      res_bind (describe_runner h r) (\<lambda>description.
      let results = (case output of None \<Rightarrow> [] | Some (rs, _) \<Rightarrow> rs);
          payloads = (case output of None \<Rightarrow> [] | Some (_, ps) \<Rightarrow> ps) in
      make_execution_result \<lparr>xr_request_id = rq_request_id request, xr_status = status, xr_results = results, xr_evidence = payloads,
        xr_artifact = \<lparr>xa_request_id = rq_request_id request,
          xa_oracle_package_digest = package_identity_digest (rq_package request),
          xa_oracle_code_digest = pk_code_digest (rq_package request),
          xa_runner_config_digest = runner_identity_digest description,
          xa_input_digest = context_input_digest (rq_context request), xa_status = status,
          xa_duration_ms = \<lfloor>(cp_finished child n - cp_started child) * 1000\<rfloor>, xa_exit_code = Some code,
          xa_stdout_digest = fst (snd out), xa_stderr_digest = fst (snd err),
          xa_output_digest = map_option (\<lambda>(rs, ps). oracle_output_digest rs ps) output\<rparr>\<rparr>)))"

text \<open>\<open>evaluate\<close>: \<open>None\<close> when the loop never ends.\<close>

definition evaluate_oracle :: "runner_host \<Rightarrow> subprocess_runner \<Rightarrow> oracle_request \<Rightarrow> (exn, oracle_execution_result) result option" where
  "evaluate_oracle h r request =
     (case res_bind (parse_entrypoint (pk_entrypoint (rq_package request))) (\<lambda>(module, _).
           res_bind (raise_if (\<not> module_allowed (sr_prefixes r) module) (OracleExn OracleSecurityError
             (''Oracle module is outside runner allowlist: '' @ module))) (\<lambda>_.
           encode_request request (sp_max_request_bytes (sr_policy r)))) of
        Inl e \<Rightarrow> Some (Inl e)
      | Inr frame \<Rightarrow>
          (let child = mh_spawn h (worker_environment h r) frame;
               deadline = cp_wait_started child + float_value (sp_timeout_seconds (sr_policy r)) in
           map_option (\<lambda>(termination, n). run_result h r request child termination n)
             (wait_bounded (sr_policy r) deadline (cp_polls child) 0)))"

end
