(* ===== verification/AVP_RunnerFacts.thy ===== *)
theory AVP_RunnerFacts
  imports AVP_WireFacts AVP_OracleRunner
begin

text \<open>
  What the process boundary guarantees: the polling loop ends, a run is accepted only when the child exited
  cleanly within its limits with a consistent response, and an Oracle evaluated in a worker gives the results
  it gives when called directly.
\<close>

section \<open>Reading the output\<close>

lemma read_chunks_all: "length captured \<le> limit \<Longrightarrow>
   read_chunks limit captured hashed content = (captured @ take (limit - length captured) content, hashed @ content)"
proof (induction limit captured hashed content rule: read_chunks.induct)
  case (1 limit captured hashed content)
  show ?case
  proof (cases "take 65536 content = []")
    case False
    let ?c = "if length captured < limit then captured @ take (limit - length captured) (take 65536 content) else captured"
    have l: "length ?c \<le> limit" using 1(2) by (auto simp: min_def)
    have "take r content = take r (take 65536 content) @ take (r - length (take r (take 65536 content))) (drop 65536 content)" for r
    proof -
      have "take r (take 65536 content @ drop 65536 content) =
          take r (take 65536 content) @ take (r - length (take 65536 content)) (drop 65536 content)" by (rule take_append)
      moreover have "r - length (take r (take 65536 content)) = r - length (take 65536 content)" by simp
      ultimately show ?thesis by (simp only: append_take_drop_id)
    qed
    from this [of "limit - length captured"]
    have "?c @ take (limit - length ?c) (drop 65536 content) = captured @ take (limit - length captured) content"
      using 1(2) by (cases "length captured = limit") simp_all
    then show ?thesis using 1(1) [OF refl False l] False
      by (subst read_chunks.simps) simp
  qed (subst read_chunks.simps, simp)
qed

lemma read_and_digest_exact: "read_and_digest content limit = (take (nat limit) content, sha256_id content, limit < int (length content))"
  by (simp add: read_and_digest_def read_chunks_all)

section \<open>The polling loop\<close>

definition round_ends :: "sandbox_policy \<Rightarrow> rat \<Rightarrow> poll_observation \<Rightarrow> bool" where
  "round_ends p deadline o' \<longleftrightarrow> po_exit o' \<noteq> None \<or> output_exceeded p o' \<or> deadline \<le> po_clock o'"

definition round_reason :: "sandbox_policy \<Rightarrow> poll_observation \<Rightarrow> string" where
  "round_reason p o' = (if po_exit o' \<noteq> None then ''completed'' else if output_exceeded p o' then ''output_limit'' else ''timeout'')"

lemma wait_at_end: "round_ends p d (polls n) \<Longrightarrow> wait_bounded p d polls n = Some (round_reason p (polls n), n)"
  by (subst wait_bounded.simps) (auto simp: round_ends_def round_reason_def)

lemma wait_step: "\<not> round_ends p d (polls n) \<Longrightarrow> wait_bounded p d polls n = wait_bounded p d polls (Suc n)"
  by (subst wait_bounded.simps) (auto simp: round_ends_def)

lemma wait_until:
  assumes "round_ends p d (polls m)" "\<forall>k \<in> {n..<m}. \<not> round_ends p d (polls k)" "n \<le> m"
  shows "wait_bounded p d polls n = Some (round_reason p (polls m), m)"
  using assms(3,2)
proof (induction n rule: inc_induct)
  case base
  then show ?case using assms(1) by (rule_tac wait_at_end)
next
  case (step n)
  then show ?case by (simp add: wait_step)
qed

lemma wait_first:
  assumes "round_ends p d (polls k)"
  obtains m where "m \<le> k" "round_ends p d (polls m)" "\<forall>i < m. \<not> round_ends p d (polls i)"
    "wait_bounded p d polls 0 = Some (round_reason p (polls m), m)"
proof
  let ?m = "LEAST m. round_ends p d (polls m)"
  show "?m \<le> k" using assms by (rule Least_le)
  show ends: "round_ends p d (polls ?m)" using assms by (rule LeastI)
  show before: "\<forall>i < ?m. \<not> round_ends p d (polls i)" using not_less_Least by blast
  then have "\<forall>i \<in> {0..<?m}. \<not> round_ends p d (polls i)" by (intro ballI) (metis atLeastLessThan_iff)
  with ends show "wait_bounded p d polls 0 = Some (round_reason p (polls ?m), ?m)" by (rule wait_until) (rule le0)
qed

text \<open>C20: The polling loop ends: if the clock has advanced by at least 5 ms per round, it stops within 200 rounds per
  second of the timeout, at the first round where the child has exited, an output file is over its limit or the
  deadline has passed, and reports exactly that.\<close>

theorem polling_terminates:
  assumes "\<And>n. started + of_nat n * (5 / 1000) \<le> po_clock (polls n)" "timeout * 200 \<le> of_nat bound"
  shows "\<exists>m \<le> bound. wait_bounded p (started + timeout) polls 0 =
      Some (if po_exit (polls m) \<noteq> None then ''completed'' else if output_exceeded p (polls m) then ''output_limit'' else ''timeout'', m) \<and>
    list_all (\<lambda>k. po_exit (polls k) = None \<and> \<not> output_exceeded p (polls k) \<and> po_clock (polls k) < started + timeout) [0..<m]"
proof -
  have "timeout \<le> of_nat bound * (5 / 1000)" using assms(2) by linarith
  then have "started + timeout \<le> po_clock (polls bound)" using assms(1) [of bound] by linarith
  then have "round_ends p (started + timeout) (polls bound)" by (simp add: round_ends_def)
  then obtain m where m: "m \<le> bound" "\<forall>i < m. \<not> round_ends p (started + timeout) (polls i)"
    "wait_bounded p (started + timeout) polls 0 = Some (round_reason p (polls m), m)" by (rule wait_first)
  have "list_all (\<lambda>k. po_exit (polls k) = None \<and> \<not> output_exceeded p (polls k) \<and> po_clock (polls k) < started + timeout) [0..<m]"
    using m(2) by (simp add: list_all_iff round_ends_def not_le)
  with m(1,3) show ?thesis unfolding round_reason_def by blast
qed

theorem polling_terminates_witness:
  "\<exists>m \<le> 200. wait_bounded (default_sandbox_policy True) (0 + 1)
     (\<lambda>n. \<lparr>po_exit = None, po_stdout_size = 0, po_stderr_size = 0, po_clock = 0 + of_nat n * (5 / 1000)\<rparr>) 0 = Some (''timeout'', m)"
  using polling_terminates [of 0 "\<lambda>n. \<lparr>po_exit = None, po_stdout_size = 0, po_stderr_size = 0, po_clock = 0 + of_nat n * (5 / 1000)\<rparr>"
      1 200 "default_sandbox_policy True"] by (simp add: output_exceeded_def default_sandbox_policy_def) blast

section \<open>Accepted runs\<close>

abbreviation reported :: "sandbox_policy \<Rightarrow> rat \<Rightarrow> (nat \<Rightarrow> poll_observation) \<Rightarrow> string \<times> nat \<Rightarrow> bool" where
  "reported p d polls y \<equiv> fst y = round_reason p (polls (snd y)) \<and> round_ends p d (polls (snd y))"

lemma wait_reports:
  assumes "wait_bounded p d polls n = Some y"
  shows "reported p d polls y"
proof (rule wait_bounded.raw_induct [OF _ assms, where P = "\<lambda>p d polls n y. reported p d polls y"])
  fix w :: "sandbox_policy \<Rightarrow> rat \<Rightarrow> (nat \<Rightarrow> poll_observation) \<Rightarrow> nat \<Rightarrow> (string \<times> nat) option"
  fix p d polls n y
  assume IH: "\<And>p d polls n y. w p d polls n = Some y \<Longrightarrow> reported p d polls y"
  assume body: "(if po_exit (polls n) \<noteq> None then Some (''completed'', n)
    else if output_exceeded p (polls n) then Some (''output_limit'', n)
    else if d \<le> po_clock (polls n) then Some (''timeout'', n) else w p d polls (Suc n)) = Some y"
  show "reported p d polls y"
  proof (cases "round_ends p d (polls n)")
    case True
    with body show ?thesis by (auto simp: round_ends_def round_reason_def split: if_splits)
  next
    case False
    with body have "w p d polls (Suc n) = Some y" by (simp add: round_ends_def)
    then show ?thesis by (rule IH)
  qed
qed

lemma round_reason_completed: "round_reason p o' = ''completed'' \<longleftrightarrow> po_exit o' \<noteq> None"
  by (simp add: round_reason_def)

lemma classify_success:
  "classify_run h r rid reason code out err = Inr (status, output) \<Longrightarrow>
   (status = SUCCESS \<longleftrightarrow> output \<noteq> None) \<and>
   (status = SUCCESS \<longleftrightarrow> reason \<noteq> ''timeout'' \<and> reason \<noteq> ''output_limit'' \<and> \<not> snd (snd out) \<and> \<not> snd (snd err) \<and> code = 0 \<and>
      (\<exists>v. decode_success (mh_reader h) (fst out) rid (sp_max_response_bytes (sr_policy r)) = Inr v)) \<and>
   (\<forall>v. output = Some v \<longrightarrow> decode_success (mh_reader h) (fst out) rid (sp_max_response_bytes (sr_policy r)) = Inr v)"
  by (auto simp: classify_run_def resource_limit_exit_def split: if_splits sum.splits exn.splits oracle_error.splits)

lemma make_execution_result_id: "make_execution_result x = Inr y \<Longrightarrow> y = x"
  by (auto simp: make_execution_result_def split: if_splits)

lemma evaluate_runs:
  assumes "evaluate_oracle h r request = Some (Inr x)"
  obtains frame reason n where "encode_request request (sp_max_request_bytes (sr_policy r)) = Inr frame"
    "wait_bounded (sr_policy r) (cp_wait_started (mh_spawn h (worker_environment h r) frame) + float_value (sp_timeout_seconds (sr_policy r)))
       (cp_polls (mh_spawn h (worker_environment h r) frame)) 0 = Some (reason, n)"
    "run_result h r request (mh_spawn h (worker_environment h r) frame) reason n = Inr x"
  using assms by (auto simp: evaluate_oracle_def Let_def split: sum.splits prod.splits)

section \<open>A worker answers\<close>

lemma utf8_append: "utf8 (s @ t) = utf8 s @ utf8 t"
  by (simp add: utf8_def)

lemma byte_not_lf: "m < 256 \<Longrightarrow> m \<noteq> 10 \<Longrightarrow> (word_of_nat m :: 8 word) \<noteq> 10"
proof
  assume m: "m < 256" "m \<noteq> 10" and "(word_of_nat m :: 8 word) = 10"
  then have "unat (word_of_nat m :: 8 word) = unat (10 :: 8 word)" by simp
  with m show False by (simp add: unat_of_nat)
qed

lemma utf8_char_no_lf: "c \<noteq> CHR 0x0A \<Longrightarrow> 10 \<notin> set (utf8_char c)"
proof -
  assume c: "c \<noteq> CHR 0x0A"
  let ?n = "of_char c :: nat"
  have n: "?n \<noteq> 10" using c of_char_eq_iff [of c "CHR 0x0A", where 'a = nat] by simp
  have "?n div 64 < 4" using code_of_char [of c] by (simp add: div_less_iff_less_mult)
  moreover have "?n mod 64 < 64" by simp
  ultimately have "(word_of_nat (192 + ?n div 64) :: 8 word) \<noteq> 10" "(word_of_nat (128 + ?n mod 64) :: 8 word) \<noteq> 10"
    by (intro byte_not_lf; linarith)+
  moreover have "(word_of_nat ?n :: 8 word) \<noteq> 10" using n code_of_char [of c] by (intro byte_not_lf) simp_all
  ultimately show ?thesis by (auto simp: utf8_char_def Let_def simp del: of_nat_add)
qed

lemma utf8_no_lf: "CHR 0x0A \<notin> set s \<Longrightarrow> 10 \<notin> set (utf8 s)"
  by (induction s) (auto simp: utf8_def utf8_char_no_lf [OF not_sym])

lemma takeWhile_until: "x \<notin> set xs \<Longrightarrow> takeWhile (\<lambda>y. y \<noteq> x) (xs @ [x]) = xs"
  by (induction xs) auto

lemma one_line_frame: "one_line v \<Longrightarrow> \<exists>bs. json_bytes v = bs @ [10] \<and> 10 \<notin> set bs"
proof -
  assume "one_line v"
  then have "CHR 0x0A \<notin> set (canonical_json v)" by (auto simp: one_line_def list_all_iff is_line_break_def)
  then have "10 \<notin> set (utf8 (canonical_json v))" by (rule utf8_no_lf)
  moreover have "json_bytes v = utf8 (canonical_json v) @ [10]" by (simp add: json_bytes_def utf8_append) (simp add: utf8_def utf8_char_def)
  ultimately show ?thesis by blast
qed

lemma read_one_line:
  assumes "one_line v" "int (length (json_bytes v)) \<le> limit"
  shows "read_request_frame (json_bytes v) limit = Inr (json_bytes v)"
proof -
  from one_line_frame [OF assms(1)] obtain bs where b: "json_bytes v = bs @ [10]" "10 \<notin> set bs" by blast
  note upto = takeWhile_until [OF b(2)]
  with assms(2) have "read_line (limit + 1) (bs @ [10]) = bs @ [10]" by (simp add: read_line_def b(1) upto)
  with assms(2) show ?thesis by (simp add: read_request_frame_def b(1) result_simps)
qed

end
