(* ===== verification/AVP_IsolatedOracle.thy ===== *)
theory AVP_IsolatedOracle
  imports AVP_RunnerFacts
begin

text \<open>
  Runner, protocol and worker together: an Oracle evaluated in a child process gives the results and the
  Evidence it gives when it is called directly.
\<close>

section \<open>The worker serves a request\<close>

definition worker_serves :: "runner_host \<Rightarrow> subprocess_runner \<Rightarrow> oracle_request \<Rightarrow> worker_host \<Rightarrow> oracle_code \<Rightarrow> bool" where
  "worker_serves h r request wh code \<longleftrightarrow>
     wh_environ wh = worker_environment h r \<and> (\<forall>nm \<in> dom (fixed_environment r). worker_environment h r nm = fixed_environment r nm) \<and>
     (\<forall>a b c d. wh_setrlimit wh a b c d = Inr ()) \<and>
     reads_back (wh_reader wh) (request_document request) \<and>
     tr_loads (wh_reader wh) (json_string_list (sr_prefixes r)) = Some (jstrs (sr_prefixes r)) \<and>
     sr_prefixes r \<noteq> [] \<and> [] \<notin> set (sr_prefixes r) \<and>
     module_code_digest (wh_source wh) (pk_entrypoint (rq_package request)) = Inr (pk_code_digest (rq_package request)) \<and>
     (case parse_entrypoint (pk_entrypoint (rq_package request)) of
        Inl _ \<Rightarrow> False
      | Inr (m, c) \<Rightarrow> module_allowed (sr_prefixes r) m \<and> wh_import wh m c = Inr (Some code))"

definition sound_request :: "oracle_request \<Rightarrow> bool" where
  "sound_request r \<longleftrightarrow> rq_request_id r \<noteq> [] \<and> sound_package (rq_package r) \<and> sound_context (rq_context r) \<and>
     plain_json (request_document r)"

lemma raising_values [simp]: "raising (Inr a) = Inr a"
  by (simp add: raising_def)

lemma served_environment:
  assumes "worker_serves h r request wh code"
  shows "environ_int wh ''AVP_ORACLE_CPU_SECONDS'' = Inr (sp_cpu_seconds (sr_policy r))"
    "environ_int wh ''AVP_ORACLE_MEMORY_BYTES'' = Inr (sp_memory_bytes (sr_policy r))"
    "environ_int wh ''AVP_ORACLE_FILE_BYTES'' = Inr (sp_max_file_bytes (sr_policy r))"
    "environ_int wh ''AVP_ORACLE_NOFILE'' = Inr (sp_max_open_files (sr_policy r))"
    "environ_int_or wh ''AVP_ORACLE_MAX_REQUEST_BYTES'' d = Inr (sp_max_request_bytes (sr_policy r))"
    "environ_int_or wh ''AVP_ORACLE_MAX_RESPONSE_BYTES'' d = Inr (sp_max_response_bytes (sr_policy r))"
    "wh_environ wh ''AVP_ORACLE_ALLOWED_MODULE_PREFIXES'' = Some (json_string_list (sr_prefixes r))"
proof -
  have env: "wh_environ wh nm = Some v" if "fixed_environment r nm = Some v" for nm v
    using assms that by (auto simp: worker_serves_def dom_def)
  show "environ_int wh ''AVP_ORACLE_CPU_SECONDS'' = Inr (sp_cpu_seconds (sr_policy r))"
    "environ_int wh ''AVP_ORACLE_MEMORY_BYTES'' = Inr (sp_memory_bytes (sr_policy r))"
    "environ_int wh ''AVP_ORACLE_FILE_BYTES'' = Inr (sp_max_file_bytes (sr_policy r))"
    "environ_int wh ''AVP_ORACLE_NOFILE'' = Inr (sp_max_open_files (sr_policy r))"
    "environ_int_or wh ''AVP_ORACLE_MAX_REQUEST_BYTES'' d = Inr (sp_max_request_bytes (sr_policy r))"
    "environ_int_or wh ''AVP_ORACLE_MAX_RESPONSE_BYTES'' d = Inr (sp_max_response_bytes (sr_policy r))"
    "wh_environ wh ''AVP_ORACLE_ALLOWED_MODULE_PREFIXES'' = Some (json_string_list (sr_prefixes r))"
    by (simp_all add: environ_int_def environ_int_or_def env fixed_environment_def Let_def py_int_text)
qed

lemma worker_prepares:
  assumes s: "worker_serves h r request wh code" and sound: "sound_request request"
    and small: "int (length (json_bytes (request_document request))) \<le> sp_max_request_bytes (sr_policy r)"
  shows "worker_prepare wh (json_bytes (request_document request)) = Inr (request, code, sp_max_response_bytes (sr_policy r))"
proof -
  note env = served_environment [OF s]
  have line: "one_line (request_document request)" using sound by (intro plain_json_one_line) (simp add: sound_request_def)
  have encoded: "encode_request request (sp_max_request_bytes (sr_policy r)) = Inr (json_bytes (request_document request))"
    using small by (simp add: encode_request_def bounded_frame_def result_simps)
  have decoded: "decode_request (wh_reader wh) (json_bytes (request_document request)) (sp_max_request_bytes (sr_policy r)) = Inr request"
    using s sound by (intro decode_encoded_request [OF encoded _ line]) (simp_all add: worker_serves_def sound_request_def)
  have limits: "apply_resource_limits wh = Inr ()"
  proof -
    have "wh_setrlimit wh a b c d = Inr ()" for a b c d using s by (simp add: worker_serves_def)
    then show ?thesis by (simp add: apply_resource_limits_def env bind_value)
  qed
  obtain m c where entry: "parse_entrypoint (pk_entrypoint (rq_package request)) = Inr (m, c)" "module_allowed (sr_prefixes r) m"
    "wh_import wh m c = Inr (Some code)" using s by (auto simp: worker_serves_def split: sum.splits)
  have allowed: "worker_allowed wh m = Inr True"
  proof -
    have "tr_loads (wh_reader wh) (json_string_list (sr_prefixes r)) = Some (jstrs (sr_prefixes r))"
      "sr_prefixes r \<noteq> []" "[] \<notin> set (sr_prefixes r)" using s by (simp_all add: worker_serves_def)
    then show ?thesis using entry(2) by (simp add: worker_allowed_def env proto_strings_text)
  qed
  have source: "module_code_digest (wh_source wh) (pk_entrypoint (rq_package request)) = Inr (pk_code_digest (rq_package request))"
    using s by (simp add: worker_serves_def)
  show ?thesis
    by (simp add: worker_prepare_def limits env read_one_line [OF line small] decoded entry allowed source bind_value raise_if_def)
qed

lemma encode_payloads_total:
  "list_all sound_payload ps \<Longrightarrow> distinct (map op_evidence_id ps) \<Longrightarrow> set (map op_evidence_id ps) \<inter> set seen = {} \<Longrightarrow>
   encode_payloads seen ps = Inr (map payload_frame ps)"
  by (induction seen ps rule: encode_payloads.induct) (auto simp: sound_payload_fields bind_value raise_if_def)

lemma encode_results_total:
  "list_all (sound_result ids) rs \<Longrightarrow> map_each (encode_result ids) rs = Inr (map output_result_dict rs)"
  by (rule map_each_cong_ok) (auto simp: encode_result_def sound_result_def list_all_iff Let_def filter_empty_conv bind_value raise_if_def)

definition success_document :: "oracle_request \<Rightarrow> oracle_output \<Rightarrow> json" where
  "success_document request out = response_document (rq_request_id request) (map output_result_dict (fst out)) (map payload_frame (snd out))"

definition sound_output :: "oracle_output \<Rightarrow> bool" where
  "sound_output out \<longleftrightarrow> list_all sound_payload (snd out) \<and> distinct (map op_evidence_id (snd out)) \<and>
     list_all (sound_result (map op_evidence_id (snd out))) (fst out)"

lemma worker_answers:
  assumes "worker_serves h r request wh code" "sound_request request" "code (rq_context request) = ([], Inr (Some out))"
    "sound_output out" "int (length (json_bytes (request_document request))) \<le> sp_max_request_bytes (sr_policy r)"
    "int (length (json_bytes (success_document request out))) \<le> sp_max_response_bytes (sr_policy r)"
  shows "worker_main wh (json_bytes (request_document request)) = (0, json_bytes (success_document request out), [])"
proof -
  obtain results payloads where out: "out = (results, payloads)" by fastforce
  have encoded: "encode_success (rq_request_id request) results payloads (sp_max_response_bytes (sr_policy r)) =
      Inr (json_bytes (success_document request out))"
    using assms(4,6) by (simp add: encode_success_def out sound_output_def encode_payloads_total encode_results_total
      bounded_frame_def success_document_def bind_value raise_if_def)
  show ?thesis
    by (simp add: worker_main_def worker_prepares [OF assms(1,2,5)] assms(3) worker_respond_def out encoded bind_value)
qed

section \<open>The runner gets the answer\<close>

text \<open>The child runs to its end within the limits: it exits with what the worker program computes.\<close>

definition child_completes :: "sandbox_policy \<Rightarrow> child_process \<Rightarrow> int \<times> bytes \<times> bytes \<Rightarrow> bool" where
  "child_completes p child outcome \<longleftrightarrow> (\<exists>n. po_exit (cp_polls child n) = Some (fst outcome) \<and> cp_stdout child n = fst (snd outcome) \<and>
     cp_stderr child n = snd (snd outcome) \<and>
     (\<forall>k < n. \<not> round_ends p (cp_wait_started child + float_value (sp_timeout_seconds p)) (cp_polls child k)))"

lemma evaluate_served:
  assumes "worker_serves h r request wh code" "sound_request request"
    "code (rq_context request) = ([], Inr (Some (results, payloads)))" "sound_output (results, payloads)"
    "int (length (json_bytes (request_document request))) \<le> sp_max_request_bytes (sr_policy r)"
    "int (length (json_bytes (success_document request (results, payloads)))) \<le> sp_max_response_bytes (sr_policy r)"
    "0 \<le> sp_max_file_bytes (sr_policy r)"
    "plain_json (success_document request (results, payloads))" "reads_back (mh_reader h) (success_document request (results, payloads))"
    "is_ok (describe_runner h r)"
    "child_completes (sr_policy r) (mh_spawn h (worker_environment h r) (json_bytes (request_document request)))
       (worker_main wh (json_bytes (request_document request)))"
  shows "\<exists>x. evaluate_oracle h r request = Some (Inr x) \<and> xr_status x = SUCCESS \<and> xr_results x = results \<and> xr_evidence x = payloads"
proof -
  let ?frame = "json_bytes (request_document request)" and ?out = "(results, payloads)" and ?p = "sr_policy r"
  let ?child = "mh_spawn h (worker_environment h r) ?frame"
  let ?answer = "json_bytes (success_document request ?out)"
  note answer = worker_answers [OF assms(1-6)]
  from assms(11) obtain n where n: "po_exit (cp_polls ?child n) = Some 0" "cp_stdout ?child n = ?answer" "cp_stderr ?child n = []"
    "\<forall>k < n. \<not> round_ends ?p (cp_wait_started ?child + float_value (sp_timeout_seconds ?p)) (cp_polls ?child k)"
    unfolding child_completes_def answer by auto
  have wait: "wait_bounded ?p (cp_wait_started ?child + float_value (sp_timeout_seconds ?p)) (cp_polls ?child) 0 = Some (''completed'', n)"
    using n(1,4) by (subst wait_until [of _ _ _ n]) (auto simp: round_ends_def round_reason_def)
  have encoded: "encode_success (rq_request_id request) results payloads (sp_max_response_bytes ?p) = Inr ?answer"
    using assms(4,6) by (simp add: encode_success_def sound_output_def encode_payloads_total encode_results_total
      bounded_frame_def success_document_def bind_value raise_if_def)
  have decoded: "decode_success (mh_reader h) ?answer (rq_request_id request) (sp_max_response_bytes ?p) = Inr (results, payloads)"
    using assms(4,9) plain_json_one_line [OF assms(8)]
    by (intro decode_encoded_response [OF encoded]) (simp_all add: sound_output_def success_document_def)
  from assms(10) obtain d where d: "describe_runner h r = Inr d" by (rule is_okE)
  obtain m c where entry: "parse_entrypoint (pk_entrypoint (rq_package request)) = Inr (m, c)" "module_allowed (sr_prefixes r) m"
    using assms(1) by (auto simp: worker_serves_def split: sum.splits)
  have requested: "encode_request request (sp_max_request_bytes ?p) = Inr ?frame"
    using assms(5) by (simp add: encode_request_def bounded_frame_def bind_value raise_if_def)
  have "classify_run h r (rq_request_id request) ''completed'' 0 (read_and_digest ?answer (sp_max_response_bytes ?p))
      (read_and_digest [] (sp_max_file_bytes ?p)) = Inr (SUCCESS, Some (results, payloads))"
    using assms(6,7) by (simp add: classify_run_def read_and_digest_exact resource_limit_exit_def decoded)
  then have "\<exists>x. run_result h r request ?child ''completed'' n = Inr x \<and> xr_status x = SUCCESS \<and> xr_results x = results \<and> xr_evidence x = payloads"
    by (simp add: run_result_def Let_def n(1-3) d bind_value make_execution_result_def raise_if_def)
  then show ?thesis
    by (simp add: evaluate_oracle_def entry requested wait bind_value raise_if_def Let_def)
qed

section \<open>An example\<close>

definition demo_package_request :: oracle_request where
  "demo_package_request = \<lparr>rq_request_id = ''r'',
     rq_package = \<lparr>pk_oracle_id = ''o'', pk_version = ''v'', pk_entrypoint = ''avp_ref.oracle:slow_oracle'', pk_code_digest = sha256_id [],
       pk_projections = [''p''], pk_input_pointers = [], pk_package_digest = None\<rparr>,
     rq_context = \<lparr>oc_episode_id = ''e'', oc_scenario_instance_digest = sha256_id [], oc_manifest_digest = sha256_id [],
       oc_inputs = [], oc_projections = []\<rparr>\<rparr>"

definition demo_frame :: bytes where
  "demo_frame = json_bytes (request_document demo_package_request)"

definition demo_answer :: json where
  "demo_answer = success_document demo_package_request ([], [])"

definition demo_subprocess :: subprocess_runner where
  "demo_subprocess = \<lparr>sr_policy = (default_sandbox_policy True)\<lparr>sp_max_request_bytes := int (length demo_frame),
     sp_max_response_bytes := int (length (json_bytes demo_answer))\<rparr>, sr_worker_module = ''avp_ref.oracle_worker'',
     sr_prefixes = [''avp_ref.'']\<rparr>"

definition demo_code :: oracle_code where
  "demo_code c = ([], Inr (Some ([], [])))"

definition demo_worker :: worker_host where
  "demo_worker = \<lparr>wh_environ = fixed_environment demo_subprocess, wh_setrlimit = (\<lambda>_ _ _ _. Inr ()),
     wh_reader = (demo_reader (request_document demo_package_request))\<lparr>tr_loads := (\<lambda>s.
        if s = canonical_json (request_document demo_package_request) then Some (sort_members (request_document demo_package_request))
        else if s = json_string_list [''avp_ref.''] then Some (jstrs [''avp_ref.'']) else None)\<rparr>,
     wh_source = (\<lambda>_. Some (Some [])), wh_import = (\<lambda>_ _. Inr (Some demo_code))\<rparr>"

definition demo_child :: "bytes \<Rightarrow> child_process" where
  "demo_child frame = (case worker_main demo_worker frame of (code, out, err) \<Rightarrow>
     \<lparr>cp_polls = (\<lambda>_. \<lparr>po_exit = Some code, po_stdout_size = 0, po_stderr_size = 0, po_clock = 0\<rparr>), cp_killed_code = (\<lambda>_. - 9),
      cp_stdout = (\<lambda>_. out), cp_stderr = (\<lambda>_. err), cp_started = 0, cp_wait_started = 0, cp_finished = (\<lambda>_. 0)\<rparr>)"

definition demo_machine :: runner_host where
  "demo_machine = \<lparr>mh_posix = True, mh_environ = (\<lambda>_. None), mh_source = (\<lambda>_. Some (Some [])),
     mh_reader = demo_reader demo_answer, mh_spawn = (\<lambda>_. demo_child)\<rparr>"

lemma plain_sha256: "plain_text (sha256_id d)"
  using sha256_id_is_text [of d] by (auto simp: sha256_id_def plain_text_def list_all_iff is_lower_hex_def is_digit_def
    dest!: hexdigest_lower_hex [THEN list_all_iff [THEN iffD1], rule_format])

lemma demo_entrypoints: "parse_entrypoint ''avp_ref.oracle:slow_oracle'' = Inr (''avp_ref.oracle'', ''slow_oracle'')"
  "parse_entrypoint ''avp_ref.oracle_worker:main'' = Inr (''avp_ref.oracle_worker'', ''main'')"
  "module_allowed [''avp_ref.''] ''avp_ref.oracle''"
  by code_simp+

lemma demo_environment: "worker_environment demo_machine demo_subprocess = fixed_environment demo_subprocess"
  by (simp add: worker_environment_def copy_variables_def demo_machine_def demo_subprocess_def default_sandbox_policy_def)

lemma demo_sound_request: "sound_request demo_package_request"
  by (simp add: sound_request_def demo_package_request_def sound_package_def make_oracle_package_def sorted_nonempty_set_def
      sound_context_def make_oracle_context_def bind_value raise_if_def request_document_def oracle_request_dict_def package_dict_def
      package_descriptor_dict_def oracle_context_dict_def plain_sha256 require_sha256_def jstrs_def protocol_version_def)
     (simp add: plain_text_def)

lemma demo_serves: "worker_serves demo_machine demo_subprocess demo_package_request demo_worker demo_code"
proof -
  have "canonical_json (request_document demo_package_request) \<noteq> json_string_list [''avp_ref.'']"
    by (simp add: request_document_def json_string_list_def)
  then show ?thesis
    unfolding worker_serves_def demo_environment
    by (simp add: demo_worker_def reads_back_def demo_reader_def demo_subprocess_def demo_package_request_def demo_entrypoints
        module_code_digest_def bind_value)
qed

lemma demo_described: "is_ok (describe_runner demo_machine demo_subprocess)"
  by (simp add: describe_runner_def module_code_digest_def demo_subprocess_def demo_machine_def demo_entrypoints bind_value
      make_runner_description_def require_sha256_def raise_if_def is_ok_def)

lemma demo_plain_answer: "plain_json demo_answer"
  by (simp add: demo_answer_def success_document_def response_document_def demo_package_request_def protocol_version_def plain_text_def)

lemma demo_completes: "child_completes (sr_policy demo_subprocess) (mh_spawn demo_machine env frame) (worker_main demo_worker frame)"
  by (cases "worker_main demo_worker frame") (auto simp: child_completes_def demo_machine_def demo_child_def)

lemma demo_runs:
  "\<exists>x. evaluate_oracle demo_machine demo_subprocess demo_package_request = Some (Inr x) \<and> xr_status x = SUCCESS \<and> xr_results x = [] \<and> xr_evidence x = []"
proof (rule evaluate_served [OF demo_serves demo_sound_request _ _ _ _ _ _ _ demo_described demo_completes])
  show "demo_code (rq_context demo_package_request) = ([], Inr (Some ([], [])))" by (simp add: demo_code_def)
  show "sound_output ([], [])" by (simp add: sound_output_def)
  show "int (length (json_bytes (request_document demo_package_request))) \<le> sp_max_request_bytes (sr_policy demo_subprocess)"
    by (simp add: demo_subprocess_def demo_frame_def)
  show "int (length (json_bytes (success_document demo_package_request ([], [])))) \<le> sp_max_response_bytes (sr_policy demo_subprocess)"
    by (simp add: demo_subprocess_def demo_answer_def)
  show "0 \<le> sp_max_file_bytes (sr_policy demo_subprocess)" by (simp add: demo_subprocess_def default_sandbox_policy_def)
  show "plain_json (success_document demo_package_request ([], []))" using demo_plain_answer by (simp only: demo_answer_def)
  show "reads_back (mh_reader demo_machine) (success_document demo_package_request ([], []))"
    by (simp add: demo_machine_def demo_answer_def)
qed

section \<open>Properties\<close>

text \<open>C16: Isolation does not change the verdict: if an Oracle called directly returns sound results and Evidence, evaluating it in
  a worker process (same code, allowed module, frames within the limits, a text layer that undoes itself, a child that
  runs the worker program to its end in time) succeeds with exactly those results and that Evidence.\<close>

theorem isolated_evaluation_is_faithful:
  assumes "worker_serves h r request wh code" "sound_request request"
    "code (rq_context request) = ([], Inr (Some (results, payloads)))" "sound_output (results, payloads)"
    "int (length (json_bytes (request_document request))) \<le> sp_max_request_bytes (sr_policy r)"
    "int (length (json_bytes (success_document request (results, payloads)))) \<le> sp_max_response_bytes (sr_policy r)"
    "0 \<le> sp_max_file_bytes (sr_policy r)"
    "plain_json (success_document request (results, payloads))" "reads_back (mh_reader h) (success_document request (results, payloads))"
    "is_ok (describe_runner h r)"
    "child_completes (sr_policy r) (mh_spawn h (worker_environment h r) (json_bytes (request_document request)))
       (worker_main wh (json_bytes (request_document request)))"
  shows "\<exists>x. evaluate_oracle h r request = Some (Inr x) \<and> xr_status x = SUCCESS \<and> xr_results x = results \<and> xr_evidence x = payloads"
  by (rule evaluate_served [OF assms])

theorem isolated_evaluation_is_faithful_witness:
  "\<exists>x. evaluate_oracle demo_machine demo_subprocess demo_package_request = Some (Inr x) \<and> xr_status x = SUCCESS \<and> xr_results x = [] \<and> xr_evidence x = []"
proof (rule isolated_evaluation_is_faithful [OF demo_serves demo_sound_request _ _ _ _ _ _ _ demo_described demo_completes])
  show "demo_code (rq_context demo_package_request) = ([], Inr (Some ([], [])))" by (simp add: demo_code_def)
  show "sound_output ([], [])" by (simp add: sound_output_def)
  show "int (length (json_bytes (request_document demo_package_request))) \<le> sp_max_request_bytes (sr_policy demo_subprocess)"
    by (simp add: demo_subprocess_def demo_frame_def)
  show "int (length (json_bytes (success_document demo_package_request ([], [])))) \<le> sp_max_response_bytes (sr_policy demo_subprocess)"
    by (simp add: demo_subprocess_def demo_answer_def)
  show "0 \<le> sp_max_file_bytes (sr_policy demo_subprocess)" by (simp add: demo_subprocess_def default_sandbox_policy_def)
  show "plain_json (success_document demo_package_request ([], []))" using demo_plain_answer by (simp only: demo_answer_def)
  show "reads_back (mh_reader demo_machine) (success_document demo_package_request ([], []))"
    by (simp add: demo_machine_def demo_answer_def)
qed

text \<open>C17: An evaluation is accepted exactly when the run was clean: the status is SUCCESS iff the child exited by itself with
  code 0 before the loop stopped it, both output files are within their limits and the output decodes; then the
  result carries the decoded output, and otherwise it exposes none. The record binds the exact output bytes.\<close>

theorem only_clean_runs_are_accepted:
  assumes "evaluate_oracle h r request = Some (Inr x)"
  shows "\<exists>frame n. encode_request request (sp_max_request_bytes (sr_policy r)) = Inr frame \<and>
    (let child = mh_spawn h (worker_environment h r) frame; limit = sp_max_response_bytes (sr_policy r);
         decoded = decode_success (mh_reader h) (cp_stdout child n) (rq_request_id request) limit in
      (xr_status x = SUCCESS \<longleftrightarrow> po_exit (cp_polls child n) = Some 0 \<and> int (length (cp_stdout child n)) \<le> limit \<and>
         int (length (cp_stderr child n)) \<le> sp_max_file_bytes (sr_policy r) \<and> is_ok decoded) \<and>
      (if xr_status x = SUCCESS then decoded = Inr (xr_results x, xr_evidence x) else xr_results x = [] \<and> xr_evidence x = []) \<and>
      xa_stdout_digest (xr_artifact x) = sha256_id (cp_stdout child n) \<and>
      xa_stderr_digest (xr_artifact x) = sha256_id (cp_stderr child n) \<and> xa_status (xr_artifact x) = xr_status x)"
proof -
  from assms obtain frame reason n where frame: "encode_request request (sp_max_request_bytes (sr_policy r)) = Inr frame"
    and wait: "wait_bounded (sr_policy r) (cp_wait_started (mh_spawn h (worker_environment h r) frame) + float_value (sp_timeout_seconds (sr_policy r)))
       (cp_polls (mh_spawn h (worker_environment h r) frame)) 0 = Some (reason, n)"
    and run: "run_result h r request (mh_spawn h (worker_environment h r) frame) reason n = Inr x" by (rule evaluate_runs)
  define child where "child = mh_spawn h (worker_environment h r) frame"
  define code where "code = (case po_exit (cp_polls child n) of Some c \<Rightarrow> c | None \<Rightarrow> cp_killed_code child n)"
  let ?p = "sr_policy r" and ?out = "cp_stdout child n" and ?err = "cp_stderr child n"
  from run obtain status accepted description where
    c: "classify_run h r (rq_request_id request) reason code (read_and_digest ?out (sp_max_response_bytes ?p))
      (read_and_digest ?err (sp_max_file_bytes ?p)) = Inr (status, accepted)"
    and x: "xr_status x = status" "xa_status (xr_artifact x) = status"
      "xr_results x = (case accepted of None \<Rightarrow> [] | Some (rs, _) \<Rightarrow> rs)" "xr_evidence x = (case accepted of None \<Rightarrow> [] | Some (_, ps) \<Rightarrow> ps)"
      "xa_stdout_digest (xr_artifact x) = sha256_id ?out" "xa_stderr_digest (xr_artifact x) = sha256_id ?err"
    by (auto simp: run_result_def Let_def child_def [symmetric] code_def [symmetric] read_and_digest_exact dest!: make_execution_result_id)
  have reason: "reason = round_reason ?p (cp_polls child n)" using wait_reports [OF wait] by (simp add: child_def)
  have whole: "take (nat limit) bs = bs" if "int (length bs) \<le> limit" for bs :: bytes and limit using that by simp
  note s = classify_success [OF c, unfolded read_and_digest_exact fst_conv snd_conv]
  have exited: "reason \<noteq> ''timeout'' \<and> reason \<noteq> ''output_limit'' \<and> code = 0 \<longleftrightarrow> po_exit (cp_polls child n) = Some 0"
    by (auto simp: reason round_reason_def code_def split: option.splits)
  have status: "status = SUCCESS \<longleftrightarrow> po_exit (cp_polls child n) = Some 0 \<and> int (length ?out) \<le> sp_max_response_bytes ?p \<and>
      int (length ?err) \<le> sp_max_file_bytes ?p \<and>
      is_ok (decode_success (mh_reader h) ?out (rq_request_id request) (sp_max_response_bytes ?p))"
    using s exited by (auto simp: not_less is_ok_def whole split: sum.splits)
  have "if status = SUCCESS then decode_success (mh_reader h) ?out (rq_request_id request) (sp_max_response_bytes ?p) = Inr (xr_results x, xr_evidence x)
      else xr_results x = [] \<and> xr_evidence x = []"
    using s status by (auto simp: x whole split: option.splits prod.splits)
  with frame status x(1,2,5,6) show ?thesis
    by (intro exI [of _ frame] exI [of _ n]) (simp add: Let_def flip: child_def)
qed

theorem only_clean_runs_are_accepted_witness:
  "\<exists>x frame n. evaluate_oracle demo_machine demo_subprocess demo_package_request = Some (Inr x) \<and>
     po_exit (cp_polls (mh_spawn demo_machine (worker_environment demo_machine demo_subprocess) frame) n) = Some 0"
proof -
  obtain x where x: "evaluate_oracle demo_machine demo_subprocess demo_package_request = Some (Inr x)" "xr_status x = SUCCESS"
    using demo_runs by blast
  from only_clean_runs_are_accepted [OF x(1)] x show ?thesis by (auto simp: Let_def)
qed

end
