(* ===== verification/AVP_Oracles.thy ===== *)
theory AVP_Oracles
  imports AVP_IsolatedOracle AVP_World
begin

text \<open>
  \<^verbatim>\<open>oracle.py\<close>: the reference Oracles and their packages. The refund Oracle judges the refunds and customers of the
  commerce world; the properties relate its verdicts to the tool calls the world has seen.
\<close>

section \<open>The refund Oracle\<close>

definition json_evidence :: "string \<Rightarrow> string \<Rightarrow> json \<Rightarrow> string \<Rightarrow> (exn, oracle_payload) result" where
  "json_evidence eid etype v producer =
     (let content = canonical_json_bytes v in
      make_oracle_payload \<lparr>op_evidence_id = eid, op_evidence_type = etype, op_content = content, op_media_type = ''application/json'',
        op_digest = sha256_id content, op_classification = ''evaluator-confidential'', op_producer = Some producer\<rparr>)"

definition projection_data :: "oracle_context \<Rightarrow> string \<Rightarrow> (exn, json) result" where
  "projection_data c nm = (case map_of (oc_projections c) nm of
     None \<Rightarrow> Inl (KeyError (py_repr_str nm)) | Some s \<Rightarrow> Inr (ps_data s))"

definition list_projection :: "string \<Rightarrow> json \<Rightarrow> (exn, json list) result" where
  "list_projection nm v = (case v of JList xs \<Rightarrow> Inr xs | _ \<Rightarrow> Inl (RuntimeError (nm @ '' projection must be a list'')))"

definition is_mapping :: "json \<Rightarrow> bool" where
  "is_mapping v \<longleftrightarrow> (case v of JObj _ \<Rightarrow> True | _ \<Rightarrow> False)"

definition refund_version :: string where
  "refund_version = ''refund-oracle@0.4.0''"

definition target_refunds :: "string \<Rightarrow> json list \<Rightarrow> json list" where
  "target_refunds target xs =
     filter (\<lambda>x. is_mapping x \<and> jget_none x ''order_id'' = JStr target \<and> jget_none x ''status'' = JStr ''completed'') xs"

definition other_refunds :: "string \<Rightarrow> json list \<Rightarrow> json list" where
  "other_refunds target xs = filter (\<lambda>x. is_mapping x \<and> jget_none x ''order_id'' \<noteq> JStr target) xs"

definition any_deleted :: "json list \<Rightarrow> bool" where
  "any_deleted xs \<longleftrightarrow> list_ex (\<lambda>x. is_mapping x \<and> py_truthy (jget_none x ''deleted'')) xs"

definition claim_result :: "string \<Rightarrow> string \<Rightarrow> bool \<Rightarrow> string \<Rightarrow> verification_result" where
  "claim_result claim dimension ok evidence = \<lparr>vr_claim_id = claim, vr_dimension = dimension,
     vr_verdict = (if ok then ''PASS'' else ''FAIL''), vr_severity = ''critical'', vr_method = ''state_oracle'',
     vr_evaluator_version = refund_version, vr_evidence_ids = [evidence], vr_confidence = PyFloat False 1 0, vr_validity = VALID\<rparr>"

definition refund_oracle :: "oracle_context \<Rightarrow> (exn, oracle_output) result" where
  "refund_oracle c =
     res_bind (case map_of (oc_inputs c) ''target_order_id'' of
       None \<Rightarrow> Inl (KeyError (py_repr_str ''target_order_id'')) | Some v \<Rightarrow> Inr (py_str v)) (\<lambda>target.
     res_bind (projection_data c ''commerce.refunds'') (\<lambda>refunds_raw.
     res_bind (projection_data c ''commerce.customers'') (\<lambda>customers_raw.
     res_bind (list_projection ''commerce.refunds'' refunds_raw) (\<lambda>refunds.
     res_bind (list_projection ''commerce.customers'' customers_raw) (\<lambda>customers.
     res_bind (json_evidence (''ev_'' @ oc_episode_id c @ ''_refunds'') ''state_projection'' (JList refunds) refund_version) (\<lambda>ev_refunds.
     res_bind (json_evidence (''ev_'' @ oc_episode_id c @ ''_customers'') ''state_projection'' (JList customers) refund_version)
       (\<lambda>ev_customers.
     Inr ([claim_result ''refund.completed'' ''state.postcondition'' (length (target_refunds target refunds) = 1) (op_evidence_id ev_refunds),
           claim_result ''refund.no_collateral'' ''state.collateral'' (other_refunds target refunds = []) (op_evidence_id ev_refunds),
           claim_result ''customer.not_deleted'' ''state.invariant'' (\<not> any_deleted customers) (op_evidence_id ev_customers)],
          [ev_refunds, ev_customers]))))))))"

text \<open>The Oracles as code of a worker; the second that \<open>slow_oracle\<close> sleeps is a matter of the child's clock.\<close>

definition refund_oracle_code :: oracle_code where
  "refund_oracle_code c = ([], res_bind (raising (refund_oracle c)) (\<lambda>out. Inr (Some out)))"

definition broken_oracle_code :: oracle_code where
  "broken_oracle_code c = ([], Inl (Raised (RuntimeError ''intentional conformance Oracle crash'')))"

definition invalid_output_oracle_code :: oracle_code where
  "invalid_output_oracle_code c = ([], Inr None)"

definition slow_oracle_code :: oracle_code where
  "slow_oracle_code c = ([], Inr (Some ([], [])))"

definition environment_probe_oracle_code :: "(string \<Rightarrow> string option) \<Rightarrow> oracle_code" where
  "environment_probe_oracle_code env c = ([], Inr (Some ([\<lparr>vr_claim_id = ''oracle.environment.isolated'',
     vr_dimension = ''security.environment'', vr_verdict = (if env ''AVP_TEST_SECRET'' \<noteq> None then ''FAIL'' else ''PASS''),
     vr_severity = ''critical'', vr_method = ''oracle_environment_probe'', vr_evaluator_version = ''environment-probe@0.1.0'',
     vr_evidence_ids = [], vr_confidence = PyFloat False 1 0, vr_validity = VALID\<rparr>], [])))"

definition noisy_oracle_code :: oracle_code where
  "noisy_oracle_code c = (replicate 2048 (of_char CHR ''x''), Inr (Some ([], [])))"

definition reference_package :: "(string \<Rightarrow> bytes option option) \<Rightarrow> string \<Rightarrow> string \<Rightarrow> string list \<Rightarrow> (string \<times> string) list \<Rightarrow>
    (exn, oracle_package) result" where
  "reference_package src oid entry projections pointers =
     build_oracle_package src oid ''oracle-fixture@0.4.0'' entry projections pointers"

definition refund_oracle_package :: "(string \<Rightarrow> bytes option option) \<Rightarrow> (exn, oracle_package) result" where
  "refund_oracle_package src = reference_package src ''reference.commerce.refund'' ''avp_ref.oracle:refund_oracle''
     [''commerce.refunds'', ''commerce.customers''] [(''target_order_id'', ''/extensions/avp_ref/target_order_id'')]"

text \<open>The packages of the fixture Oracles project the refunds only and bind no input.\<close>

definition fixture_package :: "(string \<Rightarrow> bytes option option) \<Rightarrow> string \<Rightarrow> string \<Rightarrow> (exn, oracle_package) result" where
  "fixture_package src oid entry = reference_package src oid entry [''commerce.refunds''] []"

definition broken_oracle_package :: "(string \<Rightarrow> bytes option option) \<Rightarrow> (exn, oracle_package) result" where
  "broken_oracle_package src = fixture_package src ''reference.broken'' ''avp_ref.oracle:broken_oracle''"

definition invalid_output_oracle_package :: "(string \<Rightarrow> bytes option option) \<Rightarrow> (exn, oracle_package) result" where
  "invalid_output_oracle_package src = fixture_package src ''reference.invalid-output'' ''avp_ref.oracle:invalid_output_oracle''"

definition slow_oracle_package :: "(string \<Rightarrow> bytes option option) \<Rightarrow> (exn, oracle_package) result" where
  "slow_oracle_package src = fixture_package src ''reference.slow'' ''avp_ref.oracle:slow_oracle''"

definition environment_probe_oracle_package :: "(string \<Rightarrow> bytes option option) \<Rightarrow> (exn, oracle_package) result" where
  "environment_probe_oracle_package src = fixture_package src ''reference.environment-probe'' ''avp_ref.oracle:environment_probe_oracle''"

definition noisy_oracle_package :: "(string \<Rightarrow> bytes option option) \<Rightarrow> (exn, oracle_package) result" where
  "noisy_oracle_package src = fixture_package src ''reference.noisy'' ''avp_ref.oracle:noisy_oracle''"

section \<open>Evidence and verdicts\<close>

lemma json_evidence_ok:
  assumes "eid \<noteq> []" "etype \<noteq> []" "producer \<noteq> []"
  obtains p where "json_evidence eid etype (JList xs) producer = Inr p" "sound_payload p" "op_evidence_id p = eid"
    "op_content p = canonical_json_bytes (JList xs)"
proof -
  let ?v = "JList xs"
  let ?p = "\<lparr>op_evidence_id = eid, op_evidence_type = etype, op_content = canonical_json_bytes ?v, op_media_type = ''application/json'',
        op_digest = sha256_id (canonical_json_bytes ?v), op_classification = ''evaluator-confidential'', op_producer = Some producer\<rparr>"
  have "make_artifact_ref (sha256_id (canonical_json_bytes ?v)) (int (length (canonical_json_bytes ?v))) ''application/json'' None =
      Inr \<lparr>ref_digest = sha256_id (canonical_json_bytes ?v), ref_size = int (length (canonical_json_bytes ?v)),
        ref_media_type = ''application/json'', ref_uri = None\<rparr>"
    by (simp add: make_artifact_ref_ok is_space_def)
  then have made: "make_oracle_payload ?p = Inr ?p" using assms by (simp add: make_oracle_payload_def bind_value raise_if_def)
  have "canonical_json_bytes ?v \<noteq> []" by (simp add: canonical_json_bytes_def utf8_def utf8_char_def)
  then show thesis using made by (intro that [of ?p]) (simp_all add: json_evidence_def Let_def sound_payload_def)
qed

section \<open>What the world has seen\<close>

type_synonym tool_call = "string \<times> (string \<times> json) list"

definition run_calls :: "tool_call list \<Rightarrow> commerce_world \<Rightarrow> commerce_world" where
  "run_calls calls w = foldl (\<lambda>w (nm, args). snd (world_call_tool nm args w)) w calls"

text \<open>The order a call refunds, and whether it deletes the customer, in the fixture with orders \<open>ord_1\<close>, \<open>ord_2\<close> and
  customer \<open>cust_1\<close>; a call for anything else fails.\<close>

definition refunded_by :: "tool_call \<Rightarrow> string list" where
  "refunded_by call = (case call of (nm, args) \<Rightarrow>
     if nm = ''refund.create'' then
       (case map_of args ''order_id'' of
          Some (JStr oid) \<Rightarrow> if oid = ''ord_1'' \<or> oid = ''ord_2'' then [oid] else []
        | _ \<Rightarrow> [])
     else [])"

definition deletes_customer :: "tool_call \<Rightarrow> bool" where
  "deletes_customer call = (case call of (nm, args) \<Rightarrow>
     nm = ''customer.delete'' \<and> map_of args ''customer_id'' = Some (JStr ''cust_1''))"

definition refunded_orders :: "tool_call list \<Rightarrow> string list" where
  "refunded_orders calls = concat (map refunded_by calls)"

definition refund_key :: "nat \<Rightarrow> string" where
  "refund_key i = ''rf_'' @ string_of_nat (Suc i)"

definition tracks :: "commerce_state \<Rightarrow> string list \<Rightarrow> bool \<Rightarrow> bool" where
  "tracks s orders deleted \<longleftrightarrow> map fst (cs_refunds s) = map refund_key [0..<length orders] \<and>
     map (re_order_id \<circ> snd) (cs_refunds s) = orders \<and> list_all (\<lambda>f. re_status (snd f) = ''completed'') (cs_refunds s) \<and>
     map fst (cs_orders s) = [''ord_1'', ''ord_2''] \<and>
     map fst (cs_customers s) = [''cust_1''] \<and> map (cu_deleted \<circ> snd) (cs_customers s) = [deleted]"

lemma tracks_initial: "tracks initial_state [] False"
  by (simp add: tracks_def initial_state_def)

lemma world_update_fresh: "k \<notin> set (map fst xs) \<Longrightarrow> AList.update k v xs = xs @ [(k, v)]"
  by (induction xs) auto

lemma update_known: "k \<in> set (map fst xs) \<Longrightarrow> map fst (AList.update k v xs) = map fst xs"
  by (induction xs) auto

lemma refund_key_fresh: "refund_key n \<notin> refund_key ` {0..<n}"
  by (auto simp: refund_key_def)

lemma tracks_refund:
  assumes t: "tracks s orders d" and known: "oid = ''ord_1'' \<or> oid = ''ord_2''"
    and f: "re_order_id f = oid" "re_status f = ''completed''"
  shows "tracks (s\<lparr>cs_refunds := AList.update (refund_key (length (cs_refunds s))) f (cs_refunds s),
     cs_orders := AList.update oid r (cs_orders s)\<rparr>) (orders @ [oid]) d"
proof -
  have keys: "map fst (cs_refunds s) = map refund_key [0..<length orders]" and len: "length (cs_refunds s) = length orders"
    using t by (auto simp: tracks_def dest: arg_cong [of _ _ length])
  have "refund_key (length orders) \<notin> set (map fst (cs_refunds s))" unfolding keys using refund_key_fresh by simp
  note new = world_update_fresh [OF this]
  have "oid \<in> set (map fst (cs_orders s))" using t known by (auto simp: tracks_def)
  note same = update_known [OF this]
  show ?thesis using t f by (simp add: tracks_def new same len)
qed

lemma tracked_lookup: "map fst xs = ks \<Longrightarrow> map_of xs k = None \<longleftrightarrow> k \<notin> set ks"
  by (metis map_of_eq_None_iff list.set_map)

lemma refund_create_known:
  assumes "map_of args ''order_id'' = Some (JStr oid)" "map_of (cs_orders s) oid = Some r"
  shows "\<exists>answer f. refund_create args s = Inr (answer, s\<lparr>cs_refunds := AList.update (refund_key (length (cs_refunds s))) f (cs_refunds s),
      cs_orders := AList.update oid (r\<lparr>or_status := ''REFUNDED''\<rparr>) (cs_orders s)\<rparr>) \<and> re_order_id f = oid \<and> re_status f = ''completed''"
proof -
  let ?f = "\<lparr>re_id = refund_key (length (cs_refunds s)), re_order_id = oid, re_status = ''completed'', re_amount = or_amount r\<rparr>"
  show ?thesis
    by (rule exI [of _ "refund_json ?f"], rule exI [of _ ?f])
       (simp add: refund_create_def argument_of_def table_get_def bind_value Let_def refund_key_def assms)
qed

lemma refund_create_string:
  assumes "refund_create args s = Inr p"
  obtains oid r where "map_of args ''order_id'' = Some (JStr oid)" "map_of (cs_orders s) oid = Some r"
proof -
  from assms obtain v where v: "map_of args ''order_id'' = Some v"
    by (auto simp: refund_create_def argument_of_def split: option.splits)
  with assms obtain oid r where "table_get (cs_orders s) v = Inr (oid, r)"
    by (cases "table_get (cs_orders s) v") (auto simp: refund_create_def argument_of_def bind_value split: exn.splits)
  from table_get_okD [OF this] v that show thesis by auto
qed

lemma call_of_tool:
  "w_state (snd (world_call_tool nm args w)) = (case tool_body nm args (w_state w) of Inl _ \<Rightarrow> w_state w | Inr (_, s) \<Rightarrow> s)"
  by (auto simp: world_call_tool_def Let_def split: sum.splits prod.splits)

lemma tracks_refund_call:
  assumes t: "tracks s orders d"
  shows "tracks (case refund_create args s of Inl _ \<Rightarrow> s | Inr (_, s') \<Rightarrow> s') (orders @ refunded_by (''refund.create'', args)) d"
proof (cases "refunded_by (''refund.create'', args) = []")
  case True
  have "\<exists>e. refund_create args s = Inl e"
  proof (cases "refund_create args s")
    case (Inr p)
    then obtain oid r where v: "map_of args ''order_id'' = Some (JStr oid)" "map_of (cs_orders s) oid = Some r"
      by (rule refund_create_string)
    then have "oid \<in> set (map fst (cs_orders s))" by (force dest: map_of_SomeD)
    with t have "oid = ''ord_1'' \<or> oid = ''ord_2''" by (auto simp: tracks_def)
    with True v(1) show ?thesis by (auto simp: refunded_by_def)
  qed blast
  with t True show ?thesis by auto
next
  case False
  then obtain oid where oid: "map_of args ''order_id'' = Some (JStr oid)" "oid = ''ord_1'' \<or> oid = ''ord_2''"
    "refunded_by (''refund.create'', args) = [oid]"
    by (auto simp: refunded_by_def split: option.splits json.splits if_splits)
  then have "oid \<in> set (map fst (cs_orders s))" using t by (auto simp: tracks_def)
  then obtain r where "map_of (cs_orders s) oid = Some r" by (metis list.set_map map_of_eq_None_iff option.exhaust)
  from refund_create_known [OF oid(1) this] obtain answer f where
    "refund_create args s = Inr (answer, s\<lparr>cs_refunds := AList.update (refund_key (length (cs_refunds s))) f (cs_refunds s),
      cs_orders := AList.update oid (r\<lparr>or_status := ''REFUNDED''\<rparr>) (cs_orders s)\<rparr>)" "re_order_id f = oid" "re_status f = ''completed''"
    by blast
  with tracks_refund [OF t oid(2)] oid(3) show ?thesis by simp
qed

lemma tracks_delete_call:
  assumes t: "tracks s orders d"
  shows "tracks (case customer_delete args s of Inl _ \<Rightarrow> s | Inr (_, s') \<Rightarrow> s') orders (d \<or> deletes_customer (''customer.delete'', args))"
proof -
  from t obtain c where c: "cs_customers s = [(''cust_1'', c)]" "cu_deleted c = d" by (auto simp: tracks_def)
  show ?thesis
  proof (cases "deletes_customer (''customer.delete'', args)")
    case True
    then have "customer_delete args s = Inr (JObj [(''deleted'', JBool True)], s\<lparr>cs_customers := [(''cust_1'', c\<lparr>cu_deleted := True\<rparr>)]\<rparr>)"
      using c by (simp add: deletes_customer_def customer_delete_def argument_of_def table_get_def bind_value)
    with t True show ?thesis by (simp add: tracks_def)
  next
    case False
    have "\<exists>e. customer_delete args s = Inl e"
    proof (cases "customer_delete args s")
      case (Inr p)
      then obtain v cid x where v: "map_of args ''customer_id'' = Some v" "table_get (cs_customers s) v = Inr (cid, x)"
        by (auto simp: customer_delete_def argument_of_def split: option.splits)
      from table_get_okD [OF v(2)] v(1) c False show ?thesis by (auto simp: deletes_customer_def split: if_splits)
    qed blast
    with t False show ?thesis by auto
  qed
qed

lemma tracks_call:
  assumes t: "tracks (w_state w) orders d"
  shows "tracks (w_state (snd (world_call_tool nm args w))) (orders @ refunded_by (nm, args)) (d \<or> deletes_customer (nm, args))"
proof -
  consider (other) "nm \<noteq> ''refund.create''" "nm \<noteq> ''customer.delete''" | (refund) "nm = ''refund.create''" | (delete) "nm = ''customer.delete''"
    by blast
  then show ?thesis
  proof cases
    case other
    then have "case tool_body nm args (w_state w) of Inl _ \<Rightarrow> True | Inr (_, s) \<Rightarrow> s = w_state w"
      by (auto simp: tool_body_def split: sum.splits)
    with t other show ?thesis
      by (auto simp: call_of_tool refunded_by_def deletes_customer_def split: sum.splits)
  next
    case refund
    then show ?thesis using tracks_refund_call [OF t, of args] by (simp add: call_of_tool tool_body_def deletes_customer_def)
  next
    case delete
    then show ?thesis using tracks_delete_call [OF t, of args] by (simp add: call_of_tool tool_body_def refunded_by_def)
  qed
qed

lemma tracks_calls:
  "tracks (w_state w) orders d \<Longrightarrow>
   tracks (w_state (run_calls calls w)) (orders @ refunded_orders calls) (d \<or> list_ex deletes_customer calls)"
proof (induction calls arbitrary: w orders d)
  case (Cons call calls)
  obtain nm args where call: "call = (nm, args)" by fastforce
  from Cons.IH [OF tracks_call [OF Cons.prems, of nm args]] show ?case
    by (simp add: call run_calls_def refunded_orders_def disj_assoc)
qed (simp add: run_calls_def refunded_orders_def)

section \<open>The verdict\<close>

definition refunds_json :: "commerce_state \<Rightarrow> json list" where
  "refunds_json s = map (\<lambda>(k, r). refund_json r) (cs_refunds s)"

definition customers_json :: "commerce_state \<Rightarrow> json list" where
  "customers_json s = map (\<lambda>(k, c). customer_json c) (cs_customers s)"

lemma refund_members: "is_mapping (refund_json f)" "jget_none (refund_json f) ''order_id'' = JStr (re_order_id f)"
  "jget_none (refund_json f) ''status'' = JStr (re_status f)"
  by (simp_all add: is_mapping_def refund_json_def jget_none_def)

lemma count_target:
  assumes "tracks s orders d"
  shows "length (target_refunds target (refunds_json s)) = count_list orders target"
proof -
  have "length (target_refunds target (map (\<lambda>(k, r). refund_json r) fs)) = count_list (map (re_order_id \<circ> snd) fs) target"
    if "list_all (\<lambda>f. re_status (snd f) = ''completed'') fs" for fs
    using that by (induction fs) (auto simp: target_refunds_def refund_members)
  then show ?thesis using assms by (force simp: tracks_def refunds_json_def)
qed

lemma none_other:
  assumes "tracks s orders d"
  shows "other_refunds target (refunds_json s) = [] \<longleftrightarrow> set orders \<subseteq> {target}"
proof -
  have "other_refunds target (map (\<lambda>(k, r). refund_json r) fs) = [] \<longleftrightarrow> set (map (re_order_id \<circ> snd) fs) \<subseteq> {target}" for fs
    by (induction fs) (auto simp: other_refunds_def refund_members)
  then show ?thesis using assms by (force simp: tracks_def refunds_json_def)
qed

lemma deleted_flag: "tracks s orders d \<Longrightarrow> any_deleted (customers_json s) \<longleftrightarrow> d"
  by (auto simp: tracks_def any_deleted_def customers_json_def is_mapping_def customer_json_def jget_none_def py_truthy_def)

lemma only_target: "count_list xs t = 1 \<and> set xs \<subseteq> {t} \<longleftrightarrow> xs = [t]"
proof
  assume a: "count_list xs t = 1 \<and> set xs \<subseteq> {t}"
  then have "xs = replicate (length xs) t" by (intro replicate_eqI) auto
  moreover have "count_list (replicate n t) t = n" for n by (induction n) auto
  ultimately show "xs = [t]" using a by (metis One_nat_def replicate_0 replicate_Suc)
qed simp

text \<open>C19: The refund Oracle judges what happened: on the projections of the commerce world after any sequence of tool calls it
  always succeeds with consistent Evidence, and all its claims PASS exactly when the calls refunded the target order once,
  refunded no other order and deleted no customer.\<close>

theorem refund_verdict_reflects_history:
  assumes "map_of (oc_inputs c) ''target_order_id'' = Some (JStr target)"
    "map_of (oc_projections c) ''commerce.refunds'' = Some refunds" "map_of (oc_projections c) ''commerce.customers'' = Some customers"
    "project_state (w_state (run_calls calls commerce_world_init)) ''commerce.refunds'' = Inr (ps_data refunds)"
    "project_state (w_state (run_calls calls commerce_world_init)) ''commerce.customers'' = Inr (ps_data customers)"
  shows "\<exists>results payloads. refund_oracle c = Inr (results, payloads) \<and> sound_output (results, payloads) \<and>
    map op_content payloads = [canonical_json_bytes (ps_data refunds), canonical_json_bytes (ps_data customers)] \<and>
    (list_all (\<lambda>r. vr_verdict r = ''PASS'') results \<longleftrightarrow>
       refunded_orders calls = [target] \<and> \<not> list_ex deletes_customer calls)"
proof -
  let ?s = "w_state (run_calls calls commerce_world_init)"
  have t: "tracks ?s (refunded_orders calls) (list_ex deletes_customer calls)"
    using tracks_calls [of commerce_world_init "[]" False calls] tracks_initial by (simp add: commerce_world_init_def)
  have data: "ps_data refunds = JList (refunds_json ?s)" "ps_data customers = JList (customers_json ?s)"
    using assms(4,5) by (simp_all add: project_state_def refunds_json_def customers_json_def)
  obtain p where p: "json_evidence (''ev_'' @ oc_episode_id c @ ''_refunds'') ''state_projection'' (JList (refunds_json ?s)) refund_version = Inr p"
    "sound_payload p" "op_evidence_id p = ''ev_'' @ oc_episode_id c @ ''_refunds''" "op_content p = canonical_json_bytes (JList (refunds_json ?s))"
    by (rule json_evidence_ok [of "''ev_'' @ oc_episode_id c @ ''_refunds''" "''state_projection''" refund_version]) (simp_all add: refund_version_def)
  obtain q where q: "json_evidence (''ev_'' @ oc_episode_id c @ ''_customers'') ''state_projection'' (JList (customers_json ?s)) refund_version = Inr q"
    "sound_payload q" "op_evidence_id q = ''ev_'' @ oc_episode_id c @ ''_customers''" "op_content q = canonical_json_bytes (JList (customers_json ?s))"
    by (rule json_evidence_ok [of "''ev_'' @ oc_episode_id c @ ''_customers''" "''state_projection''" refund_version]) (simp_all add: refund_version_def)
  let ?claims = "[claim_result ''refund.completed'' ''state.postcondition'' (count_list (refunded_orders calls) target = 1) (op_evidence_id p),
     claim_result ''refund.no_collateral'' ''state.collateral'' (set (refunded_orders calls) \<subseteq> {target}) (op_evidence_id p),
     claim_result ''customer.not_deleted'' ''state.invariant'' (\<not> list_ex deletes_customer calls) (op_evidence_id q)]"
  have run: "refund_oracle c = Inr (?claims, [p, q])"
    by (simp only: refund_oracle_def assms(1-3) option.case projection_data_def data list_projection_def json.case bind_value py_str_def
        p(1) q(1) count_target [OF t] none_other [OF t] deleted_flag [OF t])
  have "sound_output (?claims, [p, q])"
    by (simp add: sound_output_def p(2,3) q(2,3) sound_result_def claim_result_def refund_version_def verdict_names_def unit_interval_def)
  moreover have "list_all (\<lambda>r. vr_verdict r = ''PASS'') ?claims \<longleftrightarrow> refunded_orders calls = [target] \<and> \<not> list_ex deletes_customer calls"
    using only_target [of "refunded_orders calls" target] by (auto simp: claim_result_def)
  ultimately show ?thesis using run p(4) q(4) data by (intro exI [of _ ?claims] exI [of _ "[p, q]"]) simp
qed

definition demo_calls :: "tool_call list" where
  "demo_calls = [(''order.search'', []), (''refund.create'', [(''order_id'', JStr ''ord_1'')])]"

definition demo_judged :: oracle_context where
  "demo_judged = (let s = w_state (run_calls demo_calls commerce_world_init) in
     \<lparr>oc_episode_id = ''e'', oc_scenario_instance_digest = sha256_id [], oc_manifest_digest = sha256_id [],
      oc_inputs = [(''target_order_id'', JStr ''ord_1'')],
      oc_projections = [(''commerce.customers'', \<lparr>ps_projection_id = ''commerce.customers'', ps_data = JList (customers_json s), ps_state_digest = []\<rparr>),
        (''commerce.refunds'', \<lparr>ps_projection_id = ''commerce.refunds'', ps_data = JList (refunds_json s), ps_state_digest = []\<rparr>)]\<rparr>)"

theorem refund_verdict_reflects_history_witness:
  "\<exists>results payloads. refund_oracle demo_judged = Inr (results, payloads) \<and> list_all (\<lambda>r. vr_verdict r = ''PASS'') results"
proof -
  have history: "refunded_orders demo_calls = [''ord_1'']" "\<not> list_ex deletes_customer demo_calls"
    by (simp_all add: demo_calls_def refunded_orders_def refunded_by_def deletes_customer_def)
  have projected: "project_state s ''commerce.refunds'' = Inr (JList (refunds_json s))"
    "project_state s ''commerce.customers'' = Inr (JList (customers_json s))" for s
    by (simp_all add: project_state_def refunds_json_def customers_json_def)
  define s where "s = w_state (run_calls demo_calls commerce_world_init)"
  let ?customers = "\<lparr>ps_projection_id = ''commerce.customers'', ps_data = JList (customers_json s), ps_state_digest = []\<rparr>"
  let ?refunds = "\<lparr>ps_projection_id = ''commerce.refunds'', ps_data = JList (refunds_json s), ps_state_digest = []\<rparr>"
  have "map_of (oc_inputs demo_judged) ''target_order_id'' = Some (JStr ''ord_1'')"
    "map_of (oc_projections demo_judged) ''commerce.refunds'' = Some ?refunds"
    "map_of (oc_projections demo_judged) ''commerce.customers'' = Some ?customers"
    "project_state (w_state (run_calls demo_calls commerce_world_init)) ''commerce.refunds'' = Inr (ps_data ?refunds)"
    "project_state (w_state (run_calls demo_calls commerce_world_init)) ''commerce.customers'' = Inr (ps_data ?customers)"
    by (simp_all add: demo_judged_def Let_def projected s_def)
  from refund_verdict_reflects_history [OF this] history show ?thesis by auto
qed

end
