(* ===== verification/AVP_Browser.thy ===== *)
theory AVP_Browser
  imports AVP_RelationalValues AVP_OracleWire "HOL-Library.Product_Lexorder"
begin

text \<open>
  \<^verbatim>\<open>tck_adapter/browser_harness.py\<close>: DOMString encoding, canonical Manifests and state images, fixtures, the settlement ledger
  and the harness that checks every lifecycle claim of a browser resource by its own observation. The WHATWG verifier, the JCS
  serializer (\<^verbatim>\<open>rfc8785\<close>) and the browser behind the harness are parameters.
\<close>

section \<open>DOM strings\<close>

definition canonicalization :: "string \<Rightarrow> exn" where
  "canonicalization m = BrowserExn BrowserCanonicalizationError m"

fun dom_code_unit :: "json \<Rightarrow> (exn, 16 word) result" where
  "dom_code_unit (JInt i) =
     (if i < 0 \<or> 65535 < i then Inl (canonicalization (''DOMString code unit outside unsigned 16-bit range: '' @ string_of_int i))
      else Inr (word_of_int i))"
| "dom_code_unit _ = Inl (canonicalization ''DOMString code units must be integers'')"

text \<open>\<open>code_unit.to_bytes(2, "big")\<close> and its inverse.\<close>

definition unit_bytes :: "16 word \<Rightarrow> bytes" where
  "unit_bytes u = [ucast (drop_bit 8 u), ucast u]"

definition unit_of_bytes :: "8 word \<Rightarrow> 8 word \<Rightarrow> 16 word" where
  "unit_of_bytes a b = push_bit 8 (ucast a) OR ucast b"

definition encode_dom_string :: "16 word list \<Rightarrow> string" where
  "encode_dom_string us = urlsafe_b64encode (concat (map unit_bytes us))"

definition encode_dom_string_code_units :: "json list \<Rightarrow> (exn, string) result" where
  "encode_dom_string_code_units xs = res_bind (map_each dom_code_unit xs) (\<lambda>us. Inr (encode_dom_string us))"

fun units_of_bytes :: "bytes \<Rightarrow> 16 word list" where
  "units_of_bytes (a # b # rest) = unit_of_bytes a b # units_of_bytes rest"
| "units_of_bytes _ = []"

definition dom_char :: "char \<Rightarrow> bool" where
  "dom_char c \<longleftrightarrow> is_alnum_ascii c \<or> c \<in> {CHR ''-'', CHR ''_''}"

definition decode_dom_string_code_units :: "json \<Rightarrow> (exn, 16 word list) result" where
  "decode_dom_string_code_units v =
     (case v of
        JStr s \<Rightarrow>
          res_bind (raise_if (CHR ''='' \<in> set s) (canonicalization ''DOMString base64url must be unpadded'')) (\<lambda>_.
          res_bind (raise_if (\<not> list_all dom_char s) (canonicalization ''DOMString contains non-base64url characters'')) (\<lambda>_.
          let padded = map to_std_alphabet (s @ replicate ((4 - length s mod 4) mod 4) CHR ''='') in
          res_bind (raise_if (\<not> b64_valid padded) (canonicalization ''invalid DOMString base64url encoding'')) (\<lambda>_.
          let raw = b64_decode padded in
          res_bind (raise_if (odd (length raw)) (canonicalization ''DOMString decoded bytes must contain whole UTF-16 code units'')) (\<lambda>_.
          res_bind (raise_if (urlsafe_b64encode raw \<noteq> s) (canonicalization ''DOMString base64url must use canonical zero pad bits'')) (\<lambda>_.
          Inr (units_of_bytes raw))))))
      | _ \<Rightarrow> Inl (canonicalization ''DOMString encoding must be a string''))"

section \<open>Manifests\<close>

record identity_verifier =
  iv_origin :: "string \<Rightarrow> (exn, unit) result"
  iv_domain :: "string \<Rightarrow> (exn, unit) result"

type_synonym members = "(string \<times> json) list"

text \<open>\<open>value[key]\<close> of a mapping whose keys were checked.\<close>

definition member :: "members \<Rightarrow> string \<Rightarrow> json" where
  "member kvs k = jget_none (JObj kvs) k"

definition require_exact_keys :: "members \<Rightarrow> string list \<Rightarrow> string \<Rightarrow> (exn, unit) result" where
  "require_exact_keys kvs expected label =
     (let actual = map fst kvs in
      raise_if (set actual \<noteq> set expected) (canonicalization (label @ '' fields are not closed: missing='' @
        py_repr (jstrs (sort (filter (\<lambda>k. k \<notin> set actual) expected))) @ '', extra='' @
        py_repr (jstrs (sort (filter (\<lambda>k. k \<notin> set expected) actual))))))"

definition require_array :: "json \<Rightarrow> string \<Rightarrow> (exn, json list) result" where
  "require_array v m = (case v of JList xs \<Rightarrow> Inr xs | _ \<Rightarrow> Inl (canonicalization m))"

definition require_object :: "json \<Rightarrow> string \<Rightarrow> (exn, members) result" where
  "require_object v m = (case v of JObj kvs \<Rightarrow> Inr kvs | _ \<Rightarrow> Inl (canonicalization m))"

definition require_text :: "json \<Rightarrow> string \<Rightarrow> (exn, string) result" where
  "require_text v m = (case v of JStr s \<Rightarrow> if s = [] then Inl (canonicalization m) else Inr s | _ \<Rightarrow> Inl (canonicalization m))"

definition require_bool :: "json \<Rightarrow> string \<Rightarrow> (exn, bool) result" where
  "require_bool v m = (case v of JBool b \<Rightarrow> Inr b | _ \<Rightarrow> Inl (canonicalization m))"

definition browser_api_version :: string where "browser_api_version = ''avp.browser/v0.1''"
definition browser_profile :: string where "browser_profile = ''avp-browser-unpartitioned-cookie-localstorage-v0.1''"
definition browser_revision :: string where "browser_revision = ''0.1''"
definition browser_representation :: string where "browser_representation = ''avp-browser-v0.1-rfc8785-jcs''"

definition manifest_constants :: "(string \<times> string) list" where
  "manifest_constants = [(''apiVersion'', browser_api_version), (''kind'', ''BrowserStateManifest''), (''profile'', browser_profile),
     (''revision'', browser_revision), (''canonicalRepresentation'', browser_representation)]"

record browser_selection =
  bw_origins :: "string list"
  bw_domains :: "string list"
  bw_bindings :: "(string \<times> string \<times> string) list"

definition selected_identity :: "(string \<Rightarrow> (exn, unit) result) \<Rightarrow> string \<Rightarrow> json \<Rightarrow> (exn, string) result" where
  "selected_identity verify m v = res_bind (require_text v m) (\<lambda>s. res_bind (verify s) (\<lambda>_. Inr s))"

definition execution_binding :: "string \<times> json \<Rightarrow> (exn, string \<times> string \<times> string) result" where
  "execution_binding kv =
     res_bind (raise_if (fst kv = []) (canonicalization ''execution binding reference must be non-empty'')) (\<lambda>_.
     res_bind (require_object (snd kv) ''execution binding must be an object'') (\<lambda>b.
     res_bind (require_exact_keys b [''identity'', ''identityType''] ''execution binding'') (\<lambda>_.
     res_bind (require_text (member b ''identity'') ''execution binding identity must be non-empty'') (\<lambda>identity.
     res_bind (in_strings (member b ''identityType'') [''content'', ''version'', ''symbolic'']) (\<lambda>known.
     res_bind (raise_if (\<not> known) (canonicalization ''unsupported execution binding identityType'')) (\<lambda>_.
     Inr (fst kv, identity, py_str (member b ''identityType''))))))))"

definition check_constants :: "(string \<times> string) list \<Rightarrow> members \<Rightarrow> (exn, unit) result" where
  "check_constants expected kvs = check_each (\<lambda>(k, s). raise_if (member kvs k \<noteq> JStr s)
     (canonicalization (''BrowserStateManifest '' @ k @ '' must equal '' @ py_repr_str s))) expected"

definition manifest_keys :: "string list" where
  "manifest_keys = map fst manifest_constants @ [''localStorageOrigins'', ''cookieDomains'', ''executionBindings'']"

text \<open>The checks of \<open>canonicalize_manifest\<close> and the selection it makes, ordered by UTF-8 bytes.\<close>

definition check_manifest :: "identity_verifier \<Rightarrow> members \<Rightarrow> (exn, browser_selection) result" where
  "check_manifest v m =
     res_bind (require_exact_keys m manifest_keys ''BrowserStateManifest'') (\<lambda>_.
     res_bind (check_constants manifest_constants m) (\<lambda>_.
     res_bind (require_array (member m ''localStorageOrigins'') ''localStorageOrigins must be an array'') (\<lambda>raw_origins.
     res_bind (require_array (member m ''cookieDomains'') ''cookieDomains must be an array'') (\<lambda>raw_domains.
     res_bind (require_object (member m ''executionBindings'') ''executionBindings must be an object'') (\<lambda>raw_bindings.
     res_bind (map_each (selected_identity (iv_origin v) ''selected origin must be a non-empty string'') raw_origins) (\<lambda>origins.
     res_bind (raise_if (\<not> distinct origins) (canonicalization ''duplicate localStorage origin selection'')) (\<lambda>_.
     res_bind (map_each (selected_identity (iv_domain v) ''selected cookie domain must be non-empty'') raw_domains) (\<lambda>domains.
     res_bind (raise_if (\<not> distinct domains) (canonicalization ''duplicate cookie domain selection'')) (\<lambda>_.
     res_bind (map_each execution_binding raw_bindings) (\<lambda>bindings.
     Inr \<lparr>bw_origins = sort_key utf8 origins, bw_domains = sort_key utf8 domains, bw_bindings = bindings\<rparr>))))))))))"

definition manifest_members :: "browser_selection \<Rightarrow> members" where
  "manifest_members b = map (\<lambda>(k, s). (k, JStr s)) manifest_constants @
     [(''localStorageOrigins'', jstrs (bw_origins b)), (''cookieDomains'', jstrs (bw_domains b)),
      (''executionBindings'', JObj (map (\<lambda>(r, i, t). (r, JObj [(''identity'', JStr i), (''identityType'', JStr t)])) (bw_bindings b)))]"

definition canonicalize_manifest :: "identity_verifier \<Rightarrow> members \<Rightarrow> (exn, members) result" where
  "canonicalize_manifest v m = res_bind (check_manifest v m) (\<lambda>b. Inr (manifest_members b))"

definition canonical_manifest_bytes :: "(json \<Rightarrow> bytes) \<Rightarrow> identity_verifier \<Rightarrow> members \<Rightarrow> (exn, bytes) result" where
  "canonical_manifest_bytes jcs v m = res_bind (canonicalize_manifest v m) (\<lambda>c. Inr (jcs (JObj c)))"

definition canonical_manifest_digest :: "(json \<Rightarrow> bytes) \<Rightarrow> identity_verifier \<Rightarrow> members \<Rightarrow> (exn, string) result" where
  "canonical_manifest_digest jcs v m = res_bind (canonical_manifest_bytes jcs v m) (\<lambda>bs. Inr (sha256_id bs))"

section \<open>State images\<close>

type_synonym local_entry = "16 word list \<times> string \<times> string"

definition local_entry_of :: "json \<Rightarrow> (exn, local_entry) result" where
  "local_entry_of v =
     res_bind (require_object v ''localStorage entry must be an object'') (\<lambda>e.
     res_bind (require_exact_keys e [''key'', ''value''] ''localStorage entry'') (\<lambda>_.
     case (member e ''key'', member e ''value'') of
       (JStr k, JStr x) \<Rightarrow>
         res_bind (decode_dom_string_code_units (JStr k)) (\<lambda>units.
         res_bind (decode_dom_string_code_units (JStr x)) (\<lambda>_. Inr (units, k, x)))
     | _ \<Rightarrow> Inl (canonicalization ''localStorage key/value must be strings'')))"

text \<open>A loop that reads items and refuses one whose identity was seen.\<close>

fun read_distinct :: "('v \<Rightarrow> (exn, 'a) result) \<Rightarrow> ('a \<Rightarrow> 'k) \<Rightarrow> string \<Rightarrow> 'k list \<Rightarrow> 'v list \<Rightarrow> (exn, 'a list) result" where
  "read_distinct read key m seen [] = Inr []"
| "read_distinct read key m seen (v # vs) =
     res_bind (read v) (\<lambda>a.
     res_bind (raise_if (key a \<in> set seen) (canonicalization m)) (\<lambda>_.
     res_bind (read_distinct read key m (key a # seen) vs) (\<lambda>as. Inr (a # as))))"

definition canonical_local_storage :: "json \<Rightarrow> (exn, local_entry list) result" where
  "canonical_local_storage v =
     res_bind (require_array v ''localStorage must be an array'') (\<lambda>raw.
     res_bind (read_distinct local_entry_of fst ''duplicate localStorage key identity'' [] raw) (\<lambda>entries.
     Inr (sort_key fst entries)))"

definition cookie_octets :: "json \<Rightarrow> string \<Rightarrow> (exn, string) result" where
  "cookie_octets v label = (case v of
     JStr s \<Rightarrow> if list_ex (\<lambda>c. 128 \<le> (of_char c :: nat)) s then Inl (canonicalization (label @ '' must preserve ASCII cookie octets''))
       else if list_ex (\<lambda>c. (of_char c :: nat) < 32 \<or> 126 < (of_char c :: nat)) s
         then Inl (canonicalization (label @ '' contains unsupported cookie octets''))
       else Inr s
   | _ \<Rightarrow> Inl (canonicalization (label @ '' must be a string'')))"

definition canonical_unix_seconds :: "string \<Rightarrow> bool" where
  "canonical_unix_seconds s \<longleftrightarrow> s = ''0'' \<or>
     (let t = (if take 1 s = ''-'' then drop 1 s else s) in t \<noteq> [] \<and> list_all is_digit t \<and> hd t \<noteq> CHR ''0'')"

definition cookie_expiry :: "json \<Rightarrow> (exn, string \<times> int) result" where
  "cookie_expiry v =
     res_bind (require_object v ''persistent cookie expiry must be an object'') (\<lambda>e.
     res_bind (require_exact_keys e [''unixSeconds'', ''nanoseconds''] ''cookie expiry'') (\<lambda>_.
     res_bind (case member e ''unixSeconds'' of
         JStr s \<Rightarrow> if canonical_unix_seconds s then Inr s else Inl (canonicalization ''cookie unixSeconds is not canonical'')
       | _ \<Rightarrow> Inl (canonicalization ''cookie unixSeconds is not canonical'')) (\<lambda>seconds.
     case member e ''nanoseconds'' of
       JInt n \<Rightarrow> if n < 0 \<or> 999999999 < n then Inl (canonicalization ''cookie nanoseconds is outside canonical range'')
         else Inr (seconds, n)
     | _ \<Rightarrow> Inl (canonicalization ''cookie nanoseconds is outside canonical range''))))"

record browser_cookie =
  bk_name :: string
  bk_value :: string
  bk_domain :: string
  bk_host_only :: bool
  bk_path :: string
  bk_expiry :: "(string \<times> int) option"
  bk_secure :: bool
  bk_http_only :: bool
  bk_same_site :: string

definition cookie_keys :: "bool \<Rightarrow> string list" where
  "cookie_keys persistent = [''name'', ''value'', ''domain'', ''hostOnly'', ''path'', ''persistent'', ''secure'', ''httpOnly'', ''sameSite''] @
     (if persistent then [''expiry''] else [])"

definition same_site_values :: "string list" where
  "same_site_values = [''Default'', ''Strict'', ''Lax'', ''None'']"

definition canonical_cookie :: "identity_verifier \<Rightarrow> members \<Rightarrow> (exn, browser_cookie) result" where
  "canonical_cookie v c =
     res_bind (require_bool (member c ''persistent'') ''cookie persistent must be boolean'') (\<lambda>persistent.
     res_bind (require_exact_keys c (cookie_keys persistent) ''cookie'') (\<lambda>_.
     res_bind (cookie_octets (member c ''name'') ''cookie name'') (\<lambda>name.
     res_bind (cookie_octets (member c ''value'') ''cookie value'') (\<lambda>val.
     res_bind (cookie_octets (member c ''path'') ''cookie path'') (\<lambda>path.
     res_bind (require_text (member c ''domain'') ''cookie domain must be non-empty'') (\<lambda>domain.
     res_bind (iv_domain v domain) (\<lambda>_.
     res_bind (require_bool (member c ''hostOnly'') ''cookie hostOnly must be boolean'') (\<lambda>host_only.
     res_bind (require_bool (member c ''secure'') ''cookie secure must be boolean'') (\<lambda>secure.
     res_bind (require_bool (member c ''httpOnly'') ''cookie httpOnly must be boolean'') (\<lambda>http_only.
     res_bind (in_strings (member c ''sameSite'') same_site_values) (\<lambda>known.
     res_bind (raise_if (\<not> known) (canonicalization ''cookie sameSite is outside Browser v0.1'')) (\<lambda>_.
     res_bind (if persistent then res_bind (cookie_expiry (member c ''expiry'')) (\<lambda>x. Inr (Some x)) else Inr None) (\<lambda>expiry.
     Inr \<lparr>bk_name = name, bk_value = val, bk_domain = domain, bk_host_only = host_only, bk_path = path, bk_expiry = expiry,
       bk_secure = secure, bk_http_only = http_only, bk_same_site = py_str (member c ''sameSite'')\<rparr>)))))))))))))"

definition cookie_identity :: "browser_cookie \<Rightarrow> bytes \<times> bytes \<times> bool \<times> bytes" where
  "cookie_identity k = (utf8 (bk_name k), utf8 (bk_domain k), bk_host_only k, utf8 (bk_path k))"

definition cookie_members :: "browser_cookie \<Rightarrow> members" where
  "cookie_members k = [(''name'', JStr (bk_name k)), (''value'', JStr (bk_value k)), (''domain'', JStr (bk_domain k)),
     (''hostOnly'', JBool (bk_host_only k)), (''path'', JStr (bk_path k)), (''persistent'', JBool (bk_expiry k \<noteq> None)),
     (''secure'', JBool (bk_secure k)), (''httpOnly'', JBool (bk_http_only k)), (''sameSite'', JStr (bk_same_site k))] @
     (case bk_expiry k of None \<Rightarrow> [] | Some (s, n) \<Rightarrow> [(''expiry'', JObj [(''unixSeconds'', JStr s), (''nanoseconds'', JInt n)])])"

record origin_state =
  og_origin :: string
  og_entries :: "local_entry list"

definition origin_members :: "origin_state \<Rightarrow> members" where
  "origin_members g = [(''origin'', JStr (og_origin g)),
     (''localStorage'', JList (map (\<lambda>(_, k, x). JObj [(''key'', JStr k), (''value'', JStr x)]) (og_entries g)))]"

record browser_image =
  bi_manifest_digest :: string
  bi_cookies :: "browser_cookie list"
  bi_origins :: "origin_state list"

definition image_keys :: "string list" where
  "image_keys = [''apiVersion'', ''kind'', ''manifestDigest'', ''cookies'', ''origins'']"

definition image_members :: "browser_image \<Rightarrow> members" where
  "image_members i = [(''apiVersion'', JStr browser_api_version), (''kind'', JStr ''BrowserStateImage''),
     (''manifestDigest'', JStr (bi_manifest_digest i)), (''cookies'', JList (map (JObj \<circ> cookie_members) (bi_cookies i))),
     (''origins'', JList (map (JObj \<circ> origin_members) (bi_origins i)))]"

text \<open>One round of the loops over origins and cookies: the duplicate check precedes reading the entries of an origin.\<close>

definition origin_head :: "identity_verifier \<Rightarrow> string list \<Rightarrow> json \<Rightarrow> (exn, string \<times> json) result" where
  "origin_head v selected x =
     res_bind (require_object x ''origin state must be an object'') (\<lambda>g.
     res_bind (require_exact_keys g [''origin'', ''localStorage''] ''origin state'') (\<lambda>_.
     res_bind (require_text (member g ''origin'') ''origin state identity must be non-empty'') (\<lambda>origin.
     res_bind (iv_origin v origin) (\<lambda>_.
     res_bind (raise_if (origin \<notin> set selected) (canonicalization ''StateImage contains an unselected origin'')) (\<lambda>_.
     Inr (origin, member g ''localStorage''))))))"

fun read_origins :: "identity_verifier \<Rightarrow> string list \<Rightarrow> string list \<Rightarrow> json list \<Rightarrow> (exn, origin_state list) result" where
  "read_origins v selected seen [] = Inr []"
| "read_origins v selected seen (x # xs) =
     res_bind (origin_head v selected x) (\<lambda>(origin, raw).
     res_bind (raise_if (origin \<in> set seen) (canonicalization ''duplicate StateImage origin identity'')) (\<lambda>_.
     res_bind (canonical_local_storage raw) (\<lambda>entries.
     res_bind (read_origins v selected (origin # seen) xs) (\<lambda>gs.
     Inr (\<lparr>og_origin = origin, og_entries = entries\<rparr> # gs)))))"

definition selected_cookie :: "identity_verifier \<Rightarrow> string list \<Rightarrow> json \<Rightarrow> (exn, browser_cookie) result" where
  "selected_cookie v domains x =
     res_bind (require_object x ''cookie must be an object'') (\<lambda>c.
     res_bind (canonical_cookie v c) (\<lambda>k.
     res_bind (raise_if (bk_domain k \<notin> set domains) (canonicalization ''StateImage contains a cookie outside Manifest selection'')) (\<lambda>_.
     Inr k)))"

definition check_image :: "(json \<Rightarrow> bytes) \<Rightarrow> identity_verifier \<Rightarrow> members \<Rightarrow> members \<Rightarrow> (exn, browser_image) result" where
  "check_image jcs v img manifest =
     res_bind (check_manifest v manifest) (\<lambda>b.
     let d = sha256_id (jcs (JObj (manifest_members b))) in
     res_bind (require_exact_keys img image_keys ''BrowserStateImage'') (\<lambda>_.
     res_bind (raise_if (member img ''apiVersion'' \<noteq> JStr browser_api_version) (canonicalization ''BrowserStateImage apiVersion mismatch'')) (\<lambda>_.
     res_bind (raise_if (member img ''kind'' \<noteq> JStr ''BrowserStateImage'') (canonicalization ''BrowserStateImage kind mismatch'')) (\<lambda>_.
     res_bind (raise_if (member img ''manifestDigest'' \<noteq> JStr d)
       (canonicalization ''BrowserStateImage does not bind exact Manifest digest'')) (\<lambda>_.
     res_bind (raise_if (\<not> is_sha256_text (py_str (member img ''manifestDigest'')))
       (canonicalization ''BrowserStateImage manifestDigest is malformed'')) (\<lambda>_.
     res_bind (require_array (member img ''origins'') ''BrowserStateImage origins must be an array'') (\<lambda>raw_origins.
     res_bind (require_array (member img ''cookies'') ''BrowserStateImage cookies must be an array'') (\<lambda>raw_cookies.
     res_bind (read_origins v (bw_origins b) [] raw_origins) (\<lambda>origins.
     res_bind (raise_if (set (map og_origin origins) \<noteq> set (bw_origins b))
       (canonicalization ''StateImage does not contain every selected origin exactly once'')) (\<lambda>_.
     res_bind (read_distinct (selected_cookie v (bw_domains b)) cookie_identity ''duplicate portable cookie identity'' [] raw_cookies) (\<lambda>cookies.
     Inr \<lparr>bi_manifest_digest = d, bi_cookies = sort_key cookie_identity cookies,
       bi_origins = sort_key (utf8 \<circ> og_origin) origins\<rparr>)))))))))))"

definition canonicalize_state_image :: "(json \<Rightarrow> bytes) \<Rightarrow> identity_verifier \<Rightarrow> members \<Rightarrow> members \<Rightarrow> (exn, members) result" where
  "canonicalize_state_image jcs v img manifest = res_bind (check_image jcs v img manifest) (\<lambda>i. Inr (image_members i))"

definition canonical_state_image_bytes :: "(json \<Rightarrow> bytes) \<Rightarrow> identity_verifier \<Rightarrow> members \<Rightarrow> members \<Rightarrow> (exn, bytes) result" where
  "canonical_state_image_bytes jcs v img manifest =
     res_bind (canonicalize_state_image jcs v img manifest) (\<lambda>c. Inr (jcs (JObj c)))"

definition canonical_state_image_digest :: "(json \<Rightarrow> bytes) \<Rightarrow> identity_verifier \<Rightarrow> members \<Rightarrow> members \<Rightarrow> (exn, string) result" where
  "canonical_state_image_digest jcs v img manifest =
     res_bind (canonical_state_image_bytes jcs v img manifest) (\<lambda>bs. Inr (sha256_id bs))"

end
