(* ===== verification/AVP_BrowserHarness.thy ===== *)
theory AVP_BrowserHarness
  imports AVP_Browser
begin

text \<open>
  The stateful half of \<^verbatim>\<open>tck_adapter/browser_harness.py\<close>: fixtures materialized before provisioning, the settlement ledger and
  \<open>BrowserConformanceHarness\<close> over any browser backend.
\<close>

section \<open>Fixtures\<close>

record browser_fixture =
  bf_revision :: string
  bf_manifest :: members
  bf_baseline :: members
  bf_manifest_bytes :: bytes
  bf_baseline_bytes :: bytes
  bf_manifest_digest :: string
  bf_baseline_digest :: string

definition slot_list :: "json \<Rightarrow> string \<Rightarrow> (exn, string list) result" where
  "slot_list v m = (case v of
     JList xs \<Rightarrow> map_each (\<lambda>x. require_text x m) xs | _ \<Rightarrow> Inl (canonicalization m))"

definition resolved_origin :: "identity_verifier \<Rightarrow> members \<Rightarrow> string \<Rightarrow> (exn, string \<times> string) result" where
  "resolved_origin v resolved slot =
     res_bind (require_text (member resolved slot) ''resolved origin must be non-empty'') (\<lambda>origin.
     res_bind (iv_origin v origin) (\<lambda>_. Inr (slot, origin)))"

definition resolve_slots :: "identity_verifier \<Rightarrow> members \<Rightarrow> string list \<Rightarrow> (exn, (string \<times> string) list) result" where
  "resolve_slots v resolved slots =
     res_bind (map_each (resolved_origin v resolved) slots) (\<lambda>exact.
     res_bind (raise_if (\<not> distinct (map snd exact)) (canonicalization ''two origin slots resolved to the same tuple origin'')) (\<lambda>_.
     Inr exact))"

definition slot_origin :: "(string \<times> string) list \<Rightarrow> string \<Rightarrow> string" where
  "slot_origin exact slot = (case map_of exact slot of Some x \<Rightarrow> x | None \<Rightarrow> [])"

definition fixture_manifest :: "string list \<Rightarrow> json list \<Rightarrow> members \<Rightarrow> members" where
  "fixture_manifest origins domains bindings = map (\<lambda>(k, s). (k, JStr s)) manifest_constants @
     [(''localStorageOrigins'', jstrs origins), (''cookieDomains'', JList domains), (''executionBindings'', JObj bindings)]"

definition fixture_entry :: "json \<Rightarrow> (exn, json) result" where
  "fixture_entry x =
     res_bind (require_object x ''fixture localStorage entry must be an object'') (\<lambda>e.
     res_bind (require_exact_keys e [''keyCodeUnits'', ''valueCodeUnits''] ''fixture localStorage entry'') (\<lambda>_.
     res_bind (require_array (member e ''keyCodeUnits'') ''fixture DOMString code units must be arrays'') (\<lambda>ks.
     res_bind (require_array (member e ''valueCodeUnits'') ''fixture DOMString code units must be arrays'') (\<lambda>vs.
     res_bind (encode_dom_string_code_units ks) (\<lambda>k.
     res_bind (encode_dom_string_code_units vs) (\<lambda>x'.
     Inr (JObj [(''key'', JStr k), (''value'', JStr x')])))))))"

definition fixture_origin :: "(string \<times> string) list \<Rightarrow> members \<Rightarrow> string \<Rightarrow> (exn, json) result" where
  "fixture_origin exact by_slot slot =
     res_bind (require_array (member by_slot slot) ''fixture localStorage entries must be an array'') (\<lambda>entries.
     res_bind (map_each fixture_entry entries) (\<lambda>encoded.
     Inr (JObj [(''origin'', JStr (slot_origin exact slot)), (''localStorage'', JList encoded)])))"

definition fixture_image :: "string \<Rightarrow> json list \<Rightarrow> json list \<Rightarrow> members" where
  "fixture_image d cookies origins = [(''apiVersion'', JStr browser_api_version), (''kind'', JStr ''BrowserStateImage''),
     (''manifestDigest'', JStr d), (''cookies'', JList cookies), (''origins'', JList origins)]"

definition fixture_slots :: "members \<Rightarrow> members \<Rightarrow> (exn, string list \<times> string list) result" where
  "fixture_slots source resolved =
     res_bind (slot_list (member source ''originSlots'') ''originSlots must contain non-empty strings'') (\<lambda>slots.
     res_bind (raise_if (\<not> distinct slots) (canonicalization ''originSlots must be duplicate-free'')) (\<lambda>_.
     res_bind (raise_if (set (map fst resolved) \<noteq> set slots) (canonicalization ''every origin slot must be resolved exactly once'')) (\<lambda>_.
     res_bind (slot_list (member source ''selectedLocalStorageOriginSlots'') ''selected origin slots must be strings'') (\<lambda>selected.
     res_bind (raise_if (\<not> distinct selected) (canonicalization ''selected origin slots must be duplicate-free'')) (\<lambda>_.
     res_bind (raise_if (\<not> set selected \<subseteq> set slots) (canonicalization ''selected origin slot is not declared'')) (\<lambda>_.
     Inr (slots, selected)))))))"

definition fixture_baseline :: "members \<Rightarrow> string list \<Rightarrow> (string \<times> string) list \<Rightarrow> string \<Rightarrow> (exn, members) result" where
  "fixture_baseline source selected exact d =
     res_bind (require_object (member source ''baseline'') ''fixture baseline must be an object'') (\<lambda>baseline.
     res_bind (require_exact_keys baseline [''localStorageByOriginSlot'', ''cookies''] ''fixture baseline'') (\<lambda>_.
     res_bind (require_object (member baseline ''localStorageByOriginSlot'') ''localStorageByOriginSlot must be an object'') (\<lambda>by_slot.
     res_bind (require_array (member baseline ''cookies'') ''fixture cookies must be an array'') (\<lambda>cookies.
     res_bind (raise_if (set (map fst by_slot) \<noteq> set selected)
       (canonicalization ''baseline localStorage must define every selected origin slot exactly once'')) (\<lambda>_.
     res_bind (map_each (fixture_origin exact by_slot) selected) (\<lambda>origins.
     Inr (fixture_image d cookies origins)))))))"

definition source_keys :: "string list" where
  "source_keys = [''fixtureRevision'', ''originSlots'', ''selectedLocalStorageOriginSlots'', ''cookieDomains'', ''executionBindings'', ''baseline'']"

definition materialize_browser_fixture :: "(json \<Rightarrow> bytes) \<Rightarrow> identity_verifier \<Rightarrow> members \<Rightarrow> members \<Rightarrow> (exn, browser_fixture) result" where
  "materialize_browser_fixture jcs v source resolved =
     res_bind (require_exact_keys source source_keys ''Browser fixture source'') (\<lambda>_.
     res_bind (require_text (member source ''fixtureRevision'') ''fixtureRevision must be non-empty'') (\<lambda>revision.
     res_bind (fixture_slots source resolved) (\<lambda>(slots, selected).
     res_bind (resolve_slots v resolved slots) (\<lambda>exact.
     res_bind (require_array (member source ''cookieDomains'') ''fixture cookieDomains must be an array'') (\<lambda>domains.
     res_bind (require_object (member source ''executionBindings'') ''fixture executionBindings must be an object'') (\<lambda>bindings.
     res_bind (canonicalize_manifest v (fixture_manifest (map (slot_origin exact) selected) domains bindings)) (\<lambda>manifest.
     let manifest_bytes = jcs (JObj manifest) in
     res_bind (fixture_baseline source selected exact (sha256_id manifest_bytes)) (\<lambda>raw.
     res_bind (canonicalize_state_image jcs v raw manifest) (\<lambda>img.
     let image_bytes = jcs (JObj img) in
     Inr \<lparr>bf_revision = revision, bf_manifest = manifest, bf_baseline = img, bf_manifest_bytes = manifest_bytes,
       bf_baseline_bytes = image_bytes, bf_manifest_digest = sha256_id manifest_bytes, bf_baseline_digest = sha256_id image_bytes\<rparr>)))))))))"

section \<open>The settlement ledger\<close>

record settlement_ledger =
  sl_admission_open :: bool
  sl_mutations :: "(string \<times> bool) list"

definition new_ledger :: settlement_ledger where
  "new_ledger = \<lparr>sl_admission_open = True, sl_mutations = []\<rparr>"

definition settlement_error :: "string \<Rightarrow> exn" where
  "settlement_error m = BrowserExn BrowserSettlementError m"

definition unresolved_mutations :: "settlement_ledger \<Rightarrow> string list" where
  "unresolved_mutations l = sort (map fst (filter (\<lambda>(_, terminal). \<not> terminal) (sl_mutations l)))"

definition accept_relevant_mutation :: "string \<Rightarrow> (settlement_ledger, exn, unit) action" where
  "accept_relevant_mutation label =
     act_bind (act_read (\<lambda>l. raise_if (\<not> sl_admission_open l) (settlement_error ''Subject side-effect admission is closed''))) (\<lambda>_.
     act_bind (act_read (\<lambda>l. raise_if (label = [] \<or> label \<in> set (map fst (sl_mutations l)))
       (settlement_error ''mutation label must be unique and non-empty''))) (\<lambda>_.
     act_modify (\<lambda>l. l\<lparr>sl_mutations := sl_mutations l @ [(label, False)]\<rparr>)))"

definition close_subject_admission :: "(settlement_ledger, exn, unit) action" where
  "close_subject_admission = act_modify (\<lambda>l. l\<lparr>sl_admission_open := False\<rparr>)"

definition mark_terminal :: "string \<Rightarrow> (settlement_ledger, exn, unit) action" where
  "mark_terminal label =
     act_bind (act_read (\<lambda>l. raise_if (map_of (sl_mutations l) label \<noteq> Some False)
       (settlement_error ''mutation is not unresolved accepted work''))) (\<lambda>_.
     act_modify (\<lambda>l. l\<lparr>sl_mutations := map (\<lambda>(k, t). (k, t \<or> k = label)) (sl_mutations l)\<rparr>))"

definition require_positive_witness :: "settlement_ledger \<Rightarrow> (exn, unit) result" where
  "require_positive_witness l =
     res_bind (raise_if (sl_admission_open l) (settlement_error ''Subject side-effect admission is still open'')) (\<lambda>_.
     raise_if (unresolved_mutations l \<noteq> []) (settlement_error
       (''accepted profile-relevant mutations remain unresolved: '' @ py_repr (jstrs (unresolved_mutations l)))))"

section \<open>The conformance harness\<close>

text \<open>The protocols \<open>BrowserSUT\<close>, \<open>BrowserAuthoritativeObserver\<close> and \<open>BrowserBackendHarness\<close>, over resources \<open>'u\<close> of a world \<open>'w\<close>;
  a ledger is an object of that world, so it is read from the world when the harness asks it.\<close>

record ('w, 'u) browser_backend =
  bb_handle_id :: "'u \<Rightarrow> string"
  bb_provision :: "browser_fixture \<Rightarrow> ('w, exn, 'u) action"
  bb_snapshot :: "'u \<Rightarrow> ('w, exn, snapshot_ref) action"
  bb_reset :: "'u \<Rightarrow> ('w, exn, unit) action"
  bb_restore :: "'u \<Rightarrow> snapshot_ref \<Rightarrow> ('w, exn, unit) action"
  bb_verify_conditions :: "'u \<Rightarrow> browser_fixture \<Rightarrow> ('w, exn, unit) action"
  bb_verify_eligibility :: "'u \<Rightarrow> browser_fixture \<Rightarrow> snapshot_ref \<Rightarrow> ('w, exn, unit) action"
  bb_project_state :: "'u \<Rightarrow> browser_fixture \<Rightarrow> ('w, exn, members) action"

record ('w, 'u) browser_harness =
  bh_backend :: "('w, 'u) browser_backend"
  bh_fixture :: browser_fixture
  bh_verifier :: identity_verifier
  bh_jcs :: "json \<Rightarrow> bytes"

record 'w harness_state =
  hs_targets :: "string \<rightharpoonup> string \<times> string"
  hs_world :: 'w

definition verification_error :: "string \<Rightarrow> exn" where
  "verification_error m = BrowserExn BrowserVerificationError m"

definition in_world :: "('w, exn, 'a) action \<Rightarrow> ('w harness_state, exn, 'a) action" where
  "in_world = act_zoom hs_world hs_world_update"

definition harness_provision :: "('w, 'u) browser_harness \<Rightarrow> ('w harness_state, exn, 'u) action" where
  "harness_provision h = in_world (bb_provision (bh_backend h) (bh_fixture h))"

definition authoritative_projection :: "('w, 'u) browser_harness \<Rightarrow> 'u \<Rightarrow> ('w \<Rightarrow> settlement_ledger) \<Rightarrow>
    ('w harness_state, exn, state_projection) action" where
  "authoritative_projection h u settlement =
     act_bind (act_read (\<lambda>s. require_positive_witness (settlement (hs_world s)))) (\<lambda>_.
     act_bind (in_world (bb_verify_conditions (bh_backend h) u (bh_fixture h))) (\<lambda>_.
     act_bind (in_world (bb_project_state (bh_backend h) u (bh_fixture h))) (\<lambda>raw.
     act_bind (act_of (canonicalize_state_image (bh_jcs h) (bh_verifier h) raw (bf_manifest (bh_fixture h)))) (\<lambda>canonical.
     act_return \<lparr>sj_projection_id = ''browser.authoritative'', sj_data = JObj canonical,
       sj_digest = sha256_id (bh_jcs h (JObj canonical))\<rparr>))))"

definition verified_snapshot :: "('w, 'u) browser_harness \<Rightarrow> 'u \<Rightarrow> ('w \<Rightarrow> settlement_ledger) \<Rightarrow>
    ('w harness_state, exn, snapshot_ref) action" where
  "verified_snapshot h u settlement =
     act_bind (authoritative_projection h u settlement) (\<lambda>observed.
     act_bind (in_world (bb_snapshot (bh_backend h) u)) (\<lambda>snapshot.
     act_bind (act_of (raise_if (sn_handle_id snapshot \<noteq> bb_handle_id (bh_backend h) u)
       (verification_error ''snapshot is not owned by the Browser resource handle''))) (\<lambda>_.
     act_bind (act_of (raise_if (sn_state_digest snapshot \<noteq> sj_digest observed)
       (verification_error ''snapshot state digest does not match independent authoritative projection''))) (\<lambda>_.
     let target = (sn_handle_id snapshot, sj_digest observed) in
     act_bind (act_read (\<lambda>s. raise_if (hs_targets s (sn_snapshot_id snapshot) \<notin> {None, Some target})
       (verification_error ''snapshot id was reused for different Browser state''))) (\<lambda>_.
     act_bind (act_modify (\<lambda>s. s\<lparr>hs_targets := (hs_targets s)(sn_snapshot_id snapshot \<mapsto> target)\<rparr>)) (\<lambda>_.
     act_return snapshot))))))"

definition verified_reset :: "('w, 'u) browser_harness \<Rightarrow> 'u \<Rightarrow> ('w \<Rightarrow> settlement_ledger) \<Rightarrow> ('w \<Rightarrow> settlement_ledger) \<Rightarrow>
    ('w harness_state, exn, reset_result) action" where
  "verified_reset h u before_settlement after_settlement =
     act_bind (authoritative_projection h u before_settlement) (\<lambda>before.
     act_bind (in_world (bb_reset (bh_backend h) u)) (\<lambda>_.
     act_bind (authoritative_projection h u after_settlement) (\<lambda>after.
     act_bind (act_of (raise_if (sj_digest after \<noteq> bf_baseline_digest (bh_fixture h))
       (verification_error ''reset command completed without re-establishing canonical baseline state''))) (\<lambda>_.
     act_return \<lparr>rs_handle_id = bb_handle_id (bh_backend h) u, rs_target = INITIAL, rs_before_digest = sj_digest before,
       rs_after_digest = sj_digest after, rs_equivalent_to_initial = True\<rparr>))))"

definition known_target :: "('w, 'u) browser_harness \<Rightarrow> 'u \<Rightarrow> snapshot_ref \<Rightarrow> 'w harness_state \<Rightarrow> (exn, string) result" where
  "known_target h u snapshot s =
     res_bind (raise_if (sn_handle_id snapshot \<noteq> bb_handle_id (bh_backend h) u) (verification_error ''foreign Browser SnapshotRef'')) (\<lambda>_.
     case hs_targets s (sn_snapshot_id snapshot) of
       None \<Rightarrow> Inl (verification_error ''stale or unknown Browser SnapshotRef'')
     | Some (handle, d) \<Rightarrow>
         if handle \<noteq> bb_handle_id (bh_backend h) u \<or> d \<noteq> sn_state_digest snapshot
         then Inl (verification_error ''Browser SnapshotRef ownership/state binding changed'') else Inr d)"

definition verified_restore :: "('w, 'u) browser_harness \<Rightarrow> 'u \<Rightarrow> snapshot_ref \<Rightarrow> ('w \<Rightarrow> settlement_ledger) \<Rightarrow> ('w \<Rightarrow> settlement_ledger) \<Rightarrow>
    ('w harness_state, exn, restore_result) action" where
  "verified_restore h u snapshot before_settlement after_settlement =
     act_bind (act_read (known_target h u snapshot)) (\<lambda>expected.
     act_bind (authoritative_projection h u before_settlement) (\<lambda>before.
     act_bind (in_world (bb_verify_eligibility (bh_backend h) u (bh_fixture h) snapshot)) (\<lambda>_.
     act_bind (in_world (bb_restore (bh_backend h) u snapshot)) (\<lambda>_.
     act_bind (authoritative_projection h u after_settlement) (\<lambda>after.
     act_bind (act_of (raise_if (sj_digest after \<noteq> expected)
       (verification_error ''restore command completed without independently reprojecting target state''))) (\<lambda>_.
     act_return \<lparr>rr_snapshot_id = sn_snapshot_id snapshot, rr_before_digest = sj_digest before, rr_after_digest = sj_digest after,
       rr_equivalence = STATE_EQUIVALENT\<rparr>))))))"

end
