(* ===== verification/AVP_BrowserFacts.thy ===== *)
theory AVP_BrowserFacts
  imports AVP_BrowserHarness AVP_WireFacts AVP_Gateway
begin

text \<open>
  DOM string encoding is a bijection, canonical state images are normal forms, and settlement of a ledger can always be reached.
  The proofs read each document again: what a checker returned, it accepts and returns unchanged.
\<close>

section \<open>DOM strings\<close>

lemma unit_of_unit_bytes: "unit_of_bytes (ucast (drop_bit 8 u)) (ucast u) = (u :: 16 word)"
  unfolding unit_of_bytes_def by (rule bit_word_eqI) (auto simp: bit_simps)

lemma unit_bytes_of_unit: "unit_bytes (unit_of_bytes a b) = [a, b]"
proof -
  have "\<not> bit b (8 + n)" for n by (auto dest: bit_imp_le_length)
  then show ?thesis unfolding unit_of_bytes_def unit_bytes_def by (auto intro!: bit_word_eqI simp: bit_simps)
qed

lemma units_of_encoded: "units_of_bytes (concat (map unit_bytes us)) = us"
  by (induction us) (simp_all add: unit_bytes_def unit_of_unit_bytes)

lemma bytes_of_units: "even (length bs) \<Longrightarrow> concat (map unit_bytes (units_of_bytes bs)) = bs"
  by (induction bs rule: units_of_bytes.induct) (simp_all add: unit_bytes_of_unit)

lemma even_encoded: "even (length (concat (map unit_bytes us)))"
  by (induction us) (simp_all add: unit_bytes_def)

lemma alphabet_chars: "list_all (\<lambda>c. dom_char (to_url_alphabet c) \<and> to_url_alphabet c \<noteq> CHR ''='' \<and> to_std_alphabet (to_url_alphabet c) = c) b64_alphabet"
  by (simp add: b64_alphabet_def to_url_alphabet_def to_std_alphabet_def dom_char_def is_alnum_ascii_def is_digit_def is_upper_ascii_def is_lower_ascii_def)

lemma url_char: "c \<in> set b64_alphabet \<Longrightarrow> dom_char (to_url_alphabet c) \<and> to_url_alphabet c \<noteq> CHR ''='' \<and> to_std_alphabet (to_url_alphabet c) = c"
  using alphabet_chars by (simp add: list_all_iff)

lemmas url_b64 [simp] = url_char [OF b64_char_in] url_char [OF b64_char_in, THEN conjunct2, THEN conjunct1, THEN not_sym]

lemma pad_char [simp]: "to_url_alphabet CHR ''='' = CHR ''=''" "to_std_alphabet CHR ''='' = CHR ''=''"
  by (simp_all add: to_url_alphabet_def to_std_alphabet_def)

lemma urlsafe_chars: "list_all dom_char (urlsafe_b64encode bs) \<and> CHR ''='' \<notin> set (urlsafe_b64encode bs)"
  unfolding urlsafe_b64encode_def
  by (induction bs rule: b64_encode.induct) (simp_all add: Let_def)

lemma four_more: "Suc (Suc (Suc (Suc n))) mod 4 = n mod 4"
  by presburger

lemma urlsafe_padded: "map to_std_alphabet (urlsafe_b64encode bs @ replicate ((4 - length (urlsafe_b64encode bs) mod 4) mod 4) CHR ''='') = b64_encode bs"
  unfolding urlsafe_b64encode_def
proof (induction bs rule: b64_encode.induct)
  case (4 a b c rest)
  then show ?case by (simp add: Let_def four_more)
qed (simp_all add: Let_def numeral_2_eq_2)

lemma dom_string_encoding_exact: "decode_dom_string_code_units v = Inr us \<longleftrightarrow> v = JStr (encode_dom_string us)"
proof
  assume "decode_dom_string_code_units v = Inr us"
  then show "v = JStr (encode_dom_string us)"
    by (auto simp: decode_dom_string_code_units_def encode_dom_string_def Let_def bytes_of_units split: json.splits)
next
  assume "v = JStr (encode_dom_string us)"
  then show "decode_dom_string_code_units v = Inr us"
    by (simp add: decode_dom_string_code_units_def encode_dom_string_def Let_def urlsafe_chars urlsafe_padded [simplified] b64_encode_valid
        b64_roundtrip units_of_encoded even_encoded raise_if_def res_bind_def)
qed

text \<open>C38: Decoding a DOM string accepts exactly the encodings, one for each sequence of 16-bit code units, unmatched surrogates
  included: no text is read as two different strings and no string has two encodings.\<close>

theorem dom_string_encoding_is_exact: "decode_dom_string_code_units v = Inr us \<longleftrightarrow> v = JStr (encode_dom_string us)"
  by (rule dom_string_encoding_exact)

section \<open>Reading a canonical document again\<close>

lemma map_each_Cons_ok: "map_each f (x # xs) = Inr ys \<longleftrightarrow> (\<exists>y zs. ys = y # zs \<and> f x = Inr y \<and> map_each f xs = Inr zs)"
  by (auto split: sum.splits)

lemma map_each_exact: "map_each f xs = Inr ys \<longleftrightarrow> (\<forall>x \<in> set xs. is_ok (f x)) \<and> ys = map (projr \<circ> f) xs"
proof (induction xs arbitrary: ys)
  case (Cons x xs)
  then show ?case unfolding map_each_Cons_ok by (cases "f x") (auto simp: is_ok_def)
qed auto

lemma read_distinct_exact:
  "read_distinct read key m seen vs = Inr as \<longleftrightarrow>
     map_each read vs = Inr as \<and> distinct (map key as) \<and> (\<forall>a \<in> set as. key a \<notin> set seen)"
proof (induction vs arbitrary: seen as)
  case (Cons v vs)
  have "read_distinct read key m seen (v # vs) = Inr as \<longleftrightarrow> (\<exists>a bs. as = a # bs \<and> read v = Inr a \<and> key a \<notin> set seen \<and>
      read_distinct read key m (key a # seen) vs = Inr bs)" by auto
  then show ?case unfolding Cons.IH map_each_Cons_ok by (auto simp: image_iff) metis+
qed auto

lemma require_object_ok [simp]: "require_object v m = Inr kvs \<longleftrightarrow> v = JObj kvs"
  by (auto simp: require_object_def split: json.splits)

lemma require_array_ok [simp]: "require_array v m = Inr xs \<longleftrightarrow> v = JList xs"
  by (auto simp: require_array_def split: json.splits)

lemma require_text_ok [simp]: "require_text v m = Inr s \<longleftrightarrow> v = JStr s \<and> s \<noteq> []"
  by (auto simp: require_text_def split: json.splits)

lemma require_bool_ok [simp]: "require_bool v m = Inr b \<longleftrightarrow> v = JBool b"
  by (auto simp: require_bool_def split: json.splits)

lemma require_exact_keys_ok [simp]: "require_exact_keys kvs ks l = Inr u \<longleftrightarrow> fst ` set kvs = set ks"
  by (simp add: require_exact_keys_def Let_def)

lemma member_find [simp]: "member ((k, v) # kvs) k' = (if k = k' then v else member kvs k')"
  by (simp add: member_def jget_none_def)

lemma in_strings_ok: "in_strings v ns = Inr b \<Longrightarrow> b \<Longrightarrow> \<exists>s \<in> set ns. v = JStr s"
  by (auto simp: in_strings_def split: option.splits)

lemma in_strings_text [simp]: "in_strings (JStr s) ns = Inr (s \<in> set ns)"
  by (auto simp: in_strings_def)

lemma py_str_text [simp]: "py_str (JStr s) = s"
  by (simp add: py_str_def)

lemma str_pair_case_ok [simp]:
  "(case (a, b) of (JStr k, JStr x) \<Rightarrow> f k x | _ \<Rightarrow> Inl e) = Inr r \<longleftrightarrow> (\<exists>k x. a = JStr k \<and> b = JStr x \<and> f k x = Inr r)"
  by (cases a; cases b) simp_all

lemma local_entry_exact:
  "local_entry_of v = Inr (us, k, x) \<longleftrightarrow>
     (\<exists>e ws. v = JObj e \<and> fst ` set e = {''key'', ''value''} \<and> member e ''key'' = JStr k \<and> member e ''value'' = JStr x \<and>
        k = encode_dom_string us \<and> x = encode_dom_string ws)"
  unfolding local_entry_of_def res_bind_ok require_object_ok require_exact_keys_ok str_pair_case_ok dom_string_encoding_exact
  by (simp only: sum.inject prod.inject json.inject) auto

lemma local_entry_again: "local_entry_of v = Inr (us, k, x) \<Longrightarrow> local_entry_of (JObj [(''key'', JStr k), (''value'', JStr x)]) = Inr (us, k, x)"
  unfolding local_entry_exact by auto

lemma cookie_octets_ok: "cookie_octets v l = Inr s \<Longrightarrow> v = JStr s \<and> cookie_octets (JStr s) l = Inr s"
  by (auto simp: cookie_octets_def split: json.splits if_splits)

lemma str_case_ok [simp]: "(case v of JStr s \<Rightarrow> f s | _ \<Rightarrow> Inl e) = Inr x \<longleftrightarrow> (\<exists>s. v = JStr s \<and> f s = Inr x)"
  by (cases v) auto

lemma int_case_ok [simp]: "(case v of JInt i \<Rightarrow> f i | _ \<Rightarrow> Inl e) = Inr x \<longleftrightarrow> (\<exists>i. v = JInt i \<and> f i = Inr x)"
  by (cases v) auto

lemma guard_ok [simp]: "(if b then Inl e else r) = Inr x \<longleftrightarrow> \<not> b \<and> r = Inr x" "(if b then r else Inl e) = Inr x \<longleftrightarrow> b \<and> r = Inr x"
  by auto

definition sound_cookie :: "identity_verifier \<Rightarrow> browser_cookie \<Rightarrow> bool" where
  "sound_cookie v k \<longleftrightarrow> is_ok (cookie_octets (JStr (bk_name k)) []) \<and> is_ok (cookie_octets (JStr (bk_value k)) []) \<and>
     is_ok (cookie_octets (JStr (bk_path k)) []) \<and> bk_domain k \<noteq> [] \<and> iv_domain v (bk_domain k) = Inr () \<and>
     bk_same_site k \<in> set same_site_values \<and>
     (case bk_expiry k of None \<Rightarrow> True | Some (s, n) \<Rightarrow> canonical_unix_seconds s \<and> 0 \<le> n \<and> n \<le> 999999999)"

lemma cookie_octets_exact: "cookie_octets v l = Inr s \<longleftrightarrow> v = JStr s \<and> is_ok (cookie_octets (JStr s) [])"
  by (cases v) (auto simp: cookie_octets_def is_ok_def)

lemma cookie_expiry_ok: "cookie_expiry v = Inr (s, n) \<Longrightarrow> canonical_unix_seconds s \<and> 0 \<le> n \<and> n \<le> 999999999"
  unfolding cookie_expiry_def res_bind_ok str_case_ok int_case_ok guard_ok by (elim exE conjE) simp

lemma known_text: "in_strings v ns = Inr b \<Longrightarrow> \<not> \<not> b \<Longrightarrow> py_str v \<in> set ns"
  by (auto dest: in_strings_ok)

lemma expiry_choice:
  "(if p then res_bind (cookie_expiry w) (\<lambda>x. Inr (Some x)) else Inr None) = Inr x \<Longrightarrow>
    case x of None \<Rightarrow> True | Some (s, n) \<Rightarrow> canonical_unix_seconds s \<and> 0 \<le> n \<and> n \<le> 999999999"
  by (auto split: if_splits dest: cookie_expiry_ok)

lemma canonical_cookie_sound:
  assumes "canonical_cookie v c = Inr k"
  shows "sound_cookie v k"
  using assms unfolding canonical_cookie_def res_bind_ok raise_if_ok require_bool_ok require_text_ok cookie_octets_exact
  by - ((elim exE conjE)?, frule known_text, assumption, frule expiry_choice, drule sum.inject(2) [THEN iffD1], hypsubst,
      simp only: sound_cookie_def browser_cookie.simps, simp)

lemma cookie_members_keys: "fst ` set (cookie_members k) = set (cookie_keys (bk_expiry k \<noteq> None))"
  by (cases "bk_expiry k"; cases "the (bk_expiry k)") (simp_all add: cookie_members_def cookie_keys_def)

lemma canonical_cookie_again:
  assumes "sound_cookie v k"
  shows "canonical_cookie v (cookie_members k) = Inr k"
proof -
  define c where "c = cookie_members k"
  have keys: "fst ` set c = set (cookie_keys (bk_expiry k \<noteq> None))" by (simp only: c_def cookie_members_keys)
  have members: "member c ''name'' = JStr (bk_name k)" "member c ''value'' = JStr (bk_value k)" "member c ''domain'' = JStr (bk_domain k)"
    "member c ''hostOnly'' = JBool (bk_host_only k)" "member c ''path'' = JStr (bk_path k)" "member c ''persistent'' = JBool (bk_expiry k \<noteq> None)"
    "member c ''secure'' = JBool (bk_secure k)" "member c ''httpOnly'' = JBool (bk_http_only k)" "member c ''sameSite'' = JStr (bk_same_site k)"
    by (simp_all add: c_def cookie_members_def)
  have expiry: "(if bk_expiry k \<noteq> None then res_bind (cookie_expiry (member c ''expiry'')) (\<lambda>x. Inr (Some x)) else Inr None) = Inr (bk_expiry k)"
    using assms by (cases "bk_expiry k") (auto simp: c_def cookie_members_def sound_cookie_def cookie_expiry_def)
  have octets: "cookie_octets (JStr (bk_name k)) l = Inr (bk_name k)" "cookie_octets (JStr (bk_value k)) l = Inr (bk_value k)"
    "cookie_octets (JStr (bk_path k)) l = Inr (bk_path k)" for l
    using assms by (simp_all only: cookie_octets_exact sound_cookie_def)
  show ?thesis unfolding c_def [symmetric] canonical_cookie_def res_bind_ok raise_if_ok require_bool_ok require_text_ok members
      in_strings_text py_str_text
    using assms keys octets expiry by (auto simp: sound_cookie_def)
qed

section \<open>Lists whose order does not matter\<close>

lemma map_each_reread: "(\<And>x. x \<in> set xs \<Longrightarrow> f (g x) = Inr x) \<Longrightarrow> map_each f (map g xs) = Inr xs"
  by (induction xs) auto

lemma map_each_result: "map_each f xs = Inr ys \<Longrightarrow> y \<in> set ys \<Longrightarrow> \<exists>x \<in> set xs. f x = Inr y"
  by (induction xs arbitrary: ys) (auto split: sum.splits)

lemma map_each_mset:
  assumes "map_each f xs = Inr as" "mset xs = mset ys"
  obtains bs where "map_each f ys = Inr bs" "mset as = mset bs"
proof
  have "set ys = set xs" using assms(2) by (metis set_mset_mset)
  then show "map_each f ys = Inr (map (projr \<circ> f) ys)" using assms(1) by (simp add: map_each_exact)
  show "mset as = mset (map (projr \<circ> f) ys)" using assms by (simp add: map_each_exact)
qed

lemma map_each_like:
  "map_each f xs = Inr as \<Longrightarrow> list_all2 R xs ys \<Longrightarrow> (\<And>x y a. R x y \<Longrightarrow> f x = Inr a \<Longrightarrow> f y = Inr a) \<Longrightarrow> map_each f ys = Inr as"
proof (induction xs arbitrary: ys as)
  case (Cons x xs)
  then obtain y zs where ys: "ys = y # zs" "R x y" "list_all2 R xs zs" by (auto simp: list_all2_Cons1)
  from Cons.prems(1) obtain a bs where a: "as = a # bs" "f x = Inr a" "map_each f xs = Inr bs" unfolding map_each_Cons_ok by blast
  have "map_each f zs = Inr bs" using a(3) ys(3) Cons.prems(3) by (rule Cons.IH)
  with Cons.prems(3) [OF ys(2) a(2)] show ?case by (simp add: ys(1) a(1))
qed simp

lemma sort_key_again: "sort_key f (sort_key f xs) = sort_key f xs"
  by (rule sort_key_id_if_sorted) simp

lemma distinct_sorted_key: "distinct (map f (sort_key f xs)) = distinct (map f xs)"
  by (metis mset_eq_imp_distinct_iff mset_map mset_sort)

section \<open>Local storage and origins\<close>

definition entry_json :: "local_entry \<Rightarrow> json" where
  "entry_json e = (case e of (_, k, x) \<Rightarrow> JObj [(''key'', JStr k), (''value'', JStr x)])"

lemma canonical_local_storage_exact:
  "canonical_local_storage v = Inr es \<longleftrightarrow>
     (\<exists>xs as. v = JList xs \<and> map_each local_entry_of xs = Inr as \<and> distinct (map fst as) \<and> es = sort_key fst as)"
  by (auto simp: canonical_local_storage_def read_distinct_exact)

lemma local_storage_again: "canonical_local_storage v = Inr es \<Longrightarrow> canonical_local_storage (JList (map entry_json es)) = Inr es"
proof -
  assume "canonical_local_storage v = Inr es"
  then obtain xs as where as: "map_each local_entry_of xs = Inr as" "distinct (map fst as)" "es = sort_key fst as"
    unfolding canonical_local_storage_exact by blast
  have "map_each local_entry_of (map entry_json es) = Inr es"
  proof (rule map_each_reread)
    fix e assume "e \<in> set es"
    then obtain x where "local_entry_of x = Inr e" using map_each_result [OF as(1)] as(3) by fastforce
    then show "local_entry_of (entry_json e) = Inr e"
      by (cases e) (simp add: entry_json_def local_entry_again)
  qed
  then show ?thesis unfolding canonical_local_storage_exact using as(2)
    by (intro exI [of _ "map entry_json es"] exI [of _ es]) (simp add: as(3) sort_key_again distinct_sorted_key)
qed

lemma local_storage_order:
  assumes "canonical_local_storage (JList xs) = Inr es" "mset xs = mset ys"
  shows "canonical_local_storage (JList ys) = Inr es"
proof -
  from assms(1) obtain as where as: "map_each local_entry_of xs = Inr as" "distinct (map fst as)" "es = sort_key fst as"
    unfolding canonical_local_storage_exact by blast
  obtain bs where bs: "map_each local_entry_of ys = Inr bs" "mset as = mset bs" by (rule map_each_mset [OF as(1) assms(2)])
  have "distinct (map fst bs)" using as(2) bs(2) by (metis mset_eq_imp_distinct_iff mset_map)
  then show ?thesis unfolding canonical_local_storage_exact as(3) using bs(1) sort_key_unique [OF bs(2) as(2)] by blast
qed

definition read_origin :: "identity_verifier \<Rightarrow> string list \<Rightarrow> json \<Rightarrow> (exn, origin_state) result" where
  "read_origin v selected x = res_bind (origin_head v selected x) (\<lambda>(origin, raw).
     res_bind (canonical_local_storage raw) (\<lambda>entries. Inr \<lparr>og_origin = origin, og_entries = entries\<rparr>))"

lemma read_origins_exact:
  "read_origins v selected seen xs = Inr gs \<longleftrightarrow>
     map_each (read_origin v selected) xs = Inr gs \<and> distinct (map og_origin gs) \<and> (\<forall>g \<in> set gs. og_origin g \<notin> set seen)"
proof (induction xs arbitrary: seen gs)
  case (Cons x xs)
  have "read_origins v selected seen (x # xs) = Inr gs \<longleftrightarrow> (\<exists>g hs. gs = g # hs \<and> read_origin v selected x = Inr g \<and>
      og_origin g \<notin> set seen \<and> read_origins v selected (og_origin g # seen) xs = Inr hs)"
    by (fastforce simp: read_origin_def split: prod.splits)
  then show ?case unfolding Cons.IH map_each_Cons_ok by (auto simp: image_iff) metis+
qed auto

lemma read_origin_exact:
  "read_origin v selected x = Inr g \<longleftrightarrow>
     (\<exists>m. x = JObj m \<and> fst ` set m = {''origin'', ''localStorage''} \<and> member m ''origin'' = JStr (og_origin g) \<and> og_origin g \<noteq> [] \<and>
        iv_origin v (og_origin g) = Inr () \<and> og_origin g \<in> set selected \<and>
        canonical_local_storage (member m ''localStorage'') = Inr (og_entries g))"
  by (cases g) (auto simp: read_origin_def origin_head_def)

lemma read_origin_again:
  assumes "read_origin v selected x = Inr g"
  shows "read_origin v selected (JObj (origin_members g)) = Inr g"
proof -
  have entries: "(\<lambda>(_, k, x). JObj [(''key'', JStr k), (''value'', JStr x)]) = entry_json" by (rule ext) (simp add: entry_json_def)
  show ?thesis using assms local_storage_again unfolding read_origin_exact
    by (intro exI [of _ "origin_members g"]) (auto simp: origin_members_def entries)
qed

section \<open>Canonical images\<close>

lemma selected_cookie_exact:
  "selected_cookie v domains x = Inr k \<longleftrightarrow> (\<exists>c. x = JObj c \<and> canonical_cookie v c = Inr k \<and> bk_domain k \<in> set domains)"
  by (auto simp: selected_cookie_def)

text \<open>\<open>canonical_for jcs v i b cs gs\<close>: the image \<open>i\<close> for selection \<open>b\<close> made of the cookies and origins read in whatever order.\<close>

definition canonical_for :: "(json \<Rightarrow> bytes) \<Rightarrow> browser_selection \<Rightarrow> browser_image \<Rightarrow> browser_cookie list \<Rightarrow> origin_state list \<Rightarrow> bool" where
  "canonical_for jcs b i cs gs \<longleftrightarrow> distinct (map og_origin gs) \<and> set (map og_origin gs) = set (bw_origins b) \<and>
     distinct (map cookie_identity cs) \<and>
     i = \<lparr>bi_manifest_digest = sha256_id (jcs (JObj (manifest_members b))), bi_cookies = sort_key cookie_identity cs,
       bi_origins = sort_key (utf8 \<circ> og_origin) gs\<rparr>"

lemma check_image_exact:
  "check_image jcs v raw m = Inr i \<longleftrightarrow>
     (\<exists>b cs gs raw_cookies raw_origins. check_manifest v m = Inr b \<and> fst ` set raw = set image_keys \<and>
        member raw ''apiVersion'' = JStr browser_api_version \<and> member raw ''kind'' = JStr ''BrowserStateImage'' \<and>
        member raw ''manifestDigest'' = JStr (sha256_id (jcs (JObj (manifest_members b)))) \<and>
        member raw ''origins'' = JList raw_origins \<and> member raw ''cookies'' = JList raw_cookies \<and>
        map_each (read_origin v (bw_origins b)) raw_origins = Inr gs \<and>
        map_each (selected_cookie v (bw_domains b)) raw_cookies = Inr cs \<and> canonical_for jcs b i cs gs)"
  (is "?l \<longleftrightarrow> ?r")
proof
  assume ?l
  then show ?r unfolding check_image_def Let_def res_bind_ok raise_if_ok require_array_ok require_exact_keys_ok not_not
      read_origins_exact read_distinct_exact
    by (elim exE conjE) (intro exI conjI; (assumption | auto simp: canonical_for_def))
next
  assume ?r
  then obtain b cs gs raw_cookies raw_origins where r: "check_manifest v m = Inr b" "fst ` set raw = set image_keys"
    "member raw ''apiVersion'' = JStr browser_api_version" "member raw ''kind'' = JStr ''BrowserStateImage''"
    "member raw ''manifestDigest'' = JStr (sha256_id (jcs (JObj (manifest_members b))))"
    "member raw ''origins'' = JList raw_origins" "member raw ''cookies'' = JList raw_cookies"
    "map_each (read_origin v (bw_origins b)) raw_origins = Inr gs" "map_each (selected_cookie v (bw_domains b)) raw_cookies = Inr cs"
    "canonical_for jcs b i cs gs" by (elim exE conjE)
  have "read_origins v (bw_origins b) [] raw_origins = Inr gs"
    "read_distinct (selected_cookie v (bw_domains b)) cookie_identity l [] raw_cookies = Inr cs" for l
    using r(8-10) by (simp_all add: read_origins_exact read_distinct_exact canonical_for_def)
  with r show ?l by (simp add: check_image_def Let_def canonical_for_def)
qed

text \<open>The same image with its cookies, its origins or the entries of an origin listed in another order.\<close>

definition origin_reordered :: "json \<Rightarrow> json \<Rightarrow> bool" where
  "origin_reordered x y \<longleftrightarrow> x = y \<or> (\<exists>g h es es'. x = JObj g \<and> y = JObj h \<and> fst ` set g = fst ` set h \<and>
     member g ''origin'' = member h ''origin'' \<and> member g ''localStorage'' = JList es \<and> member h ''localStorage'' = JList es' \<and>
     mset es = mset es')"

definition image_reordered :: "members \<Rightarrow> members \<Rightarrow> bool" where
  "image_reordered a b \<longleftrightarrow> fst ` set a = fst ` set b \<and> member a ''apiVersion'' = member b ''apiVersion'' \<and>
     member a ''kind'' = member b ''kind'' \<and> member a ''manifestDigest'' = member b ''manifestDigest'' \<and>
     (\<exists>cs cs'. member a ''cookies'' = JList cs \<and> member b ''cookies'' = JList cs' \<and> mset cs = mset cs') \<and>
     (\<exists>gs gs' hs. member a ''origins'' = JList gs \<and> member b ''origins'' = JList gs' \<and>
        list_all2 origin_reordered gs hs \<and> mset hs = mset gs')"

lemma read_origin_order: "origin_reordered x y \<Longrightarrow> read_origin v selected x = Inr g \<Longrightarrow> read_origin v selected y = Inr g"
proof -
  assume like: "origin_reordered x y" and read: "read_origin v selected x = Inr g"
  show ?thesis
  proof (cases "x = y")
    case False
    with like obtain m h es es' where m: "x = JObj m" "y = JObj h" "fst ` set m = fst ` set h" "member m ''origin'' = member h ''origin''"
      "member m ''localStorage'' = JList es" "member h ''localStorage'' = JList es'" "mset es = mset es'"
      unfolding origin_reordered_def by blast
    from read m have "canonical_local_storage (JList es) = Inr (og_entries g)" unfolding read_origin_exact by simp
    then have "canonical_local_storage (JList es') = Inr (og_entries g)" using m(7) by (rule local_storage_order)
    with read m show ?thesis unfolding read_origin_exact by simp
  qed (use read in simp)
qed

lemma utf8_inject: "utf8 s = utf8 t \<longleftrightarrow> s = t"
  by (metis utf8_roundtrip)

lemma canonical_for_order:
  assumes "canonical_for jcs b i cs gs" "mset cs = mset cs'" "mset gs = mset gs'"
  shows "canonical_for jcs b i cs' gs'"
proof -
  have "distinct (map og_origin gs')" "distinct (map cookie_identity cs')"
    using assms by (metis canonical_for_def mset_eq_imp_distinct_iff mset_map)+
  moreover have "set gs' = set gs" using assms(3) by (metis set_mset_mset)
  moreover have "distinct (map (utf8 \<circ> og_origin) gs)"
    using assms(1) by (auto simp: canonical_for_def distinct_map inj_on_def utf8_inject)
  moreover from this have "sort_key (utf8 \<circ> og_origin) gs = sort_key (utf8 \<circ> og_origin) gs'" by (intro sort_key_unique [OF assms(3)])
  moreover have "sort_key cookie_identity cs = sort_key cookie_identity cs'"
    using assms(1) by (intro sort_key_unique [OF assms(2)]) (simp add: canonical_for_def)
  ultimately show ?thesis using assms(1) by (simp add: canonical_for_def)
qed

lemma check_image_order:
  assumes "check_image jcs v raw m = Inr i" "image_reordered raw raw'"
  shows "check_image jcs v raw' m = Inr i"
proof -
  from assms(1) obtain b cs gs raw_cookies raw_origins where r: "check_manifest v m = Inr b" "fst ` set raw = set image_keys"
    "member raw ''apiVersion'' = JStr browser_api_version" "member raw ''kind'' = JStr ''BrowserStateImage''"
    "member raw ''manifestDigest'' = JStr (sha256_id (jcs (JObj (manifest_members b))))"
    "member raw ''origins'' = JList raw_origins" "member raw ''cookies'' = JList raw_cookies"
    "map_each (read_origin v (bw_origins b)) raw_origins = Inr gs" "map_each (selected_cookie v (bw_domains b)) raw_cookies = Inr cs"
    "canonical_for jcs b i cs gs" unfolding check_image_exact by (elim exE conjE)
  from assms(2) r(6,7) obtain cs' os' hs where o': "member raw' ''cookies'' = JList cs'" "mset raw_cookies = mset cs'"
    "member raw' ''origins'' = JList os'" "list_all2 origin_reordered raw_origins hs" "mset hs = mset os'"
    unfolding image_reordered_def by auto
  obtain ks where ks: "map_each (selected_cookie v (bw_domains b)) cs' = Inr ks" "mset cs = mset ks" by (rule map_each_mset [OF r(9) o'(2)])
  have "map_each (read_origin v (bw_origins b)) hs = Inr gs" using r(8) o'(4) by (rule map_each_like) (rule read_origin_order)
  then obtain gs' where gs': "map_each (read_origin v (bw_origins b)) os' = Inr gs'" "mset gs = mset gs'" by (rule map_each_mset [OF _ o'(5)])
  note canonical = canonical_for_order [OF r(10) ks(2) gs'(2)]
  show ?thesis unfolding check_image_exact
    by (rule exI [of _ b], rule exI [of _ ks], rule exI [of _ gs'], rule exI [of _ cs'], rule exI [of _ os'])
      (use r(1-5) o'(1,3) ks(1) gs'(1) canonical assms(2) in \<open>simp add: image_reordered_def\<close>)
qed

lemma check_image_again:
  assumes "check_image jcs v raw m = Inr i"
  shows "check_image jcs v (image_members i) m = Inr i"
proof -
  from assms obtain b cs gs raw_cookies raw_origins where b: "check_manifest v m = Inr b"
    and read: "map_each (read_origin v (bw_origins b)) raw_origins = Inr gs" "map_each (selected_cookie v (bw_domains b)) raw_cookies = Inr cs"
    and i: "canonical_for jcs b i cs gs" unfolding check_image_exact by (elim exE conjE)
  let ?cs = "bi_cookies i" and ?gs = "bi_origins i"
  have "map_each (read_origin v (bw_origins b)) (map (JObj \<circ> origin_members) ?gs) = Inr ?gs"
  proof (rule map_each_reread)
    fix g assume "g \<in> set ?gs"
    then have "g \<in> set gs" using i by (simp add: canonical_for_def)
    then show "read_origin v (bw_origins b) ((JObj \<circ> origin_members) g) = Inr g"
      using map_each_result [OF read(1)] by (auto intro: read_origin_again)
  qed
  moreover have "map_each (selected_cookie v (bw_domains b)) (map (JObj \<circ> cookie_members) ?cs) = Inr ?cs"
  proof (rule map_each_reread)
    fix k assume "k \<in> set ?cs"
    then have "k \<in> set cs" using i by (simp add: canonical_for_def)
    then obtain c where c: "canonical_cookie v c = Inr k" "bk_domain k \<in> set (bw_domains b)"
      using map_each_result [OF read(2)] unfolding selected_cookie_exact by blast
    from canonical_cookie_again [OF canonical_cookie_sound [OF c(1)]] c(2)
    show "selected_cookie v (bw_domains b) ((JObj \<circ> cookie_members) k) = Inr k" by (simp add: selected_cookie_exact)
  qed
  moreover have "canonical_for jcs b i ?cs ?gs"
    by (rule canonical_for_order [OF i]) (use i in \<open>simp_all add: canonical_for_def\<close>)
  moreover have "bi_manifest_digest i = sha256_id (jcs (JObj (manifest_members b)))" using i by (simp add: canonical_for_def)
  ultimately show ?thesis unfolding check_image_exact using b
    by (intro exI [of _ b] exI [of _ ?cs] exI [of _ ?gs] exI [of _ "map (JObj \<circ> cookie_members) ?cs"]
        exI [of _ "map (JObj \<circ> origin_members) ?gs"]) (simp add: image_members_def image_keys_def)
qed

lemma canonical_image_normal:
  assumes "canonicalize_state_image jcs v raw m = Inr c" "image_reordered raw raw'"
  shows "canonicalize_state_image jcs v raw' m = Inr c \<and> canonicalize_state_image jcs v c m = Inr c \<and>
    (\<exists>b i. check_manifest v m = Inr b \<and> c = image_members i \<and> sorted (map (utf8 \<circ> og_origin) (bi_origins i)) \<and>
       distinct (map og_origin (bi_origins i)) \<and> set (map og_origin (bi_origins i)) = set (bw_origins b) \<and>
       sorted (map cookie_identity (bi_cookies i)) \<and> distinct (map cookie_identity (bi_cookies i)) \<and>
       set (map bk_domain (bi_cookies i)) \<subseteq> set (bw_domains b))"
proof -
  from assms(1) obtain i where i: "check_image jcs v raw m = Inr i" "c = image_members i" by (auto simp: canonicalize_state_image_def)
  from i(1) obtain b cs gs raw_cookies raw_origins where b: "check_manifest v m = Inr b"
    and read: "map_each (selected_cookie v (bw_domains b)) raw_cookies = Inr cs" and made: "canonical_for jcs b i cs gs"
    unfolding check_image_exact by (elim exE conjE)
  have "bk_domain k \<in> set (bw_domains b)" if "k \<in> set cs" for k
    using map_each_result [OF read that] unfolding selected_cookie_exact by blast
  then have "set (map bk_domain (bi_cookies i)) \<subseteq> set (bw_domains b)" using made by (auto simp: canonical_for_def)
  moreover have "sorted (map (utf8 \<circ> og_origin) (bi_origins i))" "distinct (map og_origin (bi_origins i))"
    "set (map og_origin (bi_origins i)) = set (bw_origins b)" "sorted (map cookie_identity (bi_cookies i))"
    "distinct (map cookie_identity (bi_cookies i))"
    using made canonical_for_order [OF made, of "bi_cookies i" "bi_origins i"] by (simp_all add: canonical_for_def del: map_map)
  ultimately show ?thesis using b i check_image_order [OF i(1) assms(2)] check_image_again [OF i(1)]
    by (simp add: canonicalize_state_image_def) blast
qed

text \<open>C35: A canonical state image is a normal form: listing cookies, origins or storage entries in another order gives the same
  document, hence the same digest; canonicalizing it again changes nothing; and it covers every selected origin exactly
  once, in the order of the UTF-8 bytes, with pairwise different cookies of selected domains.\<close>

theorem canonical_image_is_normal_form:
  assumes "canonicalize_state_image jcs v raw m = Inr c" "image_reordered raw raw'"
  shows "canonicalize_state_image jcs v raw' m = Inr c \<and> canonicalize_state_image jcs v c m = Inr c \<and>
    (\<exists>b i. check_manifest v m = Inr b \<and> c = image_members i \<and> sorted (map (utf8 \<circ> og_origin) (bi_origins i)) \<and>
       distinct (map og_origin (bi_origins i)) \<and> set (map og_origin (bi_origins i)) = set (bw_origins b) \<and>
       sorted (map cookie_identity (bi_cookies i)) \<and> distinct (map cookie_identity (bi_cookies i)) \<and>
       set (map bk_domain (bi_cookies i)) \<subseteq> set (bw_domains b))"
  by (rule canonical_image_normal [OF assms])

definition any_identity :: identity_verifier where
  "any_identity = \<lparr>iv_origin = \<lambda>_. Inr (), iv_domain = \<lambda>_. Inr ()\<rparr>"

definition demo_selection :: browser_selection where
  "demo_selection = \<lparr>bw_origins = [''http://a'', ''http://b''], bw_domains = [''a''], bw_bindings = []\<rparr>"

definition demo_origins :: "origin_state list" where
  "demo_origins = [\<lparr>og_origin = ''http://b'', og_entries = []\<rparr>, \<lparr>og_origin = ''http://a'', og_entries = []\<rparr>]"

definition demo_image :: browser_image where
  "demo_image = \<lparr>bi_manifest_digest = sha256_id [], bi_cookies = [], bi_origins = demo_origins\<rparr>"

lemma selected_text [simp]: "s \<noteq> [] \<Longrightarrow> f s = Inr u \<Longrightarrow> selected_identity f m (JStr s) = Inr s"
  by (simp add: selected_identity_def)

lemma demo_manifest: "check_manifest any_identity (manifest_members demo_selection) = Inr demo_selection"
  by (simp add: check_manifest_def manifest_members_def demo_selection_def any_identity_def manifest_keys_def manifest_constants_def
      check_constants_def jstrs_def utf8_def utf8_char_def raise_if_def)

lemma demo_image_canonical:
  "is_ok (canonicalize_state_image (\<lambda>_. []) any_identity (image_members demo_image) (manifest_members demo_selection))"
proof -
  let ?g = "\<lambda>o'. \<lparr>og_origin = o', og_entries = []\<rparr>"
  let ?i = "demo_image\<lparr>bi_origins := sort_key (utf8 \<circ> og_origin) demo_origins\<rparr>"
  have "canonical_for (\<lambda>_. []) demo_selection ?i [] demo_origins"
    by (auto simp: canonical_for_def demo_selection_def demo_image_def demo_origins_def)
  moreover have "map_each (read_origin any_identity (bw_origins demo_selection)) (map (JObj \<circ> origin_members) demo_origins) = Inr demo_origins"
    by (rule map_each_reread) (auto simp: demo_origins_def demo_selection_def any_identity_def read_origin_exact origin_members_def
        canonical_local_storage_exact)
  ultimately have "check_image (\<lambda>_. []) any_identity (image_members demo_image) (manifest_members demo_selection) = Inr ?i"
    unfolding check_image_exact using demo_manifest
    by (intro exI [of _ demo_selection] exI [of _ "[]"] exI [of _ demo_origins] exI [of _ "map (JObj \<circ> origin_members) demo_origins"])
      (simp add: image_members_def image_keys_def demo_image_def)
  then show ?thesis by (simp add: canonicalize_state_image_def res_bind_def is_ok_def)
qed

theorem canonical_image_is_normal_form_witness:
  "\<exists>c. canonicalize_state_image (\<lambda>_. []) any_identity (image_members (demo_image\<lparr>bi_origins := rev demo_origins\<rparr>))
      (manifest_members demo_selection) = Inr c \<and>
    canonicalize_state_image (\<lambda>_. []) any_identity c (manifest_members demo_selection) = Inr c"
proof -
  obtain c where c: "canonicalize_state_image (\<lambda>_. []) any_identity (image_members demo_image) (manifest_members demo_selection) = Inr c"
    using demo_image_canonical by (rule is_okE)
  have "image_reordered (image_members demo_image) (image_members (demo_image\<lparr>bi_origins := rev demo_origins\<rparr>))"
    by (simp add: image_reordered_def image_members_def demo_image_def)
      (rule exI [of _ "map (JObj \<circ> origin_members) demo_origins"], simp add: list_all2_same origin_reordered_def rev_map)
  from canonical_image_is_normal_form [OF c this] show ?thesis by blast
qed

section \<open>Settlement\<close>

text \<open>What can happen to a ledger.\<close>

inductive ledger_step :: "settlement_ledger \<Rightarrow> settlement_ledger \<Rightarrow> bool" where
  accept: "accept_relevant_mutation label l = (Inr (), l') \<Longrightarrow> ledger_step l l'"
| close: "close_subject_admission l = (Inr (), l') \<Longrightarrow> ledger_step l l'"
| terminal: "mark_terminal label l = (Inr (), l') \<Longrightarrow> ledger_step l l'"

inductive_cases ledger_stepE: "ledger_step l l'"

definition ledger_ok :: "settlement_ledger \<Rightarrow> bool" where
  "ledger_ok l \<longleftrightarrow> distinct (map fst (sl_mutations l)) \<and> [] \<notin> set (map fst (sl_mutations l))"

lemma terminal_labels [simp]: "map (fst \<circ> (\<lambda>(k, t). (k, t \<or> k = x))) ms = map fst ms"
  by (induction ms) auto

lemma accept_ok:
  "accept_relevant_mutation label l = (Inr u, l') \<longleftrightarrow> sl_admission_open l \<and> label \<noteq> [] \<and> label \<notin> set (map fst (sl_mutations l)) \<and>
     l' = l\<lparr>sl_mutations := sl_mutations l @ [(label, False)]\<rparr>"
  by (auto simp: accept_relevant_mutation_def action_simps raise_if_def)

lemma mark_ok:
  "mark_terminal label l = (Inr u, l') \<longleftrightarrow> map_of (sl_mutations l) label = Some False \<and>
     l' = l\<lparr>sl_mutations := map (\<lambda>(k, t). (k, t \<or> k = label)) (sl_mutations l)\<rparr>"
  by (auto simp: mark_terminal_def action_simps raise_if_def)

lemma ledger_ok_step: "ledger_step l l' \<Longrightarrow> ledger_ok l \<Longrightarrow> ledger_ok l'"
  by (erule ledger_stepE) (force simp: ledger_ok_def accept_ok mark_ok close_subject_admission_def action_simps)+

lemma ledger_ok_steps: "ledger_step\<^sup>*\<^sup>* l l' \<Longrightarrow> ledger_ok l \<Longrightarrow> ledger_ok l'"
  by (induction rule: rtranclp_induct) (auto dest: ledger_ok_step)

lemma map_of_keyed: "map_of (map (\<lambda>(k, t). (k, f k t)) ms) x = map_option (f x) (map_of ms x)"
  by (induction ms) auto

lemma mark_each:
  assumes "distinct labels" "\<forall>x \<in> set labels. map_of (sl_mutations l) x = Some False"
  shows "act_each mark_terminal labels l = (Inr (), l\<lparr>sl_mutations := map (\<lambda>(k, t). (k, t \<or> k \<in> set labels)) (sl_mutations l)\<rparr>)"
  using assms
proof (induction labels arbitrary: l)
  case Nil
  then show ?case by (simp add: act_return_def case_prod_beta)
next
  case (Cons x labels)
  let ?l = "l\<lparr>sl_mutations := map (\<lambda>(k, t). (k, t \<or> k = x)) (sl_mutations l)\<rparr>"
  have "mark_terminal x l = (Inr (), ?l)" using Cons.prems by (simp add: mark_ok)
  moreover have "\<forall>y \<in> set labels. map_of (sl_mutations ?l) y = Some False"
    using Cons.prems by (auto simp: map_of_keyed [of "\<lambda>k t. t \<or> k = x"])
  ultimately show ?case using Cons.IH [of ?l] Cons.prems(1)
    by (simp add: act_bind_def comp_def case_prod_beta disj_ac)
qed

definition settle :: "string list \<Rightarrow> (settlement_ledger, exn, unit) action" where
  "settle labels = act_bind close_subject_admission (\<lambda>_. act_each mark_terminal labels)"

lemma sort_empty [simp]: "sort xs = [] \<longleftrightarrow> xs = []"
  by (metis length_0_conv length_sort)

lemma witness_ok: "require_positive_witness l = Inr u \<longleftrightarrow> \<not> sl_admission_open l \<and> (\<forall>(k, t) \<in> set (sl_mutations l). t)"
  by (auto simp: require_positive_witness_def unresolved_mutations_def filter_empty_conv)

lemma witness_stays: "ledger_step l l' \<Longrightarrow> require_positive_witness l = Inr () \<Longrightarrow> require_positive_witness l' = Inr ()"
  by (erule ledger_stepE) (auto simp: witness_ok accept_ok mark_ok close_subject_admission_def action_simps)

lemma settled:
  assumes "ledger_ok l"
  obtains l' where "settle (unresolved_mutations l) l = (Inr (), l')" "require_positive_witness l' = Inr ()"
    "map fst (sl_mutations l') = map fst (sl_mutations l)"
proof -
  let ?c = "l\<lparr>sl_admission_open := False\<rparr>" and ?u = "unresolved_mutations l"
  let ?l = "?c\<lparr>sl_mutations := map (\<lambda>(k, t). (k, t \<or> k \<in> set ?u)) (sl_mutations l)\<rparr>"
  have d: "distinct (map fst (sl_mutations l))" using assms by (simp add: ledger_ok_def)
  then have "distinct ?u" by (simp add: unresolved_mutations_def distinct_map_filter)
  moreover have "\<forall>x \<in> set ?u. map_of (sl_mutations ?c) x = Some False" using d by (auto simp: unresolved_mutations_def)
  ultimately have "settle ?u l = (Inr (), ?l)"
    by (simp add: settle_def close_subject_admission_def act_bind_def act_modify_def mark_each)
  moreover have "require_positive_witness ?l = Inr ()" by (force simp: witness_ok unresolved_mutations_def)
  moreover have "map fst (sl_mutations ?l) = map fst (sl_mutations l)" by (induction "sl_mutations l") auto
  ultimately show thesis by (rule that)
qed

text \<open>C37: Settlement can always be reached and is then final: whatever has happened to a ledger, closing admission and marking
  the unresolved mutations terminal succeeds, accounts for exactly the accepted mutations and gives a positive witness,
  which nothing that happens later takes back.\<close>

theorem settlement_is_reachable_and_final:
  assumes "ledger_step\<^sup>*\<^sup>* new_ledger l"
  shows "\<exists>l'. settle (unresolved_mutations l) l = (Inr (), l') \<and> require_positive_witness l' = Inr () \<and>
    map fst (sl_mutations l') = map fst (sl_mutations l) \<and> (\<forall>l''. ledger_step\<^sup>*\<^sup>* l' l'' \<longrightarrow> require_positive_witness l'' = Inr ())"
proof -
  have "ledger_ok l" using assms by (rule ledger_ok_steps) (simp add: ledger_ok_def new_ledger_def)
  then obtain l' where l': "settle (unresolved_mutations l) l = (Inr (), l')" "require_positive_witness l' = Inr ()"
    "map fst (sl_mutations l') = map fst (sl_mutations l)" by (rule settled)
  have "require_positive_witness l'' = Inr ()" if "ledger_step\<^sup>*\<^sup>* l' l''" for l''
    using that l'(2) by (induction rule: rtranclp_induct) (auto dest: witness_stays)
  with l' show ?thesis by blast
qed

theorem settlement_is_reachable_and_final_witness:
  "\<exists>l'. settle (unresolved_mutations \<lparr>sl_admission_open = True, sl_mutations = [(''m'', False)]\<rparr>)
      \<lparr>sl_admission_open = True, sl_mutations = [(''m'', False)]\<rparr> = (Inr (), l') \<and> require_positive_witness l' = Inr ()"
proof -
  have "accept_relevant_mutation ''m'' new_ledger = (Inr (), \<lparr>sl_admission_open = True, sl_mutations = [(''m'', False)]\<rparr>)"
    by (simp add: accept_ok new_ledger_def)
  then have "ledger_step\<^sup>*\<^sup>* new_ledger \<lparr>sl_admission_open = True, sl_mutations = [(''m'', False)]\<rparr>"
    by (intro r_into_rtranclp) (rule ledger_step.accept)
  from settlement_is_reachable_and_final [OF this] show ?thesis by blast
qed

end
