(* ===== verification/AVP_BrowserProps.thy ===== *)
theory AVP_BrowserProps
  imports AVP_BrowserFacts
begin

text \<open>
  What the browser harness guarantees about any backend, honest or not: a lifecycle claim it passes on was confirmed by its own
  observation of a settled resource. Materialized fixtures are consistent.
\<close>

section \<open>Observations\<close>

definition state_id :: "('w, 'u) browser_harness \<Rightarrow> members \<Rightarrow> string" where
  "state_id h c = sha256_id (bh_jcs h (JObj c))"

text \<open>\<open>observed h u c w w'\<close>: the observer projected the state of \<open>u\<close> in the world \<open>w\<close>, leaving \<open>w'\<close>, and \<open>c\<close> is its canonical image.\<close>

definition observed :: "('w, 'u) browser_harness \<Rightarrow> 'u \<Rightarrow> members \<Rightarrow> 'w \<Rightarrow> 'w \<Rightarrow> bool" where
  "observed h u c w w' \<longleftrightarrow> (\<exists>raw. bb_project_state (bh_backend h) u (bh_fixture h) w = (Inr raw, w') \<and>
     canonicalize_state_image (bh_jcs h) (bh_verifier h) raw (bf_manifest (bh_fixture h)) = Inr c)"

lemma in_world_run: "in_world m s = (r, s') \<longleftrightarrow> (\<exists>w. m (hs_world s) = (r, w) \<and> s' = s\<lparr>hs_world := w\<rparr>)"
  by (auto simp: in_world_def act_zoom_def split: prod.splits)

lemma act_bind_ok_iff: "act_bind m f s = (Inr b, s') \<longleftrightarrow> (\<exists>a t. m s = (Inr a, t) \<and> f a t = (Inr b, s'))"
  by (auto simp: act_bind_def split: prod.splits sum.splits)

lemmas run_ok = act_bind_ok_iff act_of_ok act_read_ok act_return_ok act_modify_ok raise_if_ok not_not

lemma projection_ok:
  assumes "authoritative_projection h u f s = (Inr p, s')"
  obtains c w where "require_positive_witness (f (hs_world s)) = Inr ()" "observed h u c w (hs_world s')"
    "p = \<lparr>sj_projection_id = ''browser.authoritative'', sj_data = JObj c, sj_digest = state_id h c\<rparr>" "hs_targets s' = hs_targets s"
proof -
  from assms obtain x0 x t1 raw c where w: "require_positive_witness (f (hs_world s)) = Inr x0"
    and t1: "in_world (bb_verify_conditions (bh_backend h) u (bh_fixture h)) s = (Inr x, t1)"
    and raw: "in_world (bb_project_state (bh_backend h) u (bh_fixture h)) t1 = (Inr raw, s')"
    and c: "canonicalize_state_image (bh_jcs h) (bh_verifier h) raw (bf_manifest (bh_fixture h)) = Inr c"
    and p: "p = \<lparr>sj_projection_id = ''browser.authoritative'', sj_data = JObj c, sj_digest = sha256_id (bh_jcs h (JObj c))\<rparr>"
    unfolding authoritative_projection_def run_ok by (elim exE conjE) (hypsubst, rule that, (assumption | rule refl)+)
  from raw have "bb_project_state (bh_backend h) u (bh_fixture h) (hs_world t1) = (Inr raw, hs_world s')" by (auto simp: in_world_run)
  with c have "observed h u c (hs_world t1) (hs_world s')" by (auto simp: observed_def)
  moreover have "hs_targets s' = hs_targets s" using t1 raw by (auto simp: in_world_run)
  ultimately show thesis using w p by (intro that) (simp_all add: state_id_def)
qed

text \<open>Everything but a snapshot that returns leaves the recorded targets alone.\<close>

definition same_targets :: "'w harness_state \<Rightarrow> 'w harness_state \<Rightarrow> bool" where
  "same_targets s t \<longleftrightarrow> hs_targets t = hs_targets s"

interpretation same_targets: evolution same_targets
  by unfold_locales (simp_all add: same_targets_def)

lemma in_world_targets: "evolves same_targets (in_world m)"
  by (rule evolvesI) (auto simp: in_world_run same_targets_def)

lemma projection_evolves: "evolves same_targets (authoritative_projection h u f)"
  unfolding authoritative_projection_def by (intro same_targets.rules in_world_targets)

lemma projection_targets: "authoritative_projection h u f s = (r, s') \<Longrightarrow> hs_targets s' = hs_targets s"
  using evolvesD [OF projection_evolves] by (auto simp: same_targets_def)

lemma verified_snapshot_ok:
  assumes "verified_snapshot h u f s = (Inr snap, s')"
  obtains p s1 where "authoritative_projection h u f s = (Inr p, s1)" "sn_handle_id snap = bb_handle_id (bh_backend h) u"
    "sn_state_digest snap = sj_digest p" "hs_targets s (sn_snapshot_id snap) \<in> {None, Some (sn_handle_id snap, sj_digest p)}"
    "hs_targets s' = (hs_targets s)(sn_snapshot_id snap \<mapsto> (sn_handle_id snap, sj_digest p))"
proof -
  from assms obtain p s1 s2 where p: "authoritative_projection h u f s = (Inr p, s1)"
    and s2: "in_world (bb_snapshot (bh_backend h) u) s1 = (Inr snap, s2)"
    and rest: "sn_handle_id snap = bb_handle_id (bh_backend h) u" "sn_state_digest snap = sj_digest p"
      "hs_targets s2 (sn_snapshot_id snap) \<in> {None, Some (sn_handle_id snap, sj_digest p)}"
      "s' = s2\<lparr>hs_targets := (hs_targets s2)(sn_snapshot_id snap \<mapsto> (sn_handle_id snap, sj_digest p))\<rparr>"
    unfolding verified_snapshot_def Let_def by (elim act_bind_okE) (simp only: act_of_ok act_read_ok act_modify_ok act_return_ok raise_if_ok not_not)
  have "hs_targets s2 = hs_targets s" using s2 projection_targets [OF p] by (auto simp: in_world_run)
  with p rest show thesis by (intro that) simp_all
qed

lemma act_bind_errE:
  assumes "act_bind m f s = (Inl e, s')"
  obtains "m s = (Inl e, s')" | a t where "m s = (Inr a, t)" "f a t = (Inl e, s')"
  using assms by (auto simp: act_bind_def split: prod.splits sum.splits)

lemma snapshot_failed_targets:
  assumes "verified_snapshot h u f s = (Inl e, s')"
  shows "hs_targets s' = hs_targets s"
  using assms unfolding verified_snapshot_def Let_def
  by (elim act_bind_errE; auto simp: in_world_run act_of_def act_read_def act_return_def act_modify_def dest!: projection_targets)

lemma browser_reset_evolves: "evolves same_targets (verified_reset h u f g)"
  unfolding verified_reset_def by (intro same_targets.rules in_world_targets projection_evolves)

lemma browser_restore_evolves: "evolves same_targets (verified_restore h u snap f g)"
  unfolding verified_restore_def by (intro same_targets.rules in_world_targets projection_evolves)

section \<open>Histories\<close>

text \<open>What happened to a harness so far: its operations in any order, whatever the browser and the ledgers do in between, with the
  snapshots it verified and the canonical image it observed for each.\<close>

inductive harness_history :: "('w, 'u) browser_harness \<Rightarrow> (snapshot_ref \<times> members) list \<Rightarrow> 'w harness_state \<Rightarrow> bool" for h where
  start: "harness_history h [] \<lparr>hs_targets = Map.empty, hs_world = w\<rparr>"
| outside: "harness_history h log s \<Longrightarrow> harness_history h log (s\<lparr>hs_world := w\<rparr>)"
| taken: "harness_history h log s \<Longrightarrow> authoritative_projection h u f s = (Inr p, s1) \<Longrightarrow> sj_data p = JObj c \<Longrightarrow>
    verified_snapshot h u f s = (Inr snap, s') \<Longrightarrow> harness_history h (log @ [(snap, c)]) s'"
| refused: "harness_history h log s \<Longrightarrow> verified_snapshot h u f s = (Inl e, s') \<Longrightarrow> harness_history h log s'"
| reset: "harness_history h log s \<Longrightarrow> verified_reset h u f g s = (r, s') \<Longrightarrow> harness_history h log s'"
| restored: "harness_history h log s \<Longrightarrow> verified_restore h u snap f g s = (x, s') \<Longrightarrow> harness_history h log s'"
| projected: "harness_history h log s \<Longrightarrow> authoritative_projection h u f s = (y, s') \<Longrightarrow> harness_history h log s'"

text \<open>Every recorded target stems from a verified snapshot in the log.\<close>

definition targets_logged :: "('w, 'u) browser_harness \<Rightarrow> (snapshot_ref \<times> members) list \<Rightarrow> 'w harness_state \<Rightarrow> bool" where
  "targets_logged h log s \<longleftrightarrow> (\<forall>i owner d. hs_targets s i = Some (owner, d) \<longrightarrow>
     (\<exists>(taken, c) \<in> set log. sn_snapshot_id taken = i \<and> sn_handle_id taken = owner \<and> sn_state_digest taken = d \<and> state_id h c = d))"

lemma targets_logged_same: "targets_logged h log s \<Longrightarrow> hs_targets s' = hs_targets s \<Longrightarrow> targets_logged h log s'"
  by (simp add: targets_logged_def)

lemma logged_snapshot:
  assumes "targets_logged h log s" "hs_targets s' = (hs_targets s)(sn_snapshot_id snap \<mapsto> (sn_handle_id snap, d))"
    "sn_state_digest snap = d" "state_id h c = d"
  shows "targets_logged h (log @ [(snap, c)]) s'"
  unfolding targets_logged_def
proof (intro allI impI)
  fix i owner e assume target: "hs_targets s' i = Some (owner, e)"
  show "\<exists>(taken, c) \<in> set (log @ [(snap, c)]). sn_snapshot_id taken = i \<and> sn_handle_id taken = owner \<and> sn_state_digest taken = e \<and> state_id h c = e"
  proof (cases "i = sn_snapshot_id snap")
    case True
    with target assms(2-4) show ?thesis by simp
  next
    case False
    with target assms(1,2) show ?thesis unfolding targets_logged_def by fastforce
  qed
qed

lemma history_logged: "harness_history h log s \<Longrightarrow> targets_logged h log s"
proof (induction rule: harness_history.induct)
  case (taken log s u f p s1 c snap s')
  obtain q s2 where q: "authoritative_projection h u f s = (Inr q, s2)" "sn_handle_id snap = bb_handle_id (bh_backend h) u"
    "sn_state_digest snap = sj_digest q" "hs_targets s' = (hs_targets s)(sn_snapshot_id snap \<mapsto> (sn_handle_id snap, sj_digest q))"
    using taken(4) by (rule verified_snapshot_ok)
  have "p = q" using q(1) taken(2) by simp
  moreover have "sj_digest p = state_id h c" using taken(2,3) by (elim projection_ok) simp
  ultimately show ?case using logged_snapshot [OF taken(5) q(4) q(3)] by simp
next
  case (reset log s u f g r s')
  have "hs_targets s' = hs_targets s" using evolvesD [OF browser_reset_evolves reset(2)] by (simp add: same_targets_def)
  with reset(3) show ?case by (rule targets_logged_same)
next
  case (restored log s u snap f g x s')
  have "hs_targets s' = hs_targets s" using evolvesD [OF browser_restore_evolves restored(2)] by (simp add: same_targets_def)
  with restored(3) show ?case by (rule targets_logged_same)
next
  case (refused log s u f e s')
  show ?case using refused(3) snapshot_failed_targets [OF refused(2)] by (rule targets_logged_same)
next
  case (projected log s u f y s')
  show ?case using projected(3) projection_targets [OF projected(2)] by (rule targets_logged_same)
qed (simp_all add: targets_logged_def)

lemma restore_steps:
  assumes "verified_restore h u snap f g s = (Inr r, s')"
  obtains d p s1 s2 x s3 q where "known_target h u snap s = Inr d" "in_world (bb_restore (bh_backend h) u snap) s2 = (Inr x, s3)"
    "authoritative_projection h u g s3 = (Inr q, s')" "sj_digest q = d" "rr_after_digest r = d" "rr_snapshot_id r = sn_snapshot_id snap"
  using assms unfolding verified_restore_def run_ok
  by - ((elim exE conjE)?, hypsubst, rule that, (assumption | rule refl | simp)+)

text \<open>C34: A restore the harness passes on was confirmed by observation: in any history and against any backend, the snapshot was
  verified earlier for the same resource, and after the restore command the settled resource was observed in a state
  whose canonical image has the identity of the image observed when that snapshot was taken.\<close>

theorem verified_restore_was_observed:
  assumes "harness_history h log s" "verified_restore h u snap before after s = (Inr r, s')"
  shows "\<exists>(taken, c0) \<in> set log. sn_snapshot_id taken = sn_snapshot_id snap \<and> sn_handle_id taken = bb_handle_id (bh_backend h) u \<and>
    state_id h c0 = sn_state_digest snap \<and>
    (\<exists>w0 w1 w2 c. bb_restore (bh_backend h) u snap w0 = (Inr (), w1) \<and> require_positive_witness (after w1) = Inr () \<and>
       observed h u c w2 (hs_world s') \<and> state_id h c = state_id h c0 \<and> rr_after_digest r = state_id h c)"
proof -
  from assms(2) obtain d s2 x s3 q where d: "known_target h u snap s = Inr d"
    and cmd: "in_world (bb_restore (bh_backend h) u snap) s2 = (Inr x, s3)"
    and q: "authoritative_projection h u after s3 = (Inr q, s')" "sj_digest q = d" "rr_after_digest r = d" by (rule restore_steps)
  from d have target: "hs_targets s (sn_snapshot_id snap) = Some (bb_handle_id (bh_backend h) u, d)" "d = sn_state_digest snap"
    by (auto simp: known_target_def split: option.splits if_splits)
  from history_logged [OF assms(1)] target(1) obtain taken c0 where log: "(taken, c0) \<in> set log"
    "sn_snapshot_id taken = sn_snapshot_id snap" "sn_handle_id taken = bb_handle_id (bh_backend h) u" "state_id h c0 = d"
    unfolding targets_logged_def by blast
  from q(1) obtain c w2 where c: "require_positive_witness (after (hs_world s3)) = Inr ()" "observed h u c w2 (hs_world s')" "sj_digest q = state_id h c"
    by (elim projection_ok) simp
  from cmd have "bb_restore (bh_backend h) u snap (hs_world s2) = (Inr (), hs_world s3)" by (auto simp: in_world_run)
  with c q(2,3) log target(2) show ?thesis by (intro bexI [OF _ log(1)]) auto
qed

text \<open>A browser that keeps its state in the world and does what it is asked to.\<close>

definition demo_backend :: "(members, unit) browser_backend" where
  "demo_backend = \<lparr>bb_handle_id = \<lambda>_. ''b'', bb_provision = \<lambda>_. act_return (),
     bb_snapshot = \<lambda>_. act_return \<lparr>sn_snapshot_id = ''s'', sn_handle_id = ''b'', sn_state_digest = sha256_id [], sn_logical_time = 0,
       sn_consistency = [], sn_adapter_name = []\<rparr>,
     bb_reset = \<lambda>_. act_return (), bb_restore = \<lambda>_ _. act_return (), bb_verify_conditions = \<lambda>_ _. act_return (),
     bb_verify_eligibility = \<lambda>_ _ _. act_return (), bb_project_state = \<lambda>_ _. act_get id\<rparr>"

definition demo_harness :: "(members, unit) browser_harness" where
  "demo_harness = \<lparr>bh_backend = demo_backend, bh_fixture = \<lparr>bf_revision = ''1'', bf_manifest = manifest_members demo_selection,
      bf_baseline = [], bf_manifest_bytes = [], bf_baseline_bytes = [], bf_manifest_digest = [], bf_baseline_digest = []\<rparr>,
     bh_verifier = any_identity, bh_jcs = \<lambda>_. []\<rparr>"

definition settled_ledger :: settlement_ledger where
  "settled_ledger = \<lparr>sl_admission_open = False, sl_mutations = []\<rparr>"

theorem verified_restore_was_observed_witness:
  "\<exists>r s s' c. verified_restore demo_harness () \<lparr>sn_snapshot_id = ''s'', sn_handle_id = ''b'', sn_state_digest = sha256_id [], sn_logical_time = 0,
       sn_consistency = [], sn_adapter_name = []\<rparr> (\<lambda>_. settled_ledger) (\<lambda>_. settled_ledger) s = (Inr r, s') \<and>
     rr_after_digest r = state_id demo_harness c"
proof -
  let ?snap = "\<lparr>sn_snapshot_id = ''s'', sn_handle_id = ''b'', sn_state_digest = sha256_id [], sn_logical_time = 0,
       sn_consistency = [], sn_adapter_name = []\<rparr>"
  obtain c where c: "canonicalize_state_image (\<lambda>_. []) any_identity (image_members demo_image) (manifest_members demo_selection) = Inr c"
    using demo_image_canonical by (rule is_okE)
  let ?s = "\<lparr>hs_targets = Map.empty, hs_world = image_members demo_image\<rparr>"
  let ?t = "?s\<lparr>hs_targets := [''s'' \<mapsto> (''b'', sha256_id [])]\<rparr>"
  have w: "require_positive_witness settled_ledger = Inr ()" by (simp add: witness_ok settled_ledger_def)
  have seen: "authoritative_projection demo_harness () (\<lambda>_. settled_ledger) s =
      (Inr \<lparr>sj_projection_id = ''browser.authoritative'', sj_data = JObj c, sj_digest = sha256_id []\<rparr>, s)"
    if "hs_world s = image_members demo_image" for s
    using that c by (simp add: authoritative_projection_def demo_harness_def demo_backend_def in_world_def action_simps w)
  have taken: "verified_snapshot demo_harness () (\<lambda>_. settled_ledger) ?s = (Inr ?snap, ?t)"
    by (simp add: verified_snapshot_def seen act_bind_def, simp add: demo_harness_def demo_backend_def in_world_def action_simps raise_if_def Let_def)
  have "harness_history demo_harness [] ?s" by (rule harness_history.start)
  then have history: "harness_history demo_harness ([] @ [(?snap, c)]) ?t" by (rule harness_history.taken [OF _ seen _ taken]) simp_all
  have "\<exists>r. verified_restore demo_harness () ?snap (\<lambda>_. settled_ledger) (\<lambda>_. settled_ledger) ?t = (Inr r, ?t)"
  proof -
    have "known_target demo_harness () ?snap ?t = Inr (sha256_id [])"
      by (simp add: known_target_def demo_harness_def demo_backend_def raise_if_def res_bind_def)
    moreover have "in_world (bb_verify_eligibility (bh_backend demo_harness) () f ?snap) ?t = (Inr (), ?t)"
      "in_world (bb_restore (bh_backend demo_harness) () ?snap) ?t = (Inr (), ?t)" for f
      by (simp_all add: demo_harness_def demo_backend_def in_world_def action_simps)
    ultimately show ?thesis
      by (simp add: verified_restore_def seen act_bind_def act_read_def act_of_def act_return_def raise_if_def)
  qed
  then obtain r where r: "verified_restore demo_harness () ?snap (\<lambda>_. settled_ledger) (\<lambda>_. settled_ledger) ?t = (Inr r, ?t)" by blast
  from verified_restore_was_observed [OF history r] obtain c' where "rr_after_digest r = state_id demo_harness c'" by fastforce
  with r show ?thesis by blast
qed

section \<open>Materialized fixtures\<close>

lemma map_each_reread_in: "(\<And>y. y \<in> set ys \<Longrightarrow> \<exists>x. f x = Inr y) \<Longrightarrow> (\<And>x y. f x = Inr y \<Longrightarrow> f (g y) = Inr y) \<Longrightarrow> map_each f (map g ys) = Inr ys"
  by (rule map_each_reread) blast

lemma selected_identity_exact: "selected_identity f m v = Inr s \<longleftrightarrow> v = JStr s \<and> s \<noteq> [] \<and> f s = Inr ()"
  by (auto simp: selected_identity_def)

lemma binding_again:
  assumes "execution_binding kv = Inr (r, i, t)"
  shows "execution_binding (r, JObj [(''identity'', JStr i), (''identityType'', JStr t)]) = Inr (r, i, t)"
proof -
  have "r \<noteq> [] \<and> i \<noteq> [] \<and> t \<in> set [''content'', ''version'', ''symbolic'']"
    using assms unfolding execution_binding_def res_bind_ok raise_if_ok require_text_ok
    by - ((elim exE conjE)?, frule known_text, assumption, simp)
  then show ?thesis by (auto simp: execution_binding_def)
qed

lemma distinct_sorted_utf8 [simp]: "distinct (sort_key utf8 xs) = distinct xs"
  by (metis mset_eq_imp_distinct_iff mset_sort)

lemma check_manifest_again:
  assumes "check_manifest v m = Inr b"
  shows "check_manifest v (manifest_members b) = Inr b"
proof -
  from assms obtain raw_origins raw_domains raw_bindings origins domains bindings where
    o': "map_each (selected_identity (iv_origin v) ''selected origin must be a non-empty string'') raw_origins = Inr origins" "distinct origins"
    and d: "map_each (selected_identity (iv_domain v) ''selected cookie domain must be non-empty'') raw_domains = Inr domains" "distinct domains"
    and k: "map_each execution_binding raw_bindings = Inr bindings"
    and b: "b = \<lparr>bw_origins = sort_key utf8 origins, bw_domains = sort_key utf8 domains, bw_bindings = bindings\<rparr>"
    unfolding check_manifest_def res_bind_ok raise_if_ok not_not by (elim exE conjE) simp
  let ?m = "manifest_members b" and ?j = "\<lambda>(r, i, t). (r, JObj [(''identity'', JStr i), (''identityType'', JStr t)])"
  have reread: "map_each (selected_identity f l) (map JStr (sort_key utf8 xs)) = Inr (sort_key utf8 xs)"
    if "map_each (selected_identity f l) raw = Inr xs" for f l raw xs
    by (rule map_each_reread_in) (use map_each_result [OF that] in \<open>auto simp: selected_identity_exact\<close>)
  have bindings: "map_each execution_binding (map ?j bindings) = Inr bindings"
  proof (rule map_each_reread_in)
    show "\<exists>x. execution_binding x = Inr y" if "y \<in> set bindings" for y using map_each_result [OF k that] by blast
    show "execution_binding (?j y) = Inr y" if "execution_binding x = Inr y" for x y
      using that by (cases y) (simp add: binding_again)
  qed
  have members: "member ?m ''localStorageOrigins'' = JList (map JStr (sort_key utf8 origins))"
    "member ?m ''cookieDomains'' = JList (map JStr (sort_key utf8 domains))" "member ?m ''executionBindings'' = JObj (map ?j bindings)"
    by (simp_all add: manifest_members_def manifest_constants_def b jstrs_def)
  have "check_constants manifest_constants ?m = Inr ()"
    by (simp add: check_constants_def manifest_members_def manifest_constants_def raise_if_def)
  moreover have "fst ` set ?m = set manifest_keys"
    by (simp add: manifest_keys_def manifest_members_def manifest_constants_def)
  ultimately show ?thesis
    unfolding check_manifest_def members
    by (simp add: res_bind_def require_exact_keys_def require_array_def require_object_def raise_if_def Let_def reread [OF o'(1)]
        reread [OF d(1)] bindings o'(2) d(2) sort_key_again, simp add: b)
qed

lemma manifest_again: "canonicalize_manifest v m = Inr c \<Longrightarrow> canonicalize_manifest v c = Inr c"
  by (auto simp: canonicalize_manifest_def check_manifest_again)

lemma image_manifest_again:
  "canonicalize_manifest v m = Inr c \<Longrightarrow> canonicalize_state_image jcs v raw c = canonicalize_state_image jcs v raw m"
  by (auto simp: canonicalize_manifest_def canonicalize_state_image_def check_image_def check_manifest_again)

lemma slot_list_text: "slot_list v m = Inr xs \<Longrightarrow> v = jstrs xs"
  by (auto simp: slot_list_def map_each_exact is_ok_def jstrs_def comp_def require_text_def intro!: map_idI [symmetric]
      split: json.splits sum.splits if_splits)

lemma resolved_slot:
  assumes "resolve_slots v resolved slots = Inr exact" "s \<in> set slots"
  shows "member resolved s = JStr (slot_origin exact s)"
proof -
  let ?f = "resolved_origin v resolved"
  from assms(1) have e: "\<forall>s \<in> set slots. is_ok (?f s)" "exact = map (projr \<circ> ?f) slots" by (auto simp: resolve_slots_def map_each_exact)
  have f: "?f s = Inr (s, snd (projr (?f s))) \<and> member resolved s = JStr (snd (projr (?f s)))" if "s \<in> set slots" for s
  proof -
    have "is_ok (?f s)" using e(1) that by blast
    then obtain y where y: "?f s = Inr y" by (rule is_okE)
    then have "fst y = s \<and> member resolved s = JStr (snd y)" by (auto simp: resolved_origin_def)
    with y show ?thesis by (metis prod.collapse sum.sel(2))
  qed
  have "exact = map (\<lambda>s. (s, snd (projr (?f s)))) slots" unfolding e(2)
    by (intro map_cong refl) (use f in \<open>metis comp_apply sum.sel(2)\<close>)
  then have "map_of exact s = Some (snd (projr (?f s)))" using assms(2) by (simp add: map_of_map_restrict restrict_map_def)
  with f [OF assms(2)] show ?thesis by (simp add: slot_origin_def)
qed

lemma selected_list: "map_each (selected_identity f l) raw = Inr xs \<Longrightarrow> raw = map JStr xs"
  by (induction raw arbitrary: xs) (auto simp: selected_identity_exact split: sum.splits)

lemma image_again: "canonicalize_state_image jcs v raw m = Inr c \<Longrightarrow> canonicalize_state_image jcs v c m = Inr c"
  by (auto simp: canonicalize_state_image_def check_image_again)

lemma check_manifest_origins:
  assumes "check_manifest v m = Inr b" "member m ''localStorageOrigins'' = jstrs os"
  shows "set (bw_origins b) = set os"
proof -
  from assms obtain origins where "map_each (selected_identity (iv_origin v) ''selected origin must be a non-empty string'') (map JStr os) = Inr origins"
    and b: "bw_origins b = sort_key utf8 origins"
    unfolding check_manifest_def res_bind_ok raise_if_ok require_array_ok by (elim exE conjE) (simp add: jstrs_def, metis browser_selection.select_convs(1))
  then have "map JStr os = map JStr origins" by (elim selected_list)
  then have "os = origins" by (rule inj_map_eq_map [THEN iffD1, rotated]) (simp add: inj_def)
  with b show ?thesis by simp
qed

text \<open>C36: A materialized fixture is its own canonical form: its Manifest and its baseline canonicalize to themselves, bytes and
  digests are those of these documents, the Manifest selects exactly the resolved origins of the selected slots, and an
  observed image that lists the baseline in any order has the digest a reset is compared with.\<close>

theorem materialized_fixture_is_canonical:
  assumes "materialize_browser_fixture jcs v source resolved = Inr x"
  shows "canonicalize_manifest v (bf_manifest x) = Inr (bf_manifest x) \<and>
    canonicalize_state_image jcs v (bf_baseline x) (bf_manifest x) = Inr (bf_baseline x) \<and>
    bf_manifest_bytes x = jcs (JObj (bf_manifest x)) \<and> bf_manifest_digest x = sha256_id (bf_manifest_bytes x) \<and>
    (\<exists>selected b. member source ''selectedLocalStorageOriginSlots'' = jstrs selected \<and> check_manifest v (bf_manifest x) = Inr b \<and>
       JStr ` set (bw_origins b) = set (map (member resolved) selected)) \<and>
    (\<forall>observed_image. image_reordered (bf_baseline x) observed_image \<longrightarrow>
       canonical_state_image_digest jcs v observed_image (bf_manifest x) = Inr (bf_baseline_digest x))"
proof -
  from assms obtain slots selected exact domains bindings raw where
    slots: "fixture_slots source resolved = Inr (slots, selected)" and exact: "resolve_slots v resolved slots = Inr exact"
    and m: "canonicalize_manifest v (fixture_manifest (map (slot_origin exact) selected) domains bindings) = Inr (bf_manifest x)"
    and img: "canonicalize_state_image jcs v raw (bf_manifest x) = Inr (bf_baseline x)"
    and x: "bf_manifest_bytes x = jcs (JObj (bf_manifest x))" "bf_manifest_digest x = sha256_id (bf_manifest_bytes x)"
      "bf_baseline_digest x = sha256_id (jcs (JObj (bf_baseline x)))"
    by (auto simp: materialize_browser_fixture_def Let_def)
  from slots have sel: "slot_list (member source ''selectedLocalStorageOriginSlots'') ''selected origin slots must be strings'' = Inr selected"
    "set selected \<subseteq> set slots" by (auto simp: fixture_slots_def)
  from m obtain b where b: "check_manifest v (fixture_manifest (map (slot_origin exact) selected) domains bindings) = Inr b"
    "bf_manifest x = manifest_members b" by (auto simp: canonicalize_manifest_def)
  have "member (fixture_manifest (map (slot_origin exact) selected) domains bindings) ''localStorageOrigins'' = jstrs (map (slot_origin exact) selected)"
    by (simp add: fixture_manifest_def manifest_constants_def)
  with b(1) have "set (bw_origins b) = set (map (slot_origin exact) selected)" by (rule check_manifest_origins)
  then have "JStr ` set (bw_origins b) = set (map (member resolved) selected)"
    using resolved_slot [OF exact] sel(2) by (force simp: subset_iff)
  moreover have "canonical_state_image_digest jcs v o' (bf_manifest x) = Inr (bf_baseline_digest x)" if "image_reordered (bf_baseline x) o'" for o'
    using canonical_image_normal [OF image_again [OF img] that]
    by (simp add: canonical_state_image_digest_def canonical_state_image_bytes_def x(3))
  ultimately show ?thesis using manifest_again [OF m] image_again [OF img] x slot_list_text [OF sel(1)]
      check_manifest_again [OF b(1)] b(2) by auto
qed

definition demo_source :: members where
  "demo_source = [(''fixtureRevision'', JStr ''1''), (''originSlots'', jstrs [''app'']), (''selectedLocalStorageOriginSlots'', jstrs [''app'']),
     (''cookieDomains'', JList []), (''executionBindings'', JObj []),
     (''baseline'', JObj [(''localStorageByOriginSlot'', JObj [(''app'', JList [])]), (''cookies'', JList [])])]"

definition app_selection :: browser_selection where
  "app_selection = \<lparr>bw_origins = [''http://a''], bw_domains = [], bw_bindings = []\<rparr>"

definition app_image :: browser_image where
  "app_image = \<lparr>bi_manifest_digest = sha256_id [], bi_cookies = [], bi_origins = [\<lparr>og_origin = ''http://a'', og_entries = []\<rparr>]\<rparr>"

lemma app_manifest: "check_manifest any_identity (manifest_members app_selection) = Inr app_selection"
  by (simp add: check_manifest_def manifest_members_def app_selection_def any_identity_def manifest_keys_def manifest_constants_def
      check_constants_def jstrs_def raise_if_def)

lemma app_image_canonical:
  "canonicalize_state_image (\<lambda>_. []) any_identity (image_members app_image) (manifest_members app_selection) = Inr (image_members app_image)"
proof -
  have "map_each (read_origin any_identity (bw_origins app_selection)) (map (JObj \<circ> origin_members) (bi_origins app_image)) = Inr (bi_origins app_image)"
    by (rule map_each_reread) (auto simp: app_image_def app_selection_def any_identity_def read_origin_exact origin_members_def
        canonical_local_storage_exact)
  moreover have "canonical_for (\<lambda>_. []) app_selection app_image [] (bi_origins app_image)"
    by (simp add: canonical_for_def app_selection_def app_image_def)
  ultimately have "check_image (\<lambda>_. []) any_identity (image_members app_image) (manifest_members app_selection) = Inr app_image"
    unfolding check_image_exact using app_manifest
    by (intro exI [of _ app_selection] exI [of _ "[]"] exI [of _ "bi_origins app_image"] exI [of _ "map (JObj \<circ> origin_members) (bi_origins app_image)"])
      (simp add: image_members_def image_keys_def, simp add: app_image_def)
  then show ?thesis by (simp add: canonicalize_state_image_def)
qed

lemma demo_materializes: "is_ok (materialize_browser_fixture (\<lambda>_. []) any_identity demo_source [(''app'', JStr ''http://a'')])"
proof -
  have slots: "fixture_slots demo_source [(''app'', JStr ''http://a'')] = Inr ([''app''], [''app''])"
    by (simp add: fixture_slots_def demo_source_def slot_list_def jstrs_def require_text_def)
  have exact: "resolve_slots any_identity [(''app'', JStr ''http://a'')] [''app''] = Inr [(''app'', ''http://a'')]"
    by (simp add: resolve_slots_def resolved_origin_def any_identity_def require_text_def res_bind_def raise_if_def)
  have m: "canonicalize_manifest any_identity (fixture_manifest (map (slot_origin [(''app'', ''http://a'')]) [''app'']) [] []) = Inr (manifest_members app_selection)"
    using app_manifest by (simp add: canonicalize_manifest_def fixture_manifest_def manifest_members_def app_selection_def slot_origin_def jstrs_def)
  have baseline: "fixture_baseline demo_source [''app''] [(''app'', ''http://a'')] (sha256_id []) = Inr (image_members app_image)"
    by (simp add: fixture_baseline_def demo_source_def fixture_origin_def fixture_image_def image_members_def app_image_def
        origin_members_def slot_origin_def require_array_def require_object_def require_exact_keys_def raise_if_def res_bind_def)
  have source: "require_exact_keys demo_source source_keys l = Inr ()" "require_text (member demo_source ''fixtureRevision'') l = Inr ''1''"
    "require_array (member demo_source ''cookieDomains'') l = Inr []" "require_object (member demo_source ''executionBindings'') l = Inr []" for l
    by (simp_all add: demo_source_def source_keys_def)
  show ?thesis unfolding materialize_browser_fixture_def
    by (simp only: source slots exact m baseline app_image_canonical bind_value prod.case Let_def is_ok_def sum.case)
qed

theorem materialized_fixture_is_canonical_witness:
  "\<exists>x. materialize_browser_fixture (\<lambda>_. []) any_identity demo_source [(''app'', JStr ''http://a'')] = Inr x \<and>
     canonicalize_state_image (\<lambda>_. []) any_identity (bf_baseline x) (bf_manifest x) = Inr (bf_baseline x)"
proof -
  obtain x where x: "materialize_browser_fixture (\<lambda>_. []) any_identity demo_source [(''app'', JStr ''http://a'')] = Inr x"
    using demo_materializes by (rule is_okE)
  from materialized_fixture_is_canonical [OF x] x show ?thesis by blast
qed

end
