(* ===== verification/AVP_Transport.thy ===== *)
theory AVP_Transport
  imports AVP_Gateway AVP_OracleRunner
begin

text \<open>
  \<^verbatim>\<open>mcp/transport.py\<close>: the Streamable HTTP transport of the MCP gateway. The HTTP exchange itself (\<open>urlopen\<close>) and
  \<open>json.loads\<close> are parameters; requests, headers, the reading of event streams and the checks of the JSON-RPC envelope are defined.
\<close>

section \<open>Compact JSON\<close>

text \<open>\<open>json.dumps(value, separators=(",", ":"))\<close>: members in their order; \<open>quote\<close> depends on \<open>ensure_ascii\<close>.\<close>

primrec json_compact :: "(string \<Rightarrow> string) \<Rightarrow> json \<Rightarrow> string" where
  "json_compact quote JNull = ''null''"
| "json_compact quote (JBool b) = (if b then ''true'' else ''false'')"
| "json_compact quote (JInt i) = string_of_int i"
| "json_compact quote (JFloat f) = float_repr f"
| "json_compact quote (JStr s) = quote s"
| "json_compact quote (JList xs) = ''['' @ join '','' (map (json_compact quote) xs) @ '']''"
| "json_compact quote (JObj kvs) = ''{'' @ join '',''
     (map (\<lambda>(k, t). quote k @ '':'' @ t) (map (map_prod (\<lambda>k. k) (json_compact quote)) kvs)) @ ''}''"

section \<open>Requests\<close>

record http_post =
  hp_url :: string
  hp_body :: bytes
  hp_headers :: "(string \<times> string) list"
  hp_timeout :: pyfloat

text \<open>What \<open>urlopen\<close> and reading the response do: a response with its content type and body, an \<open>HTTPError\<close> with code and decoded
  text, another failure that is caught, or an exception that is not caught.\<close>

datatype http_outcome = HttpResponse string bytes | HttpStatus int string | HttpFailure string | HttpBroken exn

record 'w mcp_http =
  mx_endpoint :: string
  mx_timeout :: pyfloat
  mx_client_name :: string
  mx_client_version :: string
  mx_trace :: "('w, exn, (string \<times> string) list) action option"
  mx_post :: "http_post \<Rightarrow> 'w \<Rightarrow> http_outcome \<times> 'w"
  mx_reader :: text_reader
  mx_loads :: "bytes \<Rightarrow> json option"

record 'w http_client =
  hk_request_id :: nat
  hk_world :: 'w

definition make_mcp_http :: "'w mcp_http \<Rightarrow> 'w \<Rightarrow> (exn, 'w mcp_http \<times> 'w http_client) result" where
  "make_mcp_http c w =
     res_bind (raise_if (\<not> starts_with ''http://'' (mx_endpoint c) \<and> \<not> starts_with ''https://'' (mx_endpoint c))
       (ValueError ''MCP endpoint must use http or https'')) (\<lambda>_.
     res_bind (raise_if (float_neg (mx_timeout c) \<or> float_digits (mx_timeout c) = 0) (ValueError ''timeout_seconds must be > 0'')) (\<lambda>_.
     Inr (c, \<lparr>hk_request_id = 0, hk_world = w\<rparr>)))"

definition mcp_request_id :: "nat \<Rightarrow> string" where
  "mcp_request_id n = ''avp-mcp-'' @ string_of_nat n"

definition set_default :: "string \<Rightarrow> json \<Rightarrow> (string \<times> json) list \<Rightarrow> (string \<times> json) list" where
  "set_default k v kvs = (if k \<in> fst ` set kvs then kvs else kvs @ [(k, v)])"

text \<open>\<open>dict(merged.get("_meta") or {})\<close>; a value that is no mapping is refused (\<open>dict\<close> of it raises unless it lists pairs).\<close>

definition request_meta :: "(string \<times> json) list \<Rightarrow> (exn, (string \<times> json) list) result" where
  "request_meta params = (let v = jget_none (JObj params) ''_meta'' in
     if \<not> py_truthy v then Inr [] else case v of JObj kvs \<Rightarrow> Inr kvs | _ \<Rightarrow> Inl (TypeError ''_meta must be a mapping''))"

definition client_meta :: "'w mcp_http \<Rightarrow> (string \<times> json) list \<Rightarrow> (string \<times> json) list" where
  "client_meta c meta = set_default ''io.modelcontextprotocol/clientCapabilities'' (JObj [])
     (set_default ''io.modelcontextprotocol/clientInfo''
       (JObj [(''name'', JStr (mx_client_name c)), (''version'', JStr (mx_client_version c))])
     (set_default ''io.modelcontextprotocol/protocolVersion'' (JStr mcp_protocol_version) meta))"

definition request_payload :: "string \<Rightarrow> string \<Rightarrow> (string \<times> json) list \<Rightarrow> (string \<times> json) list \<Rightarrow> json" where
  "request_payload rid method params meta = JObj [(''jsonrpc'', JStr ''2.0''), (''id'', JStr rid), (''method'', JStr method),
     (''params'', JObj (AList.update ''_meta'' (JObj meta) params))]"

definition payload_bytes :: "json \<Rightarrow> bytes" where
  "payload_bytes v = utf8 (json_compact json_quote_ascii v)"

definition protocol_headers :: "string \<Rightarrow> string option \<Rightarrow> (string \<times> string) list" where
  "protocol_headers method nm =
     [(''Content-Type'', ''application/json''), (''Accept'', ''application/json, text/event-stream''),
      (''MCP-Protocol-Version'', mcp_protocol_version), (''Mcp-Method'', method)] @
     (case nm of None \<Rightarrow> [] | Some n \<Rightarrow> [(''Mcp-Name'', encode_mcp_header_value n)])"

definition has_header :: "string \<Rightarrow> (string \<times> string) list \<Rightarrow> bool" where
  "has_header k headers \<longleftrightarrow> lower k \<in> set (map (lower \<circ> fst) headers)"

text \<open>Trace headers that collide are skipped, extra headers that collide are an error.\<close>

definition add_trace :: "(string \<times> string) list \<Rightarrow> (string \<times> string) list \<Rightarrow> (string \<times> string) list" where
  "add_trace trace headers = foldl (\<lambda>hs (k, v). if has_header k hs then hs else hs @ [(k, v)]) headers trace"

fun add_extra :: "(string \<times> string) list \<Rightarrow> (string \<times> string) list \<Rightarrow> (exn, (string \<times> string) list) result" where
  "add_extra [] headers = Inr headers"
| "add_extra ((k, v) # rest) headers =
     (if has_header k headers then Inl (McpExn MCPProtocolError (''extra MCP header collides with reserved header: '' @ k))
      else add_extra rest (headers @ [(k, v)]))"

section \<open>Responses\<close>

definition transport_error :: "string \<Rightarrow> exn" where
  "transport_error m = McpExn MCPTransportError m"

definition decode_json_body :: "'w mcp_http \<Rightarrow> bytes \<Rightarrow> (exn, json) result" where
  "decode_json_body c body = (case mx_loads c body of
     None \<Rightarrow> Inl (protocol_error ''MCP response is not valid UTF-8 JSON'') | Some v \<Rightarrow> Inr v)"

text \<open>The loop over \<open>text.splitlines() + [""]\<close>: \<open>data\<close> holds the data lines of the event being read.\<close>

fun sse_events :: "text_reader \<Rightarrow> string list \<Rightarrow> string list \<Rightarrow> (exn, json list) result" where
  "sse_events tr data [] = Inr []"
| "sse_events tr data (line # lines) =
     (if line = [] then
        (if data = [] then sse_events tr [] lines
         else case tr_loads tr (join [CHR 0x0A] data) of
           None \<Rightarrow> Inl (protocol_error ''MCP SSE data event is not valid JSON'')
         | Some v \<Rightarrow> res_bind (sse_events tr [] lines) (\<lambda>vs. Inr ((case v of JObj _ \<Rightarrow> [v] | _ \<Rightarrow> []) @ vs)))
      else if starts_with ''data:'' line then sse_events tr (data @ [dropWhile is_space (drop 5 line)]) lines
      else sse_events tr data lines)"

definition answers :: "string \<Rightarrow> json \<Rightarrow> bool" where
  "answers rid v \<longleftrightarrow> jget_none v ''jsonrpc'' = JStr ''2.0'' \<and> jget_none v ''id'' = JStr rid"

definition decode_sse :: "text_reader \<Rightarrow> bytes \<Rightarrow> string \<Rightarrow> (exn, json) result" where
  "decode_sse tr body rid = (case tr_decode tr body of
     None \<Rightarrow> Inl (protocol_error ''MCP SSE response is not valid UTF-8'')
   | Some txt \<Rightarrow> res_bind (sse_events tr [] (split_lines txt @ [[]])) (\<lambda>candidates.
       case List.find (answers rid) candidates of
         None \<Rightarrow> Inl (protocol_error ''MCP SSE stream ended without matching JSON-RPC response'') | Some v \<Rightarrow> Inr v))"

definition upstream_error :: "json \<Rightarrow> exn" where
  "upstream_error e = (case (jget_none e ''code'', jget_none e ''message'') of
     (JInt i, JStr m) \<Rightarrow> McpExn MCPUpstreamError (''MCP upstream error '' @ string_of_int i @ '': '' @ m)
   | (JBool b, JStr m) \<Rightarrow> McpExn MCPUpstreamError (''MCP upstream error '' @ py_repr (JBool b) @ '': '' @ m)
   | _ \<Rightarrow> protocol_error ''MCP JSON-RPC error object is malformed'')"

definition validate_response :: "json \<Rightarrow> string \<Rightarrow> (exn, (string \<times> json) list) result" where
  "validate_response v rid =
     res_bind (raise_if ((case v of JObj _ \<Rightarrow> False | _ \<Rightarrow> True) \<or> \<not> answers rid v)
       (protocol_error ''MCP JSON-RPC response envelope does not match request'')) (\<lambda>_.
     case jget v ''error'' of
       Some e \<Rightarrow> Inl (upstream_error e)
     | None \<Rightarrow> (case jget_none v ''result'' of
         JObj kvs \<Rightarrow> Inr kvs | _ \<Rightarrow> Inl (protocol_error ''MCP JSON-RPC result must be an object'')))"

definition read_response :: "'w mcp_http \<Rightarrow> string \<Rightarrow> http_outcome \<Rightarrow> (exn, (string \<times> json) list) result" where
  "read_response c rid out = (case out of
     HttpStatus code detail \<Rightarrow> Inl (transport_error (''MCP HTTP '' @ string_of_int code @ '': '' @ take 512 detail))
   | HttpFailure m \<Rightarrow> Inl (transport_error (''MCP transport failure: '' @ m))
   | HttpBroken x \<Rightarrow> Inl x
   | HttpResponse ctype body \<Rightarrow>
       res_bind (if ctype = ''application/json'' then decode_json_body c body
         else if ctype = ''text/event-stream'' then decode_sse (mx_reader c) body rid
         else Inl (transport_error (''unsupported MCP response content type: '' @ ctype))) (\<lambda>v.
       res_bind (raise_if (v = JNull) (transport_error (''unsupported MCP response content type: '' @ ctype))) (\<lambda>_.
       validate_response v rid)))"

section \<open>A request\<close>

definition http_request :: "'w mcp_http \<Rightarrow> 'w http_client mcp_transport" where
  "http_request c method params nm extra =
     act_bind (act_modify (\<lambda>k. k\<lparr>hk_request_id := Suc (hk_request_id k)\<rparr>)) (\<lambda>_.
     act_bind (act_get (\<lambda>k. mcp_request_id (hk_request_id k))) (\<lambda>rid.
     act_bind (act_of (request_meta params)) (\<lambda>meta.
     act_bind (case mx_trace c of None \<Rightarrow> act_return [] | Some provider \<Rightarrow> act_zoom hk_world hk_world_update provider) (\<lambda>trace.
     act_bind (act_of (add_extra extra (add_trace trace (protocol_headers method nm)))) (\<lambda>headers.
     act_bind (\<lambda>k. case mx_post c \<lparr>hp_url = mx_endpoint c, hp_body = payload_bytes (request_payload rid method params (client_meta c meta)),
         hp_headers = headers, hp_timeout = mx_timeout c\<rparr> (hk_world k) of (out, w) \<Rightarrow> (Inr out, k\<lparr>hk_world := w\<rparr>)) (\<lambda>out.
     act_of (read_response c rid out)))))))"

end
