(* ===== verification/AVP_TransportFacts.thy ===== *)
theory AVP_TransportFacts
  imports AVP_Transport AVP_GatewayFacts
begin

text \<open>
  What goes over the wire: an answer is accepted only for the request it answers, requests are numbered, and behind the gateway every
  posted tool call is for an allowed tool.
\<close>

section \<open>Headers\<close>

definition distinct_headers :: "(string \<times> string) list \<Rightarrow> bool" where
  "distinct_headers hs \<longleftrightarrow> distinct (map (lower \<circ> fst) hs)"

lemma add_trace_extends: "distinct_headers hs \<Longrightarrow> distinct_headers (add_trace trace hs) \<and> (\<exists>more. add_trace trace hs = hs @ more)"
proof (induction trace arbitrary: hs)
  case (Cons kv trace)
  obtain k v where kv: "kv = (k, v)" by (cases kv)
  show ?case
  proof (cases "has_header k hs")
    case True
    then show ?thesis using Cons by (simp add: add_trace_def kv)
  next
    case False
    with Cons.prems have "distinct_headers (hs @ [(k, v)])" by (simp add: distinct_headers_def has_header_def)
    from Cons.IH [OF this] False show ?thesis by (auto simp: add_trace_def kv)
  qed
qed (simp add: add_trace_def)

lemma add_extra_extends:
  "add_extra extra hs = Inr out \<Longrightarrow> distinct_headers hs \<Longrightarrow> distinct_headers out \<and> (\<exists>more. out = hs @ more)"
  by (induction extra hs rule: add_extra.induct) (auto simp: distinct_headers_def has_header_def split: if_splits)

lemma protocol_headers_distinct: "distinct_headers (protocol_headers m nm)"
  by (cases nm) (simp_all add: distinct_headers_def protocol_headers_def lower_def lower_char_def is_upper_ascii_def)

lemma request_headers:
  assumes "add_extra extra (add_trace trace (protocol_headers m nm)) = Inr hs"
  shows "distinct_headers hs \<and> take (length (protocol_headers m nm)) hs = protocol_headers m nm"
proof -
  obtain more where t: "distinct_headers (add_trace trace (protocol_headers m nm))" "add_trace trace (protocol_headers m nm) = protocol_headers m nm @ more"
    using add_trace_extends [OF protocol_headers_distinct] by blast
  from add_extra_extends [OF assms t(1)] t(2) show ?thesis by auto
qed

section \<open>Answers\<close>

lemma json_str_refl: "jget_none v k = JStr s \<Longrightarrow> jget v k = Some (JStr s)"
  by (auto simp: jget_none_def split: option.splits)

lemma validate_response_ok:
  "validate_response v rid = Inr result \<Longrightarrow> answers rid v \<and> jget v ''error'' = None \<and> jget v ''result'' = Some (JObj result)"
  by (auto simp: validate_response_def jget_none_def split: option.splits json.splits)

text \<open>The document a response body holds for a request: the body itself, or the event of the stream that answers it.\<close>

definition body_document :: "'w mcp_http \<Rightarrow> string \<Rightarrow> string \<Rightarrow> bytes \<Rightarrow> json \<Rightarrow> bool" where
  "body_document c rid ctype body v \<longleftrightarrow>
     (ctype = ''application/json'' \<and> mx_loads c body = Some v) \<or>
     (ctype = ''text/event-stream'' \<and> (\<exists>txt events. tr_decode (mx_reader c) body = Some txt \<and>
        sse_events (mx_reader c) [] (split_lines txt @ [[]]) = Inr events \<and> List.find (answers rid) events = Some v))"

lemma read_response_ok:
  assumes "read_response c rid out = Inr result"
  obtains ctype body v where "out = HttpResponse ctype body" "body_document c rid ctype body v" "answers rid v" "jget v ''error'' = None"
    "jget v ''result'' = Some (JObj result)"
proof (cases out)
  case (HttpResponse ctype body)
  with assms obtain v where v: "(if ctype = ''application/json'' then decode_json_body c body
         else if ctype = ''text/event-stream'' then decode_sse (mx_reader c) body rid
         else Inl (transport_error (''unsupported MCP response content type: '' @ ctype))) = Inr v" "validate_response v rid = Inr result"
    by (auto simp: read_response_def)
  have "body_document c rid ctype body v"
  proof (cases "ctype = ''application/json''")
    case True
    with v(1) show ?thesis by (simp add: body_document_def decode_json_body_def split: option.splits)
  next
    case False
    with v(1) have "ctype = ''text/event-stream''" "decode_sse (mx_reader c) body rid = Inr v" by (auto split: if_splits)
    then show ?thesis by (auto simp: body_document_def decode_sse_def split: option.splits)
  qed
  with HttpResponse validate_response_ok [OF v(2)] show thesis by (auto intro: that)
qed (use assms in \<open>simp_all add: read_response_def\<close>)

definition the_post :: "'w mcp_http \<Rightarrow> string \<Rightarrow> string \<Rightarrow> (string \<times> json) list \<Rightarrow> (string \<times> json) list \<Rightarrow> (string \<times> string) list \<Rightarrow> http_post" where
  "the_post c rid m ps meta hs = \<lparr>hp_url = mx_endpoint c, hp_body = payload_bytes (request_payload rid m ps (client_meta c meta)),
     hp_headers = hs, hp_timeout = mx_timeout c\<rparr>"

text \<open>The steps of a request up to its post.\<close>

lemma http_request_cases:
  assumes "http_request c m ps nm extra k = (r, k')"
  obtains (quiet) w e where "r = Inl e" "k' = \<lparr>hk_request_id = Suc (hk_request_id k), hk_world = w\<rparr>"
      "w = hk_world k \<or> (\<exists>provider x. mx_trace c = Some provider \<and> provider (hk_world k) = (x, w))"
  | (posted) w w' meta hs out where "w = hk_world k \<or> (\<exists>provider x. mx_trace c = Some provider \<and> provider (hk_world k) = (x, w))"
      "request_meta ps = Inr meta" "distinct_headers hs" "take (length (protocol_headers m nm)) hs = protocol_headers m nm"
      "mx_post c (the_post c (mcp_request_id (Suc (hk_request_id k))) m ps meta hs) w = (out, w')"
      "r = read_response c (mcp_request_id (Suc (hk_request_id k))) out" "k' = \<lparr>hk_request_id = Suc (hk_request_id k), hk_world = w'\<rparr>"
proof (cases "request_meta ps")
  case (Inl e)
  with assms show thesis by (intro quiet [of e "hk_world k"]) (auto simp: http_request_def action_simps)
next
  case (Inr meta)
  let ?n = "Suc (hk_request_id k)" and ?k = "k\<lparr>hk_request_id := Suc (hk_request_id k)\<rparr>"
  let ?trace = "case mx_trace c of None \<Rightarrow> act_return [] | Some provider \<Rightarrow> act_zoom hk_world hk_world_update provider"
  obtain x k1 where t: "?trace ?k = (x, k1)" by (cases "?trace ?k")
  have k1: "k1 = \<lparr>hk_request_id = ?n, hk_world = hk_world k1\<rparr>"
    "hk_world k1 = hk_world k \<or> (\<exists>provider y. mx_trace c = Some provider \<and> provider (hk_world k) = (y, hk_world k1))"
    using t by (auto simp: act_return_def act_zoom_def split: option.splits prod.splits)
  show thesis
  proof (cases x)
    case xl: (Inl e)
    with assms Inr t show thesis by (intro quiet [of e "hk_world k1"]) (use k1 in \<open>auto simp: http_request_def action_simps\<close>)
  next
    case xr: (Inr trace)
    show thesis
    proof (cases "add_extra extra (add_trace trace (protocol_headers m nm))")
      case (Inl e)
      with assms \<open>request_meta ps = Inr meta\<close> t xr show thesis
        by (intro quiet [of e "hk_world k1"]) (use k1 in \<open>auto simp: http_request_def action_simps\<close>)
    next
      case (Inr hs)
      obtain out w' where p: "mx_post c (the_post c (mcp_request_id ?n) m ps meta hs) (hk_world k1) = (out, w')"
        by (cases "mx_post c (the_post c (mcp_request_id ?n) m ps meta hs) (hk_world k1)")
      from assms \<open>request_meta ps = Inr meta\<close> t xr Inr p k1(1)
      have "r = read_response c (mcp_request_id ?n) out" "k' = \<lparr>hk_request_id = ?n, hk_world = w'\<rparr>"
        by (simp_all add: http_request_def action_simps the_post_def) (metis http_client.update_convs(2))+
      with p \<open>request_meta ps = Inr meta\<close> request_headers [OF Inr] k1(2) show thesis by (intro posted) auto
    qed
  qed
qed

section \<open>The wire behind a gateway\<close>

text \<open>What any transport keeps of its world, the gateway keeps.\<close>

definition transport_keeps :: "('w \<Rightarrow> bool) \<Rightarrow> 'w mcp_transport \<Rightarrow> bool" where
  "transport_keeps Q tr \<longleftrightarrow> (\<forall>m ps nm hs. evolves (keeping Q) (tr m ps nm hs))"

abbreviation world_keeps :: "('w \<Rightarrow> bool) \<Rightarrow> 'w gateway_state \<Rightarrow> 'w gateway_state \<Rightarrow> bool" where
  "world_keeps Q \<equiv> keeping (\<lambda>s. Q (gs_world s))"

lemma upstream_keeps: "transport_keeps Q (gt_transport g) \<Longrightarrow> evolves (world_keeps Q) (upstream g m ps nm hs)"
  unfolding upstream_def by (rule keeping.zoom [where Q = "keeping Q"]) (simp_all add: transport_keeps_def keeping_def)

lemma catalog_keeps: "evolves (world_keeps Q) (act_modify (\<lambda>s. s\<lparr>gs_server := x, gs_catalog := y\<rparr>))"
  by (rule evolves_modify) (simp add: keeping_def)

lemma record_call_keeps: "evolves (world_keeps Q) (record_call r)"
  by (rule evolvesI) (auto simp: record_call_def action_simps keeping_def split: sum.splits prod.splits)

lemma list_pages_keeps:
  assumes g: "transport_keeps Q (gt_transport g)"
  shows "evolves (world_keeps Q) (list_pages g n ds pages ttls scope cursor seen)"
proof (induction n arbitrary: ds pages ttls scope cursor seen)
  case (Suc n)
  have cont: "evolves (world_keeps Q) (case v of
       JNull \<Rightarrow> act_of m
     | JStr c \<Rightarrow> if c = [] \<or> c \<in> set seen then act_raise err else list_pages g n ds' ps' ts' sc' (Some c) (c # seen)
     | _ \<Rightarrow> act_raise err)" for v m err ds' ps' ts' sc'
    by (cases v) (auto intro: keeping.rules Suc.IH)
  show ?case
    unfolding list_pages.simps Let_def
    by (intro keeping.bind keeping.case_pair keeping.of_result upstream_keeps [OF g] cont)
qed (simp add: keeping.raise_act)

lemma send_call_keeps:
  assumes g: "transport_keeps Q (gt_transport g)"
  shows "evolves (world_keeps Q) (send_call g cid nm args t opened hs)"
proof -
  have h: "evolves (world_keeps Q) (case err of McpExn MCPUpstreamError _ \<Rightarrow> act_bind (record_call c) (\<lambda>_. act_raise err)
               | _ \<Rightarrow> act_raise err)" for err c
    by (cases err) (auto intro: keeping.rules record_call_keeps split: mcp_error.split)
  show ?thesis
    unfolding send_call_def Let_def
    by (intro keeping.bind keeping.try_act keeping.of_result keeping.return upstream_keeps [OF g] h record_call_keeps)
qed

lemma run_gateway_op_keeps:
  assumes g: "transport_keeps Q (gt_transport g)"
  shows "evolves (world_keeps Q) (run_gateway_op g op)"
proof -
  have ls: "evolves (world_keeps Q) (list_tools g)"
    unfolding list_tools_def by (rule list_pages_keeps [OF g])
  have d: "evolves (world_keeps Q) (discover g)"
    unfolding discover_def by (intro keeping.bind keeping.of_result upstream_keeps [OF g])
  show ?thesis
    by (cases op) (simp_all only: run_gateway_op.simps gateway_open_def refresh_catalog_def gateway_call_tool_def Let_def,
      (intro keeping.bind keeping.of_result keeping.read keeping.return keeping.cond catalog_keeps d ls send_call_keeps [OF g])+)
qed

text \<open>The transport over a network that remembers what was posted.\<close>

definition recording :: "'w mcp_http \<Rightarrow> ('w \<times> http_post list) mcp_http" where
  "recording c = \<lparr>mx_endpoint = mx_endpoint c, mx_timeout = mx_timeout c, mx_client_name = mx_client_name c,
     mx_client_version = mx_client_version c, mx_trace = map_option (act_zoom fst apfst) (mx_trace c),
     mx_post = (\<lambda>p (w, ps). case mx_post c p w of (out, w') \<Rightarrow> (out, (w', ps @ [p]))),
     mx_reader = mx_reader c, mx_loads = mx_loads c\<rparr>"

text \<open>A post carries a request of the gateway under its number.\<close>

definition carries :: "'w mcp_http \<Rightarrow> nat \<Rightarrow> request \<Rightarrow> http_post \<Rightarrow> bool" where
  "carries c n e p \<longleftrightarrow> (case e of (m, ps, nm, _) \<Rightarrow> \<exists>meta hs. request_meta ps = Inr meta \<and> distinct_headers hs \<and>
     take (length (protocol_headers m nm)) hs = protocol_headers m nm \<and> p = the_post c (mcp_request_id n) m ps meta hs)"

type_synonym 'w wire = "('w \<times> http_post list) http_client \<times> request list"

definition posts_numbered :: "'w mcp_http \<Rightarrow> nat list \<Rightarrow> http_post list \<Rightarrow> request list \<Rightarrow> bool" where
  "posts_numbered c ns posts sent \<longleftrightarrow> sorted_wrt (<) ns \<and> (\<forall>n \<in> set ns. 1 \<le> n \<and> n \<le> length sent) \<and>
     list_all2 (\<lambda>n p. carries c n (sent ! (n - 1)) p) ns posts"

definition linked :: "'w mcp_http \<Rightarrow> 'w wire \<Rightarrow> bool" where
  "linked c x \<longleftrightarrow> hk_request_id (fst x) = length (snd x) \<and> (\<exists>ns. posts_numbered c ns (snd (hk_world (fst x))) (snd x))"

lemma posts_numbered_grow:
  assumes "posts_numbered c ns posts sent"
  shows "posts_numbered c ns posts (sent @ [e])"
proof -
  from assms have n: "\<And>n. n \<in> set ns \<Longrightarrow> 1 \<le> n \<and> n \<le> length sent" and p: "list_all2 (\<lambda>n p. carries c n (sent ! (n - 1)) p) ns posts"
    by (auto simp: posts_numbered_def)
  from p have "list_all2 (\<lambda>n p. carries c n ((sent @ [e]) ! (n - 1)) p) ns posts"
  proof (rule list.rel_mono_strong)
    fix n q assume "n \<in> set ns" "carries c n (sent ! (n - 1)) q"
    moreover from n [OF this(1)] have "n - 1 < length sent" by linarith
    ultimately show "carries c n ((sent @ [e]) ! (n - 1)) q" by (simp add: nth_append)
  qed
  with assms show ?thesis by (auto simp: posts_numbered_def)
qed

lemma posts_numbered_snoc:
  assumes "posts_numbered c ns posts sent" "carries c (Suc (length sent)) e p"
  shows "posts_numbered c (ns @ [Suc (length sent)]) (posts @ [p]) (sent @ [e])"
  using posts_numbered_grow [OF assms(1), of e] assms
  by (auto simp: posts_numbered_def sorted_wrt_append less_Suc_eq_le intro!: list_all2_appendI)

lemma recording_the_post: "the_post (recording c) = the_post c"
  by (intro ext) (simp add: the_post_def recording_def client_meta_def)

lemma recording_post: "mx_post (recording c) p w = (out, w') \<Longrightarrow> snd w' = snd w @ [p]"
  by (auto simp: recording_def split: prod.splits)

lemma logged_http_links: "transport_keeps (linked c) (logged (http_request (recording c)))"
  unfolding transport_keeps_def
proof (intro allI evolvesI)
  fix m ps nm extra and s s' :: "'a wire" and r
  assume run: "logged (http_request (recording c)) m ps nm extra s = (r, s')"
  obtain k sent where s: "s = (k, sent)" by (cases s)
  obtain x k' where h: "http_request (recording c) m ps nm extra k = (x, k')" by (cases "http_request (recording c) m ps nm extra k")
  with run s have s': "s' = (k', sent @ [(m, ps, nm, extra)])" by (simp add: logged_def)
  have tr: "snd w = snd (hk_world k)" if "w = hk_world k \<or> (\<exists>provider y. mx_trace (recording c) = Some provider \<and> provider (hk_world k) = (y, w))" for w
    using that by (auto simp: recording_def act_zoom_def split: prod.splits)
  from h have "linked c s \<Longrightarrow> linked c s'"
  proof (cases rule: http_request_cases)
    case (quiet w e)
    assume "linked c s"
    with s obtain ns where "hk_request_id k = length sent" "posts_numbered c ns (snd (hk_world k)) sent" by (auto simp: linked_def)
    with posts_numbered_grow [OF this(2), of "(m, ps, nm, extra)"] show "linked c s'"
      using quiet(2) tr [OF quiet(3)] s' by (auto simp: linked_def)
  next
    case (posted w w' meta hs out)
    let ?p = "the_post c (mcp_request_id (Suc (hk_request_id k))) m ps meta hs"
    have w': "snd w' = snd (hk_world k) @ [?p]"
      using recording_post [OF posted(5)] tr [OF posted(1)] by (simp add: recording_the_post)
    assume "linked c s"
    with s obtain ns where l: "hk_request_id k = length sent" "posts_numbered c ns (snd (hk_world k)) sent" by (auto simp: linked_def)
    have "carries c (Suc (length sent)) (m, ps, nm, extra) ?p"
      using posted(2-4) l(1) by (auto simp: carries_def)
    from posts_numbered_snoc [OF l(2) this] show "linked c s'"
      using posted(7) s' w' l(1) by (auto simp: linked_def)
  qed
  then show "keeping (linked c) s s'" by (simp add: keeping_def)
qed

lemma gateway_wire:
  assumes "make_gateway (logged (http_request (recording c))) p endpoint schemas (\<lparr>hk_request_id = 0, hk_world = (w, [])\<rparr>, []) = Inr (g, s)"
    and "run_gateway_ops g ops s = (r, s')"
  shows "linked c (gs_world s') \<and> list_all (allowed_call g) (calls (snd (gs_world s')))"
proof -
  from assms(1) have g: "gt_transport g = logged (http_request (recording c))"
    and s: "gs_world s = (\<lparr>hk_request_id = 0, hk_world = (w, [])\<rparr>, [])"
    by (auto simp: make_gateway_def)
  have "evolves (keeping (guarded g)) (run_gateway_ops g ops)"
    unfolding run_gateway_ops_def
    by (intro keeping.each keeping.try_act keeping.return run_gateway_op_guarded [OF g])
  from evolvesD [OF this assms(2)] s have "guarded g s'" by (simp add: keeping_def guarded_def log_of_def calls_def)
  moreover have "evolves (world_keeps (linked c)) (run_gateway_ops g ops)"
    unfolding run_gateway_ops_def
    by (intro keeping.each keeping.try_act keeping.return run_gateway_op_keeps) (simp add: g logged_http_links)
  from evolvesD [OF this assms(2)] s have "linked c (gs_world s')"
    by (simp add: keeping_def linked_def posts_numbered_def)
  ultimately show ?thesis by (simp add: guarded_def log_of_def)
qed

definition authorised :: "'w gateway \<Rightarrow> request \<Rightarrow> bool" where
  "authorised g e \<longleftrightarrow> (fst e = ''tools/call'' \<longrightarrow> allowed_call g e)"

text \<open>The clients' tool calls, and the calls of a log, by parameters and name header.\<close>

fun asked :: "gateway_op list \<Rightarrow> ((string \<times> json) list \<times> string option) list" where
  "asked [] = []"
| "asked (CallOp uuid nm args cid trace # ops) = ([(''name'', JStr nm), (''arguments'', JObj args)], Some nm) # asked ops"
| "asked (_ # ops) = asked ops"

definition call_content :: "request \<Rightarrow> (string \<times> json) list \<times> string option" where
  "call_content e = (case e of (m, ps, nm, hs) \<Rightarrow> (ps, nm))"

definition same_calls :: "('v \<times> request list) gateway_state \<Rightarrow> ('v \<times> request list) gateway_state \<Rightarrow> bool" where
  "same_calls s t \<longleftrightarrow> calls (log_of t) = calls (log_of s)"

interpretation same_calls: evolution same_calls
  by unfold_locales (simp_all add: same_calls_def)

lemma lists_same_calls: "evolves only_lists m \<Longrightarrow> evolves same_calls m"
  by (rule evolvesI) (auto simp: same_calls_def dest!: evolvesD only_lists_calls)

lemma op_calls:
  assumes g: "gt_transport g = logged tr" and run: "run_gateway_op g op s = (r, s')"
  shows "\<exists>cs. calls (log_of s') = calls (log_of s) @ cs \<and> subseq (map call_content cs) (asked [op])"
proof -
  have set: "evolves same_calls (act_modify (\<lambda>s. s\<lparr>gs_server := x, gs_catalog := y\<rparr>))" for x y
    by (rule evolves_modify) (simp add: same_calls_def log_of_def)
  have none: ?thesis if "evolves same_calls (run_gateway_op g op)"
    using evolvesD [OF that run] by (simp add: same_calls_def)
  show ?thesis
  proof (cases op)
    case OpenOp
    show ?thesis
      by (rule none, unfold OpenOp run_gateway_op.simps gateway_open_def Let_def)
        (intro same_calls.bind same_calls.of_result same_calls.read same_calls.return set
          lists_same_calls [OF discover_lists [OF g]] lists_same_calls [OF list_tools_lists [OF g]])
  next
    case RefreshOp
    show ?thesis
      by (rule none, unfold RefreshOp run_gateway_op.simps refresh_catalog_def)
        (intro same_calls.bind same_calls.of_result same_calls.read same_calls.return lists_same_calls [OF list_tools_lists [OF g]])
  next
    case (CallOp uuid nm args cid trace)
    with run obtain x where "gateway_call_tool g uuid nm args cid trace s = (x, s')"
      by (auto simp: act_bind_def act_return_def split: prod.splits sum.splits)
    from call_gate [OF g this] show ?thesis by (auto simp: CallOp permitted_call_def call_content_def)
  qed
qed

lemma ops_calls:
  assumes g: "gt_transport g = logged tr" and run: "run_gateway_ops g ops s = (r, s')"
  shows "\<exists>cs. calls (log_of s') = calls (log_of s) @ cs \<and> subseq (map call_content cs) (asked ops)"
  using run
proof (induction ops arbitrary: s)
  case Nil
  then show ?case by (simp add: run_gateway_ops_def act_return_def)
next
  case (Cons op ops)
  obtain x t where t: "run_gateway_op g op s = (x, t)" by (cases "run_gateway_op g op s")
  then have "run_gateway_ops g ops t = (r, s')"
    using Cons.prems by (cases x) (simp_all add: run_gateway_ops_def act_bind_def act_try_def act_return_def)
  from Cons.IH [OF this] op_calls [OF g t] obtain cs ds where
    "calls (log_of s') = (calls (log_of s) @ cs) @ ds" "subseq (map call_content cs) (asked [op])" "subseq (map call_content ds) (asked ops)" by metis
  moreover have "asked (op # ops) = asked [op] @ asked ops" by (cases op) simp_all
  ultimately show ?case by (intro exI [of _ "cs @ ds"]) (simp add: list_emb_append_mono)
qed

section \<open>A server that echoes\<close>

definition echo_http :: "unit mcp_http" where
  "echo_http = \<lparr>mx_endpoint = ''http://mcp'', mx_timeout = PyFloat False 1 1, mx_client_name = ''avp'', mx_client_version = ''1'',
     mx_trace = None, mx_post = (\<lambda>p w. (HttpResponse ''application/json'' (hp_body p), w)),
     mx_reader = \<lparr>tr_decode = (\<lambda>_. None), tr_loads = (\<lambda>_. None)\<rparr>,
     mx_loads = (\<lambda>_. Some (JObj [(''jsonrpc'', JStr ''2.0''), (''id'', JStr ''avp-mcp-1''), (''result'', JObj [])]))\<rparr>"

lemma first_request_id: "mcp_request_id (Suc 0) = ''avp-mcp-1''"
  by (simp add: mcp_request_id_def string_of_nat.simps digit_char_def) code_simp

lemma echo_runs: "\<exists>k. http_request echo_http ''server/discover'' [] None [] \<lparr>hk_request_id = 0, hk_world = ()\<rparr> = (Inr [], k)"
  by (simp add: http_request_def echo_http_def action_simps result_simps request_meta_def jget_none_def py_truthy_def
      add_trace_def read_response_def decode_json_body_def validate_response_def answers_def first_request_id)

section \<open>Properties\<close>

text \<open>C40: An answer is accepted only for the request it answers: when \<open>request\<close> returns a result, the counter has moved
  by one, the request with exactly that number was the post, under headers distinct up to case that start with the protocol's
  own, and the response to it was a document that names the request's id, carries no error, and has the returned value as its
  \<open>result\<close>.\<close>

theorem mcp_response_is_correlated:
  assumes "http_request c m ps nm extra k = (Inr result, k')"
  shows "hk_request_id k' = Suc (hk_request_id k) \<and> (\<exists>w meta hs ctype body v.
    let rid = mcp_request_id (hk_request_id k') in
    request_meta ps = Inr meta \<and> distinct_headers hs \<and> take (length (protocol_headers m nm)) hs = protocol_headers m nm \<and>
    mx_post c (the_post c rid m ps meta hs) w = (HttpResponse ctype body, hk_world k') \<and>
    body_document c rid ctype body v \<and> answers rid v \<and> jget v ''error'' = None \<and> jget v ''result'' = Some (JObj result))"
  using assms
proof (cases rule: http_request_cases)
  case (posted w w' meta hs out)
  from posted(6) have "read_response c (mcp_request_id (Suc (hk_request_id k))) out = Inr result" by simp
  then obtain ctype body v where "out = HttpResponse ctype body" "body_document c (mcp_request_id (Suc (hk_request_id k))) ctype body v"
    "answers (mcp_request_id (Suc (hk_request_id k))) v" "jget v ''error'' = None" "jget v ''result'' = Some (JObj result)"
    by (rule read_response_ok)
  with posted show ?thesis
    unfolding Let_def
    by (intro conjI exI [of _ w] exI [of _ meta] exI [of _ hs] exI [of _ ctype] exI [of _ body] exI [of _ v]) simp_all
qed simp

theorem mcp_response_is_correlated_witness:
  "\<exists>k. http_request echo_http ''server/discover'' [] None [] \<lparr>hk_request_id = 0, hk_world = ()\<rparr> = (Inr [], k) \<and> hk_request_id k = 1"
proof -
  obtain k where "http_request echo_http ''server/discover'' [] None [] \<lparr>hk_request_id = 0, hk_world = ()\<rparr> = (Inr [], k)"
    using echo_runs by blast
  with mcp_response_is_correlated [OF this] show ?thesis by auto
qed

text \<open>A server that numbers its answers: discovery, one listing, then results of calls.\<close>

definition count_result :: "nat \<Rightarrow> (string \<times> json) list" where
  "count_result n = (if n = 0 then [(''supportedVersions'', JList [JStr mcp_protocol_version]), (''capabilities'', JObj [(''tools'', JObj [])]),
       (''serverInfo'', JObj [(''name'', JStr ''s''), (''version'', JStr ''1'')])]
     else if n = 1 then demo_page else [(''content'', JList [])])"

definition count_http :: "nat mcp_http" where
  "count_http = \<lparr>mx_endpoint = ''http://mcp'', mx_timeout = PyFloat False 1 1, mx_client_name = ''avp'', mx_client_version = ''1'',
     mx_trace = None, mx_post = (\<lambda>p n. (HttpResponse ''application/json'' [word_of_nat n], Suc n)),
     mx_reader = \<lparr>tr_decode = (\<lambda>_. None), tr_loads = (\<lambda>_. None)\<rparr>,
     mx_loads = (\<lambda>b. Some (JObj [(''jsonrpc'', JStr ''2.0''), (''id'', JStr (mcp_request_id (Suc (unat (hd b))))),
       (''result'', JObj (count_result (unat (hd b))))]))\<rparr>"

definition count_gateway :: "nat wire gateway" where
  "count_gateway = \<lparr>gt_transport = logged (http_request (recording count_http)), gt_policy = \<lparr>mp_allowed_tools = [''echo''],
     mp_detect_schema_drift = False, mp_max_catalog_tools = 4, mp_max_catalog_pages = 1, mp_max_schema_depth = 3\<rparr>,
     gt_endpoint = ''http://mcp'', gt_schemas = demo_schemas\<rparr>"

definition count_state :: "nat \<Rightarrow> http_post list \<Rightarrow> request list \<Rightarrow> nat wire" where
  "count_state n posts sent = (\<lparr>hk_request_id = n, hk_world = (n, posts)\<rparr>, sent)"

lemma count_post:
  assumes "n < 3" "request_meta ps = Inr []"
  shows "gt_transport count_gateway m ps nm [] (count_state n posts sent) = (Inr (count_result n),
    count_state (Suc n) (posts @ [the_post count_http (mcp_request_id (Suc n)) m ps [] (protocol_headers m nm)]) (sent @ [(m, ps, nm, [])]))"
proof -
  from assms(1) have "unat (word_of_nat n :: 8 word) = n" by (simp add: unat_of_nat)
  with assms(2) show ?thesis
    by (simp add: count_gateway_def logged_def count_state_def http_request_def recording_def count_http_def action_simps add_trace_def
        read_response_def decode_json_body_def validate_response_def answers_def jget_none_def result_simps the_post_def client_meta_def)
qed

lemma count_upstream:
  assumes "n < 3" "request_meta ps = Inr []" "gs_world s = count_state n posts sent"
  shows "upstream count_gateway m ps nm [] s = (Inr (count_result n), s\<lparr>gs_world :=
    count_state (Suc n) (posts @ [the_post count_http (mcp_request_id (Suc n)) m ps [] (protocol_headers m nm)]) (sent @ [(m, ps, nm, [])])\<rparr>)"
  by (simp add: upstream_def act_zoom_def assms count_post [OF assms(1,2)])

definition count_start :: "nat wire gateway_state" where
  "count_start = \<lparr>gs_server = None, gs_catalog = None, gs_records = [], gs_world = count_state 0 [] []\<rparr>"

lemma count_made: "make_gateway (logged (http_request (recording count_http))) (gt_policy count_gateway) ''http://mcp'' demo_schemas
    (\<lparr>hk_request_id = 0, hk_world = (0, [])\<rparr>, []) = Inr (count_gateway, count_start)"
  by (simp add: make_gateway_def count_gateway_def count_start_def count_state_def result_simps)

lemma count_meta: "request_meta [] = Inr []" "request_meta [(''name'', x), (''arguments'', y)] = Inr []"
  by (simp_all add: request_meta_def jget_none_def py_truthy_def)

lemma count_discover:
  "\<exists>server post. discover count_gateway count_start = (Inr server, count_start\<lparr>gs_world := count_state 1 [post] [(''server/discover'', [], None, [])]\<rparr>) \<and>
     mv_supported_versions server = [mcp_protocol_version] \<and> mv_capabilities server = JObj [(''tools'', JObj [])]"
  by (simp add: discover_def action_simps count_upstream [where n = 0, OF _ count_meta(1)] count_start_def count_result_def all_strings_def
      make_mcp_server_def result_simps py_str_def) (rule exI, rule refl)

lemma count_list:
  assumes "gs_world s = count_state 1 posts sent"
  shows "\<exists>post. list_tools count_gateway s = (Inr demo_catalog, s\<lparr>gs_world := count_state 2 (posts @ [post]) (sent @ [(''tools/list'', [], None, [])])\<rparr>)"
proof -
  have "nat (mp_max_catalog_pages (gt_policy count_gateway)) = Suc 0" "mp_max_catalog_tools (gt_policy count_gateway) = 4"
    "mp_max_schema_depth (gt_policy count_gateway) = 3" "gt_schemas count_gateway = demo_schemas"
    by (simp_all add: count_gateway_def)
  then show ?thesis
    by (simp add: list_tools_def action_simps count_upstream [where n = 1, OF _ count_meta(1) assms] count_result_def
      result_simps page_fields_def jget_none_def in_strings_def parse_tool_def validate_schema_def
      validate_schema_depth.simps external_ref_def demo_schemas_def header_paths_of_def parse_icons_def py_truthy_def py_str_def
      make_mcp_tool_def make_mcp_catalog_def demo_catalog_def demo_tool_def demo_page_def numeral_2_eq_2)
      (rule exI, rule refl)
qed

text \<open>Opening posts two requests, and a call of \<open>echo\<close> the third.\<close>

lemma count_open:
  "\<exists>s posts. run_gateway_op count_gateway OpenOp count_start = (Inr (), s) \<and> gs_catalog s = Some demo_catalog \<and> gs_records s = [] \<and>
     gs_world s = count_state 2 posts [(''server/discover'', [], None, []), (''tools/list'', [], None, [])] \<and> length posts = 2"
proof -
  obtain server post where d: "discover count_gateway count_start =
      (Inr server, count_start\<lparr>gs_world := count_state 1 [post] [(''server/discover'', [], None, [])]\<rparr>)"
    "mv_supported_versions server = [mcp_protocol_version]" "mv_capabilities server = JObj [(''tools'', JObj [])]" using count_discover by blast
  let ?s = "count_start\<lparr>gs_world := count_state 1 [post] [(''server/discover'', [], None, [])]\<rparr>"
  from count_list [of ?s "[post]" "[(''server/discover'', [], None, [])]"] obtain post' where l: "list_tools count_gateway ?s =
      (Inr demo_catalog, ?s\<lparr>gs_world := count_state 2 [post, post'] [(''server/discover'', [], None, []), (''tools/list'', [], None, [])]\<rparr>)" by auto
  have "mp_allowed_tools (gt_policy count_gateway) = [''echo'']" by (simp add: count_gateway_def)
  with d l demo_fields(4) show ?thesis
    by (simp add: gateway_open_def action_simps result_simps gateway_describe_def count_start_def) (intro exI [of _ "[post, post']"], simp)
qed

lemma count_runs:
  "\<exists>r s' posts. run_gateway_ops count_gateway [OpenOp, CallOp ''u'' ''echo'' [] None []] count_start = (r, s') \<and>
     gs_world s' = count_state 3 posts [(''server/discover'', [], None, []), (''tools/list'', [], None, []),
       (''tools/call'', [(''name'', JStr ''echo''), (''arguments'', JObj [])], Some ''echo'', [])] \<and> length posts = 3"
proof -
  obtain s posts where o: "run_gateway_op count_gateway OpenOp count_start = (Inr (), s)" "gs_catalog s = Some demo_catalog" "gs_records s = []"
    "gs_world s = count_state 2 posts [(''server/discover'', [], None, []), (''tools/list'', [], None, [])]" "length posts = 2" using count_open by blast
  have f: "mp_allowed_tools (gt_policy count_gateway) = [''echo'']" "\<not> mp_detect_schema_drift (gt_policy count_gateway)"
    "validate_instance count_gateway v schema label = Inr ()" for v schema label
    by (simp_all add: count_gateway_def validate_instance_def demo_schemas_def)
  have "\<exists>post. \<exists>x s'. run_gateway_op count_gateway (CallOp ''u'' ''echo'' [] None []) s = (x, s') \<and> gs_world s' = count_state 3 (posts @ [post])
      [(''server/discover'', [], None, []), (''tools/list'', [], None, []),
       (''tools/call'', [(''name'', JStr ''echo''), (''arguments'', JObj [])], Some ''echo'', [])]"
    by (simp add: gateway_call_tool_def action_simps result_simps o f demo_fields send_call_def
        count_upstream [where n = 2, OF _ count_meta(2) o(4)] numeral_3_eq_3 count_result_def
        normalize_call_result_def jget_none_def record_call_def make_mcp_call_record_def Let_def) (rule exI, rule refl)
  then obtain post x s' where c: "run_gateway_op count_gateway (CallOp ''u'' ''echo'' [] None []) s = (x, s')" "gs_world s' = count_state 3 (posts @ [post])
      [(''server/discover'', [], None, []), (''tools/list'', [], None, []),
       (''tools/call'', [(''name'', JStr ''echo''), (''arguments'', JObj [])], Some ''echo'', [])]" by blast
  from o(1,5) c show ?thesis
    by (intro exI [of _ "Inr ()"] exI [of _ s'] exI [of _ "posts @ [post]"]) (cases x, simp_all add: run_gateway_ops_def act_bind_def act_try_def act_return_def)
qed

text \<open>C39: What the gateway puts on the wire, transport included. Whatever operations clients run on a fresh gateway, and however the
  network answers, every HTTP post is one of the requests the gateway handed to its transport, built from that request and numbered with its position
  among them, and the posts are in that order with none repeated; a request that is a \<open>tools/call\<close> names a tool the policy
  allows, and the tool calls requested are, in order and without additions, calls the clients asked for, with their name and arguments.\<close>

theorem wire_carries_only_allowed_calls:
  assumes "make_gateway (logged (http_request (recording c))) p endpoint schemas (\<lparr>hk_request_id = 0, hk_world = (w, [])\<rparr>, []) = Inr (g, s)"
    and "run_gateway_ops g ops s = (r, s')"
  shows "(\<exists>ns. sorted_wrt (<) ns \<and> (\<forall>n \<in> set ns. 1 \<le> n \<and> n \<le> length (snd (gs_world s'))) \<and>
      list_all2 (\<lambda>n post. carries c n (snd (gs_world s') ! (n - 1)) post) ns (snd (hk_world (fst (gs_world s'))))) \<and>
    list_all (authorised g) (snd (gs_world s')) \<and> subseq (map call_content (calls (snd (gs_world s')))) (asked ops)"
proof (intro conjI)
  from gateway_wire [OF assms] obtain ns where "posts_numbered c ns (snd (hk_world (fst (gs_world s')))) (snd (gs_world s'))"
    by (auto simp: linked_def)
  then show "\<exists>ns. sorted_wrt (<) ns \<and> (\<forall>n \<in> set ns. 1 \<le> n \<and> n \<le> length (snd (gs_world s'))) \<and>
      list_all2 (\<lambda>n post. carries c n (snd (gs_world s') ! (n - 1)) post) ns (snd (hk_world (fst (gs_world s'))))"
    unfolding posts_numbered_def by blast
  show "list_all (authorised g) (snd (gs_world s'))"
    using gateway_wire [OF assms] by (auto simp: authorised_def calls_def list_all_iff)
  from assms(1) have g: "gt_transport g = logged (http_request (recording c))" and s: "calls (log_of s) = []"
    by (auto simp: make_gateway_def log_of_def calls_def)
  from ops_calls [OF g assms(2)] s show "subseq (map call_content (calls (snd (gs_world s')))) (asked ops)" by (auto simp: log_of_def)
qed

text \<open>Three posts, the third of which is the call the client asked for.\<close>

theorem wire_carries_only_allowed_calls_witness:
  "\<exists>r s' posts e. run_gateway_ops count_gateway [OpenOp, CallOp ''u'' ''echo'' [] None []] count_start = (r, s') \<and>
     snd (hk_world (fst (gs_world s'))) = posts \<and> length posts = 3 \<and> calls (snd (gs_world s')) = [e] \<and> authorised count_gateway e \<and>
     subseq [call_content e] [([(''name'', JStr ''echo''), (''arguments'', JObj [])], Some ''echo'')] \<and>
     (\<exists>ns. sorted_wrt (<) ns \<and> list_all2 (\<lambda>n post. carries count_http n (snd (gs_world s') ! (n - 1)) post) ns posts)"
proof -
  let ?e = "(''tools/call'', [(''name'', JStr ''echo''), (''arguments'', JObj [])], Some ''echo'', [])"
  from count_runs obtain r s' posts where run: "run_gateway_ops count_gateway [OpenOp, CallOp ''u'' ''echo'' [] None []] count_start = (r, s')"
    "gs_world s' = count_state 3 posts [(''server/discover'', [], None, []), (''tools/list'', [], None, []), ?e]" "length posts = 3" by blast
  have e: "calls (snd (gs_world s')) = [?e]" "snd (hk_world (fst (gs_world s'))) = posts" "?e \<in> set (snd (gs_world s'))"
    by (simp_all add: run(2) count_state_def calls_def)
  note f = wire_carries_only_allowed_calls [OF count_made run(1)]
  from f e(3) have "authorised count_gateway ?e" by (simp add: list_all_iff)
  moreover have "subseq [call_content ?e] [([(''name'', JStr ''echo''), (''arguments'', JObj [])], Some ''echo'')]"
    using f [THEN conjunct2, THEN conjunct2] unfolding e(1) asked.simps list.map .
  moreover have "\<exists>ns. sorted_wrt (<) ns \<and> list_all2 (\<lambda>n post. carries count_http n (snd (gs_world s') ! (n - 1)) post) ns posts"
    using f [THEN conjunct1] unfolding e(2) by blast
  ultimately show ?thesis using run(1,3) e(1,2) by blast
qed

end
