(* ===== verification/AVP_FileStore.thy ===== *)
theory AVP_FileStore
  imports AVP_Artifacts
begin

text \<open>
  \<^verbatim>\<open>artifacts/filesystem.py\<close>: the store that publishes Artifacts as files below a root. Every operating system call
  is one step of a run: before it other processes may change the file system, and it may fail. What they do, which calls fail and which
  temporary names are tried are parameters. Directories have no contents of their own here, and whether the parent of a path resolves
  outside the root is a fact of the file system.
\<close>

section \<open>The file system\<close>

type_synonym path = "string list"

text \<open>A name of a file with its inode, a symbolic link to a file (or to nothing), or a directory.\<close>

datatype fs_node = RegularFile nat | Symlink "nat option" | Directory

record file_system =
  fs_nodes :: "path \<Rightarrow> fs_node option"
  fs_data :: "nat \<Rightarrow> bytes"
  fs_next :: nat
  fs_outside :: "path \<Rightarrow> bool"

text \<open>Exceptions of the store: its own and the library's, and the three kinds of \<open>OSError\<close> it tells apart.\<close>

datatype fs_exn = Raised exn | OsError string | OsFileExists string | OsFileNotFound string

record os_env =
  oe_fault :: "nat \<Rightarrow> string option"
  oe_interfere :: "nat \<Rightarrow> file_system \<Rightarrow> file_system"
  oe_names :: "nat \<Rightarrow> string list"

text \<open>A run of a method: the calls made so far, the file system, and its local variable \<open>published\<close>.\<close>

record fs_run =
  fr_clock :: nat
  fr_fs :: file_system
  fr_published :: bool

definition syscall :: "os_env \<Rightarrow> (file_system \<Rightarrow> (fs_exn + 'a) \<times> file_system) \<Rightarrow> (fs_run, fs_exn, 'a) action" where
  "syscall e f s =
     (let w = oe_interfere e (fr_clock s) (fr_fs s); s' = s\<lparr>fr_clock := Suc (fr_clock s), fr_fs := w\<rparr> in
      case oe_fault e (fr_clock s) of
        Some m \<Rightarrow> (Inl (OsError m), s')
      | None \<Rightarrow> (case f w of (r, w') \<Rightarrow> (r, s'\<lparr>fr_fs := w'\<rparr>)))"

definition act_lift :: "(exn, 'a) result \<Rightarrow> (fs_run, fs_exn, 'a) action" where
  "act_lift r s = (case r of Inl x \<Rightarrow> (Inl (Raised x), s) | Inr a \<Rightarrow> (Inr a, s))"

definition artifact_raise :: "artifact_error \<Rightarrow> (fs_run, fs_exn, 'a) action" where
  "artifact_raise x = act_raise (Raised (ArtifactExn x))"

section \<open>The calls\<close>

definition temp_path :: "string \<Rightarrow> path" where
  "temp_path nm = [''.tmp'', ''artifact-'' @ nm]"

text \<open>\<open>mkstemp\<close> takes the first name that is free.\<close>

definition os_mkstemp :: "string list \<Rightarrow> file_system \<Rightarrow> (fs_exn + path \<times> nat) \<times> file_system" where
  "os_mkstemp names w = (case List.find (\<lambda>nm. fs_nodes w (temp_path nm) = None) names of
     None \<Rightarrow> (Inl (OsFileExists ''[Errno 17] No usable temporary file name found''), w)
   | Some nm \<Rightarrow> (Inr (temp_path nm, fs_next w), w\<lparr>fs_nodes := (fs_nodes w)(temp_path nm \<mapsto> RegularFile (fs_next w)),
       fs_data := (fs_data w)(fs_next w := []), fs_next := Suc (fs_next w)\<rparr>))"

definition os_write :: "nat \<Rightarrow> bytes \<Rightarrow> file_system \<Rightarrow> (fs_exn + unit) \<times> file_system" where
  "os_write i bs w = (Inr (), w\<lparr>fs_data := (fs_data w)(i := fs_data w i @ bs)\<rparr>)"

text \<open>\<open>fsync\<close>, opening and closing a directory, and creating directories: they can fail, and change no file.\<close>

definition os_quiet :: "file_system \<Rightarrow> (fs_exn + unit) \<times> file_system" where
  "os_quiet w = (Inr (), w)"

text \<open>\<open>os.link\<close>: one more name for the file, unless the name exists.\<close>

definition os_link :: "path \<Rightarrow> path \<Rightarrow> file_system \<Rightarrow> (fs_exn + unit) \<times> file_system" where
  "os_link source target w = (case (fs_nodes w source, fs_nodes w target) of
     (None, _) \<Rightarrow> (Inl (OsFileNotFound ''[Errno 2] No such file or directory''), w)
   | (Some x, None) \<Rightarrow> (Inr (), w\<lparr>fs_nodes := (fs_nodes w)(target \<mapsto> x)\<rparr>)
   | _ \<Rightarrow> (Inl (OsFileExists ''[Errno 17] File exists''), w))"

text \<open>\<open>unlink(missing_ok=True)\<close>.\<close>

definition os_unlink :: "path \<Rightarrow> file_system \<Rightarrow> (fs_exn + unit) \<times> file_system" where
  "os_unlink p w = (if fs_nodes w p = Some Directory then (Inl (OsError ''[Errno 21] Is a directory''), w)
     else (Inr (), w\<lparr>fs_nodes := (fs_nodes w)(p := None)\<rparr>))"

definition os_is_symlink :: "path \<Rightarrow> file_system \<Rightarrow> (fs_exn + bool) \<times> file_system" where
  "os_is_symlink p w = (Inr (case fs_nodes w p of Some (Symlink _) \<Rightarrow> True | _ \<Rightarrow> False), w)"

definition os_exists :: "path \<Rightarrow> file_system \<Rightarrow> (fs_exn + bool) \<times> file_system" where
  "os_exists p w = (Inr (case fs_nodes w p of None \<Rightarrow> False | Some (Symlink None) \<Rightarrow> False | _ \<Rightarrow> True), w)"

definition os_open :: "path \<Rightarrow> file_system \<Rightarrow> (fs_exn + nat) \<times> file_system" where
  "os_open p w = (case fs_nodes w p of
     Some (RegularFile i) \<Rightarrow> (Inr i, w)
   | Some (Symlink (Some i)) \<Rightarrow> (Inr i, w)
   | Some Directory \<Rightarrow> (Inl (OsError ''[Errno 21] Is a directory''), w)
   | _ \<Rightarrow> (Inl (OsFileNotFound ''[Errno 2] No such file or directory''), w))"

text \<open>The reads up to the end of the file, from its start.\<close>

definition os_read :: "nat \<Rightarrow> file_system \<Rightarrow> (fs_exn + bytes) \<times> file_system" where
  "os_read i w = (Inr (fs_data w i), w)"

section \<open>The store\<close>

definition file_store_init :: "os_env \<Rightarrow> int \<Rightarrow> (fs_run, fs_exn, int) action" where
  "file_store_init e limit =
     act_bind (act_lift (validate_limit limit)) (\<lambda>l.
     act_bind (syscall e os_quiet) (\<lambda>_.
     act_bind (syscall e os_quiet) (\<lambda>_.
     act_bind (syscall e (os_is_symlink [''.tmp''])) (\<lambda>symlink.
     if symlink then artifact_raise (ArtifactStoreError ''artifact temporary directory must not be a symlink'')
     else act_return l))))"

definition object_path :: "string \<Rightarrow> path" where
  "object_path digest = (let h = drop 7 digest in [''sha256'', take 2 h, take 2 (drop 2 h), h])"

definition object_path_of :: "string \<Rightarrow> (fs_run, fs_exn, path) action" where
  "object_path_of digest = act_bind (act_lift (validate_sha256_digest digest)) (\<lambda>d. act_return (object_path d))"

definition assert_store_path :: "path \<Rightarrow> (fs_run, fs_exn, unit) action" where
  "assert_store_path p = act_bind (act_get (\<lambda>s. fs_outside (fr_fs s) p)) (\<lambda>outside.
     if outside then artifact_raise (ArtifactStoreError ''artifact path escapes configured store root'') else act_return ())"

definition check_content :: "bytes \<Rightarrow> string \<Rightarrow> int option \<Rightarrow> (fs_run, fs_exn, unit) action" where
  "check_content data expected_digest expected_size =
     (if sha256_id data \<noteq> expected_digest \<or> (case expected_size of None \<Rightarrow> False | Some n \<Rightarrow> int (length data) \<noteq> n)
      then artifact_raise (ArtifactIntegrityError (''artifact integrity mismatch for '' @ expected_digest @ '': size='' @
             string_of_int (int (length data)) @ '', digest='' @ sha256_id data))
      else act_return ())"

definition verify_handle :: "os_env \<Rightarrow> nat \<Rightarrow> string \<Rightarrow> int option \<Rightarrow> (fs_run, fs_exn, unit) action" where
  "verify_handle e i expected_digest expected_size =
     act_bind (syscall e (os_read i)) (\<lambda>data. check_content data expected_digest expected_size)"

definition not_found :: "string \<Rightarrow> (fs_run, fs_exn, 'a) action \<Rightarrow> (fs_run, fs_exn, 'a) action" where
  "not_found digest m = act_try m (\<lambda>x. case x of
     OsFileNotFound _ \<Rightarrow> artifact_raise (ArtifactNotFound (''artifact not found: '' @ digest)) | _ \<Rightarrow> act_raise x)"

definition verify_path :: "os_env \<Rightarrow> path \<Rightarrow> string \<Rightarrow> int option \<Rightarrow> (fs_run, fs_exn, unit) action" where
  "verify_path e p expected_digest expected_size =
     act_bind (assert_store_path p) (\<lambda>_.
     act_bind (syscall e (os_is_symlink p)) (\<lambda>symlink.
     if symlink then artifact_raise (ArtifactIntegrityError (''artifact path must not be a symlink: '' @ expected_digest))
     else not_found expected_digest (act_bind (syscall e (os_open p)) (\<lambda>i. verify_handle e i expected_digest expected_size))))"

definition fsync_directory :: "os_env \<Rightarrow> (fs_run, fs_exn, unit) action" where
  "fsync_directory e = act_bind (syscall e os_quiet) (\<lambda>_. syscall e os_quiet)"

section \<open>Publishing\<close>

text \<open>The loop over the stream: the bytes given to the hash so far stand for its state.\<close>

fun write_chunks :: "os_env \<Rightarrow> int \<Rightarrow> nat \<Rightarrow> bytes \<Rightarrow> bytes list \<Rightarrow> (fs_run, fs_exn, bytes) action" where
  "write_chunks e limit i hashed [] = act_return hashed"
| "write_chunks e limit i hashed (c # cs) =
     (if limit < int (length hashed + length c)
      then artifact_raise (ArtifactSizeLimitExceeded limit (int (length hashed + length c)))
      else act_bind (syscall e (os_write i c)) (\<lambda>_. write_chunks e limit i (hashed @ c) cs))"

text \<open>Linking the finished file under its identity; a file that is already there is verified and kept.\<close>

definition link_object :: "os_env \<Rightarrow> path \<Rightarrow> path \<Rightarrow> string \<Rightarrow> int \<Rightarrow> (fs_run, fs_exn, unit) action" where
  "link_object e temp target digest sz =
     act_try (act_bind (syscall e (os_link temp target)) (\<lambda>_.
              act_bind (act_modify (\<lambda>s. s\<lparr>fr_published := True\<rparr>)) (\<lambda>_. fsync_directory e)))
       (\<lambda>x. case x of OsFileExists _ \<Rightarrow> verify_path e target digest (Some sz) | _ \<Rightarrow> act_raise x)"

definition publish_file :: "os_env \<Rightarrow> int \<Rightarrow> bytes list \<Rightarrow> string \<Rightarrow> string option \<Rightarrow> path \<Rightarrow> nat \<Rightarrow> (fs_run, fs_exn, artifact_ref) action" where
  "publish_file e limit reads media_type expected temp i =
     act_bind (write_chunks e limit i [] (iter_stream reads)) (\<lambda>content.
     act_bind (syscall e os_quiet) (\<lambda>_.
     let actual = sha256_id content; sz = int (length content) in
     act_bind (act_lift (verify_expected_digest expected actual)) (\<lambda>_.
     act_bind (act_lift (make_artifact_ref actual sz media_type None)) (\<lambda>ref.
     act_bind (object_path_of actual) (\<lambda>target.
     act_bind (syscall e os_quiet) (\<lambda>_.
     act_bind (assert_store_path target) (\<lambda>_.
     act_bind (link_object e temp target actual sz) (\<lambda>_.
     act_bind (verify_path e target actual (Some sz)) (\<lambda>_.
     act_return ref)))))))))"

definition os_failure :: "fs_exn \<Rightarrow> fs_exn" where
  "os_failure x = (case x of Raised _ \<Rightarrow> x
     | OsError m \<Rightarrow> Raised (ArtifactExn (ArtifactStoreError (''artifact filesystem operation failed: '' @ m)))
     | OsFileExists m \<Rightarrow> Raised (ArtifactExn (ArtifactStoreError (''artifact filesystem operation failed: '' @ m)))
     | OsFileNotFound m \<Rightarrow> Raised (ArtifactExn (ArtifactStoreError (''artifact filesystem operation failed: '' @ m))))"

text \<open>The \<open>finally\<close> block: a cleanup that fails is reported only when it is the only failure of a publication.\<close>

definition remove_temp :: "os_env \<Rightarrow> path \<Rightarrow> fs_exn + 'a \<Rightarrow> (fs_run, fs_exn, 'a) action" where
  "remove_temp e temp r s = (case syscall e (os_unlink temp) s of
     (Inr _, s') \<Rightarrow> (r, s')
   | (Inl x, s') \<Rightarrow> if is_ok r \<and> fr_published s'
       then (Inl (Raised (ArtifactExn (ArtifactStoreError (''published artifact but failed to remove temp file: '' @
              (case x of OsError m \<Rightarrow> m | OsFileExists m \<Rightarrow> m | OsFileNotFound m \<Rightarrow> m | Raised y \<Rightarrow> exn_text y))))), s')
       else (r, s'))"

definition file_put_stream :: "os_env \<Rightarrow> int \<Rightarrow> bytes list \<Rightarrow> string \<Rightarrow> string option \<Rightarrow> (fs_run, fs_exn, artifact_ref) action" where
  "file_put_stream e limit reads media_type expected =
     act_bind (act_lift (validate_media_type media_type)) (\<lambda>_.
     act_bind (act_lift (validate_expected expected)) (\<lambda>_.
     act_bind (\<lambda>s. syscall e (os_mkstemp (oe_names e (fr_clock s))) s) (\<lambda>(temp, i).
     act_bind (act_modify (\<lambda>s. s\<lparr>fr_published := False\<rparr>)) (\<lambda>_.
     act_bind (act_attempt (act_try (publish_file e limit reads media_type expected temp i) (\<lambda>x. act_raise (os_failure x)))) (\<lambda>r.
     remove_temp e temp r)))))"

text \<open>The reads of a \<open>BytesIO\<close>.\<close>

function stream_reads :: "bytes \<Rightarrow> bytes list" where
  "stream_reads data = (if data = [] then [] else take 65536 data # stream_reads (drop 65536 data))"
  by pat_completeness auto
termination by (relation "measure length") auto

declare stream_reads.simps [simp del]

definition file_put_bytes :: "os_env \<Rightarrow> int \<Rightarrow> bytes \<Rightarrow> string \<Rightarrow> string option \<Rightarrow> (fs_run, fs_exn, artifact_ref) action" where
  "file_put_bytes e limit data media_type expected = file_put_stream e limit (stream_reads data) media_type expected"

section \<open>Reading\<close>

text \<open>The handle is the inode of the opened file: its path may since name another one.\<close>

definition file_open_reader :: "os_env \<Rightarrow> artifact_ref \<Rightarrow> (fs_run, fs_exn, nat) action" where
  "file_open_reader e ref =
     act_bind (object_path_of (ref_digest ref)) (\<lambda>p.
     act_bind (assert_store_path p) (\<lambda>_.
     act_bind (syscall e (os_is_symlink p)) (\<lambda>symlink.
     if symlink then artifact_raise (ArtifactIntegrityError (''artifact path must not be a symlink: '' @ ref_digest ref))
     else act_bind (not_found (ref_digest ref) (syscall e (os_open p))) (\<lambda>i.
       act_bind (verify_handle e i (ref_digest ref) (Some (ref_size ref))) (\<lambda>_.
       act_return i)))))"

definition file_get_bytes :: "os_env \<Rightarrow> artifact_ref \<Rightarrow> (fs_run, fs_exn, bytes) action" where
  "file_get_bytes e ref = act_bind (file_open_reader e ref) (\<lambda>i. syscall e (os_read i))"

definition file_contains :: "os_env \<Rightarrow> string \<Rightarrow> (fs_run, fs_exn, bool) action" where
  "file_contains e digest =
     act_bind (object_path_of digest) (\<lambda>p.
     act_bind (assert_store_path p) (\<lambda>_.
     act_bind (syscall e (os_exists p)) (\<lambda>found.
     act_bind (if found then act_return False else act_bind (syscall e (os_is_symlink p)) (\<lambda>symlink. act_return (\<not> symlink))) (\<lambda>absent.
     if absent then act_return False
     else act_bind (verify_path e p digest None) (\<lambda>_. act_return True)))))"

end
