(* ===== verification/AVP_FileStoreFacts.thy ===== *)
theory AVP_FileStoreFacts
  imports AVP_FileStore
begin

text \<open>
  Publication beside other processes, by rely and guarantee: as long as what the others do keeps published objects and leaves
  temporary files of this process alone, this process keeps published objects too, and what it publishes is what it was given. Run alone and
  without failing calls, the store behaves as the in-memory store.
\<close>

section \<open>Objects\<close>

text \<open>What the name \<open>x\<close> gives access to.\<close>

definition inode_of :: "fs_node \<Rightarrow> nat option" where
  "inode_of x = (case x of RegularFile i \<Rightarrow> Some i | Symlink j \<Rightarrow> j | Directory \<Rightarrow> None)"

text \<open>The order in which the objects of a store may evolve: what is there stays with its bytes, what is new is genuine.\<close>

definition keeps_objects :: "file_system \<Rightarrow> file_system \<Rightarrow> bool" where
  "keeps_objects w w' \<longleftrightarrow> (\<forall>d. is_sha256_text d \<longrightarrow>
     (\<forall>x. fs_nodes w (object_path d) = Some x \<longrightarrow> fs_nodes w' (object_path d) = Some x \<and>
        (\<forall>i. inode_of x = Some i \<longrightarrow> fs_data w' i = fs_data w i)) \<and>
     (\<forall>x. fs_nodes w (object_path d) = None \<longrightarrow> fs_nodes w' (object_path d) = Some x \<longrightarrow>
        (\<exists>i. x = RegularFile i \<and> sha256_id (fs_data w' i) = d)))"

lemma keeps_objects_refl: "keeps_objects w w"
  by (simp add: keeps_objects_def)

lemma keeps_objects_trans:
  assumes "keeps_objects u v" "keeps_objects v w"
  shows "keeps_objects u w"
  unfolding keeps_objects_def
proof (intro allI impI conjI)
  fix d x assume d: "is_sha256_text d" and x: "fs_nodes u (object_path d) = Some x"
  from assms(1) d x have v: "fs_nodes v (object_path d) = Some x" "\<And>i. inode_of x = Some i \<Longrightarrow> fs_data v i = fs_data u i"
    by (auto simp: keeps_objects_def)
  with assms(2) d show "fs_nodes w (object_path d) = Some x" by (auto simp: keeps_objects_def)
  fix i assume "inode_of x = Some i"
  with v assms(2) d show "fs_data w i = fs_data u i" by (auto simp: keeps_objects_def)
next
  fix d x assume d: "is_sha256_text d" and n: "fs_nodes u (object_path d) = None" and x: "fs_nodes w (object_path d) = Some x"
  show "\<exists>i. x = RegularFile i \<and> sha256_id (fs_data w i) = d"
  proof (cases "fs_nodes v (object_path d)")
    case None
    with assms(2) d x show ?thesis by (auto simp: keeps_objects_def)
  next
    case (Some y)
    with assms(1) d n obtain i where i: "y = RegularFile i" "sha256_id (fs_data v i) = d" by (auto simp: keeps_objects_def)
    from assms(2) d Some have "fs_nodes w (object_path d) = Some y" "\<And>j. inode_of y = Some j \<Longrightarrow> fs_data w j = fs_data v j"
      by (auto simp: keeps_objects_def)
    with x i show ?thesis by (auto simp: inode_of_def)
  qed
qed

text \<open>Every inode that has a name was allocated.\<close>

definition allocated :: "file_system \<Rightarrow> bool" where
  "allocated w \<longleftrightarrow> (\<forall>p x i. fs_nodes w p = Some x \<longrightarrow> inode_of x = Some i \<longrightarrow> i < fs_next w)"

text \<open>A temporary file of this process: no object is the same file.\<close>

definition private_file :: "path \<Rightarrow> nat \<Rightarrow> file_system \<Rightarrow> bool" where
  "private_file p i w \<longleftrightarrow> fs_nodes w p = Some (RegularFile i) \<and>
     (\<forall>d x. is_sha256_text d \<longrightarrow> fs_nodes w (object_path d) = Some x \<longrightarrow> inode_of x \<noteq> Some i)"

text \<open>The rely: other processes keep objects, allocation, and the temporary files under the names this process tries.\<close>

definition own_temp :: "os_env \<Rightarrow> path \<Rightarrow> bool" where
  "own_temp e p \<longleftrightarrow> (\<exists>n. p \<in> temp_path ` set (oe_names e n))"

definition polite :: "os_env \<Rightarrow> bool" where
  "polite e \<longleftrightarrow> (\<forall>n w. allocated w \<longrightarrow> keeps_objects w (oe_interfere e n w) \<and> allocated (oe_interfere e n w) \<and>
     (\<forall>p i. own_temp e p \<longrightarrow> fs_nodes w p = Some (RegularFile i) \<longrightarrow> fs_nodes (oe_interfere e n w) p = Some (RegularFile i) \<and>
        fs_data (oe_interfere e n w) i = fs_data w i \<and> (private_file p i w \<longrightarrow> private_file p i (oe_interfere e n w))))"

definition grows :: "fs_run \<Rightarrow> fs_run \<Rightarrow> bool" where
  "grows s t \<longleftrightarrow> (allocated (fr_fs s) \<longrightarrow> allocated (fr_fs t) \<and> keeps_objects (fr_fs s) (fr_fs t))"

interpretation grows: evolution grows
  by unfold_locales (auto simp: grows_def keeps_objects_refl elim: keeps_objects_trans)

text \<open>The part of a publication before the link, with the bytes written so far.\<close>

definition holds_temp :: "path \<Rightarrow> nat \<Rightarrow> bytes \<Rightarrow> file_system \<Rightarrow> bool" where
  "holds_temp p i data w \<longleftrightarrow> allocated w \<and> private_file p i w \<and> fs_data w i = data"

lemma temp_not_object: "temp_path nm \<noteq> object_path d"
  by (simp add: temp_path_def object_path_def Let_def)

lemma object_path_inject: "is_sha256_text d \<Longrightarrow> is_sha256_text d' \<Longrightarrow> object_path d = object_path d' \<Longrightarrow> d = d'"
proof -
  assume d: "is_sha256_text d" "is_sha256_text d'" "object_path d = object_path d'"
  then have "take 7 d = take 7 d'" "drop 7 d = drop 7 d'" by (simp_all add: is_sha256_text_def object_path_def Let_def)
  then show "d = d'" by (metis append_take_drop_id)
qed

lemma interfere_holds:
  assumes "polite e" "own_temp e p" "holds_temp p i data w"
  shows "holds_temp p i data (oe_interfere e n w)"
proof -
  from assms(3) have w: "allocated w" "fs_nodes w p = Some (RegularFile i)" "private_file p i w" "fs_data w i = data"
    by (simp_all add: holds_temp_def private_file_def)
  from assms(1) w(1) have "allocated (oe_interfere e n w)"
    "own_temp e p \<longrightarrow> fs_nodes w p = Some (RegularFile i) \<longrightarrow> fs_data (oe_interfere e n w) i = fs_data w i \<and>
      (private_file p i w \<longrightarrow> private_file p i (oe_interfere e n w))"
    by (simp_all add: polite_def)
  with w assms(2) show ?thesis by (simp add: holds_temp_def)
qed

lemma interfere_grows: "polite e \<Longrightarrow> allocated w \<Longrightarrow> allocated (oe_interfere e n w) \<and> keeps_objects w (oe_interfere e n w)"
  by (simp add: polite_def)

lemma syscall_cases:
  assumes "syscall e f s = (r, s')"
  obtains (fault) m where "r = Inl (OsError m)" "fr_fs s' = oe_interfere e (fr_clock s) (fr_fs s)"
  | (run) w' where "f (oe_interfere e (fr_clock s) (fr_fs s)) = (r, w')" "fr_fs s' = w'"
  using assms by (auto simp: syscall_def Let_def split: option.splits prod.splits)

lemma act_lift_of: "act_lift r = act_of (case r of Inl x \<Rightarrow> Inl (Raised x) | Inr a \<Rightarrow> Inr a)"
  by (intro ext) (simp add: act_lift_def act_of_def split: sum.split)

lemma act_lift_ok [simp]: "act_lift r s = (Inr a, t) \<longleftrightarrow> r = Inr a \<and> t = s"
  by (auto simp: act_lift_def split: sum.splits)

section \<open>Calls that change nothing\<close>

text \<open>A relation that survives what others do survives every check.\<close>

locale watched = evolution R for R :: "fs_run \<Rightarrow> fs_run \<Rightarrow> bool" +
  fixes e :: os_env
  assumes others: "fr_fs t = oe_interfere e n (fr_fs s) \<Longrightarrow> R s t"
begin

lemma quiet_syscall: "(\<And>w. snd (f w) = w) \<Longrightarrow> evolves R (syscall e f)"
  by (rule evolvesI, erule syscall_cases) (metis others snd_conv)+

lemma quiet_calls:
  "evolves R (syscall e os_quiet)" "evolves R (syscall e (os_is_symlink p))" "evolves R (syscall e (os_exists p))"
  "evolves R (syscall e (os_open p))" "evolves R (syscall e (os_read i))"
  by (rule quiet_syscall, simp add: os_quiet_def os_is_symlink_def os_exists_def os_open_def os_read_def
        split: option.splits fs_node.splits)+

lemma lifts: "evolves R (act_lift r)" "evolves R (artifact_raise x)"
  by (simp_all add: act_lift_of artifact_raise_def of_result raise_act)

lemma paths: "evolves R (object_path_of d)" "evolves R (assert_store_path p)"
  unfolding object_path_of_def assert_store_path_def by (intro rules lifts)+

lemma handles: "evolves R (check_content data d n)" "evolves R (verify_handle e i d n)"
  unfolding verify_handle_def check_content_def by (intro rules lifts quiet_calls)+

lemma guarded_not_found: "evolves R m \<Longrightarrow> evolves R (not_found d m)"
  unfolding not_found_def by (erule try_act) (simp add: raise_act lifts split: fs_exn.split)

lemma verifies: "evolves R (verify_path e p d n)"
  unfolding verify_path_def by (intro rules paths handles guarded_not_found lifts quiet_calls)

lemma synced: "evolves R (fsync_directory e)"
  unfolding fsync_directory_def by (intro rules quiet_calls)

lemma reads: "evolves R (file_open_reader e ref)" "evolves R (file_get_bytes e ref)" "evolves R (file_contains e d)"
  unfolding file_get_bytes_def file_open_reader_def file_contains_def
  by (intro rules paths handles verifies guarded_not_found lifts quiet_calls)+

end

definition holding :: "path \<Rightarrow> nat \<Rightarrow> bytes \<Rightarrow> fs_run \<Rightarrow> fs_run \<Rightarrow> bool" where
  "holding p i data s t \<longleftrightarrow> (holds_temp p i data (fr_fs s) \<longrightarrow> holds_temp p i data (fr_fs t) \<and> keeps_objects (fr_fs s) (fr_fs t))"

interpretation holding: evolution "holding p i data" for p i data
  by unfold_locales (auto simp: holding_def keeps_objects_refl elim: keeps_objects_trans)

lemma watched_grows: "polite e \<Longrightarrow> watched grows e"
  by unfold_locales (simp add: grows_def interfere_grows)

lemma watched_holding: "polite e \<Longrightarrow> own_temp e p \<Longrightarrow> watched (holding p i data) e"
  by unfold_locales (metis holding_def holds_temp_def interfere_grows interfere_holds)

section \<open>Verified objects\<close>

definition landed :: "string \<Rightarrow> int \<Rightarrow> file_system \<Rightarrow> bool" where
  "landed d n w \<longleftrightarrow> (\<exists>i. fs_nodes w (object_path d) = Some (RegularFile i) \<and> sha256_id (fs_data w i) = d \<and> int (length (fs_data w i)) = n)"

lemma landed_stays: "landed d n w \<Longrightarrow> is_sha256_text d \<Longrightarrow> keeps_objects w w' \<Longrightarrow> landed d n w'"
  by (fastforce simp: landed_def keeps_objects_def inode_of_def)

section \<open>Steps beside other processes\<close>

text \<open>Started in \<open>P\<close>, whatever the others do, \<open>m\<close> guarantees to keep objects and leaves \<open>Q\<close> when it returns.\<close>

definition sat :: "(fs_run \<Rightarrow> bool) \<Rightarrow> (fs_run, fs_exn, 'a) action \<Rightarrow> ('a \<Rightarrow> fs_run \<Rightarrow> bool) \<Rightarrow> bool" where
  "sat P m Q \<longleftrightarrow> (\<forall>s r t. P s \<longrightarrow> allocated (fr_fs s) \<longrightarrow> m s = (r, t) \<longrightarrow>
     allocated (fr_fs t) \<and> keeps_objects (fr_fs s) (fr_fs t) \<and> (\<forall>a. r = Inr a \<longrightarrow> Q a t))"

lemma satI:
  assumes "\<And>s r t. P s \<Longrightarrow> allocated (fr_fs s) \<Longrightarrow> m s = (r, t) \<Longrightarrow> allocated (fr_fs t) \<and> keeps_objects (fr_fs s) (fr_fs t)"
    and "\<And>s a t. P s \<Longrightarrow> allocated (fr_fs s) \<Longrightarrow> m s = (Inr a, t) \<Longrightarrow> Q a t"
  shows "sat P m Q"
  using assms unfolding sat_def by blast

lemma satD:
  assumes "sat P m Q" "P s" "allocated (fr_fs s)" "m s = (r, t)"
  shows "allocated (fr_fs t)" "keeps_objects (fr_fs s) (fr_fs t)" "r = Inr a \<Longrightarrow> Q a t"
  using assms unfolding sat_def by blast+

lemma sat_bind:
  assumes m: "sat P m Q" and f: "\<And>a. sat (Q a) (f a) R"
  shows "sat P (act_bind m f) R"
  unfolding sat_def
proof (intro allI impI)
  fix s r t assume P: "P s" "allocated (fr_fs s)" and run: "act_bind m f s = (r, t)"
  obtain x u where u: "m s = (x, u)" by (cases "m s")
  note d = satD [OF m P u]
  show "allocated (fr_fs t) \<and> keeps_objects (fr_fs s) (fr_fs t) \<and> (\<forall>a. r = Inr a \<longrightarrow> R a t)"
  proof (cases x)
    case (Inl e)
    with run u d show ?thesis by (auto simp: act_bind_def)
  next
    case (Inr a)
    with run u have "f a u = (r, t)" by (simp add: act_bind_def)
    from satD [OF f d(3) [OF Inr] d(1) this] keeps_objects_trans [OF d(2)] show ?thesis by blast
  qed
qed

lemma sat_try:
  assumes m: "sat P m Q" and h: "\<And>x. sat (\<lambda>_. True) (h x) Q"
  shows "sat P (act_try m h) Q"
  unfolding sat_def
proof (intro allI impI)
  fix s r t assume P: "P s" "allocated (fr_fs s)" and run: "act_try m h s = (r, t)"
  obtain x u where u: "m s = (x, u)" by (cases "m s")
  note d = satD [OF m P u]
  show "allocated (fr_fs t) \<and> keeps_objects (fr_fs s) (fr_fs t) \<and> (\<forall>a. r = Inr a \<longrightarrow> Q a t)"
  proof (cases x)
    case (Inl e)
    with run u have "h e u = (r, t)" by (simp add: act_try_def)
    from satD [OF h TrueI d(1) this] keeps_objects_trans [OF d(2)] show ?thesis by blast
  next
    case (Inr a)
    with run u d show ?thesis by (auto simp: act_try_def)
  qed
qed

lemma sat_mono: "sat P m Q \<Longrightarrow> (\<And>s. P' s \<Longrightarrow> P s) \<Longrightarrow> (\<And>a s. Q a s \<Longrightarrow> Q' a s) \<Longrightarrow> sat P' m Q'"
  unfolding sat_def by blast

lemma sat_return: "(\<And>s. P s \<Longrightarrow> Q a s) \<Longrightarrow> sat P (act_return a) Q"
  by (simp add: sat_def act_return_def keeps_objects_refl)

lemma sat_raise: "sat P (act_raise x) Q" "sat P (artifact_raise y) Q"
  by (simp_all add: sat_def act_raise_def artifact_raise_def keeps_objects_refl)

lemma sat_lift: "(\<And>a s. r = Inr a \<Longrightarrow> P s \<Longrightarrow> Q a s) \<Longrightarrow> sat P (act_lift r) Q"
  by (auto simp: sat_def act_lift_def keeps_objects_refl split: sum.splits)

lemma sat_modify: "(\<And>s. fr_fs (f s) = fr_fs s) \<Longrightarrow> (\<And>s. P s \<Longrightarrow> Q () (f s)) \<Longrightarrow> sat P (act_modify f) Q"
  by (auto simp: sat_def act_modify_def keeps_objects_refl)

lemma sat_assumed: "(b \<Longrightarrow> sat P m Q) \<Longrightarrow> sat (\<lambda>s. P s \<and> b) m Q"
  unfolding sat_def by blast

text \<open>What only depends on objects is stable.\<close>

lemma sat_grows:
  assumes "evolves grows m" "\<And>s t. P s \<Longrightarrow> allocated (fr_fs s) \<Longrightarrow> keeps_objects (fr_fs s) (fr_fs t) \<Longrightarrow> P t"
  shows "sat P m (\<lambda>_. P)"
  by (rule satI; drule evolvesD [OF assms(1)]) (auto simp: grows_def intro: assms(2))

lemma sat_landed: "evolves grows m \<Longrightarrow> is_sha256_text d \<Longrightarrow> sat (\<lambda>s. landed d n (fr_fs s)) m (\<lambda>_ s. landed d n (fr_fs s))"
  by (rule sat_grows) (auto intro: landed_stays)

lemma sat_any: "evolves grows m \<Longrightarrow> sat P m (\<lambda>_ _. True)"
  by (rule satI; drule evolvesD) (auto simp: grows_def)

abbreviation holds :: "path \<Rightarrow> nat \<Rightarrow> bytes \<Rightarrow> fs_run \<Rightarrow> bool" where
  "holds p i data s \<equiv> holds_temp p i data (fr_fs s)"

lemma sat_holding: "evolves (holding p i data) m \<Longrightarrow> sat (holds p i data) m (\<lambda>_. holds p i data)"
  by (rule satI; drule evolvesD) (auto simp: holding_def holds_temp_def)

lemma sat_syscall:
  assumes e: "polite e" and I: "\<And>s n. P s \<Longrightarrow> allocated (fr_fs s) \<Longrightarrow> J (oe_interfere e n (fr_fs s))"
    and f: "\<And>w r w'. J w \<Longrightarrow> allocated w \<Longrightarrow> f w = (r, w') \<Longrightarrow>
      allocated w' \<and> keeps_objects w w' \<and> (\<forall>a. r = Inr a \<longrightarrow> K a w')"
  shows "sat P (syscall e f) (\<lambda>a s. K a (fr_fs s))"
  unfolding sat_def
proof (intro allI impI)
  fix s r t assume P: "P s" "allocated (fr_fs s)" and run: "syscall e f s = (r, t)"
  let ?w = "oe_interfere e (fr_clock s) (fr_fs s)"
  note g = interfere_grows [OF e P(2), of "fr_clock s"]
  from run show "allocated (fr_fs t) \<and> keeps_objects (fr_fs s) (fr_fs t) \<and> (\<forall>a. r = Inr a \<longrightarrow> K a (fr_fs t))"
  proof (cases rule: syscall_cases)
    case (fault m)
    with g show ?thesis by simp
  next
    case (run w')
    from f [OF I [OF P] _ run(1)] g run(2) show ?thesis by (auto elim: keeps_objects_trans)
  qed
qed

section \<open>Publishing\<close>

lemma sat_mkstemp:
  assumes e: "polite e"
  shows "sat (\<lambda>_. True) (\<lambda>s. syscall e (os_mkstemp (oe_names e (fr_clock s))) s)
    (\<lambda>(p, i) s. own_temp e p \<and> p \<in> range temp_path \<and> holds p i [] s)"
proof -
  have f: "allocated w' \<and> keeps_objects w w' \<and>
      (\<forall>a. r = Inr a \<longrightarrow> (case a of (p, i) \<Rightarrow> own_temp e p \<and> p \<in> range temp_path \<and> holds_temp p i [] w'))"
    if w: "allocated w" and run: "os_mkstemp (oe_names e n) w = (r, w')" for w w' n and r :: "fs_exn + path \<times> nat"
  proof (cases "List.find (\<lambda>nm. fs_nodes w (temp_path nm) = None) (oe_names e n)")
    case None
    with w run show ?thesis by (auto simp: os_mkstemp_def keeps_objects_refl)
  next
    case (Some nm)
    with run have r: "r = Inr (temp_path nm, fs_next w)" and w': "w' = w\<lparr>fs_nodes := (fs_nodes w)(temp_path nm \<mapsto> RegularFile (fs_next w)),
       fs_data := (fs_data w)(fs_next w := []), fs_next := Suc (fs_next w)\<rparr>" by (simp_all add: os_mkstemp_def)
    from Some have "nm \<in> set (oe_names e n)" by (auto dest: find_Some_set)
    then have own: "own_temp e (temp_path nm)" by (auto simp: own_temp_def)
    have obj: "fs_nodes w' (object_path d) = fs_nodes w (object_path d)" for d
      using temp_not_object [of nm d] by (simp add: w')
    have used: "i < fs_next w" if "fs_nodes w (object_path d) = Some x" "inode_of x = Some i" for d x i
      using w that by (auto simp: allocated_def)
    have "allocated w'" using w by (auto simp: allocated_def w' inode_of_def less_SucI)
    moreover have "keeps_objects w w'" using used unfolding keeps_objects_def obj by (auto simp: w')
    moreover have "private_file (temp_path nm) (fs_next w) w'" using used unfolding private_file_def obj by (auto simp: w')
    ultimately show ?thesis using own r by (simp add: holds_temp_def w')
  qed
  have "sat (\<lambda>_. True) (syscall e (os_mkstemp (oe_names e n))) (\<lambda>a s. case a of (p, i) \<Rightarrow> own_temp e p \<and> p \<in> range temp_path \<and> holds_temp p i [] (fr_fs s))" for n
    by (rule sat_syscall [OF e, where J = "\<lambda>_. True"]) (use f in blast)+
  then show ?thesis unfolding sat_def by blast
qed

lemma sat_write:
  assumes e: "polite e" "own_temp e p"
  shows "sat (holds p i data) (syscall e (os_write i bs)) (\<lambda>_. holds p i (data @ bs))"
proof (rule sat_syscall [OF e(1), where J = "holds_temp p i data"])
  fix w r w' assume w: "holds_temp p i data w" and run: "os_write i bs w = (r, w')"
  then have w': "w' = w\<lparr>fs_data := (fs_data w)(i := data @ bs)\<rparr>" by (auto simp: os_write_def holds_temp_def)
  have "keeps_objects w w'" using w by (auto simp: keeps_objects_def w' holds_temp_def private_file_def)
  with w show "allocated w' \<and> keeps_objects w w' \<and> (\<forall>a. r = Inr a \<longrightarrow> holds_temp p i (data @ bs) w')"
    by (auto simp: w' holds_temp_def allocated_def private_file_def)
qed (rule interfere_holds [OF e])

lemma sat_chunks:
  assumes e: "polite e" "own_temp e p"
  shows "sat (holds p i hashed) (write_chunks e limit i hashed cs) (\<lambda>content s. content = hashed @ concat cs \<and> holds p i content s)"
proof (induction cs arbitrary: hashed)
  case (Cons c cs)
  have "sat (holds p i hashed) (act_bind (syscall e (os_write i c)) (\<lambda>_. write_chunks e limit i (hashed @ c) cs))
      (\<lambda>content s. content = hashed @ concat (c # cs) \<and> holds p i content s)"
    using Cons [of "hashed @ c"] by (intro sat_bind [OF sat_write [OF e]]) simp
  then show ?case by (simp add: sat_raise)
qed (simp add: sat_return)

text \<open>The new name of the finished file is genuine; an existing name stays.\<close>

lemma sat_link:
  assumes e: "polite e" "own_temp e p"
  shows "sat (holds p i data) (syscall e (os_link p (object_path (sha256_id data))))
    (\<lambda>_ s. landed (sha256_id data) (int (length data)) (fr_fs s))"
proof (rule sat_syscall [OF e(1), where J = "holds_temp p i data"])
  let ?t = "object_path (sha256_id data)"
  fix w r w' assume w: "holds_temp p i data w" and run: "os_link p ?t w = (r, w')"
  have p: "fs_nodes w p = Some (RegularFile i)" "fs_data w i = data" "allocated w"
    using w by (auto simp: holds_temp_def private_file_def)
  show "allocated w' \<and> keeps_objects w w' \<and> (\<forall>a. r = Inr a \<longrightarrow> landed (sha256_id data) (int (length data)) w')"
  proof (cases "fs_nodes w ?t")
    case None
    with run p have w': "w' = w\<lparr>fs_nodes := (fs_nodes w)(?t \<mapsto> RegularFile i)\<rparr>" by (simp add: os_link_def)
    have "allocated w'" using p by (auto simp: allocated_def w' inode_of_def)
    moreover have "keeps_objects w w'"
      unfolding keeps_objects_def
    proof (intro allI impI conjI)
      fix d x assume d: "is_sha256_text d" and x: "fs_nodes w (object_path d) = Some x"
      then show "fs_nodes w' (object_path d) = Some x" using None by (auto simp: w')
      show "fs_data w' j = fs_data w j" for j by (simp add: w')
    next
      fix d x assume d: "is_sha256_text d" "fs_nodes w (object_path d) = None" "fs_nodes w' (object_path d) = Some x"
      then have "object_path d = ?t" "x = RegularFile i" by (auto simp: w' split: if_splits)
      moreover from this(1) have "d = sha256_id data" using d(1) by (intro object_path_inject) simp_all
      ultimately show "\<exists>j. x = RegularFile j \<and> sha256_id (fs_data w' j) = d" using p by (simp add: w')
    qed
    ultimately show ?thesis using p by (auto simp: landed_def w')
  qed (use run p in \<open>auto simp: os_link_def keeps_objects_refl\<close>)
qed (rule interfere_holds [OF e])

text \<open>What a verification has seen stays.\<close>

lemma not_found_ok: "not_found d m s = (Inr a, t) \<longleftrightarrow> m s = (Inr a, t)"
  by (auto simp: not_found_def act_try_def artifact_raise_def act_raise_def split: prod.splits sum.splits fs_exn.splits)

lemma syscall_read:
  "syscall e (os_is_symlink p) s = (Inr b, t) \<Longrightarrow> b \<longleftrightarrow> (\<exists>j. fs_nodes (fr_fs t) p = Some (Symlink j))"
  "syscall e (os_open p) s = (Inr i, t) \<Longrightarrow> \<exists>x. fs_nodes (fr_fs t) p = Some x \<and> inode_of x = Some i"
  "syscall e (os_read i) s = (Inr data, t) \<Longrightarrow> data = fs_data (fr_fs t) i"
  by (erule syscall_cases; auto simp: os_is_symlink_def os_open_def os_read_def inode_of_def split: option.splits fs_node.splits)+

text \<open>A path that was no symbolic link and could be opened names a regular file, and keeps naming it.\<close>

lemma opened_regular:
  assumes e: "polite e" and d: "is_sha256_text d" and a: "allocated (fr_fs s)"
    and s1: "syscall e (os_is_symlink (object_path d)) s = (Inr False, s1)"
    and s2: "syscall e (os_open (object_path d)) s1 = (Inr i, s2)"
  shows "fs_nodes (fr_fs s2) (object_path d) = Some (RegularFile i)"
proof -
  note quiet = watched.quiet_calls [OF watched_grows [OF e]]
  from evolvesD [OF quiet(2) s1] a have a1: "allocated (fr_fs s1)" by (simp add: grows_def)
  with evolvesD [OF quiet(4) s2] have k: "keeps_objects (fr_fs s1) (fr_fs s2)" by (simp add: grows_def)
  from syscall_read(2) [OF s2] obtain x where x: "fs_nodes (fr_fs s2) (object_path d) = Some x" "inode_of x = Some i" by blast
  have "\<nexists>j. x = Symlink j"
  proof (cases "fs_nodes (fr_fs s1) (object_path d)")
    case None
    with k d x(1) show ?thesis by (auto simp: keeps_objects_def)
  next
    case (Some y)
    with k d x(1) have "y = x" by (auto simp: keeps_objects_def)
    with Some syscall_read(1) [OF s1] show ?thesis by auto
  qed
  with x show ?thesis by (cases x) (auto simp: inode_of_def)
qed

lemma verified_landed:
  assumes e: "polite e" and d: "is_sha256_text d" and a: "allocated (fr_fs s)" and run: "verify_path e (object_path d) d (Some n) s = (Inr (), t)"
  shows "landed d n (fr_fs t)"
proof -
  note quiet = watched.quiet_calls [OF watched_grows [OF e]]
  from run obtain s1 i s2 data s3 where s1: "syscall e (os_is_symlink (object_path d)) s = (Inr False, s1)"
    and s2: "syscall e (os_open (object_path d)) s1 = (Inr i, s2)" and s3: "syscall e (os_read i) s2 = (Inr data, s3)"
    and c: "check_content data d (Some n) s3 = (Inr (), t)"
    unfolding verify_path_def assert_store_path_def verify_handle_def
    by (elim act_bind_okE) (auto simp: artifact_raise_def act_raise_def act_get_def act_return_def not_found_ok split: if_splits elim!: act_bind_okE)
  from evolvesD [OF quiet(2) s1] evolvesD [OF quiet(4) s2] a have a2: "allocated (fr_fs s2)" by (simp add: grows_def)
  with evolvesD [OF quiet(5) s3] have k: "keeps_objects (fr_fs s2) (fr_fs s3)" by (simp add: grows_def)
  from k d opened_regular [OF e d a s1 s2] have "fs_nodes (fr_fs s3) (object_path d) = Some (RegularFile i)"
    by (simp add: keeps_objects_def)
  moreover from c have "t = s3" "sha256_id data = d" "int (length data) = n"
    by (auto simp: check_content_def artifact_raise_def act_raise_def act_return_def split: if_splits)
  ultimately show ?thesis using syscall_read(3) [OF s3] by (simp add: landed_def)
qed

lemma sat_verify:
  assumes "polite e" "is_sha256_text d"
  shows "sat (\<lambda>_. True) (verify_path e (object_path d) d (Some n)) (\<lambda>_ s. landed d n (fr_fs s))"
proof (rule satI)
  fix s r t assume "allocated (fr_fs s)" "verify_path e (object_path d) d (Some n) s = (r, t)"
  with evolvesD [OF watched.verifies [OF watched_grows [OF assms(1)]]]
  show "allocated (fr_fs t) \<and> keeps_objects (fr_fs s) (fr_fs t)" by (auto simp: grows_def)
qed (auto intro: verified_landed [OF assms])

lemma sat_link_object:
  assumes e: "polite e" "own_temp e p"
  shows "sat (holds p i data) (link_object e p (object_path (sha256_id data)) (sha256_id data) (int (length data)))
    (\<lambda>_ s. landed (sha256_id data) (int (length data)) (fr_fs s))"
  unfolding link_object_def
proof (rule sat_try)
  let ?L = "\<lambda>s. landed (sha256_id data) (int (length data)) (fr_fs s)"
  have "sat ?L (act_modify (\<lambda>s. s\<lparr>fr_published := True\<rparr>)) (\<lambda>_. ?L)" by (rule sat_modify) simp_all
  moreover have "sat ?L (fsync_directory e) (\<lambda>_. ?L)"
    by (rule sat_landed [OF watched.synced [OF watched_grows [OF e(1)]]]) simp
  ultimately show "sat (holds p i data) (act_bind (syscall e (os_link p (object_path (sha256_id data)))) (\<lambda>_.
      act_bind (act_modify (\<lambda>s. s\<lparr>fr_published := True\<rparr>)) (\<lambda>_. fsync_directory e))) (\<lambda>_. ?L)"
    by (rule sat_bind [OF sat_link [OF e] sat_bind])
  fix x :: fs_exn
  have "sat (\<lambda>_. True) (verify_path e (object_path (sha256_id data)) (sha256_id data) (Some (int (length data))))
      (\<lambda>_ s. landed (sha256_id data) (int (length data)) (fr_fs s))"
    by (rule sat_verify [OF e(1)]) simp
  then show "sat (\<lambda>_. True) (case x of OsFileExists _ \<Rightarrow> verify_path e (object_path (sha256_id data)) (sha256_id data) (Some (int (length data)))
        | _ \<Rightarrow> act_raise x) (\<lambda>_ s. landed (sha256_id data) (int (length data)) (fr_fs s))"
    by (simp add: sat_raise split: fs_exn.split)
qed

definition published_as :: "bytes \<Rightarrow> string \<Rightarrow> artifact_ref \<Rightarrow> file_system \<Rightarrow> bool" where
  "published_as content m ref w \<longleftrightarrow> ref = \<lparr>ref_digest = sha256_id content, ref_size = int (length content), ref_media_type = m, ref_uri = None\<rparr> \<and>
     landed (sha256_id content) (int (length content)) w"

lemma published_as_stays: "published_as content m ref w \<Longrightarrow> keeps_objects w w' \<Longrightarrow> published_as content m ref w'"
  by (auto simp: published_as_def intro: landed_stays)

lemma sat_publish:
  assumes e: "polite e" "own_temp e p"
  shows "sat (holds p i []) (publish_file e limit reads m expected p i) (\<lambda>ref s. published_as (concat (iter_stream reads)) m ref (fr_fs s))"
proof -
  let ?c = "concat (iter_stream reads)"
  note h = watched_holding [OF e]
  have link: "sat (holds p i ?c) (act_bind (link_object e p (object_path (sha256_id ?c)) (sha256_id ?c) (int (length ?c))) (\<lambda>_.
      act_bind (verify_path e (object_path (sha256_id ?c)) (sha256_id ?c) (Some (int (length ?c)))) (\<lambda>_. act_return ref)))
      (\<lambda>ref s. published_as ?c m ref (fr_fs s))"
    if "ref = \<lparr>ref_digest = sha256_id ?c, ref_size = int (length ?c), ref_media_type = m, ref_uri = None\<rparr>" for ref
    by (rule sat_bind [OF sat_link_object [OF e]], rule sat_bind [OF sat_landed [OF watched.verifies [OF watched_grows [OF e(1)]]]])
      (auto intro!: sat_return simp: published_as_def that)
  have quiet: "sat (holds p i ?c) (syscall e os_quiet) (\<lambda>_. holds p i ?c)"
    by (rule sat_holding [OF watched.quiet_calls(1) [OF h]])
  have ref: "sat (holds p i ?c) (act_lift (make_artifact_ref (sha256_id ?c) (int (length ?c)) m None)) (\<lambda>ref s. holds p i ?c s \<and>
      ref = \<lparr>ref_digest = sha256_id ?c, ref_size = int (length ?c), ref_media_type = m, ref_uri = None\<rparr>)"
    by (rule sat_lift) (simp add: make_artifact_ref_ok)
  have target: "sat (holds p i ?c) (object_path_of (sha256_id ?c)) (\<lambda>t s. holds p i ?c s \<and> t = object_path (sha256_id ?c))"
    unfolding object_path_of_def by (rule sat_bind [OF sat_lift [where Q = "\<lambda>d s. holds p i ?c s \<and> d = sha256_id ?c"]])
      (auto intro: sat_return)
  have rest: "sat (holds p i ?c) (act_bind (syscall e os_quiet) (\<lambda>_.
       act_bind (act_lift (verify_expected_digest expected (sha256_id ?c))) (\<lambda>_.
       act_bind (act_lift (make_artifact_ref (sha256_id ?c) (int (length ?c)) m None)) (\<lambda>ref.
       act_bind (object_path_of (sha256_id ?c)) (\<lambda>target.
       act_bind (syscall e os_quiet) (\<lambda>_. act_bind (assert_store_path target) (\<lambda>_.
       act_bind (link_object e p target (sha256_id ?c) (int (length ?c))) (\<lambda>_.
       act_bind (verify_path e target (sha256_id ?c) (Some (int (length ?c)))) (\<lambda>_. act_return ref))))))))) (\<lambda>ref s. published_as ?c m ref (fr_fs s))"
    by (rule sat_bind [OF quiet], rule sat_bind [OF sat_holding [OF watched.lifts(1) [OF h]]], rule sat_bind [OF ref], rule sat_assumed,
        rule sat_bind [OF target], rule sat_assumed, hypsubst, rule sat_bind [OF quiet],
        rule sat_bind [OF sat_holding [OF watched.paths(2) [OF h]]], rule link, rule refl)
  show ?thesis
    unfolding publish_file_def Let_def
    by (rule sat_bind [OF sat_chunks [OF e]], simp only: append_Nil conj_commute [where P = "_ = ?c"], rule sat_assumed, hypsubst, rule rest)
qed

lemma sat_attempt: "sat P m Q \<Longrightarrow> sat P (act_attempt m) (\<lambda>r s. \<forall>a. r = Inr a \<longrightarrow> Q a s)"
  by (auto simp: sat_def act_attempt_def split: prod.splits)

lemma unlink_temp: "os_unlink (temp_path nm) w = (r, w') \<Longrightarrow> allocated w \<Longrightarrow> allocated w' \<and> keeps_objects w w'"
proof -
  assume run: "os_unlink (temp_path nm) w = (r, w')" and w: "allocated w"
  show "allocated w' \<and> keeps_objects w w'"
  proof (cases "fs_nodes w (temp_path nm) = Some Directory")
    case False
    with run have w': "w' = w\<lparr>fs_nodes := (fs_nodes w)(temp_path nm := None)\<rparr>" by (simp add: os_unlink_def)
    have "fs_nodes w' (object_path d) = fs_nodes w (object_path d)" for d
      using temp_not_object [of nm d] by (simp add: w')
    then have "keeps_objects w w'" by (simp add: keeps_objects_def w')
    moreover have "allocated w'" using w by (auto simp: allocated_def w')
    ultimately show ?thesis by blast
  qed (use run w in \<open>simp add: os_unlink_def keeps_objects_refl\<close>)
qed

lemma sat_unlink:
  assumes e: "polite e"
  shows "sat (\<lambda>_. True) (syscall e (os_unlink (temp_path nm))) (\<lambda>_ _. True)"
  by (rule sat_syscall [OF e, where J = "\<lambda>_. True" and K = "\<lambda>_ _. True"]) (use unlink_temp in blast)+

lemma sat_remove_temp:
  assumes e: "polite e" and stable: "\<And>a s t. L a s \<Longrightarrow> keeps_objects (fr_fs s) (fr_fs t) \<Longrightarrow> L a t"
  shows "sat (\<lambda>s. \<forall>a. r = Inr a \<longrightarrow> L a s) (remove_temp e (temp_path nm) r) L"
  unfolding sat_def
proof (intro allI impI)
  fix s x t assume L: "\<forall>a. r = Inr a \<longrightarrow> L a s" and a: "allocated (fr_fs s)" and run: "remove_temp e (temp_path nm) r s = (x, t)"
  obtain y u where u: "syscall e (os_unlink (temp_path nm)) s = (y, u)" by (cases "syscall e (os_unlink (temp_path nm)) s")
  note d = satD(1,2) [OF sat_unlink [OF e] TrueI a u]
  from run u have "t = u" "x = r \<or> (\<exists>z. x = Inl z)" by (auto simp: remove_temp_def split: sum.splits if_splits)
  with L d stable show "allocated (fr_fs t) \<and> keeps_objects (fr_fs s) (fr_fs t) \<and> (\<forall>a. x = Inr a \<longrightarrow> L a t)" by blast
qed

lemma sat_put_stream:
  assumes e: "polite e"
  shows "sat (\<lambda>_. True) (file_put_stream e limit reads m expected) (\<lambda>ref s. published_as (concat (iter_stream reads)) m ref (fr_fs s))"
proof -
  let ?L = "\<lambda>ref s. published_as (concat (iter_stream reads)) m ref (fr_fs s)"
  have lift: "sat (\<lambda>_. True) (act_lift r) (\<lambda>_ _. True)" for r :: "(exn, 'a) result"
    by (rule sat_lift) simp
  have body: "sat (holds (temp_path nm) i []) (act_try (publish_file e limit reads m expected (temp_path nm) i) (\<lambda>x. act_raise (os_failure x))) ?L"
    if "own_temp e (temp_path nm)" for nm i
    by (rule sat_try [OF sat_publish [OF e that]]) (rule sat_raise)
  have modify: "sat (holds p i []) (act_modify (\<lambda>s. s\<lparr>fr_published := False\<rparr>)) (\<lambda>_. holds p i [])" for p i
    by (rule sat_modify) simp_all
  have rest: "sat (holds (temp_path nm) i []) (act_bind (act_modify (\<lambda>s. s\<lparr>fr_published := False\<rparr>)) (\<lambda>_.
     act_bind (act_attempt (act_try (publish_file e limit reads m expected (temp_path nm) i) (\<lambda>x. act_raise (os_failure x)))) (\<lambda>r.
     remove_temp e (temp_path nm) r))) ?L" if "own_temp e (temp_path nm)" for nm i
    by (rule sat_bind [OF modify sat_bind [OF sat_attempt [OF body [OF that]] sat_remove_temp [OF e published_as_stays]]])
  have split: "sat (case x of (p, i) \<Rightarrow> \<lambda>s. own_temp e p \<and> p \<in> range temp_path \<and> holds p i [] s) (case x of (p, i) \<Rightarrow> f p i) ?L"
    if "\<And>nm i. own_temp e (temp_path nm) \<Longrightarrow> sat (holds (temp_path nm) i []) (f (temp_path nm) i) ?L" for f and x :: "path \<times> nat"
    unfolding sat_def
  proof (intro allI impI)
    fix s r t assume h: "(case x of (p, i) \<Rightarrow> \<lambda>s. own_temp e p \<and> p \<in> range temp_path \<and> holds p i [] s) s" "allocated (fr_fs s)"
      and run: "(case x of (p, i) \<Rightarrow> f p i) s = (r, t)"
    from h(1) obtain nm i where x: "x = (temp_path nm, i)" "own_temp e (temp_path nm)" "holds (temp_path nm) i [] s" by (cases x) auto
    from run have "f (temp_path nm) i s = (r, t)" by (simp add: x(1))
    from satD [OF that [OF x(2)] x(3) h(2) this]
    show "allocated (fr_fs t) \<and> keeps_objects (fr_fs s) (fr_fs t) \<and> (\<forall>a. r = Inr a \<longrightarrow> ?L a t)" by blast
  qed
  show ?thesis
    unfolding file_put_stream_def
    by (rule sat_bind [OF lift], rule sat_bind [OF lift], rule sat_bind [OF sat_mkstemp [OF e]], rule split, erule rest)
qed

section \<open>Reading\<close>

text \<open>Started in \<open>P\<close>, the only errors of \<open>m\<close> are those of the operating system.\<close>

definition only_os :: "(fs_run \<Rightarrow> bool) \<Rightarrow> (fs_run, fs_exn, 'a) action \<Rightarrow> bool" where
  "only_os P m \<longleftrightarrow> (\<forall>s x t. P s \<longrightarrow> allocated (fr_fs s) \<longrightarrow> m s = (Inl x, t) \<longrightarrow> (\<exists>text. x = OsError text))"

lemma only_os_bind:
  assumes "only_os P m" "sat P m Q" "\<And>a. only_os (Q a) (f a)"
  shows "only_os P (act_bind m f)"
  unfolding only_os_def
proof (intro allI impI)
  fix s x t assume P: "P s" "allocated (fr_fs s)" and run: "act_bind m f s = (Inl x, t)"
  obtain r u where u: "m s = (r, u)" by (cases "m s")
  show "\<exists>text. x = OsError text"
  proof (cases r)
    case (Inl y)
    with run u P assms(1) show ?thesis by (auto simp: act_bind_def only_os_def)
  next
    case (Inr a)
    with run u have "f a u = (Inl x, t)" by (simp add: act_bind_def)
    with satD(1,3) [OF assms(2) P u] Inr assms(3) show ?thesis by (auto simp: only_os_def)
  qed
qed

lemma only_os_return: "only_os P (act_return a)"
  by (simp add: only_os_def act_return_def)

lemma only_os_syscall:
  assumes "\<And>s n. P s \<Longrightarrow> allocated (fr_fs s) \<Longrightarrow> J (oe_interfere e n (fr_fs s))" "\<And>w. J w \<Longrightarrow> is_ok (fst (f w))"
  shows "only_os P (syscall e f)"
  unfolding only_os_def
proof (intro allI impI)
  fix s x t assume P: "P s" "allocated (fr_fs s)" and run: "syscall e f s = (Inl x, t)"
  from run show "\<exists>text. x = OsError text"
  proof (cases rule: syscall_cases)
    case (run w')
    with assms(2) [OF assms(1) [OF P, of "fr_clock s"]] show ?thesis by (simp add: is_ok_def)
  qed simp
qed

definition landed_at :: "nat \<Rightarrow> string \<Rightarrow> int \<Rightarrow> file_system \<Rightarrow> bool" where
  "landed_at i d n w \<longleftrightarrow> fs_nodes w (object_path d) = Some (RegularFile i) \<and> sha256_id (fs_data w i) = d \<and> int (length (fs_data w i)) = n"

lemma landed_at_stays: "landed_at i d n w \<Longrightarrow> is_sha256_text d \<Longrightarrow> keeps_objects w w' \<Longrightarrow> landed_at i d n w'"
  by (auto simp: landed_at_def keeps_objects_def inode_of_def)

lemma landed_others: "polite e \<Longrightarrow> is_sha256_text d \<Longrightarrow> landed d n (fr_fs s) \<Longrightarrow> allocated (fr_fs s) \<Longrightarrow> landed d n (oe_interfere e k (fr_fs s))"
  "polite e \<Longrightarrow> is_sha256_text d \<Longrightarrow> landed_at i d n (fr_fs s) \<Longrightarrow> allocated (fr_fs s) \<Longrightarrow> landed_at i d n (oe_interfere e k (fr_fs s))"
  by (blast dest: interfere_grows intro: landed_stays landed_at_stays)+

lemma get_symlink:
  assumes "polite e" "is_sha256_text d"
  shows "sat (\<lambda>s. landed d n (fr_fs s)) (syscall e (os_is_symlink (object_path d))) (\<lambda>b s. landed d n (fr_fs s) \<and> b = False)"
    and "only_os (\<lambda>s. landed d n (fr_fs s)) (syscall e (os_is_symlink (object_path d)))"
proof -
  show "sat (\<lambda>s. landed d n (fr_fs s)) (syscall e (os_is_symlink (object_path d))) (\<lambda>b s. landed d n (fr_fs s) \<and> b = False)"
    by (rule sat_syscall [OF assms(1), where J = "landed d n" and K = "\<lambda>b w. landed d n w \<and> b = False"], erule (1) landed_others [OF assms])
      (auto simp: os_is_symlink_def keeps_objects_refl landed_def)
  show "only_os (\<lambda>s. landed d n (fr_fs s)) (syscall e (os_is_symlink (object_path d)))"
    by (rule only_os_syscall [where J = "landed d n"], erule (1) landed_others [OF assms]) (simp add: os_is_symlink_def is_ok_def)
qed

lemma get_open:
  assumes "polite e" "is_sha256_text d"
  shows "sat (\<lambda>s. landed d n (fr_fs s)) (syscall e (os_open (object_path d))) (\<lambda>i s. landed_at i d n (fr_fs s))"
    and "only_os (\<lambda>s. landed d n (fr_fs s)) (syscall e (os_open (object_path d)))"
proof -
  show "sat (\<lambda>s. landed d n (fr_fs s)) (syscall e (os_open (object_path d))) (\<lambda>i s. landed_at i d n (fr_fs s))"
    by (rule sat_syscall [OF assms(1), where J = "landed d n" and K = "\<lambda>i w. landed_at i d n w"], erule (1) landed_others [OF assms])
      (auto simp: os_open_def keeps_objects_refl landed_def landed_at_def)
  show "only_os (\<lambda>s. landed d n (fr_fs s)) (syscall e (os_open (object_path d)))"
    by (rule only_os_syscall [where J = "landed d n"], erule (1) landed_others [OF assms]) (auto simp: os_open_def is_ok_def landed_def)
qed

lemma get_read:
  assumes "polite e" "is_sha256_text d"
  shows "sat (\<lambda>s. landed_at i d n (fr_fs s)) (syscall e (os_read i))
      (\<lambda>data s. landed_at i d n (fr_fs s) \<and> (sha256_id data = d \<and> int (length data) = n))"
    and "only_os (\<lambda>s. landed_at i d n (fr_fs s)) (syscall e (os_read i))"
proof -
  show "sat (\<lambda>s. landed_at i d n (fr_fs s)) (syscall e (os_read i))
      (\<lambda>data s. landed_at i d n (fr_fs s) \<and> (sha256_id data = d \<and> int (length data) = n))"
    by (rule sat_syscall [OF assms(1), where J = "landed_at i d n" and K = "\<lambda>data w. landed_at i d n w \<and> (sha256_id data = d \<and> int (length data) = n)"],
        erule (1) landed_others [OF assms]) (auto simp: os_read_def keeps_objects_refl landed_at_def)
  show "only_os (\<lambda>s. landed_at i d n (fr_fs s)) (syscall e (os_read i))"
    by (rule only_os_syscall [where J = "landed_at i d n"], erule (1) landed_others [OF assms]) (simp add: os_read_def is_ok_def)
qed

lemma only_os_assumed: "(b \<Longrightarrow> only_os P m) \<Longrightarrow> only_os (\<lambda>s. P s \<and> b) m"
  unfolding only_os_def by blast

lemma get_verify:
  assumes "polite e" "is_sha256_text d"
  shows "sat (\<lambda>s. landed_at i d n (fr_fs s)) (verify_handle e i d (Some n)) (\<lambda>_ s. landed_at i d n (fr_fs s))"
    and "only_os (\<lambda>s. landed_at i d n (fr_fs s)) (verify_handle e i d (Some n))"
proof -
  have c: "check_content data d (Some n) = act_return ()" if "sha256_id data = d \<and> int (length data) = n" for data
    using that by (simp add: check_content_def)
  show "sat (\<lambda>s. landed_at i d n (fr_fs s)) (verify_handle e i d (Some n)) (\<lambda>_ s. landed_at i d n (fr_fs s))"
    unfolding verify_handle_def by (rule sat_bind [OF get_read(1) [OF assms]], rule sat_assumed) (simp add: c sat_return)
  show "only_os (\<lambda>s. landed_at i d n (fr_fs s)) (verify_handle e i d (Some n))"
    unfolding verify_handle_def
    by (rule only_os_bind [OF get_read(2,1) [OF assms]], rule only_os_assumed) (simp add: c only_os_return)
qed

text \<open>Whatever the others do meanwhile, an object that has landed is read, unless the operating system fails.\<close>

definition file_readable :: "artifact_ref \<Rightarrow> fs_run \<Rightarrow> bool" where
  "file_readable ref s \<longleftrightarrow> landed (ref_digest ref) (ref_size ref) (fr_fs s) \<and> \<not> fs_outside (fr_fs s) (object_path (ref_digest ref))"

lemma get_reader:
  assumes e: "polite e" and d: "is_sha256_text (ref_digest ref)"
  shows "sat (file_readable ref) (file_open_reader e ref) (\<lambda>i s. landed_at i (ref_digest ref) (ref_size ref) (fr_fs s))"
    and "only_os (file_readable ref) (file_open_reader e ref)"
proof -
  let ?d = "ref_digest ref" and ?n = "ref_size ref"
  let ?p = "object_path ?d"
  let ?L = "\<lambda>s. landed ?d ?n (fr_fs s)"
  have path: "object_path_of ?d = act_return ?p"
    using d by (intro ext) (simp add: object_path_of_def act_bind_def act_lift_def validate_sha256_digest_def)
  have inside: "sat (file_readable ref) (assert_store_path ?p) (\<lambda>_. ?L)" "only_os (file_readable ref) (assert_store_path ?p)"
    by (auto simp: sat_def only_os_def assert_store_path_def act_bind_def act_get_def act_return_def keeps_objects_refl file_readable_def)
  have found: "sat Q (not_found ?d m) R" if "sat Q m R" for Q R and m :: "(fs_run, fs_exn, nat) action"
    unfolding not_found_def by (rule sat_try [OF that]) (simp add: sat_raise split: fs_exn.split)
  have found': "only_os Q (not_found ?d m)" if "only_os Q m" for Q and m :: "(fs_run, fs_exn, nat) action"
    unfolding only_os_def
  proof (intro allI impI)
    fix s x t assume "Q s" "allocated (fr_fs s)" "not_found ?d m s = (Inl x, t)"
    with that show "\<exists>text. x = OsError text"
      by (cases "m s") (auto simp: only_os_def not_found_def act_try_def act_raise_def split: sum.splits fs_exn.splits)
  qed
  let ?open = "act_bind (not_found ?d (syscall e (os_open ?p))) (\<lambda>i. act_bind (verify_handle e i ?d (Some ?n)) (\<lambda>_. act_return i))"
  let ?rest = "\<lambda>symlink. if symlink then artifact_raise (ArtifactIntegrityError (''artifact path must not be a symlink: '' @ ?d)) else ?open"
  have ret: "sat (\<lambda>s. landed_at i ?d ?n (fr_fs s)) (act_return i) (\<lambda>j s. landed_at j ?d ?n (fr_fs s))" for i by (rule sat_return)
  have opened: "sat ?L ?open (\<lambda>i s. landed_at i ?d ?n (fr_fs s))" "only_os ?L ?open"
    by (rule sat_bind [OF found [OF get_open(1) [OF e d]] sat_bind [OF get_verify(1) [OF e d] ret]],
        rule only_os_bind [OF found' [OF get_open(2) [OF e d]] found [OF get_open(1) [OF e d]]
          only_os_bind [OF get_verify(2,1) [OF e d] only_os_return]])
  have rest: "sat (\<lambda>s. ?L s \<and> b = False) (?rest b) (\<lambda>i s. landed_at i ?d ?n (fr_fs s))" "only_os (\<lambda>s. ?L s \<and> b = False) (?rest b)" for b
    by (rule sat_assumed, simp add: opened(1)) (rule only_os_assumed, simp add: opened(2))
  have bound: "act_bind (act_return a) f = f a" for a and f :: "path \<Rightarrow> (fs_run, fs_exn, nat) action"
    by (intro ext) (simp add: act_bind_def act_return_def)
  show "sat (file_readable ref) (file_open_reader e ref) (\<lambda>i s. landed_at i ?d ?n (fr_fs s))"
    unfolding file_open_reader_def path bound by (rule sat_bind [OF inside(1) sat_bind [OF get_symlink(1) [OF e d] rest(1)]])
  show "only_os (file_readable ref) (file_open_reader e ref)"
    unfolding file_open_reader_def path bound
    by (rule only_os_bind [OF inside(2,1) only_os_bind [OF get_symlink(2,1) [OF e d] rest(2)]])
qed

lemma get_landed:
  assumes e: "polite e" and d: "is_sha256_text (ref_digest ref)" and s: "file_readable ref s" "allocated (fr_fs s)" and run: "file_get_bytes e ref s = (r, t)"
  shows "(\<exists>data. r = Inr data \<and> sha256_id data = ref_digest ref \<and> int (length data) = ref_size ref) \<or> (\<exists>text. r = Inl (OsError text))"
proof -
  have a: "sat (file_readable ref) (file_get_bytes e ref) (\<lambda>data s. sha256_id data = ref_digest ref \<and> int (length data) = ref_size ref)"
    unfolding file_get_bytes_def by (rule sat_bind [OF get_reader(1) [OF e d] sat_mono [OF get_read(1) [OF e d]]]) auto
  have b: "only_os (file_readable ref) (file_get_bytes e ref)"
    unfolding file_get_bytes_def by (rule only_os_bind [OF get_reader(2,1) [OF e d] get_read(2) [OF e d]])
  show ?thesis
  proof (cases r)
    case (Inl x)
    with b s run show ?thesis by (auto simp: only_os_def)
  next
    case (Inr data)
    with satD(3) [OF a s run] show ?thesis by blast
  qed
qed

end
