(* ===== verification/AVP_FileStoreProps.thy ===== *)
theory AVP_FileStoreProps
  imports AVP_FileStoreFacts
begin

text \<open>
  The filesystem store against the in-memory store, and the properties of the filesystem store.
\<close>

section \<open>Alone on the machine\<close>

definition solo :: "os_env \<Rightarrow> bool" where
  "solo e \<longleftrightarrow> oe_fault e = (\<lambda>_. None) \<and> oe_interfere e = (\<lambda>_ w. w)"

lemma solo_polite: "solo e \<Longrightarrow> polite e"
  by (simp add: solo_def polite_def keeps_objects_refl)

lemma solo_syscall: "solo e \<Longrightarrow> syscall e f s = (case f (fr_fs s) of (r, w) \<Rightarrow> (r, s\<lparr>fr_clock := Suc (fr_clock s), fr_fs := w\<rparr>))"
  by (simp add: syscall_def solo_def Let_def split: prod.split)

text \<open>The objects of a file system as an in-memory store.\<close>

definition store_of :: "int \<Rightarrow> file_system \<Rightarrow> memory_store" where
  "store_of limit w = \<lparr>ms_limit = limit, ms_objects = (\<lambda>d. if is_sha256_text d then
     map_option (fs_data w) (Option.bind (fs_nodes w (object_path d)) inode_of) else None)\<rparr>"

definition tidy :: "file_system \<Rightarrow> bool" where
  "tidy w \<longleftrightarrow> allocated w \<and> (\<forall>d. is_sha256_text d \<longrightarrow> \<not> fs_outside w (object_path d) \<and>
     (\<forall>x. fs_nodes w (object_path d) = Some x \<longrightarrow> (\<exists>i. x = RegularFile i \<and> sha256_id (fs_data w i) = d)))"

definition raised :: "(exn, 'a) result \<Rightarrow> fs_exn + 'a" where
  "raised r = (case r of Inl x \<Rightarrow> Inl (Raised x) | Inr a \<Rightarrow> Inr a)"

lemma raised_simps [simp]: "raised (Inl x) = Inl (Raised x)" "raised (Inr a) = Inr a"
  by (simp_all add: raised_def)

definition raised_content :: "(exn, bytes \<times> string) result \<Rightarrow> fs_exn + bytes" where
  "raised_content r = (case r of Inl x \<Rightarrow> Inl (Raised x) | Inr ca \<Rightarrow> Inr (fst ca))"

lemma raised_content_simps [simp]: "raised_content (Inl x) = Inl (Raised x)" "raised_content (Inr ca) = Inr (fst ca)"
  by (simp_all add: raised_content_def)

lemma act_lift_raised: "act_lift r s = (raised r, s)"
  by (simp add: act_lift_def raised_def split: sum.split)

definition with_data :: "fs_run \<Rightarrow> nat \<Rightarrow> nat \<Rightarrow> bytes \<Rightarrow> fs_run" where
  "with_data s k i bs = s\<lparr>fr_clock := k, fr_fs := (fr_fs s)\<lparr>fs_data := (fs_data (fr_fs s))(i := bs)\<rparr>\<rparr>"

lemma with_data_twice: "with_data (with_data s k i bs) k' i bs' = with_data s k' i bs'"
  by (simp add: with_data_def)

lemma write_solo:
  assumes "solo e"
  shows "\<exists>k bs. write_chunks e limit i h cs s = (raised_content (consume_chunks limit h cs), with_data s k i bs) \<and>
    (is_ok (consume_chunks limit h cs) \<longrightarrow> bs = fs_data (fr_fs s) i @ concat cs)"
proof (induction cs arbitrary: h s)
  case Nil
  show ?case by (intro exI [of _ "fr_clock s"] exI [of _ "fs_data (fr_fs s) i"]) (simp add: act_return_def with_data_def)
next
  case (Cons c cs)
  show ?case
  proof (cases "limit < int (length h + length c)")
    case True
    then show ?thesis by (intro exI [of _ "fr_clock s"] exI [of _ "fs_data (fr_fs s) i"])
      (simp add: artifact_raise_def act_raise_def is_ok_def Let_def with_data_def)
  next
    case False
    let ?s = "with_data s (Suc (fr_clock s)) i (fs_data (fr_fs s) i @ c)"
    from Cons.IH [of "h @ c" ?s] obtain k bs where r: "write_chunks e limit i (h @ c) cs ?s =
        (raised_content (consume_chunks limit (h @ c) cs), with_data s k i bs)"
      "is_ok (consume_chunks limit (h @ c) cs) \<Longrightarrow> bs = fs_data (fr_fs ?s) i @ concat cs" unfolding with_data_twice by blast
    have w: "syscall e (os_write i c) s = (Inr (), ?s)" using assms by (simp add: solo_syscall os_write_def with_data_def)
    from False r show ?thesis
      by (intro exI [of _ k] exI [of _ bs]) (simp add: act_bind_def w Let_def, simp add: with_data_def)
  qed
qed

lemma verify_solo:
  assumes "solo e" "fs_nodes (fr_fs s) (object_path d) = Some (RegularFile i)" "\<not> fs_outside (fr_fs s) (object_path d)"
    "sha256_id (fs_data (fr_fs s) i) = d" "int (length (fs_data (fr_fs s) i)) = n"
  shows "\<exists>k. verify_path e (object_path d) d (Some n) s = (Inr (), s\<lparr>fr_clock := k\<rparr>)"
  using assms by (simp add: verify_path_def assert_store_path_def act_bind_def act_get_def act_return_def solo_syscall os_is_symlink_def
      not_found_def act_try_def os_open_def verify_handle_def os_read_def check_content_def)
    (rule exI, rule refl)

lemma link_solo_new:
  assumes "solo e" "fs_nodes (fr_fs s) p = Some x" "fs_nodes (fr_fs s) t = None"
  shows "\<exists>k. link_object e p t d n s = (Inr (), s\<lparr>fr_clock := k, fr_published := True,
    fr_fs := (fr_fs s)\<lparr>fs_nodes := (fs_nodes (fr_fs s))(t \<mapsto> x)\<rparr>\<rparr>)"
  using assms by (simp add: link_object_def act_bind_def act_try_def act_modify_def solo_syscall os_link_def fsync_directory_def os_quiet_def)
    (cases s, auto)

lemma link_solo_old:
  assumes "solo e" "fs_nodes (fr_fs s) p = Some x" "fs_nodes (fr_fs s) (object_path d) = Some (RegularFile i)" "\<not> fs_outside (fr_fs s) (object_path d)"
    "sha256_id (fs_data (fr_fs s) i) = d" "int (length (fs_data (fr_fs s) i)) = n"
  shows "\<exists>k. link_object e p (object_path d) d n s = (Inr (), s\<lparr>fr_clock := k\<rparr>)"
proof -
  let ?s = "s\<lparr>fr_clock := Suc (fr_clock s)\<rparr>"
  from verify_solo [of e ?s d i n] assms obtain k where "verify_path e (object_path d) d (Some n) ?s = (Inr (), ?s\<lparr>fr_clock := k\<rparr>)" by auto
  with assms show ?thesis by (simp add: link_object_def act_bind_def act_try_def solo_syscall os_link_def) (rule exI, rule refl)
qed

section \<open>The same contract as the in-memory store\<close>

lemma consume_ok: "consume_chunks limit h cs = Inr (c, a) \<Longrightarrow> c = h @ concat cs \<and> a = sha256_id c \<and> (int (length h) \<le> limit \<longrightarrow> int (length c) \<le> limit)"
proof (induction cs arbitrary: h)
  case (Cons x cs)
  from Cons.prems Cons.IH [of "h @ x"] show ?case by (auto simp: Let_def split: if_splits)
qed simp

lemma memory_stream:
  assumes "validate_media_type m = Inr mm" "validate_expected expected = Inr u" "0 \<le> ms_limit M"
  shows "memory_put_stream reads m expected M = (case consume_stream reads (ms_limit M) of
     Inl x \<Rightarrow> (Inl x, M)
   | Inr (c, a) \<Rightarrow> (case verify_expected_digest expected a of
       Inl x \<Rightarrow> (Inl x, M)
     | Inr _ \<Rightarrow> memory_insert c \<lparr>ref_digest = a, ref_size = int (length c), ref_media_type = m, ref_uri = None\<rparr> M))"
proof -
  have m: "validate_media_type m = Inr m" using assms(1) by auto
  show ?thesis
  proof (cases "consume_stream reads (ms_limit M)")
  case (Inr ca)
  obtain c a where ca: "ca = (c, a)" by (cases ca)
  from Inr ca consume_ok [of "ms_limit M" "[]" "iter_stream reads" c a] assms(3)
  have c: "a = sha256_id c" "int (length c) \<le> ms_limit M" by (auto simp: consume_stream_def)
  have "memory_put_bytes c m (Some a) M = memory_insert c \<lparr>ref_digest = a, ref_size = int (length c), ref_media_type = m, ref_uri = None\<rparr> M"
    using c by (simp del: validate_media_type_ok add: m memory_put_bytes_def act_bind_def act_of_def act_read_def validate_expected_def verify_expected_digest_def
        validate_sha256_digest_def raise_if_def make_artifact_ref_def res_bind_def)
  with Inr ca assms(2,3) m show ?thesis
    by (simp del: validate_media_type_ok add: memory_put_stream_def act_bind_def act_of_def act_read_def split: sum.split)
  qed (use assms(2,3) m in \<open>simp del: validate_media_type_ok add: memory_put_stream_def act_bind_def act_of_def act_read_def\<close>)
qed

text \<open>What a temporary file adds to a file system, and its link as an object.\<close>

definition junk :: "string \<Rightarrow> fs_node option \<Rightarrow> bytes \<Rightarrow> file_system \<Rightarrow> file_system" where
  "junk nm y bs w = w\<lparr>fs_nodes := (fs_nodes w)(temp_path nm := y), fs_data := (fs_data w)(fs_next w := bs), fs_next := Suc (fs_next w)\<rparr>"

definition added :: "string \<Rightarrow> nat \<Rightarrow> file_system \<Rightarrow> file_system" where
  "added d i w = w\<lparr>fs_nodes := (fs_nodes w)(object_path d \<mapsto> RegularFile i)\<rparr>"

lemma tidy_object:
  assumes "tidy w" "is_sha256_text d" "fs_nodes w (object_path d) = Some x"
  obtains i where "x = RegularFile i" "sha256_id (fs_data w i) = d" "i < fs_next w"
proof -
  from assms obtain i where "x = RegularFile i" "sha256_id (fs_data w i) = d" by (auto simp: tidy_def)
  moreover from this assms have "i < fs_next w" by (auto simp: tidy_def allocated_def inode_of_def)
  ultimately show thesis by (rule that)
qed

lemma junk_object [simp]: "fs_nodes (junk nm y bs w) (object_path d) = fs_nodes w (object_path d)"
  "fs_outside (junk nm y bs w) = fs_outside w"
  using temp_not_object [of nm d] by (simp_all add: junk_def)

lemma junk_data: "i < fs_next w \<Longrightarrow> fs_data (junk nm y bs w) i = fs_data w i" "fs_data (junk nm y bs w) (fs_next w) = bs"
  by (simp_all add: junk_def)

lemma tidy_junk:
  assumes "tidy w" "y = None \<or> y = Some (RegularFile (fs_next w))"
  shows "tidy (junk nm y bs w)"
proof -
  have "allocated (junk nm y bs w)"
    unfolding allocated_def
  proof (intro allI impI)
    fix p x i assume x: "fs_nodes (junk nm y bs w) p = Some x" "inode_of x = Some i"
    show "i < fs_next (junk nm y bs w)"
    proof (cases "p = temp_path nm")
      case True
      with x assms(2) show ?thesis by (auto simp: junk_def inode_of_def)
    next
      case False
      with x assms(1) have "i < fs_next w" by (simp add: junk_def tidy_def allocated_def)
      then show ?thesis by (simp add: junk_def)
    qed
  qed
  moreover have "\<exists>i. x = RegularFile i \<and> sha256_id (fs_data (junk nm y bs w) i) = d"
    if "is_sha256_text d" "fs_nodes w (object_path d) = Some x" for d x
  proof -
    from tidy_object [OF assms(1) that] obtain i where "x = RegularFile i" "sha256_id (fs_data w i) = d" "i < fs_next w" .
    then show ?thesis by (intro exI [of _ i]) (simp add: junk_data)
  qed
  ultimately show ?thesis using assms(1) [unfolded tidy_def] unfolding tidy_def junk_object by blast
qed

lemma store_of_junk:
  assumes "tidy w"
  shows "store_of limit (junk nm y bs w) = store_of limit w"
proof -
  have "map_option (fs_data (junk nm y bs w)) (Option.bind (fs_nodes w (object_path d)) inode_of) =
      map_option (fs_data w) (Option.bind (fs_nodes w (object_path d)) inode_of)" if "is_sha256_text d" for d
  proof (cases "fs_nodes w (object_path d)")
    case (Some x)
    from tidy_object [OF assms that Some] obtain i where "x = RegularFile i" "i < fs_next w" .
    with Some show ?thesis by (simp add: inode_of_def junk_data)
  qed simp
  then show ?thesis unfolding store_of_def junk_object by (simp cong: if_cong)
qed

lemma added_object: "is_sha256_text d \<Longrightarrow> is_sha256_text d' \<Longrightarrow>
    fs_nodes (added d i w) (object_path d') = (if d' = d then Some (RegularFile i) else fs_nodes w (object_path d'))"
  using object_path_inject [of d' d] by (auto simp: added_def)

lemma store_of_added:
  assumes "is_sha256_text d"
  shows "store_of limit (added d i w) = (store_of limit w)\<lparr>ms_objects := (ms_objects (store_of limit w))(d \<mapsto> fs_data w i)\<rparr>"
proof -
  have data: "fs_data (added d i w) = fs_data w" by (simp add: added_def)
  show ?thesis unfolding store_of_def data using assms by (auto simp: added_object inode_of_def)
qed

lemma tidy_added:
  assumes "tidy w" "is_sha256_text d" "sha256_id (fs_data w i) = d" "i < fs_next w"
  shows "tidy (added d i w)"
proof -
  have "allocated (added d i w)" using assms by (auto simp: tidy_def allocated_def added_def inode_of_def)
  moreover have "fs_data (added d i w) = fs_data w" "fs_outside (added d i w) = fs_outside w" by (simp_all add: added_def)
  ultimately show ?thesis using assms by (auto simp: tidy_def added_object)
qed

text \<open>The outcome of a publication, and the file system it leaves.\<close>

definition put_outcome :: "bytes list \<Rightarrow> int \<Rightarrow> string \<Rightarrow> string option \<Rightarrow> (exn, artifact_ref) result" where
  "put_outcome reads limit m expected = (case consume_stream reads limit of Inl x \<Rightarrow> Inl x
     | Inr (c, a) \<Rightarrow> (case verify_expected_digest expected a of Inl x \<Rightarrow> Inl x
       | Inr _ \<Rightarrow> Inr \<lparr>ref_digest = a, ref_size = int (length c), ref_media_type = m, ref_uri = None\<rparr>))"

definition left_behind :: "string \<Rightarrow> fs_node option \<Rightarrow> bytes list \<Rightarrow> (exn, artifact_ref) result \<Rightarrow> file_system \<Rightarrow> file_system \<Rightarrow> bool" where
  "left_behind nm y reads r w w' \<longleftrightarrow> (let c = concat (iter_stream reads) in
     if is_ok r then w' = (if fs_nodes w (object_path (sha256_id c)) = None then added (sha256_id c) (fs_next w) (junk nm y c w) else junk nm y c w)
     else (\<exists>bs. w' = junk nm y bs w))"

lemma with_data_junk: "fr_fs t = junk nm y b w \<Longrightarrow> fr_fs (with_data t k (fs_next w) bs) = junk nm y bs w"
  by (simp add: with_data_def junk_def)

lemma publish_solo:
  assumes e: "solo e" and w: "tidy w" and t: "fr_fs t = junk nm (Some (RegularFile (fs_next w))) [] w"
    and m: "\<not> list_all is_space m" "length m \<le> 255"
    and same: "\<And>old. ms_objects (store_of limit w) (sha256_id (concat (iter_stream reads))) = Some old \<Longrightarrow> old = concat (iter_stream reads)"
  obtains t' where "publish_file e limit reads m expected (temp_path nm) (fs_next w) t = (raised (put_outcome reads limit m expected), t')"
    "left_behind nm (Some (RegularFile (fs_next w))) reads (put_outcome reads limit m expected) w (fr_fs t')"
proof -
  let ?c = "concat (iter_stream reads)" and ?i = "fs_next w" and ?y = "Some (RegularFile (fs_next w))"
  let ?d = "sha256_id ?c" and ?n = "int (length ?c)"
  obtain k bs where wr: "write_chunks e limit ?i [] (iter_stream reads) t = (raised_content (consume_stream reads limit), with_data t k ?i bs)"
    "is_ok (consume_stream reads limit) \<Longrightarrow> bs = fs_data (fr_fs t) ?i @ ?c"
    using write_solo [OF e, of limit ?i "[]" "iter_stream reads" t] unfolding consume_stream_def by blast
  show thesis
  proof (cases "consume_stream reads limit")
    case (Inl x)
    with wr(1) have "publish_file e limit reads m expected (temp_path nm) ?i t = (Inl (Raised x), with_data t k ?i bs)"
      by (simp add: publish_file_def act_bind_def)
    with Inl show thesis by (intro that) (auto simp: put_outcome_def left_behind_def is_ok_def with_data_junk [OF t])
  next
    case (Inr ca)
    with consume_ok [of limit "[]" "iter_stream reads"] have ca: "consume_stream reads limit = Inr (?c, ?d)"
      by (cases ca) (auto simp: consume_stream_def)
    with wr have wr: "write_chunks e limit ?i [] (iter_stream reads) t = (Inr ?c, with_data t k ?i ?c)" "fs_data (fr_fs t) ?i = []"
      by (simp_all add: is_ok_def t junk_def)
    let ?s = "(with_data t k ?i ?c)\<lparr>fr_clock := Suc k\<rparr>"
    have fs: "fr_fs ?s = junk nm ?y ?c w" using with_data_junk [OF t] by simp
    have sync: "syscall e os_quiet u = (Inr (), u\<lparr>fr_clock := Suc (fr_clock u)\<rparr>)" for u
      using e by (simp add: solo_syscall os_quiet_def)
    have first: "publish_file e limit reads m expected (temp_path nm) ?i t =
        act_bind (act_lift (verify_expected_digest expected ?d)) (\<lambda>_. act_bind (act_lift (make_artifact_ref ?d ?n m None)) (\<lambda>ref.
         act_bind (object_path_of ?d) (\<lambda>target. act_bind (syscall e os_quiet) (\<lambda>_. act_bind (assert_store_path target) (\<lambda>_.
         act_bind (link_object e (temp_path nm) target ?d ?n) (\<lambda>_. act_bind (verify_path e target ?d (Some ?n)) (\<lambda>_. act_return ref))))))) ?s"
      unfolding publish_file_def Let_def by (subst act_bind_def, simp only: wr(1) prod.case sum.case, subst act_bind_def) (simp add: sync with_data_def)
    show thesis
    proof (cases "verify_expected_digest expected ?d")
      case (Inl x)
      with first have "publish_file e limit reads m expected (temp_path nm) ?i t = (Inl (Raised x), ?s)"
        by (simp add: act_bind_def act_lift_raised)
      with Inl ca fs show thesis by (intro that) (auto simp: put_outcome_def left_behind_def is_ok_def)
    next
      case (Inr u)
      let ?ref = "\<lparr>ref_digest = ?d, ref_size = ?n, ref_media_type = m, ref_uri = None\<rparr>" and ?p = "object_path ?d"
      let ?v = "?s\<lparr>fr_clock := Suc (fr_clock ?s)\<rparr>"
      have out: "put_outcome reads limit m expected = Inr ?ref" using ca Inr by (simp add: put_outcome_def)
      have inside: "\<not> fs_outside w ?p" using w by (simp add: tidy_def)
      have ref: "make_artifact_ref ?d ?n m None = Inr ?ref" using m by (simp add: make_artifact_ref_ok)
      have fv: "fr_fs ?v = junk nm ?y ?c w" using fs by simp
      have second: "publish_file e limit reads m expected (temp_path nm) ?i t =
          act_bind (link_object e (temp_path nm) ?p ?d ?n) (\<lambda>_. act_bind (verify_path e ?p ?d (Some ?n)) (\<lambda>_. act_return ?ref)) ?v"
        unfolding first using Inr ref inside fv
        by (simp add: act_bind_def act_lift_raised object_path_of_def act_return_def sync assert_store_path_def act_get_def validate_sha256_digest_def)
      obtain v j where v: "link_object e (temp_path nm) ?p ?d ?n ?v = (Inr (), v)"
        "fr_fs v = (if fs_nodes w ?p = None then added ?d ?i (junk nm ?y ?c w) else junk nm ?y ?c w)"
        "fs_nodes (fr_fs v) ?p = Some (RegularFile j)" "fs_data (fr_fs v) j = ?c"
      proof (cases "fs_nodes w ?p")
        case None
        have "fs_nodes (fr_fs ?v) (temp_path nm) = Some (RegularFile ?i)" "fs_nodes (fr_fs ?v) ?p = None"
          unfolding fv using None by (simp_all add: junk_def not_sym [OF temp_not_object])
        from link_solo_new [OF e this] obtain k' where "link_object e (temp_path nm) ?p ?d ?n ?v =
            (Inr (), ?v\<lparr>fr_clock := k', fr_published := True, fr_fs := (fr_fs ?v)\<lparr>fs_nodes := (fs_nodes (fr_fs ?v))(?p \<mapsto> RegularFile ?i)\<rparr>\<rparr>)" by blast
        with None fv show thesis by (intro that) (auto simp: added_def junk_data not_sym [OF temp_not_object])
      next
        case (Some x)
        from tidy_object [OF w _ Some] obtain j where j: "x = RegularFile j" "sha256_id (fs_data w j) = ?d" "j < fs_next w" by auto
        with Some same [of "fs_data w j"] have c: "fs_data w j = ?c" by (simp add: store_of_def inode_of_def)
        have "fs_nodes (fr_fs ?v) (temp_path nm) = Some (RegularFile ?i)" "fs_nodes (fr_fs ?v) ?p = Some (RegularFile j)"
          "\<not> fs_outside (fr_fs ?v) ?p" "sha256_id (fs_data (fr_fs ?v) j) = ?d" "int (length (fs_data (fr_fs ?v) j)) = ?n"
          unfolding fv using Some j c inside by (simp_all add: junk_data) (simp add: junk_def not_sym [OF temp_not_object])
        from link_solo_old [OF e this] obtain k' where "link_object e (temp_path nm) ?p ?d ?n ?v = (Inr (), ?v\<lparr>fr_clock := k'\<rparr>)" by blast
        with Some j c fv show thesis by (intro that [of "?v\<lparr>fr_clock := k'\<rparr>" j]) (auto simp: junk_data)
      qed
      have "\<not> fs_outside (fr_fs v) ?p" using v(2) inside by (simp add: added_def)
      with verify_solo [OF e v(3)] v(4) obtain k' where "verify_path e ?p ?d (Some ?n) v = (Inr (), v\<lparr>fr_clock := k'\<rparr>)" by auto
      with second v(1) have "publish_file e limit reads m expected (temp_path nm) ?i t = (raised (Inr ?ref), v\<lparr>fr_clock := k'\<rparr>)"
        by (simp add: act_bind_def act_return_def)
      then show thesis using out v(2) by (intro that [of "v\<lparr>fr_clock := k'\<rparr>"]) (auto simp: left_behind_def is_ok_def Let_def)
    qed
  qed
qed

lemma unlinked_junk: "(junk nm y bs w)\<lparr>fs_nodes := (fs_nodes (junk nm y bs w))(temp_path nm := None)\<rparr> = junk nm None bs w"
  by (simp add: junk_def)

lemma unlinked_added: "(added d i w)\<lparr>fs_nodes := (fs_nodes (added d i w))(temp_path nm := None)\<rparr> =
    added d i (w\<lparr>fs_nodes := (fs_nodes w)(temp_path nm := None)\<rparr>)"
  by (simp add: added_def fun_upd_twist [OF temp_not_object])

lemma left_behind_unlinked:
  assumes "left_behind nm y reads r w w'"
  shows "left_behind nm None reads r w (w'\<lparr>fs_nodes := (fs_nodes w')(temp_path nm := None)\<rparr>)"
proof (cases "is_ok r")
  case False
  with assms obtain bs where "w' = junk nm y bs w" by (auto simp: left_behind_def Let_def)
  with False unlinked_junk [of nm y bs w] show ?thesis by (auto simp: left_behind_def Let_def)
next
  case True
  with assms show ?thesis
    by (auto simp: left_behind_def Let_def unlinked_junk unlinked_added split: if_splits)
qed

lemma remove_solo:
  assumes "solo e" "fs_nodes (fr_fs s) (temp_path nm) \<noteq> Some Directory"
  shows "remove_temp e (temp_path nm) r s = (r, s\<lparr>fr_clock := Suc (fr_clock s), fr_fs := (fr_fs s)\<lparr>fs_nodes := (fs_nodes (fr_fs s))(temp_path nm := None)\<rparr>\<rparr>)"
  using assms by (simp add: remove_temp_def solo_syscall os_unlink_def)

lemma put_solo:
  assumes e: "solo e" and w: "tidy (fr_fs s)" and m: "\<not> list_all is_space m" "length m \<le> 255" "validate_expected expected = Inr ()"
    and free: "\<exists>nm \<in> set (oe_names e (fr_clock s)). fs_nodes (fr_fs s) (temp_path nm) = None"
    and same: "\<And>old. ms_objects (store_of limit (fr_fs s)) (sha256_id (concat (iter_stream reads))) = Some old \<Longrightarrow> old = concat (iter_stream reads)"
  obtains nm s' where "file_put_stream e limit reads m expected s = (raised (put_outcome reads limit m expected), s')"
    "left_behind nm None reads (put_outcome reads limit m expected) (fr_fs s) (fr_fs s')"
proof -
  let ?w = "fr_fs s" and ?o = "put_outcome reads limit m expected"
  from free obtain nm where nm: "List.find (\<lambda>nm. fs_nodes ?w (temp_path nm) = None) (oe_names e (fr_clock s)) = Some nm"
    by (cases "List.find (\<lambda>nm. fs_nodes ?w (temp_path nm) = None) (oe_names e (fr_clock s))") (auto simp: find_None_iff)
  let ?t = "s\<lparr>fr_clock := Suc (fr_clock s), fr_fs := junk nm (Some (RegularFile (fs_next ?w))) [] ?w, fr_published := False\<rparr>"
  obtain t' where t': "publish_file e limit reads m expected (temp_path nm) (fs_next ?w) ?t = (raised ?o, t')"
    "left_behind nm (Some (RegularFile (fs_next ?w))) reads ?o ?w (fr_fs t')"
    by (rule publish_solo [OF e w _ m(1,2) same, of ?t nm]) simp_all
  have mk: "syscall e (os_mkstemp (oe_names e (fr_clock s))) s = (Inr (temp_path nm, fs_next ?w),
      s\<lparr>fr_clock := Suc (fr_clock s), fr_fs := junk nm (Some (RegularFile (fs_next ?w))) [] ?w\<rparr>)"
    using e nm by (simp add: solo_syscall os_mkstemp_def junk_def)
  have "fs_nodes (fr_fs t') (temp_path nm) \<noteq> Some Directory"
    using t'(2) temp_not_object [of nm] by (auto simp: left_behind_def Let_def junk_def added_def split: if_splits)
  note rm = remove_solo [OF e this]
  have tr: "act_try (publish_file e limit reads m expected (temp_path nm) (fs_next ?w)) (\<lambda>x. act_raise (os_failure x)) ?t = (raised ?o, t')"
    using t'(1) by (cases ?o) (simp_all add: act_try_def act_raise_def os_failure_def)
  have mt: "validate_media_type m = Inr m" using m by simp
  have "file_put_stream e limit reads m expected s = (raised ?o,
      t'\<lparr>fr_clock := Suc (fr_clock t'), fr_fs := (fr_fs t')\<lparr>fs_nodes := (fs_nodes (fr_fs t'))(temp_path nm := None)\<rparr>\<rparr>)"
    unfolding file_put_stream_def using mt m(3) mk tr rm
    by (simp del: validate_media_type_ok add: act_bind_def act_lift_raised act_modify_def act_attempt_def)
  with left_behind_unlinked [OF t'(2)] show thesis by (intro that) auto
qed

lemma put_outcome_ok:
  assumes "put_outcome reads limit m expected = Inr ref"
  shows "ref = \<lparr>ref_digest = sha256_id (concat (iter_stream reads)), ref_size = int (length (concat (iter_stream reads))),
    ref_media_type = m, ref_uri = None\<rparr>"
proof (cases "consume_stream reads limit")
  case (Inr ca)
  obtain c a where ca: "ca = (c, a)" by (cases ca)
  with Inr consume_ok [of limit "[]" "iter_stream reads" c a] have "c = concat (iter_stream reads)" "a = sha256_id c"
    by (simp_all add: consume_stream_def)
  with assms Inr ca show ?thesis by (cases "verify_expected_digest expected a") (simp_all add: put_outcome_def)
qed (use assms in \<open>simp add: put_outcome_def\<close>)

lemma memory_outcome:
  assumes "validate_media_type m = Inr mm" "validate_expected expected = Inr u" "0 \<le> ms_limit M"
  shows "memory_put_stream reads m expected M = (case put_outcome reads (ms_limit M) m expected of
     Inl x \<Rightarrow> (Inl x, M) | Inr ref \<Rightarrow> memory_insert (concat (iter_stream reads)) ref M)"
proof (cases "consume_stream reads (ms_limit M)")
  case (Inr ca)
  obtain c a where ca: "ca = (c, a)" by (cases ca)
  with Inr consume_ok [of "ms_limit M" "[]" "iter_stream reads" c a] have "c = concat (iter_stream reads)" by (simp add: consume_stream_def)
  with Inr ca show ?thesis
    unfolding memory_stream [OF assms] put_outcome_def by (cases "verify_expected_digest expected a") simp_all
qed (simp add: memory_stream [OF assms] put_outcome_def)

lemma put_refused:
  assumes "validate_media_type m = Inl x \<or> validate_media_type m = Inr m \<and> validate_expected expected = Inl x"
  shows "file_put_stream e limit reads m expected s = (Inl (Raised x), s)" "memory_put_stream reads m expected M = (Inl x, M)"
  using assms
  by (auto simp del: validate_media_type_ok simp: file_put_stream_def memory_put_stream_def act_bind_def act_lift_raised act_of_def)

text \<open>The outcome of a publication as a change of the objects.\<close>

lemma left_behind_objects:
  assumes w: "tidy w" and l: "left_behind nm None reads r w w'"
    and same: "\<And>old. ms_objects (store_of limit w) (sha256_id (concat (iter_stream reads))) = Some old \<Longrightarrow> old = concat (iter_stream reads)"
    and r: "\<And>ref. r = Inr ref \<Longrightarrow> ref_digest ref = sha256_id (concat (iter_stream reads))"
  shows "tidy w' \<and> (r, store_of limit w') = (case r of Inl x \<Rightarrow> (Inl x, store_of limit w)
    | Inr ref \<Rightarrow> memory_insert (concat (iter_stream reads)) ref (store_of limit w))"
proof (cases r)
  case (Inl x)
  with l obtain bs where "w' = junk nm None bs w" by (auto simp: left_behind_def is_ok_def Let_def)
  with Inl w show ?thesis by (simp add: tidy_junk store_of_junk)
next
  case (Inr ref)
  let ?c = "concat (iter_stream reads)" and ?M = "store_of limit w"
  from r [OF Inr] have ref: "ref_digest ref = sha256_id ?c" .
  have j: "tidy (junk nm None ?c w)" using w by (simp add: tidy_junk)
  show ?thesis
  proof (cases "fs_nodes w (object_path (sha256_id ?c))")
    case None
    with l Inr have w': "w' = added (sha256_id ?c) (fs_next w) (junk nm None ?c w)" by (simp add: left_behind_def is_ok_def Let_def)
    have "tidy w'" unfolding w' by (rule tidy_added [OF j]) (simp_all add: junk_data, simp add: junk_def)
    moreover have "ms_objects ?M (sha256_id ?c) = None" by (simp add: store_of_def None)
    ultimately show ?thesis
      unfolding Inr w' using store_of_added [of "sha256_id ?c" limit "fs_next w" "junk nm None ?c w"] store_of_junk [OF w]
      by (simp add: memory_insert_def ref junk_data)
  next
    case (Some x)
    with l Inr have w': "w' = junk nm None ?c w" by (simp add: left_behind_def is_ok_def Let_def)
    from tidy_object [OF w _ Some] obtain i where i: "x = RegularFile i" by auto
    with Some have "ms_objects ?M (sha256_id ?c) = Some (fs_data w i)" by (simp add: store_of_def inode_of_def)
    with same have "ms_objects ?M (sha256_id ?c) = Some ?c" by auto
    with w' j show ?thesis unfolding Inr by (simp add: memory_insert_def ref store_of_junk [OF w])
  qed
qed

text \<open>Alone and without failing calls, a publication does what the in-memory store does.\<close>

lemma solo_refines:
  assumes e: "solo e" and w: "tidy (fr_fs s)" and limit: "0 \<le> limit"
    and free: "\<exists>nm \<in> set (oe_names e (fr_clock s)). fs_nodes (fr_fs s) (temp_path nm) = None"
    and same: "\<And>old. ms_objects (store_of limit (fr_fs s)) (sha256_id (concat (iter_stream reads))) = Some old \<Longrightarrow> old = concat (iter_stream reads)"
    and run: "file_put_stream e limit reads m expected s = (r, s')"
  shows "tidy (fr_fs s') \<and> (r, store_of limit (fr_fs s')) = map_prod raised id (memory_put_stream reads m expected (store_of limit (fr_fs s)))"
proof (cases "\<exists>x. validate_media_type m = Inl x \<or> validate_media_type m = Inr m \<and> validate_expected expected = Inl x")
  case True
  then obtain x where "validate_media_type m = Inl x \<or> validate_media_type m = Inr m \<and> validate_expected expected = Inl x" ..
  from put_refused [OF this] run w show ?thesis by simp
next
  case False
  let ?w = "fr_fs s" and ?o = "put_outcome reads limit m expected"
  from False obtain mm where mt: "validate_media_type m = Inr mm" by (cases "validate_media_type m") simp_all
  then have m: "\<not> list_all is_space m" "length m \<le> 255" "mm = m" by auto
  with mt False have "validate_expected expected \<noteq> Inl x" for x by blast
  then have ve: "validate_expected expected = Inr ()" by (cases "validate_expected expected") auto
  obtain nm t where t: "file_put_stream e limit reads m expected s = (raised ?o, t)" "left_behind nm None reads ?o ?w (fr_fs t)"
    by (rule put_solo [OF e w m(1,2) ve free same])
  with run have r: "r = raised ?o" "s' = t" by simp_all
  have ml: "ms_limit (store_of limit ?w) = limit" by (simp add: store_of_def)
  have mem: "memory_put_stream reads m expected (store_of limit ?w) = (case ?o of Inl x \<Rightarrow> (Inl x, store_of limit ?w)
      | Inr ref \<Rightarrow> memory_insert (concat (iter_stream reads)) ref (store_of limit ?w))"
    using memory_outcome [OF mt ve, of "store_of limit ?w" reads] limit by (simp add: ml)
  have "tidy (fr_fs t) \<and> (?o, store_of limit (fr_fs t)) = memory_put_stream reads m expected (store_of limit ?w)"
    unfolding mem by (rule left_behind_objects [OF w t(2) same]) (auto dest: put_outcome_ok)
  then show ?thesis unfolding r by (metis id_apply map_prod_simp)
qed

section \<open>A busy machine\<close>

text \<open>Before every call another process publishes \<open>[7]\<close>, unless that is there.\<close>

definition intrude :: "file_system \<Rightarrow> file_system" where
  "intrude w = (let p = object_path (sha256_id [7]) in
     if fs_nodes w p \<noteq> None then w
     else w\<lparr>fs_nodes := (fs_nodes w)(p \<mapsto> RegularFile (fs_next w)), fs_data := (fs_data w)(fs_next w := [7]), fs_next := Suc (fs_next w)\<rparr>)"

definition busy :: os_env where
  "busy = \<lparr>oe_fault = \<lambda>_. None, oe_interfere = \<lambda>_. intrude, oe_names = \<lambda>_. [''a'']\<rparr>"

definition empty_run :: fs_run where
  "empty_run = \<lparr>fr_clock = 0, fr_fs = \<lparr>fs_nodes = \<lambda>_. None, fs_data = \<lambda>_. [], fs_next = 0, fs_outside = \<lambda>_. False\<rparr>, fr_published = False\<rparr>"

lemma empty_allocated: "allocated (fr_fs empty_run)" "tidy (fr_fs empty_run)"
  by (simp_all add: empty_run_def allocated_def tidy_def)

lemma busy_polite: "polite busy"
  unfolding polite_def busy_def os_env.simps
proof (intro allI impI conjI)
  fix w :: file_system assume w: "allocated w"
  let ?d = "sha256_id [7]"
  have used: "i < fs_next w" if "fs_nodes w p = Some x" "inode_of x = Some i" for p x i using w that by (auto simp: allocated_def)
  have obj: "fs_nodes (intrude w) (object_path d) = (if d = ?d \<and> fs_nodes w (object_path d) = None then Some (RegularFile (fs_next w)) else fs_nodes w (object_path d))"
    if "is_sha256_text d" for d
    using that object_path_inject [of d ?d] by (auto simp: intrude_def Let_def)
  have data: "fs_data (intrude w) i = fs_data w i" if "i < fs_next w" for i using that by (simp add: intrude_def Let_def)
  have new: "fs_data (intrude w) (fs_next w) = [7]" if "fs_nodes w (object_path ?d) = None" using that by (simp add: intrude_def Let_def)
  show "keeps_objects w (intrude w)"
    unfolding keeps_objects_def
  proof (intro allI impI conjI)
    fix d x assume d: "is_sha256_text d" and x: "fs_nodes w (object_path d) = Some x"
    show "fs_nodes (intrude w) (object_path d) = Some x" using obj [OF d] x by simp
    show "fs_data (intrude w) i = fs_data w i" if "inode_of x = Some i" for i using data used x that by simp
  next
    fix d x assume d: "is_sha256_text d" and n: "fs_nodes w (object_path d) = None" and x: "fs_nodes (intrude w) (object_path d) = Some x"
    with obj [OF d] have "d = ?d" "x = RegularFile (fs_next w)" by (auto split: if_splits)
    with new n show "\<exists>i. x = RegularFile i \<and> sha256_id (fs_data (intrude w) i) = d" by auto
  qed
  show "allocated (intrude w)" using used by (auto simp: allocated_def intrude_def Let_def inode_of_def less_SucI)
  fix p i assume p: "fs_nodes w p = Some (RegularFile i)"
  show "fs_nodes (intrude w) p = Some (RegularFile i)" using p by (auto simp: intrude_def Let_def)
  have i: "i < fs_next w" using used [OF p] by (simp add: inode_of_def)
  show "fs_data (intrude w) i = fs_data w i" by (rule data [OF i])
  assume "private_file p i w"
  then show "private_file p i (intrude w)"
    using obj i p unfolding private_file_def by (auto simp: intrude_def Let_def inode_of_def split: if_splits)
qed

definition quiet_env :: os_env where
  "quiet_env = \<lparr>oe_fault = \<lambda>_. None, oe_interfere = \<lambda>_ w. w, oe_names = \<lambda>_. [''a'']\<rparr>"

lemma quiet_solo: "solo quiet_env"
  by (simp add: solo_def quiet_env_def)

lemma quiet_put: "\<exists>s. file_put_stream quiet_env 8 [[1]] ''a/b'' None empty_run =
    (Inr \<lparr>ref_digest = sha256_id [1], ref_size = 1, ref_media_type = ''a/b'', ref_uri = None\<rparr>, s)"
proof -
  obtain r s where run: "file_put_stream quiet_env 8 [[1]] ''a/b'' None empty_run = (r, s)" by (rule prod.exhaust)
  let ?M = "store_of 8 (fr_fs empty_run)"
  have M: "ms_limit ?M = 8" "ms_objects ?M d = None" for d by (simp_all add: store_of_def empty_run_def)
  have free: "\<exists>nm \<in> set (oe_names quiet_env (fr_clock empty_run)). fs_nodes (fr_fs empty_run) (temp_path nm) = None"
    by (simp add: quiet_env_def empty_run_def)
  have "(r, store_of 8 (fr_fs s)) = map_prod raised id (memory_put_stream [[1]] ''a/b'' None ?M)"
    using solo_refines [OF quiet_solo empty_allocated(2) _ free _ run] M(2) by simp
  moreover have "memory_put_stream [[1]] ''a/b'' None ?M = memory_put_bytes [1] ''a/b'' None ?M"
    using put_stream_fits [of "[[1]]" ?M] by (simp add: iter_stream_def M(1))
  moreover have "\<exists>M'. memory_put_bytes [1] ''a/b'' None ?M = (Inr \<lparr>ref_digest = sha256_id [1], ref_size = 1, ref_media_type = ''a/b'', ref_uri = None\<rparr>, M')"
    by (simp add: memory_put_bytes_def act_bind_def act_of_def act_read_def validate_media_type_def is_space_def
        validate_expected_def raise_if_def verify_expected_digest_def make_artifact_ref_def res_bind_def
        validate_sha256_digest_def memory_insert_def M)
  ultimately show ?thesis using run by auto
qed

section \<open>Properties\<close>

text \<open>C11: Publication beside other processes, any of whose steps may fall between any two of its calls, and any of whose own calls may
  fail: whatever happens, objects that are in the store keep their bytes and what appears under an identity has that identity; and a
  reference that is returned names the published content, which is then in the store as a regular file.\<close>

theorem publication_keeps_objects:
  assumes "polite e" "allocated (fr_fs s)" "file_put_stream e limit reads m expected s = (r, s')"
  shows "keeps_objects (fr_fs s) (fr_fs s') \<and> (\<forall>ref. r = Inr ref \<longrightarrow> published_as (concat (iter_stream reads)) m ref (fr_fs s'))"
  using satD [OF sat_put_stream [OF assms(1)] TrueI assms(2,3)] by blast

theorem publication_keeps_objects_witness:
  "case file_put_stream busy 8 [[1]] ''a/b'' None empty_run of (r, s) \<Rightarrow> keeps_objects (fr_fs empty_run) (fr_fs s) \<and>
     (\<forall>ref. r = Inr ref \<longrightarrow> published_as [1] ''a/b'' ref (fr_fs s))"
proof -
  obtain r s where run: "file_put_stream busy 8 [[1]] ''a/b'' None empty_run = (r, s)" by (rule prod.exhaust)
  from publication_keeps_objects [OF busy_polite empty_allocated(1) run] show ?thesis by (simp add: run iter_stream_def)
qed

text \<open>A reader that is not disturbed while it reads, whatever happened before and whichever of its calls fail.\<close>

definition undisturbed :: "os_env \<Rightarrow> bool" where
  "undisturbed e \<longleftrightarrow> oe_interfere e = (\<lambda>_ w. w)"

lemma undisturbed_syscall: "undisturbed e \<Longrightarrow> syscall e f s = (case oe_fault e (fr_clock s) of
    Some m \<Rightarrow> (Inl (OsError m), s\<lparr>fr_clock := Suc (fr_clock s)\<rparr>)
  | None \<Rightarrow> (case f (fr_fs s) of (r, w) \<Rightarrow> (r, s\<lparr>fr_clock := Suc (fr_clock s), fr_fs := w\<rparr>)))"
  by (simp add: syscall_def undisturbed_def Let_def split: option.split)

lemma undisturbed_read:
  assumes "undisturbed e" "syscall e (os_read i) s = (Inr data, t)"
  shows "data = fs_data (fr_fs s) i \<and> fr_fs t = fr_fs s"
  using assms by (auto simp: undisturbed_syscall os_read_def split: option.splits)

lemma undisturbed_get:
  assumes e: "undisturbed e" and run: "file_get_bytes e ref s = (Inr data, t)"
  shows "sha256_id data = ref_digest ref \<and> int (length data) = ref_size ref"
proof -
  from run obtain i u where u: "file_open_reader e ref s = (Inr i, u)" "syscall e (os_read i) u = (Inr data, t)"
    unfolding file_get_bytes_def by (elim act_bind_okE)
  from u(1) obtain v where v: "verify_handle e i (ref_digest ref) (Some (ref_size ref)) v = (Inr (), u)"
    unfolding file_open_reader_def by (elim act_bind_okE) (auto simp: artifact_raise_def act_raise_def act_return_def split: if_splits elim!: act_bind_okE)
  then obtain checked w where w: "syscall e (os_read i) v = (Inr checked, w)" "check_content checked (ref_digest ref) (Some (ref_size ref)) w = (Inr (), u)"
    unfolding verify_handle_def by (elim act_bind_okE)
  from w(2) have c: "sha256_id checked = ref_digest ref" "int (length checked) = ref_size ref" "u = w"
    by (auto simp: check_content_def artifact_raise_def act_raise_def act_return_def split: if_splits)
  from undisturbed_read [OF e w(1)] undisturbed_read [OF e u(2)] c show ?thesis by simp
qed

text \<open>The reference a publication returns is about the given content, whatever others do meanwhile.\<close>

lemma write_chunks_content: "write_chunks e limit i hashed cs s = (Inr content, t) \<Longrightarrow> content = hashed @ concat cs"
proof (induction cs arbitrary: hashed s)
  case Nil
  then show ?case by (simp add: act_return_def)
next
  case (Cons c cs)
  then obtain u where "write_chunks e limit i (hashed @ c) cs u = (Inr content, t)"
    by (auto simp: artifact_raise_def act_raise_def split: if_splits elim!: act_bind_okE)
  from Cons.IH [OF this] show ?case by simp
qed

lemma publish_reference:
  assumes "publish_file e limit reads m expected temp i s = (Inr ref, t)"
  shows "ref_digest ref = sha256_id (concat (iter_stream reads)) \<and> ref_size ref = int (length (concat (iter_stream reads)))"
proof -
  from assms obtain content u v w where "write_chunks e limit i [] (iter_stream reads) s = (Inr content, u)"
    "act_lift (make_artifact_ref (sha256_id content) (int (length content)) m None) v = (Inr ref, w)"
    unfolding publish_file_def Let_def by (elim act_bind_okE) (auto simp: act_return_def)
  with write_chunks_content [of e limit i "[]"] show ?thesis by (auto simp: make_artifact_ref_def res_bind_def split: sum.splits if_splits)
qed

lemma put_reference:
  assumes "file_put_stream e limit reads m expected s = (Inr ref, t)"
  shows "ref_digest ref = sha256_id (concat (iter_stream reads)) \<and> ref_size ref = int (length (concat (iter_stream reads)))"
proof -
  from assms obtain temp i r u v where a: "act_attempt (act_try (publish_file e limit reads m expected temp i) (\<lambda>x. act_raise (os_failure x))) u = (Inr r, v)"
    "remove_temp e temp r v = (Inr ref, t)"
    unfolding file_put_stream_def by (elim act_bind_okE) (auto split: prod.splits elim!: act_bind_okE)
  from a(2) have "r = Inr ref" by (auto simp: remove_temp_def split: prod.splits sum.splits if_splits)
  with a(1) have "publish_file e limit reads m expected temp i u = (Inr ref, v)"
    by (auto simp: act_attempt_def act_try_def act_raise_def split: prod.splits sum.splits)
  then show ?thesis by (rule publish_reference)
qed

text \<open>What a reader finds under the name of an object.\<close>

definition read_outcome :: "file_system \<Rightarrow> artifact_ref \<Rightarrow> fs_exn + bytes \<Rightarrow> bool" where
  "read_outcome w ref r \<longleftrightarrow> (case fs_nodes w (object_path (ref_digest ref)) of
     None \<Rightarrow> (\<exists>m. r = Inl (Raised (ArtifactExn (ArtifactNotFound m))))
   | Some (Symlink _) \<Rightarrow> (\<exists>m. r = Inl (Raised (ArtifactExn (ArtifactIntegrityError m))))
   | Some Directory \<Rightarrow> (\<exists>m. r = Inl (OsError m))
   | Some (RegularFile i) \<Rightarrow>
       if sha256_id (fs_data w i) = ref_digest ref \<and> int (length (fs_data w i)) = ref_size ref then r = Inr (fs_data w i)
       else (\<exists>m. r = Inl (Raised (ArtifactExn (ArtifactIntegrityError m)))))"

lemma solo_get:
  assumes e: "solo e" and d: "is_sha256_text (ref_digest ref)" and inside: "\<not> fs_outside (fr_fs s) (object_path (ref_digest ref))"
    and run: "file_get_bytes e ref s = (r, t)"
  shows "read_outcome (fr_fs s) ref r"
proof -
  have path: "object_path_of (ref_digest ref) = act_return (object_path (ref_digest ref))"
    using d by (intro ext) (simp add: object_path_of_def act_bind_def act_lift_def validate_sha256_digest_def)
  note calls = file_get_bytes_def file_open_reader_def path assert_store_path_def act_bind_def act_get_def act_return_def solo_syscall [OF e]
    os_is_symlink_def not_found_def act_try_def os_open_def verify_handle_def os_read_def check_content_def artifact_raise_def act_raise_def
  show ?thesis
  proof (cases "fs_nodes (fr_fs s) (object_path (ref_digest ref))")
    case None
    with run inside show ?thesis by (simp add: read_outcome_def calls) blast
  next
    case (Some x)
    with run inside show ?thesis by (cases x; cases "inode_of x") (auto simp: read_outcome_def calls inode_of_def split: if_splits)
  qed
qed

text \<open>C12: A published Artifact reads back, and never as anything else. Let \<open>get_bytes\<close> be called with a reference a publication
  returned. If the other processes kept the store's objects during the publication and since, and keep them while it reads, it gives bytes of the
  published identity and size, or reports a failed operating system call. If they have done anything to the store before, but leave it alone while it
  reads, bytes that it gives still have that identity and size, even when its calls fail; and if they do not fail, an object
  that has been removed is reported as missing, and one that has been replaced by a link or whose bytes have been changed as damaged.\<close>

theorem published_file_reads_back:
  assumes "file_put_stream e limit reads m expected s = (Inr ref, s1)" "file_get_bytes e' ref s2 = (r, s3)"
  shows "(polite e \<and> allocated (fr_fs s) \<and> polite e' \<and> allocated (fr_fs s2) \<and> keeps_objects (fr_fs s1) (fr_fs s2) \<and>
      \<not> fs_outside (fr_fs s2) (object_path (ref_digest ref)) \<longrightarrow>
      (\<exists>data. r = Inr data \<and> sha256_id data = sha256_id (concat (iter_stream reads)) \<and> length data = length (concat (iter_stream reads))) \<or>
      (\<exists>text. r = Inl (OsError text))) \<and>
    (undisturbed e' \<longrightarrow> (\<forall>data. r = Inr data \<longrightarrow>
      sha256_id data = sha256_id (concat (iter_stream reads)) \<and> length data = length (concat (iter_stream reads)))) \<and>
    (solo e' \<and> \<not> fs_outside (fr_fs s2) (object_path (ref_digest ref)) \<longrightarrow> read_outcome (fr_fs s2) ref r)"
proof (intro conjI impI)
  note d = put_reference [OF assms(1)]
  then have is_id: "is_sha256_text (ref_digest ref)" by simp
  show "(\<exists>data. r = Inr data \<and> sha256_id data = sha256_id (concat (iter_stream reads)) \<and> length data = length (concat (iter_stream reads))) \<or>
      (\<exists>text. r = Inl (OsError text))"
    if h: "polite e \<and> allocated (fr_fs s) \<and> polite e' \<and> allocated (fr_fs s2) \<and> keeps_objects (fr_fs s1) (fr_fs s2) \<and>
      \<not> fs_outside (fr_fs s2) (object_path (ref_digest ref))"
  proof -
    from h have h': "polite e" "allocated (fr_fs s)" "polite e'" "allocated (fr_fs s2)" "keeps_objects (fr_fs s1) (fr_fs s2)"
      "\<not> fs_outside (fr_fs s2) (object_path (ref_digest ref))" by simp_all
    from satD(3) [OF sat_put_stream [OF h'(1)] TrueI h'(2) assms(1)] have "published_as (concat (iter_stream reads)) m ref (fr_fs s1)" by blast
    from published_as_stays [OF this h'(5)] h'(6) have "file_readable ref s2" by (auto simp: file_readable_def published_as_def)
    from get_landed [OF h'(3) is_id this h'(4) assms(2)] d show ?thesis by auto
  qed
  show "\<forall>data. r = Inr data \<longrightarrow> sha256_id data = sha256_id (concat (iter_stream reads)) \<and> length data = length (concat (iter_stream reads))"
    if "undisturbed e'"
    using undisturbed_get [OF that, of ref s2 _ s3] assms(2) d by auto
  show "read_outcome (fr_fs s2) ref r" if h: "solo e' \<and> \<not> fs_outside (fr_fs s2) (object_path (ref_digest ref))"
    using h by (intro solo_get [of e' ref s2 r s3] is_id assms(2)) simp_all
qed

text \<open>Published alone; read on the busy machine; read alone after the object was deleted, or its file overwritten.\<close>

theorem published_file_reads_back_witness:
  "\<exists>ref s1. file_put_stream quiet_env 8 [[1]] ''a/b'' None empty_run = (Inr ref, s1) \<and>
     (\<forall>r s3. file_get_bytes busy ref s1 = (r, s3) \<longrightarrow> \<not> fs_outside (fr_fs s1) (object_path (ref_digest ref)) \<longrightarrow>
       (\<exists>data. r = Inr data \<and> sha256_id data = sha256_id [1] \<and> length data = 1) \<or> (\<exists>text. r = Inl (OsError text))) \<and>
     (\<exists>m. fst (file_get_bytes quiet_env ref empty_run) = Inl (Raised (ArtifactExn (ArtifactNotFound m)))) \<and>
     (\<exists>m. fst (file_get_bytes quiet_env ref (empty_run\<lparr>fr_fs := (fr_fs empty_run)\<lparr>fs_nodes := [object_path (ref_digest ref) \<mapsto> RegularFile 0]\<rparr>\<rparr>)) =
       Inl (Raised (ArtifactExn (ArtifactIntegrityError m))))"
proof -
  let ?ref = "\<lparr>ref_digest = sha256_id [1], ref_size = 1, ref_media_type = ''a/b'', ref_uri = None\<rparr>"
  let ?bad = "empty_run\<lparr>fr_fs := (fr_fs empty_run)\<lparr>fs_nodes := [object_path (ref_digest ?ref) \<mapsto> RegularFile 0]\<rparr>\<rparr>"
  from quiet_put obtain s1 where s1: "file_put_stream quiet_env 8 [[1]] ''a/b'' None empty_run = (Inr ?ref, s1)" by blast
  from satD(1) [OF sat_put_stream [OF solo_polite [OF quiet_solo]] TrueI empty_allocated(1) s1] have s1a: "allocated (fr_fs s1)" .
  note reread = published_file_reads_back [OF s1]
  obtain r s3 where gone: "file_get_bytes quiet_env ?ref empty_run = (r, s3)" by (rule prod.exhaust)
  obtain q s4 where bad: "file_get_bytes quiet_env ?ref ?bad = (q, s4)" by (rule prod.exhaust)
  from reread [OF gone] quiet_solo have "read_outcome (fr_fs empty_run) ?ref r" by (simp add: empty_run_def)
  then have r: "\<exists>m. fst (file_get_bytes quiet_env ?ref empty_run) = Inl (Raised (ArtifactExn (ArtifactNotFound m)))"
    unfolding gone by (simp add: read_outcome_def empty_run_def)
  from reread [OF bad] quiet_solo have "read_outcome (fr_fs ?bad) ?ref q" by (simp add: empty_run_def)
  then have q: "\<exists>m. fst (file_get_bytes quiet_env ?ref ?bad) = Inl (Raised (ArtifactExn (ArtifactIntegrityError m)))"
    unfolding bad by (simp add: read_outcome_def empty_run_def)
  show ?thesis
  proof (intro exI [of _ ?ref] exI [of _ s1] conjI allI impI s1)
    fix x s5 assume "file_get_bytes busy ?ref s1 = (x, s5)" "\<not> fs_outside (fr_fs s1) (object_path (ref_digest ?ref))"
    with reread [of busy s1 x s5] busy_polite solo_polite [OF quiet_solo] empty_allocated(1) s1a keeps_objects_refl
    show "(\<exists>data. x = Inr data \<and> sha256_id data = sha256_id [1] \<and> length data = 1) \<or> (\<exists>text. x = Inl (OsError text))"
      by (simp add: iter_stream_def)
  qed (rule r, rule q)
qed

text \<open>C13: The filesystem store implements the contract of the in-memory store: without other processes and failing calls, and up to a
  collision of SHA-256, a publication returns the same reference or the same error, and leaves the same objects and a store in order.\<close>

theorem file_store_refines_memory_store:
  assumes "solo e" "tidy (fr_fs s)" "0 \<le> limit" "\<exists>nm \<in> set (oe_names e (fr_clock s)). fs_nodes (fr_fs s) (temp_path nm) = None"
    and "\<And>old. ms_objects (store_of limit (fr_fs s)) (sha256_id (concat (iter_stream reads))) = Some old \<Longrightarrow> old = concat (iter_stream reads)"
    and "file_put_stream e limit reads m expected s = (r, s')"
  shows "tidy (fr_fs s') \<and> (r, store_of limit (fr_fs s')) = map_prod raised id (memory_put_stream reads m expected (store_of limit (fr_fs s)))"
  by (rule solo_refines [OF assms])

theorem file_store_refines_memory_store_witness:
  "\<forall>reads. case file_put_stream quiet_env 8 reads ''a/b'' None empty_run of (r, s) \<Rightarrow>
     (r, store_of 8 (fr_fs s)) = map_prod raised id (memory_put_stream reads ''a/b'' None (store_of 8 (fr_fs empty_run)))"
proof
  fix reads
  obtain r s where run: "file_put_stream quiet_env 8 reads ''a/b'' None empty_run = (r, s)" by (rule prod.exhaust)
  have free: "\<exists>nm \<in> set (oe_names quiet_env (fr_clock empty_run)). fs_nodes (fr_fs empty_run) (temp_path nm) = None"
    by (simp add: quiet_env_def empty_run_def)
  have "ms_objects (store_of 8 (fr_fs empty_run)) d = None" for d by (simp add: store_of_def empty_run_def)
  then show "case file_put_stream quiet_env 8 reads ''a/b'' None empty_run of (r, s) \<Rightarrow>
     (r, store_of 8 (fr_fs s)) = map_prod raised id (memory_put_stream reads ''a/b'' None (store_of 8 (fr_fs empty_run)))"
    using file_store_refines_memory_store [OF quiet_solo empty_allocated(2) _ free _ run] run by simp
qed

end
