(* ===== verification/AVP_HttpSubject.thy ===== *)
theory AVP_HttpSubject
  imports AVP_Transport AVP_Security
begin

text \<open>
  \<^verbatim>\<open>subject/http.py\<close> and \<^verbatim>\<open>subject/in_process.py\<close>: the adapters of Agents that run behind an HTTP endpoint and of Agents that
  are Python callables. The network and its clock are parameters; a Subject session is a \<open>subject_gateway\<close>.
\<close>

section \<open>URLs\<close>

text \<open>\<open>urlsplit\<close>, as far as the adapter looks at its result; brackets are only checked to be balanced.\<close>

record split_url =
  su_scheme :: string
  su_netloc :: string
  su_query :: string
  su_fragment :: string

definition url_scheme :: "string \<Rightarrow> string \<times> string" where
  "url_scheme u = (let s = takeWhile (\<lambda>c. c \<noteq> CHR '':'') u in
     if length s < length u \<and> s \<noteq> [] \<and> (is_upper_ascii (hd s) \<or> is_lower_ascii (hd s)) \<and> list_all (\<lambda>c. is_alnum_ascii c \<or> c \<in> set ''+-.'') s
     then (lower s, drop (Suc (length s)) u) else ([], u))"

definition cut_at :: "char \<Rightarrow> string \<Rightarrow> string \<times> string" where
  "cut_at c s = (takeWhile (\<lambda>x. x \<noteq> c) s, drop 1 (dropWhile (\<lambda>x. x \<noteq> c) s))"

definition urlsplit :: "string \<Rightarrow> (exn, split_url) result" where
  "urlsplit url =
     (let u = filter (\<lambda>c. c \<notin> {CHR 0x09, CHR 0x0A, CHR 0x0D}) (dropWhile (\<lambda>c. (of_char c :: nat) \<le> 32) url);
          (scheme, rest) = url_scheme u;
          netloc = (if take 2 rest = ''//'' then takeWhile (\<lambda>c. c \<notin> set ''/?#'') (drop 2 rest) else []);
          path = (if take 2 rest = ''//'' then drop (2 + length netloc) rest else rest)
      in res_bind (raise_if ((CHR ''['' \<in> set netloc) \<noteq> (CHR '']'' \<in> set netloc)) (ValueError ''Invalid IPv6 URL'')) (\<lambda>_.
         Inr \<lparr>su_scheme = scheme, su_netloc = netloc, su_query = snd (cut_at (CHR ''?'') (fst (cut_at (CHR ''#'') path))),
              su_fragment = snd (cut_at (CHR ''#'') path)\<rparr>))"

section \<open>The HTTP adapter\<close>

text \<open>\<open>ReplyBroken\<close> is an exception of reading the response that the adapter does not catch.\<close>

datatype http_reply = ReplyBody bytes | ReplyStatus int string | ReplyTimeout | ReplyUnreachable string | ReplyBroken exn

text \<open>\<open>hn_left timeout started now\<close> is \<open>timeout - (now - started)\<close> in floating point; \<open>hn_loads\<close> decodes UTF-8 and reads JSON.\<close>

record 'n http_network =
  hn_post :: "string \<Rightarrow> bytes \<Rightarrow> (string \<times> string) list \<Rightarrow> pyfloat \<Rightarrow> 'n \<Rightarrow> http_reply \<times> 'n"
  hn_loads :: "bytes \<Rightarrow> json option"
  hn_left :: "pyfloat \<Rightarrow> 'n \<Rightarrow> 'n \<Rightarrow> pyfloat"

record http_subject =
  hu_url :: string
  hu_headers :: "(string \<times> string) list"
  hu_description :: subject_description

record 'n subject_client =
  cl_handles :: "string \<Rightarrow> agent_system option"
  cl_net :: 'n

definition reserved_trace_headers :: "string list" where
  "reserved_trace_headers = [''traceparent'', ''tracestate'', ''baggage'']"

text \<open>\<open>url.rstrip("/")\<close>.\<close>

definition strip_slashes :: "string \<Rightarrow> string" where
  "strip_slashes s = rev (dropWhile (\<lambda>c. c = CHR ''/'') (rev s))"

definition make_http_subject :: "string \<Rightarrow> string \<Rightarrow> (string \<times> string) list \<Rightarrow> string option \<Rightarrow> (exn, http_subject) result" where
  "make_http_subject base_url endpoint headers configuration_digest =
     (let normalized = strip_slashes base_url;
          forbidden = sort (filter (\<lambda>k. lower k \<in> set reserved_trace_headers) (map fst headers)) in
      res_bind (urlsplit normalized) (\<lambda>p.
      res_bind (raise_if (su_scheme p \<notin> {''http'', ''https''} \<or> su_netloc p = [])
        (ValueError ''HTTP subject base_url must be an absolute http(s) URL'')) (\<lambda>_.
      res_bind (raise_if (CHR ''@'' \<in> set (su_netloc p)) (ValueError ''HTTP subject base_url must not contain userinfo credentials'')) (\<lambda>_.
      res_bind (raise_if (su_query p \<noteq> [] \<or> su_fragment p \<noteq> [])
        (ValueError ''HTTP subject base_url must not contain query or fragment'')) (\<lambda>_.
      res_bind (raise_if (\<not> starts_with ''/'' endpoint) (ValueError ''HTTP subject endpoint must be an absolute path'')) (\<lambda>_.
      res_bind (raise_if (forbidden \<noteq> [])
        (ValueError (''HTTP subject trace propagation headers are Runtime-owned: '' @ py_repr (jstrs forbidden)))) (\<lambda>_.
      res_bind (raise_if (headers \<noteq> [] \<and> configuration_digest = None)
        (ValueError ''custom HTTP subject headers require a non-secret configuration_digest'')) (\<lambda>_.
      res_bind (raise_if (case configuration_digest of None \<Rightarrow> False | Some d \<Rightarrow> \<not> is_sha256_text d)
        (ValueError ''configuration_digest must be sha256:<64 lowercase hex>'')) (\<lambda>_.
      res_bind (make_subject_description
        \<lparr>sd_name = ''http-subject'', sd_version = ''0.1.0'', sd_adapter = ''http'', sd_transport = ''http-json'',
         sd_protocol_version = ''avp.subject/v0.1'',
         sd_metadata = JObj ([(''endpoint'', JStr endpoint),
           (''targetDigest'', JStr (json_digest (JObj [(''base_url'', JStr normalized), (''endpoint'', JStr endpoint)]))),
           (''automatic_retry'', JBool False)] @
           (case configuration_digest of None \<Rightarrow> [] | Some d \<Rightarrow> [(''configurationDigest'', JStr d)]))\<rparr>) (\<lambda>d.
      Inr \<lparr>hu_url = normalized @ endpoint, hu_headers = headers, hu_description = d\<rparr>))))))))))"

definition new_handle :: "subject_description \<Rightarrow> string \<Rightarrow> agent_system \<Rightarrow> subject_handle" where
  "new_handle d uuid agent = \<lparr>sh_handle_id = ''subj_'' @ take 16 uuid, sh_adapter_name = sd_name d, sh_adapter_version = sd_version d,
     sh_agent_system_digest = agent_identity_digest agent\<rparr>"

definition http_open :: "http_subject \<Rightarrow> string \<Rightarrow> agent_system \<Rightarrow> ('n subject_client, exn, subject_handle) action" where
  "http_open h uuid agent = (let handle = new_handle (hu_description h) uuid agent in
     act_bind (act_modify (\<lambda>c. c\<lparr>cl_handles := (cl_handles c)(sh_handle_id handle \<mapsto> agent)\<rparr>)) (\<lambda>_. act_return handle))"

definition subject_exn :: "subject_error \<Rightarrow> string \<Rightarrow> exn" where
  "subject_exn c m = SubjectExn c m"

definition http_agent :: "http_subject \<Rightarrow> subject_handle \<Rightarrow> 'n subject_client \<Rightarrow> (exn, agent_system) result" where
  "http_agent h handle c = (let err = Inl (subject_exn SubjectTransportError (''unknown or mismatched subject handle: '' @ sh_handle_id handle)) in
     case cl_handles c (sh_handle_id handle) of
       None \<Rightarrow> err
     | Some agent \<Rightarrow> if agent_identity_digest agent \<noteq> sh_agent_system_digest handle \<or>
           sh_adapter_name handle \<noteq> sd_name (hu_description h) \<or> sh_adapter_version handle \<noteq> sd_version (hu_description h)
         then err else Inr agent)"

definition http_release :: "http_subject \<Rightarrow> subject_handle \<Rightarrow> ('n subject_client, exn, unit) action" where
  "http_release h handle = act_bind (act_read (http_agent h handle)) (\<lambda>_.
     act_modify (\<lambda>c. c\<lparr>cl_handles := (cl_handles c)(sh_handle_id handle := None)\<rparr>))"

section \<open>One exchange\<close>

text \<open>An invocation freezes its task: \<open>dict(task)\<close> thaws the outermost object only, and \<open>json.dumps\<close> refuses the proxies below.\<close>

fun holds_object :: "json \<Rightarrow> bool" where
  "holds_object (JObj kvs) \<longleftrightarrow> True"
| "holds_object (JList xs) \<longleftrightarrow> list_ex holds_object xs"
| "holds_object _ \<longleftrightarrow> False"

definition task_members :: "json \<Rightarrow> (exn, (string \<times> json) list) result" where
  "task_members task = (case task of JObj kvs \<Rightarrow> Inr kvs | _ \<Rightarrow> Inl (TypeError ''the task must be a mapping''))"

definition subject_payload :: "agent_system \<Rightarrow> subject_invocation \<Rightarrow> (string \<times> json) list \<Rightarrow> int \<Rightarrow> json \<Rightarrow> json \<Rightarrow> json" where
  "subject_payload agent ivk task step observation previous = JObj
     [(''protocol_version'', JStr ''avp.subject/v0.1''), (''episode_id'', JStr (si_episode_id ivk)), (''step'', JInt step),
      (''agent_system'', agent_subject_projection agent), (''task'', JObj task), (''observation'', observation),
      (''previous_tool_result'', previous)]"

definition subject_body :: "json \<Rightarrow> bytes" where
  "subject_body v = utf8 (json_compact json_quote v)"

definition base_headers :: "http_subject \<Rightarrow> (string \<times> string) list" where
  "base_headers h = foldl (\<lambda>hs (k, v). AList.update k v hs)
     [(''Content-Type'', ''application/json''), (''Accept'', ''application/json''), (''X-AVP-Subject-Version'', ''avp.subject/v0.1'')] (hu_headers h)"

fun add_propagation :: "(string \<times> string) list \<Rightarrow> (string \<times> string) list \<Rightarrow> (exn, (string \<times> string) list) result" where
  "add_propagation [] headers = Inr headers"
| "add_propagation ((k, v) # rest) headers =
     (if has_header k headers
      then Inl (subject_exn SubjectProtocolError (''trace propagation header collides with configured HTTP subject header: '' @ k))
      else add_propagation rest (headers @ [(k, v)]))"

definition read_reply :: "'n http_network \<Rightarrow> http_reply \<Rightarrow> (exn, (string \<times> json) list) result" where
  "read_reply net reply = (case reply of
     ReplyStatus code detail \<Rightarrow> Inl (subject_exn SubjectTransportError
       (''subject endpoint returned HTTP '' @ string_of_int code @ '': '' @ take 2048 detail))
   | ReplyTimeout \<Rightarrow> Inl (subject_exn SubjectTimeoutError ''subject HTTP request timed out'')
   | ReplyUnreachable m \<Rightarrow> Inl (subject_exn SubjectTransportError (''subject endpoint unreachable: '' @ m))
   | ReplyBroken x \<Rightarrow> Inl x
   | ReplyBody raw \<Rightarrow> (case hn_loads net raw of
       None \<Rightarrow> Inl (subject_exn SubjectProtocolError ''subject response must be UTF-8 JSON'')
     | Some (JObj kvs) \<Rightarrow> Inr kvs
     | Some _ \<Rightarrow> Inl (subject_exn SubjectProtocolError ''subject response root must be an object'')))"

definition post_subject :: "http_subject \<Rightarrow> 'n http_network \<Rightarrow> json \<Rightarrow> bool \<Rightarrow> pyfloat \<Rightarrow> (string \<times> string) list \<Rightarrow>
    ('n subject_client, exn, (string \<times> json) list) action" where
  "post_subject h net payload frozen timeout trace =
     act_bind (act_of (raise_if frozen (TypeError ''Object of type mappingproxy is not JSON serializable''))) (\<lambda>_.
     act_bind (act_of (add_propagation trace (base_headers h))) (\<lambda>headers.
     act_bind (\<lambda>c. case hn_post net (hu_url h) (subject_body payload) headers timeout (cl_net c) of (reply, n) \<Rightarrow> (Inr reply, c\<lparr>cl_net := n\<rparr>)) (\<lambda>reply.
     act_of (read_reply net reply))))"

section \<open>Frames\<close>

text \<open>\<open>allowed_by_status.get(status)\<close>: a status that is a list or an object cannot be looked up.\<close>

definition allowed_terminal :: "json \<Rightarrow> (exn, string option) result" where
  "allowed_terminal status = (case status of
     JList _ \<Rightarrow> Inl (TypeError (''unhashable type: '' @ py_repr_str ''list''))
   | JObj _ \<Rightarrow> Inl (TypeError (''unhashable type: '' @ py_repr_str ''dict''))
   | JStr s \<Rightarrow> Inr (map_of [(''completed'', ''report''), (''failed'', ''error''), (''tool_call'', ''call'')] s)
   | _ \<Rightarrow> Inr None)"

definition contradictory_fields :: "string \<Rightarrow> (string \<times> json) list \<Rightarrow> string list" where
  "contradictory_fields allowed frame = filter (\<lambda>k. k \<in> fst ` set frame \<and> k \<noteq> allowed) [''call'', ''error'', ''report'']"

definition validate_frame_shape :: "json \<Rightarrow> (string \<times> json) list \<Rightarrow> (exn, unit) result" where
  "validate_frame_shape status frame = res_bind (allowed_terminal status) (\<lambda>allowed. case allowed of
     None \<Rightarrow> Inr ()
   | Some a \<Rightarrow> raise_if (contradictory_fields a frame \<noteq> []) (subject_exn SubjectProtocolError
       (py_str status @ '' response contains contradictory terminal fields: '' @ py_repr (jstrs (contradictory_fields a frame)))))"

definition parse_tool_call :: "json \<Rightarrow> (exn, tool_call) result" where
  "parse_tool_call v = (case v of
     JObj kvs \<Rightarrow> (case (jget_none v ''call_id'', jget_none v ''name'', jget_default v ''arguments'' (JObj [])) of
       (JStr cid, JStr nm, JObj args) \<Rightarrow>
         if cid = [] \<or> nm = [] then Inl (subject_exn SubjectProtocolError ''tool_call requires string call_id/name and object arguments'')
         else make_tool_call cid nm args
     | _ \<Rightarrow> Inl (subject_exn SubjectProtocolError ''tool_call requires string call_id/name and object arguments''))
   | _ \<Rightarrow> Inl (subject_exn SubjectProtocolError ''tool_call.call must be an object''))"

text \<open>What a frame asks for.\<close>

datatype frame_action = FrameDone "string option" | FrameCall tool_call

definition frame_action_of :: "(string \<times> json) list \<Rightarrow> (exn, frame_action) result" where
  "frame_action_of frame =
     (let status = jget_none (JObj frame) ''status'' in
      res_bind (validate_frame_shape status frame) (\<lambda>_.
      if status = JStr ''completed'' then
        (case jget_none (JObj frame) ''report'' of
           JNull \<Rightarrow> Inr (FrameDone None) | JStr s \<Rightarrow> Inr (FrameDone (Some s))
         | _ \<Rightarrow> Inl (subject_exn SubjectProtocolError ''completed.report must be a string or null''))
      else if status = JStr ''failed'' then
        (case jget_none (JObj frame) ''error'' of
           JStr s \<Rightarrow> if s = [] then Inl (subject_exn SubjectProtocolError ''failed.error must be a non-empty string'')
             else Inl (subject_exn SubjectExecutionError s)
         | _ \<Rightarrow> Inl (subject_exn SubjectProtocolError ''failed.error must be a non-empty string''))
      else if status \<noteq> JStr ''tool_call''
      then Inl (subject_exn SubjectProtocolError ''response status must be tool_call, completed, or failed'')
      else res_bind (parse_tool_call (jget_none (JObj frame) ''call'')) (\<lambda>c. Inr (FrameCall c))))"

section \<open>The interaction\<close>

definition in_client :: "('n subject_client, exn, 'a) action \<Rightarrow> ('n subject_client \<times> 'v, exn, 'a) action" where
  "in_client m = act_zoom fst apfst m"

definition in_subject_session :: "('v, exn, 'a) action \<Rightarrow> ('n subject_client \<times> 'v, exn, 'a) action" where
  "in_subject_session m = act_zoom snd apsnd m"

text \<open>The loop over the steps; the first argument counts the steps that are left.\<close>

fun http_steps :: "nat \<Rightarrow> http_subject \<Rightarrow> 'n http_network \<Rightarrow> agent_system \<Rightarrow> subject_invocation \<Rightarrow> 'v subject_gateway \<Rightarrow> 'n \<Rightarrow> int \<Rightarrow>
    json \<Rightarrow> json \<Rightarrow> ('n subject_client \<times> 'v, exn, subject_result) action" where
  "http_steps 0 h net agent ivk g started step observation previous =
     act_raise (subject_exn SubjectBudgetExceeded (''subject exceeded max_steps='' @ string_of_int (si_max_steps ivk)))"
| "http_steps (Suc n) h net agent ivk g started step observation previous =
     act_bind (act_get (\<lambda>(c, _). hn_left net (si_timeout_seconds ivk) started (cl_net c))) (\<lambda>remaining.
     act_bind (act_of (raise_if (\<not> float_positive remaining) (subject_exn SubjectTimeoutError ''subject invocation deadline exceeded''))) (\<lambda>_.
     act_bind (act_of (task_members (si_task ivk))) (\<lambda>task.
     act_bind (in_subject_session (tg_trace_headers g)) (\<lambda>trace.
     act_bind (in_client (post_subject h net (subject_payload agent ivk task step observation previous)
       (list_ex (holds_object \<circ> snd) task) remaining trace)) (\<lambda>frame.
     act_bind (act_of (frame_action_of frame)) (\<lambda>a. case a of
       FrameDone report \<Rightarrow> act_of (make_subject_result \<lparr>sr_status = SUBJECT_COMPLETED, sr_report = report, sr_steps = step,
         sr_metadata = JObj [(''transport'', JStr ''http'')]\<rparr>)
     | FrameCall c \<Rightarrow>
         act_bind (in_subject_session (tg_call_tool g (tc_name c) (tc_arguments c))) (\<lambda>result.
         act_bind (in_subject_session (tg_observe g)) (\<lambda>observation'.
         http_steps n h net agent ivk g started (step + 1) observation'
           (JObj [(''call_id'', JStr (tc_call_id c)), (''name'', JStr (tc_name c)), (''result'', result)])))))))))"

definition http_invoke :: "http_subject \<Rightarrow> 'n http_network \<Rightarrow> subject_handle \<Rightarrow> subject_invocation \<Rightarrow> 'v subject_gateway \<Rightarrow>
    ('n subject_client \<times> 'v, exn, subject_result) action" where
  "http_invoke h net handle ivk g =
     act_bind (in_client (act_read (http_agent h handle))) (\<lambda>agent.
     act_bind (act_get (\<lambda>(c, _). cl_net c)) (\<lambda>started.
     act_bind (in_subject_session (tg_observe g)) (\<lambda>observation.
     http_steps (nat (si_max_steps ivk)) h net agent ivk g started 1 observation JNull)))"

section \<open>The in-process adapter\<close>

text \<open>A Subject is a callable of the session and the task; what it returns is read by \<open>str\<close>.\<close>

record 'v local_subject =
  ls_call :: "'v subject_gateway \<Rightarrow> json \<Rightarrow> ('v, exn, string) action"
  ls_description :: subject_description

definition make_local_subject :: "('v subject_gateway \<Rightarrow> json \<Rightarrow> ('v, exn, string) action) \<Rightarrow> string option \<Rightarrow> string option \<Rightarrow>
    (exn, 'v local_subject) result" where
  "make_local_subject f name function_name =
     (let nm = (case name of Some n \<Rightarrow> if n = [] then (case function_name of Some q \<Rightarrow> q | None \<Rightarrow> ''in-process-subject'') else n
          | None \<Rightarrow> (case function_name of Some q \<Rightarrow> q | None \<Rightarrow> ''in-process-subject'')) in
      res_bind (make_subject_description \<lparr>sd_name = nm, sd_version = ''0.1.0'', sd_adapter = ''in-process'',
        sd_transport = ''python-callable'', sd_protocol_version = ''avp.subject/v0.1'', sd_metadata = JObj [(''isolation'', JStr ''none'')]\<rparr>) (\<lambda>d.
      Inr \<lparr>ls_call = f, ls_description = d\<rparr>))"

type_synonym local_handles = "string \<Rightarrow> string option"

definition local_open :: "'v local_subject \<Rightarrow> string \<Rightarrow> agent_system \<Rightarrow> (local_handles, exn, subject_handle) action" where
  "local_open l uuid agent = (let handle = new_handle (ls_description l) uuid agent in
     act_bind (act_modify (\<lambda>hs. hs(sh_handle_id handle \<mapsto> agent_identity_digest agent))) (\<lambda>_. act_return handle))"

definition local_assert_handle :: "'v local_subject \<Rightarrow> subject_handle \<Rightarrow> local_handles \<Rightarrow> (exn, unit) result" where
  "local_assert_handle l handle hs =
     raise_if (hs (sh_handle_id handle) \<noteq> Some (sh_agent_system_digest handle) \<or>
         sh_adapter_name handle \<noteq> sd_name (ls_description l) \<or> sh_adapter_version handle \<noteq> sd_version (ls_description l))
       (subject_exn SubjectTransportError (''unknown or mismatched subject handle: '' @ sh_handle_id handle))"

definition local_failure :: "exn \<Rightarrow> exn" where
  "local_failure x = (case x of
     SubjectExn SubjectExecutionError _ \<Rightarrow> x
   | _ \<Rightarrow> subject_exn SubjectExecutionError (''in-process subject failed: '' @ exn_name x @ '': '' @ exn_text x))"

definition local_invoke :: "'v local_subject \<Rightarrow> subject_handle \<Rightarrow> subject_invocation \<Rightarrow> 'v subject_gateway \<Rightarrow> local_handles \<Rightarrow>
    ('v, exn, subject_result) action" where
  "local_invoke l handle ivk g hs =
     act_bind (act_of (local_assert_handle l handle hs)) (\<lambda>_.
     act_bind (act_try (ls_call l g (si_task ivk)) (\<lambda>x. act_raise (local_failure x))) (\<lambda>report.
     act_of (make_subject_result \<lparr>sr_status = SUBJECT_COMPLETED, sr_report = Some report, sr_steps = 1,
       sr_metadata = JObj [(''adapter'', JStr ''in-process'')]\<rparr>)))"

definition local_release :: "'v local_subject \<Rightarrow> subject_handle \<Rightarrow> (local_handles, exn, unit) action" where
  "local_release l handle = act_bind (act_read (local_assert_handle l handle)) (\<lambda>_.
     act_modify (\<lambda>hs. hs(sh_handle_id handle := None)))"

end
