(* ===== verification/AVP_HttpSubjectFacts.thy ===== *)
theory AVP_HttpSubjectFacts
  imports AVP_HttpSubject
begin

text \<open>
  What an Agent behind an HTTP endpoint can do: the network and the session are arbitrary and log what is posted and called.
\<close>

section \<open>Logs\<close>

definition logged_net :: "'n http_network \<Rightarrow> ('n \<times> (bytes \<times> http_reply) list) http_network" where
  "logged_net net = \<lparr>hn_post = (\<lambda>u b hs t (w, ps). case hn_post net u b hs t w of (reply, w') \<Rightarrow> (reply, (w', ps @ [(b, reply)]))),
     hn_loads = hn_loads net, hn_left = (\<lambda>t (a, _) (b, _). hn_left net t a b)\<rparr>"

text \<open>What a session served, in order.\<close>

datatype session_event = Observed "(exn, json) result" | Called string "(string \<times> json) list" "(exn, json) result"

definition logged_session :: "'v subject_gateway \<Rightarrow> ('v \<times> session_event list) subject_gateway" where
  "logged_session g = \<lparr>tg_observe = (\<lambda>(v, es). case tg_observe g v of (r, v') \<Rightarrow> (r, (v', es @ [Observed r]))),
     tg_call_tool = (\<lambda>nm args (v, es). case tg_call_tool g nm args v of (r, v') \<Rightarrow> (r, (v', es @ [Called nm args r]))),
     tg_trace_headers = act_zoom fst apfst (tg_trace_headers g)\<rparr>"

definition calls_of :: "session_event list \<Rightarrow> (string \<times> (string \<times> json) list) list" where
  "calls_of = List.map_filter (\<lambda>ev. case ev of Called nm args _ \<Rightarrow> Some (nm, args) | Observed _ \<Rightarrow> None)"

lemma calls_of_simps [simp]: "calls_of [] = []" "calls_of (Called nm args r # es) = (nm, args) # calls_of es"
  "calls_of (Observed r # es) = calls_of es"
  by (simp_all add: calls_of_def map_filter_simps)

text \<open>What a reply asks for.\<close>

definition reply_action :: "'n http_network \<Rightarrow> http_reply \<Rightarrow> (exn, frame_action) result" where
  "reply_action net reply = res_bind (read_reply net reply) frame_action_of"

definition requested :: "'n http_network \<Rightarrow> http_reply \<Rightarrow> (string \<times> (string \<times> json) list) option" where
  "requested net reply = (case reply_action net reply of Inr (FrameCall c) \<Rightarrow> Some (tc_name c, tc_arguments c) | _ \<Rightarrow> None)"

section \<open>Exchanges\<close>

text \<open>A body with the Agent's projection, the task, an observation and a previous result, and nothing else.\<close>

definition carries_turn :: "agent_system \<Rightarrow> subject_invocation \<Rightarrow> int \<Rightarrow> json \<Rightarrow> json \<Rightarrow> bytes \<Rightarrow> bool" where
  "carries_turn agent ivk step ob prev body \<longleftrightarrow>
     (\<exists>task. si_task ivk = JObj task \<and> body = subject_body (subject_payload agent ivk task step ob prev))"

text \<open>The call that \<open>reply\<close> asked for was answered by \<open>call\<close>, which \<open>prev\<close> reports, and then \<open>ob\<close> was observed.\<close>

definition after_call :: "'n http_network \<Rightarrow> http_reply \<Rightarrow> session_event \<Rightarrow> session_event \<Rightarrow> json \<Rightarrow> json \<Rightarrow> bool" where
  "after_call net reply call observed ob prev \<longleftrightarrow> (\<exists>d result. reply_action net reply = Inr (FrameCall d) \<and>
     call = Called (tc_name d) (tc_arguments d) (Inr result) \<and> observed = Observed (Inr ob) \<and>
     prev = JObj [(''call_id'', JStr (tc_call_id d)), (''name'', JStr (tc_name d)), (''result'', result)])"

text \<open>The posts \<open>ps\<close> and session events \<open>es\<close> of at most \<open>n\<close> steps from \<open>step\<close> on, and the outcome.\<close>

definition exchange :: "'n http_network \<Rightarrow> agent_system \<Rightarrow> subject_invocation \<Rightarrow> nat \<Rightarrow> int \<Rightarrow> json \<Rightarrow> json \<Rightarrow> (bytes \<times> http_reply) list \<Rightarrow>
    session_event list \<Rightarrow> (exn, subject_result) result \<Rightarrow> bool" where
  "exchange net agent ivk n step ob prev ps es r \<longleftrightarrow> length ps \<le> n \<and> calls_of es = List.map_filter (requested net \<circ> snd) ps \<and>
     (\<forall>p \<in> set (butlast ps). requested net (snd p) \<noteq> None) \<and>
     (0 < length ps \<longrightarrow> carries_turn agent ivk step ob prev (fst (ps ! 0))) \<and>
     (\<forall>i. Suc i < length ps \<longrightarrow> 2 * i + 1 < length es \<and> (\<exists>ob' prev'.
        after_call net (snd (ps ! i)) (es ! (2 * i)) (es ! (2 * i + 1)) ob' prev' \<and>
        carries_turn agent ivk (step + 1 + int i) ob' prev' (fst (ps ! Suc i)))) \<and>
     (\<forall>res. r = Inr res \<longrightarrow> ps \<noteq> [] \<and> reply_action net (snd (last ps)) = Inr (FrameDone (sr_report res)) \<and>
        sr_steps res = step + int (length ps) - 1)"

lemma exchange_nil: "exchange net agent ivk n step ob prev [] [] (Inl x)"
  by (simp add: exchange_def map_filter_simps)

lemma exchange_last:
  assumes "si_task ivk = JObj task"
  shows "requested net reply = None \<Longrightarrow>
      (\<And>res. r = Inr res \<Longrightarrow> reply_action net reply = Inr (FrameDone (sr_report res)) \<and> sr_steps res = step) \<Longrightarrow>
      exchange net agent ivk (Suc n) step ob prev [(subject_body (subject_payload agent ivk task step ob prev), reply)] [] r"
    and "requested net reply = Some (nm, args) \<Longrightarrow> calls_of es = [(nm, args)] \<Longrightarrow>
      exchange net agent ivk (Suc n) step ob prev [(subject_body (subject_payload agent ivk task step ob prev), reply)] es (Inl x)"
  using assms by (auto simp: exchange_def map_filter_simps carries_turn_def)

lemma exchange_cons:
  assumes task: "si_task ivk = JObj task" and req: "reply_action net reply = Inr (FrameCall d)"
    and rest: "exchange net agent ivk n (step + 1) ob'
      (JObj [(''call_id'', JStr (tc_call_id d)), (''name'', JStr (tc_name d)), (''result'', result)]) ps es r"
  shows "exchange net agent ivk (Suc n) step ob prev ((subject_body (subject_payload agent ivk task step ob prev), reply) # ps)
    (Called (tc_name d) (tc_arguments d) (Inr result) # Observed (Inr ob') # es) r"
proof -
  let ?p = "(subject_body (subject_payload agent ivk task step ob prev), reply)"
  let ?es = "Called (tc_name d) (tc_arguments d) (Inr result) # Observed (Inr ob') # es"
  have requested: "requested net reply = Some (tc_name d, tc_arguments d)" using req by (simp add: requested_def)
  have turn: "2 * i + 1 < length ?es \<and> (\<exists>ob' prev'. after_call net (snd ((?p # ps) ! i)) (?es ! (2 * i)) (?es ! (2 * i + 1)) ob' prev' \<and>
      carries_turn agent ivk (step + 1 + int i) ob' prev' (fst ((?p # ps) ! Suc i)))" if "Suc i < length (?p # ps)" for i
  proof (cases i)
    case 0
    from rest that 0 have "carries_turn agent ivk (step + 1) ob'
      (JObj [(''call_id'', JStr (tc_call_id d)), (''name'', JStr (tc_name d)), (''result'', result)]) (fst (ps ! 0))" by (simp add: exchange_def)
    with req 0 show ?thesis by (auto simp: after_call_def)
  next
    case (Suc j)
    with rest that have "2 * j + 1 < length es \<and> (\<exists>ob' prev'. after_call net (snd (ps ! j)) (es ! (2 * j)) (es ! (2 * j + 1)) ob' prev' \<and>
        carries_turn agent ivk (step + 1 + 1 + int j) ob' prev' (fst (ps ! Suc j)))" by (simp add: exchange_def)
    with Suc show ?thesis by (simp add: algebra_simps)
  qed
  from rest have "carries_turn agent ivk step ob prev (fst ?p)" using task by (auto simp: carries_turn_def)
  with rest turn requested show ?thesis unfolding exchange_def by (auto simp: map_filter_simps)
qed

lemma post_cases:
  assumes "post_subject h (logged_net net) payload frozen timeout trace c = (x, c')"
  obtains (refused) e where "x = Inl e" "c' = c"
  | (posted) reply w where "x = read_reply net reply" "c' = c\<lparr>cl_net := (w, snd (cl_net c) @ [(subject_body payload, reply)])\<rparr>"
proof (cases "frozen \<or> \<not> is_ok (add_propagation trace (base_headers h))")
  case True
  with assms have "\<exists>e. x = Inl e \<and> c' = c"
    by (auto simp: post_subject_def act_bind_def act_of_def raise_if_def is_ok_def split: sum.splits if_splits)
  then show thesis using refused by blast
next
  case False
  then obtain headers where hs: "add_propagation trace (base_headers h) = Inr headers" by (auto simp: is_ok_def split: sum.splits)
  obtain w ps where c: "cl_net c = (w, ps)" by (cases "cl_net c")
  obtain reply w' where p: "hn_post net (hu_url h) (subject_body payload) headers timeout w = (reply, w')"
    by (cases "hn_post net (hu_url h) (subject_body payload) headers timeout w")
  have "hn_loads (logged_net net) = hn_loads net" by (simp add: logged_net_def)
  then have "read_reply (logged_net net) reply = read_reply net reply" by (simp only: read_reply_def)
  with assms False hs c p show thesis
    by (intro posted [of reply w']) (auto simp: post_subject_def act_bind_def act_of_def raise_if_def logged_net_def)
qed

definition posts_of :: "('n \<times> (bytes \<times> http_reply) list) subject_client \<Rightarrow> (bytes \<times> http_reply) list" where
  "posts_of c = snd (cl_net c)"

lemma session_log:
  "in_subject_session (tg_observe (logged_session g)) (c, (v, es)) = (x, s) \<Longrightarrow> \<exists>v'. s = (c, (v', es @ [Observed x]))"
  "in_subject_session (tg_trace_headers (logged_session g)) (c, (v, es)) = (y, s) \<Longrightarrow> \<exists>v'. s = (c, (v', es))"
  "in_subject_session (tg_call_tool (logged_session g) nm args) (c, (v, es)) = (x, s) \<Longrightarrow> \<exists>v'. s = (c, (v', es @ [Called nm args x]))"
  by (auto simp: in_subject_session_def act_zoom_def logged_session_def split: prod.splits)

lemma http_steps_exchange:
  assumes "http_steps n h (logged_net net) agent ivk (logged_session g) started step ob prev (c, (v, es)) = (r, (c', (v', es')))"
  shows "\<exists>ps ds. posts_of c' = posts_of c @ ps \<and> es' = es @ ds \<and> exchange net agent ivk n step ob prev ps ds r"
  using assms
proof (induction n arbitrary: step ob prev c v es)
  case 0
  then show ?case by (auto simp: act_raise_def intro: exchange_nil)
next
  case (Suc n)
  let ?left = "hn_left (logged_net net) (si_timeout_seconds ivk) started (cl_net c)"
  have stop: "?case" if "c' = c" "es' = es" "r = Inl x" for x
    using that exchange_nil by (metis append_Nil2)
  show ?case
  proof (cases "\<exists>task. float_positive ?left \<and> si_task ivk = JObj task")
    case False
    then have "\<exists>x. c' = c \<and> es' = es \<and> r = Inl x"
      using Suc.prems by (cases "float_positive ?left"; cases "si_task ivk")
        (auto simp: act_bind_def act_get_def act_of_def raise_if_def task_members_def)
    then show ?thesis using stop by blast
  next
    case True
    then obtain task where ok: "float_positive ?left" "si_task ivk = JObj task" by blast
    obtain t v1 where tr: "in_subject_session (tg_trace_headers (logged_session g)) (c, (v, es)) = (t, (c, (v1, es)))"
      using session_log(2) by (metis surj_pair)
    show ?thesis
    proof (cases t)
      case (Inl x)
      with Suc.prems ok tr have "c' = c \<and> es' = es \<and> r = Inl x"
        by (simp add: act_bind_def act_get_def act_of_def raise_if_def task_members_def)
      with stop show ?thesis by blast
    next
      case (Inr trace)
      let ?payload = "subject_payload agent ivk task step ob prev"
      obtain x c1 where post: "post_subject h (logged_net net) ?payload (list_ex (holds_object \<circ> snd) task) ?left trace c = (x, c1)"
        by (cases "post_subject h (logged_net net) ?payload (list_ex (holds_object \<circ> snd) task) ?left trace c")
      have rest: "(case x of Inl e \<Rightarrow> (Inl e, (c1, (v1, es)))
          | Inr frame \<Rightarrow> act_bind (act_of (frame_action_of frame)) (\<lambda>a. case a of
             FrameDone report \<Rightarrow> act_of (make_subject_result \<lparr>sr_status = SUBJECT_COMPLETED, sr_report = report, sr_steps = step,
               sr_metadata = JObj [(''transport'', JStr ''http'')]\<rparr>)
           | FrameCall d \<Rightarrow>
               act_bind (in_subject_session (tg_call_tool (logged_session g) (tc_name d) (tc_arguments d))) (\<lambda>result.
               act_bind (in_subject_session (tg_observe (logged_session g))) (\<lambda>observation'.
               http_steps n h (logged_net net) agent ivk (logged_session g) started (step + 1) observation'
                 (JObj [(''call_id'', JStr (tc_call_id d)), (''name'', JStr (tc_name d)), (''result'', result)])))) (c1, (v1, es))) = (r, (c', (v', es')))"
        using Suc.prems ok tr Inr post
        by (simp add: act_bind_def act_get_def act_of_def raise_if_def task_members_def in_client_def act_zoom_def split: sum.splits)
      from post show ?thesis
      proof (cases rule: post_cases)
        case (refused e)
        with rest have "c' = c" "es' = es" "r = Inl e" by auto
        with stop show ?thesis by blast
      next
        case (posted reply w)
        let ?b = "subject_body ?payload"
        have c1: "posts_of c1 = posts_of c @ [(?b, reply)]" by (simp add: posts_of_def posted(2))
        show ?thesis
        proof (cases "reply_action net reply")
          case (Inl e)
          with rest posted(1) have "r = Inl e" "c' = c1" "es' = es"
            by (auto simp: reply_action_def act_bind_def act_of_def res_bind_def split: sum.splits)
          moreover from Inl have "requested net reply = None" by (simp add: requested_def)
          ultimately show ?thesis using c1 exchange_last(1) [OF ok(2), where net = net and reply = reply and r = r and agent = agent and n = n and step = step and ob = ob and prev = prev]
            by (intro exI [of _ "[(?b, reply)]"] exI [of _ "[]"]) simp
        next
          case (Inr a)
          then obtain frame where frame: "x = Inr frame" "frame_action_of frame = Inr a" using posted(1) by (auto simp: reply_action_def)
          show ?thesis
          proof (cases a)
            case (FrameDone report)
            with rest frame have "r = make_subject_result \<lparr>sr_status = SUBJECT_COMPLETED, sr_report = report, sr_steps = step,
               sr_metadata = JObj [(''transport'', JStr ''http'')]\<rparr>" "c' = c1" "es' = es" by (simp_all add: act_bind_def act_of_def)
            moreover have "requested net reply = None" using Inr FrameDone by (simp add: requested_def)
            ultimately show ?thesis using c1 Inr FrameDone exchange_last(1) [OF ok(2), where net = net and reply = reply and r = r and agent = agent and n = n and step = step and ob = ob and prev = prev]
              by (intro exI [of _ "[(?b, reply)]"] exI [of _ "[]"]) (auto simp: make_subject_result_def)
          next
            case (FrameCall d)
            let ?call = "(tc_name d, tc_arguments d)"
            have req: "requested net reply = Some ?call" using Inr FrameCall by (simp add: requested_def)
            have last: ?thesis if "r = Inl e" "c' = c1" "es' = es @ ds" "calls_of ds = [?call]" for e ds
              using that c1 exchange_last(2) [OF ok(2) req, where agent = agent and n = n and step = step and ob = ob and prev = prev and x = e and es = ds]
              by (intro exI [of _ "[(?b, reply)]"] exI [of _ ds]) simp
            obtain y v2 where y: "in_subject_session (tg_call_tool (logged_session g) (tc_name d) (tc_arguments d)) (c1, (v1, es)) = (y, (c1, (v2, es @ [Called (tc_name d) (tc_arguments d) y])))"
              using session_log(3) by (metis surj_pair)
            let ?es = "es @ [Called (tc_name d) (tc_arguments d) y]"
            obtain z v3 where z: "in_subject_session (tg_observe (logged_session g)) (c1, (v2, ?es)) = (z, (c1, (v3, ?es @ [Observed z])))"
              using session_log(1) by (metis surj_pair)
            show ?thesis
            proof (cases y)
              case (Inl e)
              with rest frame FrameCall y have "r = Inl e" "c' = c1" "es' = ?es" by (simp_all add: act_bind_def act_of_def)
              then show ?thesis by (intro last [where ds = "[Called (tc_name d) (tc_arguments d) y]"]) simp_all
            next
              case yr: (Inr result)
              show ?thesis
              proof (cases z)
                case (Inl e)
                with rest frame FrameCall y yr z have "r = Inl e" "c' = c1" "es' = es @ [Called (tc_name d) (tc_arguments d) y, Observed z]"
                  by (simp_all add: act_bind_def act_of_def)
                then show ?thesis by (intro last [where ds = "[Called (tc_name d) (tc_arguments d) y, Observed z]"]) simp_all
              next
                case zr: (Inr ob')
                from rest frame FrameCall y yr z zr have "http_steps n h (logged_net net) agent ivk (logged_session g) started (step + 1) ob'
                   (JObj [(''call_id'', JStr (tc_call_id d)), (''name'', JStr (tc_name d)), (''result'', result)]) (c1, (v3, ?es @ [Observed z])) = (r, (c', (v', es')))"
                  by (simp add: act_bind_def act_of_def)
                from Suc.IH [OF this] obtain ps ds where ps: "posts_of c' = posts_of c1 @ ps" "es' = (?es @ [Observed z]) @ ds"
                  "exchange net agent ivk n (step + 1) ob'
                    (JObj [(''call_id'', JStr (tc_call_id d)), (''name'', JStr (tc_name d)), (''result'', result)]) ps ds r" by blast
                from exchange_cons [OF ok(2) _ ps(3), where reply = reply and ob = ob and prev = prev] Inr FrameCall ps(1,2) c1 yr zr show ?thesis
                  by (intro exI [of _ "(?b, reply) # ps"] exI [of _ "Called (tc_name d) (tc_arguments d) y # Observed z # ds"]) simp
              qed
            qed
          qed
        qed
      qed
    qed
  qed
qed

section \<open>A counting endpoint\<close>

text \<open>It asks for one call of \<open>echo\<close> and then reports.\<close>

definition count_net :: "nat http_network" where
  "count_net = \<lparr>hn_post = (\<lambda>_ _ _ _ n. (ReplyBody (if n = 0 then [0] else [1]), Suc n)),
     hn_loads = (\<lambda>b. if b = [0] then Some (JObj [(''status'', JStr ''tool_call''),
         (''call'', JObj [(''call_id'', JStr ''c''), (''name'', JStr ''echo'')])])
       else Some (JObj [(''status'', JStr ''completed''), (''report'', JStr ''done'')])),
     hn_left = (\<lambda>t _ _. t)\<rparr>"

definition still_session :: "unit subject_gateway" where
  "still_session = \<lparr>tg_observe = act_return JNull, tg_call_tool = (\<lambda>_ _. act_return JNull), tg_trace_headers = act_return []\<rparr>"

definition demo_agent :: agent_system where
  "demo_agent = \<lparr>ag_name = ''a'', ag_version = ''1'', ag_adapter = ''http'', ag_config_digest = [], ag_model_ref = None, ag_prompt_digest = None,
     ag_toolset_digest = None, ag_memory_digest = None, ag_policy_digest = None, ag_metadata = JObj []\<rparr>"

definition demo_http :: http_subject where
  "demo_http = \<lparr>hu_url = ''http://a/v1'', hu_headers = [], hu_description = \<lparr>sd_name = ''http-subject'', sd_version = ''0.1.0'', sd_adapter = ''http'',
     sd_transport = ''http-json'', sd_protocol_version = ''avp.subject/v0.1'', sd_metadata = JObj []\<rparr>\<rparr>"

definition demo_client :: "(nat \<times> (bytes \<times> http_reply) list) subject_client" where
  "demo_client = \<lparr>cl_handles = [''subj_u'' \<mapsto> demo_agent], cl_net = (0, [])\<rparr>"

definition demo_invocation :: subject_invocation where
  "demo_invocation = \<lparr>si_episode_id = ''e'', si_task = JObj [], si_max_steps = 3, si_timeout_seconds = PyFloat False 1 1\<rparr>"

text \<open>The second of its three steps completes.\<close>

definition demo_handle :: subject_handle where
  "demo_handle = \<lparr>sh_handle_id = ''subj_u'', sh_adapter_name = ''http-subject'', sh_adapter_version = ''0.1.0'',
     sh_agent_system_digest = agent_identity_digest demo_agent\<rparr>"

lemma demo_run:
  "\<exists>res c' v' es. http_invoke demo_http (logged_net count_net) demo_handle demo_invocation (logged_session still_session) (demo_client, ((), [])) =
     (Inr res, (c', (v', es))) \<and> length (posts_of c') = 2"
proof -
  let ?call = "[(''status'', JStr ''tool_call''), (''call'', JObj [(''call_id'', JStr ''c''), (''name'', JStr ''echo'')])]"
  let ?done = "[(''status'', JStr ''completed''), (''report'', JStr ''done'')]"
  have agent: "http_agent demo_http demo_handle demo_client = Inr demo_agent"
    by (simp add: http_agent_def demo_handle_def demo_client_def demo_http_def)
  have frames: "frame_action_of ?call = Inr (FrameCall \<lparr>tc_call_id = ''c'', tc_name = ''echo'', tc_arguments = []\<rparr>)"
    "frame_action_of ?done = Inr (FrameDone (Some ''done''))"
    by (simp_all add: frame_action_of_def jget_none_def jget_default_def validate_frame_shape_def allowed_terminal_def contradictory_fields_def
        raise_if_def parse_tool_call_def make_tool_call_def)
  have replies: "hn_loads (logged_net count_net) = hn_loads count_net"
    "hn_loads count_net [0] = Some (JObj ?call)" "hn_loads count_net [1] = Some (JObj ?done)" "hn_left (logged_net count_net) t a b = t"
    for t and a b :: "nat \<times> (bytes \<times> http_reply) list"
    by (cases a, cases b, simp_all add: logged_net_def count_net_def)
  have posted: "hn_post (logged_net count_net) u b hs t (n, ps) = (ReplyBody (if n = 0 then [0] else [1]), (Suc n, ps @ [(b, ReplyBody (if n = 0 then [0] else [1]))]))"
    for u b hs t n ps by (simp add: logged_net_def count_net_def)
  have served: "tg_observe (logged_session still_session) ((), es) = (Inr JNull, ((), es @ [Observed (Inr JNull)]))"
    "tg_call_tool (logged_session still_session) nm args ((), es) = (Inr JNull, ((), es @ [Called nm args (Inr JNull)]))"
    "tg_trace_headers (logged_session still_session) ((), es) = (Inr [], ((), es))" for es nm args
    by (simp_all add: logged_session_def still_session_def act_return_def act_zoom_def)
  have inv: "nat (si_max_steps demo_invocation) = Suc (Suc (Suc 0))" "si_task demo_invocation = JObj []" "float_positive (si_timeout_seconds demo_invocation)"
    "cl_net demo_client = (0, [])"
    by (simp_all add: demo_invocation_def demo_client_def float_positive_def)
  show ?thesis
    unfolding http_invoke_def inv
    by (simp add: act_bind_def in_client_def in_subject_session_def act_zoom_def act_read_def act_get_def act_of_def agent served
        inv raise_if_def task_members_def replies post_subject_def posted read_reply_def frames make_subject_result_def posts_of_def)
qed

section \<open>Properties\<close>

text \<open>C7: An Agent behind HTTP is driven exactly by its frames, and sees only its own turn. Over any network and session, an invocation posts at
  most \<open>max_steps\<close> times. The first body is made of the task, the Subject projection of the handle's Agent and the observation the
  session served first; every later one of the same task and projection, the observation the session served last, and the session's result of the call
  the previous reply asked for. The tool calls made are, in order, exactly those of the well-formed \<open>tool_call\<close> replies, every reply but the last
  being one; and a result means that the last reply completed with that report, after that many posts.\<close>

theorem http_subject_follows_frames:
  assumes "http_invoke h (logged_net net) handle ivk (logged_session g) (c, (v, [])) = (r, (c', (v', es)))" "posts_of c = []" "0 \<le> si_max_steps ivk"
  shows "\<exists>agent. int (length (posts_of c')) \<le> si_max_steps ivk \<and> calls_of es = List.map_filter (requested net \<circ> snd) (posts_of c') \<and>
    (\<forall>p \<in> set (butlast (posts_of c')). requested net (snd p) \<noteq> None) \<and>
    (posts_of c' \<noteq> [] \<longrightarrow> cl_handles c (sh_handle_id handle) = Some agent \<and> agent_identity_digest agent = sh_agent_system_digest handle \<and>
       (\<exists>ob rest. es = Observed (Inr ob) # rest \<and> carries_turn agent ivk 1 ob JNull (fst (posts_of c' ! 0)))) \<and>
    (\<forall>i. Suc i < length (posts_of c') \<longrightarrow> 2 * i + 2 < length es \<and> (\<exists>ob prev.
       after_call net (snd (posts_of c' ! i)) (es ! (2 * i + 1)) (es ! (2 * i + 2)) ob prev \<and>
       carries_turn agent ivk (2 + int i) ob prev (fst (posts_of c' ! Suc i)))) \<and>
    (\<forall>res. r = Inr res \<longrightarrow> posts_of c' \<noteq> [] \<and> reply_action net (snd (last (posts_of c'))) = Inr (FrameDone (sr_report res)) \<and>
        sr_steps res = int (length (posts_of c')))"
proof (cases "http_agent h handle c")
  case (Inl e)
  with assms(1) have "c' = c" "es = []" "r = Inl e" by (auto simp: http_invoke_def act_bind_def in_client_def act_zoom_def act_read_def)
  with assms(2,3) show ?thesis by (simp add: map_filter_simps)
next
  case (Inr agent)
  then have agent: "cl_handles c (sh_handle_id handle) = Some agent \<and> agent_identity_digest agent = sh_agent_system_digest handle"
    by (auto simp: http_agent_def Let_def split: option.splits if_splits)
  obtain x v1 where ob: "in_subject_session (tg_observe (logged_session g)) (c, (v, [])) = (x, (c, (v1, [] @ [Observed x])))"
    using session_log(1) by (metis surj_pair)
  show ?thesis
  proof (cases x)
    case (Inl e)
    with assms(1) Inr ob have "c' = c" "es = [Observed (Inl e)]" "r = Inl e"
      by (auto simp: http_invoke_def act_bind_def in_client_def act_zoom_def act_read_def act_get_def)
    with assms(2,3) show ?thesis by (simp add: map_filter_simps)
  next
    case io: (Inr observation)
    with assms(1) Inr ob have "http_steps (nat (si_max_steps ivk)) h (logged_net net) agent ivk (logged_session g) (cl_net c) 1 observation JNull
        (c, (v1, [Observed (Inr observation)])) = (r, (c', (v', es)))"
      by (simp add: http_invoke_def act_bind_def in_client_def act_zoom_def act_read_def act_get_def)
    from http_steps_exchange [OF this] assms(2) obtain ds where es: "es = Observed (Inr observation) # ds"
      "exchange net agent ivk (nat (si_max_steps ivk)) 1 observation JNull (posts_of c') ds r" by auto
    from es(2) agent assms(3) show ?thesis unfolding exchange_def es(1) by (intro exI [of _ agent]) auto
  qed
qed

theorem http_subject_follows_frames_witness:
  "\<exists>res c' v' es agent. http_invoke demo_http (logged_net count_net) demo_handle demo_invocation (logged_session still_session) (demo_client, ((), [])) =
     (Inr res, (c', (v', es))) \<and> length (posts_of c') = 2 \<and> sr_steps res = 2 \<and> calls_of es = List.map_filter (requested count_net \<circ> snd) (posts_of c') \<and>
     (\<exists>ob prev. after_call count_net (snd (posts_of c' ! 0)) (es ! 1) (es ! 2) ob prev \<and> carries_turn agent demo_invocation 2 ob prev (fst (posts_of c' ! 1)))"
proof -
  from demo_run obtain res c' v' es where run:
    "http_invoke demo_http (logged_net count_net) demo_handle demo_invocation (logged_session still_session) (demo_client, ((), [])) =
     (Inr res, (c', (v', es)))" "length (posts_of c') = 2" by blast
  have demo: "posts_of demo_client = []" "0 \<le> si_max_steps demo_invocation" by (simp_all add: posts_of_def demo_client_def demo_invocation_def)
  from http_subject_follows_frames [OF run(1) demo] obtain agent where f: "calls_of es = List.map_filter (requested count_net \<circ> snd) (posts_of c')"
    "\<forall>i. Suc i < length (posts_of c') \<longrightarrow> 2 * i + 2 < length es \<and> (\<exists>ob prev.
       after_call count_net (snd (posts_of c' ! i)) (es ! (2 * i + 1)) (es ! (2 * i + 2)) ob prev \<and>
       carries_turn agent demo_invocation (2 + int i) ob prev (fst (posts_of c' ! Suc i)))" "sr_steps res = int (length (posts_of c'))" by blast
  from f(2) [rule_format, of 0] run(2) have "\<exists>ob prev. after_call count_net (snd (posts_of c' ! 0)) (es ! 1) (es ! 2) ob prev \<and>
      carries_turn agent demo_invocation 2 ob prev (fst (posts_of c' ! 1))"
    by (simp add: numeral_2_eq_2)
  with run f(1,3) show ?thesis by auto
qed

end
