(* ===== verification/Spec2Isabelle.thy ===== *)
theory Spec2Isabelle
  imports AVP_Reference AVP_GatewayFacts AVP_FabricFacts AVP_Trust AVP_SecurityFacts AVP_RelationalProps AVP_CompilerProps AVP_Oracles AVP_BrowserProps
    AVP_TransportFacts AVP_FileStoreProps AVP_HttpSubjectFacts
begin

text \<open>
  A verification development for the reference runtime of the Agent Verification Protocol
  (\<^verbatim>\<open>src/avp_ref\<close>, Python). Paths below are relative to that package.

  The program. An Episode runs an agent ("Subject") on a Scenario in an environment and judges the run
  by Oracles. \<^verbatim>\<open>runtime/engine.py\<close> owns the Episodes: it creates them, provisions the environment
  through an adapter, gives the Subject a session whose tool calls it gates and records, verifies the
  outcome with an Oracle runner, and releases everything. It relies on an artifact store for published
  bytes, a telemetry bridge, environment and Subject adapters, and optionally an MCP gateway in front of
  real tools. Beside it stand the Environment Fabric (several resources composed into one environment),
  the relational state profile, artifact trust, and the Security profile with its capability guard.

  Conventions (\<open>AVP_Prelude\<close>, \<open>AVP_Text\<close>, \<open>AVP_Python\<close>, \<open>AVP_Errors\<close>). A Python object is a record of its
  attributes and a method an action \<open>state \<Rightarrow> (error + result) \<times> state\<close>, so an exception leaves behind
  what was already changed; a method that changes nothing is a function into \<open>error + result\<close>. Exceptions
  are the constructors of \<open>exn\<close> (\<open>rel_exn\<close> for the relational module). Strings are code points below
  256, bytes \<open>8 word\<close>, JSON a datatype; canonical JSON and SHA-256 are defined, not assumed, so digests
  are computed values. Dictionaries are maps where only lookups matter, association lists where order
  does. Random identifiers, clocks, the JSON Schema library, the OpenTelemetry SDK, attestation bindings,
  Oracle modules and the servers behind adapters are parameters of the definitions that use them.
  The locale \<open>evolution\<close> carries a reflexive, transitive relation through every combinator of actions; the
  invariants and monotonicity results of the components are interpretations of it.

  Theories and the code they model.
  \<^item> \<open>AVP_Artifacts\<close>: \<^verbatim>\<open>artifacts/models.py, _io.py, memory.py\<close>. Round trip of publication and retrieval,
    chunked publication equals publication of the whole content, failures leave the store unchanged.
  \<^item> \<open>AVP_FileStore\<close>, \<open>AVP_FileStoreFacts\<close>, \<open>AVP_FileStoreProps\<close>: \<^verbatim>\<open>artifacts/filesystem.py\<close>. Each system call is a step
    that may fail and before which other processes may act. Publication by rely and guarantee, reading back
    and what a reader reports when an object was removed or changed, and refinement of the in-memory store.
  \<^item> \<open>AVP_Lifecycle\<close>, \<open>AVP_Episode\<close>: \<^verbatim>\<open>runtime/state.py, lifecycle.py, identity.py, episode.py, agent.py,
    manifest.py, events.py\<close>. Transition table, transition records, atomic transitions, and Oracle evaluations
    that are frozen once.
  \<^item> \<open>AVP_Models\<close>, \<open>AVP_OracleModels\<close>, \<open>AVP_OraclePackage\<close>: \<^verbatim>\<open>models.py, evidence.py, oracle_runner/models.py,
    package.py, runner.py\<close>. Evidence publication, evaluation records, JSON pointers.
  \<^item> \<open>AVP_Telemetry\<close>: \<^verbatim>\<open>telemetry/\<close>. Recording and no-op sessions, span bookkeeping, export policy.
  \<^item> \<open>AVP_Boundary\<close>, \<open>AVP_World\<close>, \<open>AVP_Environment\<close>: \<^verbatim>\<open>environment/models.py, subject/models.py,
    scenario/models.py, world.py, environment/in_memory.py\<close>. The deterministic commerce world, its
    adapter, faults, snapshot and restore.
  \<^item> \<open>AVP_McpModels\<close>, \<open>AVP_Gateway\<close>, \<open>AVP_GatewayFacts\<close>, \<open>AVP_Transport\<close>, \<open>AVP_TransportFacts\<close>: \<^verbatim>\<open>mcp/models.py,
    gateway.py, transport.py\<close>. Gating and recording of tool calls, bounded listing, header encoding; the HTTP transport with its
    JSON-RPC envelope and event streams, and what the gateway over this transport puts on the wire: its own
    requests under their numbers, and no tool call its clients did not ask for.
  \<^item> \<open>AVP_Runtime\<close>, \<open>AVP_Engine\<close>, \<open>AVP_EngineFacts\<close>, \<open>AVP_EvidenceFacts\<close>, \<open>AVP_VerifyFacts\<close>, \<open>AVP_SubjectFacts\<close>,
    \<open>AVP_Reference\<close>: \<^verbatim>\<open>runtime/engine.py, replay.py, environment/adapter.py, subject/adapter.py\<close>. A Subject is an
    interaction tree: what it does next depends on the answers of its session. \<open>runtime_step\<close> is the step
    relation of all operations; the properties of this theory are invariants of its reachable states.
  \<^item> \<open>AVP_Fabric\<close>, \<open>AVP_FabricFacts\<close>: \<^verbatim>\<open>fabric/\<close>. The composable Fabric refines an abstract lifecycle contract.
  \<^item> \<open>AVP_Trust\<close>: \<^verbatim>\<open>trust/\<close>. Verdicts of the attestation verifier: when it accepts, and what an accepted result claims.
  \<^item> \<open>AVP_Security\<close>, \<open>AVP_SecurityFacts\<close>: \<^verbatim>\<open>runtime/subject_policy.py, security/, isolation/environment.py\<close>. The
    guarded Subject adapter over any policy that meets the locale \<open>subject_policy\<close>.
  \<^item> \<open>AVP_RelationalValues\<close>, \<open>AVP_Relational\<close>, \<open>AVP_RelationalFacts\<close>, \<open>AVP_RelationalProps\<close>: \<^verbatim>\<open>relational.py\<close>. Lexical
    forms of values, Manifest integrity, canonical states, snapshots, differences, visibility. Visibility is
    stated for the values of rows; their order, which follows key columns that may be private, is not covered.
  \<^item> \<open>AVP_Scenario\<close>, \<open>AVP_Compiler\<close>, \<open>AVP_CompilerFacts\<close>, \<open>AVP_CompilerProps\<close>: \<^verbatim>\<open>scenario/\<close>. Seeds, generators,
    references and identity, and the compiler from a template to a verified instance. Reading YAML is left out.
  \<^item> \<open>AVP_OracleWire\<close>, \<open>AVP_WireFacts\<close>, \<open>AVP_OracleRunner\<close>, \<open>AVP_RunnerFacts\<close>, \<open>AVP_IsolatedOracle\<close>:
    \<^verbatim>\<open>oracle_runner/protocol.py, oracle_runner/subprocess.py, oracle_worker.py\<close>. The frames between runner and worker, the
    worker's \<open>main\<close>, the polling loop and the classification of runs. A response is read as the code reads it; what
    any worker can write is covered; a worker that serves its Oracle gives the result of a direct call.
  \<^item> \<open>AVP_Oracles\<close>: \<^verbatim>\<open>oracle.py\<close>. The refund Oracle, judged against the tool calls the commerce world has seen.
  \<^item> \<open>AVP_Browser\<close>, \<open>AVP_BrowserHarness\<close>, \<open>AVP_BrowserFacts\<close>, \<open>AVP_BrowserProps\<close>: \<^verbatim>\<open>tck_adapter/browser_harness.py\<close>. DOM
    strings, canonical browser Manifests and state images, fixtures, the settlement ledger, and the harness that confirms every
    snapshot, reset and restore by an observation.
  \<^item> \<open>AVP_HttpSubject\<close>, \<open>AVP_HttpSubjectFacts\<close>: \<^verbatim>\<open>subject/http.py, subject/in_process.py\<close>. What an Agent behind an HTTP
    endpoint is sent in each turn and can make the session do, over logs of the posts and of what the session served.
  Bounds and fuel. A tool listing follows cursors for at most \<open>max_catalog_pages\<close> pages, which is the
  bound of the code's own loop; the polling loop of the Oracle runner is a partial function whose end within
  the timeout is proved; SHA-256 splits its padded input into at most as many blocks as it has
  bytes. All other recursion is structural or on the length of its input.

  Not modelled. Operating-system effects (starting and killing processes, sockets and HTTP servers), the command line, the adapters for PostgreSQL, MySQL,
  Playwright and Toxiproxy, and the other test-compatibility-kit drivers (\<^verbatim>\<open>tck_adapter/\<close>), which call the
  components above on fixtures. Locks are not modelled: each operation is one atomic step.
\<close>

section \<open>The lifecycle of every reachable Episode\<close>

text \<open>C3: In every reachable runtime the transition records of an Episode are its whole history: numbered from
  one, each starting where the one before ended, they form a lifecycle path from CREATED to the current state.\<close>

theorem reachable_history_is_lifecycle:
  assumes "(runtime_step c)\<^sup>*\<^sup>* (runtime_init w st) s" "rt_episodes s eid = Some e"
  shows "lifecycle_path (CREATED # map tr_resulting (ep_transitions e)) \<and>
    last (CREATED # map tr_resulting (ep_transitions e)) = ep_state e \<and>
    (\<forall>i < length (ep_transitions e). tr_sequence (ep_transitions e ! i) = Suc i \<and>
       tr_episode_id (ep_transitions e ! i) = ep_id e)"
proof -
  from assms reachable_ok have "lifecycle_recorded e" by (fastforce simp: runtime_ok_def episode_ok_def)
  then show ?thesis using chained_path by (auto simp: lifecycle_recorded_def numbered_def)
qed

theorem reachable_history_is_lifecycle_witness:
  "\<exists>e. rt_episodes demo_created demo_eid = Some e \<and> lifecycle_path (CREATED # map tr_resulting (ep_transitions e))"
  using demo_episode reachable_history_is_lifecycle [OF demo_reachable [unfolded demo_start_def]] by blast

text \<open>C2: The operations of the runtime only extend what an Episode records: its identity, Scenario, agent and
  manifest are fixed, events and transitions are append-only, a frozen evaluation record and a bound replay
  source stay, and a terminal Episode never changes state again.\<close>

theorem runtime_only_extends_episodes:
  assumes "(runtime_step c)\<^sup>*\<^sup>* (runtime_init w st) s" "(runtime_step c)\<^sup>*\<^sup>* s t" "rt_episodes s eid = Some e"
  shows "\<exists>e'. rt_episodes t eid = Some e' \<and> ep_id e' = ep_id e \<and> ep_scenario e' = ep_scenario e \<and>
    ep_agent e' = ep_agent e \<and> ep_manifest e' = ep_manifest e \<and>
    prefix (ep_events e) (ep_events e') \<and> prefix (ep_transitions e) (ep_transitions e') \<and>
    (ep_oracle_evaluation e = None \<or> ep_oracle_evaluation e' = ep_oracle_evaluation e) \<and>
    (ep_replay_source e = None \<or> ep_replay_source e' = ep_replay_source e) \<and>
    (\<not> is_terminal (ep_state e) \<or> ep_state e' = ep_state e)"
proof -
  from reachable_ok [OF assms(1)] runtime_steps_grow [OF assms(2)] assms(3)
  obtain e' where "rt_episodes t eid = Some e'" "episode_grows e e'"
    by (auto simp: runtime_grows_def episodes_grow_def)
  then show ?thesis
    by (intro exI [of _ e']) (auto simp: episode_grows_def keeps_some_def split: option.splits)
qed

theorem runtime_only_extends_episodes_witness:
  "\<exists>e e'. rt_episodes demo_created demo_eid = Some e \<and>
     rt_episodes (snd (provision demo_config demo_eid demo_created)) demo_eid = Some e' \<and>
     prefix (ep_events e) (ep_events e')"
proof -
  obtain r where "provision demo_config demo_eid demo_created = (r, snd (provision demo_config demo_eid demo_created))"
    by (metis prod.collapse)
  then have "(runtime_step demo_config)\<^sup>*\<^sup>* demo_created (snd (provision demo_config demo_eid demo_created))"
    by (intro r_into_rtranclp runtime_step.provision)
  with demo_episode runtime_only_extends_episodes [OF demo_reachable [unfolded demo_start_def]] show ?thesis
    by blast
qed

section \<open>Evidence\<close>

text \<open>C4: Over the in-memory store no Evidence reference ever dangles: in every reachable runtime each
  registered item is filed under its own identifier and reads back bytes that have its digest and size.\<close>

theorem registered_evidence_is_readable:
  assumes "rc_put c = memory_put_bytes" "(runtime_step c)\<^sup>*\<^sup>* (runtime_init w st) s"
    and "rt_episodes s eid = Some e" "ep_evidence e i = Some ev"
  shows "evd_id ev = i \<and> (\<exists>d. memory_get_bytes (evd_artifact ev) (rt_store s) = Inr d \<and>
    sha256_id d = ref_digest (evd_artifact ev) \<and> int (length d) = ref_size (evd_artifact ev))"
proof -
  from mem.reachable_registry [OF assms(1,2)] assms(3,4)
  have "evd_id ev = i \<and> (\<exists>d. memory_get_bytes (evd_artifact ev) (rt_store s) = Inr d)"
    by (simp add: mem.registry_ok_def mem.readable_def)
  with mem.get_genuine show ?thesis by blast
qed

theorem registered_evidence_is_readable_witness:
  "\<exists>e ev d. rt_episodes demo_failed demo_eid = Some e \<and>
     ep_evidence e (telemetry_evidence_id demo_eid) = Some ev \<and>
     memory_get_bytes (evd_artifact ev) (rt_store demo_failed) = Inr d"
proof -
  have c: "rc_put demo_telemetry_config = memory_put_bytes"
    by (simp add: demo_telemetry_config_def demo_unit_config_def)
  from demo_failed_evidence obtain e ev where
    "rt_episodes demo_failed demo_eid = Some e" "ep_evidence e (telemetry_evidence_id demo_eid) = Some ev" by blast
  with registered_evidence_is_readable [OF c demo_failed_reachable [unfolded demo_telemetry_start_def]]
  show ?thesis by blast
qed

section \<open>Verification and the Subject\<close>



text \<open>C6: When \<open>run_subject\<close> returns, the Episode was READY and has left RUNNING: it is QUIESCING, or it is
  INFRA_FAILED with validity INFRA_CONFOUND. No verdict and no verification result changed.\<close>

theorem run_subject_leaves_running:
  assumes "runtime_ok s" "run_subject c eid s = (Inr report, s')"
  shows "\<exists>e e'. rt_episodes s eid = Some e \<and> ep_state e = READY \<and> rt_episodes s' eid = Some e' \<and>
    ep_task_verdict e' = ep_task_verdict e \<and> ep_verification e' = ep_verification e \<and> ep_oracle_evaluation e' = None \<and>
    (ep_state e' = QUIESCING \<and> ep_validity e' = ep_validity e \<or>
     ep_state e' = INFRA_FAILED \<and> ep_validity e' = INFRA_CONFOUND)"
  by (rule run_subject_outcome [OF assms])

theorem run_subject_leaves_running_witness:
  "\<exists>h sh e s' e'. unjudged ''ep_1'' READY e \<and>
     run_subject demo_unit_config ''ep_1'' (plain_runtime e h sh demo_subject demo_package) = (Inr ''done'', s') \<and>
     rt_episodes s' ''ep_1'' = Some e' \<and> ep_state e' \<in> {QUIESCING, INFRA_FAILED}"
proof -
  let ?e = "stepped [PROVISIONING, READY] (make_episode ''ep_1'' demo_scenario demo_agent m)"
  have e: "unjudged ''ep_1'' READY ?e" by (rule unjudged_ready) simp_all
  obtain s' where run: "run_subject demo_unit_config ''ep_1'' (plain_runtime ?e h sh demo_subject demo_package) = (Inr ''done'', s')"
    using plain_run_subject [OF e stepped_scenario, of demo_unit_config h sh demo_package] by (metis prod.collapse)
  have "runtime_ok (plain_runtime ?e h sh demo_subject demo_package)"
    using e by (intro plain_runtime_ok) (simp add: unjudged_def)
  from run_subject_leaves_running [OF this run] e run show ?thesis by blast
qed

text \<open>C5: A Subject that kept its session is powerless once its Episode is not RUNNING: whatever it does with it,
  the environments, the store, all tables and every other Episode are untouched, and of its own Episode only the
  telemetry session (asked for trace headers) can differ; the timeline has no new event.\<close>

theorem late_subject_is_powerless:
  assumes "rt_episodes s eid = Some e" "ep_state e \<noteq> RUNNING"
  shows "\<exists>tel. snd (run_program eid p s) = s\<lparr>rt_episodes := (rt_episodes s)(eid \<mapsto> e\<lparr>ep_telemetry := tel\<rparr>)\<rparr>"
proof -
  obtain r t where run: "run_program eid p s = (r, t)" by (cases "run_program eid p s")
  from run_program_closed [OF assms run] assms(1) show ?thesis
    by (auto simp: run only_telemetry_def fun_upd_idem intro: exI [of _ "ep_telemetry e"])
qed

theorem late_subject_is_powerless_witness:
  "\<exists>tel. snd (run_program demo_eid (ToolInvoke ''refund.create'' [] (\<lambda>r. Finish (Inl (RuntimeError [])))) demo_created) =
     demo_created\<lparr>rt_episodes := (rt_episodes demo_created)(demo_eid \<mapsto>
       (the (rt_episodes demo_created demo_eid))\<lparr>ep_telemetry := tel\<rparr>)\<rparr>"
proof -
  obtain e where "rt_episodes demo_created demo_eid = Some e" "ep_state e \<noteq> RUNNING" using demo_episode by auto
  from late_subject_is_powerless [OF this] this(1) show ?thesis by (simp only: option.sel)
qed

end
